(* ===== verification/Prelude.thy ===== *)
theory Prelude
  imports "HOL-Library.Word" "HOL-Library.Monad_Syntax"
begin

text \<open>
  Shared vocabulary of the development: the widths of the C integers, the bit-field macros of
  the kernel headers (\<^verbatim>\<open>BIT\<close>, \<^verbatim>\<open>GENMASK\<close>, \<^verbatim>\<open>FIELD_PREP\<close>, \<^verbatim>\<open>FIELD_GET\<close>,
  \<^verbatim>\<open>ALIGN\<close>, \<^verbatim>\<open>roundup_pow_of_two\<close>), the error numbers, the lemma collections the component
  proofs use, and the arithmetic that every ring index of the driver rests on.
\<close>

unbundle bit_operations_syntax

section \<open>Machine integers\<close>

type_synonym u8 = "8 word"
type_synonym u16 = "16 word"
type_synonym u32 = "32 word"
type_synonym u64 = "64 word"

text \<open>
  \<^verbatim>\<open>k_simps\<close> collects the equations that evaluate kernel services on a state that meets their
  preconditions; \<^verbatim>\<open>k_frame\<close> the equations that say which fields an operation leaves alone;
  \<^verbatim>\<open>hal_consts\<close> the numeric constants of the driver's headers.
\<close>

named_theorems k_simps
named_theorems k_frame
named_theorems hal_consts

text \<open>The value a C \<^verbatim>\<open>int\<close> holds after arithmetic that may overflow: it wraps at 32 bits.\<close>

definition c_int :: "int \<Rightarrow> int" where
  "c_int x = signed_take_bit 31 x"

lemma c_int_id: "- (2 ^ 31) \<le> x \<Longrightarrow> x < 2 ^ 31 \<Longrightarrow> c_int x = x"
  unfolding c_int_def by (rule signed_take_bit_int_eq_self) simp_all

section \<open>Error numbers\<close>

text \<open>The codes of \<^verbatim>\<open>errno.h\<close> that the driver returns, always negated: \<^verbatim>\<open>-EINVAL\<close>.\<close>

datatype errno = EIO | ENOMEM | EBUSY | EINVAL | ENOSPC | EOPNOTSUPP | ENOBUFS | ESHUTDOWN

primrec errno_val :: "errno \<Rightarrow> int" where
  "errno_val EIO = 5"
| "errno_val ENOMEM = 12"
| "errno_val EBUSY = 16"
| "errno_val EINVAL = 22"
| "errno_val ENOSPC = 28"
| "errno_val EOPNOTSUPP = 95"
| "errno_val ENOBUFS = 105"
| "errno_val ESHUTDOWN = 108"

abbreviation neg_errno :: "errno \<Rightarrow> int" where
  "neg_errno e \<equiv> - errno_val e"

lemma errno_val_pos [simp]: "0 < errno_val e"
  by (cases e) simp_all

lemma errno_val_neq_0 [simp]: "errno_val e \<noteq> 0"
  using errno_val_pos [of e] by linarith

lemma neg_errno_inject [simp]: "errno_val a = errno_val b \<longleftrightarrow> a = b"
  by (cases a; cases b) simp_all

section \<open>Bit fields\<close>

definition BIT :: "nat \<Rightarrow> u64" where
  "BIT n = push_bit n 1"

definition GENMASK :: "nat \<Rightarrow> nat \<Rightarrow> u64" where
  "GENMASK h l = push_bit l (mask (Suc h - l))"

text \<open>The shift of a mask: the index of its lowest set bit.\<close>

definition bf_shf :: "u64 \<Rightarrow> nat" where
  "bf_shf m = length (takeWhile (\<lambda>i. \<not> bit m i) [0..<64])"

definition FIELD_PREP :: "u64 \<Rightarrow> u64 \<Rightarrow> u64" where
  "FIELD_PREP m v = push_bit (bf_shf m) v AND m"

definition FIELD_GET :: "u64 \<Rightarrow> u64 \<Rightarrow> u64" where
  "FIELD_GET m r = drop_bit (bf_shf m) (r AND m)"

lemma bit_BIT: "bit (BIT n) i \<longleftrightarrow> i = n \<and> n < 64"
  by (auto simp: BIT_def bit_simps)

lemma bit_GENMASK: "bit (GENMASK h l) i \<longleftrightarrow> l \<le> i \<and> i \<le> h \<and> i < 64"
  by (auto simp: GENMASK_def bit_simps)

lemma bf_shfI:
  assumes "bit m l" and "\<And>i. i < l \<Longrightarrow> \<not> bit m i" and "l < 64"
  shows "bf_shf m = l"
proof -
  have split: "[0..<64] = [0..<l] @ l # [Suc l..<64]"
    using \<open>l < 64\<close> by (metis le0 less_imp_le_nat le_add_diff_inverse upt_add_eq_append upt_conv_Cons)
  have "takeWhile (\<lambda>i. \<not> bit m i) [0..<64] = [0..<l]"
    unfolding split using assms(1,2) by (subst takeWhile_append2) auto
  then show ?thesis by (simp add: bf_shf_def)
qed

lemma bf_shf_GENMASK: "l \<le> h \<Longrightarrow> l < 64 \<Longrightarrow> bf_shf (GENMASK h l) = l"
  by (rule bf_shfI) (auto simp: bit_GENMASK)

lemma bit_FIELD_PREP:
  "l \<le> h \<Longrightarrow> h < 64 \<Longrightarrow>
   bit (FIELD_PREP (GENMASK h l) v) i \<longleftrightarrow> l \<le> i \<and> i \<le> h \<and> bit v (i - l)"
  by (auto simp: FIELD_PREP_def bf_shf_GENMASK bit_simps bit_GENMASK dest: bit_imp_le_length)

lemma bit_FIELD_GET:
  "l \<le> h \<Longrightarrow> h < 64 \<Longrightarrow>
   bit (FIELD_GET (GENMASK h l) r) i \<longleftrightarrow> i \<le> h - l \<and> bit r (l + i)"
  by (auto simp: FIELD_GET_def bf_shf_GENMASK bit_simps bit_GENMASK)

lemma word_bit_above:
  fixes v :: "'a::len word"
  assumes "unat v < 2 ^ n" and "n \<le> i"
  shows "\<not> bit v i"
proof -
  have "take_bit n (unat v) = unat v"
    using assms(1) by (simp add: take_bit_nat_eq_self)
  then have "\<not> bit (unat v) i"
    using \<open>n \<le> i\<close> by (metis bit_take_bit_iff not_le)
  then show ?thesis by (simp add: bit_unsigned_iff)
qed

text \<open>
  A value that fits its field is recovered from a register composed of disjoint fields: the
  part outside the field does not matter.
\<close>

lemma FIELD_GET_PREP:
  assumes "l \<le> h" "h < 64" "unat v < 2 ^ (Suc h - l)"
    and "\<And>i. l \<le> i \<Longrightarrow> i \<le> h \<Longrightarrow> \<not> bit rest i"
  shows "FIELD_GET (GENMASK h l) (FIELD_PREP (GENMASK h l) v OR rest) = v"
proof (rule bit_word_eqI)
  fix i :: nat
  assume "i < LENGTH(64)"
  have above: "\<not> bit v i" if "h - l < i"
    using word_bit_above [OF assms(3), of i] that assms(1) by simp
  show "bit (FIELD_GET (GENMASK h l) (FIELD_PREP (GENMASK h l) v OR rest)) i \<longleftrightarrow> bit v i"
    using assms above by (cases "i \<le> h - l") (auto simp: bit_FIELD_GET bit_FIELD_PREP bit_simps)
qed

section \<open>Alignment and powers of two\<close>

definition ALIGN :: "u64 \<Rightarrow> u64 \<Rightarrow> u64" where
  "ALIGN x a = (x + (a - 1)) AND NOT (a - 1)"

fun pow2_from :: "nat \<Rightarrow> nat \<Rightarrow> nat \<Rightarrow> nat" where
  "pow2_from 0 p n = p"
| "pow2_from (Suc k) p n = (if n \<le> p then p else pow2_from k (2 * p) n)"

text \<open>The least power of two that is not below its 32-bit argument, an \<^verbatim>\<open>unsigned long\<close>.\<close>

definition roundup_pow_of_two :: "u32 \<Rightarrow> u64" where
  "roundup_pow_of_two n = of_nat (pow2_from 32 1 (unat n))"

definition round_up :: "nat \<Rightarrow> nat \<Rightarrow> nat" where
  "round_up x a = (x + a - 1) div a * a"

lemma and_not_mask_eq_minus:
  fixes x :: "'a::len word"
  shows "x AND NOT (mask n) = x - (x AND mask n)"
proof -
  have "(x AND mask n) AND (x AND NOT (mask n)) = 0"
    by (rule bit_word_eqI) (auto simp: bit_simps)
  then have "(x AND mask n) + (x AND NOT (mask n)) = (x AND mask n) OR (x AND NOT (mask n))"
    by (rule disjunctive_add_eq_or)
  also have "\<dots> = x"
    by (rule bit_word_eqI) (auto simp: bit_simps)
  finally show ?thesis
    by (simp add: eq_diff_eq add.commute)
qed

lemma ALIGN_8: "ALIGN x 8 = (x + 7) - ((x + 7) AND mask 3)"
proof -
  have *: "(8 :: u64) - 1 = mask 3" and 7: "mask 3 = (7 :: u64)"
    by (simp_all add: mask_eq_exp_minus_1)
  show ?thesis
    unfolding ALIGN_def * and_not_mask_eq_minus by (simp only: 7)
qed

text \<open>Alignment to eight bytes rounds an address up to the next multiple of eight.\<close>

lemma unat_ALIGN_8:
  assumes "unat x + 7 < 2 ^ 64"
  shows "unat (ALIGN x 8) = 8 * ((unat x + 7) div 8)"
proof -
  have sum: "unat (x + 7) = unat x + 7"
    using assms by (subst unat_add_lem [THEN iffD1]) simp_all
  have "unat ((x + 7) AND mask 3) = unat (x + 7) mod 8"
    by (simp only: take_bit_eq_mask [symmetric] unsigned_take_bit_eq)
      (simp add: take_bit_eq_mod)
  with sum have "unat (ALIGN x 8) = unat x + 7 - (unat x + 7) mod 8"
    unfolding ALIGN_8 by (subst unat_sub) (simp_all add: word_le_nat_alt)
  then show ?thesis
    by (simp add: minus_mod_eq_mult_div)
qed

lemma unat_ALIGN_8_bounds:
  assumes "unat x + 7 < 2 ^ 64"
  shows "unat x \<le> unat (ALIGN x 8)" and "unat (ALIGN x 8) \<le> unat x + 7"
  unfolding unat_ALIGN_8 [OF assms] by presburger+

section \<open>Loops that may stop\<close>

text \<open>A counted loop over a state, where \<^verbatim>\<open>None\<close> in the body stops the program.\<close>

primrec foldo :: "('i \<Rightarrow> 's \<Rightarrow> 's option) \<Rightarrow> 'i list \<Rightarrow> 's \<Rightarrow> 's option" where
  "foldo f [] s = Some s"
| "foldo f (i # is) s = do { s \<leftarrow> f i s; foldo f is s }"

definition nth_opt :: "'a list \<Rightarrow> nat \<Rightarrow> 'a option" where
  "nth_opt xs i = (if i < length xs then Some (xs ! i) else None)"

definition list_put :: "'a list \<Rightarrow> nat \<Rightarrow> 'a \<Rightarrow> 'a list option" where
  "list_put xs i x = (if i < length xs then Some (xs[i := x]) else None)"

lemma foldo_append:
  "foldo f (xs @ ys) s = do { s \<leftarrow> foldo f xs s; foldo f ys s }"
  by (induction xs arbitrary: s) (auto split: bind_split)

section \<open>Ring arithmetic\<close>

lemma unat_of_nat_32: "m < 2 ^ 32 \<Longrightarrow> unat (of_nat m :: u32) = m"
  by (rule of_nat_inverse) simp_all

lemma of_nat_32_eq_iff:
  "a < 2 ^ 32 \<Longrightarrow> b < 2 ^ 32 \<Longrightarrow> (of_nat a :: u32) = of_nat b \<longleftrightarrow> a = b"
  by (metis unat_of_nat_32)

text \<open>
  Positions are kept in 32-bit units: entry \<^term>\<open>h\<close> of a ring of \<^term>\<open>n\<close> entries of size
  \<^term>\<open>e\<close> has offset \<^term>\<open>e * h\<close>. Advancing by one entry modulo the ring size is the
  successor modulo \<^term>\<open>n\<close>, and so is the comparison with the end.
\<close>

lemma ring_advance_mod:
  assumes "h < n" and "e * n < 2 ^ 32"
  shows "(of_nat (e * h) + of_nat e) mod (of_nat (e * n) :: u32) = of_nat (e * (Suc h mod n))"
proof -
  have le: "e * Suc h \<le> e * n"
    using assms(1) by (intro mult_le_mono2) simp
  have "of_nat (e * h) + of_nat e = (of_nat (e * Suc h) :: u32)"
    by (simp add: algebra_simps)
  moreover have "(of_nat (e * Suc h) :: u32) mod of_nat (e * n) = of_nat ((e * Suc h) mod (e * n))"
    using le assms(2) by (intro word_unat_eq_iff [THEN iffD2])
      (simp only: unat_mod unat_of_nat_32 le_less_trans [OF le assms(2)] assms(2)
        le_less_trans [OF order_trans [OF mod_less_eq_dividend le] assms(2)])
  ultimately show ?thesis
    by (simp only: mult_mod_right [symmetric])
qed

lemma ring_advance_cmp:
  assumes "h < n" and "e * n < 2 ^ 32" and "0 < e"
  shows "(if of_nat (e * h) + of_nat e = (of_nat (e * n) :: u32) then 0
          else of_nat (e * h) + of_nat e) = (of_nat (e * (Suc h mod n)) :: u32)"
proof -
  have le: "e * Suc h \<le> e * n"
    using assms(1) by (intro mult_le_mono2) simp
  have sum: "of_nat (e * h) + of_nat e = (of_nat (e * Suc h) :: u32)"
    by (simp add: algebra_simps)
  show ?thesis
  proof (cases "Suc h = n")
    case True
    then show ?thesis by (simp add: sum del: of_nat_mult)
  next
    case False
    with assms have "e * Suc h \<noteq> e * n" and "Suc h < n"
      by (simp_all del: mult_Suc_right)
    then have "(of_nat (e * Suc h) :: u32) \<noteq> of_nat (e * n)"
      using le assms(2) by (metis le_less_trans of_nat_32_eq_iff)
    with \<open>Suc h < n\<close> show ?thesis
      by (simp add: sum del: of_nat_mult mult_Suc_right)
  qed
qed

text \<open>Masking with one less than a power of two is reduction modulo that power.\<close>

lemma mask_advance:
  assumes "n = 2 ^ k" and "k < 32" and "unat w < n"
  shows "(w + 1) AND (of_nat n - 1) = (of_nat (Suc (unat w) mod n) :: u32)"
proof -
  have "of_nat n - 1 = (mask k :: u32)"
    using assms(1) by (simp add: mask_eq_exp_minus_1)
  then have "unat ((w + 1) AND (of_nat n - 1)) = unat (w + 1) mod n"
    using assms(1) by (simp only: take_bit_eq_mask [symmetric] unsigned_take_bit_eq)
      (simp add: take_bit_eq_mod)
  moreover have "unat (w + 1) = Suc (unat w)"
    using assms power_strict_increasing [of k 32 "2::nat"]
    by (subst unat_add_lem [THEN iffD1]) simp_all
  moreover have "Suc (unat w) mod n < 2 ^ 32"
    using assms power_strict_increasing [of k 32 "2::nat"]
    by (intro le_less_trans [OF mod_less_eq_dividend]) simp
  ultimately show ?thesis
    by (metis unat_of_nat_32 word_unat_eq_iff)
qed

end
