(* ===== verification/Kernel.thy ===== *)
theory Kernel
  imports Prelude
begin

text \<open>
  The kernel services the driver calls. Their code is not part of the repository, so what they
  decide (does an allocation succeed, which address does a mapping get, what does a register
  read return) is an argument of the model, the record \<^verbatim>\<open>kenv\<close>. What the driver does with them
  is state: the live allocations and mappings, the socket buffers, the locks held, the memory
  shared with the device, and the trace of externally visible actions in the order they happen.

  Every operation that can go wrong in the kernel returns \<^verbatim>\<open>None\<close> when it does: an access
  outside the live DMA memory, a NULL dereference, a double free, a mapping released twice, a
  lock taken twice by the same path or released when free, a buffer grown past its end. A
  theorem that an operation returns \<^verbatim>\<open>Some\<close> therefore says that none of this happens.
\<close>

section \<open>State\<close>

type_synonym kptr = nat
type_synonym skbp = nat
type_synonym region = "u64 \<times> u64 \<times> u64" \<comment> \<open>virtual address, size in bytes, bus address\<close>

datatype lock = SrngLock nat | StLock | StDstLock | PrintSkbLock | MacConfMutex | TxmgmtIdrLock | HtcTxLock | TxRingMutex

text \<open>\<^verbatim>\<open>struct wireless_simu_skb_cb\<close> and the parts of \<^verbatim>\<open>struct sk_buff\<close> the driver reads.\<close>

record skb_cb =
  cb_paddr :: u64
  cb_flags :: u8
  cb_cipher :: u32
  cb_vif :: "kptr option"

record sk_buff =
  skb_buf :: "u8 list"
  skb_data :: nat
  skb_tail :: nat
  skb_cb :: skb_cb
  skb_tx_flags :: u32 \<comment> \<open>the flags of the frame's transmit information\<close>

definition skb_len :: "sk_buff \<Rightarrow> nat" where
  "skb_len b = skb_tail b - skb_data b"

definition skb_tailroom :: "sk_buff \<Rightarrow> nat" where
  "skb_tailroom b = length (skb_buf b) - skb_tail b"

datatype kevent =
    EvIoWrite u64 u32
  | EvKfree kptr
  | EvDmaFree u64 u64 u64
  | EvSkbFree skbp
  | EvHexDump skbp nat
  | EvModTimer u64
  | EvTimerSetup
  | EvTaskletSetup nat
  | EvTaskletSchedule nat
  | EvTaskletKill nat
  | EvLockdepUnregister nat
  | EvLockdepWarn lock
  | EvMsleep nat
  | EvQueueWork
  | EvWakeUp
  | EvWarnOnce
  | EvTxskbFree skbp

record kernel =
  k_mem :: "u64 \<Rightarrow> u32"
  k_dma :: "region list"
  k_maps :: "(u64 \<times> nat) list"
  k_heap :: "kptr list"
  k_skbs :: "skbp \<rightharpoonup> sk_buff"
  k_held :: "lock list"
  k_iomapped :: bool
  k_calls :: nat
  k_jiffies :: u64
  k_trace :: "kevent list"

text \<open>
  The environment: the outcome of the \<^term>\<open>n\<close>-th request. A DMA allocation answers with the
  pair of addresses, virtual address 0 being failure; a buffer allocation with the buffer's
  shape; a mapping with the bus address, or nothing for \<^verbatim>\<open>dma_mapping_error\<close>; a register read
  with the device's answer after the trace so far.
\<close>

record kenv =
  env_kmalloc :: "nat \<Rightarrow> bool"
  env_dma_alloc :: "nat \<Rightarrow> u64 \<Rightarrow> u64 \<times> u64"
  env_alloc_skb :: "nat \<Rightarrow> nat \<Rightarrow> sk_buff option"
  env_dma_map :: "nat \<Rightarrow> u64 option"
  env_ioread :: "kevent list \<Rightarrow> u64 \<Rightarrow> u32"
  env_big_endian :: bool

section \<open>Services\<close>

definition emit :: "kevent \<Rightarrow> 'a kernel_scheme \<Rightarrow> 'a kernel_scheme" where
  "emit e s = s\<lparr>k_trace := k_trace s @ [e]\<rparr>"

definition tick :: "'a kernel_scheme \<Rightarrow> 'a kernel_scheme" where
  "tick s = s\<lparr>k_calls := Suc (k_calls s)\<rparr>"

subsection \<open>Memory shared with the device\<close>

definition in_region :: "u64 \<Rightarrow> nat \<Rightarrow> region \<Rightarrow> bool" where
  "in_region a n r = (case r of (v, sz, p) \<Rightarrow> unat (a - v) + n \<le> unat sz)"

definition mem_ok :: "u64 \<Rightarrow> nat \<Rightarrow> 'a kernel_scheme \<Rightarrow> bool" where
  "mem_ok a n s = list_ex (in_region a n) (k_dma s)"

definition mem_read :: "u64 \<Rightarrow> 'a kernel_scheme \<Rightarrow> u32 option" where
  "mem_read a s = (if mem_ok a 4 s then Some (k_mem s a) else None)"

definition mem_write :: "u64 \<Rightarrow> u32 \<Rightarrow> 'a kernel_scheme \<Rightarrow> 'a kernel_scheme option" where
  "mem_write a v s = (if mem_ok a 4 s then Some (s\<lparr>k_mem := (k_mem s)(a := v)\<rparr>) else None)"

definition memset_0 :: "u64 \<Rightarrow> nat \<Rightarrow> 'a kernel_scheme \<Rightarrow> 'a kernel_scheme option" where
  "memset_0 a n s =
     (if n = 0 then Some s
      else if mem_ok a n s
      then Some (s\<lparr>k_mem := (\<lambda>x. if unat (x - a) < n then 0 else k_mem s x)\<rparr>)
      else None)"

subsection \<open>Allocation\<close>

definition kmalloc :: "kenv \<Rightarrow> 'a kernel_scheme \<Rightarrow> kptr option \<times> 'a kernel_scheme" where
  "kmalloc env s =
     (if env_kmalloc env (k_calls s)
      then (Some (k_calls s), (tick s)\<lparr>k_heap := k_calls s # k_heap s\<rparr>)
      else (None, tick s))"

definition kfree :: "kptr option \<Rightarrow> 'a kernel_scheme \<Rightarrow> 'a kernel_scheme option" where
  "kfree p s =
     (case p of
        None \<Rightarrow> Some s
      | Some q \<Rightarrow>
          if q \<in> set (k_heap s)
          then Some (emit (EvKfree q) (s\<lparr>k_heap := remove1 q (k_heap s)\<rparr>))
          else None)"

definition dma_alloc_coherent ::
  "kenv \<Rightarrow> u64 \<Rightarrow> 'a kernel_scheme \<Rightarrow> (u64 \<times> u64) \<times> 'a kernel_scheme" where
  "dma_alloc_coherent env sz s =
     (case env_dma_alloc env (k_calls s) sz of (v, p) \<Rightarrow>
        if v = 0 then ((v, p), tick s)
        else ((v, p), (tick s)\<lparr>k_dma := (v, sz, p) # k_dma s\<rparr>))"

definition dma_free_coherent ::
  "u64 \<Rightarrow> u64 \<Rightarrow> u64 \<Rightarrow> 'a kernel_scheme \<Rightarrow> 'a kernel_scheme option" where
  "dma_free_coherent sz v p s =
     (if (v, sz, p) \<in> set (k_dma s)
      then Some (emit (EvDmaFree v sz p) (s\<lparr>k_dma := remove1 (v, sz, p) (k_dma s)\<rparr>))
      else None)"

subsection \<open>Socket buffers and streaming mappings\<close>

definition dev_alloc_skb ::
  "kenv \<Rightarrow> nat \<Rightarrow> 'a kernel_scheme \<Rightarrow> skbp option \<times> 'a kernel_scheme" where
  "dev_alloc_skb env n s =
     (case env_alloc_skb env (k_calls s) n of
        None \<Rightarrow> (None, tick s)
      | Some b \<Rightarrow> (Some (k_calls s), (tick s)\<lparr>k_skbs := (k_skbs s)(k_calls s \<mapsto> b)\<rparr>))"

definition skb_get :: "skbp \<Rightarrow> 'a kernel_scheme \<Rightarrow> sk_buff option" where
  "skb_get p s = k_skbs s p"

definition skb_set :: "skbp \<Rightarrow> sk_buff \<Rightarrow> 'a kernel_scheme \<Rightarrow> 'a kernel_scheme" where
  "skb_set p b s = s\<lparr>k_skbs := (k_skbs s)(p \<mapsto> b)\<rparr>"

definition skb_put :: "skbp \<Rightarrow> nat \<Rightarrow> 'a kernel_scheme \<Rightarrow> 'a kernel_scheme option" where
  "skb_put p n s = do {
     b \<leftarrow> skb_get p s;
     if n \<le> skb_tailroom b then Some (skb_set p (b\<lparr>skb_tail := skb_tail b + n\<rparr>) s) else None
   }"

text \<open>
  \<^verbatim>\<open>skb_push\<close> beyond the headroom is a kernel panic; \<^verbatim>\<open>skb_pull\<close> of more than there is does nothing.
\<close>

definition skb_push :: "skbp \<Rightarrow> nat \<Rightarrow> 'a kernel_scheme \<Rightarrow> 'a kernel_scheme option" where
  "skb_push p n s = do {
     b \<leftarrow> skb_get p s;
     if n \<le> skb_data b then Some (skb_set p (b\<lparr>skb_data := skb_data b - n\<rparr>) s) else None
   }"

definition skb_pull :: "skbp \<Rightarrow> nat \<Rightarrow> 'a kernel_scheme \<Rightarrow> 'a kernel_scheme option" where
  "skb_pull p n s = do {
     b \<leftarrow> skb_get p s;
     Some (if n \<le> skb_len b then skb_set p (b\<lparr>skb_data := skb_data b + n\<rparr>) s else s)
   }"

definition skb_reserve :: "skbp \<Rightarrow> nat \<Rightarrow> 'a kernel_scheme \<Rightarrow> 'a kernel_scheme option" where
  "skb_reserve p n s = do {
     b \<leftarrow> skb_get p s;
     Some (skb_set p (b\<lparr>skb_data := skb_data b + n, skb_tail := skb_tail b + n\<rparr>) s)
   }"

text \<open>Bytes stored at an offset from \<^verbatim>\<open>skb->data\<close>, and the bytes of a 32-bit value in memory order.\<close>

definition skb_store_at :: "skbp \<Rightarrow> nat \<Rightarrow> u8 list \<Rightarrow> 'a kernel_scheme \<Rightarrow> 'a kernel_scheme option" where
  "skb_store_at p off bs s = do {
     b \<leftarrow> skb_get p s;
     let a = skb_data b + off;
     if a + length bs \<le> length (skb_buf b)
     then Some (skb_set p (b\<lparr>skb_buf := take a (skb_buf b) @ bs @ drop (a + length bs) (skb_buf b)\<rparr>) s)
     else None
   }"

definition u32_bytes :: "kenv \<Rightarrow> u32 \<Rightarrow> u8 list" where
  "u32_bytes env w =
     (let bs = [ucast w, ucast (drop_bit 8 w), ucast (drop_bit 16 w), ucast (drop_bit 24 w)]
      in if env_big_endian env then rev bs else bs)"

definition dev_kfree_skb_any :: "skbp \<Rightarrow> 'a kernel_scheme \<Rightarrow> 'a kernel_scheme option" where
  "dev_kfree_skb_any p s = do {
     _ \<leftarrow> skb_get p s;
     Some (emit (EvSkbFree p) (s\<lparr>k_skbs := (k_skbs s)(p := None)\<rparr>))
   }"

definition dma_map_single ::
  "kenv \<Rightarrow> nat \<Rightarrow> 'a kernel_scheme \<Rightarrow> u64 option \<times> 'a kernel_scheme" where
  "dma_map_single env n s =
     (case env_dma_map env (k_calls s) of
        None \<Rightarrow> (None, tick s)
      | Some p \<Rightarrow> (Some p, (tick s)\<lparr>k_maps := (p, n) # k_maps s\<rparr>))"

definition dma_unmap_single :: "u64 \<Rightarrow> nat \<Rightarrow> 'a kernel_scheme \<Rightarrow> 'a kernel_scheme option" where
  "dma_unmap_single p n s =
     (if (p, n) \<in> set (k_maps s) then Some (s\<lparr>k_maps := remove1 (p, n) (k_maps s)\<rparr>) else None)"

subsection \<open>Locks and registers\<close>

definition spin_lock :: "lock \<Rightarrow> 'a kernel_scheme \<Rightarrow> 'a kernel_scheme option" where
  "spin_lock l s = (if l \<in> set (k_held s) then None else Some (s\<lparr>k_held := l # k_held s\<rparr>))"

definition spin_unlock :: "lock \<Rightarrow> 'a kernel_scheme \<Rightarrow> 'a kernel_scheme option" where
  "spin_unlock l s =
     (if l \<in> set (k_held s) then Some (s\<lparr>k_held := remove1 l (k_held s)\<rparr>) else None)"

definition spin_lock_init :: "lock \<Rightarrow> 'a kernel_scheme \<Rightarrow> 'a kernel_scheme" where
  "spin_lock_init l s = s\<lparr>k_held := removeAll l (k_held s)\<rparr>"

definition lockdep_assert_held :: "lock \<Rightarrow> 'a kernel_scheme \<Rightarrow> 'a kernel_scheme" where
  "lockdep_assert_held l s = (if l \<in> set (k_held s) then s else emit (EvLockdepWarn l) s)"

definition iowrite32 :: "u32 \<Rightarrow> u64 \<Rightarrow> 'a kernel_scheme \<Rightarrow> 'a kernel_scheme option" where
  "iowrite32 v a s = (if k_iomapped s then Some (emit (EvIoWrite a v) s) else None)"

definition ioread32 :: "kenv \<Rightarrow> u64 \<Rightarrow> 'a kernel_scheme \<Rightarrow> u32 option" where
  "ioread32 env a s = (if k_iomapped s then Some (env_ioread env (k_trace s) a) else None)"

section \<open>Kernel services on a state that meets their preconditions\<close>

lemma unat_offset_le:
  fixes a v :: u64
  shows "unat (a + of_nat k - v) \<le> unat (a - v) + k"
proof -
  have "unat (a + of_nat k - v) = unat ((a - v) + of_nat k)"
    by (simp add: algebra_simps)
  also have "\<dots> \<le> unat (a - v) + unat (of_nat k :: u64)"
    by (simp add: unat_word_ariths)
  also have "\<dots> \<le> unat (a - v) + k"
    by (simp add: unat_of_nat)
  finally show ?thesis .
qed

lemma mem_ok_offset:
  assumes "mem_ok a n s" and "k + m \<le> n"
  shows "mem_ok (a + of_nat k) m s"
proof -
  have "in_region a n r \<Longrightarrow> in_region (a + of_nat k) m r" for r
    using assms(2) unat_offset_le [of a k "fst r"] unfolding in_region_def
    by (cases r) auto
  then show ?thesis
    using assms(1) unfolding mem_ok_def list_ex_iff by blast
qed

lemma mem_ok_frame [simp]:
  "mem_ok a n (s\<lparr>k_mem := m\<rparr>) = mem_ok a n s"
  "mem_ok a n (s\<lparr>k_held := h\<rparr>) = mem_ok a n s"
  "mem_ok a n (s\<lparr>k_trace := t\<rparr>) = mem_ok a n s"
  "mem_ok a n (s\<lparr>k_skbs := b\<rparr>) = mem_ok a n s"
  "mem_ok a n (s\<lparr>k_maps := mp\<rparr>) = mem_ok a n s"
  "mem_ok a n (s\<lparr>k_heap := hp\<rparr>) = mem_ok a n s"
  "mem_ok a n (s\<lparr>k_calls := c\<rparr>) = mem_ok a n s"
  by (simp_all add: mem_ok_def)

lemma emit_frame [simp]:
  "k_mem (emit e s) = k_mem s" "k_dma (emit e s) = k_dma s" "k_maps (emit e s) = k_maps s"
  "k_heap (emit e s) = k_heap s" "k_skbs (emit e s) = k_skbs s" "k_held (emit e s) = k_held s"
  "k_iomapped (emit e s) = k_iomapped s" "k_calls (emit e s) = k_calls s"
  "k_jiffies (emit e s) = k_jiffies s" "k_trace (emit e s) = k_trace s @ [e]"
  "mem_ok a n (emit e s) = mem_ok a n s"
  by (simp_all add: emit_def)

lemma lockdep_held [k_simps]: "l \<in> set (k_held s) \<Longrightarrow> lockdep_assert_held l s = s"
  by (simp add: lockdep_assert_held_def)

lemma mem_read_ok [k_simps]: "mem_ok a 4 s \<Longrightarrow> mem_read a s = Some (k_mem s a)"
  by (simp add: mem_read_def)

lemma mem_write_ok [k_simps]:
  "mem_ok a 4 s \<Longrightarrow> mem_write a v s = Some (s\<lparr>k_mem := (k_mem s)(a := v)\<rparr>)"
  by (simp add: mem_write_def)

end
