(* ===== verification/Hal_Types.thy ===== *)
theory Hal_Types
  imports Kernel
begin

text \<open>
  The data of the hardware abstraction layer, \<^verbatim>\<open>driver/driver_wireless/wireless_hal.h\<close> and the
  parts of \<^verbatim>\<open>wireless.h\<close> it shares with the rest of the driver: the ring descriptors
  (\<^verbatim>\<open>struct hal_srng\<close>), their configuration table, the test rings and pipes built on them, and
  \<^verbatim>\<open>struct wireless_simu\<close> itself, which extends the kernel state of theory \<^verbatim>\<open>Kernel\<close>.
\<close>

section \<open>Register fields\<close>

definition HAL_TCL1_RING_BASE_MSB_RING_SIZE :: u64 where
  "HAL_TCL1_RING_BASE_MSB_RING_SIZE = GENMASK 27 8"

definition HAL_TCL1_RING_BASE_MSB_RING_BASE_ADDR_MSB :: u64 where
  "HAL_TCL1_RING_BASE_MSB_RING_BASE_ADDR_MSB = GENMASK 7 0"

definition HAL_TCL1_RING_MISC_MSI_LOOPCNT_DISABLE :: u64 where
  "HAL_TCL1_RING_MISC_MSI_LOOPCNT_DISABLE = BIT 1"

definition HAL_TCL1_RING_MISC_MSI_SWAP :: u64 where
  "HAL_TCL1_RING_MISC_MSI_SWAP = BIT 3"

definition HAL_TCL1_RING_MISC_HOST_FW_SWAP :: u64 where
  "HAL_TCL1_RING_MISC_HOST_FW_SWAP = BIT 4"

definition HAL_TCL1_RING_MISC_DATA_TLV_SWAP :: u64 where
  "HAL_TCL1_RING_MISC_DATA_TLV_SWAP = BIT 5"

definition HAL_TCL1_RING_MISC_SRNG_ENABLE :: u64 where
  "HAL_TCL1_RING_MISC_SRNG_ENABLE = BIT 6"

definition HAL_TCL1_RING_CONSR_INT_SETUP_IX0_INTR_TMR_THOLD :: u64 where
  "HAL_TCL1_RING_CONSR_INT_SETUP_IX0_INTR_TMR_THOLD = GENMASK 31 16"

definition HAL_TCL1_RING_CONSR_INT_SETUP_IX0_BATCH_COUNTER_THOLD :: u64 where
  "HAL_TCL1_RING_CONSR_INT_SETUP_IX0_BATCH_COUNTER_THOLD = GENMASK 14 0"

definition HAL_TCL1_RING_CONSR_INT_SETUP_IX1_LOW_THOLD :: u64 where
  "HAL_TCL1_RING_CONSR_INT_SETUP_IX1_LOW_THOLD = GENMASK 15 0"

definition HAL_REO1_RING_BASE_MSB_RING_SIZE :: u64 where
  "HAL_REO1_RING_BASE_MSB_RING_SIZE = GENMASK 27 8"

definition HAL_REO1_RING_BASE_MSB_RING_BASE_ADDR_MSB :: u64 where
  "HAL_REO1_RING_BASE_MSB_RING_BASE_ADDR_MSB = GENMASK 7 0"

definition HAL_REO1_RING_ID_RING_ID :: u64 where
  "HAL_REO1_RING_ID_RING_ID = GENMASK 15 8"

definition HAL_REO1_RING_ID_ENTRY_SIZE :: u64 where
  "HAL_REO1_RING_ID_ENTRY_SIZE = GENMASK 7 0"

definition HAL_REO1_RING_MISC_MSI_SWAP :: u64 where
  "HAL_REO1_RING_MISC_MSI_SWAP = BIT 3"

definition HAL_REO1_RING_MISC_HOST_FW_SWAP :: u64 where
  "HAL_REO1_RING_MISC_HOST_FW_SWAP = BIT 4"

definition HAL_REO1_RING_MISC_DATA_TLV_SWAP :: u64 where
  "HAL_REO1_RING_MISC_DATA_TLV_SWAP = BIT 5"

definition HAL_REO1_RING_MISC_SRNG_ENABLE :: u64 where
  "HAL_REO1_RING_MISC_SRNG_ENABLE = BIT 6"

definition HAL_REO1_RING_PRDR_INT_SETUP_INTR_TMR_THOLD :: u64 where
  "HAL_REO1_RING_PRDR_INT_SETUP_INTR_TMR_THOLD = GENMASK 31 16"

definition HAL_REO1_RING_PRDR_INT_SETUP_BATCH_COUNTER_THOLD :: u64 where
  "HAL_REO1_RING_PRDR_INT_SETUP_BATCH_COUNTER_THOLD = GENMASK 14 0"

definition HAL_ADDR_LSB_REG_MASK :: u64 where
  "HAL_ADDR_LSB_REG_MASK = 0xffffffff"

definition HAL_ADDR_MSB_REG_SHIFT :: nat where
  "HAL_ADDR_MSB_REG_SHIFT = 32"

definition HAL_SRNG_REG_GRP_R0 :: nat where "HAL_SRNG_REG_GRP_R0 = 0"

definition HAL_SRNG_REG_GRP_R2 :: nat where "HAL_SRNG_REG_GRP_R2 = 1"

definition HAL_TEST_SW2HW_SIZE :: u32 where "HAL_TEST_SW2HW_SIZE = 0x0000ffff"

definition HAL_SRNG_FLAGS_MSI_SWAP :: u32 where "HAL_SRNG_FLAGS_MSI_SWAP = 0x00000008"

definition HAL_SRNG_FLAGS_RING_PTR_SWAP :: u32 where "HAL_SRNG_FLAGS_RING_PTR_SWAP = 0x00000010"

definition HAL_SRNG_FLAGS_DATA_TLV_SWAP :: u32 where "HAL_SRNG_FLAGS_DATA_TLV_SWAP = 0x00000020"

definition HAL_SRNG_FLAGS_LOW_THRESH_INTR_EN :: u32 where
  "HAL_SRNG_FLAGS_LOW_THRESH_INTR_EN = 0x00010000"

definition HAL_SRNG_FLAGS_LMAC_RING :: u32 where "HAL_SRNG_FLAGS_LMAC_RING = 0x80000000"

lemmas reg_fields =
  HAL_TCL1_RING_BASE_MSB_RING_SIZE_def HAL_TCL1_RING_BASE_MSB_RING_BASE_ADDR_MSB_def
  HAL_TCL1_RING_MISC_MSI_LOOPCNT_DISABLE_def HAL_TCL1_RING_MISC_MSI_SWAP_def
  HAL_TCL1_RING_MISC_HOST_FW_SWAP_def HAL_TCL1_RING_MISC_DATA_TLV_SWAP_def
  HAL_TCL1_RING_MISC_SRNG_ENABLE_def HAL_TCL1_RING_CONSR_INT_SETUP_IX0_INTR_TMR_THOLD_def
  HAL_TCL1_RING_CONSR_INT_SETUP_IX0_BATCH_COUNTER_THOLD_def
  HAL_TCL1_RING_CONSR_INT_SETUP_IX1_LOW_THOLD_def
  HAL_REO1_RING_BASE_MSB_RING_SIZE_def HAL_REO1_RING_BASE_MSB_RING_BASE_ADDR_MSB_def
  HAL_REO1_RING_ID_RING_ID_def HAL_REO1_RING_ID_ENTRY_SIZE_def HAL_REO1_RING_MISC_MSI_SWAP_def
  HAL_REO1_RING_MISC_HOST_FW_SWAP_def HAL_REO1_RING_MISC_DATA_TLV_SWAP_def
  HAL_REO1_RING_MISC_SRNG_ENABLE_def HAL_REO1_RING_PRDR_INT_SETUP_INTR_TMR_THOLD_def
  HAL_REO1_RING_PRDR_INT_SETUP_BATCH_COUNTER_THOLD_def

section \<open>Rings\<close>

datatype hal_srng_dir = HAL_SRNG_DIR_SRC | HAL_SRNG_DIR_DST

record src_ring =
  src_hp :: u32
  reap_hp :: u32
  src_tp_addr :: u64
  cached_tp :: u32
  src_hp_addr :: u64
  low_threshold :: u32
  last_tp :: u32

record dst_ring =
  dst_tp :: u32
  dst_hp_addr :: u64
  cached_hp :: u32
  dst_tp_addr :: u64
  loop_cnt :: u32
  max_buffer_length :: u16
  last_hp :: u32

text \<open>The union \<^verbatim>\<open>u\<close> of \<^verbatim>\<open>struct hal_srng\<close>: the member that was written last.\<close>

datatype srng_union = SrcRing src_ring | DstRing dst_ring

record hal_srng =
  ring_id :: u8
  initialized :: u8
  irq :: int
  ring_base_paddr :: u64
  ring_base_vaddr :: u64
  num_entries :: u32
  ring_size :: u32
  ring_size_mask :: u32
  entry_size :: u32
  intr_timer_thres_us :: u32
  intr_batch_cntr_thres_entries :: u32
  msi_addr :: u64
  msi_data :: u32
  flags :: u32
  hwreg_base :: "nat \<Rightarrow> u32"
  timestamp :: u64
  ring_dir :: hal_srng_dir
  srng_u :: srng_union

datatype hal_ring_type = HAL_TEST_SRNG | HAL_TEST_SRNG_DST | HAL_TEST_SRNG_DST_STATUS

record hal_srng_params =
  p_ring_base_paddr :: u64
  p_ring_base_vaddr :: u64
  p_num_entries :: int
  p_intr_batch_cntr_thres_entries :: u32
  p_intr_timer_thres_us :: u32
  p_flags :: u32
  p_max_buffer_len :: u32
  p_low_threshold :: u32
  p_msi_addr :: u64
  p_msi_data :: u32

datatype hal_srng_ring_id =
    HAL_SRNG_RING_ID_REO2SW1
  | HAL_SRNG_RING_ID_TEST_DST_STATUS
  | HAL_SRNG_RING_ID_TEST_DST
  | HAL_SRNG_RING_ID_WBM_IDLE_LINK
  | HAL_SRNG_RING_ID_TEST_SW2HW
  | HAL_SRNG_RING_ID_UMAC_ID_END
  | HAL_SRNG_RING_ID_LMAC1_ID_START
  | HAL_SRNG_RING_ID_WMAC1_SW2RXDMA1_BUF
  | HAL_SRNG_RING_ID_WMAC1_SW2RXDMA2_BUF
  | HAL_SRNG_RING_ID_WMAC1_SW2RXDMA0_STATBUF
  | HAL_SRNG_RING_ID_WMAC1_SW2RXDMA1_STATBUF
  | HAL_SRNG_RING_ID_WMAC1_RXDMA2SW0
  | HAL_SRNG_RING_ID_WMAC1_RXDMA2SW1
  | HAL_SRNG_RING_ID_WMAC1_SW2RXDMA1_DESC
  | HAL_SRNG_RING_ID_RXDMA_DIR_BUF
  | HAL_SRNG_RING_ID_LMAC1_ID_END

text \<open>
  The enumerators' values; \<^verbatim>\<open>HAL_SRNG_RING_ID_WMAC1_SW2RXDMA0_BUF\<close> is a second name of
  \<^verbatim>\<open>HAL_SRNG_RING_ID_LMAC1_ID_START\<close>.
\<close>

primrec ring_id_val :: "hal_srng_ring_id \<Rightarrow> int" where
  "ring_id_val HAL_SRNG_RING_ID_REO2SW1 = 0"
| "ring_id_val HAL_SRNG_RING_ID_TEST_DST_STATUS = 1"
| "ring_id_val HAL_SRNG_RING_ID_TEST_DST = 8"
| "ring_id_val HAL_SRNG_RING_ID_WBM_IDLE_LINK = 104"
| "ring_id_val HAL_SRNG_RING_ID_TEST_SW2HW = 125"
| "ring_id_val HAL_SRNG_RING_ID_UMAC_ID_END = 127"
| "ring_id_val HAL_SRNG_RING_ID_LMAC1_ID_START = 128"
| "ring_id_val HAL_SRNG_RING_ID_WMAC1_SW2RXDMA1_BUF = 129"
| "ring_id_val HAL_SRNG_RING_ID_WMAC1_SW2RXDMA2_BUF = 130"
| "ring_id_val HAL_SRNG_RING_ID_WMAC1_SW2RXDMA0_STATBUF = 131"
| "ring_id_val HAL_SRNG_RING_ID_WMAC1_SW2RXDMA1_STATBUF = 132"
| "ring_id_val HAL_SRNG_RING_ID_WMAC1_RXDMA2SW0 = 133"
| "ring_id_val HAL_SRNG_RING_ID_WMAC1_RXDMA2SW1 = 134"
| "ring_id_val HAL_SRNG_RING_ID_WMAC1_SW2RXDMA1_DESC = 135"
| "ring_id_val HAL_SRNG_RING_ID_RXDMA_DIR_BUF = 136"
| "ring_id_val HAL_SRNG_RING_ID_LMAC1_ID_END = 143"

definition HAL_SRNG_NUM_LMACS :: int where "HAL_SRNG_NUM_LMACS = 3"

definition HAL_SRNG_RINGS_PER_LMAC :: int where
  "HAL_SRNG_RINGS_PER_LMAC =
     ring_id_val HAL_SRNG_RING_ID_LMAC1_ID_END - ring_id_val HAL_SRNG_RING_ID_LMAC1_ID_START"

definition HAL_SRNG_NUM_LMAC_RINGS :: int where
  "HAL_SRNG_NUM_LMAC_RINGS = HAL_SRNG_NUM_LMACS * HAL_SRNG_RINGS_PER_LMAC"

definition HAL_SRNG_RING_ID_MAX :: int where
  "HAL_SRNG_RING_ID_MAX = ring_id_val HAL_SRNG_RING_ID_UMAC_ID_END + HAL_SRNG_NUM_LMAC_RINGS"

definition HAL_SRNG_REG_R_GROUP_OFFSET :: "u32 \<Rightarrow> u32" where
  "HAL_SRNG_REG_R_GROUP_OFFSET x = push_bit 2 x"

definition HAL_SRNG_REG_BASE :: u32 where "HAL_SRNG_REG_BASE = 0x00010000"

lemma HAL_SRNG_RING_ID_MAX_val [hal_consts]: "HAL_SRNG_RING_ID_MAX = 172"
  by (simp add: HAL_SRNG_RING_ID_MAX_def HAL_SRNG_NUM_LMAC_RINGS_def HAL_SRNG_NUM_LMACS_def
      HAL_SRNG_RINGS_PER_LMAC_def)

declare HAL_SRNG_REG_GRP_R0_def [hal_consts] HAL_SRNG_REG_GRP_R2_def [hal_consts]
  HAL_SRNG_REG_R_GROUP_OFFSET_def [hal_consts] HAL_SRNG_REG_BASE_def [hal_consts]
  HAL_SRNG_RINGS_PER_LMAC_def [hal_consts] HAL_SRNG_NUM_LMACS_def [hal_consts]
  HAL_SRNG_NUM_LMAC_RINGS_def [hal_consts] HAL_TEST_SW2HW_SIZE_def [hal_consts]

record hal_srng_config =
  c_start_ring_id :: int
  c_max_rings :: u16
  c_entry_size :: u16
  c_reg_start :: "nat \<Rightarrow> u32"
  c_reg_size :: "nat \<Rightarrow> u16"
  c_lmac_ring :: bool
  c_ring_dir :: hal_srng_dir
  c_max_size :: u32

text \<open>
  \<^verbatim>\<open>struct wireless_simu_hal\<close>. The ring table is an array of \<^term>\<open>HAL_SRNG_RING_ID_MAX\<close>
  elements; accesses check the index (\<^verbatim>\<open>get_srng\<close> below). A NULL pointer is address 0.
\<close>

record wireless_simu_hal =
  srng_list :: "nat \<Rightarrow> hal_srng"
  srng_config :: "(kptr \<times> (hal_ring_type \<Rightarrow> hal_srng_config)) option"
  rdp_vaddr :: u64
  rdp_paddr :: u64
  wrp_vaddr :: u64
  wrp_paddr :: u64
  avail_blk_resource :: u8
  current_blk_index :: u8
  shadow_reg_addr :: "nat \<Rightarrow> u32"
  num_shadow_reg_configured :: int

section \<open>Descriptors\<close>

record hal_test_sw2hw =
  sw2hw_buffer_addr_low :: u32
  sw2hw_buffer_addr_info :: u32
  sw2hw_meta_info :: u32
  sw2hw_write_index :: u32
  sw2hw_flags :: u32

record hal_test_dst_status =
  status_buffer_length :: u32
  status_flag :: u32

record hal_test_dst =
  dst_buffer_addr_low :: u32
  dst_buffer_addr_info :: u32
  dst_flag :: u32

definition sizeof_hal_test_sw2hw :: u32 where "sizeof_hal_test_sw2hw = 20"

definition sizeof_hal_test_dst_status :: u32 where "sizeof_hal_test_dst_status = 8"

definition sizeof_hal_test_dst :: u32 where "sizeof_hal_test_dst = 12"

section \<open>The test module's rings and pipes\<close>

definition SRNG_TEST_DESC_RING_ALIGN :: u64 where "SRNG_TEST_DESC_RING_ALIGN = 8"

definition SRNG_TEST_PIPE_COUNT_MAX :: nat where "SRNG_TEST_PIPE_COUNT_MAX = 1"

record srng_test_attr =
  attr_flags :: u32
  src_nentries :: u32
  src_sz_max :: u32
  dest_nentries :: u32
  attr_recv_cb :: "kptr option"
  attr_send_cb :: "kptr option"

definition srng_test_configs :: "srng_test_attr list" where
  "srng_test_configs =
     [\<lparr>attr_flags = 0, src_nentries = 32, src_sz_max = 2048, dest_nentries = 0,
       attr_recv_cb = None, attr_send_cb = None\<rparr>]"

definition srng_test_dst_configs :: "srng_test_attr list" where
  "srng_test_dst_configs =
     [\<lparr>attr_flags = 0, src_nentries = 0, src_sz_max = 2048, dest_nentries = 32,
       attr_recv_cb = None, attr_send_cb = None\<rparr>]"

record srng_test_ring =
  ring_kptr :: kptr
  nentries :: u32
  nentries_mask :: u32
  sw_index :: u32
  write_index :: u32
  base_addr_owner_space_unaligned :: u64
  base_addr_test_space_unaligned :: u64
  dma_size :: u64
  base_addr_owner_space :: u64
  base_addr_test_space :: u64
  hal_ring_id :: u32
  ring_skb :: "skbp option list"

record srng_test_pipe =
  pipe_num :: u16
  pipe_attr_flags :: u32
  buf_sz :: u32
  rx_buf_needed :: u32
  pipe_recv_cb :: "kptr option"
  pipe_send_cb :: "kptr option"
  pipe_src_ring :: "srng_test_ring option"
  pipe_dst_ring :: "srng_test_ring option"
  pipe_status_ring :: "srng_test_ring option"

record srng_test =
  pipes_count :: int
  pipes :: "srng_test_pipe list"
  host_config :: "(kptr \<times> srng_test_attr list) option"

section \<open>The driver's private structure\<close>

text \<open>
  Back pointers to the structure itself (\<^verbatim>\<open>priv\<close>), the \<^verbatim>\<open>struct device\<close> pointer and the lock
  objects have no field: operations take the state, and the locks are named in theory
  \<^verbatim>\<open>Kernel\<close>. The type is extensible, so that the upper layers add their fields to it.
\<close>

record wireless_simu = kernel +
  mmio_addr :: u64
  hal :: wireless_simu_hal
  st_dst :: srng_test

section \<open>Element access\<close>

definition get_srng :: "nat \<Rightarrow> 'a wireless_simu_scheme \<Rightarrow> hal_srng option" where
  "get_srng rid s = (if int rid < HAL_SRNG_RING_ID_MAX then Some (srng_list (hal s) rid) else None)"

definition set_srng :: "nat \<Rightarrow> hal_srng \<Rightarrow> 'a wireless_simu_scheme \<Rightarrow> 'a wireless_simu_scheme" where
  "set_srng rid r s = s\<lparr>hal := (hal s)\<lparr>srng_list := (srng_list (hal s))(rid := r)\<rparr>\<rparr>"

fun src_of :: "hal_srng \<Rightarrow> src_ring option" where
  "src_of r = (case srng_u r of SrcRing x \<Rightarrow> Some x | DstRing _ \<Rightarrow> None)"

fun dst_of :: "hal_srng \<Rightarrow> dst_ring option" where
  "dst_of r = (case srng_u r of DstRing x \<Rightarrow> Some x | SrcRing _ \<Rightarrow> None)"

section \<open>Frame lemmas\<close>

lemma mem_ok_frame_ws [simp]:
  "mem_ok a n (s\<lparr>hal := h\<rparr>) = mem_ok a n s"
  "mem_ok a n (s\<lparr>st_dst := d\<rparr>) = mem_ok a n s"
  by (simp_all add: mem_ok_def)

lemma get_srng_frame [simp]:
  "get_srng i (s\<lparr>k_mem := m\<rparr>) = get_srng i s"
  "get_srng i (s\<lparr>k_held := h\<rparr>) = get_srng i s"
  "get_srng i (s\<lparr>k_trace := t\<rparr>) = get_srng i s"
  "get_srng i (s\<lparr>k_skbs := b\<rparr>) = get_srng i s"
  "get_srng i (s\<lparr>k_maps := mp\<rparr>) = get_srng i s"
  "get_srng i (s\<lparr>k_calls := c\<rparr>) = get_srng i s"
  "get_srng i (s\<lparr>st_dst := d\<rparr>) = get_srng i s"
  by (simp_all add: get_srng_def)

lemma get_set_srng [simp]:
  "get_srng i (set_srng j g s) = (if i = j \<and> get_srng i s \<noteq> None then Some g else get_srng i s)"
  by (simp add: get_srng_def set_srng_def)

lemma set_srng_frame [simp]:
  "k_mem (set_srng i g s) = k_mem s" "k_dma (set_srng i g s) = k_dma s"
  "k_maps (set_srng i g s) = k_maps s" "k_heap (set_srng i g s) = k_heap s"
  "k_skbs (set_srng i g s) = k_skbs s" "k_held (set_srng i g s) = k_held s"
  "k_iomapped (set_srng i g s) = k_iomapped s" "k_calls (set_srng i g s) = k_calls s"
  "k_jiffies (set_srng i g s) = k_jiffies s" "k_trace (set_srng i g s) = k_trace s"
  "mmio_addr (set_srng i g s) = mmio_addr s" "st_dst (set_srng i g s) = st_dst s"
  "srng_list (hal (set_srng i g s)) = (srng_list (hal s))(i := g)"
  "mem_ok a n (set_srng i g s) = mem_ok a n s"
  "set_srng i g' (set_srng i g s) = set_srng i g' s"
  by (simp_all add: set_srng_def mem_ok_def)

lemma emit_frame_ws [simp]:
  "mmio_addr (emit e s) = mmio_addr s" "hal (emit e s) = hal s" "st_dst (emit e s) = st_dst s"
  "get_srng i (emit e s) = get_srng i s"
  by (simp_all add: emit_def)

end
