(* ===== verification/Hif.thy ===== *)
theory Hif
  imports Hal_Types
begin

text \<open>
  Register access, \<^verbatim>\<open>driver/driver_wireless/wireless_hif.c\<close>, and the layout of the ring registers
  that the setup code documents: sixteen bits of group number, eight bits of ring, one bit of
  register group, five bits of register, two bits of byte.
\<close>

definition wireless_hif_write32 ::
  "u32 \<Rightarrow> u32 \<Rightarrow> 'a wireless_simu_scheme \<Rightarrow> 'a wireless_simu_scheme option" where
  "wireless_hif_write32 address data s = iowrite32 data (mmio_addr s + ucast address) s"

definition wireless_hif_read32 :: "kenv \<Rightarrow> u32 \<Rightarrow> 'a wireless_simu_scheme \<Rightarrow> u32 option" where
  "wireless_hif_read32 env address s = ioread32 env (mmio_addr s + ucast address) s"

text \<open>The register base a ring's group gets in \<^verbatim>\<open>wireless_simu_hal_srng_setup\<close>.\<close>

definition srng_hwreg_base :: "int \<Rightarrow> nat \<Rightarrow> u32" where
  "srng_hwreg_base rid grp =
     HAL_SRNG_REG_BASE OR push_bit 8 (of_int rid) OR push_bit 7 (of_nat grp)"

text \<open>A 40-bit bus address kept in a low word and the low byte of a second one.\<close>

definition join_paddr :: "u32 \<Rightarrow> u32 \<Rightarrow> u64" where
  "join_paddr low info = ucast low OR push_bit 32 (FIELD_GET (GENMASK 7 0) (ucast info))"

lemma hif_write_ok [k_simps]:
  "k_iomapped s \<Longrightarrow>
   wireless_hif_write32 a v s = Some (emit (EvIoWrite (mmio_addr s + ucast a) v) s)"
  by (simp add: wireless_hif_write32_def iowrite32_def)

lemma BIT_GENMASK: "n < 64 \<Longrightarrow> BIT n = GENMASK n n"
  by (rule bit_word_eqI) (auto simp: bit_BIT bit_GENMASK)

lemma bit_word_64_above:
  fixes w :: u64
  assumes "unat w < 2 ^ 40" "40 \<le> i"
  shows "\<not> bit w i"
  using word_bit_above [OF assms(1), of i] assms(2) by simp

lemma join_paddr_split:
  assumes "unat paddr < 2 ^ 40"
    and "\<And>i. i < 8 \<Longrightarrow> bit info i \<longleftrightarrow> bit paddr (32 + i)"
  shows "join_paddr (ucast (paddr AND HAL_ADDR_LSB_REG_MASK)) info = paddr"
proof (rule bit_word_eqI)
  fix i :: nat
  assume i: "i < LENGTH(64)"
  have mask: "HAL_ADDR_LSB_REG_MASK = mask 32"
    by (simp add: HAL_ADDR_LSB_REG_MASK_def mask_eq_exp_minus_1)
  consider "i < 32" | "32 \<le> i" "i < 40" | "40 \<le> i" by linarith
  then show "bit (join_paddr (ucast (paddr AND HAL_ADDR_LSB_REG_MASK)) info) i = bit paddr i"
  proof cases
    case 1
    then show ?thesis
      by (auto simp: join_paddr_def mask bit_simps)
  next
    case 2
    then show ?thesis
      using assms(2) [of "i - 32"] i by (auto simp: join_paddr_def mask bit_simps bit_FIELD_GET)
  next
    case 3
    then show ?thesis
      using bit_word_64_above [OF assms(1) 3] i by (auto simp: join_paddr_def mask bit_simps bit_FIELD_GET)
  qed
qed

end
