(* ===== verification/Hal.thy ===== *)
theory Hal
  imports Hif
begin

text \<open>
  Set-up and tear-down of the rings, \<^verbatim>\<open>driver/driver_wireless/wireless_hal.c\<close> lines 1 to 621:
  the configuration table, ring numbering, the register writes that hand a ring to the device,
  \<^verbatim>\<open>wireless_simu_hal_srng_setup\<close>, and the allocation of the shared pointer arrays.
\<close>

section \<open>Configuration\<close>

definition hw_srng_config_template :: "hal_ring_type \<Rightarrow> hal_srng_config" where
  "hw_srng_config_template type =
     (case type of
        HAL_TEST_SRNG \<Rightarrow>
          \<lparr>c_start_ring_id = ring_id_val HAL_SRNG_RING_ID_TEST_SW2HW, c_max_rings = 1,
           c_entry_size = ucast (drop_bit 2 sizeof_hal_test_sw2hw),
           c_reg_start = (\<lambda>_. 0), c_reg_size = (\<lambda>_. 0),
           c_lmac_ring = False, c_ring_dir = HAL_SRNG_DIR_SRC, c_max_size = HAL_TEST_SW2HW_SIZE\<rparr>
      | HAL_TEST_SRNG_DST \<Rightarrow>
          \<lparr>c_start_ring_id = ring_id_val HAL_SRNG_RING_ID_TEST_DST, c_max_rings = 1,
           c_entry_size = ucast (drop_bit 2 sizeof_hal_test_dst),
           c_reg_start = (\<lambda>_. 0), c_reg_size = (\<lambda>_. 0),
           c_lmac_ring = False, c_ring_dir = HAL_SRNG_DIR_SRC, c_max_size = HAL_TEST_SW2HW_SIZE\<rparr>
      | HAL_TEST_SRNG_DST_STATUS \<Rightarrow>
          \<lparr>c_start_ring_id = ring_id_val HAL_SRNG_RING_ID_TEST_DST_STATUS, c_max_rings = 1,
           c_entry_size = ucast (drop_bit 2 sizeof_hal_test_dst_status),
           c_reg_start = (\<lambda>_. 0), c_reg_size = (\<lambda>_. 0),
           c_lmac_ring = False, c_ring_dir = HAL_SRNG_DIR_DST, c_max_size = HAL_TEST_SW2HW_SIZE\<rparr>)"

text \<open>
  The numbers are C \<^verbatim>\<open>int\<close>s: their sums and products wrap at 32 bits (the kernel is compiled with
  \<^verbatim>\<open>-fno-strict-overflow\<close>). Only the upper ends are checked, a negative ring number is not.
\<close>

definition hal_srng_get_ring_id :: "hal_srng_config \<Rightarrow> int \<Rightarrow> int \<Rightarrow> int" where
  "hal_srng_get_ring_id cfg ring_num mac_id =
     (if ring_num \<ge> uint (c_max_rings cfg) then neg_errno EINVAL
      else
        let rid = c_int (c_start_ring_id cfg + ring_num);
            rid = (if c_lmac_ring cfg then c_int (rid + c_int (mac_id * HAL_SRNG_RINGS_PER_LMAC)) else rid)
        in if rid \<ge> HAL_SRNG_RING_ID_MAX then neg_errno EINVAL else rid)"

section \<open>Handing a ring to the device\<close>

text \<open>The value of the second configuration register: size and high address bits of the ring.\<close>

definition ring_base_msb_val :: "u64 \<Rightarrow> u64 \<Rightarrow> hal_srng \<Rightarrow> u32" where
  "ring_base_msb_val addr_msb size_mask srng =
     ucast (FIELD_PREP addr_msb (drop_bit HAL_ADDR_MSB_REG_SHIFT (ring_base_paddr srng)) OR
            FIELD_PREP size_mask (ucast (entry_size srng * num_entries srng)))"

definition hal_srng_src_hw_init ::
  "nat \<Rightarrow> 'a wireless_simu_scheme \<Rightarrow> 'a wireless_simu_scheme option" where
  "hal_srng_src_hw_init rid s = do {
     srng \<leftarrow> get_srng rid s;
     r \<leftarrow> src_of srng;
     let reg_base = hwreg_base srng HAL_SRNG_REG_GRP_R0;
     let base_msb = ring_base_msb_val HAL_TCL1_RING_BASE_MSB_RING_BASE_ADDR_MSB
                      HAL_TCL1_RING_BASE_MSB_RING_SIZE srng;
     let id_val = ucast (FIELD_PREP HAL_REO1_RING_ID_ENTRY_SIZE (ucast (entry_size srng)));
     s \<leftarrow> wireless_hif_write32 reg_base (ucast (ring_base_paddr srng)) s;
     s \<leftarrow> wireless_hif_write32 (reg_base + HAL_SRNG_REG_R_GROUP_OFFSET 1) base_msb s;
     s \<leftarrow> wireless_hif_write32 (reg_base + HAL_SRNG_REG_R_GROUP_OFFSET 2) id_val s;
     s \<leftarrow> (if ring_id srng = of_int (ring_id_val HAL_SRNG_RING_ID_WBM_IDLE_LINK) then do {
             s \<leftarrow> wireless_hif_write32 reg_base (ucast (ring_base_paddr srng)) s;
             s \<leftarrow> wireless_hif_write32 (reg_base + HAL_SRNG_REG_R_GROUP_OFFSET 1) base_msb s;
             wireless_hif_write32 (reg_base + HAL_SRNG_REG_R_GROUP_OFFSET 2) id_val s
           } else Some s);
     s \<leftarrow> wireless_hif_write32 (reg_base + HAL_SRNG_REG_R_GROUP_OFFSET 3)
            (ucast (FIELD_PREP HAL_TCL1_RING_CONSR_INT_SETUP_IX0_INTR_TMR_THOLD
                      (ucast (intr_timer_thres_us srng)) OR
                    FIELD_PREP HAL_TCL1_RING_CONSR_INT_SETUP_IX0_BATCH_COUNTER_THOLD
                      (ucast (intr_batch_cntr_thres_entries srng * entry_size srng)))) s;
     s \<leftarrow> wireless_hif_write32 (reg_base + HAL_SRNG_REG_R_GROUP_OFFSET 4)
            (if flags srng AND HAL_SRNG_FLAGS_LOW_THRESH_INTR_EN \<noteq> 0
             then ucast (FIELD_PREP HAL_TCL1_RING_CONSR_INT_SETUP_IX1_LOW_THOLD
                           (ucast (low_threshold r)))
             else 0) s;
     s \<leftarrow> (if ring_id srng \<noteq> of_int (ring_id_val HAL_SRNG_RING_ID_WBM_IDLE_LINK) then do {
             let tp_addr = rdp_paddr (hal s) + (src_tp_addr r - rdp_vaddr (hal s));
             s \<leftarrow> wireless_hif_write32 (reg_base + HAL_SRNG_REG_R_GROUP_OFFSET 5)
                    (ucast (tp_addr AND HAL_ADDR_LSB_REG_MASK)) s;
             wireless_hif_write32 (reg_base + HAL_SRNG_REG_R_GROUP_OFFSET 6)
               (ucast (drop_bit HAL_ADDR_MSB_REG_SHIFT tp_addr)) s
           } else Some s);
     let reg_base2 = hwreg_base srng HAL_SRNG_REG_GRP_R2;
     s \<leftarrow> wireless_hif_write32 reg_base2 0 s;
     s \<leftarrow> wireless_hif_write32 (reg_base2 + HAL_SRNG_REG_R_GROUP_OFFSET 1) 0 s;
     s \<leftarrow> mem_write (src_tp_addr r) 0 s;
     let val = (if flags srng AND HAL_SRNG_FLAGS_DATA_TLV_SWAP \<noteq> 0
                then HAL_TCL1_RING_MISC_DATA_TLV_SWAP else 0);
     let val = (if flags srng AND HAL_SRNG_FLAGS_RING_PTR_SWAP \<noteq> 0
                then val OR HAL_TCL1_RING_MISC_HOST_FW_SWAP else val);
     let val = (if flags srng AND HAL_SRNG_FLAGS_MSI_SWAP \<noteq> 0
                then val OR HAL_TCL1_RING_MISC_MSI_SWAP else val);
     let val = val OR HAL_TCL1_RING_MISC_MSI_LOOPCNT_DISABLE OR HAL_TCL1_RING_MISC_SRNG_ENABLE;
     wireless_hif_write32 (reg_base + HAL_SRNG_REG_R_GROUP_OFFSET 7) (ucast val) s
   }"

definition hal_srng_dst_hw_init ::
  "nat \<Rightarrow> 'a wireless_simu_scheme \<Rightarrow> 'a wireless_simu_scheme option" where
  "hal_srng_dst_hw_init rid s = do {
     srng \<leftarrow> get_srng rid s;
     r \<leftarrow> dst_of srng;
     let reg_base = hwreg_base srng HAL_SRNG_REG_GRP_R0;
     s \<leftarrow> wireless_hif_write32 (reg_base + HAL_SRNG_REG_R_GROUP_OFFSET 0)
            (ucast (ring_base_paddr srng)) s;
     s \<leftarrow> wireless_hif_write32 (reg_base + HAL_SRNG_REG_R_GROUP_OFFSET 1)
            (ring_base_msb_val HAL_REO1_RING_BASE_MSB_RING_BASE_ADDR_MSB
               HAL_REO1_RING_BASE_MSB_RING_SIZE srng) s;
     s \<leftarrow> wireless_hif_write32 (reg_base + HAL_SRNG_REG_R_GROUP_OFFSET 2)
            (ucast (FIELD_PREP HAL_REO1_RING_ID_RING_ID (ucast (ring_id srng)) OR
                    FIELD_PREP HAL_REO1_RING_ID_ENTRY_SIZE (ucast (entry_size srng)))) s;
     s \<leftarrow> wireless_hif_write32 (reg_base + HAL_SRNG_REG_R_GROUP_OFFSET 3)
            (ucast (FIELD_PREP HAL_REO1_RING_PRDR_INT_SETUP_INTR_TMR_THOLD
                      (ucast (drop_bit 3 (intr_timer_thres_us srng))) OR
                    FIELD_PREP HAL_REO1_RING_PRDR_INT_SETUP_BATCH_COUNTER_THOLD
                      (ucast (intr_batch_cntr_thres_entries srng * entry_size srng)))) s;
     let hp_addr = rdp_paddr (hal s) + (dst_hp_addr r - rdp_vaddr (hal s));
     s \<leftarrow> wireless_hif_write32 (reg_base + HAL_SRNG_REG_R_GROUP_OFFSET 5)
            (ucast (hp_addr AND HAL_ADDR_LSB_REG_MASK)) s;
     s \<leftarrow> wireless_hif_write32 (reg_base + HAL_SRNG_REG_R_GROUP_OFFSET 6)
            (ucast (drop_bit HAL_ADDR_MSB_REG_SHIFT hp_addr)) s;
     let reg_base2 = hwreg_base srng HAL_SRNG_REG_GRP_R2;
     s \<leftarrow> wireless_hif_write32 (reg_base2 + HAL_SRNG_REG_R_GROUP_OFFSET 0) 0 s;
     s \<leftarrow> wireless_hif_write32 (reg_base2 + HAL_SRNG_REG_R_GROUP_OFFSET 1) 0 s;
     s \<leftarrow> mem_write (dst_hp_addr r) 0 s;
     let val = (if flags srng AND HAL_SRNG_FLAGS_DATA_TLV_SWAP \<noteq> 0
                then HAL_REO1_RING_MISC_DATA_TLV_SWAP else 0);
     let val = (if flags srng AND HAL_SRNG_FLAGS_RING_PTR_SWAP \<noteq> 0
                then val OR HAL_REO1_RING_MISC_HOST_FW_SWAP else val);
     let val = (if flags srng AND HAL_SRNG_FLAGS_MSI_SWAP \<noteq> 0
                then val OR HAL_REO1_RING_MISC_MSI_SWAP else val);
     let val = val OR HAL_REO1_RING_MISC_SRNG_ENABLE;
     wireless_hif_write32 (reg_base + HAL_SRNG_REG_R_GROUP_OFFSET 7) (ucast val) s
   }"

definition hal_srng_hw_init ::
  "nat \<Rightarrow> 'a wireless_simu_scheme \<Rightarrow> 'a wireless_simu_scheme option" where
  "hal_srng_hw_init rid s = do {
     srng \<leftarrow> get_srng rid s;
     if ring_dir srng = HAL_SRNG_DIR_SRC then hal_srng_src_hw_init rid s
     else hal_srng_dst_hw_init rid s
   }"

section \<open>Setting a ring up\<close>

definition src_ring_zero :: src_ring where
  "src_ring_zero = \<lparr>src_hp = 0, reap_hp = 0, src_tp_addr = 0, cached_tp = 0, src_hp_addr = 0,
     low_threshold = 0, last_tp = 0\<rparr>"

definition dst_ring_zero :: dst_ring where
  "dst_ring_zero = \<lparr>dst_tp = 0, dst_hp_addr = 0, cached_hp = 0, dst_tp_addr = 0, loop_cnt = 0,
     max_buffer_length = 0, last_hp = 0\<rparr>"

definition hal_srng_zero :: hal_srng where
  "hal_srng_zero = \<lparr>ring_id = 0, initialized = 0, irq = 0, ring_base_paddr = 0, ring_base_vaddr = 0,
     num_entries = 0, ring_size = 0, ring_size_mask = 0, entry_size = 0, intr_timer_thres_us = 0,
     intr_batch_cntr_thres_entries = 0, msi_addr = 0, msi_data = 0, flags = 0,
     hwreg_base = (\<lambda>_. 0), timestamp = 0, ring_dir = HAL_SRNG_DIR_SRC,
     srng_u = SrcRing src_ring_zero\<rparr>"

text \<open>
  The member of the union a set-up writes into. Fields that the set-up does not assign keep
  their value when the ring had the same direction before; a ring identifier never changes
  direction, since the configuration table fixes it.
\<close>

definition union_src :: "srng_union \<Rightarrow> src_ring" where
  "union_src v = (case v of SrcRing r \<Rightarrow> r | DstRing _ \<Rightarrow> src_ring_zero)"

definition union_dst :: "srng_union \<Rightarrow> dst_ring" where
  "union_dst v = (case v of DstRing r \<Rightarrow> r | SrcRing _ \<Rightarrow> dst_ring_zero)"

definition get_srng_config ::
  "'a wireless_simu_scheme \<Rightarrow> (hal_ring_type \<Rightarrow> hal_srng_config) option" where
  "get_srng_config s =
     (case srng_config (hal s) of
        None \<Rightarrow> None
      | Some (k, cfgs) \<Rightarrow> if k \<in> set (k_heap s) then Some cfgs else None)"

text \<open>The assignments to \<^verbatim>\<open>*srng\<close> that do not depend on the direction, lines 403 to 424.\<close>

definition srng_assign :: "hal_srng_config \<Rightarrow> int \<Rightarrow> hal_srng_params \<Rightarrow> hal_srng \<Rightarrow> hal_srng" where
  "srng_assign cfg rid params srng = srng\<lparr>
     ring_id := of_int rid,
     ring_dir := c_ring_dir cfg,
     ring_base_paddr := p_ring_base_paddr params,
     ring_base_vaddr := p_ring_base_vaddr params,
     entry_size := ucast (c_entry_size cfg),
     num_entries := of_int (p_num_entries params),
     ring_size := ucast (c_entry_size cfg) * of_int (p_num_entries params),
     intr_batch_cntr_thres_entries := p_intr_batch_cntr_thres_entries params,
     intr_timer_thres_us := p_intr_timer_thres_us params,
     flags := p_flags params,
     msi_addr := p_msi_addr params,
     msi_data := p_msi_data params,
     initialized := 1,
     hwreg_base := (hwreg_base srng)(
       HAL_SRNG_REG_GRP_R0 := srng_hwreg_base rid HAL_SRNG_REG_GRP_R0,
       HAL_SRNG_REG_GRP_R2 := srng_hwreg_base rid HAL_SRNG_REG_GRP_R2)\<rparr>"

text \<open>The direction-dependent assignments, lines 442 to 487.\<close>

definition srng_assign_src ::
  "hal_srng_config \<Rightarrow> int \<Rightarrow> hal_srng_params \<Rightarrow> 'a wireless_simu_scheme \<Rightarrow> hal_srng \<Rightarrow> hal_srng" where
  "srng_assign_src cfg rid params s srng =
     (let reg_base = hwreg_base srng HAL_SRNG_REG_GRP_R2;
          lmac_idx = of_int (rid - ring_id_val HAL_SRNG_RING_ID_LMAC1_ID_START) :: u32;
          r = (union_src (srng_u srng))\<lparr>
            src_hp := 0,
            cached_tp := 0,
            reap_hp := ring_size srng - entry_size srng,
            src_tp_addr := rdp_vaddr (hal s) + 4 * of_int rid,
            low_threshold := p_low_threshold params * entry_size srng\<rparr>
      in if c_lmac_ring cfg
         then srng\<lparr>srng_u := SrcRing (r\<lparr>src_hp_addr := wrp_vaddr (hal s) + 4 * ucast lmac_idx\<rparr>),
                   flags := flags srng OR HAL_SRNG_FLAGS_LMAC_RING\<rparr>
         else srng\<lparr>srng_u := SrcRing (r\<lparr>src_hp_addr := mmio_addr s + ucast reg_base\<rparr>)\<rparr>)"

definition srng_assign_dst ::
  "hal_srng_config \<Rightarrow> int \<Rightarrow> 'a wireless_simu_scheme \<Rightarrow> hal_srng \<Rightarrow> hal_srng" where
  "srng_assign_dst cfg rid s srng =
     (let reg_base = hwreg_base srng HAL_SRNG_REG_GRP_R2;
          lmac_idx = of_int (rid - ring_id_val HAL_SRNG_RING_ID_LMAC1_ID_START) :: u32;
          r = (union_dst (srng_u srng))\<lparr>
            loop_cnt := 1,
            dst_tp := 0,
            cached_hp := 0,
            dst_hp_addr := rdp_vaddr (hal s) + 4 * of_int rid\<rparr>
      in if c_lmac_ring cfg
         then srng\<lparr>srng_u := DstRing (r\<lparr>dst_tp_addr := wrp_vaddr (hal s) + 4 * ucast lmac_idx\<rparr>),
                   flags := flags srng OR HAL_SRNG_FLAGS_LMAC_RING\<rparr>
         else srng\<lparr>srng_u := DstRing (r\<lparr>dst_tp_addr := mmio_addr s + ucast reg_base\<rparr>)\<rparr>)"

definition wireless_simu_hal_srng_setup ::
  "kenv \<Rightarrow> hal_ring_type \<Rightarrow> int \<Rightarrow> int \<Rightarrow> hal_srng_params \<Rightarrow> 'a wireless_simu_scheme \<Rightarrow>
   (int \<times> 'a wireless_simu_scheme) option" where
  "wireless_simu_hal_srng_setup env type ring_num mac_id params s = do {
     cfgs \<leftarrow> get_srng_config s;
     let cfg = cfgs type;
     let rid = hal_srng_get_ring_id cfg ring_num mac_id;
     if rid < 0 then Some (rid, s)
     else do {
       old \<leftarrow> get_srng (nat rid) s;
       let srng = srng_assign cfg rid params old;
       let s = spin_lock_init (SrngLock (nat rid)) s;
       s \<leftarrow> memset_0 (ring_base_vaddr srng)
              (unat (push_bit 2 (entry_size srng * num_entries srng))) s;
       let srng = (if env_big_endian env
                   then srng\<lparr>flags := flags srng OR HAL_SRNG_FLAGS_MSI_SWAP OR
                               HAL_SRNG_FLAGS_DATA_TLV_SWAP OR HAL_SRNG_FLAGS_RING_PTR_SWAP\<rparr>
                   else srng);
       let srng = (if ring_dir srng = HAL_SRNG_DIR_SRC
                   then srng_assign_src cfg rid params s srng
                   else srng_assign_dst cfg rid s srng);
       let s = set_srng (nat rid) srng s;
       if c_lmac_ring cfg then Some (rid, s)
       else do {
         s \<leftarrow> hal_srng_hw_init (nat rid) s;
         Some (rid, s)
       }
     }
   }"

section \<open>Module initialisation\<close>

definition hal_zero :: wireless_simu_hal where
  "hal_zero = \<lparr>srng_list = (\<lambda>_. hal_srng_zero), srng_config = None, rdp_vaddr = 0, rdp_paddr = 0,
     wrp_vaddr = 0, wrp_paddr = 0, avail_blk_resource = 0, current_blk_index = 0,
     shadow_reg_addr = (\<lambda>_. 0), num_shadow_reg_configured = 0\<rparr>"

definition hal_srng_create_config ::
  "kenv \<Rightarrow> 'a wireless_simu_scheme \<Rightarrow> int \<times> 'a wireless_simu_scheme" where
  "hal_srng_create_config env s =
     (case kmalloc env s of
        (None, s) \<Rightarrow> (neg_errno ENOMEM, s\<lparr>hal := (hal s)\<lparr>srng_config := None\<rparr>\<rparr>)
      | (Some k, s) \<Rightarrow> (0, s\<lparr>hal := (hal s)\<lparr>srng_config := Some (k, hw_srng_config_template)\<rparr>\<rparr>))"

definition rdp_bytes :: u64 where "rdp_bytes = 4 * of_int HAL_SRNG_RING_ID_MAX"

definition wrp_bytes :: u64 where "wrp_bytes = 4 * of_int HAL_SRNG_NUM_LMAC_RINGS"

definition hal_alloc_cont_rdp ::
  "kenv \<Rightarrow> 'a wireless_simu_scheme \<Rightarrow> int \<times> 'a wireless_simu_scheme" where
  "hal_alloc_cont_rdp env s =
     (case dma_alloc_coherent env rdp_bytes s of ((v, p), s) \<Rightarrow>
        let s = s\<lparr>hal := (hal s)\<lparr>rdp_vaddr := v, rdp_paddr := p\<rparr>\<rparr>
        in if v = 0 then (neg_errno ENOMEM, s) else (0, s))"

definition hal_alloc_cont_wdp ::
  "kenv \<Rightarrow> 'a wireless_simu_scheme \<Rightarrow> int \<times> 'a wireless_simu_scheme" where
  "hal_alloc_cont_wdp env s =
     (case dma_alloc_coherent env wrp_bytes s of ((v, p), s) \<Rightarrow>
        let s = s\<lparr>hal := (hal s)\<lparr>wrp_vaddr := v, wrp_paddr := p\<rparr>\<rparr>
        in if v = 0 then (neg_errno ENOMEM, s) else (0, s))"

text \<open>Both loops over the lock keys call \<^verbatim>\<open>lockdep_unregister_key\<close>.\<close>

definition hal_register_srng_key :: "'a wireless_simu_scheme \<Rightarrow> 'a wireless_simu_scheme" where
  "hal_register_srng_key s =
     fold (\<lambda>i. emit (EvLockdepUnregister i)) [0..<nat HAL_SRNG_RING_ID_MAX] s"

definition hal_unregister_srng_key :: "'a wireless_simu_scheme \<Rightarrow> 'a wireless_simu_scheme" where
  "hal_unregister_srng_key s =
     fold (\<lambda>i. emit (EvLockdepUnregister i)) [0..<nat HAL_SRNG_RING_ID_MAX] s"

definition hal_free_cont_rdp :: "'a wireless_simu_scheme \<Rightarrow> 'a wireless_simu_scheme option" where
  "hal_free_cont_rdp s =
     (if rdp_vaddr (hal s) = 0 then Some s
      else do {
        s \<leftarrow> dma_free_coherent rdp_bytes (rdp_vaddr (hal s)) (rdp_paddr (hal s)) s;
        Some (s\<lparr>hal := (hal s)\<lparr>rdp_vaddr := 0\<rparr>\<rparr>)
      })"

definition hal_free_cont_wrp :: "'a wireless_simu_scheme \<Rightarrow> 'a wireless_simu_scheme option" where
  "hal_free_cont_wrp s =
     (if wrp_vaddr (hal s) = 0 then Some s
      else do {
        s \<leftarrow> dma_free_coherent wrp_bytes (wrp_vaddr (hal s)) (wrp_paddr (hal s)) s;
        Some (s\<lparr>hal := (hal s)\<lparr>wrp_vaddr := 0\<rparr>\<rparr>)
      })"

definition wireless_simu_hal_srng_init ::
  "kenv \<Rightarrow> 'a wireless_simu_scheme \<Rightarrow> (int \<times> 'a wireless_simu_scheme) option" where
  "wireless_simu_hal_srng_init env s =
     (let s = s\<lparr>hal := hal_zero\<rparr>;
          (ret, s) = hal_srng_create_config env s
      in if ret \<noteq> 0 then Some (ret, s)
         else
           let (ret, s) = hal_alloc_cont_rdp env s
           in if ret \<noteq> 0 then Some (ret, s)
              else
                let (ret, s) = hal_alloc_cont_wdp env s
                in if ret \<noteq> 0 then do {
                     s \<leftarrow> hal_free_cont_rdp s;
                     Some (ret, s)
                   } else Some (0, hal_register_srng_key s))"

definition wireless_simu_hal_srng_deinit ::
  "'a wireless_simu_scheme \<Rightarrow> 'a wireless_simu_scheme option" where
  "wireless_simu_hal_srng_deinit s = do {
     let s = hal_unregister_srng_key s;
     s \<leftarrow> hal_free_cont_rdp s;
     s \<leftarrow> hal_free_cont_wrp s;
     kfree (map_option fst (srng_config (hal s))) s
   }"

lemma union_src_simp [simp]: "union_src (SrcRing r) = r"
  by (simp add: union_src_def)

lemma union_dst_simp [simp]: "union_dst (DstRing r) = r"
  by (simp add: union_dst_def)

end
