(* ===== verification/Ring_Geometry.thy ===== *)
theory Ring_Geometry
  imports Hal_Types
begin

text \<open>
  The shape of a ring. A ring of \<^verbatim>\<open>num_entries\<close> entries of \<^verbatim>\<open>entry_size\<close> words keeps its head and
  tail as word offsets; this theory reads them as entry indices, defines the distance from tail
  to head, the addresses and contents of the entries in the memory shared with the device, and
  the list of entries between tail and head: the queue a ring stands for. Nothing here is code
  of the driver; it is the vocabulary its invariants are written in.
\<close>

section \<open>Indices and contents\<close>

definition n_ent :: "hal_srng \<Rightarrow> nat" where
  "n_ent g = unat (num_entries g)"

definition e_sz :: "hal_srng \<Rightarrow> nat" where
  "e_sz g = unat (entry_size g)"

definition ptr_ok :: "hal_srng \<Rightarrow> u32 \<Rightarrow> bool" where
  "ptr_ok g w = (unat w mod e_sz g = 0 \<and> unat w < e_sz g * n_ent g)"

definition ent_idx :: "hal_srng \<Rightarrow> u32 \<Rightarrow> nat" where
  "ent_idx g w = unat w div e_sz g"

definition geom_ok :: "hal_srng \<Rightarrow> bool" where
  "geom_ok g = (0 < e_sz g \<and> 0 < n_ent g \<and> n_ent g < 2 ^ 31 \<and> e_sz g * n_ent g < 2 ^ 32 \<and>
     ring_size g = entry_size g * num_entries g)"

definition ring_dist :: "hal_srng \<Rightarrow> u32 \<Rightarrow> u32 \<Rightarrow> nat" where
  "ring_dist g a b = (ent_idx g b + n_ent g - ent_idx g a) mod n_ent g"

definition next_ptr :: "hal_srng \<Rightarrow> u32 \<Rightarrow> u32" where
  "next_ptr g w = (w + entry_size g) mod ring_size g"

definition entry_addr :: "hal_srng \<Rightarrow> nat \<Rightarrow> u64" where
  "entry_addr g i = ring_base_vaddr g + of_nat (4 * (e_sz g * i))"

definition entry_words :: "hal_srng \<Rightarrow> (u64 \<Rightarrow> u32) \<Rightarrow> nat \<Rightarrow> u32 list" where
  "entry_words g m i = map (\<lambda>k. m (entry_addr g i + of_nat (4 * k))) [0..<e_sz g]"

definition pending :: "hal_srng \<Rightarrow> (u64 \<Rightarrow> u32) \<Rightarrow> u32 \<Rightarrow> u32 \<Rightarrow> u32 list list" where
  "pending g m tp hp =
     map (\<lambda>j. entry_words g m ((ent_idx g tp + j) mod n_ent g)) [0..<ring_dist g tp hp]"

primrec write_words :: "u64 \<Rightarrow> u32 list \<Rightarrow> (u64 \<Rightarrow> u32) \<Rightarrow> (u64 \<Rightarrow> u32)" where
  "write_words a [] m = m"
| "write_words a (w # ws) m = write_words (a + 4) ws (m(a := w))"

definition outside :: "hal_srng \<Rightarrow> u64 \<Rightarrow> bool" where
  "outside g a = (4 * (e_sz g * n_ent g) \<le> unat (a - ring_base_vaddr g))"

text \<open>The indices from \<^term>\<open>r\<close> up to, not including, \<^term>\<open>w\<close>, on a ring of \<^term>\<open>n\<close>.\<close>

definition window :: "nat \<Rightarrow> nat \<Rightarrow> nat \<Rightarrow> nat list" where
  "window n r w = map (\<lambda>j. (r + j) mod n) [0..<(w + n - r) mod n]"

section \<open>Offsets and indices\<close>

lemma geom_okD:
  assumes "geom_ok g"
  shows "0 < e_sz g" "0 < n_ent g" "n_ent g < 2 ^ 31" "e_sz g * n_ent g < 2 ^ 32"
    and ring_size_nat: "unat (ring_size g) = e_sz g * n_ent g"
    and "entry_size g \<noteq> 0" and "ring_size g \<noteq> 0"
proof -
  show a: "0 < e_sz g" "0 < n_ent g" "n_ent g < 2 ^ 31" "e_sz g * n_ent g < 2 ^ 32"
    using assms by (simp_all add: geom_ok_def)
  show b: "unat (ring_size g) = e_sz g * n_ent g"
    using assms by (simp add: geom_ok_def e_sz_def n_ent_def unat_word_ariths)
  show "entry_size g \<noteq> 0"
    using a(1) by (auto simp: e_sz_def)
  show "ring_size g \<noteq> 0"
    using a b by auto
qed

lemma ptr_okE:
  assumes "ptr_ok g w" and "geom_ok g"
  obtains i where "i < n_ent g" and "w = of_nat (e_sz g * i)" and "ent_idx g w = i"
    and "unat w = e_sz g * i"
proof
  let ?i = "ent_idx g w"
  show u: "unat w = e_sz g * ?i"
    using assms(1) unfolding ptr_ok_def ent_idx_def by auto
  have "of_nat (unat w) = w"
    by simp
  then show "w = of_nat (e_sz g * ?i)"
    unfolding u by simp
  show "?i < n_ent g"
    using assms(1) u unfolding ptr_ok_def by (metis mult_less_cancel1)
qed simp

lemma ptr_okI:
  assumes "geom_ok g" and "i < n_ent g"
  shows "ptr_ok g (of_nat (e_sz g * i))" and "ent_idx g (of_nat (e_sz g * i)) = i"
    and "unat (of_nat (e_sz g * i) :: u32) = e_sz g * i"
proof -
  have lt: "e_sz g * i < e_sz g * n_ent g"
    using assms geom_okD(1) by simp
  then show u: "unat (of_nat (e_sz g * i) :: u32) = e_sz g * i"
    using geom_okD(4) [OF assms(1)] by (intro unat_of_nat_32) linarith
  show "ptr_ok g (of_nat (e_sz g * i))"
    unfolding ptr_ok_def u using lt by simp
  show "ent_idx g (of_nat (e_sz g * i)) = i"
    unfolding ent_idx_def u using geom_okD(1) [OF assms(1)] by simp
qed

lemma entry_size_of_nat: "entry_size g = of_nat (e_sz g)"
  by (simp add: e_sz_def)

lemma ring_size_of_nat: "geom_ok g \<Longrightarrow> ring_size g = of_nat (e_sz g * n_ent g)"
  by (rule word_unat_eq_iff [THEN iffD2]) (simp only: geom_okD unat_of_nat_32)

lemma next_ptr_idx:
  assumes "geom_ok g" and "ptr_ok g w"
  shows "next_ptr g w = of_nat (e_sz g * (Suc (ent_idx g w) mod n_ent g))"
    and "ent_idx g (next_ptr g w) = Suc (ent_idx g w) mod n_ent g"
    and "ptr_ok g (next_ptr g w)"
proof -
  obtain i where i: "i < n_ent g" "w = of_nat (e_sz g * i)" "ent_idx g w = i"
    using ptr_okE [OF assms(2,1)] by metis
  show n: "next_ptr g w = of_nat (e_sz g * (Suc (ent_idx g w) mod n_ent g))"
    using i ring_advance_mod [OF i(1) geom_okD(4) [OF assms(1)]]
    unfolding next_ptr_def entry_size_of_nat ring_size_of_nat [OF assms(1)] by (simp only:)
  have "Suc (ent_idx g w) mod n_ent g < n_ent g"
    using geom_okD(2) [OF assms(1)] by simp
  then show "ent_idx g (next_ptr g w) = Suc (ent_idx g w) mod n_ent g"
    and "ptr_ok g (next_ptr g w)"
    unfolding n by (simp_all only: ptr_okI [OF assms(1)])
qed

lemma next_ptr_cmp:
  assumes "geom_ok g" and "ptr_ok g w"
  shows "(if w + entry_size g = ring_size g then 0 else w + entry_size g) = next_ptr g w"
proof -
  obtain i where i: "i < n_ent g" "w = of_nat (e_sz g * i)" "ent_idx g w = i"
    using ptr_okE [OF assms(2,1)] by metis
  show ?thesis
    unfolding next_ptr_idx(1) [OF assms] unfolding entry_size_of_nat ring_size_of_nat [OF assms(1)]
    using ring_advance_cmp [OF i(1) geom_okD(4) [OF assms(1)] geom_okD(1) [OF assms(1)]] i by (simp only:)
qed

lemma ent_idx_inject:
  assumes "geom_ok g" "ptr_ok g a" "ptr_ok g b"
  shows "ent_idx g a = ent_idx g b \<longleftrightarrow> a = b"
  using assms by (metis ptr_okE)

lemma ent_idx_less: "geom_ok g \<Longrightarrow> ptr_ok g a \<Longrightarrow> ent_idx g a < n_ent g"
  by (metis ptr_okE)

lemma ring_dist_less: "geom_ok g \<Longrightarrow> ring_dist g a b < n_ent g"
  by (simp add: ring_dist_def geom_okD)

text \<open>Distances on a ring of indices.\<close>

lemma mod_dist_cases:
  fixes a b n :: nat
  assumes "a < n" "b < n"
  shows "(b + n - a) mod n = (if a \<le> b then b - a else b + n - a)"
  using assms by (auto simp: mod_if)

lemma mod_dist_Suc:
  fixes a b n :: nat
  assumes "a < n" "b < n" and "Suc b mod n \<noteq> a"
  shows "(Suc b mod n + n - a) mod n = Suc ((b + n - a) mod n)"
  using assms by (cases "Suc b = n") (auto simp: mod_dist_cases mod_if)

lemma mod_dist_full:
  fixes a b n :: nat
  assumes "a < n" "b < n"
  shows "Suc b mod n = a \<longleftrightarrow> Suc ((b + n - a) mod n) = n"
  using assms by (cases "Suc b = n") (auto simp: mod_dist_cases)

lemma ring_dist_next:
  assumes "geom_ok g" "ptr_ok g a" "ptr_ok g b"
  shows "next_ptr g b = a \<longleftrightarrow> Suc (ring_dist g a b) = n_ent g"
    and "next_ptr g b \<noteq> a \<Longrightarrow> ring_dist g a (next_ptr g b) = Suc (ring_dist g a b)"
proof -
  note lt = ent_idx_less [OF assms(1,2)] ent_idx_less [OF assms(1,3)]
  note nx = next_ptr_idx(2,3) [OF assms(1,3)]
  have eq: "next_ptr g b = a \<longleftrightarrow> Suc (ent_idx g b) mod n_ent g = ent_idx g a"
    using ent_idx_inject [OF assms(1) nx(2) assms(2)] nx(1) by metis
  show "next_ptr g b = a \<longleftrightarrow> Suc (ring_dist g a b) = n_ent g"
    unfolding eq ring_dist_def by (rule mod_dist_full [OF lt])
  show "ring_dist g a (next_ptr g b) = Suc (ring_dist g a b)" if "next_ptr g b \<noteq> a"
    using that unfolding eq ring_dist_def nx(1) by (rule mod_dist_Suc [OF lt])
qed

text \<open>The arithmetic of \<^verbatim>\<open>src_num_free\<close>.\<close>

lemma num_free_arith:
  assumes "geom_ok g" "ptr_ok g tp" "ptr_ok g hp"
  shows "sint ((if tp > hp then tp - hp else ring_size g - hp + tp) div entry_size g - 1)
         = int (n_ent g) - 1 - int (ring_dist g tp hp)"
proof -
  obtain t where t: "t < n_ent g" "ent_idx g tp = t" "unat tp = e_sz g * t"
    using ptr_okE [OF assms(2,1)] by metis
  obtain h where h: "h < n_ent g" "ent_idx g hp = h" "unat hp = e_sz g * h"
    using ptr_okE [OF assms(3,1)] by metis
  note g = geom_okD [OF assms(1)]
  let ?d = "if h < t then t - h else n_ent g - h + t"
  have gt: "tp > hp \<longleftrightarrow> h < t"
    using g(1) by (simp add: word_less_nat_alt t h)
  have le: "e_sz g * h \<le> e_sz g * n_ent g"
    using h(1) by simp
  have u: "unat (if tp > hp then tp - hp else ring_size g - hp + tp) = e_sz g * ?d"
  proof (cases "h < t")
    case True
    then show ?thesis
      using gt by (simp add: unat_sub word_le_nat_alt t h diff_mult_distrib2)
  next
    case False
    have 1: "unat (ring_size g - hp) = e_sz g * (n_ent g - h)"
      using le by (simp add: unat_sub word_le_nat_alt g(5) h diff_mult_distrib2)
    have "e_sz g * (n_ent g - h) + e_sz g * t \<le> e_sz g * n_ent g"
      unfolding distrib_left [symmetric] using False h(1) by (intro mult_le_mono2) linarith
    then have "unat (ring_size g - hp) + unat tp < 2 ^ 32"
      using g(4) 1 t by linarith
    then have "unat (ring_size g - hp + tp) = unat (ring_size g - hp) + unat tp"
      by (subst unat_add_lem [THEN iffD1]) simp_all
    then show ?thesis
      using False gt 1 t by (simp add: distrib_left)
  qed
  let ?w = "(if tp > hp then tp - hp else ring_size g - hp + tp) div entry_size g"
  have "unat ?w = ?d"
    using g(1) u unfolding unat_div by (simp add: e_sz_def)
  moreover have d: "1 \<le> ?d" "?d \<le> n_ent g"
    using t h by auto
  ultimately have "unat (?w - 1) = ?d - 1"
    by (subst unat_sub) (simp_all only: word_le_nat_alt unat_1)
  then have "uint (?w - 1) = int ?d - 1"
    using d(1) unfolding uint_nat by (simp only: of_nat_diff of_nat_1)
  moreover have "sint (?w - 1) = uint (?w - 1)"
    using calculation d g(3) by (simp add: sint_uint signed_take_bit_int_eq_self)
  moreover have "int ?d - 1 = int (n_ent g) - 1 - int (ring_dist g tp hp)"
    using t h d by (auto simp: ring_dist_def mod_dist_cases)
  ultimately show ?thesis by simp
qed

section \<open>Contents\<close>

lemma unat_of_nat_64: "m < 2 ^ 64 \<Longrightarrow> unat (of_nat m :: u64) = m"
  by (rule of_nat_inverse) simp_all

lemma of_nat_64_eq_iff:
  "a < 2 ^ 64 \<Longrightarrow> b < 2 ^ 64 \<Longrightarrow> (of_nat a :: u64) = of_nat b \<longleftrightarrow> a = b"
  by (metis unat_of_nat_64)

lemma write_words_other:
  assumes "\<And>k. k < length ws \<Longrightarrow> x \<noteq> a + of_nat (4 * k)"
  shows "write_words a ws m x = m x"
  using assms
proof (induction ws arbitrary: a m)
  case (Cons w ws)
  have "x \<noteq> (a + 4) + of_nat (4 * k)" if "k < length ws" for k
    using Cons.prems [of "Suc k"] that by (simp add: add.assoc)
  moreover have "x \<noteq> a"
    using Cons.prems [of 0] by simp
  ultimately have "write_words (a + 4) ws (m(a := w)) x = (m(a := w)) x"
    by (intro Cons.IH)
  with \<open>x \<noteq> a\<close> show ?case
    by simp
qed simp

lemma write_words_nth:
  assumes "k < length ws" and "4 * length ws < 2 ^ 64"
  shows "write_words a ws m (a + of_nat (4 * k)) = ws ! k"
  using assms
proof (induction ws arbitrary: a m k)
  case (Cons w ws)
  show ?case
  proof (cases k)
    case 0
    have "a \<noteq> (a + 4) + of_nat (4 * j)" if "j < length ws" for j
    proof -
      have "(of_nat (4 + 4 * j) :: u64) \<noteq> of_nat 0"
        using Cons.prems(2) that by (subst of_nat_64_eq_iff) simp_all
      then show ?thesis by (simp add: add.assoc)
    qed
    then show ?thesis
      using 0 write_words_other [of ws a "a + 4" "m(a := w)"] by simp
  next
    case (Suc j)
    have "write_words (a + 4) ws (m(a := w)) ((a + 4) + of_nat (4 * j)) = ws ! j"
      using Suc Cons.prems by (intro Cons.IH) simp_all
    with Suc show ?thesis
      by (simp add: add.assoc)
  qed
qed simp

lemma entry_word_addr:
  assumes "geom_ok g" "i < n_ent g" "k < e_sz g"
  shows "entry_addr g i + of_nat (4 * k) = ring_base_vaddr g + of_nat (4 * (e_sz g * i + k))"
    and "4 * (e_sz g * i + k) + 4 \<le> 4 * (e_sz g * n_ent g)"
proof -
  show "entry_addr g i + of_nat (4 * k) = ring_base_vaddr g + of_nat (4 * (e_sz g * i + k))"
    by (simp add: entry_addr_def algebra_simps)
  have "e_sz g * i + k + 1 \<le> e_sz g * Suc i"
    using assms(3) by simp
  also have "\<dots> \<le> e_sz g * n_ent g"
    using assms(2) by (intro mult_le_mono2) simp
  finally show "4 * (e_sz g * i + k) + 4 \<le> 4 * (e_sz g * n_ent g)"
    by simp
qed

lemma entry_word_addr_inject:
  assumes "geom_ok g" "i < n_ent g" "k < e_sz g" "j < n_ent g" "l < e_sz g"
    and "entry_addr g i + of_nat (4 * k) = entry_addr g j + of_nat (4 * l)"
  shows "i = j \<and> k = l"
proof -
  have "(of_nat (4 * (e_sz g * i + k)) :: u64) = of_nat (4 * (e_sz g * j + l))"
    using assms(6) unfolding entry_word_addr [OF assms(1,2,3)] entry_word_addr [OF assms(1,4,5)]
    by (simp only: add_left_cancel)
  then have "e_sz g * i + k = e_sz g * j + l"
    using entry_word_addr(2) [OF assms(1,2,3)] entry_word_addr(2) [OF assms(1,4,5)]
      geom_okD(4) [OF assms(1)] by (subst (asm) of_nat_64_eq_iff) simp_all
  then have "(e_sz g * i + k) div e_sz g = (e_sz g * j + l) div e_sz g"
    and "(e_sz g * i + k) mod e_sz g = (e_sz g * j + l) mod e_sz g" by simp_all
  then show ?thesis
    using assms(3,5) by simp
qed

lemma outside_neq:
  assumes "geom_ok g" "outside g a" "i < n_ent g" "k < e_sz g"
  shows "a \<noteq> entry_addr g i + of_nat (4 * k)"
proof
  assume "a = entry_addr g i + of_nat (4 * k)"
  then have "unat (a - ring_base_vaddr g) = 4 * (e_sz g * i + k)"
    unfolding entry_word_addr [OF assms(1,3,4)]
    using entry_word_addr(2) [OF assms(1,3,4)] geom_okD(4) [OF assms(1)]
    by (simp add: unat_of_nat_64 del: of_nat_mult of_nat_add)
  with assms(2) entry_word_addr(2) [OF assms(1,3,4)] show False
    by (simp add: outside_def)
qed

lemma entry_words_write_same:
  assumes "geom_ok g" "length ws = e_sz g"
  shows "entry_words g (write_words (entry_addr g i) ws m) i = ws"
proof (rule nth_equalityI)
  have "e_sz g \<le> e_sz g * n_ent g"
    using geom_okD(2) [OF assms(1)] by simp
  with geom_okD(4) [OF assms(1)] have "e_sz g < 2 ^ 32"
    by linarith
  then have *: "4 * length ws < 2 ^ 64"
    using assms(2) by simp
  fix k
  assume "k < length (entry_words g (write_words (entry_addr g i) ws m) i)"
  then show "entry_words g (write_words (entry_addr g i) ws m) i ! k = ws ! k"
    using write_words_nth [OF _ *] assms(2) by (simp add: entry_words_def del: of_nat_mult)
qed (simp add: entry_words_def assms)

lemma entry_words_write_other:
  assumes "geom_ok g" "length ws = e_sz g" "i < n_ent g" "j < n_ent g" "i \<noteq> j"
  shows "entry_words g (write_words (entry_addr g i) ws m) j = entry_words g m j"
  unfolding entry_words_def using assms
  by (intro map_cong refl write_words_other) (auto dest: entry_word_addr_inject)

lemma entry_words_cong_outside:
  assumes "geom_ok g" "outside g a" "i < n_ent g"
  shows "entry_words g (m(a := v)) i = entry_words g m i"
  unfolding entry_words_def using outside_neq [OF assms]
  by (intro map_cong refl) (metis atLeastLessThan_iff atLeastLessThan_upt fun_upd_other)

lemma write_words_outside:
  assumes "geom_ok g" "outside g a" "i < n_ent g" "length ws = e_sz g"
  shows "write_words (entry_addr g i) ws m a = m a"
  using assms by (intro write_words_other) (auto dest: outside_neq)

lemma length_pending: "length (pending g m tp hp) = ring_dist g tp hp"
  by (simp add: pending_def)

lemma mod_idx_neq:
  fixes a b n j :: nat
  assumes "a < n" "b < n" "j < (b + n - a) mod n"
  shows "(a + j) mod n \<noteq> b"
  using assms by (cases "a + j < n") (auto simp: mod_dist_cases le_mod_geq split: if_splits)

lemma mod_idx_eq:
  fixes a b n :: nat
  assumes "a < n" "b < n"
  shows "(a + (b + n - a) mod n) mod n = b"
  using assms by (simp add: mod_dist_cases)

lemma pending_append:
  assumes "geom_ok g" "ptr_ok g tp" "ptr_ok g hp" "next_ptr g hp \<noteq> tp" "length ws = e_sz g"
  shows "pending g (write_words (entry_addr g (ent_idx g hp)) ws m) tp (next_ptr g hp)
         = pending g m tp hp @ [ws]"
proof -
  note lt = ent_idx_less [OF assms(1,2)] ent_idx_less [OF assms(1,3)]
  let ?m = "write_words (entry_addr g (ent_idx g hp)) ws m"
  let ?i = "\<lambda>j. (ent_idx g tp + j) mod n_ent g"
  have "entry_words g ?m (?i j) = entry_words g m (?i j)" if "j < ring_dist g tp hp" for j
    using that mod_idx_neq [OF lt, of j] geom_okD(2) [OF assms(1)] lt
    by (intro entry_words_write_other [OF assms(1,5)]) (auto simp: ring_dist_def)
  moreover have "?i (ring_dist g tp hp) = ent_idx g hp"
    unfolding ring_dist_def by (rule mod_idx_eq [OF lt])
  ultimately show ?thesis
    unfolding pending_def ring_dist_next(2) [OF assms(1-4)]
    by (simp add: entry_words_write_same [OF assms(1,5)])
qed

lemma pending_outside:
  assumes "geom_ok g" "outside g a"
  shows "pending g (m(a := v)) tp hp = pending g m tp hp"
  unfolding pending_def using geom_okD(2) [OF assms(1)]
  by (intro map_cong refl entry_words_cong_outside [OF assms]) simp

lemma mod_dist_split:
  fixes a b c n :: nat
  assumes "a < n" "b < n" "c < n" "(b + n - a) mod n \<le> (c + n - a) mod n"
  shows "(c + n - b) mod n = (c + n - a) mod n - (b + n - a) mod n"
  using assms by (auto simp: mod_dist_cases split: if_splits)

lemma pending_consume:
  assumes "geom_ok g" "ptr_ok g tp" "ptr_ok g tp'" "ptr_ok g hp"
    and "ring_dist g tp tp' \<le> ring_dist g tp hp"
  shows "pending g m tp' hp = drop (ring_dist g tp tp') (pending g m tp hp)"
proof (rule nth_equalityI)
  note lt = ent_idx_less [OF assms(1,2)] ent_idx_less [OF assms(1,3)] ent_idx_less [OF assms(1,4)]
  have d: "ring_dist g tp' hp = ring_dist g tp hp - ring_dist g tp tp'"
    using mod_dist_split [OF lt] assms(5) by (simp add: ring_dist_def)
  then show "length (pending g m tp' hp) = length (drop (ring_dist g tp tp') (pending g m tp hp))"
    by (simp add: length_pending)
  fix j
  assume "j < length (pending g m tp' hp)"
  then have j: "j < ring_dist g tp hp - ring_dist g tp tp'"
    by (simp add: length_pending d)
  have "(ent_idx g tp' + j) mod n_ent g = (ent_idx g tp + (ring_dist g tp tp' + j)) mod n_ent g"
    using mod_idx_eq [OF lt(1,2)] unfolding ring_dist_def by (metis add.assoc mod_add_left_eq)
  then show "pending g m tp' hp ! j = drop (ring_dist g tp tp') (pending g m tp hp) ! j"
    using j by (simp add: pending_def d less_diff_conv add.commute)
qed

lemma geom_frame [simp]:
  "geom_ok (g\<lparr>srng_u := u\<rparr>) = geom_ok g" "ptr_ok (g\<lparr>srng_u := u\<rparr>) = ptr_ok g"
  "n_ent (g\<lparr>srng_u := u\<rparr>) = n_ent g" "e_sz (g\<lparr>srng_u := u\<rparr>) = e_sz g"
  "ent_idx (g\<lparr>srng_u := u\<rparr>) = ent_idx g" "next_ptr (g\<lparr>srng_u := u\<rparr>) = next_ptr g"
  "outside (g\<lparr>srng_u := u\<rparr>) = outside g" "pending (g\<lparr>srng_u := u\<rparr>) = pending g"
  "ring_dist (g\<lparr>srng_u := u\<rparr>) = ring_dist g" "entry_addr (g\<lparr>srng_u := u\<rparr>) = entry_addr g"
  "geom_ok (g\<lparr>timestamp := t\<rparr>) = geom_ok g" "ptr_ok (g\<lparr>timestamp := t\<rparr>) = ptr_ok g"
  "n_ent (g\<lparr>timestamp := t\<rparr>) = n_ent g" "e_sz (g\<lparr>timestamp := t\<rparr>) = e_sz g"
  "ent_idx (g\<lparr>timestamp := t\<rparr>) = ent_idx g" "next_ptr (g\<lparr>timestamp := t\<rparr>) = next_ptr g"
  "outside (g\<lparr>timestamp := t\<rparr>) = outside g" "pending (g\<lparr>timestamp := t\<rparr>) = pending g"
  "ring_dist (g\<lparr>timestamp := t\<rparr>) = ring_dist g" "entry_addr (g\<lparr>timestamp := t\<rparr>) = entry_addr g"
  by (simp_all add: fun_eq_iff geom_ok_def ptr_ok_def n_ent_def e_sz_def ent_idx_def next_ptr_def
      outside_def pending_def ring_dist_def entry_addr_def entry_words_def)

lemma entry_ptr_addr:
  assumes "geom_ok g" "ptr_ok g w"
  shows "entry_addr g (ent_idx g w) = ring_base_vaddr g + 4 * ucast w"
proof -
  have "unat w = e_sz g * ent_idx g w"
    by (rule ptr_okE [OF assms(2,1)]) simp
  then have "(ucast w :: u64) = of_nat (e_sz g * ent_idx g w)"
    by (metis of_nat_unat)
  then show ?thesis
    by (simp add: entry_addr_def)
qed

lemma next_ptr_funpow:
  assumes "geom_ok g" "ptr_ok g w"
  shows "ptr_ok g ((next_ptr g ^^ k) w)"
    and "ent_idx g ((next_ptr g ^^ k) w) = (ent_idx g w + k) mod n_ent g"
proof (induction k)
  case 0
  show "ptr_ok g ((next_ptr g ^^ 0) w)" and "ent_idx g ((next_ptr g ^^ 0) w) = (ent_idx g w + 0) mod n_ent g"
    using assms ent_idx_less by simp_all
next
  case (Suc k)
  note n = next_ptr_idx(2,3) [OF assms(1) Suc(1)]
  show "ptr_ok g ((next_ptr g ^^ Suc k) w)"
    using n by simp
  show "ent_idx g ((next_ptr g ^^ Suc k) w) = (ent_idx g w + Suc k) mod n_ent g"
    using n Suc(2) by (simp add: mod_Suc_eq)
qed

lemma ring_dist_funpow:
  assumes "geom_ok g" "ptr_ok g w" "k < n_ent g"
  shows "ring_dist g w ((next_ptr g ^^ k) w) = k"
proof -
  have "((i + k) mod n + n - i) mod n = k" if "i < n" "k < n" for i n :: nat
    using that by (cases "i + k < n") (auto simp: le_mod_geq)
  then show ?thesis
    unfolding ring_dist_def next_ptr_funpow(2) [OF assms(1,2)]
    using ent_idx_less [OF assms(1,2)] assms(3) by blast
qed

lemma pending_Nil_iff:
  assumes "geom_ok g" "ptr_ok g tp" "ptr_ok g hp"
  shows "pending g m tp hp = [] \<longleftrightarrow> tp = hp"
proof -
  note lt = ent_idx_less [OF assms(1,2)] ent_idx_less [OF assms(1,3)]
  have "pending g m tp hp = [] \<longleftrightarrow> ring_dist g tp hp = 0"
    by (metis length_pending length_0_conv)
  also have "\<dots> \<longleftrightarrow> ent_idx g tp = ent_idx g hp"
    using lt by (auto simp: ring_dist_def mod_dist_cases)
  finally show ?thesis
    by (simp add: ent_idx_inject [OF assms])
qed

lemma pending_Cons:
  assumes "geom_ok g" "ptr_ok g tp" "ptr_ok g hp" "tp \<noteq> hp"
  shows "pending g m tp hp = entry_words g m (ent_idx g tp) # pending g m (next_ptr g tp) hp"
proof -
  note lt = ent_idx_less [OF assms(1,2)] ent_idx_less [OF assms(1,3)]
  have "0 < ring_dist g tp hp"
    using pending_Nil_iff [OF assms(1-3), of m] assms(4)
    by (metis length_greater_0_conv length_pending)
  moreover from this have "ring_dist g tp (next_ptr g tp) = 1"
    using ring_dist_funpow [OF assms(1,2), of 1] ring_dist_less [OF assms(1), of tp hp] by simp
  ultimately have "pending g m (next_ptr g tp) hp = drop 1 (pending g m tp hp)"
    using pending_consume [OF assms(1,2) next_ptr_idx(3) [OF assms(1,2)] assms(3), of m] by simp
  moreover have "pending g m tp hp ! 0 = entry_words g m (ent_idx g tp)"
    using \<open>0 < ring_dist g tp hp\<close> lt by (simp add: pending_def)
  ultimately show ?thesis
    using \<open>0 < ring_dist g tp hp\<close>
    by (metis Cons_nth_drop_Suc One_nat_def drop0 length_pending)
qed

section \<open>Windows of indices\<close>

lemma length_window [simp]: "length (window n r w) = (w + n - r) mod n"
  by (simp add: window_def)

lemma window_less: "0 < n \<Longrightarrow> j \<in> set (window n r w) \<Longrightarrow> j < n"
  by (auto simp: window_def)

lemma window_not_end: "r < n \<Longrightarrow> w < n \<Longrightarrow> w \<notin> set (window n r w)"
proof
  assume "r < n" "w < n" and "w \<in> set (window n r w)"
  then obtain j where "j < (w + n - r) mod n" "(r + j) mod n = w"
    by (auto simp: window_def)
  then show False
    using mod_idx_neq [OF \<open>r < n\<close> \<open>w < n\<close>] by blast
qed

lemma window_append:
  assumes "r < n" "w < n" "Suc w mod n \<noteq> r"
  shows "window n r (Suc w mod n) = window n r w @ [w]"
  using mod_dist_Suc [OF assms] mod_idx_eq [OF assms(1,2)] by (simp add: window_def)

lemma window_Cons:
  assumes "r < n" "w < n" "r \<noteq> w"
  shows "window n r w = r # window n (Suc r mod n) w"
proof -
  have pos: "0 < (w + n - r) mod n"
    using assms by (simp add: mod_dist_cases)
  have len: "(w + n - Suc r mod n) mod n = (w + n - r) mod n - 1"
    using assms by (cases "Suc r = n") (auto simp: mod_dist_cases)
  have "[0..<(w + n - r) mod n] = 0 # map Suc [0..<(w + n - r) mod n - 1]"
    using pos by (simp add: upt_conv_Cons map_Suc_upt)
  then show ?thesis
    using assms(1) unfolding window_def len by (simp add: mod_add_left_eq)
qed

lemma window_distinct: "r < n \<Longrightarrow> distinct (window n r w)"
proof -
  assume "r < n"
  have "inj_on (\<lambda>j. (r + j) mod n) {0..<(w + n - r) mod n}"
  proof (rule inj_onI)
    fix x y
    assume "x \<in> {0..<(w + n - r) mod n}" "y \<in> {0..<(w + n - r) mod n}"
      and eq: "(r + x) mod n = (r + y) mod n"
    moreover have "(w + n - r) mod n < n"
      using \<open>r < n\<close> by simp
    ultimately have "x < n" "y < n" by simp_all
    then show "x = y"
      using eq \<open>r < n\<close> by (cases "r + x < n"; cases "r + y < n") (auto simp: le_mod_geq)
  qed
  then show ?thesis by (simp add: window_def distinct_map)
qed

end
