(* ===== verification/Samples.thy ===== *)
theory Samples
  imports Hal
begin

text \<open>
  Small concrete states on which the theorems of the development are instantiated: a driver with
  four-entry rings, two receive buffers posted, one more buffer allocated, and an environment that
  grants every request.
\<close>

definition sample_skb :: "u64 \<Rightarrow> sk_buff" where
  "sample_skb paddr = \<lparr>skb_buf = replicate 16 0, skb_data = 4, skb_tail = 4,
     skb_cb = \<lparr>cb_paddr = paddr, cb_flags = 0, cb_cipher = 0, cb_vif = None\<rparr>, skb_tx_flags = 0\<rparr>"

definition sample_env :: kenv where
  "sample_env = \<lparr>env_kmalloc = (\<lambda>_. True),
     env_dma_alloc = (\<lambda>c _. (of_nat (0x100000 * Suc c), of_nat (0x900000 * Suc c))),
     env_alloc_skb = (\<lambda>_ n. Some \<lparr>skb_buf = replicate n 0, skb_data = 0, skb_tail = 0,
       skb_cb = \<lparr>cb_paddr = 0, cb_flags = 0, cb_cipher = 0, cb_vif = None\<rparr>, skb_tx_flags = 0\<rparr>),
     env_dma_map = (\<lambda>c. Some (of_nat (0x7000 + c))),
     env_ioread = (\<lambda>_ _. 1), env_big_endian = False\<rparr>"

definition sample_src :: "nat \<Rightarrow> u64 \<Rightarrow> u32 \<Rightarrow> u32 \<Rightarrow> hal_srng" where
  "sample_src rid base e hp = hal_srng_zero\<lparr>ring_id := of_nat rid, initialized := 1,
     ring_base_vaddr := base, num_entries := 4, ring_size := e * 4, entry_size := e,
     ring_dir := HAL_SRNG_DIR_SRC,
     srng_u := SrcRing (src_ring_zero\<lparr>src_hp := hp, src_tp_addr := 0x1000 + 4 * of_nat rid,
       src_hp_addr := 0xf0010080 + 256 * of_nat rid\<rparr>)\<rparr>"

definition sample_dst :: "nat \<Rightarrow> u64 \<Rightarrow> u32 \<Rightarrow> hal_srng" where
  "sample_dst rid base e = hal_srng_zero\<lparr>ring_id := of_nat rid, initialized := 1,
     ring_base_vaddr := base, num_entries := 4, ring_size := e * 4, entry_size := e,
     ring_dir := HAL_SRNG_DIR_DST,
     srng_u := DstRing (dst_ring_zero\<lparr>dst_hp_addr := 0x1000 + 4 * of_nat rid,
       dst_tp_addr := 0xf0010080 + 256 * of_nat rid\<rparr>)\<rparr>"

definition sample_hal :: wireless_simu_hal where
  "sample_hal = hal_zero\<lparr>
     srng_list := (\<lambda>i. if i = 125 then sample_src 125 0x2000 5 0 else if i = 8 then sample_src 8 0x3000 3 6
       else if i = 1 then sample_dst 1 0x4000 2 else hal_srng_zero),
     srng_config := Some (0, hw_srng_config_template), rdp_vaddr := 0x1000, rdp_paddr := 0x91000,
     wrp_vaddr := 0x1400, wrp_paddr := 0x91400\<rparr>"

definition sample_ring :: "u32 \<Rightarrow> u32 \<Rightarrow> skbp option list \<Rightarrow> srng_test_ring" where
  "sample_ring rid w skbs = \<lparr>ring_kptr = 0, nentries = 4, nentries_mask = 3, sw_index = 0,
     write_index = w, base_addr_owner_space_unaligned = 0, base_addr_test_space_unaligned = 0,
     dma_size = 0, base_addr_owner_space = 0, base_addr_test_space = 0, hal_ring_id = rid,
     ring_skb = skbs\<rparr>"

definition sample_pipe :: srng_test_pipe where
  "sample_pipe = \<lparr>pipe_num = 0, pipe_attr_flags = 0, buf_sz = 12, rx_buf_needed = 0,
     pipe_recv_cb = None, pipe_send_cb = None, pipe_src_ring = None, pipe_dst_ring = None,
     pipe_status_ring = None\<rparr>"

definition sample_tx :: srng_test where
  "sample_tx = \<lparr>pipes_count = 1,
     pipes = [sample_pipe\<lparr>pipe_src_ring := Some (sample_ring 125 0 [None, None, None, None])\<rparr>],
     host_config = Some (0, srng_test_configs)\<rparr>"

definition sample :: wireless_simu where
  "sample = \<lparr>k_mem = (\<lambda>_. 0), k_dma = [(0x1000, 0x4000, 0x91000)], k_maps = [(0x7001, 12), (0x7002, 12)],
     k_heap = [0], k_skbs = (\<lambda>p. if 1 \<le> p \<and> p \<le> 3 then Some (sample_skb (of_nat (0x7000 + p))) else None),
     k_held = [], k_iomapped = True, k_calls = 10, k_jiffies = 0, k_trace = [],
     mmio_addr = 0xf0000000, hal = sample_hal,
     st_dst = \<lparr>pipes_count = 1,
       pipes = [sample_pipe\<lparr>pipe_dst_ring := Some (sample_ring 8 2 [Some 1, Some 2, None, None]),
                           pipe_status_ring := Some (sample_ring 1 0 [None, None, None, None])\<rparr>],
       host_config = Some (0, srng_test_dst_configs)\<rparr>\<rparr>"

lemmas sample_defs = sample_def sample_tx_def sample_hal_def sample_pipe_def sample_ring_def sample_src_def
  sample_dst_def hal_zero_def hal_srng_zero_def src_ring_zero_def dst_ring_zero_def sample_skb_def

end
