(* ===== verification/Srng_Access.thy ===== *)
theory Srng_Access
  imports Hal Ring_Geometry Samples
begin

text \<open>
  The ring protocol of \<^verbatim>\<open>driver/driver_wireless/wireless_hal.c\<close>, lines 623 to 770: begin an
  access (read the device's pointer), take entries, end the access (publish the driver's
  pointer). Positions are in 32-bit units; an entry pointer is the virtual base address plus
  four times the position.
\<close>

section \<open>Operations\<close>

definition wireless_simu_hal_srng_access_begin ::
  "nat \<Rightarrow> 'a wireless_simu_scheme \<Rightarrow> 'a wireless_simu_scheme option" where
  "wireless_simu_hal_srng_access_begin rid s = do {
     let s = lockdep_assert_held (SrngLock rid) s;
     srng \<leftarrow> get_srng rid s;
     if ring_dir srng = HAL_SRNG_DIR_SRC then do {
       r \<leftarrow> src_of srng;
       tp \<leftarrow> mem_read (src_tp_addr r) s;
       Some (set_srng rid (srng\<lparr>srng_u := SrcRing (r\<lparr>cached_tp := tp\<rparr>)\<rparr>) s)
     } else do {
       r \<leftarrow> dst_of srng;
       hp \<leftarrow> mem_read (dst_hp_addr r) s;
       Some (set_srng rid (srng\<lparr>srng_u := DstRing (r\<lparr>cached_hp := hp\<rparr>)\<rparr>) s)
     }
   }"

text \<open>
  The unsigned expression is converted to \<^verbatim>\<open>int\<close> on return, hence \<^verbatim>\<open>sint\<close>; the division traps
  when the entry size is 0.
\<close>

definition wireless_simu_hal_srng_src_num_free ::
  "nat \<Rightarrow> bool \<Rightarrow> 'a wireless_simu_scheme \<Rightarrow> (int \<times> 'a wireless_simu_scheme) option" where
  "wireless_simu_hal_srng_src_num_free rid sync_hw_ptr s = do {
     let s = lockdep_assert_held (SrngLock rid) s;
     srng \<leftarrow> get_srng rid s;
     r \<leftarrow> src_of srng;
     let hp = src_hp r;
     (tp, s) \<leftarrow> (if sync_hw_ptr then do {
                    tp \<leftarrow> mem_read (src_tp_addr r) s;
                    Some (tp, set_srng rid (srng\<lparr>srng_u := SrcRing (r\<lparr>cached_tp := tp\<rparr>)\<rparr>) s)
                  } else Some (cached_tp r, s));
     if entry_size srng = 0 then None
     else if tp > hp then Some (sint ((tp - hp) div entry_size srng - 1), s)
     else Some (sint ((ring_size srng - hp + tp) div entry_size srng - 1), s)
   }"

definition wireless_simu_hal_srng_access_end ::
  "nat \<Rightarrow> 'a wireless_simu_scheme \<Rightarrow> 'a wireless_simu_scheme option" where
  "wireless_simu_hal_srng_access_end rid s = do {
     let s = lockdep_assert_held (SrngLock rid) s;
     srng \<leftarrow> get_srng rid s;
     (srng, s) \<leftarrow>
       (if flags srng AND HAL_SRNG_FLAGS_LMAC_RING \<noteq> 0 then
          (if ring_dir srng = HAL_SRNG_DIR_SRC then do {
             r \<leftarrow> src_of srng;
             tp \<leftarrow> mem_read (src_tp_addr r) s;
             s \<leftarrow> mem_write (src_hp_addr r) (src_hp r) s;
             Some (srng\<lparr>srng_u := SrcRing (r\<lparr>last_tp := tp\<rparr>)\<rparr>, s)
           } else do {
             r \<leftarrow> dst_of srng;
             hp \<leftarrow> mem_read (dst_hp_addr r) s;
             s \<leftarrow> mem_write (dst_tp_addr r) (dst_tp r) s;
             Some (srng\<lparr>srng_u := DstRing (r\<lparr>last_hp := hp\<rparr>)\<rparr>, s)
           })
        else
          (if ring_dir srng = HAL_SRNG_DIR_SRC then do {
             r \<leftarrow> src_of srng;
             tp \<leftarrow> mem_read (src_tp_addr r) s;
             s \<leftarrow> wireless_hif_write32 (ucast (src_hp_addr r - mmio_addr s)) (src_hp r) s;
             Some (srng\<lparr>srng_u := SrcRing (r\<lparr>last_tp := tp\<rparr>)\<rparr>, s)
           } else do {
             r \<leftarrow> dst_of srng;
             hp \<leftarrow> mem_read (dst_hp_addr r) s;
             s \<leftarrow> wireless_hif_write32 (ucast (dst_tp_addr r - mmio_addr s)) (dst_tp r) s;
             Some (srng\<lparr>srng_u := DstRing (r\<lparr>last_hp := hp\<rparr>)\<rparr>, s)
           }));
     Some (set_srng rid (srng\<lparr>timestamp := k_jiffies s\<rparr>) s)
   }"

text \<open>The remainder traps when the ring size is 0.\<close>

definition wireless_simu_hal_srng_src_get_next_reaped ::
  "nat \<Rightarrow> 'a wireless_simu_scheme \<Rightarrow> (u64 option \<times> 'a wireless_simu_scheme) option" where
  "wireless_simu_hal_srng_src_get_next_reaped rid s = do {
     let s = lockdep_assert_held (SrngLock rid) s;
     srng \<leftarrow> get_srng rid s;
     r \<leftarrow> src_of srng;
     if src_hp r = reap_hp r then Some (None, s)
     else if ring_size srng = 0 then None
     else
       let desc = ring_base_vaddr srng + 4 * ucast (src_hp r);
           next_hp = (src_hp r + entry_size srng) mod ring_size srng
       in Some (Some desc, set_srng rid (srng\<lparr>srng_u := SrcRing (r\<lparr>src_hp := next_hp\<rparr>)\<rparr>) s)
   }"

definition wireless_simu_hal_srng_src_get_next_entry ::
  "nat \<Rightarrow> 'a wireless_simu_scheme \<Rightarrow> (u64 option \<times> 'a wireless_simu_scheme) option" where
  "wireless_simu_hal_srng_src_get_next_entry rid s = do {
     let s = lockdep_assert_held (SrngLock rid) s;
     srng \<leftarrow> get_srng rid s;
     r \<leftarrow> src_of srng;
     if ring_size srng = 0 then None
     else
       let next_hp = (src_hp r + entry_size srng) mod ring_size srng
       in if next_hp = cached_tp r then Some (None, s)
          else
            let desc = ring_base_vaddr srng + 4 * ucast (src_hp r)
            in Some (Some desc,
                 set_srng rid (srng\<lparr>srng_u := SrcRing (r\<lparr>src_hp := next_hp, reap_hp := next_hp\<rparr>)\<rparr>) s)
   }"

definition wireless_simu_hal_srng_dst_get_next_entry ::
  "nat \<Rightarrow> 'a wireless_simu_scheme \<Rightarrow> (u64 option \<times> 'a wireless_simu_scheme) option" where
  "wireless_simu_hal_srng_dst_get_next_entry rid s = do {
     let s = lockdep_assert_held (SrngLock rid) s;
     srng \<leftarrow> get_srng rid s;
     r \<leftarrow> dst_of srng;
     if dst_tp r = cached_hp r then Some (None, s)
     else
       let desc = ring_base_vaddr srng + 4 * ucast (dst_tp r);
           tp = dst_tp r + entry_size srng;
           tp = (if tp = ring_size srng then 0 else tp)
       in Some (Some desc, set_srng rid (srng\<lparr>srng_u := DstRing (r\<lparr>dst_tp := tp\<rparr>)\<rparr>) s)
   }"

section \<open>Rings that are ready for use\<close>

text \<open>
  A source ring that the driver may post to: its geometry is sound, head and the device's tail
  are entry offsets, the tail cell and the whole ring lie in live DMA memory and apart from each
  other, and its head is published through a register.
\<close>

definition src_ready :: "nat \<Rightarrow> 'a wireless_simu_scheme \<Rightarrow> bool" where
  "src_ready rid s =
     (case get_srng rid s of
        None \<Rightarrow> False
      | Some g \<Rightarrow> geom_ok g \<and> ring_dir g = HAL_SRNG_DIR_SRC \<and>
          flags g AND HAL_SRNG_FLAGS_LMAC_RING = 0 \<and> k_iomapped s \<and>
          (case srng_u g of
             DstRing _ \<Rightarrow> False
           | SrcRing r \<Rightarrow>
               ptr_ok g (src_hp r) \<and> mem_ok (src_tp_addr r) 4 s \<and>
               ptr_ok g (k_mem s (src_tp_addr r)) \<and> outside g (src_tp_addr r) \<and>
               mem_ok (ring_base_vaddr g) (4 * (e_sz g * n_ent g)) s))"

text \<open>The queue a source ring stands for: the entries the device has not taken yet.\<close>

definition src_queue :: "nat \<Rightarrow> 'a wireless_simu_scheme \<Rightarrow> u32 list list" where
  "src_queue rid s =
     (let g = srng_list (hal s) rid; r = union_src (srng_u g)
      in pending g (k_mem s) (k_mem s (src_tp_addr r)) (src_hp r))"

definition src_capacity :: "nat \<Rightarrow> 'a wireless_simu_scheme \<Rightarrow> nat" where
  "src_capacity rid s = n_ent (srng_list (hal s) rid) - 1"

text \<open>
  The effect of a whole access to a source ring: nothing posted, or one entry with the given
  words. Either way the tail is re-read and the head published.
\<close>

definition src_publish :: "nat \<Rightarrow> 'a wireless_simu_scheme \<Rightarrow> 'a wireless_simu_scheme" where
  "src_publish rid s =
     (let g = srng_list (hal s) rid; r = union_src (srng_u g)
      in set_srng rid (g\<lparr>srng_u := SrcRing (r\<lparr>last_tp := k_mem s (src_tp_addr r)\<rparr>),
                        timestamp := k_jiffies s\<rparr>)
           (emit (EvIoWrite (mmio_addr s + ucast (ucast (src_hp_addr r - mmio_addr s) :: u32))
                    (src_hp r)) s))"

definition src_sync :: "nat \<Rightarrow> 'a wireless_simu_scheme \<Rightarrow> 'a wireless_simu_scheme" where
  "src_sync rid s =
     (let g = srng_list (hal s) rid; r = union_src (srng_u g)
      in set_srng rid (g\<lparr>srng_u := SrcRing (r\<lparr>cached_tp := k_mem s (src_tp_addr r)\<rparr>)\<rparr>) s)"

definition src_slot :: "nat \<Rightarrow> 'a wireless_simu_scheme \<Rightarrow> u64" where
  "src_slot rid s =
     (let g = srng_list (hal s) rid; r = union_src (srng_u g) in entry_addr g (ent_idx g (src_hp r)))"

definition src_advance :: "nat \<Rightarrow> 'a wireless_simu_scheme \<Rightarrow> 'a wireless_simu_scheme" where
  "src_advance rid s =
     (let g = srng_list (hal s) rid; r = union_src (srng_u g); hp = next_ptr g (src_hp r)
      in set_srng rid (g\<lparr>srng_u := SrcRing (r\<lparr>src_hp := hp, reap_hp := hp\<rparr>)\<rparr>) s)"

definition src_push :: "nat \<Rightarrow> u32 list \<Rightarrow> 'a wireless_simu_scheme \<Rightarrow> 'a wireless_simu_scheme" where
  "src_push rid ws s =
     (src_advance rid s)\<lparr>k_mem := write_words (src_slot rid s) ws (k_mem s)\<rparr>"

definition src_refuse :: "nat \<Rightarrow> 'a wireless_simu_scheme \<Rightarrow> 'a wireless_simu_scheme" where
  "src_refuse rid s = src_publish rid (src_sync rid s)"

definition src_commit :: "nat \<Rightarrow> u32 list \<Rightarrow> 'a wireless_simu_scheme \<Rightarrow> 'a wireless_simu_scheme" where
  "src_commit rid ws s = src_publish rid (src_push rid ws (src_sync rid s))"

text \<open>The device takes \<^term>\<open>k\<close> entries: it moves the tail it keeps in memory.\<close>

definition src_consume :: "nat \<Rightarrow> nat \<Rightarrow> 'a wireless_simu_scheme \<Rightarrow> 'a wireless_simu_scheme" where
  "src_consume rid k s =
     (let g = srng_list (hal s) rid; a = src_tp_addr (union_src (srng_u g))
      in s\<lparr>k_mem := (k_mem s)(a := (next_ptr g ^^ k) (k_mem s a))\<rparr>)"

text \<open>
  The same for destination rings: here the device produces and the driver consumes, and the queue
  is what the driver has not read yet.
\<close>

definition dst_ready :: "nat \<Rightarrow> 'a wireless_simu_scheme \<Rightarrow> bool" where
  "dst_ready rid s =
     (case get_srng rid s of
        None \<Rightarrow> False
      | Some g \<Rightarrow> geom_ok g \<and> ring_dir g = HAL_SRNG_DIR_DST \<and>
          flags g AND HAL_SRNG_FLAGS_LMAC_RING = 0 \<and> k_iomapped s \<and>
          (case srng_u g of
             SrcRing _ \<Rightarrow> False
           | DstRing r \<Rightarrow>
               ptr_ok g (dst_tp r) \<and> mem_ok (dst_hp_addr r) 4 s \<and>
               ptr_ok g (k_mem s (dst_hp_addr r)) \<and> outside g (dst_hp_addr r) \<and>
               mem_ok (ring_base_vaddr g) (4 * (e_sz g * n_ent g)) s))"

definition dst_queue :: "nat \<Rightarrow> 'a wireless_simu_scheme \<Rightarrow> u32 list list" where
  "dst_queue rid s =
     (let g = srng_list (hal s) rid; r = union_dst (srng_u g)
      in pending g (k_mem s) (dst_tp r) (k_mem s (dst_hp_addr r)))"

definition dst_sync :: "nat \<Rightarrow> 'a wireless_simu_scheme \<Rightarrow> 'a wireless_simu_scheme" where
  "dst_sync rid s =
     (let g = srng_list (hal s) rid; r = union_dst (srng_u g)
      in set_srng rid (g\<lparr>srng_u := DstRing (r\<lparr>cached_hp := k_mem s (dst_hp_addr r)\<rparr>)\<rparr>) s)"

definition dst_slot :: "nat \<Rightarrow> 'a wireless_simu_scheme \<Rightarrow> u64" where
  "dst_slot rid s =
     (let g = srng_list (hal s) rid; r = union_dst (srng_u g) in entry_addr g (ent_idx g (dst_tp r)))"

definition dst_pop :: "nat \<Rightarrow> 'a wireless_simu_scheme \<Rightarrow> 'a wireless_simu_scheme" where
  "dst_pop rid s =
     (let g = srng_list (hal s) rid; r = union_dst (srng_u g)
      in set_srng rid (g\<lparr>srng_u := DstRing (r\<lparr>dst_tp := next_ptr g (dst_tp r)\<rparr>)\<rparr>) s)"

definition dst_publish :: "nat \<Rightarrow> 'a wireless_simu_scheme \<Rightarrow> 'a wireless_simu_scheme" where
  "dst_publish rid s =
     (let g = srng_list (hal s) rid; r = union_dst (srng_u g)
      in set_srng rid (g\<lparr>srng_u := DstRing (r\<lparr>last_hp := k_mem s (dst_hp_addr r)\<rparr>),
                        timestamp := k_jiffies s\<rparr>)
           (emit (EvIoWrite (mmio_addr s + ucast (ucast (dst_tp_addr r - mmio_addr s) :: u32))
                    (dst_tp r)) s))"

section \<open>Source rings\<close>

lemma src_readyE:
  assumes "src_ready rid s"
  obtains g r where "get_srng rid s = Some g" "srng_list (hal s) rid = g" "srng_u g = SrcRing r"
    "geom_ok g" "ring_dir g = HAL_SRNG_DIR_SRC" "flags g AND HAL_SRNG_FLAGS_LMAC_RING = 0"
    "k_iomapped s" "ptr_ok g (src_hp r)" "mem_ok (src_tp_addr r) 4 s"
    "ptr_ok g (k_mem s (src_tp_addr r))" "outside g (src_tp_addr r)"
    "mem_ok (ring_base_vaddr g) (4 * (e_sz g * n_ent g)) s"
  using assms unfolding src_ready_def get_srng_def
  by (auto split: option.splits srng_union.splits if_splits)

lemma length_src_queue: 
  assumes "src_ready rid s"
  shows "length (src_queue rid s) \<le> src_capacity rid s"
proof -
  let ?g = "srng_list (hal s) rid" and ?r = "union_src (srng_u (srng_list (hal s) rid))"
  have "ring_dist ?g (k_mem s (src_tp_addr ?r)) (src_hp ?r) < n_ent ?g"
    by (rule src_readyE [OF assms]) (simp add: ring_dist_less)
  then show ?thesis
    by (simp add: src_queue_def src_capacity_def length_pending Let_def)
qed

lemma src_ready_consume:
  assumes "src_ready rid s" "k \<le> length (src_queue rid s)"
  shows "src_ready rid (src_consume rid k s)"
    and "src_queue rid (src_consume rid k s) = drop k (src_queue rid s)"
    and "src_capacity rid (src_consume rid k s) = src_capacity rid s"
proof -
  obtain g r where g: "get_srng rid s = Some g" "srng_list (hal s) rid = g" "srng_u g = SrcRing r"
    "geom_ok g" "ring_dir g = HAL_SRNG_DIR_SRC" "flags g AND HAL_SRNG_FLAGS_LMAC_RING = 0"
    "k_iomapped s" "ptr_ok g (src_hp r)" "mem_ok (src_tp_addr r) 4 s"
    "ptr_ok g (k_mem s (src_tp_addr r))" "outside g (src_tp_addr r)"
    "mem_ok (ring_base_vaddr g) (4 * (e_sz g * n_ent g)) s"
    using src_readyE [OF assms(1)] by metis
  let ?t = "k_mem s (src_tp_addr r)"
  have k: "k \<le> ring_dist g ?t (src_hp r)"
    using assms(2) g by (simp add: src_queue_def length_pending)
  then have "k < n_ent g"
    using ring_dist_less [OF g(4)] le_less_trans by blast
  then have d: "ring_dist g ?t ((next_ptr g ^^ k) ?t) = k"
    by (rule ring_dist_funpow [OF g(4,10)])
  show "src_ready rid (src_consume rid k s)"
    using g next_ptr_funpow(1) [OF g(4,10)] by (simp add: src_ready_def src_consume_def Let_def)
  show "src_queue rid (src_consume rid k s) = drop k (src_queue rid s)"
    using g k pending_consume [OF g(4,10) next_ptr_funpow(1) [OF g(4,10)] g(8)] d
    by (simp add: src_queue_def src_consume_def pending_outside Let_def)
  show "src_capacity rid (src_consume rid k s) = src_capacity rid s"
    by (simp add: src_capacity_def src_consume_def Let_def)
qed


lemma access_begin_src:
  assumes "SrngLock rid \<in> set (k_held s)" "src_ready rid s"
  shows "wireless_simu_hal_srng_access_begin rid s = Some (src_sync rid s)"
  by (rule src_readyE [OF assms(2)])
    (simp add: wireless_simu_hal_srng_access_begin_def src_sync_def Let_def k_simps assms(1))

lemma src_ready_sync:
  assumes "src_ready rid s"
  shows "src_ready rid (src_sync rid s)" and "src_queue rid (src_sync rid s) = src_queue rid s"
    and "src_capacity rid (src_sync rid s) = src_capacity rid s"
  by (rule src_readyE [OF assms];
      simp add: src_ready_def src_sync_def src_queue_def src_capacity_def Let_def)+

lemma src_ready_publish:
  assumes "src_ready rid s"
  shows "src_ready rid (src_publish rid s)" and "src_queue rid (src_publish rid s) = src_queue rid s"
    and "src_capacity rid (src_publish rid s) = src_capacity rid s"
  by (rule src_readyE [OF assms];
      simp add: src_ready_def src_publish_def src_queue_def src_capacity_def Let_def)+

lemma access_end_src:
  assumes "SrngLock rid \<in> set (k_held s)" "src_ready rid s"
  shows "wireless_simu_hal_srng_access_end rid s = Some (src_publish rid s)"
  by (rule src_readyE [OF assms(2)])
    (simp add: wireless_simu_hal_srng_access_end_def src_publish_def Let_def k_simps assms(1))

text \<open>The two questions the driver asks a synchronised ring have consistent answers.\<close>

lemma src_num_free_sync:
  assumes "SrngLock rid \<in> set (k_held s)" "src_ready rid s"
  shows "wireless_simu_hal_srng_src_num_free rid False (src_sync rid s) =
    Some (int (src_capacity rid s) - int (length (src_queue rid s)), src_sync rid s)"
proof (rule src_readyE [OF assms(2)])
  fix g r
  assume g: "get_srng rid s = Some g" "srng_list (hal s) rid = g" "srng_u g = SrcRing r"
    "geom_ok g" "ptr_ok g (src_hp r)" "ptr_ok g (k_mem s (src_tp_addr r))"
  have "1 \<le> n_ent g"
    using geom_okD(2) [OF g(4)] by simp
  then show ?thesis
    using g assms(1) num_free_arith [OF g(4,6,5)] geom_okD(6) [OF g(4)]
    by (simp add: wireless_simu_hal_srng_src_num_free_def src_sync_def src_queue_def src_capacity_def
        length_pending Let_def k_simps split: if_splits)
qed

lemma src_get_next_entry_sync:
  assumes "SrngLock rid \<in> set (k_held s)" "src_ready rid s"
  shows "wireless_simu_hal_srng_src_get_next_entry rid (src_sync rid s) =
      (if length (src_queue rid s) = src_capacity rid s then Some (None, src_sync rid s)
       else Some (Some (src_slot rid s), src_advance rid (src_sync rid s)))"
proof (rule src_readyE [OF assms(2)])
  fix g r
  assume g: "get_srng rid s = Some g" "srng_list (hal s) rid = g" "srng_u g = SrcRing r"
    "geom_ok g" "ptr_ok g (src_hp r)" "ptr_ok g (k_mem s (src_tp_addr r))"
  let ?t = "k_mem s (src_tp_addr r)"
  have full: "next_ptr g (src_hp r) = ?t \<longleftrightarrow> ring_dist g ?t (src_hp r) = n_ent g - 1"
    using ring_dist_next(1) [OF g(4,6,5)] geom_okD(2) [OF g(4)] by auto
  have slot: "src_slot rid s = ring_base_vaddr g + 4 * ucast (src_hp r)"
    using g entry_ptr_addr [OF g(4,5)] by (simp add: src_slot_def)
  show ?thesis
    using g assms(1) full geom_okD(7) [OF g(4)]
    by (simp add: wireless_simu_hal_srng_src_get_next_entry_def src_sync_def src_queue_def slot
        src_capacity_def src_advance_def length_pending next_ptr_def [symmetric] Let_def k_simps)
qed

lemma src_slot_ok:
  assumes "src_ready rid s" "k < e_sz (srng_list (hal s) rid)"
  shows "mem_ok (src_slot rid s + of_nat (4 * k)) 4 s"
proof (rule src_readyE [OF assms(1)])
  fix g r
  assume g: "srng_list (hal s) rid = g" "srng_u g = SrcRing r" "geom_ok g" "ptr_ok g (src_hp r)"
    "mem_ok (ring_base_vaddr g) (4 * (e_sz g * n_ent g)) s"
  note w = entry_word_addr [OF g(3) ent_idx_less [OF g(3,4)]]
  show ?thesis
    using g assms(2) w mem_ok_offset [OF g(5)]
    by (simp add: src_slot_def Let_def del: of_nat_mult of_nat_add)
qed

lemma src_ready_push:
  assumes "src_ready rid s" "length (src_queue rid s) < src_capacity rid s"
    and "length ws = e_sz (srng_list (hal s) rid)"
  shows "src_ready rid (src_push rid ws s)"
    and "src_queue rid (src_push rid ws s) = src_queue rid s @ [ws]"
    and "src_capacity rid (src_push rid ws s) = src_capacity rid s"
proof -
  obtain g r where g: "get_srng rid s = Some g" "srng_list (hal s) rid = g" "srng_u g = SrcRing r"
    "geom_ok g" "ring_dir g = HAL_SRNG_DIR_SRC" "flags g AND HAL_SRNG_FLAGS_LMAC_RING = 0"
    "k_iomapped s" "ptr_ok g (src_hp r)" "mem_ok (src_tp_addr r) 4 s"
    "ptr_ok g (k_mem s (src_tp_addr r))" "outside g (src_tp_addr r)"
    "mem_ok (ring_base_vaddr g) (4 * (e_sz g * n_ent g)) s"
    using src_readyE [OF assms(1)] by metis
  let ?t = "k_mem s (src_tp_addr r)"
  have "next_ptr g (src_hp r) \<noteq> ?t"
    using assms(2) g ring_dist_next(1) [OF g(4,10,8)]
    by (auto simp: src_queue_def src_capacity_def length_pending)
  note app = pending_append [OF g(4,10,8) this]
  have tp: "write_words (entry_addr g (ent_idx g (src_hp r))) ws m (src_tp_addr r)
            = m (src_tp_addr r)" for m
    using assms(3) g by (intro write_words_outside) (simp_all add: ent_idx_less)
  show "src_ready rid (src_push rid ws s)"
    using g tp next_ptr_idx(3) [OF g(4,8)]
    by (simp add: src_ready_def src_push_def src_advance_def src_slot_def Let_def)
  show "src_queue rid (src_push rid ws s) = src_queue rid s @ [ws]"
    using g tp app assms(3)
    by (simp add: src_queue_def src_push_def src_advance_def src_slot_def Let_def)
  show "src_capacity rid (src_push rid ws s) = src_capacity rid s"
    using g by (simp add: src_capacity_def src_push_def src_advance_def Let_def)
qed

subsection \<open>A whole access\<close>

lemma src_held_commute:
  "src_sync rid (s\<lparr>k_held := h\<rparr>) = (src_sync rid s)\<lparr>k_held := h\<rparr>"
  "src_advance rid (s\<lparr>k_held := h\<rparr>) = (src_advance rid s)\<lparr>k_held := h\<rparr>"
  "src_push rid ws (s\<lparr>k_held := h\<rparr>) = (src_push rid ws s)\<lparr>k_held := h\<rparr>"
  "src_publish rid (s\<lparr>k_held := h\<rparr>) = (src_publish rid s)\<lparr>k_held := h\<rparr>"
  "src_refuse rid (s\<lparr>k_held := h\<rparr>) = (src_refuse rid s)\<lparr>k_held := h\<rparr>"
  "src_commit rid ws (s\<lparr>k_held := h\<rparr>) = (src_commit rid ws s)\<lparr>k_held := h\<rparr>"
  by (simp_all add: src_sync_def src_advance_def src_push_def src_publish_def src_refuse_def
      src_commit_def src_slot_def set_srng_def emit_def Let_def)

lemma src_frame_held [simp]:
  "src_ready rid (s\<lparr>k_held := h\<rparr>) = src_ready rid s"
  "src_queue rid (s\<lparr>k_held := h\<rparr>) = src_queue rid s"
  "src_capacity rid (s\<lparr>k_held := h\<rparr>) = src_capacity rid s"
  "src_slot rid (s\<lparr>k_held := h\<rparr>) = src_slot rid s"
  by (simp_all add: src_ready_def src_queue_def src_capacity_def src_slot_def
      split: option.split srng_union.split)

lemma src_ops_held [simp]:
  "k_held (src_sync rid s) = k_held s" "k_held (src_push rid ws s) = k_held s"
  "k_held (src_advance rid s) = k_held s" "k_held (src_publish rid s) = k_held s"
  "k_held (src_refuse rid s) = k_held s" "k_held (src_commit rid ws s) = k_held s"
  by (simp_all add: src_sync_def src_push_def src_advance_def src_publish_def src_refuse_def
      src_commit_def Let_def)

lemma src_steps_frame [simp]:
  "k_mem (src_sync rid s) = k_mem s" "k_mem (src_advance rid s) = k_mem s"
  "k_skbs (src_sync rid s) = k_skbs s" "k_skbs (src_advance rid s) = k_skbs s"
  by (simp_all add: src_sync_def src_advance_def Let_def)

lemma src_slot_sync [simp]: "src_slot rid (src_sync rid s) = src_slot rid s"
  by (simp add: src_slot_def src_sync_def Let_def)

lemma src_ready_get: "src_ready rid s \<Longrightarrow> get_srng rid s = Some (srng_list (hal s) rid)"
  by (erule src_readyE) simp

lemma src_slot_ok_advance:
  assumes "src_ready rid s" "k < e_sz (srng_list (hal s) rid)"
  shows "mem_ok (src_slot rid s + of_nat (4 * k)) 4 (src_advance rid (src_sync rid s))"
  using src_slot_ok [OF assms] by (simp add: src_advance_def src_sync_def Let_def)

lemma src_ready_refuse:
  assumes "src_ready rid s"
  shows "src_ready rid (src_refuse rid s)" and "src_queue rid (src_refuse rid s) = src_queue rid s"
    and "src_capacity rid (src_refuse rid s) = src_capacity rid s"
  using src_ready_publish [OF src_ready_sync(1) [OF assms]] src_ready_sync [OF assms]
  by (simp_all add: src_refuse_def)

lemma e_sz_sync [simp]:
  "e_sz (srng_list (hal (src_sync rid s)) i) = e_sz (srng_list (hal s) i)"
  by (simp add: src_sync_def Let_def)

lemma src_ready_commit:
  assumes "src_ready rid s" "length (src_queue rid s) < src_capacity rid s"
    and "length ws = e_sz (srng_list (hal s) rid)"
  shows "src_ready rid (src_commit rid ws s)"
    and "src_queue rid (src_commit rid ws s) = src_queue rid s @ [ws]"
    and "src_capacity rid (src_commit rid ws s) = src_capacity rid s"
proof -
  note sync = src_ready_sync [OF assms(1)]
  have "length (src_queue rid (src_sync rid s)) < src_capacity rid (src_sync rid s)"
    using assms(2) sync by simp
  note push = src_ready_push [OF sync(1) this, of ws]
  show "src_ready rid (src_commit rid ws s)"
    and "src_queue rid (src_commit rid ws s) = src_queue rid s @ [ws]"
    and "src_capacity rid (src_commit rid ws s) = src_capacity rid s"
    using src_ready_publish [OF push(1)] push sync assms(3) by (simp_all add: src_commit_def)
qed

lemmas src_op_defs =
  src_commit_def src_refuse_def src_publish_def src_push_def src_advance_def src_sync_def Let_def

text \<open>What an access leaves alone, and the geometry it keeps.\<close>

lemma src_access_frame [simp]:
  "k_dma (src_commit rid ws s) = k_dma s" "k_dma (src_refuse rid s) = k_dma s"
  "k_maps (src_commit rid ws s) = k_maps s" "k_maps (src_refuse rid s) = k_maps s"
  "k_heap (src_commit rid ws s) = k_heap s" "k_heap (src_refuse rid s) = k_heap s"
  "k_skbs (src_commit rid ws s) = k_skbs s" "k_skbs (src_refuse rid s) = k_skbs s"
  "k_calls (src_commit rid ws s) = k_calls s" "k_calls (src_refuse rid s) = k_calls s"
  "k_iomapped (src_commit rid ws s) = k_iomapped s" "k_iomapped (src_refuse rid s) = k_iomapped s"
  "st_dst (src_commit rid ws s) = st_dst s" "st_dst (src_refuse rid s) = st_dst s"
  "mmio_addr (src_commit rid ws s) = mmio_addr s" "mmio_addr (src_refuse rid s) = mmio_addr s"
  "k_mem (src_refuse rid s) = k_mem s"
  "k_mem (src_commit rid ws s) = write_words (src_slot rid s) ws (k_mem s)"
  by (simp_all add: src_op_defs src_slot_def)

lemma src_access_other [simp]:
  "i \<noteq> rid \<Longrightarrow> srng_list (hal (src_commit rid ws s)) i = srng_list (hal s) i"
  "i \<noteq> rid \<Longrightarrow> srng_list (hal (src_refuse rid s)) i = srng_list (hal s) i"
  by (simp_all add: src_op_defs)

lemma src_access_geom [simp]:
  "num_entries (srng_list (hal (src_commit rid ws s)) rid) = num_entries (srng_list (hal s) rid)"
  "num_entries (srng_list (hal (src_refuse rid s)) rid) = num_entries (srng_list (hal s) rid)"
  "n_ent (srng_list (hal (src_commit rid ws s)) rid) = n_ent (srng_list (hal s) rid)"
  "n_ent (srng_list (hal (src_refuse rid s)) rid) = n_ent (srng_list (hal s) rid)"
  "e_sz (srng_list (hal (src_commit rid ws s)) rid) = e_sz (srng_list (hal s) rid)"
  "e_sz (srng_list (hal (src_refuse rid s)) rid) = e_sz (srng_list (hal s) rid)"
  "ent_idx (srng_list (hal (src_commit rid ws s)) rid) = ent_idx (srng_list (hal s) rid)"
  "ent_idx (srng_list (hal (src_refuse rid s)) rid) = ent_idx (srng_list (hal s) rid)"
  by (simp_all add: src_op_defs)

lemma src_access_hp [simp]:
  "src_hp (union_src (srng_u (srng_list (hal (src_refuse rid s)) rid)))
   = src_hp (union_src (srng_u (srng_list (hal s) rid)))"
  "src_hp (union_src (srng_u (srng_list (hal (src_commit rid ws s)) rid)))
   = next_ptr (srng_list (hal s) rid) (src_hp (union_src (srng_u (srng_list (hal s) rid))))"
  by (simp_all add: src_op_defs)

lemma src_steps_pipe [simp]:
  "st_dst (src_sync rid s) = st_dst s" "st_dst (src_advance rid s) = st_dst s"
  "st_dst (src_push rid ws s) = st_dst s" "st_dst (src_publish rid s) = st_dst s"
  by (simp_all add: src_op_defs)

lemma src_push_skbs [simp]: "k_skbs (src_push rid ws s) = k_skbs s"
  by (simp add: src_op_defs)

lemma held_restore: "k_held s = h \<Longrightarrow> s\<lparr>k_held := h\<rparr> = s"
  by auto

section \<open>Destination rings\<close>

lemma dst_readyE:
  assumes "dst_ready rid s"
  obtains g r where "get_srng rid s = Some g" "srng_list (hal s) rid = g" "srng_u g = DstRing r"
    "geom_ok g" "ring_dir g = HAL_SRNG_DIR_DST" "flags g AND HAL_SRNG_FLAGS_LMAC_RING = 0"
    "k_iomapped s" "ptr_ok g (dst_tp r)" "mem_ok (dst_hp_addr r) 4 s"
    "ptr_ok g (k_mem s (dst_hp_addr r))" "outside g (dst_hp_addr r)"
    "mem_ok (ring_base_vaddr g) (4 * (e_sz g * n_ent g)) s"
  using assms unfolding dst_ready_def get_srng_def
  by (auto split: option.splits srng_union.splits if_splits)

lemma access_begin_dst:
  assumes "SrngLock rid \<in> set (k_held s)" "dst_ready rid s"
  shows "wireless_simu_hal_srng_access_begin rid s = Some (dst_sync rid s)"
  by (rule dst_readyE [OF assms(2)])
    (simp add: wireless_simu_hal_srng_access_begin_def dst_sync_def Let_def k_simps assms(1))

lemma access_end_dst:
  assumes "SrngLock rid \<in> set (k_held s)" "dst_ready rid s"
  shows "wireless_simu_hal_srng_access_end rid s = Some (dst_publish rid s)"
  by (rule dst_readyE [OF assms(2)])
    (simp add: wireless_simu_hal_srng_access_end_def dst_publish_def Let_def k_simps assms(1))

lemma dst_ready_sync:
  assumes "dst_ready rid s"
  shows "dst_ready rid (dst_sync rid s)" and "dst_queue rid (dst_sync rid s) = dst_queue rid s"
  by (rule dst_readyE [OF assms]; simp add: dst_ready_def dst_sync_def dst_queue_def Let_def)+

lemma dst_ready_publish:
  assumes "dst_ready rid s"
  shows "dst_ready rid (dst_publish rid s)" and "dst_queue rid (dst_publish rid s) = dst_queue rid s"
  by (rule dst_readyE [OF assms]; simp add: dst_ready_def dst_publish_def dst_queue_def Let_def)+

lemma dst_get_next_entry_sync:
  assumes "SrngLock rid \<in> set (k_held s)" "dst_ready rid s"
  shows "wireless_simu_hal_srng_dst_get_next_entry rid (dst_sync rid s) =
      (if dst_queue rid s = [] then Some (None, dst_sync rid s)
       else Some (Some (dst_slot rid s), dst_pop rid (dst_sync rid s)))"
proof (rule dst_readyE [OF assms(2)])
  fix g r
  assume g: "get_srng rid s = Some g" "srng_list (hal s) rid = g" "srng_u g = DstRing r"
    "geom_ok g" "ptr_ok g (dst_tp r)" "ptr_ok g (k_mem s (dst_hp_addr r))"
  show ?thesis
    using g assms(1) pending_Nil_iff [OF g(4-6)] next_ptr_cmp [OF g(4,5)] entry_ptr_addr [OF g(4,5)]
    by (simp add: wireless_simu_hal_srng_dst_get_next_entry_def dst_sync_def dst_queue_def
        dst_slot_def dst_pop_def Let_def k_simps)
qed

lemma dst_ready_pop:
  assumes "dst_ready rid s" "dst_queue rid s \<noteq> []"
  shows "dst_ready rid (dst_pop rid s)"
    and "dst_queue rid s = entry_words (srng_list (hal s) rid) (k_mem s)
           (ent_idx (srng_list (hal s) rid) (dst_tp (union_dst (srng_u (srng_list (hal s) rid)))))
         # dst_queue rid (dst_pop rid s)"
proof -
  obtain g r where g: "get_srng rid s = Some g" "srng_list (hal s) rid = g" "srng_u g = DstRing r"
    "geom_ok g" "ring_dir g = HAL_SRNG_DIR_DST" "flags g AND HAL_SRNG_FLAGS_LMAC_RING = 0"
    "k_iomapped s" "ptr_ok g (dst_tp r)" "mem_ok (dst_hp_addr r) 4 s"
    "ptr_ok g (k_mem s (dst_hp_addr r))" "outside g (dst_hp_addr r)"
    "mem_ok (ring_base_vaddr g) (4 * (e_sz g * n_ent g)) s"
    using dst_readyE [OF assms(1)] by metis
  show "dst_ready rid (dst_pop rid s)"
    using g next_ptr_idx(3) [OF g(4,8)] by (simp add: dst_ready_def dst_pop_def)
  have "dst_tp r \<noteq> k_mem s (dst_hp_addr r)"
    using assms(2) g pending_Nil_iff [OF g(4,8,10)] by (simp add: dst_queue_def)
  from pending_Cons [OF g(4,8,10) this, of "k_mem s"]
  show "dst_queue rid s = entry_words (srng_list (hal s) rid) (k_mem s)
           (ent_idx (srng_list (hal s) rid) (dst_tp (union_dst (srng_u (srng_list (hal s) rid)))))
         # dst_queue rid (dst_pop rid s)"
    using g by (simp add: dst_queue_def dst_pop_def)
qed

lemma dst_slot_read:
  assumes "dst_ready rid s" "dst_queue rid s \<noteq> []"
  shows "mem_ok (dst_slot rid s) 4 s" and "k_mem s (dst_slot rid s) = hd (hd (dst_queue rid s))"
proof -
  obtain g r where g: "get_srng rid s = Some g" "srng_list (hal s) rid = g" "srng_u g = DstRing r"
    "geom_ok g" "ptr_ok g (dst_tp r)" "mem_ok (ring_base_vaddr g) (4 * (e_sz g * n_ent g)) s"
    using dst_readyE [OF assms(1)] by metis
  note w = entry_word_addr [OF g(4) ent_idx_less [OF g(4,5)] geom_okD(1) [OF g(4)]]
  show "mem_ok (dst_slot rid s) 4 s"
    using g w mem_ok_offset [OF g(6) w(2)]
    by (simp add: dst_slot_def)
  have "hd (entry_words g (k_mem s) i) = k_mem s (entry_addr g i)" for i
    using geom_okD(1) [OF g(4)] by (simp add: entry_words_def hd_map upt_conv_Cons)
  then show "k_mem s (dst_slot rid s) = hd (hd (dst_queue rid s))"
    using g dst_ready_pop(2) [OF assms] by (simp add: dst_slot_def)
qed

lemma dst_held_commute:
  "dst_sync rid (s\<lparr>k_held := h\<rparr>) = (dst_sync rid s)\<lparr>k_held := h\<rparr>"
  "dst_pop rid (s\<lparr>k_held := h\<rparr>) = (dst_pop rid s)\<lparr>k_held := h\<rparr>"
  "dst_publish rid (s\<lparr>k_held := h\<rparr>) = (dst_publish rid s)\<lparr>k_held := h\<rparr>"
  by (simp_all add: dst_sync_def dst_pop_def dst_publish_def set_srng_def emit_def Let_def)

lemma dst_frame_held [simp]:
  "dst_ready rid (s\<lparr>k_held := h\<rparr>) = dst_ready rid s"
  "dst_queue rid (s\<lparr>k_held := h\<rparr>) = dst_queue rid s"
  "dst_slot rid (s\<lparr>k_held := h\<rparr>) = dst_slot rid s"
  by (simp_all add: dst_ready_def dst_queue_def dst_slot_def split: option.split srng_union.split)

lemmas dst_op_defs = dst_sync_def dst_pop_def dst_publish_def Let_def

lemma dst_steps_frame [simp]:
  "k_held (dst_sync rid s) = k_held s" "k_held (dst_pop rid s) = k_held s"
  "k_held (dst_publish rid s) = k_held s"
  "k_mem (dst_sync rid s) = k_mem s" "k_mem (dst_pop rid s) = k_mem s"
  "k_mem (dst_publish rid s) = k_mem s"
  "st_dst (dst_sync rid s) = st_dst s" "st_dst (dst_pop rid s) = st_dst s"
  "st_dst (dst_publish rid s) = st_dst s"
  "k_skbs (dst_sync rid s) = k_skbs s" "k_skbs (dst_pop rid s) = k_skbs s"
  "k_skbs (dst_publish rid s) = k_skbs s"
  "k_maps (dst_sync rid s) = k_maps s" "k_maps (dst_pop rid s) = k_maps s"
  "k_maps (dst_publish rid s) = k_maps s"
  "k_calls (dst_sync rid s) = k_calls s" "k_calls (dst_pop rid s) = k_calls s"
  "k_calls (dst_publish rid s) = k_calls s"
  "k_dma (dst_sync rid s) = k_dma s" "k_dma (dst_pop rid s) = k_dma s"
  "k_dma (dst_publish rid s) = k_dma s"
  "k_heap (dst_sync rid s) = k_heap s" "k_heap (dst_pop rid s) = k_heap s"
  "k_heap (dst_publish rid s) = k_heap s"
  "mem_ok a n (dst_sync rid s) = mem_ok a n s" "mem_ok a n (dst_pop rid s) = mem_ok a n s"
  "mem_ok a n (dst_publish rid s) = mem_ok a n s"
  "dst_slot rid (dst_sync rid s) = dst_slot rid s"
  by (simp_all add: dst_op_defs dst_slot_def)

lemma dst_ready_get: "dst_ready rid s \<Longrightarrow> get_srng rid s = Some (srng_list (hal s) rid)"
  by (erule dst_readyE) simp

text \<open>The definitions that evaluate a ring of a concrete state.\<close>

lemmas ring_eval = geom_ok_def ptr_ok_def e_sz_def n_ent_def ent_idx_def outside_def mem_ok_def in_region_def
  get_srng_def HAL_SRNG_FLAGS_LMAC_RING_def hal_consts

section \<open>Properties\<close>

definition sample_completed :: wireless_simu where
  "sample_completed = sample\<lparr>k_held := [SrngLock 1],
     k_mem := (\<lambda>a. if a = 0x1004 then 2 else if a = 0x4000 then 9 else 0)\<rparr>"

lemma sample_src_ready: "src_ready 125 (sample\<lparr>k_held := [SrngLock 125]\<rparr>)"
  by (simp add: src_ready_def sample_defs ring_eval)

lemma sample_dst_ready: "dst_ready 1 sample_completed" "dst_queue 1 sample_completed = [[9, 0]]"
  by (simp_all add: sample_completed_def dst_ready_def dst_queue_def pending_def ring_dist_def entry_words_def
      entry_addr_def sample_defs ring_eval Let_def upt_rec)

text \<open>
  C26: The two ways the driver asks a source ring whether it is full agree. After an access has been
  begun on a sound ring, \<^verbatim>\<open>src_num_free\<close> returns, with and without re-reading the device's pointer,
  the capacity less the entries the device has not taken, never a negative number, and
  \<^verbatim>\<open>src_get_next_entry\<close> returns NULL exactly when that count is below one; otherwise it hands out
  the slot at the head, inside the ring's memory. The second check for a full ring that the send
  and enqueue routines make can therefore not fail.
\<close>

theorem ring_full_checks_agree:
  assumes "SrngLock rid \<in> set (k_held s)" and "src_ready rid s"
  shows "\<exists>s1 n. wireless_simu_hal_srng_access_begin rid s = Some s1 \<and>
    wireless_simu_hal_srng_src_num_free rid False s1 = Some (n, s1) \<and>
    wireless_simu_hal_srng_src_num_free rid True s = Some (n, s1) \<and>
    n = int (src_capacity rid s) - int (length (src_queue rid s)) \<and> 0 \<le> n \<and>
    (if n < 1 then wireless_simu_hal_srng_src_get_next_entry rid s1 = Some (None, s1)
     else \<exists>s2. wireless_simu_hal_srng_src_get_next_entry rid s1 = Some (Some (src_slot rid s), s2) \<and>
       (\<forall>k < e_sz (srng_list (hal s) rid). mem_ok (src_slot rid s + of_nat (4 * k)) 4 s2))"
proof -
  note start = access_begin_src [OF assms]
  have sync: "wireless_simu_hal_srng_src_num_free rid True s
      = wireless_simu_hal_srng_src_num_free rid False (src_sync rid s)"
    by (rule src_readyE [OF assms(2)])
      (use assms(1) in \<open>simp add: wireless_simu_hal_srng_src_num_free_def src_sync_def k_simps Let_def\<close>)
  show ?thesis
    using start sync src_num_free_sync [OF assms] src_get_next_entry_sync [OF assms]
      length_src_queue [OF assms(2)] src_slot_ok_advance [OF assms(2)] by auto
qed

theorem ring_full_checks_agree_witness:
  "\<exists>s1. wireless_simu_hal_srng_access_begin 125 (sample\<lparr>k_held := [SrngLock 125]\<rparr>) = Some s1 \<and>
     wireless_simu_hal_srng_src_num_free 125 False s1 = Some (3, s1)"
proof -
  have "src_capacity 125 (sample\<lparr>k_held := [SrngLock 125]\<rparr>) = 3"
    "src_queue 125 (sample\<lparr>k_held := [SrngLock 125]\<rparr>) = []"
    by (simp_all add: src_capacity_def src_queue_def pending_def ring_dist_def sample_defs ring_eval Let_def)
  then show ?thesis
    using ring_full_checks_agree [OF _ sample_src_ready] by auto
qed

text \<open>
  Reading a destination ring that holds an entry hands out the oldest entry and moves the tail
  by one entry modulo the ring size, although the code compares with the end of the ring instead
  of taking a remainder; the remaining entries stay queued and the ring stays sound.
\<close>

theorem dst_wrap_is_modulo:
  assumes "SrngLock rid \<in> set (k_held s)" and "dst_ready rid s" and "dst_queue rid s \<noteq> []"
  shows "\<exists>s1 s2. wireless_simu_hal_srng_access_begin rid s = Some s1 \<and>
    wireless_simu_hal_srng_dst_get_next_entry rid s1 = Some (Some (dst_slot rid s), s2) \<and>
    dst_tp (union_dst (srng_u (srng_list (hal s2) rid))) =
      (dst_tp (union_dst (srng_u (srng_list (hal s) rid))) + entry_size (srng_list (hal s) rid))
        mod ring_size (srng_list (hal s) rid) \<and>
    k_mem s (dst_slot rid s) = hd (hd (dst_queue rid s)) \<and> mem_ok (dst_slot rid s) 4 s2 \<and>
    dst_queue rid s2 = tl (dst_queue rid s) \<and> dst_ready rid s2"
proof -
  note sync = dst_ready_sync [OF assms(2)]
  have q: "dst_queue rid (dst_sync rid s) \<noteq> []"
    using sync(2) assms(3) by simp
  note pop = dst_ready_pop [OF sync(1) q]
  have tp: "dst_tp (union_dst (srng_u (srng_list (hal (dst_pop rid (dst_sync rid s))) rid))) =
      (dst_tp (union_dst (srng_u (srng_list (hal s) rid))) + entry_size (srng_list (hal s) rid))
        mod ring_size (srng_list (hal s) rid)"
    by (simp add: dst_op_defs next_ptr_def)
  have "tl (dst_queue rid (dst_sync rid s)) = dst_queue rid (dst_pop rid (dst_sync rid s))"
    by (subst pop(2)) simp
  then show ?thesis
    using access_begin_dst [OF assms(1,2)] dst_get_next_entry_sync [OF assms(1,2)] tp pop(1)
      dst_slot_read [OF assms(2,3)] assms(3) sync(2) by simp
qed

theorem dst_wrap_is_modulo_witness:
  "\<exists>s1 s2. wireless_simu_hal_srng_access_begin 1 sample_completed = Some s1 \<and>
    wireless_simu_hal_srng_dst_get_next_entry 1 s1 = Some (Some (dst_slot 1 sample_completed), s2) \<and>
    dst_queue 1 s2 = []"
  using dst_wrap_is_modulo [of 1 sample_completed] sample_dst_ready
  by (auto simp: sample_completed_def)

end
