(* ===== verification/Hal_Setup.thy ===== *)
theory Hal_Setup
  imports Srng_Access
begin

text \<open>
  What setting a ring up achieves: the exact register writes that hand the ring to the device, and
  that the ring is then ready for use and empty.
\<close>

section \<open>Definitions\<close>

text \<open>
  The register writes of the two initialisation routines as data: register number in group R0 or
  R2 (the last two of the pointers) and value, in the order the device sees them.
\<close>

definition misc_val :: "bool \<Rightarrow> hal_srng \<Rightarrow> u64" where
  "misc_val src g =
     (if flags g AND HAL_SRNG_FLAGS_DATA_TLV_SWAP \<noteq> 0 then BIT 5 else 0) OR
     (if flags g AND HAL_SRNG_FLAGS_RING_PTR_SWAP \<noteq> 0 then BIT 4 else 0) OR
     (if flags g AND HAL_SRNG_FLAGS_MSI_SWAP \<noteq> 0 then BIT 3 else 0) OR
     (if src then BIT 1 else 0) OR BIT 6"

definition src_hw_regs :: "hal_srng \<Rightarrow> src_ring \<Rightarrow> wireless_simu_hal \<Rightarrow> (nat \<times> u32 \<times> u32) list" where
  "src_hw_regs g r h =
     (let base = [(0, 0, ucast (ring_base_paddr g)),
                  (0, 1, ring_base_msb_val (GENMASK 7 0) (GENMASK 27 8) g),
                  (0, 2, ucast (FIELD_PREP (GENMASK 7 0) (ucast (entry_size g))))];
          tp = rdp_paddr h + (src_tp_addr r - rdp_vaddr h)
      in base @ (if ring_id g = 104 then base else []) @
         [(0, 3, ucast (FIELD_PREP (GENMASK 31 16) (ucast (intr_timer_thres_us g)) OR
                   FIELD_PREP (GENMASK 14 0) (ucast (intr_batch_cntr_thres_entries g * entry_size g)))),
          (0, 4, if flags g AND HAL_SRNG_FLAGS_LOW_THRESH_INTR_EN \<noteq> 0
                 then ucast (FIELD_PREP (GENMASK 15 0) (ucast (low_threshold r))) else 0)] @
         (if ring_id g \<noteq> 104
          then [(0, 5, ucast (tp AND HAL_ADDR_LSB_REG_MASK)), (0, 6, ucast (drop_bit 32 tp))] else []) @
         [(1, 0, 0), (1, 1, 0), (0, 7, ucast (misc_val True g))])"

definition dst_hw_regs :: "hal_srng \<Rightarrow> dst_ring \<Rightarrow> wireless_simu_hal \<Rightarrow> (nat \<times> u32 \<times> u32) list" where
  "dst_hw_regs g r h =
     (let hp = rdp_paddr h + (dst_hp_addr r - rdp_vaddr h)
      in [(0, 0, ucast (ring_base_paddr g)),
          (0, 1, ring_base_msb_val (GENMASK 7 0) (GENMASK 27 8) g),
          (0, 2, ucast (FIELD_PREP (GENMASK 15 8) (ucast (ring_id g)) OR
                   FIELD_PREP (GENMASK 7 0) (ucast (entry_size g)))),
          (0, 3, ucast (FIELD_PREP (GENMASK 31 16) (ucast (drop_bit 3 (intr_timer_thres_us g))) OR
                   FIELD_PREP (GENMASK 14 0) (ucast (intr_batch_cntr_thres_entries g * entry_size g)))),
          (0, 5, ucast (hp AND HAL_ADDR_LSB_REG_MASK)), (0, 6, ucast (drop_bit 32 hp)),
          (1, 0, 0), (1, 1, 0), (0, 7, ucast (misc_val False g))])"

definition reg_event :: "u64 \<Rightarrow> hal_srng \<Rightarrow> nat \<times> u32 \<times> u32 \<Rightarrow> kevent" where
  "reg_event mmio g = (\<lambda>(grp, k, v). EvIoWrite (mmio + ucast (hwreg_base g grp + push_bit 2 k)) v)"

definition type_rid :: "hal_ring_type \<Rightarrow> nat" where
  "type_rid type = nat (c_start_ring_id (hw_srng_config_template type))"

definition type_esz :: "hal_ring_type \<Rightarrow> nat" where
  "type_esz type = unat (c_entry_size (hw_srng_config_template type))"

text \<open>What a set-up relies on: the tables are there, the ring's memory is live and apart from the
  pointer cell, and the byte count fits 32 bits.\<close>

definition setup_pre :: "hal_ring_type \<Rightarrow> hal_srng_params \<Rightarrow> 'a wireless_simu_scheme \<Rightarrow> bool" where
  "setup_pre type params s =
     (let n = nat (p_num_entries params); bytes = 4 * (type_esz type * n);
          cell = rdp_vaddr (hal s) + of_nat (4 * type_rid type)
      in get_srng_config s = Some hw_srng_config_template \<and> k_iomapped s \<and>
         0 < p_num_entries params \<and> bytes < 2 ^ 32 \<and> p_flags params AND HAL_SRNG_FLAGS_LMAC_RING = 0 \<and>
         mem_ok (p_ring_base_vaddr params) bytes s \<and> mem_ok (rdp_vaddr (hal s)) 688 s \<and>
         bytes \<le> unat (cell - p_ring_base_vaddr params))"

definition setup_common :: "kenv \<Rightarrow> hal_ring_type \<Rightarrow> hal_srng_params \<Rightarrow> 'a wireless_simu_scheme \<Rightarrow> hal_srng" where
  "setup_common env type params s =
     (let g = srng_assign (hw_srng_config_template type) (int (type_rid type)) params
                (srng_list (hal s) (type_rid type))
      in if env_big_endian env
         then g\<lparr>flags := flags g OR HAL_SRNG_FLAGS_MSI_SWAP OR HAL_SRNG_FLAGS_DATA_TLV_SWAP OR
                  HAL_SRNG_FLAGS_RING_PTR_SWAP\<rparr>
         else g)"

definition setup_src :: "kenv \<Rightarrow> hal_ring_type \<Rightarrow> hal_srng_params \<Rightarrow> 'a wireless_simu_scheme \<Rightarrow> hal_srng" where
  "setup_src env type params s =
     srng_assign_src (hw_srng_config_template type) (int (type_rid type)) params s
       (setup_common env type params s)"

definition setup_dst :: "kenv \<Rightarrow> hal_ring_type \<Rightarrow> hal_srng_params \<Rightarrow> 'a wireless_simu_scheme \<Rightarrow> hal_srng" where
  "setup_dst env type params s =
     srng_assign_dst (hw_srng_config_template type) (int (type_rid type)) s
       (setup_common env type params s)"

definition mem_zero :: "u64 \<Rightarrow> nat \<Rightarrow> (u64 \<Rightarrow> u32) \<Rightarrow> (u64 \<Rightarrow> u32)" where
  "mem_zero a n m = (\<lambda>x. if unat (x - a) < n then 0 else m x)"

text \<open>The state a set-up leaves, for the ring \<^term>\<open>g\<close> it configured.\<close>

definition setup_state ::
  "hal_ring_type \<Rightarrow> hal_srng_params \<Rightarrow> hal_srng \<Rightarrow> (nat \<times> u32 \<times> u32) list \<Rightarrow> 'a wireless_simu_scheme \<Rightarrow>
   'a wireless_simu_scheme" where
  "setup_state type params g regs s = (set_srng (type_rid type) g s)\<lparr>
     k_mem := (mem_zero (p_ring_base_vaddr params) (4 * (type_esz type * nat (p_num_entries params))) (k_mem s))
                (rdp_vaddr (hal s) + of_nat (4 * type_rid type) := 0),
     k_held := removeAll (SrngLock (type_rid type)) (k_held s),
     k_trace := k_trace s @ map (reg_event (mmio_addr s) g) regs\<rparr>"

text \<open>The state before the registers are written: lock reset, ring memory cleared.\<close>

definition setup_cleared ::
  "hal_ring_type \<Rightarrow> hal_srng_params \<Rightarrow> 'a wireless_simu_scheme \<Rightarrow> 'a wireless_simu_scheme" where
  "setup_cleared type params s = s\<lparr>
     k_held := removeAll (SrngLock (type_rid type)) (k_held s),
     k_mem := mem_zero (p_ring_base_vaddr params) (4 * (type_esz type * nat (p_num_entries params))) (k_mem s)\<rparr>"

definition setup_ring :: "kenv \<Rightarrow> hal_ring_type \<Rightarrow> hal_srng_params \<Rightarrow> 'a wireless_simu_scheme \<Rightarrow> hal_srng" where
  "setup_ring env type params s =
     (if c_ring_dir (hw_srng_config_template type) = HAL_SRNG_DIR_SRC then setup_src env type params s
      else setup_dst env type params s)"

definition ring_reg :: "nat \<Rightarrow> nat \<Rightarrow> nat \<Rightarrow> nat" where
  "ring_reg rid grp k = 0x10000 + 256 * rid + 128 * grp + 4 * k"

text \<open>A set-up in either direction, with the list of its register writes.\<close>

definition setup_regs :: "kenv \<Rightarrow> hal_ring_type \<Rightarrow> hal_srng_params \<Rightarrow> 'a wireless_simu_scheme \<Rightarrow>
  (nat \<times> u32 \<times> u32) list" where
  "setup_regs env type params s =
     (let g = setup_ring env type params s
      in if c_ring_dir (hw_srng_config_template type) = HAL_SRNG_DIR_SRC
         then src_hw_regs g (union_src (srng_u g)) (hal s) else dst_hw_regs g (union_dst (srng_u g)) (hal s))"

definition sample_params :: hal_srng_params where
  "sample_params = \<lparr>p_ring_base_paddr = 0x12000, p_ring_base_vaddr = 0x3000, p_num_entries = 32,
     p_intr_batch_cntr_thres_entries = 0, p_intr_timer_thres_us = 0, p_flags = 0, p_max_buffer_len = 0,
     p_low_threshold = 0, p_msi_addr = 0, p_msi_data = 0\<rparr>"

section \<open>Lemmas\<close>

lemma src_hw_init_eq:
  assumes "get_srng rid s = Some g" "srng_u g = SrcRing r" "k_iomapped s" "mem_ok (src_tp_addr r) 4 s"
  shows "hal_srng_src_hw_init rid s =
    Some (s\<lparr>k_mem := (k_mem s)(src_tp_addr r := 0),
            k_trace := k_trace s @ map (reg_event (mmio_addr s) g) (src_hw_regs g r (hal s))\<rparr>)"
  using assms
  by (auto simp: hal_srng_src_hw_init_def wireless_hif_write32_def iowrite32_def emit_def k_simps
      src_hw_regs_def reg_event_def misc_val_def reg_fields hal_consts HAL_ADDR_MSB_REG_SHIFT_def Let_def
      ac_simps)

lemma dst_hw_init_eq:
  assumes "get_srng rid s = Some g" "srng_u g = DstRing r" "k_iomapped s" "mem_ok (dst_hp_addr r) 4 s"
  shows "hal_srng_dst_hw_init rid s =
    Some (s\<lparr>k_mem := (k_mem s)(dst_hp_addr r := 0),
            k_trace := k_trace s @ map (reg_event (mmio_addr s) g) (dst_hw_regs g r (hal s))\<rparr>)"
  using assms
  by (auto simp: hal_srng_dst_hw_init_def wireless_hif_write32_def iowrite32_def emit_def k_simps
      dst_hw_regs_def reg_event_def misc_val_def reg_fields hal_consts HAL_ADDR_MSB_REG_SHIFT_def Let_def
      ac_simps)

lemma type_facts:
  "type_rid HAL_TEST_SRNG = 125" "type_rid HAL_TEST_SRNG_DST = 8" "type_rid HAL_TEST_SRNG_DST_STATUS = 1"
  "type_esz HAL_TEST_SRNG = 5" "type_esz HAL_TEST_SRNG_DST = 3" "type_esz HAL_TEST_SRNG_DST_STATUS = 2"
  by (simp_all add: type_rid_def type_esz_def hw_srng_config_template_def sizeof_hal_test_sw2hw_def
      sizeof_hal_test_dst_def sizeof_hal_test_dst_status_def)

lemma type_rid_bound: "int (type_rid type) < HAL_SRNG_RING_ID_MAX" "4 * type_rid type + 4 \<le> 688"
  by (cases type; simp add: type_facts hal_consts)+

lemma template_ring_id: "hal_srng_get_ring_id (hw_srng_config_template type) 0 mac = int (type_rid type)"
  by (cases type) (simp_all add: hal_srng_get_ring_id_def hw_srng_config_template_def type_facts hal_consts c_int_id)

lemma template_lmac: "\<not> c_lmac_ring (hw_srng_config_template type)"
  by (cases type) (simp_all add: hw_srng_config_template_def)

lemma setup_common_fields [simp]:
  "ring_base_vaddr (setup_common env type params s) = p_ring_base_vaddr params"
  "ring_base_paddr (setup_common env type params s) = p_ring_base_paddr params"
  "entry_size (setup_common env type params s) = of_nat (type_esz type)"
  "num_entries (setup_common env type params s) = of_int (p_num_entries params)"
  "ring_size (setup_common env type params s) = of_nat (type_esz type) * of_int (p_num_entries params)"
  "ring_dir (setup_common env type params s) = c_ring_dir (hw_srng_config_template type)"
  "hwreg_base (setup_common env type params s) (Suc 0) = srng_hwreg_base (int (type_rid type)) (Suc 0)"
  "hwreg_base (setup_common env type params s) 0 = srng_hwreg_base (int (type_rid type)) 0"
  "ring_id (setup_common env type params s) = of_nat (type_rid type)"
  by (simp_all add: setup_common_def srng_assign_def type_esz_def hal_consts Let_def)

lemma type_esz_bounds: "0 < type_esz type" "type_esz type \<le> 5"
  by (cases type; simp add: type_facts)+

lemma setup_bytes:
  assumes "0 < n" "4 * (type_esz type * nat n) < 2 ^ 32"
  shows "unat (push_bit 2 (of_nat (type_esz type) * of_int n :: u32)) = 4 * (type_esz type * nat n)"
    and "unat (of_int n :: u32) = nat n" and "unat (of_nat (type_esz type) :: u32) = type_esz type"
    and "type_esz type * nat n < 2 ^ 30" and "nat n < 2 ^ 30"
proof -
  show lt: "type_esz type * nat n < 2 ^ 30"
    using assms(2) by (simp add: mult.commute)
  have "1 * nat n \<le> type_esz type * nat n"
    using type_esz_bounds(1) [of type] by (intro mult_le_mono1) simp
  with lt show n: "nat n < 2 ^ 30"
    by linarith
  have of_n: "(of_int n :: u32) = of_nat (nat n)"
    using assms(1) by simp
  show "unat (of_int n :: u32) = nat n"
    unfolding of_n using n by (intro unat_of_nat_32) simp
  show "unat (of_nat (type_esz type) :: u32) = type_esz type"
    using type_esz_bounds(2) [of type] by (intro unat_of_nat_32) simp
  have "push_bit 2 (of_nat (type_esz type) * of_int n :: u32) = of_nat (4 * (type_esz type * nat n))"
    unfolding of_n by (simp add: push_bit_eq_mult mult.commute mult.left_commute)
  then show "unat (push_bit 2 (of_nat (type_esz type) * of_int n :: u32)) = 4 * (type_esz type * nat n)"
    using assms(2) by (simp only: unat_of_nat_32)
qed

lemma cell_ok:
  "mem_ok (rdp_vaddr (hal s)) 688 s \<Longrightarrow> mem_ok (rdp_vaddr (hal s) + of_nat (4 * type_rid type)) 4 s"
  by (erule mem_ok_offset) (rule type_rid_bound)

lemma srng_assign_fields:
  "ring_base_vaddr (srng_assign cfg rid params g) = p_ring_base_vaddr params"
  "entry_size (srng_assign (hw_srng_config_template type) rid params g) = of_nat (type_esz type)"
  "num_entries (srng_assign cfg rid params g) = of_int (p_num_entries params)"
  "ring_dir (srng_assign cfg rid params g) = c_ring_dir cfg"
  by (simp_all add: srng_assign_def type_esz_def)

lemma setup_preD:
  assumes "setup_pre type params s"
  shows "get_srng_config s = Some hw_srng_config_template" "k_iomapped s" "0 < p_num_entries params"
    "4 * (type_esz type * nat (p_num_entries params)) < 2 ^ 32"
    "mem_ok (p_ring_base_vaddr params) (4 * (type_esz type * nat (p_num_entries params))) s"
    "mem_ok (rdp_vaddr (hal s)) 688 s" "p_flags params AND HAL_SRNG_FLAGS_LMAC_RING = 0"
    "4 * (type_esz type * nat (p_num_entries params))
     \<le> unat (rdp_vaddr (hal s) + of_nat (4 * type_rid type) - p_ring_base_vaddr params)"
  using assms unfolding setup_pre_def Let_def by blast+

lemma setup_clears:
  assumes "setup_pre type params s"
  shows "wireless_simu_hal_srng_setup env type 0 mac params s =
    map_option (Pair (int (type_rid type))) (hal_srng_hw_init (type_rid type)
      (set_srng (type_rid type) (setup_ring env type params s) (setup_cleared type params s)))"
proof -
  note pre = setup_preD [OF assms]
  let ?rid = "type_rid type" and ?cfg = "hw_srng_config_template type"
  let ?bytes = "4 * (type_esz type * nat (p_num_entries params))"
  let ?a = "srng_assign ?cfg (int ?rid) params (srng_list (hal s) ?rid)"
  have pos: "0 < ?bytes"
    using type_esz_bounds(1) [of type] pre(3) by simp
  have get: "get_srng ?rid s = Some (srng_list (hal s) ?rid)"
    using type_rid_bound by (simp add: get_srng_def)
  have ms: "memset_0 (p_ring_base_vaddr params) ?bytes (s\<lparr>k_held := removeAll (SrngLock ?rid) (k_held s)\<rparr>)
      = Some (setup_cleared type params s)"
    using pos pre(5) by (simp add: memset_0_def mem_zero_def setup_cleared_def cong: if_cong)
  have c: "(if env_big_endian env then ?a\<lparr>flags := flags ?a OR HAL_SRNG_FLAGS_MSI_SWAP OR
      HAL_SRNG_FLAGS_DATA_TLV_SWAP OR HAL_SRNG_FLAGS_RING_PTR_SWAP\<rparr> else ?a) = setup_common env type params s"
    by (simp add: setup_common_def Let_def)
  have g: "(if ring_dir (setup_common env type params s) = HAL_SRNG_DIR_SRC
      then srng_assign_src ?cfg (int ?rid) params (setup_cleared type params s) (setup_common env type params s)
      else srng_assign_dst ?cfg (int ?rid) (setup_cleared type params s) (setup_common env type params s))
      = setup_ring env type params s"
    by (simp add: setup_ring_def setup_src_def setup_dst_def srng_assign_src_def srng_assign_dst_def
        setup_cleared_def Let_def)
  show ?thesis
    unfolding wireless_simu_hal_srng_setup_def Let_def template_ring_id pre(1) bind.simps
    using get ms c g setup_bytes(1) [OF pre(3,4)]
    by (cases "c_ring_dir ?cfg = HAL_SRNG_DIR_SRC")
      (simp_all add: srng_assign_fields spin_lock_init_def template_lmac map_conv_bind_option comp_def)
qed

lemma setup_src_eq:
  fixes env
  assumes "setup_pre type params s" "c_ring_dir (hw_srng_config_template type) = HAL_SRNG_DIR_SRC"
  defines "g \<equiv> setup_src env type params s"
  shows "wireless_simu_hal_srng_setup env type 0 mac params s =
      Some (int (type_rid type),
        setup_state type params g (src_hw_regs g (union_src (srng_u g)) (hal s)) s)"
proof -
  note pre = setup_preD [OF assms(1)]
  let ?rid = "type_rid type" and ?s2 = "set_srng (type_rid type) g (setup_cleared type params s)"
  obtain r where r: "srng_u g = SrcRing r" "src_tp_addr r = rdp_vaddr (hal s) + of_nat (4 * ?rid)"
    "ring_dir g = HAL_SRNG_DIR_SRC"
    using assms(2) unfolding g_def setup_src_def srng_assign_src_def by (auto simp: template_lmac Let_def)
  have get: "get_srng ?rid ?s2 = Some g"
    using type_rid_bound by (simp add: get_srng_def)
  have regs: "src_hw_regs g r (hal ?s2) = src_hw_regs g r (hal s)"
    by (simp add: src_hw_regs_def set_srng_def setup_cleared_def Let_def)
  have "hal_srng_src_hw_init ?rid ?s2 = Some (?s2\<lparr>k_mem := (k_mem ?s2)(src_tp_addr r := 0),
      k_trace := k_trace ?s2 @ map (reg_event (mmio_addr ?s2) g) (src_hw_regs g r (hal ?s2))\<rparr>)"
    using get r pre(2) cell_ok [OF pre(6), of type] by (intro src_hw_init_eq) (simp_all add: setup_cleared_def)
  then have "hal_srng_hw_init ?rid ?s2 = Some (setup_state type params g (src_hw_regs g r (hal s)) s)"
    unfolding hal_srng_hw_init_def get regs setup_state_def r(2)
    using r(3) by (simp add: set_srng_def setup_cleared_def)
  then show ?thesis
    using setup_clears [OF assms(1), of env mac] assms(2) r(1) by (simp add: g_def setup_ring_def)
qed

lemma setup_dst_eq:
  fixes env
  assumes "setup_pre type params s" "c_ring_dir (hw_srng_config_template type) = HAL_SRNG_DIR_DST"
  defines "g \<equiv> setup_dst env type params s"
  shows "wireless_simu_hal_srng_setup env type 0 mac params s =
      Some (int (type_rid type),
        setup_state type params g (dst_hw_regs g (union_dst (srng_u g)) (hal s)) s)"
proof -
  note pre = setup_preD [OF assms(1)]
  let ?rid = "type_rid type" and ?s2 = "set_srng (type_rid type) g (setup_cleared type params s)"
  obtain r where r: "srng_u g = DstRing r" "dst_hp_addr r = rdp_vaddr (hal s) + of_nat (4 * ?rid)"
    "ring_dir g = HAL_SRNG_DIR_DST"
    using assms(2) unfolding g_def setup_dst_def srng_assign_dst_def by (auto simp: template_lmac Let_def)
  have get: "get_srng ?rid ?s2 = Some g"
    using type_rid_bound by (simp add: get_srng_def)
  have regs: "dst_hw_regs g r (hal ?s2) = dst_hw_regs g r (hal s)"
    by (simp add: dst_hw_regs_def set_srng_def setup_cleared_def Let_def)
  have "hal_srng_dst_hw_init ?rid ?s2 = Some (?s2\<lparr>k_mem := (k_mem ?s2)(dst_hp_addr r := 0),
      k_trace := k_trace ?s2 @ map (reg_event (mmio_addr ?s2) g) (dst_hw_regs g r (hal ?s2))\<rparr>)"
    using get r pre(2) cell_ok [OF pre(6), of type] by (intro dst_hw_init_eq) (simp_all add: setup_cleared_def)
  then have "hal_srng_hw_init ?rid ?s2 = Some (setup_state type params g (dst_hw_regs g r (hal s)) s)"
    unfolding hal_srng_hw_init_def get regs setup_state_def r(2)
    using r(3) by (simp add: set_srng_def setup_cleared_def)
  then show ?thesis
    using setup_clears [OF assms(1), of env mac] assms(2) r(1) by (simp add: g_def setup_ring_def)
qed

lemma setup_flags:
  "p_flags params AND HAL_SRNG_FLAGS_LMAC_RING = 0 \<Longrightarrow>
   flags (setup_common env type params s) AND HAL_SRNG_FLAGS_LMAC_RING = 0"
  by (simp add: setup_common_def srng_assign_def Let_def bit.conj_disj_distrib2 HAL_SRNG_FLAGS_MSI_SWAP_def
      HAL_SRNG_FLAGS_DATA_TLV_SWAP_def HAL_SRNG_FLAGS_RING_PTR_SWAP_def HAL_SRNG_FLAGS_LMAC_RING_def)

lemma setup_geom:
  assumes "setup_pre type params s" "entry_size g = of_nat (type_esz type)"
    "num_entries g = of_int (p_num_entries params)"
    "ring_size g = of_nat (type_esz type) * of_int (p_num_entries params)"
  shows "geom_ok g" "e_sz g = type_esz type" "n_ent g = nat (p_num_entries params)"
    "ptr_ok g 0" "ent_idx g 0 = 0"
proof -
  note pre = setup_preD [OF assms(1)]
  note b = setup_bytes [OF pre(3,4)]
  show e: "e_sz g = type_esz type" and n: "n_ent g = nat (p_num_entries params)"
    using b assms by (simp_all add: e_sz_def n_ent_def)
  show "geom_ok g"
    unfolding geom_ok_def e n using b pre(3) type_esz_bounds(1) [of type] assms(2-4) by simp
  show "ptr_ok g 0" "ent_idx g 0 = 0"
    using type_esz_bounds(1) [of type] pre(3) by (simp_all add: ptr_ok_def ent_idx_def e n)
qed

lemma setup_src_fields:
  fixes env
  assumes "setup_pre type params s"
  defines "g \<equiv> setup_src env type params s"
  shows "srng_u g = SrcRing (union_src (srng_u g))" "src_hp (union_src (srng_u g)) = 0"
    "src_tp_addr (union_src (srng_u g)) = rdp_vaddr (hal s) + of_nat (4 * type_rid type)"
    "src_hp_addr (union_src (srng_u g)) = mmio_addr s + ucast (srng_hwreg_base (int (type_rid type)) 1)"
    "entry_size g = of_nat (type_esz type)" "num_entries g = of_int (p_num_entries params)"
    "ring_size g = of_nat (type_esz type) * of_int (p_num_entries params)"
    "ring_base_vaddr g = p_ring_base_vaddr params" "ring_base_paddr g = p_ring_base_paddr params"
    "ring_dir g = c_ring_dir (hw_srng_config_template type)"
    "flags g AND HAL_SRNG_FLAGS_LMAC_RING = 0" "ring_id g = of_nat (type_rid type)"
    "hwreg_base g 0 = srng_hwreg_base (int (type_rid type)) 0"
    "hwreg_base g 1 = srng_hwreg_base (int (type_rid type)) 1"
  using setup_flags [OF setup_preD(7) [OF assms(1)]]
  by (simp_all add: g_def setup_src_def srng_assign_src_def template_lmac Let_def hal_consts)

lemma setup_src_ready:
  fixes env regs
  assumes "setup_pre type params s" "c_ring_dir (hw_srng_config_template type) = HAL_SRNG_DIR_SRC"
  defines "g \<equiv> setup_src env type params s"
  defines "s' \<equiv> setup_state type params g regs s"
  shows "src_ready (type_rid type) s'" "src_queue (type_rid type) s' = []"
    "src_capacity (type_rid type) s' = nat (p_num_entries params) - 1"
    "srng_list (hal s') (type_rid type) = g"
proof -
  note f = setup_src_fields [OF assms(1), of env, folded g_def]
  note geom = setup_geom [OF assms(1) f(5-7)]
  note pre = setup_preD [OF assms(1)]
  show list: "srng_list (hal s') (type_rid type) = g"
    by (simp add: s'_def setup_state_def)
  have get: "get_srng (type_rid type) s' = Some g"
    using type_rid_bound list by (simp add: get_srng_def)
  have mem: "mem_ok a n s' = mem_ok a n s" for a n
    by (simp add: s'_def setup_state_def)
  have cell: "k_mem s' (src_tp_addr (union_src (srng_u g))) = 0"
    by (simp add: s'_def setup_state_def f(3))
  have out: "outside g (rdp_vaddr (hal s) + of_nat (4 * type_rid type))"
    unfolding outside_def geom f(8) using pre(8) .
  have "k_iomapped s'"
    using pre(2) by (simp add: s'_def setup_state_def)
  then show "src_ready (type_rid type) s'"
    unfolding src_ready_def get option.case
    using f(2-) geom assms(2) out cell pre(5) cell_ok [OF pre(6), of type]
    by (subst f(1)) (simp add: mem)
  show "src_queue (type_rid type) s' = []"
    using cell f(2) geom(3) pre(3) by (simp add: src_queue_def list pending_def ring_dist_def geom)
  show "src_capacity (type_rid type) s' = nat (p_num_entries params) - 1"
    by (simp add: src_capacity_def list geom)
qed

lemma setup_dst_fields:
  fixes env
  assumes "setup_pre type params s"
  defines "g \<equiv> setup_dst env type params s"
  shows "srng_u g = DstRing (union_dst (srng_u g))" "dst_tp (union_dst (srng_u g)) = 0"
    "dst_hp_addr (union_dst (srng_u g)) = rdp_vaddr (hal s) + of_nat (4 * type_rid type)"
    "dst_tp_addr (union_dst (srng_u g)) = mmio_addr s + ucast (srng_hwreg_base (int (type_rid type)) 1)"
    "entry_size g = of_nat (type_esz type)" "num_entries g = of_int (p_num_entries params)"
    "ring_size g = of_nat (type_esz type) * of_int (p_num_entries params)"
    "ring_base_vaddr g = p_ring_base_vaddr params" "ring_base_paddr g = p_ring_base_paddr params"
    "ring_dir g = c_ring_dir (hw_srng_config_template type)"
    "flags g AND HAL_SRNG_FLAGS_LMAC_RING = 0" "ring_id g = of_nat (type_rid type)"
    "hwreg_base g 0 = srng_hwreg_base (int (type_rid type)) 0"
    "hwreg_base g 1 = srng_hwreg_base (int (type_rid type)) 1"
  using setup_flags [OF setup_preD(7) [OF assms(1)]]
  by (simp_all add: g_def setup_dst_def srng_assign_dst_def template_lmac Let_def hal_consts)

lemma setup_dst_ready:
  fixes env regs
  assumes "setup_pre type params s" "c_ring_dir (hw_srng_config_template type) = HAL_SRNG_DIR_DST"
  defines "g \<equiv> setup_dst env type params s"
  defines "s' \<equiv> setup_state type params g regs s"
  shows "dst_ready (type_rid type) s'" "dst_queue (type_rid type) s' = []"
    "srng_list (hal s') (type_rid type) = g"
proof -
  note f = setup_dst_fields [OF assms(1), of env, folded g_def]
  note geom = setup_geom [OF assms(1) f(5-7)]
  note pre = setup_preD [OF assms(1)]
  show list: "srng_list (hal s') (type_rid type) = g"
    by (simp add: s'_def setup_state_def)
  have get: "get_srng (type_rid type) s' = Some g"
    using type_rid_bound list by (simp add: get_srng_def)
  have mem: "mem_ok a n s' = mem_ok a n s" for a n
    by (simp add: s'_def setup_state_def)
  have cell: "k_mem s' (dst_hp_addr (union_dst (srng_u g))) = 0"
    by (simp add: s'_def setup_state_def f(3))
  have out: "outside g (rdp_vaddr (hal s) + of_nat (4 * type_rid type))"
    unfolding outside_def geom f(8) using pre(8) .
  have "k_iomapped s'"
    using pre(2) by (simp add: s'_def setup_state_def)
  then show "dst_ready (type_rid type) s'"
    unfolding dst_ready_def get option.case
    using f(2-) geom assms(2) out cell pre(5) cell_ok [OF pre(6), of type]
    by (subst f(1)) (simp add: mem)
  show "dst_queue (type_rid type) s' = []"
    using cell f(2) geom(3) pre(3) by (simp add: dst_queue_def list pending_def ring_dist_def geom)
qed

lemma hwreg_base_nat:
  assumes "rid < 256" "grp < 2"
  shows "srng_hwreg_base (int rid) grp = of_nat (ring_reg rid grp 0)"
proof -
  let ?x = "of_nat rid :: u32" and ?g = "of_nat grp :: u32"
  have "unat ?x < 2 ^ 8" "unat ?g < 2 ^ 1"
    using assms by (simp_all add: unat_of_nat_32)
  then have x: "\<not> bit ?x i" if "8 \<le> i" for i
    using that word_bit_above by blast
  have g: "\<not> bit ?g i" if "1 \<le> i" for i
    using \<open>unat ?g < 2 ^ 1\<close> that word_bit_above by blast
  have base: "HAL_SRNG_REG_BASE = push_bit 16 1"
    by (simp add: HAL_SRNG_REG_BASE_def)
  have "push_bit 8 ?x AND push_bit 7 ?g = 0"
    by (rule bit_word_eqI) (use g in \<open>auto simp: bit_simps\<close>)
  then have 1: "push_bit 8 ?x OR push_bit 7 ?g = push_bit 8 ?x + push_bit 7 ?g"
    by (rule disjunctive_add_eq_or [symmetric])
  have "bit HAL_SRNG_REG_BASE n \<longleftrightarrow> n = 16" for n
    unfolding base by (auto simp only: bit_push_bit_iff bit_1_iff) (simp_all add: possible_bit_def)
  then have "HAL_SRNG_REG_BASE AND (push_bit 8 ?x OR push_bit 7 ?g) = 0"
    by (intro bit_word_eqI) (use x [of 8] g [of 9] in \<open>auto simp: bit_simps\<close>)
  then have 2: "HAL_SRNG_REG_BASE OR (push_bit 8 ?x OR push_bit 7 ?g)
      = HAL_SRNG_REG_BASE + (push_bit 8 ?x OR push_bit 7 ?g)"
    by (rule disjunctive_add_eq_or [symmetric])
  have "srng_hwreg_base (int rid) grp = HAL_SRNG_REG_BASE + (push_bit 8 ?x + push_bit 7 ?g)"
    unfolding srng_hwreg_base_def using 1 2 by simp
  then show ?thesis
    by (simp add: ring_reg_def push_bit_eq_mult HAL_SRNG_REG_BASE_def)
qed

lemma reg_event_addr:
  assumes "rid < 256" "grp < 2" "k < 32" "hwreg_base g grp = srng_hwreg_base (int rid) grp"
  shows "reg_event mmio g (grp, of_nat k, v) = EvIoWrite (mmio + of_nat (ring_reg rid grp k)) v"
proof -
  have lt: "ring_reg rid grp k < 2 ^ 32"
    using assms(1-3) by (simp add: ring_reg_def)
  have "srng_hwreg_base (int rid) grp + push_bit 2 (of_nat k) = (of_nat (ring_reg rid grp k) :: u32)"
    unfolding hwreg_base_nat [OF assms(1,2)] by (simp add: ring_reg_def push_bit_eq_mult)
  then have "(ucast (hwreg_base g grp + push_bit 2 (of_nat k)) :: u64) = of_nat (ring_reg rid grp k)"
    unfolding assms(4) using unat_of_nat_32 [OF lt] by (metis of_nat_unat)
  then show ?thesis
    by (simp add: reg_event_def)
qed

lemma ring_reg_inject:
  assumes "grp < 2" "grp' < 2" "k < 32" "k' < 32" "rid < 256" "rid' < 256"
  shows "(of_nat (ring_reg rid grp k) :: u64) = of_nat (ring_reg rid' grp' k') \<longleftrightarrow> rid = rid' \<and> grp = grp' \<and> k = k'"
proof -
  have "ring_reg rid grp k < 2 ^ 64" "ring_reg rid' grp' k' < 2 ^ 64"
    using assms by (simp_all add: ring_reg_def)
  then have "(of_nat (ring_reg rid grp k) :: u64) = of_nat (ring_reg rid' grp' k')
      \<longleftrightarrow> ring_reg rid grp k = ring_reg rid' grp' k'"
    by (rule of_nat_64_eq_iff)
  also have "\<dots> \<longleftrightarrow> rid = rid' \<and> grp = grp' \<and> k = k'"
  proof
    assume "ring_reg rid grp k = ring_reg rid' grp' k'"
    then have eq: "256 * rid + (128 * grp + 4 * k) = 256 * rid' + (128 * grp' + 4 * k')"
      by (simp add: ring_reg_def)
    then have "(256 * rid + (128 * grp + 4 * k)) div 256 = (256 * rid' + (128 * grp' + 4 * k')) div 256"
      by simp
    then have r: "rid = rid'"
      using assms by simp
    then have "(128 * grp + 4 * k) div 128 = (128 * grp' + 4 * k') div 128"
      using eq by simp
    then have "grp = grp'"
      using assms by simp
    with r eq show "rid = rid' \<and> grp = grp' \<and> k = k'"
      by simp
  qed simp
  finally show ?thesis .
qed

lemma type_rid_256: "type_rid type < 256"
  by (cases type) (simp_all add: type_facts)

lemma setup_either:
  assumes "setup_pre type params s"
  shows "wireless_simu_hal_srng_setup env type 0 mac params s =
    Some (int (type_rid type),
      setup_state type params (setup_ring env type params s) (setup_regs env type params s) s)"
proof (cases "c_ring_dir (hw_srng_config_template type)")
  case HAL_SRNG_DIR_SRC
  then show ?thesis
    using setup_src_eq [OF assms HAL_SRNG_DIR_SRC] by (simp add: setup_regs_def setup_ring_def Let_def)
next
  case HAL_SRNG_DIR_DST
  then show ?thesis
    using setup_dst_eq [OF assms HAL_SRNG_DIR_DST] by (simp add: setup_regs_def setup_ring_def Let_def)
qed

lemma setup_ring_fields:
  assumes "setup_pre type params s"
  shows "entry_size (setup_ring env type params s) = of_nat (type_esz type)"
    "num_entries (setup_ring env type params s) = of_int (p_num_entries params)"
    "ring_base_paddr (setup_ring env type params s) = p_ring_base_paddr params"
    "ring_id (setup_ring env type params s) = of_nat (type_rid type)"
    "hwreg_base (setup_ring env type params s) 0 = srng_hwreg_base (int (type_rid type)) 0"
    "hwreg_base (setup_ring env type params s) 1 = srng_hwreg_base (int (type_rid type)) 1"
  using setup_src_fields(5,6,9,12-14) [OF assms, of env] setup_dst_fields(5,6,9,12-14) [OF assms, of env]
  by (simp_all add: setup_ring_def)

lemma setup_regs_shape:
  "\<exists>xs v. setup_regs env type params s = xs @ [(0, 7, v)] \<and> bit v 6 \<and> (1, 0, 0) \<in> set xs \<and> (1, 1, 0) \<in> set xs \<and>
    (\<forall>x\<in>set xs. \<exists>grp k v. x = (grp, of_nat k, v) \<and> grp < 2 \<and> k < 7)"
proof -
  have misc: "bit (ucast (misc_val b g) :: u32) 6" for b g
    by (simp add: misc_val_def bit_simps bit_BIT)
  have k: "\<exists>k. of_nat k = (w :: u32) \<and> k < 7" if "unat w < 7" for w
    using that by (intro exI [of _ "unat w"]) simp
  show ?thesis
    by (cases "c_ring_dir (hw_srng_config_template type)";
        simp add: setup_regs_def src_hw_regs_def dst_hw_regs_def Let_def misc)
      (auto intro!: k)
qed

lemma sample_setup_pre:
  "setup_pre HAL_TEST_SRNG_DST sample_params sample" "setup_pre HAL_TEST_SRNG_DST_STATUS sample_params sample"
  by (simp_all add: setup_pre_def sample_params_def get_srng_config_def type_facts sample_defs ring_eval Let_def)

lemma sample_dirty_setup_pre:
  "setup_pre HAL_TEST_SRNG_DST sample_params (sample\<lparr>k_mem := \<lambda>_. 7\<rparr>)"
  "setup_pre HAL_TEST_SRNG_DST_STATUS sample_params (sample\<lparr>k_mem := \<lambda>_. 7\<rparr>)"
  by (simp_all add: setup_pre_def sample_params_def get_srng_config_def type_facts sample_defs ring_eval Let_def)

lemma lsb_mask: "ucast (p AND HAL_ADDR_LSB_REG_MASK) = (ucast p :: u32)" for p :: u64
proof -
  have m: "HAL_ADDR_LSB_REG_MASK = mask 32"
    by (simp add: HAL_ADDR_LSB_REG_MASK_def mask_eq_exp_minus_1)
  show ?thesis
    unfolding m by (rule bit_word_eqI) (auto simp: bit_simps)
qed

lemma join_words: "ucast (ucast p :: u32) OR push_bit 32 (ucast (ucast (drop_bit 32 p) :: u32)) = p" for p :: u64
  by (rule bit_word_eqI) (auto simp: bit_simps)

lemma base_msb_fields:
  assumes "unat (ring_base_paddr g) < 2 ^ 40" "unat (entry_size g * num_entries g) < 2 ^ 20"
  shows "join_paddr (ucast (ring_base_paddr g)) (ring_base_msb_val (GENMASK 7 0) (GENMASK 27 8) g) = ring_base_paddr g"
    and "FIELD_GET (GENMASK 27 8) (ucast (ring_base_msb_val (GENMASK 7 0) (GENMASK 27 8) g))
         = ucast (entry_size g * num_entries g)"
proof -
  let ?v = "ring_base_msb_val (GENMASK 7 0) (GENMASK 27 8) g"
  have bits: "bit ?v i \<longleftrightarrow> (if i < 8 then bit (ring_base_paddr g) (32 + i)
      else i < 28 \<and> bit (entry_size g * num_entries g) (i - 8))" for i
    by (auto simp: ring_base_msb_val_def bit_simps bit_FIELD_PREP HAL_ADDR_MSB_REG_SHIFT_def dest: bit_imp_le_length)
  show "join_paddr (ucast (ring_base_paddr g)) ?v = ring_base_paddr g"
    using join_paddr_split [OF assms(1), of ?v] bits by (simp add: lsb_mask)
  show "FIELD_GET (GENMASK 27 8) (ucast ?v) = ucast (entry_size g * num_entries g)"
  proof (rule bit_word_eqI)
    fix j :: nat
    assume "j < LENGTH(64)"
    have "\<not> bit (entry_size g * num_entries g) j" if "20 \<le> j"
      using word_bit_above [OF assms(2) that] .
    then show "bit (FIELD_GET (GENMASK 27 8) (ucast ?v)) j = bit (ucast (entry_size g * num_entries g) :: u64) j"
      by (cases "j < 20") (auto simp: bit_FIELD_GET bit_simps bits)
  qed
qed

lemma id_entry_size:
  assumes "unat (e :: u32) < 2 ^ 8" "\<And>i. i < 8 \<Longrightarrow> \<not> bit rest i"
  shows "FIELD_GET (GENMASK 7 0) (ucast (ucast (rest OR FIELD_PREP (GENMASK 7 0) (ucast e)) :: u32)) = ucast e"
proof (rule bit_word_eqI)
  fix j :: nat
  assume "j < LENGTH(64)"
  have "\<not> bit e j" if "8 \<le> j"
    using word_bit_above [OF assms(1) that] .
  then show "bit (FIELD_GET (GENMASK 7 0) (ucast (ucast (rest OR FIELD_PREP (GENMASK 7 0) (ucast e)) :: u32))) j
      = bit (ucast e :: u64) j"
    using assms(2) by (cases "j < 8") (auto simp: bit_FIELD_GET bit_simps bit_FIELD_PREP)
qed

lemma unat_ucast_64: "unat (ucast (w :: u32) :: u64) = unat w"
proof -
  have "unat w < 2 ^ 32"
    using unsigned_less [where ?'a = nat and w = w] by simp
  then have "unat (of_nat (unat w) :: u64) = unat w"
    by (intro unat_of_nat_64) simp
  then show ?thesis
    by simp
qed

section \<open>Properties\<close>

text \<open>
  C21: Setting up a source ring of the configuration table, with its memory live, succeeds without
  fault: the ring gets the identifier of its type, every word of its memory is zero and so is its
  cell of the shared pointer array, while no other word of memory changes; it is ready for posting,
  empty, and holds one entry less than it has. No other ring changes, nothing is
  allocated or released, and its lock is free.
\<close>

theorem setup_source_ring:
  assumes "setup_pre type params s" and "c_ring_dir (hw_srng_config_template type) = HAL_SRNG_DIR_SRC"
  shows "\<exists>s'. wireless_simu_hal_srng_setup env type 0 mac params s = Some (int (type_rid type), s') \<and>
    src_ready (type_rid type) s' \<and> src_queue (type_rid type) s' = [] \<and>
    src_capacity (type_rid type) s' = nat (p_num_entries params) - 1 \<and>
    (\<forall>a. k_mem s' a = (if unat (a - p_ring_base_vaddr params) < 4 * (type_esz type * nat (p_num_entries params)) \<or>
        a = rdp_vaddr (hal s) + of_nat (4 * type_rid type) then 0 else k_mem s a)) \<and>
    (\<forall>j. j \<noteq> type_rid type \<longrightarrow> srng_list (hal s') j = srng_list (hal s) j) \<and>
    k_dma s' = k_dma s \<and> k_heap s' = k_heap s \<and> k_maps s' = k_maps s \<and> k_skbs s' = k_skbs s \<and>
    SrngLock (type_rid type) \<notin> set (k_held s')"
proof -
  have ring: "setup_ring env type params s = setup_src env type params s"
    using assms(2) by (simp add: setup_ring_def)
  show ?thesis
    using setup_either [OF assms(1), of env mac] setup_src_ready [OF assms, of env] ring
    by (simp add: setup_state_def mem_zero_def)
qed

theorem setup_source_ring_witness:
  "\<exists>s'. wireless_simu_hal_srng_setup sample_env HAL_TEST_SRNG_DST 0 0 sample_params (sample\<lparr>k_mem := \<lambda>_. 7\<rparr>) =
       Some (8, s') \<and> src_ready 8 s' \<and> src_capacity 8 s' = 31 \<and> k_mem s' 0x317c = 0 \<and> k_mem s' 0x3180 = 7"
  using setup_source_ring [OF sample_dirty_setup_pre(1), of sample_env 0]
  by (auto simp: type_facts sample_params_def hw_srng_config_template_def sample_def sample_hal_def)

text \<open>C22: The same for a destination ring, its memory and its pointer cell zeroed and no other word
  changed: it is ready for reading and holds no completion.\<close>

theorem setup_destination_ring:
  assumes "setup_pre type params s" and "c_ring_dir (hw_srng_config_template type) = HAL_SRNG_DIR_DST"
  shows "\<exists>s'. wireless_simu_hal_srng_setup env type 0 mac params s = Some (int (type_rid type), s') \<and>
    dst_ready (type_rid type) s' \<and> dst_queue (type_rid type) s' = [] \<and>
    (\<forall>a. k_mem s' a = (if unat (a - p_ring_base_vaddr params) < 4 * (type_esz type * nat (p_num_entries params)) \<or>
        a = rdp_vaddr (hal s) + of_nat (4 * type_rid type) then 0 else k_mem s a)) \<and>
    (\<forall>j. j \<noteq> type_rid type \<longrightarrow> srng_list (hal s') j = srng_list (hal s) j) \<and>
    k_dma s' = k_dma s \<and> k_heap s' = k_heap s \<and> k_maps s' = k_maps s \<and> k_skbs s' = k_skbs s \<and>
    SrngLock (type_rid type) \<notin> set (k_held s')"
proof -
  have ring: "setup_ring env type params s = setup_dst env type params s"
    using assms(2) by (simp add: setup_ring_def)
  show ?thesis
    using setup_either [OF assms(1), of env mac] setup_dst_ready [OF assms, of env] ring
    by (simp add: setup_state_def mem_zero_def)
qed

theorem setup_destination_ring_witness:
  "\<exists>s'. wireless_simu_hal_srng_setup sample_env HAL_TEST_SRNG_DST_STATUS 0 0 sample_params
       (sample\<lparr>k_mem := \<lambda>_. 7\<rparr>) = Some (1, s') \<and>
     dst_ready 1 s' \<and> dst_queue 1 s' = [] \<and> k_mem s' 0x30fc = 0 \<and> k_mem s' 0x3100 = 7"
  using setup_destination_ring [OF sample_dirty_setup_pre(2), of sample_env 0]
  by (auto simp: type_facts sample_params_def hw_srng_config_template_def sample_def sample_hal_def)

text \<open>
  C24: A set-up writes only registers of its own ring, clears the ring's head and tail registers,
  and enables the ring with its very last write: the enable bit is set there and the enable
  register is not written before. The device never sees a half-configured ring enabled.
\<close>

theorem ring_enabled_last:
  assumes "setup_pre type params s"
  shows "\<exists>s' ws v. wireless_simu_hal_srng_setup env type 0 mac params s = Some (int (type_rid type), s') \<and>
    k_trace s' = k_trace s @ ws @ [EvIoWrite (mmio_addr s + of_nat (ring_reg (type_rid type) 0 7)) v] \<and>
    bit v 6 \<and> (\<forall>v'. EvIoWrite (mmio_addr s + of_nat (ring_reg (type_rid type) 0 7)) v' \<notin> set ws) \<and>
    EvIoWrite (mmio_addr s + of_nat (ring_reg (type_rid type) 1 0)) 0 \<in> set ws \<and>
    EvIoWrite (mmio_addr s + of_nat (ring_reg (type_rid type) 1 1)) 0 \<in> set ws \<and>
    (\<forall>e\<in>set ws. \<exists>grp k v'. grp < 2 \<and> k < 32 \<and>
       e = EvIoWrite (mmio_addr s + of_nat (ring_reg (type_rid type) grp k)) v')"
proof -
  let ?g = "setup_ring env type params s" and ?rid = "type_rid type"
  obtain xs v where x: "setup_regs env type params s = xs @ [(0, 7, v)]" "bit v 6" "(1, 0, 0) \<in> set xs"
    "(1, 1, 0) \<in> set xs" "\<forall>x\<in>set xs. \<exists>grp k v. x = (grp, of_nat k, v) \<and> grp < 2 \<and> k < 7"
    using setup_regs_shape by blast
  have base: "hwreg_base ?g grp = srng_hwreg_base (int ?rid) grp" if "grp < 2" for grp
    using that setup_ring_fields(5,6) [OF assms, of env] by (auto simp: less_2_cases_iff)
  have ev: "reg_event m ?g (grp, of_nat k, w) = EvIoWrite (m + of_nat (ring_reg ?rid grp k)) w"
    if "grp < 2" "k < 32" for m grp k w
    using reg_event_addr [OF type_rid_256 that base [OF that(1)]] by simp
  have all: "\<exists>grp k w. grp < 2 \<and> k < 7 \<and> e = EvIoWrite (mmio_addr s + of_nat (ring_reg ?rid grp k)) w"
    if "e \<in> set (map (reg_event (mmio_addr s) ?g) xs)" for e
    using that x(5) ev by fastforce
  let ?ws = "map (reg_event (mmio_addr s) ?g) xs"
  let ?s' = "setup_state type params ?g (setup_regs env type params s) s"
  have once: "EvIoWrite (mmio_addr s + of_nat (ring_reg ?rid 0 7)) v' \<notin> set ?ws" for v'
    using all ring_reg_inject [of 0 _ 7 _ ?rid ?rid] type_rid_256 by fastforce
  have ptr: "EvIoWrite (mmio_addr s + of_nat (ring_reg ?rid 1 0)) 0 \<in> set ?ws"
    "EvIoWrite (mmio_addr s + of_nat (ring_reg ?rid 1 1)) 0 \<in> set ?ws"
    using x(3,4) ev [of 1 0 "mmio_addr s" 0] ev [of 1 1 "mmio_addr s" 0] by (force, force)
  have trace: "k_trace ?s' = k_trace s @ ?ws @ [EvIoWrite (mmio_addr s + of_nat (ring_reg ?rid 0 7)) v]"
    using ev [of 0 7 "mmio_addr s" v] by (simp add: setup_state_def x(1))
  have own: "\<forall>e\<in>set ?ws. \<exists>grp k v'. grp < 2 \<and> k < 32 \<and>
      e = EvIoWrite (mmio_addr s + of_nat (ring_reg ?rid grp k)) v'"
    using all by (meson less_trans numeral_less_iff semiring_norm(76,78,81))
  show ?thesis
    using setup_either [OF assms, of env mac] trace x(2) once ptr own by blast
qed

theorem ring_enabled_last_witness:
  "\<exists>s' ws v. wireless_simu_hal_srng_setup sample_env HAL_TEST_SRNG_DST 0 0 sample_params sample = Some (8, s') \<and>
     k_trace s' = ws @ [EvIoWrite 0xf001081c v] \<and> bit v 6"
  using ring_enabled_last [OF sample_setup_pre(1), of sample_env 0]
  by (auto simp: type_facts ring_reg_def sample_def)

text \<open>
  C23: From the registers a set-up writes, the device reads back what the driver asked for: the
  bus address of the ring (up to 40 bits), its size in words (up to 20 bits), the size of an entry,
  and the full 64-bit bus address of the ring's pointer cell in the shared array.
\<close>

theorem ring_registers_roundtrip:
  assumes "setup_pre type params s" and "unat (p_ring_base_paddr params) < 2 ^ 40"
    and "type_esz type * nat (p_num_entries params) < 2 ^ 20"
  shows "\<exists>s' v0 v1 v2 v5 v6. wireless_simu_hal_srng_setup env type 0 mac params s = Some (int (type_rid type), s') \<and>
    {EvIoWrite (mmio_addr s + of_nat (ring_reg (type_rid type) 0 0)) v0,
     EvIoWrite (mmio_addr s + of_nat (ring_reg (type_rid type) 0 1)) v1,
     EvIoWrite (mmio_addr s + of_nat (ring_reg (type_rid type) 0 2)) v2,
     EvIoWrite (mmio_addr s + of_nat (ring_reg (type_rid type) 0 5)) v5,
     EvIoWrite (mmio_addr s + of_nat (ring_reg (type_rid type) 0 6)) v6} \<subseteq> set (k_trace s') \<and>
    join_paddr v0 v1 = p_ring_base_paddr params \<and>
    unat (FIELD_GET (GENMASK 27 8) (ucast v1)) = type_esz type * nat (p_num_entries params) \<and>
    unat (FIELD_GET (GENMASK 7 0) (ucast v2)) = type_esz type \<and>
    ucast v5 OR push_bit 32 (ucast v6) = rdp_paddr (hal s) + of_nat (4 * type_rid type)"
proof -
  let ?g = "setup_ring env type params s" and ?rid = "type_rid type"
  let ?cell = "rdp_paddr (hal s) + of_nat (4 * ?rid)"
  note f = setup_ring_fields [OF assms(1), of env]
  note geom = setup_bytes [OF setup_preD(3,4) [OF assms(1)]]
  have en: "unat (entry_size ?g * num_entries ?g) = type_esz type * nat (p_num_entries params)"
    unfolding f using geom by (simp add: unat_word_ariths)
  have e: "unat (entry_size ?g) = type_esz type"
    unfolding f by (rule geom(3))
  let ?v1 = "ring_base_msb_val (GENMASK 7 0) (GENMASK 27 8) ?g"
  let ?r = "if c_ring_dir (hw_srng_config_template type) = HAL_SRNG_DIR_SRC then 0
    else FIELD_PREP (GENMASK 15 8) (ucast (ring_id ?g))"
  let ?v2 = "ucast (?r OR FIELD_PREP (GENMASK 7 0) (ucast (entry_size ?g))) :: u32"
  have regs: "{(0, 0, ucast (ring_base_paddr ?g)), (0, 1, ?v1), (0, 2, ?v2), (0, 5, ucast ?cell),
      (0, 6, ucast (drop_bit 32 ?cell))} \<subseteq> set (setup_regs env type params s)"
    using f(4) setup_src_fields(3) [OF assms(1), of env] setup_dst_fields(3) [OF assms(1), of env]
    by (cases type) (simp_all add: setup_regs_def setup_ring_def src_hw_regs_def dst_hw_regs_def lsb_mask Let_def
        hw_srng_config_template_def type_facts)
  have ev: "reg_event (mmio_addr s) ?g (0, of_nat k, v) = EvIoWrite (mmio_addr s + of_nat (ring_reg ?rid 0 k)) v"
    if "k < 32" for k v
    using reg_event_addr [OF type_rid_256 _ that f(5)] by simp
  let ?s' = "setup_state type params ?g (setup_regs env type params s) s"
  have "reg_event (mmio_addr s) ?g ` {(0, 0, ucast (ring_base_paddr ?g)), (0, 1, ?v1), (0, 2, ?v2),
      (0, 5, ucast ?cell), (0, 6, ucast (drop_bit 32 ?cell))} \<subseteq> set (k_trace ?s')"
    using image_mono [OF regs, of "reg_event (mmio_addr s) ?g"] by (simp only: setup_state_def) auto
  then have w: "{EvIoWrite (mmio_addr s + of_nat (ring_reg ?rid 0 0)) (ucast (ring_base_paddr ?g)),
      EvIoWrite (mmio_addr s + of_nat (ring_reg ?rid 0 1)) ?v1, EvIoWrite (mmio_addr s + of_nat (ring_reg ?rid 0 2)) ?v2,
      EvIoWrite (mmio_addr s + of_nat (ring_reg ?rid 0 5)) (ucast ?cell),
      EvIoWrite (mmio_addr s + of_nat (ring_reg ?rid 0 6)) (ucast (drop_bit 32 ?cell))} \<subseteq> set (k_trace ?s')"
    using ev [of 0] ev [of 1] ev [of 2] ev [of 5] ev [of 6] by (simp only: image_insert image_empty) simp
  have "unat (entry_size ?g) < 2 ^ 8" "\<And>i. i < 8 \<Longrightarrow> \<not> bit ?r i"
    unfolding e using type_esz_bounds(2) [of type] by (auto simp: bit_FIELD_PREP)
  note v2 = id_entry_size [OF this]
  have p: "unat (ring_base_paddr ?g) < 2 ^ 40" "unat (entry_size ?g * num_entries ?g) < 2 ^ 20"
    using assms(2,3) by (simp_all only: en f(3))
  note v1 = base_msb_fields [OF p]
  show ?thesis
  proof (intro exI conjI)
    show "wireless_simu_hal_srng_setup env type 0 mac params s = Some (int ?rid, ?s')"
      by (rule setup_either [OF assms(1)])
    show "join_paddr (ucast (ring_base_paddr ?g)) ?v1 = p_ring_base_paddr params"
      using v1(1) f(3) by simp
    show "unat (FIELD_GET (GENMASK 27 8) (ucast ?v1)) = type_esz type * nat (p_num_entries params)"
      using v1(2) en by (simp only: unat_ucast_64)
    show "unat (FIELD_GET (GENMASK 7 0) (ucast ?v2)) = type_esz type"
      using v2 e by (simp only: unat_ucast_64)
  qed (rule w, rule join_words)
qed

theorem ring_registers_roundtrip_witness:
  "\<exists>s' v0 v1. wireless_simu_hal_srng_setup sample_env HAL_TEST_SRNG_DST 0 0 sample_params sample = Some (8, s') \<and>
     EvIoWrite 0xf0010800 v0 \<in> set (k_trace s') \<and> EvIoWrite 0xf0010804 v1 \<in> set (k_trace s') \<and>
     join_paddr v0 v1 = 0x12000 \<and> unat (FIELD_GET (GENMASK 27 8) (ucast v1)) = 96"
  using ring_registers_roundtrip [OF sample_setup_pre(1), of sample_env 0]
  by (auto simp: type_facts ring_reg_def sample_params_def sample_def)

text \<open>
  C25: Ring numbering, for every C \<^verbatim>\<open>int\<close> as ring number and every mac. In the table of this driver a
  type has one ring: a positive ring number is refused with -EINVAL, ring number 0 gives the type's
  identifier, which lies inside the ring table and is shared with no other type. A negative ring
  number is not refused: it counts back from the identifier, into the rings of other types or below
  the table. For any configuration the identifier stays below the end of the table; it is -EINVAL
  or an entry of the table as long as no number is negative and the mac number is below 2^27, so
  that the product with the rings per mac does not overflow.
\<close>

theorem ring_id_in_table:
  assumes "- (2 ^ 31) \<le> n"
  shows "hal_srng_get_ring_id (hw_srng_config_template type) n mac =
      (if 0 < n then neg_errno EINVAL else int (type_rid type) + n) \<and>
    int (type_rid type) < HAL_SRNG_RING_ID_MAX \<and>
    (\<forall>type'. type_rid type' = type_rid type \<longrightarrow> type' = type) \<and>
    (\<forall>cfg. hal_srng_get_ring_id cfg n mac < HAL_SRNG_RING_ID_MAX) \<and>
    (\<forall>cfg. 0 \<le> n \<and> 0 \<le> mac \<and> mac < 2 ^ 27 \<and> 0 \<le> c_start_ring_id cfg \<and> c_start_ring_id cfg < HAL_SRNG_RING_ID_MAX \<longrightarrow>
       hal_srng_get_ring_id cfg n mac = neg_errno EINVAL \<or> 0 \<le> hal_srng_get_ring_id cfg n mac)"
proof (intro conjI allI impI)
  show "hal_srng_get_ring_id (hw_srng_config_template type) n mac =
      (if 0 < n then neg_errno EINVAL else int (type_rid type) + n)"
    using assms by (cases type) (auto simp: hal_srng_get_ring_id_def hw_srng_config_template_def type_facts c_int_id hal_consts)
  show "int (type_rid type) < HAL_SRNG_RING_ID_MAX"
    by (rule type_rid_bound)
  show "type' = type" if "type_rid type' = type_rid type" for type'
    using that by (cases type; cases type') (simp_all add: type_facts)
  show "hal_srng_get_ring_id cfg n mac < HAL_SRNG_RING_ID_MAX" for cfg
    by (simp add: hal_srng_get_ring_id_def hal_consts Let_def)
  fix cfg :: hal_srng_config
  assume r: "0 \<le> n \<and> 0 \<le> mac \<and> mac < 2 ^ 27 \<and> 0 \<le> c_start_ring_id cfg \<and> c_start_ring_id cfg < HAL_SRNG_RING_ID_MAX"
  have "uint (c_max_rings cfg) < 2 ^ 16"
    using uint_bounded [of "c_max_rings cfg"] by simp
  then show "hal_srng_get_ring_id cfg n mac = neg_errno EINVAL \<or> 0 \<le> hal_srng_get_ring_id cfg n mac"
    using r by (simp add: hal_srng_get_ring_id_def hal_consts Let_def c_int_id)
qed

text \<open>Ring number -117 of the source ring's type is the ring of the destination's type, a mac number
  whose product with 15 overflows gives an identifier far below the table.\<close>

theorem ring_id_in_table_witness:
  "hal_srng_get_ring_id (hw_srng_config_template HAL_TEST_SRNG) 1 0 = -22 \<and>
   hal_srng_get_ring_id (hw_srng_config_template HAL_TEST_SRNG) 0 0 = 125 \<and>
   hal_srng_get_ring_id (hw_srng_config_template HAL_TEST_SRNG) (-117) 0 = int (type_rid HAL_TEST_SRNG_DST) \<and>
   hal_srng_get_ring_id ((hw_srng_config_template HAL_TEST_SRNG)\<lparr>c_lmac_ring := True\<rparr>) 0 143165577 = -2147483516"
  using ring_id_in_table [of 1 HAL_TEST_SRNG 0] ring_id_in_table [of 0 HAL_TEST_SRNG 0]
    ring_id_in_table [of "-117" HAL_TEST_SRNG 0]
  by (simp add: type_facts hal_srng_get_ring_id_def hw_srng_config_template_def hal_consts c_int_def)

end
