(* ===== verification/Hal_Lifecycle.thy ===== *)
theory Hal_Lifecycle
  imports Srng_Access
begin

text \<open>
  Module initialisation and release of the ring layer: what they allocate and what they give back
  on every path.
\<close>

lemma unregister_keys:
  "fold (\<lambda>i. emit (EvLockdepUnregister i)) is s = s\<lparr>k_trace := k_trace s @ map EvLockdepUnregister is\<rparr>"
  by (induction "is" arbitrary: s) (simp_all add: emit_def)

lemmas init_defs = wireless_simu_hal_srng_init_def hal_srng_create_config_def hal_alloc_cont_rdp_def
  hal_alloc_cont_wdp_def hal_free_cont_rdp_def hal_free_cont_wrp_def hal_register_srng_key_def
  wireless_simu_hal_srng_deinit_def hal_unregister_srng_key_def kmalloc_def dma_alloc_coherent_def
  dma_free_coherent_def kfree_def tick_def unregister_keys Let_def

lemma rdp_bytes_val: "rdp_bytes = 688" "wrp_bytes = 180"
  by (simp_all add: rdp_bytes_def wrp_bytes_def hal_consts)

section \<open>Properties\<close>

text \<open>
  Initialising the ring layer always returns, with 0 or -ENOMEM. On 0 the configuration table
  and both pointer arrays are allocated, the read pointers with four bytes for every ring of the
  table, and releasing the layer gives back exactly what was allocated, without fault. On -ENOMEM
  no DMA memory stays allocated.
\<close>

theorem hal_init_deinit:
  fixes s :: "'a wireless_simu_scheme"
  shows "\<exists>ret s1. wireless_simu_hal_srng_init env s = Some (ret, s1) \<and> k_held s1 = k_held s \<and>
    (if ret = 0
     then get_srng_config s1 = Some hw_srng_config_template \<and>
       (\<forall>rid. int rid < HAL_SRNG_RING_ID_MAX \<longrightarrow> mem_ok (rdp_vaddr (hal s1) + of_nat (4 * rid)) 4 s1) \<and>
       (\<exists>s2. wireless_simu_hal_srng_deinit s1 = Some s2 \<and> k_dma s2 = k_dma s \<and> k_heap s2 = k_heap s \<and>
         rdp_vaddr (hal s2) = 0 \<and> wrp_vaddr (hal s2) = 0)
     else ret = neg_errno ENOMEM \<and> k_dma s1 = k_dma s)"
proof -
  obtain v1 p1 where 1: "env_dma_alloc env (Suc (k_calls s)) rdp_bytes = (v1, p1)" by (cases "env_dma_alloc env (Suc (k_calls s)) rdp_bytes")
  obtain v2 p2 where 2: "env_dma_alloc env (Suc (Suc (k_calls s))) wrp_bytes = (v2, p2)" by (cases "env_dma_alloc env (Suc (Suc (k_calls s))) wrp_bytes")
  have mem: "mem_ok (v1 + of_nat (4 * rid)) 4 t" if "(v1, rdp_bytes, p1) \<in> set (k_dma t)" "int rid < HAL_SRNG_RING_ID_MAX"
    for rid and t :: "'a wireless_simu_scheme"
  proof -
    have "mem_ok v1 688 t"
      using that(1) by (auto simp: mem_ok_def list_ex_iff in_region_def rdp_bytes_val intro!: bexI [of _ "(v1, rdp_bytes, p1)"])
    then show ?thesis
      by (rule mem_ok_offset) (use that(2) in \<open>simp add: hal_consts\<close>)
  qed
  show ?thesis
    using 1 2 mem by (cases "env_kmalloc env (k_calls s)"; cases "v1 = 0"; cases "v2 = 0")
      (auto simp: init_defs get_srng_config_def)
qed


theorem hal_init_deinit_witness:
  "\<exists>s1. wireless_simu_hal_srng_init sample_env sample = Some (0, s1) \<and>
     mem_ok (rdp_vaddr (hal s1) + 32) 4 s1 \<and>
     (\<exists>s2. wireless_simu_hal_srng_deinit s1 = Some s2 \<and> k_dma s2 = k_dma sample \<and> k_heap s2 = [0])"
proof -
  obtain s1 where s1: "wireless_simu_hal_srng_init sample_env sample = Some (0, s1)"
    by (simp add: init_defs sample_env_def sample_def rdp_bytes_val)
  then have all: "\<forall>rid. int rid < HAL_SRNG_RING_ID_MAX \<longrightarrow> mem_ok (rdp_vaddr (hal s1) + of_nat (4 * rid)) 4 s1"
    and s2: "\<exists>s2. wireless_simu_hal_srng_deinit s1 = Some s2 \<and> k_dma s2 = k_dma sample \<and> k_heap s2 = k_heap sample"
    using hal_init_deinit [of sample_env sample] by auto
  have "mem_ok (rdp_vaddr (hal s1) + 32) 4 s1"
    using all [rule_format, of 8] by (simp add: hal_consts)
  then show ?thesis
    using s1 s2 by (auto simp: sample_def)
qed

text \<open>
  The error paths of the initialisation are not complete: when one of the two DMA allocations
  fails after the configuration table has been allocated, the table is neither freed nor forgotten;
  the caller gets -ENOMEM and one live heap object more than before.
\<close>

theorem hal_init_leaks_config:
  assumes "env_kmalloc env (k_calls s)"
    and "fst (env_dma_alloc env (Suc (k_calls s)) rdp_bytes) = 0 \<or>
         fst (env_dma_alloc env (Suc (Suc (k_calls s))) wrp_bytes) = 0"
  shows "\<exists>s1. wireless_simu_hal_srng_init env s = Some (neg_errno ENOMEM, s1) \<and>
    k_heap s1 = k_calls s # k_heap s \<and> srng_config (hal s1) = Some (k_calls s, hw_srng_config_template)"
proof -
  obtain v1 p1 where 1: "env_dma_alloc env (Suc (k_calls s)) rdp_bytes = (v1, p1)"
    by (cases "env_dma_alloc env (Suc (k_calls s)) rdp_bytes")
  obtain v2 p2 where 2: "env_dma_alloc env (Suc (Suc (k_calls s))) wrp_bytes = (v2, p2)"
    by (cases "env_dma_alloc env (Suc (Suc (k_calls s))) wrp_bytes")
  show ?thesis
    using assms 1 2 by (cases "v1 = 0") (auto simp: init_defs)
qed

theorem hal_init_leaks_config_witness:
  "\<exists>s1. wireless_simu_hal_srng_init (sample_env\<lparr>env_dma_alloc := (\<lambda>_ _. (0, 0))\<rparr>) sample = Some (-12, s1) \<and>
     k_heap s1 = [10, 0]"
  using hal_init_leaks_config [of "sample_env\<lparr>env_dma_alloc := (\<lambda>_ _. (0, 0))\<rparr>" sample]
  by (auto simp: sample_env_def sample_def)

end
