(* ===== verification/Mac_Types.thy ===== *)
theory Mac_Types
  imports Hal_Types
begin

text \<open>
  The data of the management path: the parts of \<^verbatim>\<open>struct wireless_simu\<close> (\<^verbatim>\<open>wireless.h\<close>) that the
  mac80211 callbacks and the command path work on, \<^verbatim>\<open>struct wireless_simu_vif\<close> and the encryption
  types (\<^verbatim>\<open>wireless_mac80211.h\<close>). What the kernel's 802.11 headers define is not part of the
  repository; it is the record \<^verbatim>\<open>mac_lib\<close>, an argument of the definitions that use it.
\<close>

type_synonym vifp = nat

datatype nl80211_iftype =
    NL80211_IFTYPE_STATION | NL80211_IFTYPE_AP | NL80211_IFTYPE_MONITOR | NL80211_IFTYPE_ADHOC
  | NL80211_IFTYPE_MESH_POINT | NL80211_IFTYPE_OTHER nat

datatype hal_encrypt_type =
    HAL_ENCRYPT_TYPE_WEP_40
  | HAL_ENCRYPT_TYPE_WEP_104
  | HAL_ENCRYPT_TYPE_TKIP_NO_MIC
  | HAL_ENCRYPT_TYPE_WEP_128
  | HAL_ENCRYPT_TYPE_TKIP_MIC
  | HAL_ENCRYPT_TYPE_WAPI
  | HAL_ENCRYPT_TYPE_CCMP_128
  | HAL_ENCRYPT_TYPE_OPEN
  | HAL_ENCRYPT_TYPE_CCMP_256
  | HAL_ENCRYPT_TYPE_GCMP_128
  | HAL_ENCRYPT_TYPE_AES_GCMP_256
  | HAL_ENCRYPT_TYPE_WAPI_GCM_SM4

definition WIRELESS_SIMU_SKB_HW_80211_ENCAP :: u8 where "WIRELESS_SIMU_SKB_HW_80211_ENCAP = 1"

definition WIRELESS_SIMU_SKB_CIPHER_SET :: u8 where "WIRELESS_SIMU_SKB_CIPHER_SET = 2"

definition WIRELESS_SIMU_HW_QUEUE :: nat where "WIRELESS_SIMU_HW_QUEUE = 4"

definition WIRELESS_MAX_NUM_VIF :: nat where "WIRELESS_MAX_NUM_VIF = 4"

definition WIRELESS_SIMU_TX_MGMT_NUM_PENDING_MAX :: int where
  "WIRELESS_SIMU_TX_MGMT_NUM_PENDING_MAX = 512"

definition WIRELESS_SIMU_TX_MGMT_TARGET_MAX_SUPPORT :: int where
  "WIRELESS_SIMU_TX_MGMT_TARGET_MAX_SUPPORT = 64"

definition WIRELESS_SIMU_PRB_RSP_DROP_THRESHOLD :: int where
  "WIRELESS_SIMU_PRB_RSP_DROP_THRESHOLD = drop_bit 2 (WIRELESS_SIMU_TX_MGMT_TARGET_MAX_SUPPORT * 3)"

record wireless_simu_tx_params_arg =
  acm :: u8
  aifs :: u8
  cwmin :: u16
  cwmax :: u16
  txop :: u16
  no_ack :: u8

record wireless_simu_vif =
  vif_id :: int
  ac_be :: wireless_simu_tx_params_arg
  ac_bk :: wireless_simu_tx_params_arg
  ac_vi :: wireless_simu_tx_params_arg
  ac_vo :: wireless_simu_tx_params_arg

definition tx_params_zero :: wireless_simu_tx_params_arg where
  "tx_params_zero = \<lparr>acm = 0, aifs = 0, cwmin = 0, cwmax = 0, txop = 0, no_ack = 0\<rparr>"

definition simu_vif_zero :: wireless_simu_vif where
  "simu_vif_zero = \<lparr>vif_id = 0, ac_be = tx_params_zero, ac_bk = tx_params_zero,
     ac_vi = tx_params_zero, ac_vo = tx_params_zero\<rparr>"

text \<open>
  An interface of mac80211: its type, its queues and the driver's private part (\<^verbatim>\<open>drv_priv\<close>).
\<close>

record ieee80211_vif =
  vif_type :: nl80211_iftype
  hw_queue :: "int list"
  cab_queue :: int
  drv_priv :: wireless_simu_vif

text \<open>
  The last two fields are not the driver's: they say which of the objects of mac80211 that the driver
  holds pointers to exist. A read through a pointer to one that is gone is a fault.
\<close>

record wireless_simu_mac = wireless_simu +
  vif :: "vifp option list"
  vifs :: "vifp \<Rightarrow> ieee80211_vif"
  filter_flags :: u32
  tx_interrupt_enable :: bool
  rx_interrupt_enable :: bool
  mgmt_tx_queue :: "skbp list"
  num_pending_mgmt_tx :: int
  txmgmt_idr :: "(int \<times> skbp) list"
  dev_flag :: u64
  hw_live :: bool \<comment> \<open>mac80211's device of this driver is allocated\<close>
  vif_live :: "vifp \<Rightarrow> bool" \<comment> \<open>the interfaces mac80211 has allocated and not freed\<close>

text \<open>
  From the kernel's headers: the predicates on a frame control field, the flag and filter masks,
  the cipher suite selectors, the MIC lengths, the access categories, and the choice of
  \<^verbatim>\<open>idr_alloc\<close>, which for its n-th call, the identifiers in use and the bounds answers with an
  identifier or a negative error code.
\<close>

datatype ieee80211_filter =
    FIF_ALLMULTI | FIF_FCSFAIL | FIF_PLCPFAIL | FIF_BCN_PRBRESP_PROMISC | FIF_CONTROL
  | FIF_OTHER_BSS | FIF_PSPOLL | FIF_PROBE_REQ | FIF_MCAST_ACTION

datatype cipher_suite =
    WLAN_CIPHER_SUITE_WEP40 | WLAN_CIPHER_SUITE_WEP104 | WLAN_CIPHER_SUITE_TKIP
  | WLAN_CIPHER_SUITE_CCMP | WLAN_CIPHER_SUITE_CCMP_256 | WLAN_CIPHER_SUITE_GCMP
  | WLAN_CIPHER_SUITE_GCMP_256

datatype ieee80211_ac = IEEE80211_AC_VO | IEEE80211_AC_VI | IEEE80211_AC_BE | IEEE80211_AC_BK

record mac_lib =
  lib_is_mgmt :: "u16 \<Rightarrow> bool"
  lib_is_probe_resp :: "u16 \<Rightarrow> bool"
  lib_has_protected :: "u16 \<Rightarrow> bool"
  lib_is_action :: "u16 \<Rightarrow> bool"
  lib_is_deauth :: "u16 \<Rightarrow> bool"
  lib_is_disassoc :: "u16 \<Rightarrow> bool"
  lib_HW_80211_ENCAP :: u32
  lib_filter :: "ieee80211_filter \<Rightarrow> u32"
  lib_cipher :: "cipher_suite \<Rightarrow> u32"
  lib_ccmp_mic_len :: nat
  lib_ccmp_256_mic_len :: nat
  lib_gcmp_mic_len :: nat
  lib_ac :: "ieee80211_ac \<Rightarrow> u16"
  lib_inval_hw_queue :: int
  lib_idr_alloc :: "nat \<Rightarrow> int list \<Rightarrow> int \<Rightarrow> int \<Rightarrow> int"

text \<open>What the driver relies on: an identifier from \<^verbatim>\<open>idr_alloc\<close> lies within the bounds and is new.\<close>

definition idr_ok :: "mac_lib \<Rightarrow> bool" where
  "idr_ok lib = (\<forall>c ids lo hi. 0 \<le> lib_idr_alloc lib c ids lo hi \<longrightarrow>
     lo \<le> lib_idr_alloc lib c ids lo hi \<and> lib_idr_alloc lib c ids lo hi < hi \<and>
     lib_idr_alloc lib c ids lo hi \<notin> set ids)"

end
