(* ===== verification/Wmi.thy ===== *)
theory Wmi
  imports Mac_Types
begin

text \<open>
  The command path to the firmware: the transport header (\<^verbatim>\<open>wireless_htc.c\<close>), the copy engine
  (\<^verbatim>\<open>wireless_ce.c\<close>) and the command that carries a management frame (\<^verbatim>\<open>wireless_wmi.c\<close>).
\<close>

section \<open>Data\<close>

definition HTC_HDR_ENDPOINTID :: u64 where "HTC_HDR_ENDPOINTID = GENMASK 7 0"

definition HTC_HDR_PAYLOADLEN :: u64 where "HTC_HDR_PAYLOADLEN = GENMASK 31 16"

record wireless_simu_htc_hdr =
  htc_info :: u32
  ctrl_info :: u32

definition sizeof_htc_hdr :: nat where "sizeof_htc_hdr = 8"

record wmi_cmd_hdr =
  hdr_cmd_id :: u32

definition sizeof_wmi_cmd_hdr :: nat where "sizeof_wmi_cmd_hdr = 4"

record wmi_mgmt_send_cmd =
  tlv_header :: u32
  vdev_id :: u32
  desc_id :: u32
  chanfreq :: u32
  paddr_lo :: u32
  paddr_hi :: u32
  frame_len :: u32
  buf_len :: u32
  tx_params_valid :: u32

definition sizeof_wmi_mgmt_send_cmd :: nat where "sizeof_wmi_mgmt_send_cmd = 36"

definition TLV_HDR_SIZE :: nat where "TLV_HDR_SIZE = 4"

definition WMI_MGMT_SEND_DOWNLD_LEN :: nat where "WMI_MGMT_SEND_DOWNLD_LEN = 64"

definition WMI_SKB_HEADROOM :: nat where "WMI_SKB_HEADROOM = sizeof_wmi_cmd_hdr"

definition WMI_TLV_LEN :: u64 where "WMI_TLV_LEN = GENMASK 15 0"

definition WMI_TLV_TAG :: u64 where "WMI_TLV_TAG = GENMASK 31 16"

definition WMI_CMD_HDR_CMD_ID :: u64 where "WMI_CMD_HDR_CMD_ID = GENMASK 23 0"

definition WMI_TLV_CMD :: "u32 \<Rightarrow> u32" where
  "WMI_TLV_CMD grp_id = push_bit 12 grp_id OR 1"

definition WMI_GRP_MGMT :: u32 where "WMI_GRP_MGMT = 0x7"

text \<open>
  The enumerator stands seven places after \<^verbatim>\<open>WMI_BCN_TX_CMDID\<close>, which is the first of its group;
  the values of the two tags are counted from \<^verbatim>\<open>WMI_TAG_LAST_RESERVED = 15\<close>, aliases not counted.
\<close>

definition WMI_MGMT_TX_SEND_CMDID :: u32 where
  "WMI_MGMT_TX_SEND_CMDID = WMI_TLV_CMD WMI_GRP_MGMT + 7"

definition WMI_TAG_ARRAY_BYTE :: u32 where "WMI_TAG_ARRAY_BYTE = 17"

definition WMI_TAG_MGMT_TX_SEND_CMD :: u32 where "WMI_TAG_MGMT_TX_SEND_CMD = 422"

definition WIRELESS_SIMU_DEV_FLAG_CRASH_FLUSH :: nat where "WIRELESS_SIMU_DEV_FLAG_CRASH_FLUSH = 0"

text \<open>Structures as they lie in memory.\<close>

definition words_bytes :: "kenv \<Rightarrow> u32 list \<Rightarrow> u8 list" where
  "words_bytes env ws = concat (map (u32_bytes env) ws)"

definition mgmt_cmd_words :: "wmi_mgmt_send_cmd \<Rightarrow> u32 list" where
  "mgmt_cmd_words c = [tlv_header c, vdev_id c, desc_id c, chanfreq c, paddr_lo c, paddr_hi c,
     frame_len c, buf_len c, tx_params_valid c]"

section \<open>Copy engine and transport\<close>

definition wireless_simu_ce_send :: "skbp \<Rightarrow> 'a wireless_simu_scheme \<Rightarrow> int \<times> 'a wireless_simu_scheme" where
  "wireless_simu_ce_send skb s = (0, s)"

definition wireless_simu_htc_alloc_skb ::
  "kenv \<Rightarrow> nat \<Rightarrow> 'a wireless_simu_scheme \<Rightarrow> (skbp option \<times> 'a wireless_simu_scheme) option" where
  "wireless_simu_htc_alloc_skb env sz s =
     (case dev_alloc_skb env (sz + sizeof_htc_hdr) s of
        (None, s) \<Rightarrow> Some (None, s)
      | (Some skb, s) \<Rightarrow> do {
          s \<leftarrow> skb_reserve skb sizeof_htc_hdr s;
          Some (Some skb, s)
        })"

text \<open>
  The value \<^verbatim>\<open>dma_map_single\<close> returns on failure, \<^verbatim>\<open>DMA_MAPPING_ERROR\<close>, is stored in the buffer's
  control block before the check.
\<close>

definition DMA_MAPPING_ERROR :: u64 where "DMA_MAPPING_ERROR = - 1"

definition skb_set_paddr :: "skbp \<Rightarrow> u64 \<Rightarrow> 'a kernel_scheme \<Rightarrow> 'a kernel_scheme option" where
  "skb_set_paddr p paddr s = do {
     b \<leftarrow> skb_get p s;
     Some (skb_set p (b\<lparr>skb_cb := (skb_cb b)\<lparr>cb_paddr := paddr\<rparr>\<rparr>) s)
   }"

definition htc_hdr :: "nat \<Rightarrow> wireless_simu_htc_hdr" where
  "htc_hdr len = \<lparr>
     htc_info = ucast (FIELD_PREP HTC_HDR_ENDPOINTID 0 OR FIELD_PREP HTC_HDR_PAYLOADLEN (of_nat (len - sizeof_htc_hdr))),
     ctrl_info = 0\<rparr>"

definition wireless_simu_htc_send ::
  "kenv \<Rightarrow> skbp \<Rightarrow> 'a wireless_simu_scheme \<Rightarrow> (int \<times> 'a wireless_simu_scheme) option" where
  "wireless_simu_htc_send env skb s = do {
     s \<leftarrow> skb_push skb sizeof_htc_hdr s;
     s \<leftarrow> skb_store_at skb 0 (replicate sizeof_htc_hdr 0) s;
     b \<leftarrow> skb_get skb s;
     s \<leftarrow> skb_store_at skb 0 (u32_bytes env (htc_info (htc_hdr (skb_len b)))) s;
     s \<leftarrow> spin_lock HtcTxLock s;
     s \<leftarrow> skb_store_at skb 4 (u32_bytes env (ctrl_info (htc_hdr (skb_len b)))) s;
     s \<leftarrow> spin_unlock HtcTxLock s;
     (case dma_map_single env (skb_len b) s of
        (None, s) \<Rightarrow> do {
          s \<leftarrow> skb_set_paddr skb DMA_MAPPING_ERROR s;
          s \<leftarrow> skb_pull skb sizeof_htc_hdr s;
          Some (neg_errno EIO, s)
        }
      | (Some paddr, s) \<Rightarrow> do {
          s \<leftarrow> skb_set_paddr skb paddr s;
          let (ret, s) = wireless_simu_ce_send skb s;
          if ret \<noteq> 0 then do {
            s \<leftarrow> dma_unmap_single paddr (skb_len b) s;
            s \<leftarrow> skb_pull skb sizeof_htc_hdr s;
            Some (ret, s)
          } else Some (ret, s)
        })
   }"

section \<open>Commands\<close>

definition wireless_simu_wmi_alloc_skb ::
  "kenv \<Rightarrow> nat \<Rightarrow> 'a wireless_simu_scheme \<Rightarrow> (skbp option \<times> 'a wireless_simu_scheme) option" where
  "wireless_simu_wmi_alloc_skb env len s = do {
     let round_len = round_up len 4;
     (r, s) \<leftarrow> wireless_simu_htc_alloc_skb env (WMI_SKB_HEADROOM + round_len) s;
     (case r of
        None \<Rightarrow> Some (None, s)
      | Some skb \<Rightarrow> do {
          s \<leftarrow> skb_reserve skb WMI_SKB_HEADROOM s;
          s \<leftarrow> skb_put skb round_len s;
          s \<leftarrow> skb_store_at skb 0 (replicate round_len 0) s;
          Some (Some skb, s)
        })
   }"

definition skb_cb_zero :: skb_cb where
  "skb_cb_zero = \<lparr>cb_paddr = 0, cb_flags = 0, cb_cipher = 0, cb_vif = None\<rparr>"

definition wireless_simu_wmi_cmd_send_nowait ::
  "kenv \<Rightarrow> skbp \<Rightarrow> u32 \<Rightarrow> 'a wireless_simu_scheme \<Rightarrow> (int \<times> 'a wireless_simu_scheme) option" where
  "wireless_simu_wmi_cmd_send_nowait env skb cmd_id s = do {
     s \<leftarrow> skb_push skb sizeof_wmi_cmd_hdr s;
     let hdr = \<lparr>hdr_cmd_id = ucast (FIELD_PREP WMI_CMD_HDR_CMD_ID (ucast cmd_id))\<rparr>;
     s \<leftarrow> skb_store_at skb 0 (u32_bytes env (hdr_cmd_id hdr)) s;
     b \<leftarrow> skb_get skb s;
     let s = skb_set skb (b\<lparr>skb_cb := skb_cb_zero\<rparr>) s;
     (ret, s) \<leftarrow> wireless_simu_htc_send env skb s;
     if ret \<noteq> 0 then do {
       s \<leftarrow> skb_pull skb sizeof_wmi_cmd_hdr s;
       Some (ret, s)
     } else Some (0, s)
   }"

text \<open>
  \<^verbatim>\<open>wait_event_timeout\<close>: the condition, which is the attempt to send, is evaluated at once and again
  at each of the \<^term>\<open>n\<close> wake-ups and time-outs that follow, until it holds.
\<close>

fun wmi_wait ::
  "nat \<Rightarrow> kenv \<Rightarrow> skbp \<Rightarrow> u32 \<Rightarrow> 'a wireless_simu_mac_scheme \<Rightarrow>
   (int \<times> 'a wireless_simu_mac_scheme) option" where
  "wmi_wait n env skb cmd_id s = do {
     (ret, s) \<leftarrow> wireless_simu_wmi_cmd_send_nowait env skb cmd_id s;
     let ret = (if ret \<noteq> 0 \<and> bit (dev_flag s) WIRELESS_SIMU_DEV_FLAG_CRASH_FLUSH
                then neg_errno ESHUTDOWN else ret);
     if ret \<noteq> neg_errno ENOBUFS then Some (ret, s)
     else (case n of 0 \<Rightarrow> Some (ret, s) | Suc n \<Rightarrow> wmi_wait n env skb cmd_id s)
   }"

definition wireless_simu_wmi_cmd_send ::
  "nat \<Rightarrow> kenv \<Rightarrow> skbp \<Rightarrow> u32 \<Rightarrow> 'a wireless_simu_mac_scheme \<Rightarrow>
   (int \<times> 'a wireless_simu_mac_scheme) option" where
  "wireless_simu_wmi_cmd_send n env skb cmd_id s = wmi_wait n env skb cmd_id s"

definition tlv_hdr :: "u32 \<Rightarrow> nat \<Rightarrow> u32" where
  "tlv_hdr tag len = ucast (FIELD_PREP WMI_TLV_TAG (ucast tag) OR FIELD_PREP WMI_TLV_LEN (of_nat len))"

definition mgmt_send_cmd :: "u32 \<Rightarrow> u32 \<Rightarrow> sk_buff \<Rightarrow> nat \<Rightarrow> wmi_mgmt_send_cmd" where
  "mgmt_send_cmd vid buf_id f n = \<lparr>
     tlv_header = tlv_hdr WMI_TAG_MGMT_TX_SEND_CMD (sizeof_wmi_mgmt_send_cmd - TLV_HDR_SIZE),
     vdev_id = vid,
     desc_id = buf_id,
     chanfreq = 0,
     paddr_lo = ucast (cb_paddr (skb_cb f)),
     paddr_hi = ucast (drop_bit 32 (cb_paddr (skb_cb f))),
     frame_len = of_nat (skb_len f),
     buf_len = of_nat n,
     tx_params_valid = 0\<rparr>"

text \<open>The bytes of a buffer from \<^verbatim>\<open>skb->data\<close> on.\<close>

definition skb_bytes :: "nat \<Rightarrow> sk_buff \<Rightarrow> u8 list" where
  "skb_bytes n b = take n (drop (skb_data b) (skb_buf b))"

definition wireless_simu_wmi_mgmt_send ::
  "nat \<Rightarrow> kenv \<Rightarrow> u32 \<Rightarrow> u32 \<Rightarrow> skbp \<Rightarrow> 'a wireless_simu_mac_scheme \<Rightarrow>
   (int \<times> 'a wireless_simu_mac_scheme) option" where
  "wireless_simu_wmi_mgmt_send n env vid buf_id frame s = do {
     f \<leftarrow> skb_get frame s;
     let bl = (if skb_len f < WMI_MGMT_SEND_DOWNLD_LEN then skb_len f else WMI_MGMT_SEND_DOWNLD_LEN);
     let len = sizeof_wmi_mgmt_send_cmd + TLV_HDR_SIZE + round_up bl 4;
     (r, s) \<leftarrow> wireless_simu_wmi_alloc_skb env len s;
     (case r of
        None \<Rightarrow> Some (neg_errno ENOMEM, s)
      | Some skb \<Rightarrow> do {
          s \<leftarrow> skb_store_at skb 0 (words_bytes env (mgmt_cmd_words (mgmt_send_cmd vid buf_id f bl))) s;
          s \<leftarrow> skb_store_at skb sizeof_wmi_mgmt_send_cmd (u32_bytes env (tlv_hdr WMI_TAG_ARRAY_BYTE bl)) s;
          s \<leftarrow> skb_store_at skb (sizeof_wmi_mgmt_send_cmd + TLV_HDR_SIZE) (skb_bytes bl f) s;
          wireless_simu_wmi_cmd_send n env skb WMI_MGMT_TX_SEND_CMDID s
        })
   }"

section \<open>Buffers by their contents\<close>

text \<open>What the kernel's allocator gives: an empty buffer with the room that was asked for.\<close>

definition env_room :: "kenv \<Rightarrow> bool" where
  "env_room env = (\<forall>c n b. env_alloc_skb env c n = Some b \<longrightarrow>
     skb_tail b = skb_data b \<and> skb_data b + n \<le> length (skb_buf b))"

definition skb_ok :: "sk_buff \<Rightarrow> bool" where
  "skb_ok b = (skb_data b \<le> skb_tail b \<and> skb_tail b \<le> length (skb_buf b))"

definition payload :: "sk_buff \<Rightarrow> u8 list" where
  "payload b = skb_bytes (skb_len b) b"

definition splice :: "nat \<Rightarrow> 'b list \<Rightarrow> 'b list \<Rightarrow> 'b list" where
  "splice off bs xs = take off xs @ bs @ drop (off + length bs) xs"

definition buf_store :: "nat \<Rightarrow> u8 list \<Rightarrow> sk_buff \<Rightarrow> sk_buff" where
  "buf_store off bs b = b\<lparr>skb_buf := splice (skb_data b + off) bs (skb_buf b)\<rparr>"

lemma splice_0 [simp]: "splice 0 bs xs = bs @ drop (length bs) xs"
  by (simp add: splice_def)

lemma splice_append: "length xs = off \<Longrightarrow> splice off bs (xs @ ys) = xs @ bs @ drop (length bs) ys"
  by (simp add: splice_def)

lemma length_splice: "off + length bs \<le> length xs \<Longrightarrow> length (splice off bs xs) = length xs"
  by (simp add: splice_def)

lemma length_payload: "skb_ok b \<Longrightarrow> length (payload b) = skb_len b"
  by (auto simp: payload_def skb_bytes_def skb_ok_def skb_len_def)

lemma buf_store_simps [simp]:
  "skb_data (buf_store off bs b) = skb_data b" "skb_tail (buf_store off bs b) = skb_tail b"
  "skb_cb (buf_store off bs b) = skb_cb b" "skb_tx_flags (buf_store off bs b) = skb_tx_flags b"
  "skb_len (buf_store off bs b) = skb_len b"
  by (simp_all add: buf_store_def skb_len_def)

lemma skb_bytes_splice:
  assumes "d + n \<le> length xs" "off + length bs \<le> n"
  shows "take n (drop d (splice (d + off) bs xs)) = splice off bs (take n (drop d xs))"
proof (rule nth_equalityI)
  show "length (take n (drop d (splice (d + off) bs xs))) = length (splice off bs (take n (drop d xs)))"
    using assms by (simp add: splice_def)
next
  fix i
  assume "i < length (take n (drop d (splice (d + off) bs xs)))"
  then have i: "i < n"
    by simp
  show "take n (drop d (splice (d + off) bs xs)) ! i = splice off bs (take n (drop d xs)) ! i"
    using i assms by (auto simp: splice_def nth_append)
qed

lemma buf_store_ok:
  assumes "skb_ok b" "off + length bs \<le> skb_len b"
  shows "skb_ok (buf_store off bs b)" and "payload (buf_store off bs b) = splice off bs (payload b)"
proof -
  have len: "length (splice (skb_data b + off) bs (skb_buf b)) = length (skb_buf b)"
    using assms by (intro length_splice) (auto simp: skb_ok_def skb_len_def)
  show "skb_ok (buf_store off bs b)"
    using assms(1) len by (simp add: skb_ok_def buf_store_def)
  have "skb_data b + skb_len b \<le> length (skb_buf b)"
    using assms(1) by (auto simp: skb_ok_def skb_len_def)
  from skb_bytes_splice [OF this assms(2)]
  show "payload (buf_store off bs b) = splice off bs (payload b)"
    by (simp add: payload_def skb_bytes_def, simp add: buf_store_def skb_len_def)
qed

text \<open>Growing the front by a header and storing the header.\<close>

lemma push_store_ok:
  fixes b bs
  defines "b' \<equiv> buf_store 0 bs (b\<lparr>skb_data := skb_data b - length bs\<rparr>)"
  assumes "skb_ok b" "length bs \<le> skb_data b"
  shows "skb_ok b'" and "payload b' = bs @ payload b" and "skb_len b' = length bs + skb_len b"
proof -
  let ?p = "b\<lparr>skb_data := skb_data b - length bs\<rparr>"
  have ok: "skb_ok ?p"
    using assms by (auto simp: skb_ok_def)
  have len: "skb_len ?p = length bs + skb_len b"
    using assms by (auto simp: skb_len_def skb_ok_def)
  then show "skb_len b' = length bs + skb_len b"
    by (simp add: b'_def)
  note st = buf_store_ok [OF ok, of 0 bs]
  show "skb_ok b'"
    using st(1) len by (simp add: b'_def)
  have "drop (length bs) (payload ?p) = payload b"
    using assms by (auto simp: payload_def skb_bytes_def skb_len_def skb_ok_def drop_take)
  then show "payload b' = bs @ payload b"
    using st(2) len by (simp add: b'_def)
qed

lemma payload_cb [simp]:
  "payload (b\<lparr>skb_cb := c\<rparr>) = payload b" "skb_ok (b\<lparr>skb_cb := c\<rparr>) = skb_ok b"
  "skb_len (b\<lparr>skb_cb := c\<rparr>) = skb_len b"
  by (simp_all add: payload_def skb_bytes_def skb_len_def skb_ok_def)

lemma skb_store_exec:
  assumes "k_skbs s p = Some b" "skb_ok b" "off + length bs \<le> skb_len b"
  shows "skb_store_at p off bs s = Some (skb_set p (buf_store off bs b) s)"
  using assms by (auto simp: skb_store_at_def skb_get_def buf_store_def splice_def Let_def skb_ok_def skb_len_def)

lemma length_u32_bytes [simp]: "length (u32_bytes env w) = 4"
  by (simp add: u32_bytes_def Let_def)

lemma length_words_bytes [simp]: "length (words_bytes env ws) = 4 * length ws"
  by (induction ws) (simp_all add: words_bytes_def)

lemma words_bytes_Cons: "words_bytes env (w # ws) = u32_bytes env w @ words_bytes env ws"
  by (simp add: words_bytes_def)

lemma words_bytes_append: "words_bytes env (ws @ vs) = words_bytes env ws @ words_bytes env vs"
  by (simp add: words_bytes_def)

lemma skb_set_simps [simp]:
  "k_skbs (skb_set p b s) p = Some b" "k_calls (skb_set p b s) = k_calls s" "k_held (skb_set p b s) = k_held s"
  "k_maps (skb_set p b s) = k_maps s" "skb_set p b (skb_set p b' s) = skb_set p b s"
  "q \<noteq> p \<Longrightarrow> k_skbs (skb_set p b s) q = k_skbs s q"
  by (simp_all add: skb_set_def)

end
