(* ===== verification/Wmi_Tables.thy ===== *)
theory Wmi_Tables
  imports Wmi
begin

text \<open>
  The enumerations of the firmware interface (\<^verbatim>\<open>wireless_wmi.h\<close>): command groups, commands and tags.
  An enumeration is a list of runs, an enumerator with an explicit value and those that follow it
  without one; the rules of C give every enumerator its value. The three numbers the command path
  uses are shown to be those of the tables.
\<close>

section \<open>Enumerations\<close>

datatype enum_init = Val int | Alias string | TlvCmd string

type_synonym enum_runs = "(enum_init \<times> string list) list"

definition wmi_cmd_group :: enum_runs where
  "wmi_cmd_group = [
    (Val 0x3, [''WMI_GRP_START'']),
    (Alias ''WMI_GRP_START'', [''WMI_GRP_SCAN'']),
    (Val 0x4, [''WMI_GRP_PDEV'']),
    (Val 0x5, [''WMI_GRP_VDEV'']),
    (Val 0x6, [''WMI_GRP_PEER'']),
    (Val 0x7, [''WMI_GRP_MGMT'']),
    (Val 0x8, [''WMI_GRP_BA_NEG'']),
    (Val 0x9, [''WMI_GRP_STA_PS'']),
    (Val 0xa, [''WMI_GRP_DFS'']),
    (Val 0xb, [''WMI_GRP_ROAM'']),
    (Val 0xc, [''WMI_GRP_OFL_SCAN'']),
    (Val 0xd, [''WMI_GRP_P2P'']),
    (Val 0xe, [''WMI_GRP_AP_PS'']),
    (Val 0xf, [''WMI_GRP_RATE_CTRL'']),
    (Val 0x10, [''WMI_GRP_PROFILE'']),
    (Val 0x11, [''WMI_GRP_SUSPEND'']),
    (Val 0x12, [''WMI_GRP_BCN_FILTER'']),
    (Val 0x13, [''WMI_GRP_WOW'']),
    (Val 0x14, [''WMI_GRP_RTT'']),
    (Val 0x15, [''WMI_GRP_SPECTRAL'']),
    (Val 0x16, [''WMI_GRP_STATS'']),
    (Val 0x17, [''WMI_GRP_ARP_NS_OFL'']),
    (Val 0x18, [''WMI_GRP_NLO_OFL'']),
    (Val 0x19, [''WMI_GRP_GTK_OFL'']),
    (Val 0x1a, [''WMI_GRP_CSA_OFL'']),
    (Val 0x1b, [''WMI_GRP_CHATTER'']),
    (Val 0x1c, [''WMI_GRP_TID_ADDBA'']),
    (Val 0x1d, [''WMI_GRP_MISC'']),
    (Val 0x1e, [''WMI_GRP_GPIO'']),
    (Val 0x1f, [''WMI_GRP_FWTEST'']),
    (Val 0x20, [''WMI_GRP_TDLS'']),
    (Val 0x21, [''WMI_GRP_RESMGR'']),
    (Val 0x22, [''WMI_GRP_STA_SMPS'']),
    (Val 0x23, [''WMI_GRP_WLAN_HB'']),
    (Val 0x24, [''WMI_GRP_RMC'']),
    (Val 0x25, [''WMI_GRP_MHF_OFL'']),
    (Val 0x26, [''WMI_GRP_LOCATION_SCAN'']),
    (Val 0x27, [''WMI_GRP_OEM'']),
    (Val 0x28, [''WMI_GRP_NAN'']),
    (Val 0x29, [''WMI_GRP_COEX'']),
    (Val 0x2a, [''WMI_GRP_OBSS_OFL'']),
    (Val 0x2b, [''WMI_GRP_LPI'']),
    (Val 0x2c, [''WMI_GRP_EXTSCAN'']),
    (Val 0x2d, [''WMI_GRP_DHCP_OFL'']),
    (Val 0x2e, [''WMI_GRP_IPA'']),
    (Val 0x2f, [''WMI_GRP_MDNS_OFL'']),
    (Val 0x30, [''WMI_GRP_SAP_OFL'']),
    (Val 0x31, [''WMI_GRP_OCB'']),
    (Val 0x32, [''WMI_GRP_SOC'']),
    (Val 0x33, [''WMI_GRP_PKT_FILTER'']),
    (Val 0x34, [''WMI_GRP_MAWC'']),
    (Val 0x35, [''WMI_GRP_PMF_OFFLOAD'']),
    (Val 0x36, [''WMI_GRP_BPF_OFFLOAD'']),
    (Val 0x37, [''WMI_GRP_NAN_DATA'']),
    (Val 0x38, [''WMI_GRP_PROTOTYPE'']),
    (Val 0x39, [''WMI_GRP_MONITOR'']),
    (Val 0x3a, [''WMI_GRP_REGULATORY'']),
    (Val 0x3b, [''WMI_GRP_HW_DATA_FILTER'']),
    (Val 0x3c, [''WMI_GRP_WLM'']),
    (Val 0x3d, [''WMI_GRP_11K_OFFLOAD'']),
    (Val 0x3e, [''WMI_GRP_TWT'']),
    (Val 0x3f, [''WMI_GRP_MOTION_DET'']),
    (Val 0x40, [''WMI_GRP_SPATIAL_REUSE''])]"

definition wmi_tlv_cmd_id_1 :: enum_runs where
  "wmi_tlv_cmd_id_1 = [
    (Val 0x1, [''WMI_INIT_CMDID'']),
    (TlvCmd ''WMI_GRP_SCAN'', [''WMI_START_SCAN_CMDID'', ''WMI_STOP_SCAN_CMDID'', ''WMI_SCAN_CHAN_LIST_CMDID'',
       ''WMI_SCAN_SCH_PRIO_TBL_CMDID'', ''WMI_SCAN_UPDATE_REQUEST_CMDID'', ''WMI_SCAN_PROB_REQ_OUI_CMDID'',
       ''WMI_SCAN_ADAPTIVE_DWELL_CONFIG_CMDID'']),
    (TlvCmd ''WMI_GRP_PDEV'', [''WMI_PDEV_SET_REGDOMAIN_CMDID'', ''WMI_PDEV_SET_CHANNEL_CMDID'',
       ''WMI_PDEV_SET_PARAM_CMDID'', ''WMI_PDEV_PKTLOG_ENABLE_CMDID'', ''WMI_PDEV_PKTLOG_DISABLE_CMDID'',
       ''WMI_PDEV_SET_WMM_PARAMS_CMDID'', ''WMI_PDEV_SET_HT_CAP_IE_CMDID'', ''WMI_PDEV_SET_VHT_CAP_IE_CMDID'',
       ''WMI_PDEV_SET_DSCP_TID_MAP_CMDID'', ''WMI_PDEV_SET_QUIET_MODE_CMDID'',
       ''WMI_PDEV_GREEN_AP_PS_ENABLE_CMDID'', ''WMI_PDEV_GET_TPC_CONFIG_CMDID'',
       ''WMI_PDEV_SET_BASE_MACADDR_CMDID'', ''WMI_PDEV_DUMP_CMDID'', ''WMI_PDEV_SET_LED_CONFIG_CMDID'',
       ''WMI_PDEV_GET_TEMPERATURE_CMDID'', ''WMI_PDEV_SET_LED_FLASHING_CMDID'',
       ''WMI_PDEV_SMART_ANT_ENABLE_CMDID'', ''WMI_PDEV_SMART_ANT_SET_RX_ANTENNA_CMDID'',
       ''WMI_PDEV_SET_ANTENNA_SWITCH_TABLE_CMDID'', ''WMI_PDEV_SET_CTL_TABLE_CMDID'',
       ''WMI_PDEV_SET_MIMOGAIN_TABLE_CMDID'', ''WMI_PDEV_FIPS_CMDID'', ''WMI_PDEV_GET_ANI_CCK_CONFIG_CMDID'',
       ''WMI_PDEV_GET_ANI_OFDM_CONFIG_CMDID'', ''WMI_PDEV_GET_NFCAL_POWER_CMDID'', ''WMI_PDEV_GET_TPC_CMDID'',
       ''WMI_MIB_STATS_ENABLE_CMDID'', ''WMI_PDEV_SET_PCL_CMDID'', ''WMI_PDEV_SET_HW_MODE_CMDID'',
       ''WMI_PDEV_SET_MAC_CONFIG_CMDID'', ''WMI_PDEV_SET_ANTENNA_MODE_CMDID'',
       ''WMI_SET_PERIODIC_CHANNEL_STATS_CONFIG_CMDID'', ''WMI_PDEV_WAL_POWER_DEBUG_CMDID'',
       ''WMI_PDEV_SET_REORDER_TIMEOUT_VAL_CMDID'', ''WMI_PDEV_SET_WAKEUP_CONFIG_CMDID'',
       ''WMI_PDEV_GET_ANTDIV_STATUS_CMDID'', ''WMI_PDEV_GET_CHIP_POWER_STATS_CMDID'',
       ''WMI_PDEV_SET_STATS_THRESHOLD_CMDID'', ''WMI_PDEV_MULTIPLE_VDEV_RESTART_REQUEST_CMDID'',
       ''WMI_PDEV_UPDATE_PKT_ROUTING_CMDID'', ''WMI_PDEV_CHECK_CAL_VERSION_CMDID'',
       ''WMI_PDEV_SET_DIVERSITY_GAIN_CMDID'', ''WMI_PDEV_DIV_GET_RSSI_ANTID_CMDID'',
       ''WMI_PDEV_BSS_CHAN_INFO_REQUEST_CMDID'', ''WMI_PDEV_UPDATE_PMK_CACHE_CMDID'',
       ''WMI_PDEV_UPDATE_FILS_HLP_PKT_CMDID'', ''WMI_PDEV_UPDATE_CTLTABLE_REQUEST_CMDID'',
       ''WMI_PDEV_CONFIG_VENDOR_OUI_ACTION_CMDID'', ''WMI_PDEV_SET_AC_TX_QUEUE_OPTIMIZED_CMDID'',
       ''WMI_PDEV_SET_RX_FILTER_PROMISCUOUS_CMDID'', ''WMI_PDEV_DMA_RING_CFG_REQ_CMDID'',
       ''WMI_PDEV_HE_TB_ACTION_FRM_CMDID'', ''WMI_PDEV_PKTLOG_FILTER_CMDID'', ''WMI_PDEV_SET_RAP_CONFIG_CMDID'',
       ''WMI_PDEV_DSM_FILTER_CMDID'', ''WMI_PDEV_FRAME_INJECT_CMDID'', ''WMI_PDEV_TBTT_OFFSET_SYNC_CMDID'',
       ''WMI_PDEV_SET_SRG_BSS_COLOR_BITMAP_CMDID'', ''WMI_PDEV_SET_SRG_PARTIAL_BSSID_BITMAP_CMDID'',
       ''WMI_PDEV_SET_SRG_OBSS_COLOR_ENABLE_BITMAP_CMDID'', ''WMI_PDEV_SET_SRG_OBSS_BSSID_ENABLE_BITMAP_CMDID'',
       ''WMI_PDEV_SET_NON_SRG_OBSS_COLOR_ENABLE_BITMAP_CMDID'',
       ''WMI_PDEV_SET_NON_SRG_OBSS_BSSID_ENABLE_BITMAP_CMDID'', ''WMI_PDEV_GET_TPC_STATS_CMDID'',
       ''WMI_PDEV_ENABLE_DURATION_BASED_TX_MODE_SELECTION_CMDID'', ''WMI_PDEV_GET_DPD_STATUS_CMDID'',
       ''WMI_PDEV_SET_BIOS_SAR_TABLE_CMDID'', ''WMI_PDEV_SET_BIOS_GEO_TABLE_CMDID'']),
    (TlvCmd ''WMI_GRP_VDEV'', [''WMI_VDEV_CREATE_CMDID'', ''WMI_VDEV_DELETE_CMDID'',
       ''WMI_VDEV_START_REQUEST_CMDID'', ''WMI_VDEV_RESTART_REQUEST_CMDID'', ''WMI_VDEV_UP_CMDID'',
       ''WMI_VDEV_STOP_CMDID'', ''WMI_VDEV_DOWN_CMDID'', ''WMI_VDEV_SET_PARAM_CMDID'',
       ''WMI_VDEV_INSTALL_KEY_CMDID'', ''WMI_VDEV_WNM_SLEEPMODE_CMDID'', ''WMI_VDEV_WMM_ADDTS_CMDID'',
       ''WMI_VDEV_WMM_DELTS_CMDID'', ''WMI_VDEV_SET_WMM_PARAMS_CMDID'', ''WMI_VDEV_SET_GTX_PARAMS_CMDID'',
       ''WMI_VDEV_IPSEC_NATKEEPALIVE_FILTER_CMDID'', ''WMI_VDEV_PLMREQ_START_CMDID'',
       ''WMI_VDEV_PLMREQ_STOP_CMDID'', ''WMI_VDEV_TSF_TSTAMP_ACTION_CMDID'', ''WMI_VDEV_SET_IE_CMDID'',
       ''WMI_VDEV_RATEMASK_CMDID'', ''WMI_VDEV_ATF_REQUEST_CMDID'', ''WMI_VDEV_SET_DSCP_TID_MAP_CMDID'',
       ''WMI_VDEV_FILTER_NEIGHBOR_RX_PACKETS_CMDID'', ''WMI_VDEV_SET_QUIET_MODE_CMDID'',
       ''WMI_VDEV_SET_CUSTOM_AGGR_SIZE_CMDID'', ''WMI_VDEV_ENCRYPT_DECRYPT_DATA_REQ_CMDID'',
       ''WMI_VDEV_ADD_MAC_ADDR_TO_RX_FILTER_CMDID'', ''WMI_VDEV_SET_ARP_STAT_CMDID'',
       ''WMI_VDEV_GET_ARP_STAT_CMDID'', ''WMI_VDEV_GET_TX_POWER_CMDID'', ''WMI_VDEV_LIMIT_OFFCHAN_CMDID'',
       ''WMI_VDEV_SET_CUSTOM_SW_RETRY_TH_CMDID'', ''WMI_VDEV_CHAINMASK_CONFIG_CMDID'',
       ''WMI_VDEV_GET_BCN_RECEPTION_STATS_CMDID'', ''WMI_VDEV_GET_MWS_COEX_INFO_CMDID'',
       ''WMI_VDEV_DELETE_ALL_PEER_CMDID'', ''WMI_VDEV_BSS_MAX_IDLE_TIME_CMDID'',
       ''WMI_VDEV_AUDIO_SYNC_TRIGGER_CMDID'', ''WMI_VDEV_AUDIO_SYNC_QTIMER_CMDID'', ''WMI_VDEV_SET_PCL_CMDID'',
       ''WMI_VDEV_GET_BIG_DATA_CMDID'', ''WMI_VDEV_GET_BIG_DATA_P2_CMDID'', ''WMI_VDEV_SET_TPC_POWER_CMDID'']),
    (TlvCmd ''WMI_GRP_PEER'', [''WMI_PEER_CREATE_CMDID'', ''WMI_PEER_DELETE_CMDID'',
       ''WMI_PEER_FLUSH_TIDS_CMDID'', ''WMI_PEER_SET_PARAM_CMDID'', ''WMI_PEER_ASSOC_CMDID'',
       ''WMI_PEER_ADD_WDS_ENTRY_CMDID'', ''WMI_PEER_REMOVE_WDS_ENTRY_CMDID'', ''WMI_PEER_MCAST_GROUP_CMDID'',
       ''WMI_PEER_INFO_REQ_CMDID'', ''WMI_PEER_GET_ESTIMATED_LINKSPEED_CMDID'',
       ''WMI_PEER_SET_RATE_REPORT_CONDITION_CMDID'', ''WMI_PEER_UPDATE_WDS_ENTRY_CMDID'',
       ''WMI_PEER_ADD_PROXY_STA_ENTRY_CMDID'', ''WMI_PEER_SMART_ANT_SET_TX_ANTENNA_CMDID'',
       ''WMI_PEER_SMART_ANT_SET_TRAIN_INFO_CMDID'', ''WMI_PEER_SMART_ANT_SET_NODE_CONFIG_OPS_CMDID'',
       ''WMI_PEER_ATF_REQUEST_CMDID'', ''WMI_PEER_BWF_REQUEST_CMDID'', ''WMI_PEER_REORDER_QUEUE_SETUP_CMDID'',
       ''WMI_PEER_REORDER_QUEUE_REMOVE_CMDID'', ''WMI_PEER_SET_RX_BLOCKSIZE_CMDID'',
       ''WMI_PEER_ANTDIV_INFO_REQ_CMDID''])]"

definition wmi_tlv_cmd_id_2 :: enum_runs where
  "wmi_tlv_cmd_id_2 = [
    (TlvCmd ''WMI_GRP_MGMT'', [''WMI_BCN_TX_CMDID'', ''WMI_PDEV_SEND_BCN_CMDID'', ''WMI_BCN_TMPL_CMDID'',
       ''WMI_BCN_FILTER_RX_CMDID'', ''WMI_PRB_REQ_FILTER_RX_CMDID'', ''WMI_MGMT_TX_CMDID'',
       ''WMI_PRB_TMPL_CMDID'', ''WMI_MGMT_TX_SEND_CMDID'', ''WMI_OFFCHAN_DATA_TX_SEND_CMDID'',
       ''WMI_PDEV_SEND_FD_CMDID'', ''WMI_BCN_OFFLOAD_CTRL_CMDID'', ''WMI_BSS_COLOR_CHANGE_ENABLE_CMDID'',
       ''WMI_VDEV_BCN_OFFLOAD_QUIET_CONFIG_CMDID'', ''WMI_FILS_DISCOVERY_TMPL_CMDID'']),
    (TlvCmd ''WMI_GRP_BA_NEG'', [''WMI_ADDBA_CLEAR_RESP_CMDID'', ''WMI_ADDBA_SEND_CMDID'',
       ''WMI_ADDBA_STATUS_CMDID'', ''WMI_DELBA_SEND_CMDID'', ''WMI_ADDBA_SET_RESP_CMDID'',
       ''WMI_SEND_SINGLEAMSDU_CMDID'']),
    (TlvCmd ''WMI_GRP_STA_PS'', [''WMI_STA_POWERSAVE_MODE_CMDID'', ''WMI_STA_POWERSAVE_PARAM_CMDID'',
       ''WMI_STA_MIMO_PS_MODE_CMDID'']),
    (TlvCmd ''WMI_GRP_DFS'', [''WMI_PDEV_DFS_ENABLE_CMDID'', ''WMI_PDEV_DFS_DISABLE_CMDID'',
       ''WMI_DFS_PHYERR_FILTER_ENA_CMDID'', ''WMI_DFS_PHYERR_FILTER_DIS_CMDID'',
       ''WMI_PDEV_DFS_PHYERR_OFFLOAD_ENABLE_CMDID'', ''WMI_PDEV_DFS_PHYERR_OFFLOAD_DISABLE_CMDID'',
       ''WMI_VDEV_ADFS_CH_CFG_CMDID'', ''WMI_VDEV_ADFS_OCAC_ABORT_CMDID'']),
    (TlvCmd ''WMI_GRP_ROAM'', [''WMI_ROAM_SCAN_MODE'', ''WMI_ROAM_SCAN_RSSI_THRESHOLD'', ''WMI_ROAM_SCAN_PERIOD'',
       ''WMI_ROAM_SCAN_RSSI_CHANGE_THRESHOLD'', ''WMI_ROAM_AP_PROFILE'', ''WMI_ROAM_CHAN_LIST'',
       ''WMI_ROAM_SCAN_CMD'', ''WMI_ROAM_SYNCH_COMPLETE'', ''WMI_ROAM_SET_RIC_REQUEST_CMDID'',
       ''WMI_ROAM_INVOKE_CMDID'', ''WMI_ROAM_FILTER_CMDID'', ''WMI_ROAM_SUBNET_CHANGE_CONFIG_CMDID'',
       ''WMI_ROAM_CONFIGURE_MAWC_CMDID'', ''WMI_ROAM_SET_MBO_PARAM_CMDID'', ''WMI_ROAM_PER_CONFIG_CMDID'',
       ''WMI_ROAM_BTM_CONFIG_CMDID'', ''WMI_ENABLE_FILS_CMDID'']),
    (TlvCmd ''WMI_GRP_OFL_SCAN'', [''WMI_OFL_SCAN_ADD_AP_PROFILE'', ''WMI_OFL_SCAN_REMOVE_AP_PROFILE'',
       ''WMI_OFL_SCAN_PERIOD'']),
    (TlvCmd ''WMI_GRP_P2P'', [''WMI_P2P_DEV_SET_DEVICE_INFO'', ''WMI_P2P_DEV_SET_DISCOVERABILITY'',
       ''WMI_P2P_GO_SET_BEACON_IE'', ''WMI_P2P_GO_SET_PROBE_RESP_IE'', ''WMI_P2P_SET_VENDOR_IE_DATA_CMDID'',
       ''WMI_P2P_DISC_OFFLOAD_CONFIG_CMDID'', ''WMI_P2P_DISC_OFFLOAD_APPIE_CMDID'',
       ''WMI_P2P_DISC_OFFLOAD_PATTERN_CMDID'', ''WMI_P2P_SET_OPPPS_PARAM_CMDID'',
       ''WMI_P2P_LISTEN_OFFLOAD_START_CMDID'', ''WMI_P2P_LISTEN_OFFLOAD_STOP_CMDID'']),
    (TlvCmd ''WMI_GRP_AP_PS'', [''WMI_AP_PS_PEER_PARAM_CMDID'', ''WMI_AP_PS_PEER_UAPSD_COEX_CMDID'',
       ''WMI_AP_PS_EGAP_PARAM_CMDID'']),
    (TlvCmd ''WMI_GRP_RATE_CTRL'', [''WMI_PEER_RATE_RETRY_SCHED_CMDID'']),
    (TlvCmd ''WMI_GRP_PROFILE'', [''WMI_WLAN_PROFILE_TRIGGER_CMDID'', ''WMI_WLAN_PROFILE_SET_HIST_INTVL_CMDID'',
       ''WMI_WLAN_PROFILE_GET_PROFILE_DATA_CMDID'', ''WMI_WLAN_PROFILE_ENABLE_PROFILE_ID_CMDID'',
       ''WMI_WLAN_PROFILE_LIST_PROFILE_ID_CMDID'']),
    (TlvCmd ''WMI_GRP_SUSPEND'', [''WMI_PDEV_SUSPEND_CMDID'', ''WMI_PDEV_RESUME_CMDID'']),
    (TlvCmd ''WMI_GRP_BCN_FILTER'', [''WMI_ADD_BCN_FILTER_CMDID'', ''WMI_RMV_BCN_FILTER_CMDID'']),
    (TlvCmd ''WMI_GRP_WOW'', [''WMI_WOW_ADD_WAKE_PATTERN_CMDID'', ''WMI_WOW_DEL_WAKE_PATTERN_CMDID'',
       ''WMI_WOW_ENABLE_DISABLE_WAKE_EVENT_CMDID'', ''WMI_WOW_ENABLE_CMDID'',
       ''WMI_WOW_HOSTWAKEUP_FROM_SLEEP_CMDID'', ''WMI_WOW_IOAC_ADD_KEEPALIVE_CMDID'',
       ''WMI_WOW_IOAC_DEL_KEEPALIVE_CMDID'', ''WMI_WOW_IOAC_ADD_WAKE_PATTERN_CMDID'',
       ''WMI_WOW_IOAC_DEL_WAKE_PATTERN_CMDID'', ''WMI_D0_WOW_ENABLE_DISABLE_CMDID'', ''WMI_EXTWOW_ENABLE_CMDID'',
       ''WMI_EXTWOW_SET_APP_TYPE1_PARAMS_CMDID'', ''WMI_EXTWOW_SET_APP_TYPE2_PARAMS_CMDID'',
       ''WMI_WOW_ENABLE_ICMPV6_NA_FLT_CMDID'', ''WMI_WOW_UDP_SVC_OFLD_CMDID'',
       ''WMI_WOW_HOSTWAKEUP_GPIO_PIN_PATTERN_CONFIG_CMDID'', ''WMI_WOW_SET_ACTION_WAKE_UP_CMDID'']),
    (TlvCmd ''WMI_GRP_RTT'', [''WMI_RTT_MEASREQ_CMDID'', ''WMI_RTT_TSF_CMDID'']),
    (TlvCmd ''WMI_GRP_SPECTRAL'', [''WMI_VDEV_SPECTRAL_SCAN_CONFIGURE_CMDID'',
       ''WMI_VDEV_SPECTRAL_SCAN_ENABLE_CMDID'']),
    (TlvCmd ''WMI_GRP_STATS'', [''WMI_REQUEST_STATS_CMDID'', ''WMI_MCC_SCHED_TRAFFIC_STATS_CMDID'',
       ''WMI_REQUEST_STATS_EXT_CMDID'', ''WMI_REQUEST_LINK_STATS_CMDID'', ''WMI_START_LINK_STATS_CMDID'',
       ''WMI_CLEAR_LINK_STATS_CMDID'', ''WMI_GET_FW_MEM_DUMP_CMDID'', ''WMI_DEBUG_MESG_FLUSH_CMDID'',
       ''WMI_DIAG_EVENT_LOG_CONFIG_CMDID'', ''WMI_REQUEST_WLAN_STATS_CMDID'', ''WMI_REQUEST_RCPI_CMDID'',
       ''WMI_REQUEST_PEER_STATS_INFO_CMDID'', ''WMI_REQUEST_RADIO_CHAN_STATS_CMDID'']),
    (TlvCmd ''WMI_GRP_ARP_NS_OFL'', [''WMI_SET_ARP_NS_OFFLOAD_CMDID'',
       ''WMI_ADD_PROACTIVE_ARP_RSP_PATTERN_CMDID'', ''WMI_DEL_PROACTIVE_ARP_RSP_PATTERN_CMDID'']),
    (TlvCmd ''WMI_GRP_NLO_OFL'', [''WMI_NETWORK_LIST_OFFLOAD_CONFIG_CMDID'', ''WMI_APFIND_CMDID'',
       ''WMI_PASSPOINT_LIST_CONFIG_CMDID'', ''WMI_NLO_CONFIGURE_MAWC_CMDID'']),
    (TlvCmd ''WMI_GRP_GTK_OFL'', [''WMI_GTK_OFFLOAD_CMDID'']),
    (TlvCmd ''WMI_GRP_CSA_OFL'', [''WMI_CSA_OFFLOAD_ENABLE_CMDID'', ''WMI_CSA_OFFLOAD_CHANSWITCH_CMDID'']),
    (TlvCmd ''WMI_GRP_CHATTER'', [''WMI_CHATTER_SET_MODE_CMDID'', ''WMI_CHATTER_ADD_COALESCING_FILTER_CMDID'',
       ''WMI_CHATTER_DELETE_COALESCING_FILTER_CMDID'', ''WMI_CHATTER_COALESCING_QUERY_CMDID'']),
    (TlvCmd ''WMI_GRP_TID_ADDBA'', [''WMI_PEER_TID_ADDBA_CMDID'', ''WMI_PEER_TID_DELBA_CMDID'',
       ''WMI_STA_DTIM_PS_METHOD_CMDID'', ''WMI_STA_UAPSD_AUTO_TRIG_CMDID'', ''WMI_STA_KEEPALIVE_CMDID'',
       ''WMI_BA_REQ_SSN_CMDID''])]"

definition wmi_tlv_cmd_id_3 :: enum_runs where
  "wmi_tlv_cmd_id_3 = [
    (TlvCmd ''WMI_GRP_MISC'', [''WMI_ECHO_CMDID'', ''WMI_PDEV_UTF_CMDID'', ''WMI_DBGLOG_CFG_CMDID'',
       ''WMI_PDEV_QVIT_CMDID'', ''WMI_PDEV_FTM_INTG_CMDID'', ''WMI_VDEV_SET_KEEPALIVE_CMDID'',
       ''WMI_VDEV_GET_KEEPALIVE_CMDID'', ''WMI_FORCE_FW_HANG_CMDID'', ''WMI_SET_MCASTBCAST_FILTER_CMDID'',
       ''WMI_THERMAL_MGMT_CMDID'', ''WMI_HOST_AUTO_SHUTDOWN_CFG_CMDID'', ''WMI_TPC_CHAINMASK_CONFIG_CMDID'',
       ''WMI_SET_ANTENNA_DIVERSITY_CMDID'', ''WMI_OCB_SET_SCHED_CMDID'', ''WMI_RSSI_BREACH_MONITOR_CONFIG_CMDID'',
       ''WMI_LRO_CONFIG_CMDID'', ''WMI_TRANSFER_DATA_TO_FLASH_CMDID'', ''WMI_CONFIG_ENHANCED_MCAST_FILTER_CMDID'',
       ''WMI_VDEV_WISA_CMDID'', ''WMI_DBGLOG_TIME_STAMP_SYNC_CMDID'', ''WMI_SET_MULTIPLE_MCAST_FILTER_CMDID'',
       ''WMI_READ_DATA_FROM_FLASH_CMDID'', ''WMI_THERM_THROT_SET_CONF_CMDID'', ''WMI_RUNTIME_DPD_RECAL_CMDID'',
       ''WMI_GET_TPC_POWER_CMDID'', ''WMI_IDLE_TRIGGER_MONITOR_CMDID'']),
    (TlvCmd ''WMI_GRP_GPIO'', [''WMI_GPIO_CONFIG_CMDID'', ''WMI_GPIO_OUTPUT_CMDID'', ''WMI_TXBF_CMDID'']),
    (TlvCmd ''WMI_GRP_FWTEST'', [''WMI_FWTEST_VDEV_MCC_SET_TBTT_MODE_CMDID'',
       ''WMI_FWTEST_P2P_SET_NOA_PARAM_CMDID'', ''WMI_UNIT_TEST_CMDID'', ''WMI_FWTEST_CMDID'',
       ''WMI_QBOOST_CFG_CMDID'']),
    (TlvCmd ''WMI_GRP_TDLS'', [''WMI_TDLS_SET_STATE_CMDID'', ''WMI_TDLS_PEER_UPDATE_CMDID'',
       ''WMI_TDLS_SET_OFFCHAN_MODE_CMDID'']),
    (TlvCmd ''WMI_GRP_RESMGR'', [''WMI_RESMGR_ADAPTIVE_OCS_EN_DIS_CMDID'',
       ''WMI_RESMGR_SET_CHAN_TIME_QUOTA_CMDID'', ''WMI_RESMGR_SET_CHAN_LATENCY_CMDID'']),
    (TlvCmd ''WMI_GRP_STA_SMPS'', [''WMI_STA_SMPS_FORCE_MODE_CMDID'', ''WMI_STA_SMPS_PARAM_CMDID'']),
    (TlvCmd ''WMI_GRP_WLAN_HB'', [''WMI_HB_SET_ENABLE_CMDID'', ''WMI_HB_SET_TCP_PARAMS_CMDID'',
       ''WMI_HB_SET_TCP_PKT_FILTER_CMDID'', ''WMI_HB_SET_UDP_PARAMS_CMDID'', ''WMI_HB_SET_UDP_PKT_FILTER_CMDID'']),
    (TlvCmd ''WMI_GRP_RMC'', [''WMI_RMC_SET_MODE_CMDID'', ''WMI_RMC_SET_ACTION_PERIOD_CMDID'',
       ''WMI_RMC_CONFIG_CMDID'', ''WMI_RMC_SET_MANUAL_LEADER_CMDID'']),
    (TlvCmd ''WMI_GRP_MHF_OFL'', [''WMI_MHF_OFFLOAD_SET_MODE_CMDID'',
       ''WMI_MHF_OFFLOAD_PLUMB_ROUTING_TBL_CMDID'']),
    (TlvCmd ''WMI_GRP_LOCATION_SCAN'', [''WMI_BATCH_SCAN_ENABLE_CMDID'', ''WMI_BATCH_SCAN_DISABLE_CMDID'',
       ''WMI_BATCH_SCAN_TRIGGER_RESULT_CMDID'']),
    (TlvCmd ''WMI_GRP_OEM'', [''WMI_OEM_REQ_CMDID'', ''WMI_OEM_REQUEST_CMDID'', ''WMI_LPI_OEM_REQ_CMDID'']),
    (TlvCmd ''WMI_GRP_NAN'', [''WMI_NAN_CMDID'']),
    (TlvCmd ''WMI_GRP_COEX'', [''WMI_MODEM_POWER_STATE_CMDID'', ''WMI_CHAN_AVOID_UPDATE_CMDID'',
       ''WMI_COEX_CONFIG_CMDID'', ''WMI_CHAN_AVOID_RPT_ALLOW_CMDID'', ''WMI_COEX_GET_ANTENNA_ISOLATION_CMDID'',
       ''WMI_SAR_LIMITS_CMDID'']),
    (TlvCmd ''WMI_GRP_OBSS_OFL'', [''WMI_OBSS_SCAN_ENABLE_CMDID'', ''WMI_OBSS_SCAN_DISABLE_CMDID'',
       ''WMI_OBSS_COLOR_COLLISION_DET_CONFIG_CMDID'']),
    (TlvCmd ''WMI_GRP_LPI'', [''WMI_LPI_MGMT_SNOOPING_CONFIG_CMDID'', ''WMI_LPI_START_SCAN_CMDID'',
       ''WMI_LPI_STOP_SCAN_CMDID'']),
    (TlvCmd ''WMI_GRP_EXTSCAN'', [''WMI_EXTSCAN_START_CMDID'', ''WMI_EXTSCAN_STOP_CMDID'',
       ''WMI_EXTSCAN_CONFIGURE_WLAN_CHANGE_MONITOR_CMDID'', ''WMI_EXTSCAN_CONFIGURE_HOTLIST_MONITOR_CMDID'',
       ''WMI_EXTSCAN_GET_CACHED_RESULTS_CMDID'', ''WMI_EXTSCAN_GET_WLAN_CHANGE_RESULTS_CMDID'',
       ''WMI_EXTSCAN_SET_CAPABILITIES_CMDID'', ''WMI_EXTSCAN_GET_CAPABILITIES_CMDID'',
       ''WMI_EXTSCAN_CONFIGURE_HOTLIST_SSID_MONITOR_CMDID'', ''WMI_EXTSCAN_CONFIGURE_MAWC_CMDID'']),
    (TlvCmd ''WMI_GRP_DHCP_OFL'', [''WMI_SET_DHCP_SERVER_OFFLOAD_CMDID'']),
    (TlvCmd ''WMI_GRP_IPA'', [''WMI_IPA_OFFLOAD_ENABLE_DISABLE_CMDID'']),
    (TlvCmd ''WMI_GRP_MDNS_OFL'', [''WMI_MDNS_OFFLOAD_ENABLE_CMDID'', ''WMI_MDNS_SET_FQDN_CMDID'',
       ''WMI_MDNS_SET_RESPONSE_CMDID'', ''WMI_MDNS_GET_STATS_CMDID'']),
    (TlvCmd ''WMI_GRP_SAP_OFL'', [''WMI_SAP_OFL_ENABLE_CMDID'', ''WMI_SAP_SET_BLACKLIST_PARAM_CMDID'']),
    (TlvCmd ''WMI_GRP_OCB'', [''WMI_OCB_SET_CONFIG_CMDID'', ''WMI_OCB_SET_UTC_TIME_CMDID'',
       ''WMI_OCB_START_TIMING_ADVERT_CMDID'', ''WMI_OCB_STOP_TIMING_ADVERT_CMDID'',
       ''WMI_OCB_GET_TSF_TIMER_CMDID'', ''WMI_DCC_GET_STATS_CMDID'', ''WMI_DCC_CLEAR_STATS_CMDID'',
       ''WMI_DCC_UPDATE_NDL_CMDID'']),
    (TlvCmd ''WMI_GRP_SOC'', [''WMI_SOC_SET_PCL_CMDID'', ''WMI_SOC_SET_HW_MODE_CMDID'',
       ''WMI_SOC_SET_DUAL_MAC_CONFIG_CMDID'', ''WMI_SOC_SET_ANTENNA_MODE_CMDID'']),
    (TlvCmd ''WMI_GRP_PKT_FILTER'', [''WMI_PACKET_FILTER_CONFIG_CMDID'', ''WMI_PACKET_FILTER_ENABLE_CMDID'']),
    (TlvCmd ''WMI_GRP_MAWC'', [''WMI_MAWC_SENSOR_REPORT_IND_CMDID'']),
    (TlvCmd ''WMI_GRP_PMF_OFFLOAD'', [''WMI_PMF_OFFLOAD_SET_SA_QUERY_CMDID'']),
    (TlvCmd ''WMI_GRP_BPF_OFFLOAD'', [''WMI_BPF_GET_CAPABILITY_CMDID'', ''WMI_BPF_GET_VDEV_STATS_CMDID'',
       ''WMI_BPF_SET_VDEV_INSTRUCTIONS_CMDID'', ''WMI_BPF_DEL_VDEV_INSTRUCTIONS_CMDID'',
       ''WMI_BPF_SET_VDEV_ACTIVE_MODE_CMDID'']),
    (TlvCmd ''WMI_GRP_MONITOR'', [''WMI_MNT_FILTER_CMDID'']),
    (TlvCmd ''WMI_GRP_REGULATORY'', [''WMI_SET_CURRENT_COUNTRY_CMDID'', ''WMI_11D_SCAN_START_CMDID'',
       ''WMI_11D_SCAN_STOP_CMDID'', ''WMI_SET_INIT_COUNTRY_CMDID'']),
    (TlvCmd ''WMI_GRP_PROTOTYPE'', [''WMI_NDI_GET_CAP_REQ_CMDID'', ''WMI_NDP_INITIATOR_REQ_CMDID'',
       ''WMI_NDP_RESPONDER_REQ_CMDID'', ''WMI_NDP_END_REQ_CMDID'']),
    (TlvCmd ''WMI_GRP_HW_DATA_FILTER'', [''WMI_HW_DATA_FILTER_CMDID'']),
    (TlvCmd ''WMI_GRP_TWT'', [''WMI_TWT_ENABLE_CMDID'', ''WMI_TWT_DISABLE_CMDID'', ''WMI_TWT_ADD_DIALOG_CMDID'',
       ''WMI_TWT_DEL_DIALOG_CMDID'', ''WMI_TWT_PAUSE_DIALOG_CMDID'', ''WMI_TWT_RESUME_DIALOG_CMDID'']),
    (TlvCmd ''WMI_GRP_SPATIAL_REUSE'', [''WMI_PDEV_OBSS_PD_SPATIAL_REUSE_CMDID'',
       ''WMI_PDEV_OBSS_PD_SPATIAL_REUSE_SET_DEF_OBSS_THRESH_CMDID''])]"

definition wmi_tags_1 :: "string list" where
  "wmi_tags_1 = [
    ''WMI_TAG_WLAN_DCS_IM_TGT_STATS_T'', ''WMI_TAG_WLAN_PROFILE_CTX_T'', ''WMI_TAG_WLAN_PROFILE_T'',
    ''WMI_TAG_PDEV_QVIT_EVENT'', ''WMI_TAG_HOST_SWBA_EVENT'', ''WMI_TAG_TIM_INFO'', ''WMI_TAG_P2P_NOA_INFO'',
    ''WMI_TAG_STATS_EVENT'', ''WMI_TAG_AVOID_FREQ_RANGES_EVENT'', ''WMI_TAG_AVOID_FREQ_RANGE_DESC'',
    ''WMI_TAG_GTK_REKEY_FAIL_EVENT'', ''WMI_TAG_INIT_CMD'', ''WMI_TAG_RESOURCE_CONFIG'',
    ''WMI_TAG_WLAN_HOST_MEMORY_CHUNK'', ''WMI_TAG_START_SCAN_CMD'', ''WMI_TAG_STOP_SCAN_CMD'',
    ''WMI_TAG_SCAN_CHAN_LIST_CMD'', ''WMI_TAG_CHANNEL'', ''WMI_TAG_PDEV_SET_REGDOMAIN_CMD'',
    ''WMI_TAG_PDEV_SET_PARAM_CMD'', ''WMI_TAG_PDEV_SET_WMM_PARAMS_CMD'', ''WMI_TAG_WMM_PARAMS'',
    ''WMI_TAG_PDEV_SET_QUIET_CMD'', ''WMI_TAG_VDEV_CREATE_CMD'', ''WMI_TAG_VDEV_DELETE_CMD'',
    ''WMI_TAG_VDEV_START_REQUEST_CMD'', ''WMI_TAG_P2P_NOA_DESCRIPTOR'', ''WMI_TAG_P2P_GO_SET_BEACON_IE'',
    ''WMI_TAG_GTK_OFFLOAD_CMD'', ''WMI_TAG_VDEV_UP_CMD'', ''WMI_TAG_VDEV_STOP_CMD'', ''WMI_TAG_VDEV_DOWN_CMD'',
    ''WMI_TAG_VDEV_SET_PARAM_CMD'', ''WMI_TAG_VDEV_INSTALL_KEY_CMD'', ''WMI_TAG_PEER_CREATE_CMD'',
    ''WMI_TAG_PEER_DELETE_CMD'', ''WMI_TAG_PEER_FLUSH_TIDS_CMD'', ''WMI_TAG_PEER_SET_PARAM_CMD'',
    ''WMI_TAG_PEER_ASSOC_COMPLETE_CMD'', ''WMI_TAG_VHT_RATE_SET'', ''WMI_TAG_BCN_TMPL_CMD'',
    ''WMI_TAG_PRB_TMPL_CMD'', ''WMI_TAG_BCN_PRB_INFO'', ''WMI_TAG_PEER_TID_ADDBA_CMD'',
    ''WMI_TAG_PEER_TID_DELBA_CMD'', ''WMI_TAG_STA_POWERSAVE_MODE_CMD'', ''WMI_TAG_STA_POWERSAVE_PARAM_CMD'',
    ''WMI_TAG_STA_DTIM_PS_METHOD_CMD'', ''WMI_TAG_ROAM_SCAN_MODE'', ''WMI_TAG_ROAM_SCAN_RSSI_THRESHOLD'',
    ''WMI_TAG_ROAM_SCAN_PERIOD'', ''WMI_TAG_ROAM_SCAN_RSSI_CHANGE_THRESHOLD'', ''WMI_TAG_PDEV_SUSPEND_CMD'',
    ''WMI_TAG_PDEV_RESUME_CMD'', ''WMI_TAG_ADD_BCN_FILTER_CMD'', ''WMI_TAG_RMV_BCN_FILTER_CMD'',
    ''WMI_TAG_WOW_ENABLE_CMD'', ''WMI_TAG_WOW_HOSTWAKEUP_FROM_SLEEP_CMD'', ''WMI_TAG_STA_UAPSD_AUTO_TRIG_CMD'',
    ''WMI_TAG_STA_UAPSD_AUTO_TRIG_PARAM'', ''WMI_TAG_SET_ARP_NS_OFFLOAD_CMD'', ''WMI_TAG_ARP_OFFLOAD_TUPLE'',
    ''WMI_TAG_NS_OFFLOAD_TUPLE'', ''WMI_TAG_FTM_INTG_CMD'', ''WMI_TAG_STA_KEEPALIVE_CMD'',
    ''WMI_TAG_STA_KEEPALIVE_ARP_RESPONSE'', ''WMI_TAG_P2P_SET_VENDOR_IE_DATA_CMD'', ''WMI_TAG_AP_PS_PEER_CMD'',
    ''WMI_TAG_PEER_RATE_RETRY_SCHED_CMD'', ''WMI_TAG_WLAN_PROFILE_TRIGGER_CMD'',
    ''WMI_TAG_WLAN_PROFILE_SET_HIST_INTVL_CMD'', ''WMI_TAG_WLAN_PROFILE_GET_PROF_DATA_CMD'',
    ''WMI_TAG_WLAN_PROFILE_ENABLE_PROFILE_ID_CMD'', ''WMI_TAG_WOW_DEL_PATTERN_CMD'',
    ''WMI_TAG_WOW_ADD_DEL_EVT_CMD'', ''WMI_TAG_RTT_MEASREQ_HEAD'', ''WMI_TAG_RTT_MEASREQ_BODY'',
    ''WMI_TAG_RTT_TSF_CMD'', ''WMI_TAG_VDEV_SPECTRAL_CONFIGURE_CMD'', ''WMI_TAG_VDEV_SPECTRAL_ENABLE_CMD'',
    ''WMI_TAG_REQUEST_STATS_CMD'', ''WMI_TAG_NLO_CONFIG_CMD'', ''WMI_TAG_NLO_CONFIGURED_PARAMETERS'',
    ''WMI_TAG_CSA_OFFLOAD_ENABLE_CMD'', ''WMI_TAG_CSA_OFFLOAD_CHANSWITCH_CMD'', ''WMI_TAG_CHATTER_SET_MODE_CMD'',
    ''WMI_TAG_ECHO_CMD'', ''WMI_TAG_VDEV_SET_KEEPALIVE_CMD'', ''WMI_TAG_VDEV_GET_KEEPALIVE_CMD'',
    ''WMI_TAG_FORCE_FW_HANG_CMD'', ''WMI_TAG_GPIO_CONFIG_CMD'', ''WMI_TAG_GPIO_OUTPUT_CMD'',
    ''WMI_TAG_PEER_ADD_WDS_ENTRY_CMD'', ''WMI_TAG_PEER_REMOVE_WDS_ENTRY_CMD'', ''WMI_TAG_BCN_TX_HDR'',
    ''WMI_TAG_BCN_SEND_FROM_HOST_CMD'', ''WMI_TAG_MGMT_TX_HDR'', ''WMI_TAG_ADDBA_CLEAR_RESP_CMD'',
    ''WMI_TAG_ADDBA_SEND_CMD'', ''WMI_TAG_DELBA_SEND_CMD'', ''WMI_TAG_ADDBA_SETRESPONSE_CMD'',
    ''WMI_TAG_SEND_SINGLEAMSDU_CMD'', ''WMI_TAG_PDEV_PKTLOG_ENABLE_CMD'', ''WMI_TAG_PDEV_PKTLOG_DISABLE_CMD'',
    ''WMI_TAG_PDEV_SET_HT_IE_CMD'', ''WMI_TAG_PDEV_SET_VHT_IE_CMD'', ''WMI_TAG_PDEV_SET_DSCP_TID_MAP_CMD'',
    ''WMI_TAG_PDEV_GREEN_AP_PS_ENABLE_CMD'', ''WMI_TAG_PDEV_GET_TPC_CONFIG_CMD'',
    ''WMI_TAG_PDEV_SET_BASE_MACADDR_CMD'', ''WMI_TAG_PEER_MCAST_GROUP_CMD'', ''WMI_TAG_ROAM_AP_PROFILE'',
    ''WMI_TAG_AP_PROFILE'', ''WMI_TAG_SCAN_SCH_PRIORITY_TABLE_CMD'', ''WMI_TAG_PDEV_DFS_ENABLE_CMD'',
    ''WMI_TAG_PDEV_DFS_DISABLE_CMD'', ''WMI_TAG_WOW_ADD_PATTERN_CMD'', ''WMI_TAG_WOW_BITMAP_PATTERN_T'',
    ''WMI_TAG_WOW_IPV4_SYNC_PATTERN_T'', ''WMI_TAG_WOW_IPV6_SYNC_PATTERN_T'', ''WMI_TAG_WOW_MAGIC_PATTERN_CMD'',
    ''WMI_TAG_SCAN_UPDATE_REQUEST_CMD'', ''WMI_TAG_CHATTER_PKT_COALESCING_FILTER'',
    ''WMI_TAG_CHATTER_COALESCING_ADD_FILTER_CMD'', ''WMI_TAG_CHATTER_COALESCING_DELETE_FILTER_CMD'',
    ''WMI_TAG_CHATTER_COALESCING_QUERY_CMD'', ''WMI_TAG_TXBF_CMD'', ''WMI_TAG_DEBUG_LOG_CONFIG_CMD'',
    ''WMI_TAG_NLO_EVENT'', ''WMI_TAG_CHATTER_QUERY_REPLY_EVENT'', ''WMI_TAG_UPLOAD_H_HDR'',
    ''WMI_TAG_CAPTURE_H_EVENT_HDR'', ''WMI_TAG_VDEV_WNM_SLEEPMODE_CMD'',
    ''WMI_TAG_VDEV_IPSEC_NATKEEPALIVE_FILTER_CMD'', ''WMI_TAG_VDEV_WMM_ADDTS_CMD'',
    ''WMI_TAG_VDEV_WMM_DELTS_CMD'', ''WMI_TAG_VDEV_SET_WMM_PARAMS_CMD'', ''WMI_TAG_TDLS_SET_STATE_CMD'',
    ''WMI_TAG_TDLS_PEER_UPDATE_CMD'', ''WMI_TAG_TDLS_PEER_EVENT'', ''WMI_TAG_TDLS_PEER_CAPABILITIES'',
    ''WMI_TAG_VDEV_MCC_SET_TBTT_MODE_CMD'', ''WMI_TAG_ROAM_CHAN_LIST'',
    ''WMI_TAG_VDEV_MCC_BCN_INTVL_CHANGE_EVENT'', ''WMI_TAG_RESMGR_ADAPTIVE_OCS_ENABLE_DISABLE_CMD'']"

definition wmi_tags_2 :: "string list" where
  "wmi_tags_2 = [
    ''WMI_TAG_RESMGR_SET_CHAN_TIME_QUOTA_CMD'', ''WMI_TAG_RESMGR_SET_CHAN_LATENCY_CMD'',
    ''WMI_TAG_BA_REQ_SSN_CMD'', ''WMI_TAG_BA_RSP_SSN_EVENT'', ''WMI_TAG_STA_SMPS_FORCE_MODE_CMD'',
    ''WMI_TAG_SET_MCASTBCAST_FILTER_CMD'', ''WMI_TAG_P2P_SET_OPPPS_CMD'', ''WMI_TAG_P2P_SET_NOA_CMD'',
    ''WMI_TAG_BA_REQ_SSN_CMD_SUB_STRUCT_PARAM'', ''WMI_TAG_BA_REQ_SSN_EVENT_SUB_STRUCT_PARAM'',
    ''WMI_TAG_STA_SMPS_PARAM_CMD'', ''WMI_TAG_VDEV_SET_GTX_PARAMS_CMD'', ''WMI_TAG_MCC_SCHED_TRAFFIC_STATS_CMD'',
    ''WMI_TAG_MCC_SCHED_STA_TRAFFIC_STATS'', ''WMI_TAG_OFFLOAD_BCN_TX_STATUS_EVENT'', ''WMI_TAG_P2P_NOA_EVENT'',
    ''WMI_TAG_HB_SET_ENABLE_CMD'', ''WMI_TAG_HB_SET_TCP_PARAMS_CMD'', ''WMI_TAG_HB_SET_TCP_PKT_FILTER_CMD'',
    ''WMI_TAG_HB_SET_UDP_PARAMS_CMD'', ''WMI_TAG_HB_SET_UDP_PKT_FILTER_CMD'', ''WMI_TAG_HB_IND_EVENT'',
    ''WMI_TAG_TX_PAUSE_EVENT'', ''WMI_TAG_RFKILL_EVENT'', ''WMI_TAG_DFS_RADAR_EVENT'',
    ''WMI_TAG_DFS_PHYERR_FILTER_ENA_CMD'', ''WMI_TAG_DFS_PHYERR_FILTER_DIS_CMD'',
    ''WMI_TAG_BATCH_SCAN_RESULT_SCAN_LIST'', ''WMI_TAG_BATCH_SCAN_RESULT_NETWORK_INFO'',
    ''WMI_TAG_BATCH_SCAN_ENABLE_CMD'', ''WMI_TAG_BATCH_SCAN_DISABLE_CMD'',
    ''WMI_TAG_BATCH_SCAN_TRIGGER_RESULT_CMD'', ''WMI_TAG_BATCH_SCAN_ENABLED_EVENT'',
    ''WMI_TAG_BATCH_SCAN_RESULT_EVENT'', ''WMI_TAG_VDEV_PLMREQ_START_CMD'', ''WMI_TAG_VDEV_PLMREQ_STOP_CMD'',
    ''WMI_TAG_THERMAL_MGMT_CMD'', ''WMI_TAG_THERMAL_MGMT_EVENT'', ''WMI_TAG_PEER_INFO_REQ_CMD'',
    ''WMI_TAG_PEER_INFO_EVENT'', ''WMI_TAG_PEER_INFO'', ''WMI_TAG_PEER_TX_FAIL_CNT_THR_EVENT'',
    ''WMI_TAG_RMC_SET_MODE_CMD'', ''WMI_TAG_RMC_SET_ACTION_PERIOD_CMD'', ''WMI_TAG_RMC_CONFIG_CMD'',
    ''WMI_TAG_MHF_OFFLOAD_SET_MODE_CMD'', ''WMI_TAG_MHF_OFFLOAD_PLUMB_ROUTING_TABLE_CMD'',
    ''WMI_TAG_ADD_PROACTIVE_ARP_RSP_PATTERN_CMD'', ''WMI_TAG_DEL_PROACTIVE_ARP_RSP_PATTERN_CMD'',
    ''WMI_TAG_NAN_CMD_PARAM'', ''WMI_TAG_NAN_EVENT_HDR'', ''WMI_TAG_PDEV_L1SS_TRACK_EVENT'',
    ''WMI_TAG_DIAG_DATA_CONTAINER_EVENT'', ''WMI_TAG_MODEM_POWER_STATE_CMD_PARAM'',
    ''WMI_TAG_PEER_GET_ESTIMATED_LINKSPEED_CMD'', ''WMI_TAG_PEER_ESTIMATED_LINKSPEED_EVENT'',
    ''WMI_TAG_AGGR_STATE_TRIG_EVENT'', ''WMI_TAG_MHF_OFFLOAD_ROUTING_TABLE_ENTRY'', ''WMI_TAG_ROAM_SCAN_CMD'',
    ''WMI_TAG_REQ_STATS_EXT_CMD'', ''WMI_TAG_STATS_EXT_EVENT'', ''WMI_TAG_OBSS_SCAN_ENABLE_CMD'',
    ''WMI_TAG_OBSS_SCAN_DISABLE_CMD'', ''WMI_TAG_OFFLOAD_PRB_RSP_TX_STATUS_EVENT'',
    ''WMI_TAG_PDEV_SET_LED_CONFIG_CMD'', ''WMI_TAG_HOST_AUTO_SHUTDOWN_CFG_CMD'',
    ''WMI_TAG_HOST_AUTO_SHUTDOWN_EVENT'', ''WMI_TAG_UPDATE_WHAL_MIB_STATS_EVENT'',
    ''WMI_TAG_CHAN_AVOID_UPDATE_CMD_PARAM'', ''WMI_TAG_WOW_IOAC_PKT_PATTERN_T'',
    ''WMI_TAG_WOW_IOAC_TMR_PATTERN_T'', ''WMI_TAG_WOW_IOAC_ADD_KEEPALIVE_CMD'',
    ''WMI_TAG_WOW_IOAC_DEL_KEEPALIVE_CMD'', ''WMI_TAG_WOW_IOAC_KEEPALIVE_T'',
    ''WMI_TAG_WOW_IOAC_ADD_PATTERN_CMD'', ''WMI_TAG_WOW_IOAC_DEL_PATTERN_CMD'', ''WMI_TAG_START_LINK_STATS_CMD'',
    ''WMI_TAG_CLEAR_LINK_STATS_CMD'', ''WMI_TAG_REQUEST_LINK_STATS_CMD'', ''WMI_TAG_IFACE_LINK_STATS_EVENT'',
    ''WMI_TAG_RADIO_LINK_STATS_EVENT'', ''WMI_TAG_PEER_STATS_EVENT'', ''WMI_TAG_CHANNEL_STATS'',
    ''WMI_TAG_RADIO_LINK_STATS'', ''WMI_TAG_RATE_STATS'', ''WMI_TAG_PEER_LINK_STATS'', ''WMI_TAG_WMM_AC_STATS'',
    ''WMI_TAG_IFACE_LINK_STATS'', ''WMI_TAG_LPI_MGMT_SNOOPING_CONFIG_CMD'', ''WMI_TAG_LPI_START_SCAN_CMD'',
    ''WMI_TAG_LPI_STOP_SCAN_CMD'', ''WMI_TAG_LPI_RESULT_EVENT'', ''WMI_TAG_PEER_STATE_EVENT'',
    ''WMI_TAG_EXTSCAN_BUCKET_CMD'', ''WMI_TAG_EXTSCAN_BUCKET_CHANNEL_EVENT'', ''WMI_TAG_EXTSCAN_START_CMD'',
    ''WMI_TAG_EXTSCAN_STOP_CMD'', ''WMI_TAG_EXTSCAN_CONFIGURE_WLAN_CHANGE_MONITOR_CMD'',
    ''WMI_TAG_EXTSCAN_WLAN_CHANGE_BSSID_PARAM_CMD'', ''WMI_TAG_EXTSCAN_CONFIGURE_HOTLIST_MONITOR_CMD'',
    ''WMI_TAG_EXTSCAN_GET_CACHED_RESULTS_CMD'', ''WMI_TAG_EXTSCAN_GET_WLAN_CHANGE_RESULTS_CMD'',
    ''WMI_TAG_EXTSCAN_SET_CAPABILITIES_CMD'', ''WMI_TAG_EXTSCAN_GET_CAPABILITIES_CMD'',
    ''WMI_TAG_EXTSCAN_OPERATION_EVENT'', ''WMI_TAG_EXTSCAN_START_STOP_EVENT'',
    ''WMI_TAG_EXTSCAN_TABLE_USAGE_EVENT'', ''WMI_TAG_EXTSCAN_WLAN_DESCRIPTOR_EVENT'',
    ''WMI_TAG_EXTSCAN_RSSI_INFO_EVENT'', ''WMI_TAG_EXTSCAN_CACHED_RESULTS_EVENT'',
    ''WMI_TAG_EXTSCAN_WLAN_CHANGE_RESULTS_EVENT'', ''WMI_TAG_EXTSCAN_WLAN_CHANGE_RESULT_BSSID_EVENT'',
    ''WMI_TAG_EXTSCAN_HOTLIST_MATCH_EVENT'', ''WMI_TAG_EXTSCAN_CAPABILITIES_EVENT'',
    ''WMI_TAG_EXTSCAN_CACHE_CAPABILITIES_EVENT'', ''WMI_TAG_EXTSCAN_WLAN_CHANGE_MONITOR_CAPABILITIES_EVENT'',
    ''WMI_TAG_EXTSCAN_HOTLIST_MONITOR_CAPABILITIES_EVENT'', ''WMI_TAG_D0_WOW_ENABLE_DISABLE_CMD'',
    ''WMI_TAG_D0_WOW_DISABLE_ACK_EVENT'', ''WMI_TAG_UNIT_TEST_CMD'', ''WMI_TAG_ROAM_OFFLOAD_TLV_PARAM'',
    ''WMI_TAG_ROAM_11I_OFFLOAD_TLV_PARAM'', ''WMI_TAG_ROAM_11R_OFFLOAD_TLV_PARAM'',
    ''WMI_TAG_ROAM_ESE_OFFLOAD_TLV_PARAM'', ''WMI_TAG_ROAM_SYNCH_EVENT'', ''WMI_TAG_ROAM_SYNCH_COMPLETE'',
    ''WMI_TAG_EXTWOW_ENABLE_CMD'', ''WMI_TAG_EXTWOW_SET_APP_TYPE1_PARAMS_CMD'',
    ''WMI_TAG_EXTWOW_SET_APP_TYPE2_PARAMS_CMD'', ''WMI_TAG_LPI_STATUS_EVENT'', ''WMI_TAG_LPI_HANDOFF_EVENT'',
    ''WMI_TAG_VDEV_RATE_STATS_EVENT'', ''WMI_TAG_VDEV_RATE_HT_INFO'', ''WMI_TAG_RIC_REQUEST'',
    ''WMI_TAG_PDEV_GET_TEMPERATURE_CMD'', ''WMI_TAG_PDEV_TEMPERATURE_EVENT'',
    ''WMI_TAG_SET_DHCP_SERVER_OFFLOAD_CMD'', ''WMI_TAG_TPC_CHAINMASK_CONFIG_CMD'', ''WMI_TAG_RIC_TSPEC'',
    ''WMI_TAG_TPC_CHAINMASK_CONFIG'', ''WMI_TAG_IPA_OFFLOAD_ENABLE_DISABLE_CMD'',
    ''WMI_TAG_SCAN_PROB_REQ_OUI_CMD'', ''WMI_TAG_KEY_MATERIAL'', ''WMI_TAG_TDLS_SET_OFFCHAN_MODE_CMD'',
    ''WMI_TAG_SET_LED_FLASHING_CMD'']"

definition wmi_tags_3 :: "string list" where
  "wmi_tags_3 = [
    ''WMI_TAG_MDNS_OFFLOAD_CMD'', ''WMI_TAG_MDNS_SET_FQDN_CMD'', ''WMI_TAG_MDNS_SET_RESP_CMD'',
    ''WMI_TAG_MDNS_GET_STATS_CMD'', ''WMI_TAG_MDNS_STATS_EVENT'', ''WMI_TAG_ROAM_INVOKE_CMD'',
    ''WMI_TAG_PDEV_RESUME_EVENT'', ''WMI_TAG_PDEV_SET_ANTENNA_DIVERSITY_CMD'', ''WMI_TAG_SAP_OFL_ENABLE_CMD'',
    ''WMI_TAG_SAP_OFL_ADD_STA_EVENT'', ''WMI_TAG_SAP_OFL_DEL_STA_EVENT'', ''WMI_TAG_APFIND_CMD_PARAM'',
    ''WMI_TAG_APFIND_EVENT_HDR'', ''WMI_TAG_OCB_SET_SCHED_CMD'', ''WMI_TAG_OCB_SET_SCHED_EVENT'',
    ''WMI_TAG_OCB_SET_CONFIG_CMD'', ''WMI_TAG_OCB_SET_CONFIG_RESP_EVENT'', ''WMI_TAG_OCB_SET_UTC_TIME_CMD'',
    ''WMI_TAG_OCB_START_TIMING_ADVERT_CMD'', ''WMI_TAG_OCB_STOP_TIMING_ADVERT_CMD'',
    ''WMI_TAG_OCB_GET_TSF_TIMER_CMD'', ''WMI_TAG_OCB_GET_TSF_TIMER_RESP_EVENT'', ''WMI_TAG_DCC_GET_STATS_CMD'',
    ''WMI_TAG_DCC_CHANNEL_STATS_REQUEST'', ''WMI_TAG_DCC_GET_STATS_RESP_EVENT'', ''WMI_TAG_DCC_CLEAR_STATS_CMD'',
    ''WMI_TAG_DCC_UPDATE_NDL_CMD'', ''WMI_TAG_DCC_UPDATE_NDL_RESP_EVENT'', ''WMI_TAG_DCC_STATS_EVENT'',
    ''WMI_TAG_OCB_CHANNEL'', ''WMI_TAG_OCB_SCHEDULE_ELEMENT'', ''WMI_TAG_DCC_NDL_STATS_PER_CHANNEL'',
    ''WMI_TAG_DCC_NDL_CHAN'', ''WMI_TAG_QOS_PARAMETER'', ''WMI_TAG_DCC_NDL_ACTIVE_STATE_CONFIG'',
    ''WMI_TAG_ROAM_SCAN_EXTENDED_THRESHOLD_PARAM'', ''WMI_TAG_ROAM_FILTER'', ''WMI_TAG_PASSPOINT_CONFIG_CMD'',
    ''WMI_TAG_PASSPOINT_EVENT_HDR'', ''WMI_TAG_EXTSCAN_CONFIGURE_HOTLIST_SSID_MONITOR_CMD'',
    ''WMI_TAG_EXTSCAN_HOTLIST_SSID_MATCH_EVENT'', ''WMI_TAG_VDEV_TSF_TSTAMP_ACTION_CMD'',
    ''WMI_TAG_VDEV_TSF_REPORT_EVENT'', ''WMI_TAG_GET_FW_MEM_DUMP'', ''WMI_TAG_UPDATE_FW_MEM_DUMP'',
    ''WMI_TAG_FW_MEM_DUMP_PARAMS'', ''WMI_TAG_DEBUG_MESG_FLUSH'', ''WMI_TAG_DEBUG_MESG_FLUSH_COMPLETE'',
    ''WMI_TAG_PEER_SET_RATE_REPORT_CONDITION'', ''WMI_TAG_ROAM_SUBNET_CHANGE_CONFIG'',
    ''WMI_TAG_VDEV_SET_IE_CMD'', ''WMI_TAG_RSSI_BREACH_MONITOR_CONFIG'', ''WMI_TAG_RSSI_BREACH_EVENT'',
    ''WMI_TAG_WOW_EVENT_INITIAL_WAKEUP'', ''WMI_TAG_SOC_SET_PCL_CMD'', ''WMI_TAG_SOC_SET_HW_MODE_CMD'',
    ''WMI_TAG_SOC_SET_HW_MODE_RESPONSE_EVENT'', ''WMI_TAG_SOC_HW_MODE_TRANSITION_EVENT'',
    ''WMI_TAG_VDEV_TXRX_STREAMS'', ''WMI_TAG_SOC_SET_HW_MODE_RESPONSE_VDEV_MAC_ENTRY'',
    ''WMI_TAG_SOC_SET_DUAL_MAC_CONFIG_CMD'', ''WMI_TAG_SOC_SET_DUAL_MAC_CONFIG_RESPONSE_EVENT'',
    ''WMI_TAG_WOW_IOAC_SOCK_PATTERN_T'', ''WMI_TAG_WOW_ENABLE_ICMPV6_NA_FLT_CMD'',
    ''WMI_TAG_DIAG_EVENT_LOG_CONFIG'', ''WMI_TAG_DIAG_EVENT_LOG_SUPPORTED_EVENT_FIXED_PARAMS'',
    ''WMI_TAG_PACKET_FILTER_CONFIG'', ''WMI_TAG_PACKET_FILTER_ENABLE'', ''WMI_TAG_SAP_SET_BLACKLIST_PARAM_CMD'',
    ''WMI_TAG_MGMT_TX_SEND_CMD'', ''WMI_TAG_MGMT_TX_COMPL_EVENT'', ''WMI_TAG_SOC_SET_ANTENNA_MODE_CMD'',
    ''WMI_TAG_WOW_UDP_SVC_OFLD_CMD'', ''WMI_TAG_LRO_INFO_CMD'', ''WMI_TAG_ROAM_EARLYSTOP_RSSI_THRES_PARAM'',
    ''WMI_TAG_SERVICE_READY_EXT_EVENT'', ''WMI_TAG_MAWC_SENSOR_REPORT_IND_CMD'',
    ''WMI_TAG_MAWC_ENABLE_SENSOR_EVENT'', ''WMI_TAG_ROAM_CONFIGURE_MAWC_CMD'', ''WMI_TAG_NLO_CONFIGURE_MAWC_CMD'',
    ''WMI_TAG_EXTSCAN_CONFIGURE_MAWC_CMD'', ''WMI_TAG_PEER_ASSOC_CONF_EVENT'',
    ''WMI_TAG_WOW_HOSTWAKEUP_GPIO_PIN_PATTERN_CONFIG_CMD'', ''WMI_TAG_AP_PS_EGAP_PARAM_CMD'',
    ''WMI_TAG_AP_PS_EGAP_INFO_EVENT'', ''WMI_TAG_PMF_OFFLOAD_SET_SA_QUERY_CMD'',
    ''WMI_TAG_TRANSFER_DATA_TO_FLASH_CMD'', ''WMI_TAG_TRANSFER_DATA_TO_FLASH_COMPLETE_EVENT'',
    ''WMI_TAG_SCPC_EVENT'', ''WMI_TAG_AP_PS_EGAP_INFO_CHAINMASK_LIST'',
    ''WMI_TAG_STA_SMPS_FORCE_MODE_COMPLETE_EVENT'', ''WMI_TAG_BPF_GET_CAPABILITY_CMD'',
    ''WMI_TAG_BPF_CAPABILITY_INFO_EVT'', ''WMI_TAG_BPF_GET_VDEV_STATS_CMD'', ''WMI_TAG_BPF_VDEV_STATS_INFO_EVT'',
    ''WMI_TAG_BPF_SET_VDEV_INSTRUCTIONS_CMD'', ''WMI_TAG_BPF_DEL_VDEV_INSTRUCTIONS_CMD'',
    ''WMI_TAG_VDEV_DELETE_RESP_EVENT'', ''WMI_TAG_PEER_DELETE_RESP_EVENT'', ''WMI_TAG_ROAM_DENSE_THRES_PARAM'',
    ''WMI_TAG_ENLO_CANDIDATE_SCORE_PARAM'', ''WMI_TAG_PEER_UPDATE_WDS_ENTRY_CMD'',
    ''WMI_TAG_VDEV_CONFIG_RATEMASK'', ''WMI_TAG_PDEV_FIPS_CMD'', ''WMI_TAG_PDEV_SMART_ANT_ENABLE_CMD'',
    ''WMI_TAG_PDEV_SMART_ANT_SET_RX_ANTENNA_CMD'', ''WMI_TAG_PEER_SMART_ANT_SET_TX_ANTENNA_CMD'',
    ''WMI_TAG_PEER_SMART_ANT_SET_TRAIN_ANTENNA_CMD'', ''WMI_TAG_PEER_SMART_ANT_SET_NODE_CONFIG_OPS_CMD'',
    ''WMI_TAG_PDEV_SET_ANT_SWITCH_TBL_CMD'', ''WMI_TAG_PDEV_SET_CTL_TABLE_CMD'',
    ''WMI_TAG_PDEV_SET_MIMOGAIN_TABLE_CMD'', ''WMI_TAG_FWTEST_SET_PARAM_CMD'', ''WMI_TAG_PEER_ATF_REQUEST'',
    ''WMI_TAG_VDEV_ATF_REQUEST'', ''WMI_TAG_PDEV_GET_ANI_CCK_CONFIG_CMD'',
    ''WMI_TAG_PDEV_GET_ANI_OFDM_CONFIG_CMD'', ''WMI_TAG_INST_RSSI_STATS_RESP'', ''WMI_TAG_MED_UTIL_REPORT_EVENT'',
    ''WMI_TAG_PEER_STA_PS_STATECHANGE_EVENT'', ''WMI_TAG_WDS_ADDR_EVENT'', ''WMI_TAG_PEER_RATECODE_LIST_EVENT'',
    ''WMI_TAG_PDEV_NFCAL_POWER_ALL_CHANNELS_EVENT'', ''WMI_TAG_PDEV_TPC_EVENT'', ''WMI_TAG_ANI_OFDM_EVENT'',
    ''WMI_TAG_ANI_CCK_EVENT'', ''WMI_TAG_PDEV_CHANNEL_HOPPING_EVENT'', ''WMI_TAG_PDEV_FIPS_EVENT'',
    ''WMI_TAG_ATF_PEER_INFO'', ''WMI_TAG_PDEV_GET_TPC_CMD'', ''WMI_TAG_VDEV_FILTER_NRP_CONFIG_CMD'',
    ''WMI_TAG_QBOOST_CFG_CMD'', ''WMI_TAG_PDEV_SMART_ANT_GPIO_HANDLE'',
    ''WMI_TAG_PEER_SMART_ANT_SET_TX_ANTENNA_SERIES'', ''WMI_TAG_PEER_SMART_ANT_SET_TRAIN_ANTENNA_PARAM'',
    ''WMI_TAG_PDEV_SET_ANT_CTRL_CHAIN'', ''WMI_TAG_PEER_CCK_OFDM_RATE_INFO'', ''WMI_TAG_PEER_MCS_RATE_INFO'',
    ''WMI_TAG_PDEV_NFCAL_POWER_ALL_CHANNELS_NFDBR'', ''WMI_TAG_PDEV_NFCAL_POWER_ALL_CHANNELS_NFDBM'',
    ''WMI_TAG_PDEV_NFCAL_POWER_ALL_CHANNELS_FREQNUM'', ''WMI_TAG_MU_REPORT_TOTAL_MU'',
    ''WMI_TAG_VDEV_SET_DSCP_TID_MAP_CMD'', ''WMI_TAG_ROAM_SET_MBO'', ''WMI_TAG_MIB_STATS_ENABLE_CMD'']"

definition wmi_tags_4 :: "string list" where
  "wmi_tags_4 = [
    ''WMI_TAG_NAN_DISC_IFACE_CREATED_EVENT'', ''WMI_TAG_NAN_DISC_IFACE_DELETED_EVENT'',
    ''WMI_TAG_NAN_STARTED_CLUSTER_EVENT'', ''WMI_TAG_NAN_JOINED_CLUSTER_EVENT'', ''WMI_TAG_NDI_GET_CAP_REQ'',
    ''WMI_TAG_NDP_INITIATOR_REQ'', ''WMI_TAG_NDP_RESPONDER_REQ'', ''WMI_TAG_NDP_END_REQ'',
    ''WMI_TAG_NDI_CAP_RSP_EVENT'', ''WMI_TAG_NDP_INITIATOR_RSP_EVENT'', ''WMI_TAG_NDP_RESPONDER_RSP_EVENT'',
    ''WMI_TAG_NDP_END_RSP_EVENT'', ''WMI_TAG_NDP_INDICATION_EVENT'', ''WMI_TAG_NDP_CONFIRM_EVENT'',
    ''WMI_TAG_NDP_END_INDICATION_EVENT'', ''WMI_TAG_VDEV_SET_QUIET_CMD'', ''WMI_TAG_PDEV_SET_PCL_CMD'',
    ''WMI_TAG_PDEV_SET_HW_MODE_CMD'', ''WMI_TAG_PDEV_SET_MAC_CONFIG_CMD'', ''WMI_TAG_PDEV_SET_ANTENNA_MODE_CMD'',
    ''WMI_TAG_PDEV_SET_HW_MODE_RESPONSE_EVENT'', ''WMI_TAG_PDEV_HW_MODE_TRANSITION_EVENT'',
    ''WMI_TAG_PDEV_SET_HW_MODE_RESPONSE_VDEV_MAC_ENTRY'', ''WMI_TAG_PDEV_SET_MAC_CONFIG_RESPONSE_EVENT'',
    ''WMI_TAG_COEX_CONFIG_CMD'', ''WMI_TAG_CONFIG_ENHANCED_MCAST_FILTER'', ''WMI_TAG_CHAN_AVOID_RPT_ALLOW_CMD'',
    ''WMI_TAG_SET_PERIODIC_CHANNEL_STATS_CONFIG'', ''WMI_TAG_VDEV_SET_CUSTOM_AGGR_SIZE_CMD'',
    ''WMI_TAG_PDEV_WAL_POWER_DEBUG_CMD'', ''WMI_TAG_MAC_PHY_CAPABILITIES'', ''WMI_TAG_HW_MODE_CAPABILITIES'',
    ''WMI_TAG_SOC_MAC_PHY_HW_MODE_CAPS'', ''WMI_TAG_HAL_REG_CAPABILITIES_EXT'',
    ''WMI_TAG_SOC_HAL_REG_CAPABILITIES'', ''WMI_TAG_VDEV_WISA_CMD'', ''WMI_TAG_TX_POWER_LEVEL_STATS_EVT'',
    ''WMI_TAG_SCAN_ADAPTIVE_DWELL_PARAMETERS_TLV'', ''WMI_TAG_SCAN_ADAPTIVE_DWELL_CONFIG'',
    ''WMI_TAG_WOW_SET_ACTION_WAKE_UP_CMD'', ''WMI_TAG_NDP_END_RSP_PER_NDI'', ''WMI_TAG_PEER_BWF_REQUEST'',
    ''WMI_TAG_BWF_PEER_INFO'', ''WMI_TAG_DBGLOG_TIME_STAMP_SYNC_CMD'', ''WMI_TAG_RMC_SET_LEADER_CMD'',
    ''WMI_TAG_RMC_MANUAL_LEADER_EVENT'', ''WMI_TAG_PER_CHAIN_RSSI_STATS'', ''WMI_TAG_RSSI_STATS'',
    ''WMI_TAG_P2P_LO_START_CMD'', ''WMI_TAG_P2P_LO_STOP_CMD'', ''WMI_TAG_P2P_LO_STOPPED_EVENT'',
    ''WMI_TAG_REORDER_QUEUE_SETUP_CMD'', ''WMI_TAG_REORDER_QUEUE_REMOVE_CMD'',
    ''WMI_TAG_SET_MULTIPLE_MCAST_FILTER_CMD'', ''WMI_TAG_MGMT_TX_COMPL_BUNDLE_EVENT'',
    ''WMI_TAG_READ_DATA_FROM_FLASH_CMD'', ''WMI_TAG_READ_DATA_FROM_FLASH_EVENT'',
    ''WMI_TAG_PDEV_SET_REORDER_TIMEOUT_VAL_CMD'', ''WMI_TAG_PEER_SET_RX_BLOCKSIZE_CMD'',
    ''WMI_TAG_PDEV_SET_WAKEUP_CONFIG_CMDID'', ''WMI_TAG_TLV_BUF_LEN_PARAM'', ''WMI_TAG_SERVICE_AVAILABLE_EVENT'',
    ''WMI_TAG_PEER_ANTDIV_INFO_REQ_CMD'', ''WMI_TAG_PEER_ANTDIV_INFO_EVENT'', ''WMI_TAG_PEER_ANTDIV_INFO'',
    ''WMI_TAG_PDEV_GET_ANTDIV_STATUS_CMD'', ''WMI_TAG_PDEV_ANTDIV_STATUS_EVENT'', ''WMI_TAG_MNT_FILTER_CMD'',
    ''WMI_TAG_GET_CHIP_POWER_STATS_CMD'', ''WMI_TAG_PDEV_CHIP_POWER_STATS_EVENT'',
    ''WMI_TAG_COEX_GET_ANTENNA_ISOLATION_CMD'', ''WMI_TAG_COEX_REPORT_ISOLATION_EVENT'',
    ''WMI_TAG_CHAN_CCA_STATS'', ''WMI_TAG_PEER_SIGNAL_STATS'', ''WMI_TAG_TX_STATS'', ''WMI_TAG_PEER_AC_TX_STATS'',
    ''WMI_TAG_RX_STATS'', ''WMI_TAG_PEER_AC_RX_STATS'', ''WMI_TAG_REPORT_STATS_EVENT'',
    ''WMI_TAG_CHAN_CCA_STATS_THRESH'', ''WMI_TAG_PEER_SIGNAL_STATS_THRESH'', ''WMI_TAG_TX_STATS_THRESH'',
    ''WMI_TAG_RX_STATS_THRESH'', ''WMI_TAG_PDEV_SET_STATS_THRESHOLD_CMD'', ''WMI_TAG_REQUEST_WLAN_STATS_CMD'',
    ''WMI_TAG_RX_AGGR_FAILURE_EVENT'', ''WMI_TAG_RX_AGGR_FAILURE_INFO'',
    ''WMI_TAG_VDEV_ENCRYPT_DECRYPT_DATA_REQ_CMD'', ''WMI_TAG_VDEV_ENCRYPT_DECRYPT_DATA_RESP_EVENT'',
    ''WMI_TAG_PDEV_BAND_TO_MAC'', ''WMI_TAG_TBTT_OFFSET_INFO'', ''WMI_TAG_TBTT_OFFSET_EXT_EVENT'',
    ''WMI_TAG_SAR_LIMITS_CMD'', ''WMI_TAG_SAR_LIMIT_CMD_ROW'', ''WMI_TAG_PDEV_DFS_PHYERR_OFFLOAD_ENABLE_CMD'',
    ''WMI_TAG_PDEV_DFS_PHYERR_OFFLOAD_DISABLE_CMD'', ''WMI_TAG_VDEV_ADFS_CH_CFG_CMD'',
    ''WMI_TAG_VDEV_ADFS_OCAC_ABORT_CMD'', ''WMI_TAG_PDEV_DFS_RADAR_DETECTION_EVENT'',
    ''WMI_TAG_VDEV_ADFS_OCAC_COMPLETE_EVENT'', ''WMI_TAG_VDEV_DFS_CAC_COMPLETE_EVENT'', ''WMI_TAG_VENDOR_OUI'',
    ''WMI_TAG_REQUEST_RCPI_CMD'', ''WMI_TAG_UPDATE_RCPI_EVENT'', ''WMI_TAG_REQUEST_PEER_STATS_INFO_CMD'',
    ''WMI_TAG_PEER_STATS_INFO'', ''WMI_TAG_PEER_STATS_INFO_EVENT'', ''WMI_TAG_PKGID_EVENT'',
    ''WMI_TAG_CONNECTED_NLO_RSSI_PARAMS'', ''WMI_TAG_SET_CURRENT_COUNTRY_CMD'',
    ''WMI_TAG_REGULATORY_RULE_STRUCT'', ''WMI_TAG_REG_CHAN_LIST_CC_EVENT'', ''WMI_TAG_11D_SCAN_START_CMD'',
    ''WMI_TAG_11D_SCAN_STOP_CMD'', ''WMI_TAG_11D_NEW_COUNTRY_EVENT'', ''WMI_TAG_REQUEST_RADIO_CHAN_STATS_CMD'',
    ''WMI_TAG_RADIO_CHAN_STATS'', ''WMI_TAG_RADIO_CHAN_STATS_EVENT'', ''WMI_TAG_ROAM_PER_CONFIG'',
    ''WMI_TAG_VDEV_ADD_MAC_ADDR_TO_RX_FILTER_CMD'', ''WMI_TAG_VDEV_ADD_MAC_ADDR_TO_RX_FILTER_STATUS_EVENT'',
    ''WMI_TAG_BPF_SET_VDEV_ACTIVE_MODE_CMD'', ''WMI_TAG_HW_DATA_FILTER_CMD'',
    ''WMI_TAG_CONNECTED_NLO_BSS_BAND_RSSI_PREF'', ''WMI_TAG_PEER_OPER_MODE_CHANGE_EVENT'',
    ''WMI_TAG_CHIP_POWER_SAVE_FAILURE_DETECTED'', ''WMI_TAG_PDEV_MULTIPLE_VDEV_RESTART_REQUEST_CMD'',
    ''WMI_TAG_PDEV_CSA_SWITCH_COUNT_STATUS_EVENT'', ''WMI_TAG_PDEV_UPDATE_PKT_ROUTING_CMD'',
    ''WMI_TAG_PDEV_CHECK_CAL_VERSION_CMD'', ''WMI_TAG_PDEV_CHECK_CAL_VERSION_EVENT'',
    ''WMI_TAG_PDEV_SET_DIVERSITY_GAIN_CMD'', ''WMI_TAG_MAC_PHY_CHAINMASK_COMBO'',
    ''WMI_TAG_MAC_PHY_CHAINMASK_CAPABILITY'', ''WMI_TAG_VDEV_SET_ARP_STATS_CMD'',
    ''WMI_TAG_VDEV_GET_ARP_STATS_CMD'', ''WMI_TAG_VDEV_GET_ARP_STATS_EVENT'', ''WMI_TAG_IFACE_OFFLOAD_STATS'',
    ''WMI_TAG_REQUEST_STATS_CMD_SUB_STRUCT_PARAM'', ''WMI_TAG_RSSI_CTL_EXT'',
    ''WMI_TAG_SINGLE_PHYERR_EXT_RX_HDR'', ''WMI_TAG_COEX_BT_ACTIVITY_EVENT'', ''WMI_TAG_VDEV_GET_TX_POWER_CMD'',
    ''WMI_TAG_VDEV_TX_POWER_EVENT'', ''WMI_TAG_OFFCHAN_DATA_TX_COMPL_EVENT'']"

definition wmi_tags_5 :: "string list" where
  "wmi_tags_5 = [
    ''WMI_TAG_OFFCHAN_DATA_TX_SEND_CMD'', ''WMI_TAG_TX_SEND_PARAMS'', ''WMI_TAG_HE_RATE_SET'',
    ''WMI_TAG_CONGESTION_STATS'', ''WMI_TAG_SET_INIT_COUNTRY_CMD'', ''WMI_TAG_SCAN_DBS_DUTY_CYCLE'',
    ''WMI_TAG_SCAN_DBS_DUTY_CYCLE_PARAM_TLV'', ''WMI_TAG_PDEV_DIV_GET_RSSI_ANTID'',
    ''WMI_TAG_THERM_THROT_CONFIG_REQUEST'', ''WMI_TAG_THERM_THROT_LEVEL_CONFIG_INFO'',
    ''WMI_TAG_THERM_THROT_STATS_EVENT'', ''WMI_TAG_THERM_THROT_LEVEL_STATS_INFO'',
    ''WMI_TAG_PDEV_DIV_RSSI_ANTID_EVENT'', ''WMI_TAG_OEM_DMA_RING_CAPABILITIES'',
    ''WMI_TAG_OEM_DMA_RING_CFG_REQ'', ''WMI_TAG_OEM_DMA_RING_CFG_RSP'', ''WMI_TAG_OEM_INDIRECT_DATA'',
    ''WMI_TAG_OEM_DMA_BUF_RELEASE'', ''WMI_TAG_OEM_DMA_BUF_RELEASE_ENTRY'',
    ''WMI_TAG_PDEV_BSS_CHAN_INFO_REQUEST'', ''WMI_TAG_PDEV_BSS_CHAN_INFO_EVENT'',
    ''WMI_TAG_ROAM_LCA_DISALLOW_CONFIG'', ''WMI_TAG_VDEV_LIMIT_OFFCHAN_CMD'',
    ''WMI_TAG_ROAM_RSSI_REJECTION_OCE_CONFIG'', ''WMI_TAG_UNIT_TEST_EVENT'', ''WMI_TAG_ROAM_FILS_OFFLOAD'',
    ''WMI_TAG_PDEV_UPDATE_PMK_CACHE_CMD'', ''WMI_TAG_PMK_CACHE'', ''WMI_TAG_PDEV_UPDATE_FILS_HLP_PKT_CMD'',
    ''WMI_TAG_ROAM_FILS_SYNCH'', ''WMI_TAG_GTK_OFFLOAD_EXTENDED'', ''WMI_TAG_ROAM_BG_SCAN_ROAMING'',
    ''WMI_TAG_OIC_PING_OFFLOAD_PARAMS_CMD'', ''WMI_TAG_OIC_PING_OFFLOAD_SET_ENABLE_CMD'',
    ''WMI_TAG_OIC_PING_HANDOFF_EVENT'', ''WMI_TAG_DHCP_LEASE_RENEW_OFFLOAD_CMD'',
    ''WMI_TAG_DHCP_LEASE_RENEW_EVENT'', ''WMI_TAG_BTM_CONFIG'', ''WMI_TAG_DEBUG_MESG_FW_DATA_STALL'',
    ''WMI_TAG_WLM_CONFIG_CMD'', ''WMI_TAG_PDEV_UPDATE_CTLTABLE_REQUEST'', ''WMI_TAG_PDEV_UPDATE_CTLTABLE_EVENT'',
    ''WMI_TAG_ROAM_CND_SCORING_PARAM'', ''WMI_TAG_PDEV_CONFIG_VENDOR_OUI_ACTION'', ''WMI_TAG_VENDOR_OUI_EXT'',
    ''WMI_TAG_ROAM_SYNCH_FRAME_EVENT'', ''WMI_TAG_FD_SEND_FROM_HOST_CMD'', ''WMI_TAG_ENABLE_FILS_CMD'',
    ''WMI_TAG_HOST_SWFDA_EVENT'', ''WMI_TAG_BCN_OFFLOAD_CTRL_CMD'',
    ''WMI_TAG_PDEV_SET_AC_TX_QUEUE_OPTIMIZED_CMD'', ''WMI_TAG_STATS_PERIOD'', ''WMI_TAG_NDL_SCHEDULE_UPDATE'',
    ''WMI_TAG_PEER_TID_MSDUQ_QDEPTH_THRESH_UPDATE_CMD'', ''WMI_TAG_MSDUQ_QDEPTH_THRESH_UPDATE'',
    ''WMI_TAG_PDEV_SET_RX_FILTER_PROMISCUOUS_CMD'', ''WMI_TAG_SAR2_RESULT_EVENT'', ''WMI_TAG_SAR_CAPABILITIES'',
    ''WMI_TAG_SAP_OBSS_DETECTION_CFG_CMD'', ''WMI_TAG_SAP_OBSS_DETECTION_INFO_EVT'',
    ''WMI_TAG_DMA_RING_CAPABILITIES'', ''WMI_TAG_DMA_RING_CFG_REQ'', ''WMI_TAG_DMA_RING_CFG_RSP'',
    ''WMI_TAG_DMA_BUF_RELEASE'', ''WMI_TAG_DMA_BUF_RELEASE_ENTRY'', ''WMI_TAG_SAR_GET_LIMITS_CMD'',
    ''WMI_TAG_SAR_GET_LIMITS_EVENT'', ''WMI_TAG_SAR_GET_LIMITS_EVENT_ROW'', ''WMI_TAG_OFFLOAD_11K_REPORT'',
    ''WMI_TAG_INVOKE_NEIGHBOR_REPORT'', ''WMI_TAG_NEIGHBOR_REPORT_OFFLOAD'',
    ''WMI_TAG_VDEV_SET_CONNECTIVITY_CHECK_STATS'', ''WMI_TAG_VDEV_GET_CONNECTIVITY_CHECK_STATS'',
    ''WMI_TAG_BPF_SET_VDEV_ENABLE_CMD'', ''WMI_TAG_BPF_SET_VDEV_WORK_MEMORY_CMD'',
    ''WMI_TAG_BPF_GET_VDEV_WORK_MEMORY_CMD'', ''WMI_TAG_BPF_GET_VDEV_WORK_MEMORY_RESP_EVT'',
    ''WMI_TAG_PDEV_GET_NFCAL_POWER'', ''WMI_TAG_BSS_COLOR_CHANGE_ENABLE'',
    ''WMI_TAG_OBSS_COLOR_COLLISION_DET_CONFIG'', ''WMI_TAG_OBSS_COLOR_COLLISION_EVT'',
    ''WMI_TAG_RUNTIME_DPD_RECAL_CMD'', ''WMI_TAG_TWT_ENABLE_CMD'', ''WMI_TAG_TWT_DISABLE_CMD'',
    ''WMI_TAG_TWT_ADD_DIALOG_CMD'', ''WMI_TAG_TWT_DEL_DIALOG_CMD'', ''WMI_TAG_TWT_PAUSE_DIALOG_CMD'',
    ''WMI_TAG_TWT_RESUME_DIALOG_CMD'', ''WMI_TAG_TWT_ENABLE_COMPLETE_EVENT'',
    ''WMI_TAG_TWT_DISABLE_COMPLETE_EVENT'', ''WMI_TAG_TWT_ADD_DIALOG_COMPLETE_EVENT'',
    ''WMI_TAG_TWT_DEL_DIALOG_COMPLETE_EVENT'', ''WMI_TAG_TWT_PAUSE_DIALOG_COMPLETE_EVENT'',
    ''WMI_TAG_TWT_RESUME_DIALOG_COMPLETE_EVENT'', ''WMI_TAG_REQUEST_ROAM_SCAN_STATS_CMD'',
    ''WMI_TAG_ROAM_SCAN_STATS_EVENT'', ''WMI_TAG_PEER_TID_CONFIGURATIONS_CMD'',
    ''WMI_TAG_VDEV_SET_CUSTOM_SW_RETRY_TH_CMD'', ''WMI_TAG_GET_TPC_POWER_CMD'', ''WMI_TAG_GET_TPC_POWER_EVENT'',
    ''WMI_TAG_DMA_BUF_RELEASE_SPECTRAL_META_DATA'', ''WMI_TAG_MOTION_DET_CONFIG_PARAMS_CMD'',
    ''WMI_TAG_MOTION_DET_BASE_LINE_CONFIG_PARAMS_CMD'', ''WMI_TAG_MOTION_DET_START_STOP_CMD'',
    ''WMI_TAG_MOTION_DET_BASE_LINE_START_STOP_CMD'', ''WMI_TAG_MOTION_DET_EVENT'',
    ''WMI_TAG_MOTION_DET_BASE_LINE_EVENT'', ''WMI_TAG_NDP_TRANSPORT_IP'', ''WMI_TAG_OBSS_SPATIAL_REUSE_SET_CMD'',
    ''WMI_TAG_ESP_ESTIMATE_EVENT'', ''WMI_TAG_NAN_HOST_CONFIG'', ''WMI_TAG_SPECTRAL_BIN_SCALING_PARAMS'',
    ''WMI_TAG_PEER_CFR_CAPTURE_CMD'', ''WMI_TAG_PEER_CHAN_WIDTH_SWITCH_CMD'', ''WMI_TAG_CHAN_WIDTH_PEER_LIST'',
    ''WMI_TAG_OBSS_SPATIAL_REUSE_SET_DEF_OBSS_THRESH_CMD'', ''WMI_TAG_PDEV_HE_TB_ACTION_FRM_CMD'',
    ''WMI_TAG_PEER_EXTD2_STATS'', ''WMI_TAG_HPCS_PULSE_START_CMD'', ''WMI_TAG_PDEV_CTL_FAILSAFE_CHECK_EVENT'',
    ''WMI_TAG_VDEV_CHAINMASK_CONFIG_CMD'', ''WMI_TAG_VDEV_BCN_OFFLOAD_QUIET_CONFIG_CMD'',
    ''WMI_TAG_NAN_EVENT_INFO'', ''WMI_TAG_NDP_CHANNEL_INFO'', ''WMI_TAG_NDP_CMD'', ''WMI_TAG_NDP_EVENT'']"

definition wmi_tlv_tag :: enum_runs where
  "wmi_tlv_tag = [
    (Val 15, [''WMI_TAG_LAST_RESERVED'', ''WMI_TAG_FIRST_ARRAY_ENUM'']),
    (Alias ''WMI_TAG_FIRST_ARRAY_ENUM'', [''WMI_TAG_ARRAY_UINT32'', ''WMI_TAG_ARRAY_BYTE'',
       ''WMI_TAG_ARRAY_STRUCT'', ''WMI_TAG_ARRAY_FIXED_STRUCT'']),
    (Val 31, [''WMI_TAG_LAST_ARRAY_ENUM'', ''WMI_TAG_SERVICE_READY_EVENT'', ''WMI_TAG_HAL_REG_CAPABILITIES'',
       ''WMI_TAG_WLAN_HOST_MEM_REQ'', ''WMI_TAG_READY_EVENT'', ''WMI_TAG_SCAN_EVENT'',
       ''WMI_TAG_PDEV_TPC_CONFIG_EVENT'', ''WMI_TAG_CHAN_INFO_EVENT'', ''WMI_TAG_COMB_PHYERR_RX_HDR'',
       ''WMI_TAG_VDEV_START_RESPONSE_EVENT'', ''WMI_TAG_VDEV_STOPPED_EVENT'',
       ''WMI_TAG_VDEV_INSTALL_KEY_COMPLETE_EVENT'', ''WMI_TAG_PEER_STA_KICKOUT_EVENT'', ''WMI_TAG_MGMT_RX_HDR'',
       ''WMI_TAG_TBTT_OFFSET_EVENT'', ''WMI_TAG_TX_DELBA_COMPLETE_EVENT'', ''WMI_TAG_TX_ADDBA_COMPLETE_EVENT'',
       ''WMI_TAG_ROAM_EVENT'', ''WMI_TAG_WOW_EVENT_INFO'', ''WMI_TAG_WOW_EVENT_INFO_SECTION_BITMAP'',
       ''WMI_TAG_RTT_EVENT_HEADER'', ''WMI_TAG_RTT_ERROR_REPORT_EVENT'', ''WMI_TAG_RTT_MEAS_EVENT'',
       ''WMI_TAG_ECHO_EVENT'', ''WMI_TAG_FTM_INTG_EVENT'', ''WMI_TAG_VDEV_GET_KEEPALIVE_EVENT'',
       ''WMI_TAG_GPIO_INPUT_EVENT'', ''WMI_TAG_CSA_EVENT'', ''WMI_TAG_GTK_OFFLOAD_STATUS_EVENT'',
       ''WMI_TAG_IGTK_INFO'', ''WMI_TAG_DCS_INTERFERENCE_EVENT'', ''WMI_TAG_ATH_DCS_CW_INT'']),
    (Alias ''WMI_TAG_ATH_DCS_CW_INT'', [''WMI_TAG_WLAN_DCS_CW_INT'', ''WMI_TAG_ATH_DCS_WLAN_INT_STAT'']),
    (Alias ''WMI_TAG_ATH_DCS_WLAN_INT_STAT'', wmi_tags_1 @ wmi_tags_2 @ wmi_tags_3 @ wmi_tags_4 @ wmi_tags_5),
    (Val 0x301, [''WMI_TAG_PDEV_PEER_PKTLOG_FILTER_CMD'', ''WMI_TAG_PDEV_PEER_PKTLOG_FILTER_INFO'']),
    (Val 0x344, [''WMI_TAG_FILS_DISCOVERY_TMPL_CMD'']),
    (Val 0x37b, [''WMI_TAG_PDEV_SRG_BSS_COLOR_BITMAP_CMD'', ''WMI_TAG_PDEV_SRG_PARTIAL_BSSID_BITMAP_CMD'']),
    (Val 0x381, [''WMI_TAG_PDEV_SRG_OBSS_COLOR_ENABLE_BITMAP_CMD'',
       ''WMI_TAG_PDEV_SRG_OBSS_BSSID_ENABLE_BITMAP_CMD'', ''WMI_TAG_PDEV_NON_SRG_OBSS_COLOR_ENABLE_BITMAP_CMD'',
       ''WMI_TAG_PDEV_NON_SRG_OBSS_BSSID_ENABLE_BITMAP_CMD'']),
    (Val 0x3a9, [''WMI_TAG_REGULATORY_RULE_EXT_STRUCT'', ''WMI_TAG_REG_CHAN_LIST_CC_EXT_EVENT'']),
    (Val 0x3b5, [''WMI_TAG_VDEV_SET_TPC_POWER_CMD'', ''WMI_TAG_VDEV_CH_POWER_INFO'']),
    (Val 0x3d8, [''WMI_TAG_PDEV_SET_BIOS_SAR_TABLE_CMD'', ''WMI_TAG_PDEV_SET_BIOS_GEO_TABLE_CMD'',
       ''WMI_TAG_MAX''])]"

section \<open>Values\<close>

text \<open>
  An enumerator's explicit value is a number, an earlier enumerator or the first command of a
  group; each of those that follow has one more than the one before it.
\<close>

fun init_val :: "(string \<times> int) list \<Rightarrow> (string \<times> int) list \<Rightarrow> enum_init \<Rightarrow> int option" where
  "init_val gs env (Val n) = Some n"
| "init_val gs env (Alias x) = map_of env x"
| "init_val gs env (TlvCmd g) = map_option (\<lambda>v. uint (WMI_TLV_CMD (of_int v))) (map_of gs g)"

fun number :: "int \<Rightarrow> string list \<Rightarrow> (string \<times> int) list" where
  "number v [] = []"
| "number v (n # ns) = (n, v) # number (v + 1) ns"

fun enum_values :: "(string \<times> int) list \<Rightarrow> (string \<times> int) list \<Rightarrow> enum_runs \<Rightarrow> (string \<times> int) list option" where
  "enum_values gs env [] = Some env"
| "enum_values gs env ((i, ns) # rs) = do {
     v \<leftarrow> init_val gs env i;
     enum_values gs (env @ number v ns) rs
   }"

definition wmi_groups :: "(string \<times> int) list" where
  "wmi_groups = (case enum_values [] [] wmi_cmd_group of None \<Rightarrow> [] | Some t \<Rightarrow> t)"

definition wmi_tlv_cmd_id :: enum_runs where
  "wmi_tlv_cmd_id = wmi_tlv_cmd_id_1 @ wmi_tlv_cmd_id_2 @ wmi_tlv_cmd_id_3"

definition wmi_commands :: "(string \<times> int) list option" where
  "wmi_commands = enum_values wmi_groups [] wmi_tlv_cmd_id"

definition wmi_tags :: "(string \<times> int) list option" where
  "wmi_tags = enum_values [] [] wmi_tlv_tag"

text \<open>The first value and the length of every run, and the commands' division into blocks of 4096 values.\<close>

definition layout :: "(string \<times> int) list \<Rightarrow> enum_runs \<Rightarrow> (int option \<times> nat) list" where
  "layout gs rs = map (\<lambda>(i, ns). (init_val gs [] i, length ns)) rs"

definition blocks_ok :: "(int option \<times> nat) list \<Rightarrow> bool" where
  "blocks_ok l = (distinct (map (\<lambda>(v, n). map_option (\<lambda>v. v div 4096) v) l) \<and>
     list_all (\<lambda>(v, n). case v of None \<Rightarrow> False | Some v \<Rightarrow> 0 < v \<and> v < 2 ^ 23 \<and> v mod 4096 = 1 \<and> n \<le> 4095) l)"

definition no_alias :: "enum_runs \<Rightarrow> bool" where
  "no_alias rs = list_all (\<lambda>(i, ns). case i of Alias _ \<Rightarrow> False | _ \<Rightarrow> True) rs"

section \<open>Lemmas\<close>

lemma snd_number: "map snd (number v ns) = [v..v + int (length ns) - 1]"
proof (induction ns arbitrary: v)
  case (Cons n ns)
  then show ?case
    by (simp add: upto_rec1 add.commute add.left_commute)
qed simp

lemma fst_number [simp]: "map fst (number v ns) = ns"
  by (induction ns arbitrary: v) simp_all

lemma number_append: "number v (xs @ ys) = number v xs @ number (v + int (length xs)) ys"
  by (induction xs arbitrary: v) (simp_all add: add.assoc)

lemma map_of_number_None: "map_of (number v ns) n = None \<longleftrightarrow> n \<notin> set ns"
  by (metis fst_number list.set_map map_of_eq_None_iff)

lemma enum_values_layout:
  assumes "no_alias rs" "blocks_ok (layout gs rs)"
  shows "enum_values gs env rs = Some (env @ concat (map (\<lambda>(i, ns). number (the (init_val gs [] i)) ns) rs))"
  using assms
proof (induction rs arbitrary: env)
  case (Cons r rs)
  obtain i ns where r: "r = (i, ns)"
    by (cases r)
  have same: "init_val gs env i = init_val gs [] i"
    using Cons.prems(1) by (cases i) (simp_all add: no_alias_def r)
  have "no_alias rs" "blocks_ok (layout gs rs)" "\<exists>v. init_val gs [] i = Some v"
    using Cons.prems by (auto simp: no_alias_def blocks_ok_def layout_def r split: option.splits)
  then show ?case
    using Cons.IH same r by auto
qed simp

lemma block_div:
  fixes v x :: int
  assumes "v mod 4096 = 1" "n \<le> 4095" "x \<in> set [v..v + int n - 1]"
  shows "x div 4096 = v div 4096"
proof -
  have "v = 4096 * (v div 4096) + 1"
    using assms(1) by (metis mult_div_mod_eq)
  then have "x = 4096 * (v div 4096) + (x - v + 1)" "0 \<le> x - v + 1" "x - v + 1 < 4096"
    using assms(2,3) by auto
  then show ?thesis
    by (rule int_div_pos_eq)
qed

lemma run_values:
  assumes "(i, ns) \<in> set rs" "blocks_ok (layout gs rs)" "(n, x) \<in> set (number (the (init_val gs [] i)) ns)"
  shows "0 < x \<and> x < 2 ^ 24 \<and> Some (x div 4096) = map_option (\<lambda>v. v div 4096) (init_val gs [] i)"
proof -
  obtain v where v: "init_val gs [] i = Some v" "0 < v" "v < 2 ^ 23" "v mod 4096 = 1" "length ns \<le> 4095"
    using assms(1,2) by (fastforce simp: blocks_ok_def layout_def list_all_iff split: option.splits)
  have x: "x \<in> set [v..v + int (length ns) - 1]"
    using assms(3) v(1) snd_number [of v ns] by (metis image_eqI list.set_map option.sel snd_conv)
  then show ?thesis
    using block_div [OF v(4,5) x] v by auto
qed

lemma layout_distinct:
  assumes "blocks_ok (layout gs rs)"
  shows "distinct (map snd (concat (map (\<lambda>(i, ns). number (the (init_val gs [] i)) ns) rs)))"
  using assms
proof (induction rs)
  case (Cons r rs)
  obtain i ns where r: "r = (i, ns)"
    by (cases r)
  have ok: "blocks_ok (layout gs rs)" "\<And>j ms. (j, ms) \<in> set rs \<Longrightarrow>
      map_option (\<lambda>v. v div 4096) (init_val gs [] j) \<noteq> map_option (\<lambda>v. v div 4096) (init_val gs [] i)"
    using Cons.prems by (force simp: blocks_ok_def layout_def r)+
  have ne: "snd a \<noteq> snd b" if "a \<in> set (number (the (init_val gs [] i)) ns)"
      "(j, ms) \<in> set rs" "b \<in> set (number (the (init_val gs [] j)) ms)" for a b j ms
  proof -
    have "Some (snd a div 4096) = map_option (\<lambda>v. v div 4096) (init_val gs [] i)"
      using run_values [OF _ Cons.prems, of i ns "fst a" "snd a"] that(1) r by simp
    moreover have "Some (snd b div 4096) = map_option (\<lambda>v. v div 4096) (init_val gs [] j)"
      using run_values [OF that(2) ok(1), of "fst b" "snd b"] that(3) by simp
    ultimately show ?thesis
      using ok(2) [OF that(2)] by metis
  qed
  let ?A = "number (the (init_val gs [] i)) ns"
  let ?B = "concat (map (\<lambda>(i, ns). number (the (init_val gs [] i)) ns) rs)"
  have "set (map snd ?A) \<inter> set (map snd ?B) = {}"
    using ne by auto
  moreover have "distinct (map snd ?A)"
    by (simp add: snd_number)
  ultimately show ?case
    using Cons.IH [OF ok(1)] unfolding r list.map prod.case concat.simps map_append distinct_append by blast
qed simp

lemma layout_1: "layout wmi_groups wmi_tlv_cmd_id_1 =
   [(Some 1, 1), (Some 0x3001, 7), (Some 0x4001, 69), (Some 0x5001, 43), (Some 0x6001, 22)]"
  by code_simp

lemma layout_2: "layout wmi_groups wmi_tlv_cmd_id_2 =
   [(Some 0x7001, 14), (Some 0x8001, 6), (Some 0x9001, 3), (Some 0xa001, 8), (Some 0xb001, 17), (Some 0xc001,
    3), (Some 0xd001, 11), (Some 0xe001, 3), (Some 0xf001, 1), (Some 0x10001, 5), (Some 0x11001, 2), (Some
    0x12001, 2), (Some 0x13001, 17), (Some 0x14001, 2), (Some 0x15001, 2), (Some 0x16001, 13), (Some
    0x17001, 3), (Some 0x18001, 4), (Some 0x19001, 1), (Some 0x1a001, 2), (Some 0x1b001, 4), (Some 0x1c001,
    6)]"
  by code_simp

lemma layout_3: "layout wmi_groups wmi_tlv_cmd_id_3 =
   [(Some 0x1d001, 26), (Some 0x1e001, 3), (Some 0x1f001, 5), (Some 0x20001, 3), (Some 0x21001, 3), (Some
    0x22001, 2), (Some 0x23001, 5), (Some 0x24001, 4), (Some 0x25001, 2), (Some 0x26001, 3), (Some 0x27001,
    3), (Some 0x28001, 1), (Some 0x29001, 6), (Some 0x2a001, 3), (Some 0x2b001, 3), (Some 0x2c001, 10),
    (Some 0x2d001, 1), (Some 0x2e001, 1), (Some 0x2f001, 4), (Some 0x30001, 2), (Some 0x31001, 8), (Some
    0x32001, 4), (Some 0x33001, 2), (Some 0x34001, 1), (Some 0x35001, 1), (Some 0x36001, 5), (Some 0x39001,
    1), (Some 0x3a001, 4), (Some 0x38001, 4), (Some 0x3b001, 1), (Some 0x3e001, 6), (Some 0x40001, 2)]"
  by code_simp

lemma commands_no_alias: "no_alias wmi_tlv_cmd_id"
proof -
  have "no_alias wmi_tlv_cmd_id_1" "no_alias wmi_tlv_cmd_id_2" "no_alias wmi_tlv_cmd_id_3"
    by code_simp+
  then show ?thesis
    by (simp add: wmi_tlv_cmd_id_def no_alias_def)
qed

lemma commands_blocks: "blocks_ok (layout wmi_groups wmi_tlv_cmd_id)"
proof -
  have "layout wmi_groups wmi_tlv_cmd_id
      = layout wmi_groups wmi_tlv_cmd_id_1 @ layout wmi_groups wmi_tlv_cmd_id_2 @ layout wmi_groups wmi_tlv_cmd_id_3"
    by (simp add: layout_def wmi_tlv_cmd_id_def)
  then show ?thesis
    by (simp add: layout_1 layout_2 layout_3 blocks_ok_def)
qed

lemmas commands_eq = enum_values_layout [OF commands_no_alias commands_blocks, of "[]"]

lemma map_of_runs_None:
  "n \<notin> set (concat (map snd rs)) \<Longrightarrow>
   map_of (concat (map (\<lambda>(i, ns). number (the (init_val gs [] i)) ns) rs)) n = None"
  by (induction rs) (auto simp: map_of_number_None)

lemma map_of_runs_hd:
  assumes "rs \<noteq> []" "init_val gs [] (fst (hd rs)) = Some v" "map_of (number v (snd (hd rs))) n = Some x"
  shows "map_of (concat (map (\<lambda>(i, ns). number (the (init_val gs [] i)) ns) rs)) n = Some x"
  using assms by (cases rs) (auto simp: map_add_def)

text \<open>The management command is not among the groups before its own, which opens the second part.\<close>

lemma mgmt_command_lookup:
  "map_of (concat (map (\<lambda>(i, ns). number (the (init_val wmi_groups [] i)) ns) wmi_tlv_cmd_id)) ''WMI_MGMT_TX_SEND_CMDID''
    = Some 0x7008"
proof -
  have 1: "''WMI_MGMT_TX_SEND_CMDID'' \<notin> set (concat (map snd wmi_tlv_cmd_id_1))"
    by code_simp
  have none: "map_of (concat (map (\<lambda>(i, ns). number (the (init_val wmi_groups [] i)) ns) wmi_tlv_cmd_id_1))
      ''WMI_MGMT_TX_SEND_CMDID'' = None"
    by (rule map_of_runs_None [OF 1])
  have "map_of (concat (map (\<lambda>(i, ns). number (the (init_val wmi_groups [] i)) ns) wmi_tlv_cmd_id_2))
      ''WMI_MGMT_TX_SEND_CMDID'' = Some 0x7008"
  proof (rule map_of_runs_hd)
    show "wmi_tlv_cmd_id_2 \<noteq> []" "init_val wmi_groups [] (fst (hd wmi_tlv_cmd_id_2)) = Some 0x7001"
      "map_of (number 0x7001 (snd (hd wmi_tlv_cmd_id_2))) ''WMI_MGMT_TX_SEND_CMDID'' = Some 0x7008"
      by code_simp+
  qed
  then show ?thesis
    using none by (simp add: wmi_tlv_cmd_id_def map_add_def)
qed

lemma wmi_tags_eq: "wmi_tags = Some (
    [(''WMI_TAG_LAST_RESERVED'', 15), (''WMI_TAG_FIRST_ARRAY_ENUM'', 16), (''WMI_TAG_ARRAY_UINT32'', 16),
     (''WMI_TAG_ARRAY_BYTE'', 17), (''WMI_TAG_ARRAY_STRUCT'', 18), (''WMI_TAG_ARRAY_FIXED_STRUCT'', 19),
     (''WMI_TAG_LAST_ARRAY_ENUM'', 31), (''WMI_TAG_SERVICE_READY_EVENT'', 32),
     (''WMI_TAG_HAL_REG_CAPABILITIES'', 33), (''WMI_TAG_WLAN_HOST_MEM_REQ'', 34),
     (''WMI_TAG_READY_EVENT'', 35), (''WMI_TAG_SCAN_EVENT'', 36), (''WMI_TAG_PDEV_TPC_CONFIG_EVENT'',
     37), (''WMI_TAG_CHAN_INFO_EVENT'', 38), (''WMI_TAG_COMB_PHYERR_RX_HDR'', 39),
     (''WMI_TAG_VDEV_START_RESPONSE_EVENT'', 40), (''WMI_TAG_VDEV_STOPPED_EVENT'', 41),
     (''WMI_TAG_VDEV_INSTALL_KEY_COMPLETE_EVENT'', 42), (''WMI_TAG_PEER_STA_KICKOUT_EVENT'', 43),
     (''WMI_TAG_MGMT_RX_HDR'', 44), (''WMI_TAG_TBTT_OFFSET_EVENT'', 45),
     (''WMI_TAG_TX_DELBA_COMPLETE_EVENT'', 46), (''WMI_TAG_TX_ADDBA_COMPLETE_EVENT'', 47),
     (''WMI_TAG_ROAM_EVENT'', 48), (''WMI_TAG_WOW_EVENT_INFO'', 49),
     (''WMI_TAG_WOW_EVENT_INFO_SECTION_BITMAP'', 50), (''WMI_TAG_RTT_EVENT_HEADER'', 51),
     (''WMI_TAG_RTT_ERROR_REPORT_EVENT'', 52), (''WMI_TAG_RTT_MEAS_EVENT'', 53),
     (''WMI_TAG_ECHO_EVENT'', 54), (''WMI_TAG_FTM_INTG_EVENT'', 55),
     (''WMI_TAG_VDEV_GET_KEEPALIVE_EVENT'', 56), (''WMI_TAG_GPIO_INPUT_EVENT'', 57),
     (''WMI_TAG_CSA_EVENT'', 58), (''WMI_TAG_GTK_OFFLOAD_STATUS_EVENT'', 59), (''WMI_TAG_IGTK_INFO'',
     60), (''WMI_TAG_DCS_INTERFERENCE_EVENT'', 61), (''WMI_TAG_ATH_DCS_CW_INT'', 62),
     (''WMI_TAG_WLAN_DCS_CW_INT'', 62), (''WMI_TAG_ATH_DCS_WLAN_INT_STAT'', 63)] @
    number 63 (wmi_tags_1 @ wmi_tags_2 @ wmi_tags_3 @ wmi_tags_4 @ wmi_tags_5) @
    [(''WMI_TAG_PDEV_PEER_PKTLOG_FILTER_CMD'', 769), (''WMI_TAG_PDEV_PEER_PKTLOG_FILTER_INFO'', 770),
     (''WMI_TAG_FILS_DISCOVERY_TMPL_CMD'', 836), (''WMI_TAG_PDEV_SRG_BSS_COLOR_BITMAP_CMD'', 891),
     (''WMI_TAG_PDEV_SRG_PARTIAL_BSSID_BITMAP_CMD'', 892),
     (''WMI_TAG_PDEV_SRG_OBSS_COLOR_ENABLE_BITMAP_CMD'', 897),
     (''WMI_TAG_PDEV_SRG_OBSS_BSSID_ENABLE_BITMAP_CMD'', 898),
     (''WMI_TAG_PDEV_NON_SRG_OBSS_COLOR_ENABLE_BITMAP_CMD'', 899),
     (''WMI_TAG_PDEV_NON_SRG_OBSS_BSSID_ENABLE_BITMAP_CMD'', 900),
     (''WMI_TAG_REGULATORY_RULE_EXT_STRUCT'', 937), (''WMI_TAG_REG_CHAN_LIST_CC_EXT_EVENT'', 938),
     (''WMI_TAG_VDEV_SET_TPC_POWER_CMD'', 949), (''WMI_TAG_VDEV_CH_POWER_INFO'', 950),
     (''WMI_TAG_PDEV_SET_BIOS_SAR_TABLE_CMD'', 984), (''WMI_TAG_PDEV_SET_BIOS_GEO_TABLE_CMD'', 985),
     (''WMI_TAG_MAX'', 986)])"
  by (simp add: wmi_tags_def wmi_tlv_tag_def)

lemma tags_lengths:
  "length wmi_tags_1 = 145" "length wmi_tags_2 = 145" "length wmi_tags_3 = 145" "length wmi_tags_4 = 145"
  "length wmi_tags_5 = 126"
  by code_simp+

lemma number_bounds: "(n, x) \<in> set (number v ns) \<Longrightarrow> v \<le> x \<and> x < v + int (length ns)"
  by (induction ns arbitrary: v) force+

lemma mgmt_tag_lookup:
  "map_of (number 63 (wmi_tags_1 @ wmi_tags_2 @ wmi_tags_3 @ wmi_tags_4 @ wmi_tags_5)) ''WMI_TAG_MGMT_TX_SEND_CMD'' = Some 422"
proof -
  have n: "''WMI_TAG_MGMT_TX_SEND_CMD'' \<notin> set wmi_tags_1" "''WMI_TAG_MGMT_TX_SEND_CMD'' \<notin> set wmi_tags_2"
    by code_simp+
  have "map_of (number 353 wmi_tags_3) ''WMI_TAG_MGMT_TX_SEND_CMD'' = Some 422"
    by code_simp
  moreover have "map_of (number 63 wmi_tags_1) ''WMI_TAG_MGMT_TX_SEND_CMD'' = None"
    "map_of (number 208 wmi_tags_2) ''WMI_TAG_MGMT_TX_SEND_CMD'' = None"
    using n by (simp_all add: map_of_number_None)
  ultimately show ?thesis
    by (simp add: number_append map_add_def tags_lengths)
qed

lemma command_numbers:
  "\<exists>t. wmi_commands = Some t \<and> distinct (map snd t) \<and> list_all (\<lambda>(n, v). 0 < v \<and> v < 2 ^ 24) t \<and>
    map_of t ''WMI_MGMT_TX_SEND_CMDID'' = Some (uint WMI_MGMT_TX_SEND_CMDID)"
proof -
  have "list_all (\<lambda>(n, v). 0 < v \<and> v < 2 ^ 24)
      (concat (map (\<lambda>(i, ns). number (the (init_val wmi_groups [] i)) ns) wmi_tlv_cmd_id))"
    using run_values [OF _ commands_blocks] by (fastforce simp: list_all_iff)
  moreover have "uint WMI_MGMT_TX_SEND_CMDID = 0x7008"
    by (simp add: WMI_MGMT_TX_SEND_CMDID_def WMI_TLV_CMD_def WMI_GRP_MGMT_def)
  ultimately show ?thesis
    using layout_distinct [OF commands_blocks] mgmt_command_lookup by (simp add: wmi_commands_def commands_eq)
qed

lemma tag_numbers:
  "\<exists>t. wmi_tags = Some t \<and> list_all (\<lambda>(n, v). 0 < v \<and> v < 2 ^ 16) t \<and>
    map_of t ''WMI_TAG_ARRAY_BYTE'' = Some (uint WMI_TAG_ARRAY_BYTE) \<and>
    map_of t ''WMI_TAG_MGMT_TX_SEND_CMD'' = Some (uint WMI_TAG_MGMT_TX_SEND_CMD)"
proof -
  have "list_all (\<lambda>(n, v). 0 < v \<and> v < (2 ^ 16 :: int))
      (number 63 (wmi_tags_1 @ wmi_tags_2 @ wmi_tags_3 @ wmi_tags_4 @ wmi_tags_5))"
    using number_bounds [of _ _ 63] by (fastforce simp: list_all_iff tags_lengths)
  then show ?thesis
    using mgmt_tag_lookup
    by (simp add: wmi_tags_eq map_add_def WMI_TAG_ARRAY_BYTE_def WMI_TAG_MGMT_TX_SEND_CMD_def)
qed

section \<open>Property\<close>

text \<open>
  C29: The numbers of the firmware interface. By the rules of C the table gives every command a
  value; all values are different, positive and fit the 24-bit field of the command header, since
  every group has a block of 4096 values of its own. Every tag has a value that fits the 16-bit
  field of the parameter header. The command number and the two tags in the command path are those
  of \<^verbatim>\<open>WMI_MGMT_TX_SEND_CMDID\<close>, \<^verbatim>\<open>WMI_TAG_ARRAY_BYTE\<close> and \<^verbatim>\<open>WMI_TAG_MGMT_TX_SEND_CMD\<close>.
\<close>

theorem wmi_numbers:
  "(\<exists>t. wmi_commands = Some t \<and> distinct (map snd t) \<and> list_all (\<lambda>(n, v). 0 < v \<and> v < 2 ^ 24) t \<and>
     map_of t ''WMI_MGMT_TX_SEND_CMDID'' = Some (uint WMI_MGMT_TX_SEND_CMDID)) \<and>
   (\<exists>t. wmi_tags = Some t \<and> list_all (\<lambda>(n, v). 0 < v \<and> v < 2 ^ 16) t \<and>
     map_of t ''WMI_TAG_ARRAY_BYTE'' = Some (uint WMI_TAG_ARRAY_BYTE) \<and>
     map_of t ''WMI_TAG_MGMT_TX_SEND_CMD'' = Some (uint WMI_TAG_MGMT_TX_SEND_CMD))"
  by (rule conjI [OF command_numbers tag_numbers])

end
