(* ===== verification/Wmi_Send.thy ===== *)
theory Wmi_Send
  imports Wmi Samples
begin

text \<open>
  What the command path of \<^verbatim>\<open>wireless_wmi.c\<close>, \<^verbatim>\<open>wireless_htc.c\<close> and \<^verbatim>\<open>wireless_ce.c\<close> does with a management
  frame: the bytes of the command buffer the firmware sees, the outcome of sending it on every
  branch, and a reader of the command layout that recovers the request from these bytes.
\<close>

section \<open>The command on the wire\<close>

definition cmd_words :: "u32 \<Rightarrow> nat \<Rightarrow> u32 list" where
  "cmd_words cmd_id len = [htc_info (htc_hdr (12 + len)), 0, ucast (FIELD_PREP WMI_CMD_HDR_CMD_ID (ucast cmd_id))]"

definition mgmt_buf_len :: "sk_buff \<Rightarrow> nat" where
  "mgmt_buf_len f = min (skb_len f) WMI_MGMT_SEND_DOWNLD_LEN"

definition mgmt_cmd_len :: "sk_buff \<Rightarrow> nat" where
  "mgmt_cmd_len f = 40 + round_up (mgmt_buf_len f) 4"

text \<open>The bytes the firmware finds in the mapped command buffer.\<close>

definition mgmt_wire :: "kenv \<Rightarrow> u32 \<Rightarrow> u32 \<Rightarrow> sk_buff \<Rightarrow> u8 list" where
  "mgmt_wire env vid bid f =
     words_bytes env (cmd_words WMI_MGMT_TX_SEND_CMDID (mgmt_cmd_len f) @
       mgmt_cmd_words (mgmt_send_cmd vid bid f (mgmt_buf_len f)) @ [tlv_hdr WMI_TAG_ARRAY_BYTE (mgmt_buf_len f)]) @
     skb_bytes (mgmt_buf_len f) f @ replicate (round_up (mgmt_buf_len f) 4 - mgmt_buf_len f) 0"

definition u32_of_bytes :: "kenv \<Rightarrow> u8 list \<Rightarrow> u32" where
  "u32_of_bytes env bs =
     (let bs = (if env_big_endian env then rev bs else bs)
      in ucast (bs ! 0) OR push_bit 8 (ucast (bs ! 1)) OR push_bit 16 (ucast (bs ! 2)) OR push_bit 24 (ucast (bs ! 3)))"

definition wire_word :: "kenv \<Rightarrow> u8 list \<Rightarrow> nat \<Rightarrow> u32" where
  "wire_word env bs i = u32_of_bytes env (take 4 (drop (4 * i) bs))"

record mgmt_request =
  req_vdev :: u32
  req_desc :: u32
  req_paddr :: u64
  req_frame_len :: u32
  req_bytes :: "u8 list"

definition mgmt_parse :: "kenv \<Rightarrow> u8 list \<Rightarrow> mgmt_request option" where
  "mgmt_parse env w =
     (let word = (\<lambda>i. wire_word env w i); field = (\<lambda>m i. FIELD_GET m (ucast (word i))) in
      if field HTC_HDR_ENDPOINTID 0 = 0 \<and> field HTC_HDR_PAYLOADLEN 0 = of_nat (length w - 8) \<and>
         field WMI_CMD_HDR_CMD_ID 2 = 0x7008 \<and>
         field WMI_TLV_TAG 3 = 422 \<and> field WMI_TLV_LEN 3 = 32 \<and>
         field WMI_TLV_TAG 12 = 17 \<and> field WMI_TLV_LEN 12 = ucast (word 10) \<and>
         length w = 52 + round_up (unat (word 10)) 4
      then Some \<lparr>req_vdev = word 4, req_desc = word 5,
        req_paddr = push_bit 32 (ucast (word 8)) OR ucast (word 7),
        req_frame_len = word 9, req_bytes = take (unat (word 10)) (drop 52 w)\<rparr>
      else None)"

definition sample_frame :: sk_buff where
  "sample_frame = \<lparr>skb_buf = [0xd0, 0x40, 1, 2, 3, 4, 0, 0, 0, 0, 0, 0, 0, 0, 0, 0, 0, 0, 0, 0, 0, 0],
     skb_data = 0, skb_tail = 6, skb_cb = skb_cb_zero\<lparr>cb_paddr := 0x123456789, cb_vif := Some 0\<rparr>, skb_tx_flags = 0\<rparr>"

definition sample_vif :: ieee80211_vif where
  "sample_vif = \<lparr>vif_type = NL80211_IFTYPE_STATION, hw_queue = [0, 0, 0, 0], cab_queue = 0, drv_priv = simu_vif_zero\<rparr>"

definition sample_mac :: wireless_simu_mac where
  "sample_mac = wireless_simu.extend (sample\<lparr>k_skbs := (k_skbs sample)(3 \<mapsto> sample_frame)\<rparr>)
     (wireless_simu_mac.fields [None, None, None, None] (\<lambda>_. sample_vif) 0 True True [3] 1 [] 0 True (\<lambda>_. True))"

section \<open>Execution of the command path\<close>

lemma htc_send_exec:
  assumes "k_skbs s p = Some b" "skb_ok b" "8 \<le> skb_data b" "HtcTxLock \<notin> set (k_held s)"
  obtains b' where "skb_ok b'" "skb_len b' = 8 + skb_len b"
    "payload b' = words_bytes env [htc_info (htc_hdr (8 + skb_len b)), 0] @ payload b"
    "skb_data b' = skb_data b - 8" "skb_cb b' = skb_cb b" "skb_tail b' = skb_tail b"
    "wireless_simu_htc_send env p s =
      (case env_dma_map env (k_calls s) of
         None \<Rightarrow> Some (neg_errno EIO, tick (skb_set p (b'\<lparr>skb_cb := (skb_cb b)\<lparr>cb_paddr := DMA_MAPPING_ERROR\<rparr>,
           skb_data := skb_data b\<rparr>) s))
       | Some pa \<Rightarrow> Some (0, (tick (skb_set p (b'\<lparr>skb_cb := (skb_cb b)\<lparr>cb_paddr := pa\<rparr>\<rparr>) s))
           \<lparr>k_maps := (pa, 8 + skb_len b) # k_maps s\<rparr>))"
proof -
  let ?h = "htc_hdr (8 + skb_len b)"
  let ?b1 = "buf_store 0 (replicate 8 0) (b\<lparr>skb_data := skb_data b - 8\<rparr>)"
  let ?b2 = "buf_store 0 (u32_bytes env (htc_info ?h)) ?b1"
  let ?b3 = "buf_store 4 (u32_bytes env (ctrl_info ?h)) ?b2"
  note 1 = push_store_ok [of b "replicate 8 0"]
  have 1: "skb_ok ?b1" "payload ?b1 = replicate 8 0 @ payload b" "skb_len ?b1 = 8 + skb_len b"
    using 1 assms(2,3) by simp_all
  have 2: "skb_ok ?b2" "payload ?b2 = u32_bytes env (htc_info ?h) @ replicate 4 0 @ payload b"
    "skb_len ?b2 = 8 + skb_len b"
    using buf_store_ok [OF 1(1), of 0 "u32_bytes env (htc_info ?h)"] 1(2,3) by (simp_all add: numeral_eq_Suc)
  have 3: "skb_ok ?b3" "payload ?b3 = words_bytes env [htc_info ?h, 0] @ payload b" "skb_len ?b3 = 8 + skb_len b"
    using buf_store_ok [OF 2(1), of 4 "u32_bytes env (ctrl_info ?h)"] 2(2,3)
    by (simp_all add: splice_append words_bytes_Cons, simp add: words_bytes_def htc_hdr_def)
  have push: "skb_push p 8 s = Some (skb_set p (b\<lparr>skb_data := skb_data b - 8\<rparr>) s)"
    using assms(1,3) by (simp add: skb_push_def skb_get_def)
  have okp: "skb_ok (b\<lparr>skb_data := skb_data b - 8\<rparr>)" "8 \<le> skb_len (b\<lparr>skb_data := skb_data b - 8\<rparr>)"
    using assms(2,3) by (auto simp: skb_ok_def skb_len_def)
  have st1: "skb_store_at p 0 (replicate 8 0) (skb_set p (b\<lparr>skb_data := skb_data b - 8\<rparr>) s) = Some (skb_set p ?b1 s)"
    using skb_store_exec [of "skb_set p (b\<lparr>skb_data := skb_data b - 8\<rparr>) s" p _ 0 "replicate 8 0"] okp by simp
  have st2: "skb_store_at p 0 (u32_bytes env (htc_info ?h)) (skb_set p ?b1 s) = Some (skb_set p ?b2 s)"
    using skb_store_exec [of "skb_set p ?b1 s" p ?b1 0 "u32_bytes env (htc_info ?h)"] 1 by simp
  have st3: "skb_store_at p 4 (u32_bytes env (ctrl_info ?h)) ((skb_set p ?b2 s)\<lparr>k_held := x\<rparr>)
      = Some (skb_set p ?b3 ((skb_set p ?b2 s)\<lparr>k_held := x\<rparr>))" for x
    using skb_store_exec [of "(skb_set p ?b2 s)\<lparr>k_held := x\<rparr>" p ?b2 4 "u32_bytes env (ctrl_info ?h)"] 2 by simp
  show ?thesis
  proof (rule that [of ?b3])
    show "wireless_simu_htc_send env p s =
      (case env_dma_map env (k_calls s) of
         None \<Rightarrow> Some (neg_errno EIO, tick (skb_set p (?b3\<lparr>skb_cb := (skb_cb b)\<lparr>cb_paddr := DMA_MAPPING_ERROR\<rparr>,
           skb_data := skb_data b\<rparr>) s))
       | Some pa \<Rightarrow> Some (0, (tick (skb_set p (?b3\<lparr>skb_cb := (skb_cb b)\<lparr>cb_paddr := pa\<rparr>\<rparr>) s))
           \<lparr>k_maps := (pa, 8 + skb_len b) # k_maps s\<rparr>))"
      using push st1 st2 st3 1(3) 3(3) assms(3,4)
      by (simp add: wireless_simu_htc_send_def sizeof_htc_hdr_def skb_get_def spin_lock_def spin_unlock_def
          dma_map_single_def skb_set_paddr_def skb_pull_def wireless_simu_ce_send_def Let_def tick_def
          split: option.splits) (auto simp: skb_set_def)
  qed (use 3 in simp_all)
qed

text \<open>A command is sent at the first attempt, or fails because it could not be mapped.\<close>

lemma cmd_send_exec:
  fixes s :: "'a wireless_simu_mac_scheme"
  assumes "k_skbs s p = Some b" "skb_ok b" "12 \<le> skb_data b" "HtcTxLock \<notin> set (k_held s)"
  obtains b' where "skb_ok b'"
    "env_dma_map env (k_calls s) = None \<longrightarrow> wireless_simu_wmi_cmd_send n env p cmd_id s =
      Some (if bit (dev_flag s) 0 then neg_errno ESHUTDOWN else neg_errno EIO, tick (skb_set p b' s))"
    "\<forall>pa. env_dma_map env (k_calls s) = Some pa \<longrightarrow>
      payload b' = words_bytes env (cmd_words cmd_id (skb_len b)) @ payload b \<and>
      wireless_simu_wmi_cmd_send n env p cmd_id s =
      Some (0, (tick (skb_set p b' s))\<lparr>k_maps := (pa, skb_len b') # k_maps s\<rparr>)"
proof -
  let ?w = "ucast (FIELD_PREP WMI_CMD_HDR_CMD_ID (ucast cmd_id)) :: u32"
  let ?p = "b\<lparr>skb_data := skb_data b - 4\<rparr>"
  let ?b0 = "buf_store 0 (u32_bytes env ?w) ?p"
  let ?b1 = "?b0\<lparr>skb_cb := skb_cb_zero\<rparr>"
  have 0: "skb_ok ?b0" "payload ?b0 = u32_bytes env ?w @ payload b" "skb_len ?b0 = 4 + skb_len b"
    using push_store_ok [of b "u32_bytes env ?w"] assms(2,3) by simp_all
  have push: "skb_push p 4 s = Some (skb_set p ?p s)"
    using assms(1,3) by (simp add: skb_push_def skb_get_def)
  have okp: "skb_ok ?p" "4 \<le> skb_len ?p"
    using assms(2,3) by (auto simp: skb_ok_def skb_len_def)
  have st: "skb_store_at p 0 (u32_bytes env ?w) (skb_set p ?p s) = Some (skb_set p ?b0 s)"
    using skb_store_exec [of "skb_set p ?p s" p ?p 0 "u32_bytes env ?w"] okp by simp
  have pre: "k_skbs (skb_set p ?b1 s) p = Some ?b1" "skb_ok ?b1" "8 \<le> skb_data ?b1"
    "HtcTxLock \<notin> set (k_held (skb_set p ?b1 s))"
    using 0(1) assms(3,4) by simp_all
  obtain b' where b': "skb_ok b'" "skb_len b' = 8 + skb_len ?b1"
    "payload b' = words_bytes env [htc_info (htc_hdr (8 + skb_len ?b1)), 0] @ payload ?b1"
    "skb_data b' = skb_data ?b1 - 8" "skb_cb b' = skb_cb ?b1" "skb_tail b' = skb_tail ?b1"
    "wireless_simu_htc_send env p (skb_set p ?b1 s) =
      (case env_dma_map env (k_calls (skb_set p ?b1 s)) of
         None \<Rightarrow> Some (neg_errno EIO, tick (skb_set p (b'\<lparr>skb_cb := (skb_cb ?b1)\<lparr>cb_paddr := DMA_MAPPING_ERROR\<rparr>,
           skb_data := skb_data ?b1\<rparr>) (skb_set p ?b1 s)))
       | Some pa \<Rightarrow> Some (0, (tick (skb_set p (b'\<lparr>skb_cb := (skb_cb ?b1)\<lparr>cb_paddr := pa\<rparr>\<rparr>) (skb_set p ?b1 s)))
           \<lparr>k_maps := (pa, 8 + skb_len ?b1) # k_maps (skb_set p ?b1 s)\<rparr>))"
    by (rule htc_send_exec [OF pre])
  note nowait = wireless_simu_wmi_cmd_send_nowait_def sizeof_wmi_cmd_hdr_def
  show ?thesis
  proof (cases "env_dma_map env (k_calls s)")
    case None
    let ?f = "b'\<lparr>skb_cb := (skb_cb ?b1)\<lparr>cb_paddr := DMA_MAPPING_ERROR\<rparr>, skb_data := skb_data b - 4\<rparr>"
    have ok: "skb_ok (?f\<lparr>skb_data := skb_data b\<rparr>)" "4 \<le> skb_len ?f"
      using b'(1,2,6) 0(3) assms(2,3) by (auto simp: skb_ok_def skb_len_def)
    have "wireless_simu_wmi_cmd_send_nowait env p cmd_id s
        = Some (neg_errno EIO, tick (skb_set p (?f\<lparr>skb_data := skb_data b\<rparr>) s))"
      using push st b'(7) None ok(2) assms(3)
      by (simp add: nowait skb_get_def Let_def skb_pull_def tick_def) (auto simp: skb_set_def)
    moreover have "dev_flag (tick (skb_set p x s)) = dev_flag s" for x
      by (simp add: tick_def skb_set_def)
    ultimately show ?thesis
      using that [OF ok(1)] None
      by (simp add: wireless_simu_wmi_cmd_send_def WIRELESS_SIMU_DEV_FLAG_CRASH_FLUSH_def)
  next
    case (Some pa)
    let ?f = "b'\<lparr>skb_cb := (skb_cb ?b1)\<lparr>cb_paddr := pa\<rparr>\<rparr>"
    have "wireless_simu_wmi_cmd_send_nowait env p cmd_id s
        = Some (0, (tick (skb_set p ?f s))\<lparr>k_maps := (pa, skb_len ?f) # k_maps s\<rparr>)"
      using push st b'(2,7) Some by (simp add: nowait skb_get_def Let_def)
    moreover have "payload ?f = words_bytes env (cmd_words cmd_id (skb_len b)) @ payload b"
      using b'(3) 0 by (simp add: cmd_words_def words_bytes_Cons add.commute, simp add: words_bytes_def)
    ultimately show ?thesis
      using that [of ?f] b'(1) Some by (simp add: wireless_simu_wmi_cmd_send_def)
  qed
qed

lemma round_up_4: "round_up n 4 mod 4 = 0" "n \<le> round_up n 4" "round_up (round_up n 4) 4 = round_up n 4"
  unfolding round_up_def by presburger+

lemma skb_tick [simp]:
  "skb_set p b (tick s) = tick (skb_set p b s)" "(tick s)\<lparr>k_skbs := (k_skbs s)(p \<mapsto> b)\<rparr> = tick (skb_set p b s)"
  "k_skbs (tick s) = k_skbs s" "k_held (tick s) = k_held s" "k_maps (tick s) = k_maps s"
  "k_calls (tick s) = Suc (k_calls s)" "k_trace (tick s) = k_trace s"
  by (simp_all add: tick_def skb_set_def)

lemma wmi_alloc_exec:
  assumes "env_room env" "env_alloc_skb env (k_calls s) (12 + round_up len 4) = Some b"
  obtains b' where "skb_ok b'" "payload b' = replicate (round_up len 4) 0" "12 \<le> skb_data b'"
    "skb_len b' = round_up len 4"
    "wireless_simu_wmi_alloc_skb env len s = Some (Some (k_calls s), tick (skb_set (k_calls s) b' s))"
proof -
  let ?n = "round_up len 4"
  have room: "skb_tail b = skb_data b" "skb_data b + (12 + ?n) \<le> length (skb_buf b)"
    using assms unfolding env_room_def by blast+
  let ?b1 = "b\<lparr>skb_data := skb_data b + 12, skb_tail := skb_tail b + 12 + ?n\<rparr>"
  let ?b2 = "buf_store 0 (replicate ?n 0) ?b1"
  have 1: "skb_ok ?b1" "skb_len ?b1 = ?n"
    using room by (auto simp: skb_ok_def skb_len_def)
  note st = skb_store_exec [of "tick (skb_set (k_calls s) ?b1 s)" "k_calls s" ?b1 0 "replicate ?n 0"]
  have "wireless_simu_wmi_alloc_skb env len s = Some (Some (k_calls s), tick (skb_set (k_calls s) ?b2 s))"
    using assms(2) room st 1
    by (simp add: wireless_simu_wmi_alloc_skb_def wireless_simu_htc_alloc_skb_def dev_alloc_skb_def
        WMI_SKB_HEADROOM_def sizeof_wmi_cmd_hdr_def sizeof_htc_hdr_def skb_reserve_def skb_put_def skb_get_def
        skb_tailroom_def Let_def add.commute add.left_commute)
  then show ?thesis
    using that [of ?b2] buf_store_ok [OF 1(1), of 0 "replicate ?n 0"] 1 length_payload [OF 1(1)] by simp
qed

lemma mgmt_fill_exec:
  assumes "k_skbs s p = Some b" "skb_ok b" "skb_len b = mgmt_cmd_len f" "payload b = replicate (mgmt_cmd_len f) 0"
    "skb_ok f"
  obtains b1 b2 b' where "skb_ok b'" "skb_len b' = mgmt_cmd_len f" "skb_data b' = skb_data b"
    "payload b' = words_bytes env (mgmt_cmd_words (mgmt_send_cmd vid bid f (mgmt_buf_len f)) @
        [tlv_hdr WMI_TAG_ARRAY_BYTE (mgmt_buf_len f)]) @
      skb_bytes (mgmt_buf_len f) f @ replicate (round_up (mgmt_buf_len f) 4 - mgmt_buf_len f) 0"
    "skb_store_at p 0 (words_bytes env (mgmt_cmd_words (mgmt_send_cmd vid bid f (mgmt_buf_len f)))) s
      = Some (skb_set p b1 s)"
    "skb_store_at p 36 (u32_bytes env (tlv_hdr WMI_TAG_ARRAY_BYTE (mgmt_buf_len f))) (skb_set p b1 s)
      = Some (skb_set p b2 s)"
    "skb_store_at p 40 (skb_bytes (mgmt_buf_len f) f) (skb_set p b2 s) = Some (skb_set p b' s)"
proof -
  let ?n = "mgmt_buf_len f"
  let ?c = "words_bytes env (mgmt_cmd_words (mgmt_send_cmd vid bid f ?n))"
  let ?t = "u32_bytes env (tlv_hdr WMI_TAG_ARRAY_BYTE ?n)"
  let ?d = "skb_bytes ?n f"
  have lens: "length ?c = 36" "length ?t = 4"
    by (simp_all add: mgmt_cmd_words_def)
  have ld: "length ?d = ?n"
    using assms(5) by (auto simp: skb_bytes_def mgmt_buf_len_def skb_ok_def skb_len_def)
  have n: "?n \<le> round_up ?n 4" "mgmt_cmd_len f = 36 + (4 + round_up ?n 4)"
    by (simp_all add: round_up_4 mgmt_cmd_len_def)
  let ?b1 = "buf_store 0 ?c b" and ?b2 = "buf_store 36 ?t (buf_store 0 ?c b)"
  let ?b3 = "buf_store 40 ?d (buf_store 36 ?t (buf_store 0 ?c b))"
  have 1: "skb_ok ?b1" "payload ?b1 = ?c @ replicate (4 + round_up ?n 4) 0"
    using buf_store_ok [OF assms(2), of 0 ?c] assms(3,4) lens n by simp_all
  have 2: "skb_ok ?b2" "payload ?b2 = (?c @ ?t) @ replicate (round_up ?n 4) 0"
    using buf_store_ok [OF 1(1), of 36 ?t] 1(2) assms(3) lens n by (simp_all add: splice_append)
  have 3: "skb_ok ?b3" "payload ?b3 = (?c @ ?t) @ ?d @ replicate (round_up ?n 4 - ?n) 0"
    using buf_store_ok [OF 2(1), of 40 ?d] splice_append [of "?c @ ?t" 40 ?d] 2(2) assms(3) lens ld n by simp_all
  show ?thesis
  proof (rule that [of ?b3 ?b1 ?b2])
    show "skb_store_at p 0 ?c s = Some (skb_set p ?b1 s)"
      using skb_store_exec [OF assms(1,2), of 0 ?c] assms(3) lens n by simp
    show "skb_store_at p 36 ?t (skb_set p ?b1 s) = Some (skb_set p ?b2 s)"
      using skb_store_exec [of "skb_set p ?b1 s" p ?b1 36 ?t] 1(1) assms(3) lens n by simp
    show "skb_store_at p 40 ?d (skb_set p ?b2 s) = Some (skb_set p ?b3 s)"
      using skb_store_exec [of "skb_set p ?b2 s" p ?b2 40 ?d] 2(1) assms(3) ld n by simp
  qed (use 3 assms(3) in \<open>simp_all add: words_bytes_append, simp add: words_bytes_def\<close>)
qed

lemma mgmt_send_unfold:
  assumes "k_skbs s fr = Some f"
  shows "wireless_simu_wmi_mgmt_send n env vid bid fr s = do {
     (r, s) \<leftarrow> wireless_simu_wmi_alloc_skb env (mgmt_cmd_len f) s;
     (case r of
        None \<Rightarrow> Some (neg_errno ENOMEM, s)
      | Some skb \<Rightarrow> do {
          s \<leftarrow> skb_store_at skb 0 (words_bytes env (mgmt_cmd_words (mgmt_send_cmd vid bid f (mgmt_buf_len f)))) s;
          s \<leftarrow> skb_store_at skb 36 (u32_bytes env (tlv_hdr WMI_TAG_ARRAY_BYTE (mgmt_buf_len f))) s;
          s \<leftarrow> skb_store_at skb 40 (skb_bytes (mgmt_buf_len f) f) s;
          wireless_simu_wmi_cmd_send n env skb WMI_MGMT_TX_SEND_CMDID s
        })
   }"
proof -
  have bl: "(if skb_len f < WMI_MGMT_SEND_DOWNLD_LEN then skb_len f else WMI_MGMT_SEND_DOWNLD_LEN) = mgmt_buf_len f"
    by (simp add: mgmt_buf_len_def)
  have ln: "36 + 4 = (40 :: nat)"
    by simp
  show ?thesis
    unfolding wireless_simu_wmi_mgmt_send_def skb_get_def assms bind.bind_lunit Let_def bl sizeof_wmi_mgmt_send_cmd_def
      TLV_HDR_SIZE_def ln mgmt_cmd_len_def by (rule refl)
qed

lemma mgmt_cmd_len_round: "round_up (mgmt_cmd_len f) 4 = mgmt_cmd_len f"
  unfolding mgmt_cmd_len_def round_up_def by presburger

lemma mgmt_send_exec:
  fixes s :: "'a wireless_simu_mac_scheme"
  assumes "env_room env" "k_skbs s fr = Some f" "skb_ok f" "HtcTxLock \<notin> set (k_held s)"
  shows "env_alloc_skb env (k_calls s) (12 + mgmt_cmd_len f) = None \<Longrightarrow>
      wireless_simu_wmi_mgmt_send n env vid bid fr s = Some (neg_errno ENOMEM, tick s)"
    and "env_alloc_skb env (k_calls s) (12 + mgmt_cmd_len f) = Some b \<Longrightarrow>
      \<exists>b'. skb_ok b' \<and> wireless_simu_wmi_mgmt_send n env vid bid fr s =
        (case env_dma_map env (Suc (k_calls s)) of
           None \<Rightarrow> Some (if bit (dev_flag s) 0 then neg_errno ESHUTDOWN else neg_errno EIO,
             tick (tick (skb_set (k_calls s) b' s)))
         | Some pa \<Rightarrow> Some (0, (tick (tick (skb_set (k_calls s) b' s)))\<lparr>k_maps := (pa, skb_len b') # k_maps s\<rparr>)) \<and>
        (env_dma_map env (Suc (k_calls s)) \<noteq> None \<longrightarrow> payload b' = mgmt_wire env vid bid f)"
proof -
  show "env_alloc_skb env (k_calls s) (12 + mgmt_cmd_len f) = None \<Longrightarrow>
      wireless_simu_wmi_mgmt_send n env vid bid fr s = Some (neg_errno ENOMEM, tick s)"
    by (simp add: mgmt_send_unfold [OF assms(2)] wireless_simu_wmi_alloc_skb_def mgmt_cmd_len_round
        wireless_simu_htc_alloc_skb_def WMI_SKB_HEADROOM_def sizeof_wmi_cmd_hdr_def sizeof_htc_hdr_def
        dev_alloc_skb_def add.commute)
  assume "env_alloc_skb env (k_calls s) (12 + mgmt_cmd_len f) = Some b"
  then have al: "env_alloc_skb env (k_calls s) (12 + round_up (mgmt_cmd_len f) 4) = Some b"
    by (simp add: mgmt_cmd_len_round)
  obtain b1 where b1: "skb_ok b1" "payload b1 = replicate (round_up (mgmt_cmd_len f) 4) 0" "12 \<le> skb_data b1"
    "skb_len b1 = round_up (mgmt_cmd_len f) 4"
    "wireless_simu_wmi_alloc_skb env (mgmt_cmd_len f) s = Some (Some (k_calls s), tick (skb_set (k_calls s) b1 s))"
    by (rule wmi_alloc_exec [OF assms(1) al])
  let ?p = "k_calls s" and ?s = "tick (skb_set (k_calls s) b1 s)"
  have pre: "k_skbs ?s ?p = Some b1" "skb_len b1 = mgmt_cmd_len f" "payload b1 = replicate (mgmt_cmd_len f) 0"
    using b1 by (simp_all add: mgmt_cmd_len_round)
  obtain b2 b3 b4 where b4: "skb_ok b4" "skb_len b4 = mgmt_cmd_len f" "skb_data b4 = skb_data b1"
    "payload b4 = words_bytes env (mgmt_cmd_words (mgmt_send_cmd vid bid f (mgmt_buf_len f)) @
        [tlv_hdr WMI_TAG_ARRAY_BYTE (mgmt_buf_len f)]) @
      skb_bytes (mgmt_buf_len f) f @ replicate (round_up (mgmt_buf_len f) 4 - mgmt_buf_len f) 0"
    "skb_store_at ?p 0 (words_bytes env (mgmt_cmd_words (mgmt_send_cmd vid bid f (mgmt_buf_len f)))) ?s
      = Some (skb_set ?p b2 ?s)"
    "skb_store_at ?p 36 (u32_bytes env (tlv_hdr WMI_TAG_ARRAY_BYTE (mgmt_buf_len f))) (skb_set ?p b2 ?s)
      = Some (skb_set ?p b3 ?s)"
    "skb_store_at ?p 40 (skb_bytes (mgmt_buf_len f) f) (skb_set ?p b3 ?s) = Some (skb_set ?p b4 ?s)"
    by (rule mgmt_fill_exec [OF pre(1) b1(1) pre(2,3) assms(3)])
  let ?s4 = "skb_set ?p b4 ?s"
  have pre4: "k_skbs ?s4 ?p = Some b4" "skb_ok b4" "12 \<le> skb_data b4" "HtcTxLock \<notin> set (k_held ?s4)"
    using b4(1,3) b1(3) assms(4) by simp_all
  obtain b' where b': "skb_ok b'"
    "env_dma_map env (k_calls ?s4) = None \<longrightarrow> wireless_simu_wmi_cmd_send n env ?p WMI_MGMT_TX_SEND_CMDID ?s4 =
      Some (if bit (dev_flag ?s4) 0 then neg_errno ESHUTDOWN else neg_errno EIO, tick (skb_set ?p b' ?s4))"
    "\<forall>pa. env_dma_map env (k_calls ?s4) = Some pa \<longrightarrow>
      payload b' = words_bytes env (cmd_words WMI_MGMT_TX_SEND_CMDID (skb_len b4)) @ payload b4 \<and>
      wireless_simu_wmi_cmd_send n env ?p WMI_MGMT_TX_SEND_CMDID ?s4 =
      Some (0, (tick (skb_set ?p b' ?s4))\<lparr>k_maps := (pa, skb_len b') # k_maps ?s4\<rparr>)"
    by (rule cmd_send_exec [OF pre4])
  have run: "wireless_simu_wmi_mgmt_send n env vid bid fr s
      = wireless_simu_wmi_cmd_send n env ?p WMI_MGMT_TX_SEND_CMDID ?s4"
    using b1(5) b4(5-7) by (simp add: mgmt_send_unfold [OF assms(2)])
  have fl: "dev_flag ?s4 = dev_flag s"
    by (simp add: tick_def skb_set_def)
  have "payload b' = mgmt_wire env vid bid f" if "env_dma_map env (Suc (k_calls s)) \<noteq> None"
    using that b'(3) b4(2,4) by (auto simp: mgmt_wire_def words_bytes_append)
  then show "\<exists>b'. skb_ok b' \<and> wireless_simu_wmi_mgmt_send n env vid bid fr s =
        (case env_dma_map env (Suc (k_calls s)) of
           None \<Rightarrow> Some (if bit (dev_flag s) 0 then neg_errno ESHUTDOWN else neg_errno EIO,
             tick (tick (skb_set (k_calls s) b' s)))
         | Some pa \<Rightarrow> Some (0, (tick (tick (skb_set (k_calls s) b' s)))\<lparr>k_maps := (pa, skb_len b') # k_maps s\<rparr>)) \<and>
        (env_dma_map env (Suc (k_calls s)) \<noteq> None \<longrightarrow> payload b' = mgmt_wire env vid bid f)"
    using b' run fl by (intro exI [of _ b']) (auto split: option.splits)
qed

lemma bytes_of_word:
  fixes w :: u32
  shows "(ucast (ucast w :: u8) OR push_bit 8 (ucast (ucast (drop_bit 8 w) :: u8)) OR
    push_bit 16 (ucast (ucast (drop_bit 16 w) :: u8)) OR push_bit 24 (ucast (ucast (drop_bit 24 w) :: u8))) = w"
    (is "?v = w")
proof (rule bit_word_eqI)
  fix i
  assume "i < LENGTH(32)"
  then consider "i < 8" | "8 \<le> i" "i < 16" | "16 \<le> i" "i < 24" | "24 \<le> i" "i < 32"
    by fastforce
  then show "bit ?v i = bit w i"
    by cases (auto simp: bit_simps)
qed

lemma u32_of_bytes_bytes [simp]: "u32_of_bytes env (u32_bytes env w) = w"
  using bytes_of_word [of w] by (simp add: u32_of_bytes_def u32_bytes_def Let_def)

lemma wire_word_words: "i < length ws \<Longrightarrow> wire_word env (words_bytes env ws @ rest) i = ws ! i"
proof (induction ws arbitrary: i)
  case (Cons w ws)
  then show ?case
    by (cases i) (simp_all add: wire_word_def words_bytes_Cons)
qed simp

lemma FIELD_GET_32:
  assumes "l \<le> h" "h < 32"
  shows "FIELD_GET (GENMASK h l) (ucast (ucast r :: u32)) = FIELD_GET (GENMASK h l) r"
  using assms by (intro bit_word_eqI) (auto simp: bit_FIELD_GET bit_simps)

lemma mgmt_buf_len_le: "mgmt_buf_len f \<le> 64" "round_up (mgmt_buf_len f) 4 \<le> 64"
  unfolding mgmt_buf_len_def WMI_MGMT_SEND_DOWNLD_LEN_def round_up_def by simp presburger

lemma length_mgmt_wire: "skb_ok f \<Longrightarrow> length (mgmt_wire env vid bid f) = 12 + mgmt_cmd_len f"
  using round_up_4(2) [of "mgmt_buf_len f"]
  by (auto simp: mgmt_wire_def cmd_words_def mgmt_cmd_words_def mgmt_cmd_len_def skb_bytes_def
      mgmt_buf_len_def skb_ok_def skb_len_def)

lemma wire_words:
  "i < 13 \<Longrightarrow> wire_word env (mgmt_wire env vid bid f) i =
    (cmd_words WMI_MGMT_TX_SEND_CMDID (mgmt_cmd_len f) @
     mgmt_cmd_words (mgmt_send_cmd vid bid f (mgmt_buf_len f)) @ [tlv_hdr WMI_TAG_ARRAY_BYTE (mgmt_buf_len f)]) ! i"
  unfolding mgmt_wire_def by (rule wire_word_words) (simp add: cmd_words_def mgmt_cmd_words_def)

lemma tlv_hdr_fields:
  assumes "unat tag < 2 ^ 16" "len < 2 ^ 16"
  shows "FIELD_GET WMI_TLV_TAG (ucast (tlv_hdr tag len)) = ucast tag"
    and "FIELD_GET WMI_TLV_LEN (ucast (tlv_hdr tag len)) = of_nat len"
proof -
  have v: "unat (ucast tag :: u64) < 2 ^ 16" "unat (of_nat len :: u64) < 2 ^ 16"
    using assms by (simp_all add: unat_of_nat unsigned_ucast_eq take_bit_nat_eq_self)
  show "FIELD_GET WMI_TLV_TAG (ucast (tlv_hdr tag len)) = ucast tag"
    unfolding tlv_hdr_def WMI_TLV_TAG_def WMI_TLV_LEN_def
    using v by (simp add: FIELD_GET_32 FIELD_GET_PREP bit_FIELD_PREP)
  show "FIELD_GET WMI_TLV_LEN (ucast (tlv_hdr tag len)) = of_nat len"
    unfolding tlv_hdr_def WMI_TLV_TAG_def WMI_TLV_LEN_def
    using v by (subst or.commute) (simp add: FIELD_GET_32 FIELD_GET_PREP bit_FIELD_PREP)
qed

lemma htc_hdr_fields:
  assumes "len < 2 ^ 16"
  shows "FIELD_GET HTC_HDR_ENDPOINTID (ucast (htc_info (htc_hdr len))) = 0"
    and "FIELD_GET HTC_HDR_PAYLOADLEN (ucast (htc_info (htc_hdr len))) = of_nat (len - 8)"
proof -
  have v: "unat (of_nat (len - 8) :: u64) < 2 ^ 16"
    using assms by (simp add: unat_of_nat)
  show "FIELD_GET HTC_HDR_ENDPOINTID (ucast (htc_info (htc_hdr len))) = 0"
    unfolding htc_hdr_def HTC_HDR_ENDPOINTID_def HTC_HDR_PAYLOADLEN_def sizeof_htc_hdr_def
    by (simp add: FIELD_GET_32 FIELD_GET_PREP bit_FIELD_PREP)
  show "FIELD_GET HTC_HDR_PAYLOADLEN (ucast (htc_info (htc_hdr len))) = of_nat (len - 8)"
    unfolding htc_hdr_def HTC_HDR_ENDPOINTID_def HTC_HDR_PAYLOADLEN_def sizeof_htc_hdr_def
    using v by (subst or.commute) (simp add: FIELD_GET_32 FIELD_GET_PREP bit_FIELD_PREP)
qed

lemma cmd_id_field:
  "FIELD_GET WMI_CMD_HDR_CMD_ID (ucast (ucast (FIELD_PREP WMI_CMD_HDR_CMD_ID (ucast WMI_MGMT_TX_SEND_CMDID)) :: u32))
    = 0x7008"
proof -
  have id: "ucast WMI_MGMT_TX_SEND_CMDID = (0x7008 :: u64)"
    by (simp add: WMI_MGMT_TX_SEND_CMDID_def WMI_TLV_CMD_def WMI_GRP_MGMT_def)
  show ?thesis
    unfolding WMI_CMD_HDR_CMD_ID_def id
    using FIELD_GET_PREP [of 0 23 "0x7008" 0] by (simp add: FIELD_GET_32)
qed

lemma paddr_halves:
  "push_bit 32 (ucast (ucast (drop_bit 32 (a :: u64)) :: u32)) OR ucast (ucast a :: u32) = a"
  by (rule bit_word_eqI) (auto simp: bit_simps)

lemma mgmt_parse_wire:
  assumes "skb_ok f"
  shows "mgmt_parse env (mgmt_wire env vid bid f) = Some \<lparr>req_vdev = vid, req_desc = bid,
    req_paddr = cb_paddr (skb_cb f), req_frame_len = of_nat (skb_len f), req_bytes = take 64 (payload f)\<rparr>"
proof -
  let ?w = "mgmt_wire env vid bid f" and ?n = "mgmt_buf_len f"
  have n: "?n < 2 ^ 16" "unat (of_nat ?n :: u32) = ?n" "12 + mgmt_cmd_len f < 2 ^ 16"
    using mgmt_buf_len_le [of f] by (simp_all add: unat_of_nat_32 mgmt_cmd_len_def)
  have words: "wire_word env ?w 0 = htc_info (htc_hdr (12 + mgmt_cmd_len f))"
    "wire_word env ?w 2 = ucast (FIELD_PREP WMI_CMD_HDR_CMD_ID (ucast WMI_MGMT_TX_SEND_CMDID))"
    "wire_word env ?w 3 = tlv_hdr WMI_TAG_MGMT_TX_SEND_CMD 32"
    "wire_word env ?w 4 = vid" "wire_word env ?w 5 = bid"
    "wire_word env ?w 7 = ucast (cb_paddr (skb_cb f))" "wire_word env ?w 8 = ucast (drop_bit 32 (cb_paddr (skb_cb f)))"
    "wire_word env ?w 9 = of_nat (skb_len f)" "wire_word env ?w 10 = of_nat ?n"
    "wire_word env ?w 12 = tlv_hdr WMI_TAG_ARRAY_BYTE ?n"
    by (simp_all add: wire_words cmd_words_def mgmt_cmd_words_def mgmt_send_cmd_def sizeof_wmi_mgmt_send_cmd_def
        TLV_HDR_SIZE_def numeral_eq_Suc)
  have len: "length ?w = 12 + mgmt_cmd_len f" "length ?w = 52 + round_up ?n 4"
    using length_mgmt_wire [OF assms] by (simp_all add: mgmt_cmd_len_def)
  have bytes: "take ?n (drop 52 ?w) = take 64 (payload f)"
    using assms by (auto simp: mgmt_wire_def cmd_words_def mgmt_cmd_words_def payload_def skb_bytes_def
        mgmt_buf_len_def WMI_MGMT_SEND_DOWNLD_LEN_def skb_ok_def skb_len_def min.commute)
  have of: "(of_nat ?n :: u64) = ucast (of_nat ?n :: u32)"
    using n(2) by (metis of_nat_unat)
  show ?thesis
    unfolding mgmt_parse_def Let_def words paddr_halves cmd_id_field
    using n len(2) bytes of htc_hdr_fields [OF n(3)] tlv_hdr_fields [OF _ n(1)] tlv_hdr_fields [of _ 32]
    by (simp add: WMI_TAG_ARRAY_BYTE_def WMI_TAG_MGMT_TX_SEND_CMD_def mgmt_cmd_len_def)
qed

lemma sample_env_room: "env_room sample_env"
  by (auto simp: env_room_def sample_env_def)

lemma sample_frame_ok: "skb_ok sample_frame" "mgmt_cmd_len sample_frame = 48"
  by (simp_all add: sample_frame_def skb_ok_def mgmt_cmd_len_def mgmt_buf_len_def skb_len_def round_up_def
      WMI_MGMT_SEND_DOWNLD_LEN_def)

lemma sample_mac_facts:
  "k_skbs sample_mac 3 = Some sample_frame" "k_calls sample_mac = 10" "k_held sample_mac = []"
  "k_maps sample_mac = [(0x7001, 12), (0x7002, 12)]" "vif sample_mac = [None, None, None, None]"
  "mgmt_tx_queue sample_mac = [3]" "txmgmt_idr sample_mac = []" "num_pending_mgmt_tx sample_mac = 1"
  "vifs sample_mac = (\<lambda>_. sample_vif)" "dev_flag sample_mac = 0" "hw_live sample_mac" "vif_live sample_mac v"
  by (simp_all add: sample_mac_def sample_def wireless_simu.defs wireless_simu_mac.defs)

section \<open>Properties\<close>

text \<open>
  C18: What the firmware reads is what the driver was asked to send. From the bytes of the command
  buffer a reader of the layout in \<^verbatim>\<open>wireless_wmi.h\<close> and \<^verbatim>\<open>wireless_htc.h\<close> recovers, after checking the
  transport length, the command identifier, both tags and both lengths, the interface, the
  identifier of the frame, its 64-bit bus address, its length and its first 64 bytes, in either
  byte order of the host.
\<close>

theorem mgmt_command_roundtrip:
  assumes "skb_ok f"
  shows "mgmt_parse env (mgmt_wire env vid bid f) = Some \<lparr>req_vdev = vid, req_desc = bid,
    req_paddr = cb_paddr (skb_cb f), req_frame_len = of_nat (skb_len f), req_bytes = take 64 (payload f)\<rparr>"
  by (rule mgmt_parse_wire [OF assms])

theorem mgmt_command_roundtrip_witness:
  "mgmt_parse sample_env (mgmt_wire sample_env 3 17 sample_frame) = Some \<lparr>req_vdev = 3, req_desc = 17,
    req_paddr = 0x123456789, req_frame_len = 6, req_bytes = [0xd0, 0x40, 1, 2, 3, 4]\<rparr>"
  using mgmt_command_roundtrip [OF sample_frame_ok(1), of sample_env 3 17]
  by (simp add: sample_frame_def payload_def skb_bytes_def skb_len_def)

text \<open>
  C13: Sending the command of a management frame, on every branch. It returns at the first attempt,
  never waiting for buffer space: -ENOMEM when the command buffer cannot be allocated; -EIO, or
  -ESHUTDOWN while a crash is being flushed, when it cannot be mapped, with the mappings as they
  were; 0 otherwise, with the mapped command buffer holding exactly the bytes of the command. On
  every branch all other buffers are untouched and no lock is left held. On the failing branch the
  command buffer stays allocated.
\<close>

theorem mgmt_command_sent:
  fixes s :: "'a wireless_simu_mac_scheme"
  assumes "env_room env" "k_skbs s fr = Some f" "skb_ok f" "HtcTxLock \<notin> set (k_held s)"
  shows "\<exists>ret s'. wireless_simu_wmi_mgmt_send n env vid bid fr s = Some (ret, s') \<and>
    (\<forall>q. q \<noteq> k_calls s \<longrightarrow> k_skbs s' q = k_skbs s q) \<and> k_held s' = k_held s \<and>
    (if env_alloc_skb env (k_calls s) (12 + mgmt_cmd_len f) = None
     then ret = neg_errno ENOMEM \<and> k_maps s' = k_maps s \<and> k_skbs s' = k_skbs s
     else (\<exists>b. k_skbs s' (k_calls s) = Some b \<and>
       (case env_dma_map env (Suc (k_calls s)) of
          None \<Rightarrow> ret = (if bit (dev_flag s) 0 then neg_errno ESHUTDOWN else neg_errno EIO) \<and> k_maps s' = k_maps s
        | Some pa \<Rightarrow> ret = 0 \<and> k_maps s' = (pa, 12 + mgmt_cmd_len f) # k_maps s \<and>
            payload b = mgmt_wire env vid bid f)))"
proof (cases "env_alloc_skb env (k_calls s) (12 + mgmt_cmd_len f)")
  case None
  then show ?thesis
    using mgmt_send_exec(1) [OF assms None] by simp
next
  case (Some b)
  obtain b' where b': "skb_ok b'" "wireless_simu_wmi_mgmt_send n env vid bid fr s =
        (case env_dma_map env (Suc (k_calls s)) of
           None \<Rightarrow> Some (if bit (dev_flag s) 0 then neg_errno ESHUTDOWN else neg_errno EIO,
             tick (tick (skb_set (k_calls s) b' s)))
         | Some pa \<Rightarrow> Some (0, (tick (tick (skb_set (k_calls s) b' s)))\<lparr>k_maps := (pa, skb_len b') # k_maps s\<rparr>))"
    "env_dma_map env (Suc (k_calls s)) \<noteq> None \<longrightarrow> payload b' = mgmt_wire env vid bid f"
    using mgmt_send_exec(2) [OF assms Some] by blast
  have "env_dma_map env (Suc (k_calls s)) \<noteq> None \<longrightarrow> skb_len b' = 12 + mgmt_cmd_len f"
    using b'(1,3) length_payload [OF b'(1)] length_mgmt_wire [OF assms(3)] by auto
  then show ?thesis
    using Some b'(2,3) by (auto split: option.splits)
qed

theorem mgmt_command_sent_witness:
  "\<exists>s' b. wireless_simu_wmi_mgmt_send 0 sample_env 3 17 3 sample_mac = Some (0, s') \<and>
    k_skbs s' 10 = Some b \<and> payload b = mgmt_wire sample_env 3 17 sample_frame"
  using mgmt_command_sent [OF sample_env_room sample_mac_facts(1) sample_frame_ok(1), of 0 3 17] sample_mac_facts(2,3)
  by (auto simp: sample_env_def)

end
