(* ===== verification/Mac80211.thy ===== *)
theory Mac80211
  imports Wmi
begin

text \<open>
  The callbacks the driver registers with mac80211, \<^verbatim>\<open>driver/driver_wireless/wireless_mac80211.c\<close>
  lines 18 to 392, and the cipher tables \<^verbatim>\<open>wireless_dptx.c\<close> and \<^verbatim>\<open>wireless_dprx.c\<close> they use: the queue
  of management frames and its worker, the interface table, filters and queue parameters.
\<close>

section \<open>Cipher tables\<close>

definition wireless_simu_dp_tx_get_encrypt_type :: "mac_lib \<Rightarrow> u32 \<Rightarrow> hal_encrypt_type" where
  "wireless_simu_dp_tx_get_encrypt_type lib cipher =
     (if cipher = lib_cipher lib WLAN_CIPHER_SUITE_WEP40 then HAL_ENCRYPT_TYPE_WEP_40
      else if cipher = lib_cipher lib WLAN_CIPHER_SUITE_WEP104 then HAL_ENCRYPT_TYPE_WEP_104
      else if cipher = lib_cipher lib WLAN_CIPHER_SUITE_TKIP then HAL_ENCRYPT_TYPE_TKIP_MIC
      else if cipher = lib_cipher lib WLAN_CIPHER_SUITE_CCMP then HAL_ENCRYPT_TYPE_CCMP_128
      else if cipher = lib_cipher lib WLAN_CIPHER_SUITE_CCMP_256 then HAL_ENCRYPT_TYPE_CCMP_256
      else if cipher = lib_cipher lib WLAN_CIPHER_SUITE_GCMP then HAL_ENCRYPT_TYPE_GCMP_128
      else if cipher = lib_cipher lib WLAN_CIPHER_SUITE_GCMP_256 then HAL_ENCRYPT_TYPE_AES_GCMP_256
      else HAL_ENCRYPT_TYPE_OPEN)"

definition wireless_simu_dp_rx_crypto_mic_len :: "mac_lib \<Rightarrow> hal_encrypt_type \<Rightarrow> nat" where
  "wireless_simu_dp_rx_crypto_mic_len lib enctype =
     (case enctype of
        HAL_ENCRYPT_TYPE_OPEN \<Rightarrow> 0
      | HAL_ENCRYPT_TYPE_TKIP_NO_MIC \<Rightarrow> 0
      | HAL_ENCRYPT_TYPE_TKIP_MIC \<Rightarrow> 0
      | HAL_ENCRYPT_TYPE_CCMP_128 \<Rightarrow> lib_ccmp_mic_len lib
      | HAL_ENCRYPT_TYPE_CCMP_256 \<Rightarrow> lib_ccmp_256_mic_len lib
      | HAL_ENCRYPT_TYPE_GCMP_128 \<Rightarrow> lib_gcmp_mic_len lib
      | HAL_ENCRYPT_TYPE_AES_GCMP_256 \<Rightarrow> lib_gcmp_mic_len lib
      | HAL_ENCRYPT_TYPE_WEP_40 \<Rightarrow> 0
      | HAL_ENCRYPT_TYPE_WEP_104 \<Rightarrow> 0
      | HAL_ENCRYPT_TYPE_WEP_128 \<Rightarrow> 0
      | HAL_ENCRYPT_TYPE_WAPI_GCM_SM4 \<Rightarrow> 0
      | HAL_ENCRYPT_TYPE_WAPI \<Rightarrow> 0)"

section \<open>Management frames\<close>

text \<open>The frame control field, the first two bytes of the frame, little endian.\<close>

definition frame_control :: "sk_buff \<Rightarrow> u16 option" where
  "frame_control b =
     (if skb_data b + 2 \<le> length (skb_buf b)
      then Some (ucast (skb_buf b ! skb_data b) OR push_bit 8 (ucast (skb_buf b ! Suc (skb_data b))))
      else None)"

definition ieee80211_free_txskb :: "skbp \<Rightarrow> 'a kernel_scheme \<Rightarrow> 'a kernel_scheme option" where
  "ieee80211_free_txskb p s = do {
     _ \<leftarrow> skb_get p s;
     Some (emit (EvTxskbFree p) (s\<lparr>k_skbs := (k_skbs s)(p := None)\<rparr>))
   }"

text \<open>
  The frame is freed through \<^verbatim>\<open>priv->hw\<close>, which must not have been freed.
  \<^verbatim>\<open>atomic_dec_if_positive\<close> returns the decremented value and stores it unless it is negative.
\<close>

definition wireless_simu_mgmt_over_tx_drop ::
  "skbp \<Rightarrow> 'a wireless_simu_mac_scheme \<Rightarrow> 'a wireless_simu_mac_scheme option" where
  "wireless_simu_mgmt_over_tx_drop skb s = do {
     s \<leftarrow> (if hw_live s then ieee80211_free_txskb skb s else None);
     let num_mgmt = num_pending_mgmt_tx s - 1;
     let s = (if num_mgmt < 0 then s else s\<lparr>num_pending_mgmt_tx := num_mgmt\<rparr>);
     let s = (if num_mgmt < 0 then emit EvWarnOnce s else s);
     Some (if num_mgmt = 0 then emit EvWakeUp s else s)
   }"

definition mgmt_needs_mic :: "mac_lib \<Rightarrow> sk_buff \<Rightarrow> bool option" where
  "mgmt_needs_mic lib b =
     (if skb_tx_flags b AND lib_HW_80211_ENCAP lib \<noteq> 0 then Some False
      else do {
        fc \<leftarrow> frame_control b;
        Some (lib_has_protected lib fc \<and>
              (lib_is_action lib fc \<or> lib_is_deauth lib fc \<or> lib_is_disassoc lib fc))
      })"

text \<open>
  From the mapping of the frame to the label \<^verbatim>\<open>err_unmap_buf\<close>: the frame is mapped and its command
  sent, and unmapped again when that fails. The command carries the number of the interface, read
  here through the pointer the frame was queued with.
\<close>

definition mgmt_map_send ::
  "nat \<Rightarrow> kenv \<Rightarrow> vifp \<Rightarrow> u32 \<Rightarrow> skbp \<Rightarrow> 'a wireless_simu_mac_scheme \<Rightarrow>
   (int \<times> 'a wireless_simu_mac_scheme) option" where
  "mgmt_map_send n env v buf_id skb s = do {
     b \<leftarrow> skb_get skb s;
     (case dma_map_single env (skb_len b) s of
        (None, s) \<Rightarrow> Some (neg_errno EIO, s)
      | (Some paddr, s) \<Rightarrow> do {
          s \<leftarrow> skb_set_paddr skb paddr s;
          vid \<leftarrow> (if vif_live s v then Some (vif_id (drv_priv (vifs s v))) else None);
          (ret, s) \<leftarrow> wireless_simu_wmi_mgmt_send n env (of_int vid) buf_id skb s;
          if ret \<noteq> 0 then do {
            b \<leftarrow> skb_get skb s;
            s \<leftarrow> dma_unmap_single paddr (skb_len b) s;
            Some (ret, s)
          } else Some (0, s)
        })
   }"

definition wireless_simu_mgmt_tx_wmi ::
  "mac_lib \<Rightarrow> nat \<Rightarrow> kenv \<Rightarrow> vifp \<Rightarrow> skbp \<Rightarrow> 'a wireless_simu_mac_scheme \<Rightarrow>
   (int \<times> 'a wireless_simu_mac_scheme) option" where
  "wireless_simu_mgmt_tx_wmi lib n env v skb s = do {
     s \<leftarrow> spin_lock TxmgmtIdrLock s;
     let buf_id = lib_idr_alloc lib (k_calls s) (map fst (txmgmt_idr s)) 0 WIRELESS_SIMU_TX_MGMT_NUM_PENDING_MAX;
     let s = tick s;
     let s = (if buf_id < 0 then s else s\<lparr>txmgmt_idr := (buf_id, skb) # txmgmt_idr s\<rparr>);
     s \<leftarrow> spin_unlock TxmgmtIdrLock s;
     if buf_id < 0 then Some (neg_errno ENOSPC, s)
     else do {
       b \<leftarrow> skb_get skb s;
       mic \<leftarrow> mgmt_needs_mic lib b;
       s \<leftarrow> (if mic
              then skb_put skb (wireless_simu_dp_rx_crypto_mic_len lib
                     (wireless_simu_dp_tx_get_encrypt_type lib (cb_cipher (skb_cb b)))) s
              else Some s);
       (ret, s) \<leftarrow> mgmt_map_send n env v (of_int buf_id) skb s;
       if ret = 0 then Some (0, s)
       else do {
         s \<leftarrow> spin_lock TxmgmtIdrLock s;
         let s = s\<lparr>txmgmt_idr := filter (\<lambda>(i, _). i \<noteq> buf_id) (txmgmt_idr s)\<rparr>;
         s \<leftarrow> spin_unlock TxmgmtIdrLock s;
         Some (ret, s)
       }
     }
   }"

text \<open>The body of the worker's loop, for the frame it has taken from the queue.\<close>

definition mgmt_work_one ::
  "mac_lib \<Rightarrow> nat \<Rightarrow> kenv \<Rightarrow> skbp \<Rightarrow> 'a wireless_simu_mac_scheme \<Rightarrow> 'a wireless_simu_mac_scheme option" where
  "mgmt_work_one lib n env skb s = do {
     b \<leftarrow> skb_get skb s;
     (case cb_vif (skb_cb b) of
        None \<Rightarrow> wireless_simu_mgmt_over_tx_drop skb s
      | Some v \<Rightarrow> do {
          s \<leftarrow> spin_lock MacConfMutex s;
          (ret, s) \<leftarrow> wireless_simu_mgmt_tx_wmi lib n env v skb s;
          spin_unlock MacConfMutex s
        })
   }"

text \<open>
  The worker, which takes frames until the queue is empty. The first argument bounds the
  iterations; the caller gives it the length of the queue, which each iteration shortens.
\<close>

fun mgmt_work_loop ::
  "nat \<Rightarrow> mac_lib \<Rightarrow> nat \<Rightarrow> kenv \<Rightarrow> 'a wireless_simu_mac_scheme \<Rightarrow> 'a wireless_simu_mac_scheme option" where
  "mgmt_work_loop k lib n env s =
     (case mgmt_tx_queue s of
        [] \<Rightarrow> Some s
      | skb # q \<Rightarrow>
          (case k of
             0 \<Rightarrow> None
           | Suc k \<Rightarrow> do {
               s \<leftarrow> mgmt_work_one lib n env skb (s\<lparr>mgmt_tx_queue := q\<rparr>);
               mgmt_work_loop k lib n env s
             }))"

definition wireless_simu_mgmt_tx_work_func ::
  "mac_lib \<Rightarrow> nat \<Rightarrow> kenv \<Rightarrow> 'a wireless_simu_mac_scheme \<Rightarrow> 'a wireless_simu_mac_scheme option" where
  "wireless_simu_mgmt_tx_work_func lib n env s = mgmt_work_loop (length (mgmt_tx_queue s)) lib n env s"

definition wireless_simu_mac_mgmt_tx ::
  "skbp \<Rightarrow> bool \<Rightarrow> 'a wireless_simu_mac_scheme \<Rightarrow> int \<times> 'a wireless_simu_mac_scheme" where
  "wireless_simu_mac_mgmt_tx skb is_prb_rsp s =
     (if is_prb_rsp \<and> num_pending_mgmt_tx s > WIRELESS_SIMU_PRB_RSP_DROP_THRESHOLD
      then (neg_errno ENOSPC, s)
      else if int (length (mgmt_tx_queue s)) \<ge> WIRELESS_SIMU_TX_MGMT_NUM_PENDING_MAX
      then (neg_errno ENOSPC, s)
      else (0, emit EvQueueWork (s\<lparr>mgmt_tx_queue := mgmt_tx_queue s @ [skb],
                                  num_pending_mgmt_tx := num_pending_mgmt_tx s + 1\<rparr>)))"

text \<open>
  The transmit callback. The key and the interface of the transmit information are arguments,
  since the driver's control block overlays them and is cleared first. mac80211 may pass a frame
  without an interface, as it does for injected frames; the callback stores the pointer unchecked.
  mac80211 calls it on a device that exists.
\<close>

definition wireless_mac80211_tx ::
  "mac_lib \<Rightarrow> u32 option \<Rightarrow> vifp option \<Rightarrow> skbp \<Rightarrow> 'a wireless_simu_mac_scheme \<Rightarrow>
   'a wireless_simu_mac_scheme option" where
  "wireless_mac80211_tx lib key v skb s = do {
     b \<leftarrow> skb_get skb s;
     let cb = skb_cb_zero\<lparr>cb_vif := v\<rparr>;
     let cb = (case key of
                 None \<Rightarrow> cb
               | Some cipher \<Rightarrow> cb\<lparr>cb_cipher := cipher, cb_flags := cb_flags cb OR WIRELESS_SIMU_SKB_CIPHER_SET\<rparr>);
     if skb_tx_flags b AND lib_HW_80211_ENCAP lib \<noteq> 0
     then Some (skb_set skb (b\<lparr>skb_cb := cb\<lparr>cb_flags := cb_flags cb OR WIRELESS_SIMU_SKB_HW_80211_ENCAP\<rparr>\<rparr>) s)
     else do {
       let s = skb_set skb (b\<lparr>skb_cb := cb\<rparr>) s;
       fc \<leftarrow> frame_control b;
       if lib_is_mgmt lib fc
       then (case wireless_simu_mac_mgmt_tx skb (lib_is_probe_resp lib fc) s of (ret, s) \<Rightarrow>
               if ret \<noteq> 0 then ieee80211_free_txskb skb s else Some s)
       else Some s
     }
   }"

section \<open>Starting and stopping\<close>

definition wireless_mac80211_start :: "'a wireless_simu_mac_scheme \<Rightarrow> int \<times> 'a wireless_simu_mac_scheme" where
  "wireless_mac80211_start s =
     (0, s\<lparr>vif := map (\<lambda>_. None) (vif s), tx_interrupt_enable := True, rx_interrupt_enable := True\<rparr>)"

definition wireless_mac80211_stop :: "'a wireless_simu_mac_scheme \<Rightarrow> 'a wireless_simu_mac_scheme" where
  "wireless_mac80211_stop s =
     s\<lparr>vif := map (\<lambda>_. None) (vif s), tx_interrupt_enable := False, rx_interrupt_enable := False\<rparr>"

section \<open>Interfaces\<close>

text \<open>The search for a free slot: its index, or the size of the table.\<close>

fun free_slot :: "'b option list \<Rightarrow> nat" where
  "free_slot [] = 0"
| "free_slot (x # xs) = (if x = None then 0 else Suc (free_slot xs))"

definition set_vif :: "vifp \<Rightarrow> ieee80211_vif \<Rightarrow> 'a wireless_simu_mac_scheme \<Rightarrow> 'a wireless_simu_mac_scheme" where
  "set_vif v x s = s\<lparr>vifs := (vifs s)(v := x)\<rparr>"

definition wireless_mac80211_add_interface ::
  "mac_lib \<Rightarrow> vifp \<Rightarrow> 'a wireless_simu_mac_scheme \<Rightarrow> (int \<times> 'a wireless_simu_mac_scheme) option" where
  "wireless_mac80211_add_interface lib v s = do {
     let s = set_vif v ((vifs s v)\<lparr>drv_priv := simu_vif_zero\<rparr>) s;
     s \<leftarrow> spin_lock MacConfMutex s;
     let i = free_slot (vif s);
     if i = length (vif s) then Some (neg_errno EBUSY, s)
     else do {
       let s = s\<lparr>vif := (vif s)[i := Some v]\<rparr>;
       let s = set_vif v ((vifs s v)\<lparr>drv_priv := (drv_priv (vifs s v))\<lparr>vif_id := int i\<rparr>\<rparr>) s;
       let ty = vif_type (vifs s v);
       if ty \<noteq> NL80211_IFTYPE_STATION \<or> ty \<noteq> NL80211_IFTYPE_AP \<or> ty \<noteq> NL80211_IFTYPE_MONITOR
       then do {
         s \<leftarrow> spin_unlock MacConfMutex s;
         Some (neg_errno EINVAL, s)
       } else do {
         let x = vifs s v;
         let x = x\<lparr>hw_queue := map (\<lambda>j. int j mod (int WIRELESS_SIMU_HW_QUEUE - 1)) [0..<length (hw_queue x)]\<rparr>;
         let x = x\<lparr>cab_queue := (if vif_type x = NL80211_IFTYPE_AP
                               then vif_id (drv_priv x) mod (int WIRELESS_SIMU_HW_QUEUE - 1)
                               else lib_inval_hw_queue lib)\<rparr>;
         let s = set_vif v x s;
         s \<leftarrow> spin_unlock MacConfMutex s;
         Some (0, s)
       }
     }
   }"

definition wireless_mac80211_remove_interface ::
  "vifp \<Rightarrow> 'a wireless_simu_mac_scheme \<Rightarrow> 'a wireless_simu_mac_scheme option" where
  "wireless_mac80211_remove_interface v s = do {
     s \<leftarrow> spin_lock MacConfMutex s;
     let i = vif_id (drv_priv (vifs s v));
     tbl \<leftarrow> (if i < 0 then None else list_put (vif s) (nat i) None);
     spin_unlock MacConfMutex (s\<lparr>vif := tbl\<rparr>)
   }"

section \<open>Configuration\<close>

definition wireless_mac80211_config :: "u32 \<Rightarrow> 'a wireless_simu_mac_scheme \<Rightarrow> int \<times> 'a wireless_simu_mac_scheme" where
  "wireless_mac80211_config changed s = (0, s)"

definition SUPPORT_FILTERS :: "mac_lib \<Rightarrow> u32" where
  "SUPPORT_FILTERS lib = lib_filter lib FIF_ALLMULTI OR lib_filter lib FIF_FCSFAIL OR
     lib_filter lib FIF_PLCPFAIL OR lib_filter lib FIF_BCN_PRBRESP_PROMISC OR lib_filter lib FIF_CONTROL OR
     lib_filter lib FIF_OTHER_BSS OR lib_filter lib FIF_PSPOLL OR lib_filter lib FIF_PROBE_REQ OR
     lib_filter lib FIF_MCAST_ACTION"

text \<open>The result is the new value of the caller's flags and the state.\<close>

definition wireless_mac80211_configure_filter ::
  "mac_lib \<Rightarrow> u32 \<Rightarrow> 'a wireless_simu_mac_scheme \<Rightarrow> (u32 \<times> 'a wireless_simu_mac_scheme) option" where
  "wireless_mac80211_configure_filter lib total_flags s = do {
     s \<leftarrow> spin_lock MacConfMutex s;
     let total_flags = total_flags AND SUPPORT_FILTERS lib;
     s \<leftarrow> spin_unlock MacConfMutex (s\<lparr>filter_flags := total_flags\<rparr>);
     Some (total_flags, s)
   }"

record ieee80211_tx_queue_params =
  q_txop :: u16
  q_cw_min :: u16
  q_cw_max :: u16
  q_aifs :: u8

definition set_tx_params ::
  "ieee80211_tx_queue_params \<Rightarrow> wireless_simu_tx_params_arg \<Rightarrow> wireless_simu_tx_params_arg" where
  "set_tx_params p arg = arg\<lparr>cwmax := q_cw_max p, cwmin := q_cw_min p, aifs := q_aifs p, txop := q_txop p\<rparr>"

definition wireless_mac80211_conf_tx ::
  "mac_lib \<Rightarrow> vifp \<Rightarrow> u16 \<Rightarrow> ieee80211_tx_queue_params \<Rightarrow> 'a wireless_simu_mac_scheme \<Rightarrow>
   (int \<times> 'a wireless_simu_mac_scheme) option" where
  "wireless_mac80211_conf_tx lib v ac params s = do {
     s \<leftarrow> spin_lock MacConfMutex s;
     let x = drv_priv (vifs s v);
     let r = (if ac = lib_ac lib IEEE80211_AC_VO then Some (x\<lparr>ac_vo := set_tx_params params (ac_vo x)\<rparr>)
              else if ac = lib_ac lib IEEE80211_AC_BE then Some (x\<lparr>ac_be := set_tx_params params (ac_be x)\<rparr>)
              else if ac = lib_ac lib IEEE80211_AC_BK then Some (x\<lparr>ac_bk := set_tx_params params (ac_bk x)\<rparr>)
              else if ac = lib_ac lib IEEE80211_AC_VI then Some (x\<lparr>ac_vi := set_tx_params params (ac_vi x)\<rparr>)
              else None);
     (case r of
        None \<Rightarrow> do {
          s \<leftarrow> spin_unlock MacConfMutex s;
          Some (neg_errno EINVAL, s)
        }
      | Some x \<Rightarrow> do {
          let s = set_vif v ((vifs s v)\<lparr>drv_priv := x\<rparr>) s;
          s \<leftarrow> spin_unlock MacConfMutex s;
          Some (0, s)
        })
   }"

section \<open>Callbacks without effect\<close>

text \<open>
  The rest of \<^verbatim>\<open>wireless_mac80211_ops\<close>. Channel contexts are opaque; what a callback could write through a
  pointer it is given is part of its result.
\<close>

type_synonym chanctxp = nat

definition wireless_mac80211_bss_info_changed :: "vifp \<Rightarrow> u64 \<Rightarrow> 'a wireless_simu_mac_scheme \<Rightarrow> 'a wireless_simu_mac_scheme" where
  "wireless_mac80211_bss_info_changed v changed s = s"

definition wireless_mac80211_set_antenna :: "u32 \<Rightarrow> u32 \<Rightarrow> 'a wireless_simu_mac_scheme \<Rightarrow> int \<times> 'a wireless_simu_mac_scheme" where
  "wireless_mac80211_set_antenna tx_ant rx_ant s = (0, s)"

definition wireless_mac80211_get_antenna :: "u32 \<Rightarrow> u32 \<Rightarrow> 'a wireless_simu_mac_scheme \<Rightarrow> int \<times> u32 \<times> u32 \<times> 'a wireless_simu_mac_scheme" where
  "wireless_mac80211_get_antenna tx_ant rx_ant s = (0, tx_ant, rx_ant, s)"

definition wireless_mac80211_ampdu_action :: "vifp \<Rightarrow> 'a wireless_simu_mac_scheme \<Rightarrow> int \<times> 'a wireless_simu_mac_scheme" where
  "wireless_mac80211_ampdu_action v s = (0, s)"

definition wireless_mac80211_add_chanctx :: "chanctxp \<Rightarrow> 'a wireless_simu_mac_scheme \<Rightarrow> int \<times> 'a wireless_simu_mac_scheme" where
  "wireless_mac80211_add_chanctx ctx s = (0, s)"

definition wireless_mac80211_remove_chanctx :: "chanctxp \<Rightarrow> 'a wireless_simu_mac_scheme \<Rightarrow> 'a wireless_simu_mac_scheme" where
  "wireless_mac80211_remove_chanctx ctx s = s"

definition wireless_mac80211_change_chanctx :: "chanctxp \<Rightarrow> u32 \<Rightarrow> 'a wireless_simu_mac_scheme \<Rightarrow> 'a wireless_simu_mac_scheme" where
  "wireless_mac80211_change_chanctx ctx changed s = s"

definition wireless_mac80211_assign_vif_chanctx :: "vifp \<Rightarrow> chanctxp \<Rightarrow> 'a wireless_simu_mac_scheme \<Rightarrow> int \<times> 'a wireless_simu_mac_scheme" where
  "wireless_mac80211_assign_vif_chanctx v ctx s = (0, s)"

definition wireless_mac80211_unassign_vif_chanctx :: "vifp \<Rightarrow> chanctxp \<Rightarrow> 'a wireless_simu_mac_scheme \<Rightarrow> 'a wireless_simu_mac_scheme" where
  "wireless_mac80211_unassign_vif_chanctx v ctx s = s"

definition wireless_mac80211_set_rts_threshold :: "u32 \<Rightarrow> 'a wireless_simu_mac_scheme \<Rightarrow> int \<times> 'a wireless_simu_mac_scheme" where
  "wireless_mac80211_set_rts_threshold value s = (0, s)"

definition wireless_mac80211_testmode_cmd :: "vifp \<Rightarrow> u8 list \<Rightarrow> 'a wireless_simu_mac_scheme \<Rightarrow> int \<times> 'a wireless_simu_mac_scheme" where
  "wireless_mac80211_testmode_cmd v cmd_data s = (0, s)"

definition wireless_mac80211_prepare_multicast :: "u8 list list \<Rightarrow> 'a wireless_simu_mac_scheme \<Rightarrow> u64 \<times> 'a wireless_simu_mac_scheme" where
  "wireless_mac80211_prepare_multicast mc_list s = (0, s)"

definition wireless_mac80211_rfkill_poll :: "'a wireless_simu_mac_scheme \<Rightarrow> 'a wireless_simu_mac_scheme" where
  "wireless_mac80211_rfkill_poll s = s"

definition wireless_mac80211_get_tsf :: "vifp \<Rightarrow> 'a wireless_simu_mac_scheme \<Rightarrow> u64 \<times> 'a wireless_simu_mac_scheme" where
  "wireless_mac80211_get_tsf v s = (0, s)"

definition wireless_mac80211_set_tsf :: "vifp \<Rightarrow> u64 \<Rightarrow> 'a wireless_simu_mac_scheme \<Rightarrow> 'a wireless_simu_mac_scheme" where
  "wireless_mac80211_set_tsf v tsf s = s"

definition wireless_mac80211_reset_tsf :: "vifp \<Rightarrow> 'a wireless_simu_mac_scheme \<Rightarrow> 'a wireless_simu_mac_scheme" where
  "wireless_mac80211_reset_tsf v s = s"

end
