(* ===== verification/Mgmt_Tx.thy ===== *)
theory Mgmt_Tx
  imports Wmi_Send Mac80211
begin

text \<open>
  Handing one management frame to the firmware (\<^verbatim>\<open>wireless_simu_mgmt_tx_wmi\<close>): room for the integrity
  code, the mapping of the frame, the command, and what is undone when one of them fails.
\<close>

section \<open>Frames and outcomes\<close>

definition mic_room :: "mac_lib \<Rightarrow> nat" where
  "mic_room lib = max (lib_ccmp_mic_len lib) (max (lib_ccmp_256_mic_len lib) (lib_gcmp_mic_len lib))"

definition frame_ok :: "mac_lib \<Rightarrow> sk_buff \<Rightarrow> bool" where
  "frame_ok lib b = (skb_ok b \<and> 2 \<le> skb_len b \<and> mic_room lib \<le> skb_tailroom b)"

text \<open>The parts of the state that handing a frame to the firmware does not touch.\<close>

definition mac_rest :: "'a wireless_simu_mac_scheme \<Rightarrow> 'a wireless_simu_mac_scheme" where
  "mac_rest s = s\<lparr>k_calls := 0, k_skbs := Map.empty, k_maps := [], txmgmt_idr := []\<rparr>"

text \<open>A step that keeps the old buffers except one and the identifiers, and may allocate new buffers.\<close>

definition mgmt_frame :: "skbp set \<Rightarrow> 'a wireless_simu_mac_scheme \<Rightarrow> 'a wireless_simu_mac_scheme \<Rightarrow> bool" where
  "mgmt_frame ps s s' = (mac_rest s' = mac_rest s \<and> k_calls s \<le> k_calls s' \<and>
     (\<forall>q. q \<notin> ps \<and> (q < k_calls s \<or> k_calls s' \<le> q) \<longrightarrow> k_skbs s' q = k_skbs s q))"

definition req_for :: "u32 \<Rightarrow> u32 \<Rightarrow> sk_buff \<Rightarrow> mgmt_request" where
  "req_for vid bid f = \<lparr>req_vdev = vid, req_desc = bid, req_paddr = cb_paddr (skb_cb f),
     req_frame_len = of_nat (skb_len f), req_bytes = take 64 (payload f)\<rparr>"

text \<open>An environment that grants every buffer and every mapping.\<close>

definition env_grants :: "kenv \<Rightarrow> bool" where
  "env_grants env = ((\<forall>c n. env_alloc_skb env c n \<noteq> None) \<and> (\<forall>c. env_dma_map env c \<noteq> None))"

text \<open>
  The outcome of handing a frame to the firmware. On success a new identifier stands for the frame
  and exactly two mappings are added, of the frame and of the command buffer, whose bytes are the
  request for this frame; on failure identifiers and mappings are as before.
\<close>

definition mgmt_outcome ::
  "kenv \<Rightarrow> int \<Rightarrow> skbp \<Rightarrow> 'a wireless_simu_mac_scheme \<Rightarrow> int \<Rightarrow> 'a wireless_simu_mac_scheme \<Rightarrow> bool" where
  "mgmt_outcome env vid p s ret s' =
     (mgmt_frame {p} s s' \<and> k_skbs s' p \<noteq> None \<and>
      (if ret = 0
       then \<exists>i f c b pa. txmgmt_idr s' = (i, p) # txmgmt_idr s \<and> 0 \<le> i \<and> i < 512 \<and> i \<notin> fst ` set (txmgmt_idr s) \<and>
         k_skbs s' p = Some f \<and> k_skbs s' c = Some b \<and> k_calls s \<le> c \<and> c < k_calls s' \<and>
         k_maps s' = [(pa, skb_len b), (cb_paddr (skb_cb f), skb_len f)] @ k_maps s \<and>
         mgmt_parse env (payload b) = Some (req_for (of_int vid) (of_int i) f)
       else txmgmt_idr s' = txmgmt_idr s \<and> k_maps s' = k_maps s))"

text \<open>
  Identifiers: as long as fewer than the maximum are in use there is a free one, and an allocator
  that is not asked for more serves every request.
\<close>

definition idr_serves :: "mac_lib \<Rightarrow> bool" where
  "idr_serves lib = (\<forall>c ids lo hi. (\<exists>i. lo \<le> i \<and> i < hi \<and> i \<notin> set ids) \<longrightarrow> 0 \<le> lo \<longrightarrow>
     0 \<le> lib_idr_alloc lib c ids lo hi)"

text \<open>The lowest free identifier, and the kernel's constants as far as the samples need them.\<close>

definition sample_idr :: "nat \<Rightarrow> int list \<Rightarrow> int \<Rightarrow> int \<Rightarrow> int" where
  "sample_idr c ids lo hi = (case filter (\<lambda>i. i \<notin> set ids) [lo..hi - 1] of [] \<Rightarrow> - 28 | i # _ \<Rightarrow> i)"

definition sample_cipher :: "cipher_suite \<Rightarrow> u32" where
  "sample_cipher c = (case c of WLAN_CIPHER_SUITE_WEP40 \<Rightarrow> 0xfac01 | WLAN_CIPHER_SUITE_TKIP \<Rightarrow> 0xfac02
     | WLAN_CIPHER_SUITE_CCMP \<Rightarrow> 0xfac04 | WLAN_CIPHER_SUITE_WEP104 \<Rightarrow> 0xfac05 | WLAN_CIPHER_SUITE_GCMP \<Rightarrow> 0xfac08
     | WLAN_CIPHER_SUITE_GCMP_256 \<Rightarrow> 0xfac09 | WLAN_CIPHER_SUITE_CCMP_256 \<Rightarrow> 0xfac0a)"

definition sample_ac :: "ieee80211_ac \<Rightarrow> u16" where
  "sample_ac c = (case c of IEEE80211_AC_VO \<Rightarrow> 0 | IEEE80211_AC_VI \<Rightarrow> 1 | IEEE80211_AC_BE \<Rightarrow> 2 | IEEE80211_AC_BK \<Rightarrow> 3)"

definition sample_lib :: mac_lib where
  "sample_lib = \<lparr>lib_is_mgmt = (\<lambda>fc. fc AND 0xc = 0), lib_is_probe_resp = (\<lambda>fc. fc AND 0xfc = 0x50),
     lib_has_protected = (\<lambda>fc. fc AND 0x4000 \<noteq> 0), lib_is_action = (\<lambda>fc. fc AND 0xfc = 0xd0),
     lib_is_deauth = (\<lambda>fc. fc AND 0xfc = 0xc0), lib_is_disassoc = (\<lambda>fc. fc AND 0xfc = 0xa0),
     lib_HW_80211_ENCAP = 0x10000000, lib_filter = (\<lambda>_. 2), lib_cipher = sample_cipher,
     lib_ccmp_mic_len = 8, lib_ccmp_256_mic_len = 16, lib_gcmp_mic_len = 16, lib_ac = sample_ac,
     lib_inval_hw_queue = 255, lib_idr_alloc = sample_idr\<rparr>"

section \<open>Execution\<close>

lemma mic_len_le: "wireless_simu_dp_rx_crypto_mic_len lib e \<le> mic_room lib"
  by (cases e) (simp_all add: wireless_simu_dp_rx_crypto_mic_len_def mic_room_def)

lemma frame_ok_needs_mic: "frame_ok lib b \<Longrightarrow> \<exists>m. mgmt_needs_mic lib b = Some m"
  by (auto simp: frame_ok_def mgmt_needs_mic_def frame_control_def skb_ok_def skb_len_def)

lemma idr_remove_fresh: "i \<notin> fst ` set xs \<Longrightarrow> filter (\<lambda>(j, _). j \<noteq> i) xs = xs"
  by (induction xs) auto

lemma mac_rest_frame [simp]:
  "mac_rest (tick s) = mac_rest s" "mac_rest (skb_set p b s) = mac_rest s"
  "mac_rest (s\<lparr>k_maps := m\<rparr>) = mac_rest s" "mac_rest (s\<lparr>txmgmt_idr := r\<rparr>) = mac_rest s"
  by (simp_all add: mac_rest_def tick_def skb_set_def)

lemma mac_rest_eqD:
  assumes "mac_rest s' = mac_rest s"
  shows "k_held s' = k_held s" "k_trace s' = k_trace s" "vif s' = vif s" "vifs s' = vifs s"
    "mgmt_tx_queue s' = mgmt_tx_queue s" "num_pending_mgmt_tx s' = num_pending_mgmt_tx s"
    "dev_flag s' = dev_flag s" "hw_live s' = hw_live s" "vif_live s' = vif_live s"
  using arg_cong [OF assms, of k_held] arg_cong [OF assms, of k_trace] arg_cong [OF assms, of vif]
    arg_cong [OF assms, of vifs] arg_cong [OF assms, of mgmt_tx_queue] arg_cong [OF assms, of num_pending_mgmt_tx]
    arg_cong [OF assms, of dev_flag] arg_cong [OF assms, of hw_live] arg_cong [OF assms, of vif_live]
  by (simp_all add: mac_rest_def)

text \<open>Adding the room for the integrity code, when the frame needs it.\<close>

lemma mgmt_mic_exec:
  assumes "k_skbs s p = Some b" "frame_ok lib b" "mgmt_needs_mic lib b = Some m"
  obtains b1 where "skb_ok b1" "skb_cb b1 = skb_cb b"
    "(if m then skb_put p (wireless_simu_dp_rx_crypto_mic_len lib
        (wireless_simu_dp_tx_get_encrypt_type lib (cb_cipher (skb_cb b)))) s else Some s) = Some (skb_set p b1 s)"
proof (cases m)
  case True
  let ?n = "wireless_simu_dp_rx_crypto_mic_len lib (wireless_simu_dp_tx_get_encrypt_type lib (cb_cipher (skb_cb b)))"
  have "?n \<le> skb_tailroom b"
    using assms(2) mic_len_le by (auto simp: frame_ok_def intro: order_trans)
  then show ?thesis
    using True assms(1,2) that [of "b\<lparr>skb_tail := skb_tail b + ?n\<rparr>"]
    by (auto simp: skb_put_def skb_get_def skb_ok_def frame_ok_def skb_tailroom_def)
next
  case False
  have "skb_set p b s = s"
    using assms(1) by (simp add: skb_set_def map_upd_triv)
  then show ?thesis
    using False assms(2) that [of b] by (simp add: frame_ok_def)
qed

lemma mgmt_frame_trans:
  "mgmt_frame ps s t \<Longrightarrow> mgmt_frame ps t u \<Longrightarrow> mgmt_frame ps s u"
  unfolding mgmt_frame_def by (metis dual_order.trans le_trans order.strict_trans2)

lemma mgmt_frame_mono: "mgmt_frame ps s t \<Longrightarrow> ps \<subseteq> qs \<Longrightarrow> mgmt_frame qs s t"
  unfolding mgmt_frame_def by blast

lemma mgmt_send_cases:
  fixes s :: "'a wireless_simu_mac_scheme"
  assumes "env_room env" "k_skbs s p = Some f" "skb_ok f" "HtcTxLock \<notin> set (k_held s)"
  obtains (failed) ret s' where "wireless_simu_wmi_mgmt_send n env vid bid p s = Some (ret, s')" "ret \<noteq> 0"
      "\<not> env_grants env" "mgmt_frame {} s s'" "k_maps s' = k_maps s" "txmgmt_idr s' = txmgmt_idr s"
  | (sent) s' b pa where "wireless_simu_wmi_mgmt_send n env vid bid p s = Some (0, s')" "mgmt_frame {} s s'"
      "k_maps s' = (pa, skb_len b) # k_maps s" "txmgmt_idr s' = txmgmt_idr s" "k_skbs s' (k_calls s) = Some b"
      "k_calls s < k_calls s'" "mgmt_parse env (payload b) = Some (req_for vid bid f)"
proof (cases "env_alloc_skb env (k_calls s) (12 + mgmt_cmd_len f)")
  case None
  show ?thesis
    by (rule failed [OF mgmt_send_exec(1) [OF assms None]]) (use None in \<open>simp_all add: mgmt_frame_def env_grants_def\<close>, blast, simp add: tick_def)
next
  case (Some c)
  obtain b' where b': "wireless_simu_wmi_mgmt_send n env vid bid p s =
        (case env_dma_map env (Suc (k_calls s)) of
           None \<Rightarrow> Some (if bit (dev_flag s) 0 then neg_errno ESHUTDOWN else neg_errno EIO,
             tick (tick (skb_set (k_calls s) b' s)))
         | Some pa \<Rightarrow> Some (0, (tick (tick (skb_set (k_calls s) b' s)))\<lparr>k_maps := (pa, skb_len b') # k_maps s\<rparr>))"
      "env_dma_map env (Suc (k_calls s)) \<noteq> None \<longrightarrow> payload b' = mgmt_wire env vid bid f"
    using mgmt_send_exec(2) [OF assms Some] by blast
  let ?t = "tick (tick (skb_set (k_calls s) b' s))"
  have t: "mgmt_frame {} s ?t" "\<And>m. mgmt_frame {} s (?t\<lparr>k_maps := m\<rparr>)" "k_maps ?t = k_maps s"
    "txmgmt_idr ?t = txmgmt_idr s" "k_skbs ?t (k_calls s) = Some b'" "k_calls s < k_calls ?t"
    by (simp_all add: mgmt_frame_def, simp_all add: skb_set_def tick_def)
  show ?thesis
  proof (cases "env_dma_map env (Suc (k_calls s))")
    case None
    show ?thesis
      by (rule failed [of "if bit (dev_flag s) 0 then neg_errno ESHUTDOWN else neg_errno EIO" ?t])
        (use b'(1) None t in \<open>simp_all add: env_grants_def\<close>, blast)
  next
    case (Some pa)
    have "mgmt_parse env (payload b') = Some (req_for vid bid f)"
      using b'(2) Some mgmt_parse_wire [OF assms(3)] by (simp add: req_for_def)
    then show ?thesis
      using b'(1) Some t by (intro sent [of "?t\<lparr>k_maps := (pa, skb_len b') # k_maps s\<rparr>" pa b']) simp_all
  qed
qed

lemma mgmt_try_exec:
  fixes s :: "'a wireless_simu_mac_scheme"
  assumes "env_room env" "k_skbs s p = Some b1" "skb_ok b1" "HtcTxLock \<notin> set (k_held s)" "p < k_calls s"
    and live: "vif_live s v" "vid = of_int (vif_id (drv_priv (vifs s v)))"
  obtains ret s' where "mgmt_map_send n env v bid p s = Some (ret, s')"
    "mgmt_frame {p} s s'" "k_skbs s' p \<noteq> None" "txmgmt_idr s' = txmgmt_idr s"
    "ret \<noteq> 0 \<longrightarrow> k_maps s' = k_maps s \<and> \<not> env_grants env"
    "ret = 0 \<longrightarrow> (\<exists>f c b pa. k_skbs s' p = Some f \<and> k_skbs s' c = Some b \<and> k_calls s \<le> c \<and> c < k_calls s' \<and>
         k_maps s' = [(pa, skb_len b), (cb_paddr (skb_cb f), skb_len f)] @ k_maps s \<and>
         mgmt_parse env (payload b) = Some (req_for vid bid f))"
proof (cases "env_dma_map env (k_calls s)")
  case None
  then have "\<not> env_grants env"
    by (metis env_grants_def)
  then show ?thesis
    using None that [of "neg_errno EIO" "tick s"] assms(2) by (simp add: mgmt_map_send_def skb_get_def dma_map_single_def mgmt_frame_def, simp add: tick_def)
next
  case (Some pa)
  let ?f = "b1\<lparr>skb_cb := (skb_cb b1)\<lparr>cb_paddr := pa\<rparr>\<rparr>"
  let ?s1 = "(tick s)\<lparr>k_maps := (pa, skb_len b1) # k_maps s\<rparr>"
  have ok: "skb_ok ?f" "skb_len ?f = skb_len b1" "cb_paddr (skb_cb ?f) = pa"
    using assms(3) by simp_all
  obtain s2 where s2: "skb_set_paddr p pa ?s1 = Some s2" "k_skbs s2 p = Some ?f" "HtcTxLock \<notin> set (k_held s2)"
    "p < k_calls s2" "mgmt_frame {p} s s2" "txmgmt_idr s2 = txmgmt_idr s" "k_maps s2 = (pa, skb_len b1) # k_maps s"
    "vif_live s2 = vif_live s" "vifs s2 = vifs s"
  proof
    show "skb_set_paddr p pa ?s1 = Some (skb_set p ?f ?s1)"
      using assms(2) by (simp add: skb_set_paddr_def skb_get_def)
  qed (use assms(4,5) in \<open>simp_all add: mgmt_frame_def\<close>, simp_all add: tick_def skb_set_def)
  have kept: "k_skbs s' p = Some ?f" if "mgmt_frame {} s2 s'" for s'
    using that s2(2,4) by (simp add: mgmt_frame_def)
  have fr: "mgmt_frame {p} s s'" if "mgmt_frame {} s2 s'" for s'
    using mgmt_frame_trans [OF s2(5) mgmt_frame_mono [OF that]] by simp
  show ?thesis
    using assms(1) s2(2) ok(1) s2(3)
  proof (cases rule: mgmt_send_cases [of env s2 p ?f n vid bid])
    case (failed ret s')
    have "mgmt_frame {p} s (s'\<lparr>k_maps := k_maps s\<rparr>)"
      using fr [OF failed(4)] by (simp add: mgmt_frame_def)
    then show ?thesis
      using that [of ret "s'\<lparr>k_maps := k_maps s\<rparr>"] Some s2 failed ok kept [OF failed(4)] assms(2) live
      by (simp add: mgmt_map_send_def dma_map_single_def skb_get_def dma_unmap_single_def)
  next
    case (sent s' b pa')
    have "k_calls s \<le> k_calls s2"
      using s2(5) by (simp add: mgmt_frame_def)
    then have "\<exists>f c b pa. k_skbs s' p = Some f \<and> k_skbs s' c = Some b \<and> k_calls s \<le> c \<and> c < k_calls s' \<and>
         k_maps s' = [(pa, skb_len b), (cb_paddr (skb_cb f), skb_len f)] @ k_maps s \<and>
         mgmt_parse env (payload b) = Some (req_for vid bid f)"
      using sent ok s2(7) kept [OF sent(2)]
      by (intro exI [of _ ?f] exI [of _ "k_calls s2"] exI [of _ b] exI [of _ pa'] conjI) simp_all
    then show ?thesis
      using that [of 0 s'] Some s2 sent kept [OF sent(2)] fr [OF sent(2)] assms(2) live
      by (simp add: mgmt_map_send_def skb_get_def dma_map_single_def)
  qed
qed

lemma idr_okD:
  assumes "idr_ok lib" "0 \<le> lib_idr_alloc lib c ids 0 512"
  shows "lib_idr_alloc lib c ids 0 512 < 512" "lib_idr_alloc lib c ids 0 512 \<notin> set ids"
  using assms by (auto simp: idr_ok_def)

lemma mgmt_tx_wmi_unfold:
  fixes s :: "'a wireless_simu_mac_scheme"
  assumes "TxmgmtIdrLock \<notin> set (k_held s)" "k_skbs s p = Some b" "mgmt_needs_mic lib b = Some m"
    and id: "i = lib_idr_alloc lib (k_calls s) (map fst (txmgmt_idr s)) 0 512" "0 \<le> i"
    and mic: "(if m then skb_put p (wireless_simu_dp_rx_crypto_mic_len lib
        (wireless_simu_dp_tx_get_encrypt_type lib (cb_cipher (skb_cb b)))) ((tick s)\<lparr>txmgmt_idr := (i, p) # txmgmt_idr s\<rparr>)
        else Some ((tick s)\<lparr>txmgmt_idr := (i, p) # txmgmt_idr s\<rparr>)) = Some s1"
  shows "\<And>ret s'. mgmt_map_send n env v (of_int i) p s1 = Some (ret, s') \<Longrightarrow> k_held s' = k_held s \<Longrightarrow>
      wireless_simu_mgmt_tx_wmi lib n env v p s = Some (ret,
        if ret = 0 then s' else s'\<lparr>txmgmt_idr := filter (\<lambda>(j, _). j \<noteq> i) (txmgmt_idr s')\<rparr>)"
    and "mgmt_map_send n env v (of_int i) p s1 = None \<Longrightarrow> wireless_simu_mgmt_tx_wmi lib n env v p s = None"
proof -
  let ?s1 = "(tick s)\<lparr>txmgmt_idr := (i, p) # txmgmt_idr s\<rparr>"
  have lock: "spin_lock TxmgmtIdrLock s = Some (s\<lparr>k_held := TxmgmtIdrLock # k_held s\<rparr>)"
    using assms(1) by (simp add: spin_lock_def)
  have unlock: "spin_unlock TxmgmtIdrLock ((tick (s\<lparr>k_held := TxmgmtIdrLock # k_held s\<rparr>))
      \<lparr>txmgmt_idr := (i, p) # txmgmt_idr s\<rparr>) = Some ?s1"
    by (simp add: spin_unlock_def tick_def)
  let ?h = "s\<lparr>k_held := TxmgmtIdrLock # k_held s\<rparr>"
  have flds: "k_calls ?h = k_calls s" "txmgmt_idr ?h = txmgmt_idr s" "txmgmt_idr (tick ?h) = txmgmt_idr s"
    "(i < 0) = False"
    using id(2) by (simp_all add: tick_def)
  have get: "skb_get p ?s1 = Some b"
    using assms(2) by (simp add: skb_get_def)
  have last: "spin_lock TxmgmtIdrLock s' \<bind> (\<lambda>s. spin_unlock TxmgmtIdrLock
      (s\<lparr>txmgmt_idr := filter (\<lambda>(j, _). j \<noteq> i) (txmgmt_idr s)\<rparr>) \<bind> (\<lambda>s. Some (ret, s)))
     = Some (ret, s'\<lparr>txmgmt_idr := filter (\<lambda>(j, _). j \<noteq> i) (txmgmt_idr s')\<rparr>)"
    if "k_held s' = k_held s" for ret s'
    using assms(1) that by (simp add: spin_lock_def spin_unlock_def)
  have i512: "lib_idr_alloc lib (k_calls s) (map fst (txmgmt_idr s)) 0 WIRELESS_SIMU_TX_MGMT_NUM_PENDING_MAX = i"
    using id by (simp add: WIRELESS_SIMU_TX_MGMT_NUM_PENDING_MAX_def)
  note run = wireless_simu_mgmt_tx_wmi_def lock bind.bind_lunit Let_def flds i512 if_False unlock get assms(3) mic
  show "wireless_simu_mgmt_tx_wmi lib n env v p s = Some (ret,
      if ret = 0 then s' else s'\<lparr>txmgmt_idr := filter (\<lambda>(j, _). j \<noteq> i) (txmgmt_idr s')\<rparr>)"
    if "mgmt_map_send n env v (of_int i) p s1 = Some (ret, s')" "k_held s' = k_held s" for ret s'
    unfolding run that(1) prod.case using last [OF that(2), of ret] by simp
  show "wireless_simu_mgmt_tx_wmi lib n env v p s = None" if "mgmt_map_send n env v (of_int i) p s1 = None"
    unfolding run that by simp
qed

lemma mgmt_tx_wmi_ok:
  fixes s :: "'a wireless_simu_mac_scheme"
  assumes "env_room env" "idr_ok lib" "k_skbs s p = Some b" "frame_ok lib b" "p < k_calls s"
    and "TxmgmtIdrLock \<notin> set (k_held s)" "HtcTxLock \<notin> set (k_held s)" "vif_live s v" "vid = vif_id (drv_priv (vifs s v))"
  shows "\<exists>ret s'. wireless_simu_mgmt_tx_wmi lib n env v p s = Some (ret, s') \<and> mgmt_outcome env vid p s ret s' \<and>
    (env_grants env \<and> 0 \<le> lib_idr_alloc lib (k_calls s) (map fst (txmgmt_idr s)) 0 512 \<longrightarrow> ret = 0) \<and>
    (lib_idr_alloc lib (k_calls s) (map fst (txmgmt_idr s)) 0 512 < 0 \<longrightarrow> k_skbs s' = k_skbs s \<and> ret = neg_errno ENOSPC)"
proof (cases "lib_idr_alloc lib (k_calls s) (map fst (txmgmt_idr s)) 0 512 < 0")
  case True
  then have "wireless_simu_mgmt_tx_wmi lib n env v p s = Some (neg_errno ENOSPC, tick s)"
    using assms(6) by (simp add: wireless_simu_mgmt_tx_wmi_def spin_lock_def spin_unlock_def Let_def tick_def
        WIRELESS_SIMU_TX_MGMT_NUM_PENDING_MAX_def)
  then show ?thesis
    using assms(3) True by (auto simp: mgmt_outcome_def mgmt_frame_def tick_def mac_rest_def)
next
  case False
  define i where "i = lib_idr_alloc lib (k_calls s) (map fst (txmgmt_idr s)) 0 512"
  have i: "0 \<le> i" "i < 512" "i \<notin> fst ` set (txmgmt_idr s)"
    using False idr_okD [OF assms(2), of "k_calls s" "map fst (txmgmt_idr s)"] by (simp_all add: i_def)
  let ?s1 = "(tick s)\<lparr>txmgmt_idr := (i, p) # txmgmt_idr s\<rparr>"
  obtain m where m: "mgmt_needs_mic lib b = Some m"
    using frame_ok_needs_mic [OF assms(4)] by blast
  have g1: "k_skbs ?s1 p = Some b"
    using assms(3) by simp
  obtain b1 where b1: "skb_ok b1" "skb_cb b1 = skb_cb b"
    "(if m then skb_put p (wireless_simu_dp_rx_crypto_mic_len lib
        (wireless_simu_dp_tx_get_encrypt_type lib (cb_cipher (skb_cb b)))) ?s1 else Some ?s1) = Some (skb_set p b1 ?s1)"
    by (rule mgmt_mic_exec [OF g1 assms(4) m])
  let ?s2 = "skb_set p b1 ?s1"
  have g2: "k_skbs ?s2 p = Some b1" "HtcTxLock \<notin> set (k_held ?s2)" "p < k_calls ?s2" "k_maps ?s2 = k_maps s"
    "txmgmt_idr ?s2 = (i, p) # txmgmt_idr s" "mgmt_frame {p} s ?s2"
    using assms(5,7) by (simp_all add: mgmt_frame_def, simp_all add: tick_def skb_set_def)
  have live: "vif_live ?s2 v" "of_int vid = (of_int (vif_id (drv_priv (vifs ?s2 v))) :: u32)"
    using assms(8,9) by (simp_all add: tick_def skb_set_def)
  obtain ret s' where t: "mgmt_map_send n env v (of_int i) p ?s2 = Some (ret, s')"
    "mgmt_frame {p} ?s2 s'" "k_skbs s' p \<noteq> None" "txmgmt_idr s' = txmgmt_idr ?s2"
    "ret \<noteq> 0 \<longrightarrow> k_maps s' = k_maps ?s2 \<and> \<not> env_grants env"
    "ret = 0 \<longrightarrow> (\<exists>f c b pa. k_skbs s' p = Some f \<and> k_skbs s' c = Some b \<and> k_calls ?s2 \<le> c \<and> c < k_calls s' \<and>
         k_maps s' = [(pa, skb_len b), (cb_paddr (skb_cb f), skb_len f)] @ k_maps ?s2 \<and>
         mgmt_parse env (payload b) = Some (req_for (of_int vid) (of_int i) f))"
    by (rule mgmt_try_exec [OF assms(1) g2(1) b1(1) g2(2,3) live])
  have fr: "mgmt_frame {p} s s'"
    by (rule mgmt_frame_trans [OF g2(6) t(2)])
  have h: "k_held s' = k_held s"
    using fr by (intro mac_rest_eqD) (simp add: mgmt_frame_def)
  have run: "wireless_simu_mgmt_tx_wmi lib n env v p s = Some (ret,
    if ret = 0 then s' else s'\<lparr>txmgmt_idr := filter (\<lambda>(j, _). j \<noteq> i) (txmgmt_idr s')\<rparr>)"
    by (rule mgmt_tx_wmi_unfold(1) [OF assms(6,3) m i_def i(1) b1(3) t(1) h])
  have fr': "mgmt_frame {p} s (s'\<lparr>txmgmt_idr := txmgmt_idr s\<rparr>)"
    using fr by (simp add: mgmt_frame_def)
  show ?thesis
  proof (cases "ret = 0")
    case True
    have c: "k_calls s \<le> k_calls ?s2"
      by simp
    obtain f c b pa where "k_skbs s' p = Some f" "k_skbs s' c = Some b" "k_calls ?s2 \<le> c" "c < k_calls s'"
         "k_maps s' = [(pa, skb_len b), (cb_paddr (skb_cb f), skb_len f)] @ k_maps s"
         "mgmt_parse env (payload b) = Some (req_for (of_int vid) (of_int i) f)"
      using t(6) True g2(4) by auto
    then have "mgmt_outcome env vid p s ret s'"
      unfolding mgmt_outcome_def if_P [OF True]
      using fr t(4) g2(5) i c
      by (intro conjI exI [of _ i] exI [of _ f] exI [of _ c] exI [of _ b] exI [of _ pa]) simp_all
    then show ?thesis
      using run True \<open>\<not> lib_idr_alloc _ _ _ _ _ < 0\<close> by simp
  next
    case False
    then show ?thesis
      using run fr' t(3-5) g2(4,5) \<open>\<not> lib_idr_alloc _ _ _ _ _ < 0\<close> idr_remove_fresh [OF i(3)] by (simp add: mgmt_outcome_def)
  qed
qed

text \<open>
  A frame whose interface is gone: with an identifier and the mapping granted, the read of the
  interface's number faults.
\<close>

lemma mgmt_tx_wmi_gone:
  fixes s :: "'a wireless_simu_mac_scheme"
  assumes "k_skbs s p = Some b" "frame_ok lib b" "TxmgmtIdrLock \<notin> set (k_held s)" "\<not> vif_live s v" "env_grants env"
    "0 \<le> lib_idr_alloc lib (k_calls s) (map fst (txmgmt_idr s)) 0 512"
  shows "wireless_simu_mgmt_tx_wmi lib n env v p s = None"
proof -
  define i where "i = lib_idr_alloc lib (k_calls s) (map fst (txmgmt_idr s)) 0 512"
  let ?s1 = "(tick s)\<lparr>txmgmt_idr := (i, p) # txmgmt_idr s\<rparr>"
  obtain m where m: "mgmt_needs_mic lib b = Some m"
    using frame_ok_needs_mic [OF assms(2)] by blast
  have g1: "k_skbs ?s1 p = Some b"
    using assms(1) by simp
  obtain b1 where b1: "(if m then skb_put p (wireless_simu_dp_rx_crypto_mic_len lib
        (wireless_simu_dp_tx_get_encrypt_type lib (cb_cipher (skb_cb b)))) ?s1 else Some ?s1) = Some (skb_set p b1 ?s1)"
    by (rule mgmt_mic_exec [OF g1 assms(2) m])
  let ?s2 = "skb_set p b1 ?s1"
  obtain pa where pa: "env_dma_map env (k_calls ?s2) = Some pa"
    using assms(5) unfolding env_grants_def by (metis not_None_eq)
  have "\<not> vif_live ?s2 v"
    using assms(4) by (simp add: tick_def skb_set_def)
  then have "mgmt_map_send n env v (of_int i) p ?s2 = None"
    using pa by (simp add: mgmt_map_send_def skb_get_def dma_map_single_def skb_set_paddr_def, simp add: skb_set_def tick_def)
  then show ?thesis
    using mgmt_tx_wmi_unfold(2) [OF assms(3,1) m i_def _ b1] assms(6) by (simp add: i_def)
qed

lemma idr_servesD: "idr_serves lib \<Longrightarrow> lo \<le> i \<Longrightarrow> i < hi \<Longrightarrow> i \<notin> set ids \<Longrightarrow> 0 \<le> lo \<Longrightarrow> 0 \<le> lib_idr_alloc lib c ids lo hi"
  unfolding idr_serves_def by blast

lemma sample_idr_cases:
  obtains (none) "sample_idr c ids lo hi = - 28" "\<And>i. lo \<le> i \<Longrightarrow> i < hi \<Longrightarrow> i \<in> set ids"
  | (one) "lo \<le> sample_idr c ids lo hi" "sample_idr c ids lo hi < hi" "sample_idr c ids lo hi \<notin> set ids"
proof (cases "filter (\<lambda>i. i \<notin> set ids) [lo..hi - 1]")
  case Nil
  then show ?thesis
    using none by (auto simp: sample_idr_def filter_empty_conv)
next
  case (Cons i xs)
  have "i \<in> set (filter (\<lambda>i. i \<notin> set ids) [lo..hi - 1])"
    using Cons by simp
  then have "lo \<le> i" "i < hi" "i \<notin> set ids"
    by simp_all
  then show ?thesis
    using one Cons by (simp add: sample_idr_def)
qed

lemma sample_idr_ok: "idr_ok sample_lib" "idr_serves sample_lib"
proof -
  have [simp]: "lib_idr_alloc sample_lib = sample_idr"
    by (simp add: sample_lib_def)
  have "lo \<le> sample_idr c ids lo hi \<and> sample_idr c ids lo hi < hi \<and> sample_idr c ids lo hi \<notin> set ids"
    if "0 \<le> sample_idr c ids lo hi" for c ids lo hi
    using that by (cases rule: sample_idr_cases [of c ids lo hi]) simp_all
  then show "idr_ok sample_lib"
    by (simp add: idr_ok_def)
  have "0 \<le> sample_idr c ids lo hi" if "\<exists>i. lo \<le> i \<and> i < hi \<and> i \<notin> set ids" "0 \<le> lo" for c ids lo hi
    using that by (cases rule: sample_idr_cases [of c ids lo hi]) auto
  then show "idr_serves sample_lib"
    by (simp add: idr_serves_def)
qed

lemma sample_env_grants: "env_grants sample_env"
  by (simp add: env_grants_def sample_env_def)

lemma sample_frame_frame: "frame_ok sample_lib sample_frame" "frame_control sample_frame = Some 0x40d0"
  by (simp_all add: frame_ok_def sample_frame_ok skb_len_def skb_tailroom_def mic_room_def sample_lib_def
      frame_control_def, simp_all add: sample_frame_def)

section \<open>Property\<close>

text \<open>
  C10: Handing a management frame to the firmware keeps the books. For a frame with at least two bytes
  and tailroom for the longest integrity code, whose interface exists, it returns without fault on
  every branch. On success a new identifier below 512 stands for the frame, exactly two mappings are
  added, of the frame and of the command buffer, and the bytes of the command buffer are the
  request for this frame, with the interface, the identifier and the bus address of the mapping;
  on failure identifiers and mappings are exactly those before. No lock, no other buffer and no
  other part of the driver's state changes. With buffers, mappings and a free identifier granted
  it succeeds; but when the interface has been freed meanwhile, it then reads freed memory.
\<close>

theorem mgmt_tx_balanced:
  fixes s :: "'a wireless_simu_mac_scheme"
  assumes "env_room env" "idr_ok lib" "k_skbs s p = Some b" "frame_ok lib b" "p < k_calls s"
    and "TxmgmtIdrLock \<notin> set (k_held s)" "HtcTxLock \<notin> set (k_held s)"
  shows "(vif_live s v \<longrightarrow> (\<exists>ret s'. wireless_simu_mgmt_tx_wmi lib n env v p s = Some (ret, s') \<and>
      mgmt_outcome env (vif_id (drv_priv (vifs s v))) p s ret s' \<and>
      (env_grants env \<and> 0 \<le> lib_idr_alloc lib (k_calls s) (map fst (txmgmt_idr s)) 0 512 \<longrightarrow> ret = 0))) \<and>
    (\<not> vif_live s v \<and> env_grants env \<and> 0 \<le> lib_idr_alloc lib (k_calls s) (map fst (txmgmt_idr s)) 0 512 \<longrightarrow>
      wireless_simu_mgmt_tx_wmi lib n env v p s = None)"
  using mgmt_tx_wmi_ok [OF assms _ refl, of v n] mgmt_tx_wmi_gone [OF assms(3,4,6), of v env n] by blast

theorem mgmt_tx_balanced_witness:
  "\<exists>s'. wireless_simu_mgmt_tx_wmi sample_lib 0 sample_env 2 3 sample_mac = Some (0, s') \<and>
    mgmt_outcome sample_env (vif_id (drv_priv sample_vif)) 3 sample_mac 0 s'"
proof -
  have "0 \<le> lib_idr_alloc sample_lib 10 [] 0 512"
    by (rule idr_servesD [OF sample_idr_ok(2), of _ 0]) simp_all
  then show ?thesis
    using mgmt_tx_balanced [OF sample_env_room sample_idr_ok(1) sample_mac_facts(1) sample_frame_frame(1), of 2 0]
      sample_mac_facts sample_env_grants by auto
qed

end
