(* ===== verification/Mac_Iface.thy ===== *)
theory Mac_Iface
  imports Mgmt_Tx
begin

text \<open>
  The interface table of the mac80211 callbacks (\<^verbatim>\<open>add_interface\<close>, \<^verbatim>\<open>remove_interface\<close>), the callbacks that
  configure filters and queues, the mutex they share, and the cipher tables.
\<close>

section \<open>Specification\<close>

definition free_slots :: "'b option list \<Rightarrow> nat" where
  "free_slots xs = length (filter (\<lambda>x. x = None) xs)"

text \<open>Adding an interface, on both of its branches.\<close>

definition fresh_vif :: "vifp \<Rightarrow> 'a wireless_simu_mac_scheme \<Rightarrow> 'a wireless_simu_mac_scheme" where
  "fresh_vif v s = set_vif v ((vifs s v)\<lparr>drv_priv := simu_vif_zero\<rparr>) s"

definition claim_slot :: "vifp \<Rightarrow> 'a wireless_simu_mac_scheme \<Rightarrow> 'a wireless_simu_mac_scheme" where
  "claim_slot v s = set_vif v ((vifs s v)\<lparr>drv_priv := simu_vif_zero\<lparr>vif_id := int (free_slot (vif s))\<rparr>\<rparr>)
     (s\<lparr>vif := (vif s)[free_slot (vif s) := Some v]\<rparr>)"

fun add_interfaces ::
  "mac_lib \<Rightarrow> vifp list \<Rightarrow> 'a wireless_simu_mac_scheme \<Rightarrow> (int list \<times> 'a wireless_simu_mac_scheme) option" where
  "add_interfaces lib [] s = Some ([], s)"
| "add_interfaces lib (v # vs) s = do {
     (r, s) \<leftarrow> wireless_mac80211_add_interface lib v s;
     (rs, s) \<leftarrow> add_interfaces lib vs s;
     Some (r # rs, s)
   }"

text \<open>The queue parameters of one access category.\<close>

definition conf_ac ::
  "mac_lib \<Rightarrow> u16 \<Rightarrow> ieee80211_tx_queue_params \<Rightarrow> wireless_simu_vif \<Rightarrow> wireless_simu_vif option" where
  "conf_ac lib ac ps x =
     (if ac = lib_ac lib IEEE80211_AC_VO then Some (x\<lparr>ac_vo := set_tx_params ps (ac_vo x)\<rparr>)
      else if ac = lib_ac lib IEEE80211_AC_BE then Some (x\<lparr>ac_be := set_tx_params ps (ac_be x)\<rparr>)
      else if ac = lib_ac lib IEEE80211_AC_BK then Some (x\<lparr>ac_bk := set_tx_params ps (ac_bk x)\<rparr>)
      else if ac = lib_ac lib IEEE80211_AC_VI then Some (x\<lparr>ac_vi := set_tx_params ps (ac_vi x)\<rparr>)
      else None)"

definition ac_params :: "ieee80211_ac \<Rightarrow> wireless_simu_vif \<Rightarrow> wireless_simu_tx_params_arg" where
  "ac_params c x = (case c of IEEE80211_AC_VO \<Rightarrow> ac_vo x | IEEE80211_AC_VI \<Rightarrow> ac_vi x
     | IEEE80211_AC_BE \<Rightarrow> ac_be x | IEEE80211_AC_BK \<Rightarrow> ac_bk x)"

definition cipher_mic :: "mac_lib \<Rightarrow> cipher_suite \<Rightarrow> nat" where
  "cipher_mic lib c = (case c of WLAN_CIPHER_SUITE_CCMP \<Rightarrow> lib_ccmp_mic_len lib
     | WLAN_CIPHER_SUITE_CCMP_256 \<Rightarrow> lib_ccmp_256_mic_len lib | WLAN_CIPHER_SUITE_GCMP \<Rightarrow> lib_gcmp_mic_len lib
     | WLAN_CIPHER_SUITE_GCMP_256 \<Rightarrow> lib_gcmp_mic_len lib | _ \<Rightarrow> 0)"

section \<open>Lemmas\<close>

lemma free_slot_le: "free_slot xs \<le> length xs"
  by (induction xs) auto

lemma free_slot_full: "free_slot xs = length xs \<longleftrightarrow> None \<notin> set xs"
  by (induction xs) auto

lemma free_slot_first:
  assumes "None \<in> set xs"
  shows "free_slot xs < length xs" "xs ! free_slot xs = None" "\<And>j. j < free_slot xs \<Longrightarrow> xs ! j \<noteq> None"
proof -
  show "free_slot xs < length xs"
    using assms free_slot_le [of xs] free_slot_full [of xs] by linarith
  show "xs ! free_slot xs = None"
    using assms by (induction xs) auto
  show "xs ! j \<noteq> None" if "j < free_slot xs" for j
    using assms that
  proof (induction xs arbitrary: j)
    case (Cons x xs)
    then show ?case
      by (cases j) (auto split: if_splits)
  qed simp
qed

lemma free_slots_take:
  "None \<in> set xs \<Longrightarrow> free_slots xs = Suc (free_slots (xs[free_slot xs := Some v]))"
  by (induction xs) (auto simp: free_slots_def)

lemma free_slots_zero: "free_slots xs = 0 \<longleftrightarrow> None \<notin> set xs"
  by (induction xs) (auto simp: free_slots_def)

lemma add_interface_exec:
  assumes "MacConfMutex \<notin> set (k_held s)"
  shows "wireless_mac80211_add_interface lib v s =
    (if None \<in> set (vif s) then Some (neg_errno EINVAL, claim_slot v s)
     else Some (neg_errno EBUSY, (fresh_vif v s)\<lparr>k_held := MacConfMutex # k_held s\<rparr>))"
  using assms free_slot_full [of "vif s"]
  by (auto simp: wireless_mac80211_add_interface_def Let_def spin_lock_def spin_unlock_def set_vif_def
      claim_slot_def fresh_vif_def)

lemma add_interfaces_until_full:
  assumes "MacConfMutex \<notin> set (k_held s)" "length vs = Suc (free_slots (vif s))"
  shows "\<exists>s'. add_interfaces lib vs s =
      Some (replicate (free_slots (vif s)) (neg_errno EINVAL) @ [neg_errno EBUSY], s') \<and>
    MacConfMutex \<in> set (k_held s') \<and> mgmt_tx_queue s' = mgmt_tx_queue s \<and> k_skbs s' = k_skbs s"
  using assms
proof (induction vs arbitrary: s)
  case (Cons v vs)
  show ?case
  proof (cases "None \<in> set (vif s)")
    case True
    let ?t = "claim_slot v s"
    have t: "MacConfMutex \<notin> set (k_held ?t)" "free_slots (vif s) = Suc (free_slots (vif ?t))"
      "mgmt_tx_queue ?t = mgmt_tx_queue s" "k_skbs ?t = k_skbs s"
      using Cons.prems(1) free_slots_take [OF True, of v] by (simp_all add: claim_slot_def set_vif_def)
    then show ?thesis
      using Cons.IH [OF t(1)] Cons.prems True add_interface_exec [OF Cons.prems(1), of lib v] by auto
  next
    case False
    then have "vs = []" "free_slots (vif s) = 0"
      using Cons.prems(2) free_slots_zero [of "vif s"] by simp_all
    then show ?thesis
      using add_interface_exec [OF Cons.prems(1), of lib v] False by (simp add: fresh_vif_def set_vif_def)
  qed
qed simp

text \<open>
  The callbacks that take the configuration mutex, as an interface: a call made while the mutex is
  held does not return, so one that returns was made with the mutex free.
\<close>

locale guarded_op =
  fixes op :: "'s kernel_scheme \<Rightarrow> 't option" and guard :: lock
  assumes blocks: "guard \<in> set (k_held s) \<Longrightarrow> op s = None"
begin

lemma returns_free: "op s = Some r \<Longrightarrow> guard \<notin> set (k_held s)"
  using blocks [of s] by auto

end

interpretation add_op: guarded_op "wireless_mac80211_add_interface lib v" MacConfMutex
  by unfold_locales (simp add: wireless_mac80211_add_interface_def spin_lock_def set_vif_def Let_def)

interpretation remove_op: guarded_op "wireless_mac80211_remove_interface v" MacConfMutex
  by unfold_locales (simp add: wireless_mac80211_remove_interface_def spin_lock_def)

interpretation filter_op: guarded_op "wireless_mac80211_configure_filter lib fl" MacConfMutex
  by unfold_locales (simp add: wireless_mac80211_configure_filter_def spin_lock_def)

interpretation conf_op: guarded_op "wireless_mac80211_conf_tx lib v ac ps" MacConfMutex
  by unfold_locales (simp add: wireless_mac80211_conf_tx_def spin_lock_def)

lemma remove_exec:
  assumes "wireless_mac80211_remove_interface v s = Some s'" "MacConfMutex \<notin> set (k_held s)"
  shows "\<exists>i < length (vif s). s' = s\<lparr>vif := (vif s)[i := None]\<rparr> \<and> int i = vif_id (drv_priv (vifs s v))"
  using assms
  by (auto simp: wireless_mac80211_remove_interface_def spin_lock_def spin_unlock_def list_put_def Let_def
      bind_eq_Some_conv split: if_splits intro!: exI [of _ "nat (vif_id (drv_priv (vifs s v)))"])

lemma filter_exec:
  assumes "MacConfMutex \<notin> set (k_held s)"
  shows "wireless_mac80211_configure_filter lib fl s =
    Some (fl AND SUPPORT_FILTERS lib, s\<lparr>filter_flags := fl AND SUPPORT_FILTERS lib\<rparr>)"
  using assms by (simp add: wireless_mac80211_configure_filter_def spin_lock_def spin_unlock_def Let_def)

lemma conf_tx_exec:
  assumes "MacConfMutex \<notin> set (k_held s)"
  shows "wireless_mac80211_conf_tx lib v ac ps s =
    (case conf_ac lib ac ps (drv_priv (vifs s v)) of
       None \<Rightarrow> Some (neg_errno EINVAL, s)
     | Some x \<Rightarrow> Some (0, set_vif v ((vifs s v)\<lparr>drv_priv := x\<rparr>) s))"
  using assms unfolding wireless_mac80211_conf_tx_def Let_def conf_ac_def [symmetric]
  by (simp add: spin_lock_def spin_unlock_def set_vif_def split: option.split)

lemma conf_ac_params:
  assumes "inj (lib_ac lib)"
  obtains x' where "conf_ac lib (lib_ac lib c) ps x = Some x'" "ac_params c x' = set_tx_params ps (ac_params c x)"
    "\<And>d. d \<noteq> c \<Longrightarrow> ac_params d x' = ac_params d x" "vif_id x' = vif_id x"
proof -
  have eq: "lib_ac lib a = lib_ac lib b \<longleftrightarrow> a = b" for a b
    using assms by (simp add: inj_eq)
  show ?thesis
    by (cases c; rule that [of "the (conf_ac lib (lib_ac lib c) ps x)"])
      (simp_all add: conf_ac_def eq ac_params_def split: ieee80211_ac.splits)
qed

lemma work_one_blocks:
  assumes "MacConfMutex \<in> set (k_held s)" "k_skbs s p = Some b" "cb_vif (skb_cb b) = Some v"
  shows "mgmt_work_one lib n env p s = None"
  using assms by (simp add: mgmt_work_one_def skb_get_def spin_lock_def)

section \<open>Properties\<close>

text \<open>
  C33: Adding an interface never succeeds. While the table has a free slot the callback takes the
  first one, records the interface and its slot number, and returns -EINVAL for every interface
  type, because the check of the type is true for all of them; the slot stays taken. Removing the
  interface afterwards gives exactly that slot back.
\<close>

theorem add_interface_rejects:
  fixes s :: "'a wireless_simu_mac_scheme"
  assumes "MacConfMutex \<notin> set (k_held s)" "None \<in> set (vif s)"
  shows "\<exists>i s1. i < length (vif s) \<and> vif s ! i = None \<and> (\<forall>j < i. vif s ! j \<noteq> None) \<and>
    wireless_mac80211_add_interface lib v s = Some (neg_errno EINVAL, s1) \<and>
    vif s1 = (vif s)[i := Some v] \<and> vif_id (drv_priv (vifs s1 v)) = int i \<and> k_held s1 = k_held s \<and>
    (\<exists>s2. wireless_mac80211_remove_interface v s1 = Some s2 \<and> vif s2 = vif s \<and> k_held s2 = k_held s)"
proof -
  let ?i = "free_slot (vif s)" and ?s = "claim_slot v s"
  note slot = free_slot_first [OF assms(2)]
  have s1: "vif ?s = (vif s)[?i := Some v]" "vif_id (drv_priv (vifs ?s v)) = int ?i" "k_held ?s = k_held s"
    by (simp_all add: claim_slot_def set_vif_def)
  have "(vif s)[?i := None] = vif s"
    using slot(2) by (metis list_update_id)
  then have "wireless_mac80211_remove_interface v ?s = Some (?s\<lparr>vif := vif s\<rparr>)"
    using s1 slot(1) assms(1)
    by (simp add: wireless_mac80211_remove_interface_def spin_lock_def spin_unlock_def list_put_def Let_def)
  then show ?thesis
    using slot s1 add_interface_exec [OF assms(1), of lib v] assms(2) by (intro exI [of _ ?i] exI [of _ ?s]) auto
qed

theorem add_interface_rejects_witness:
  "\<exists>s1. wireless_mac80211_add_interface sample_lib 7 sample_mac = Some (neg_errno EINVAL, s1) \<and>
    vif s1 = [Some 7, None, None, None]"
proof -
  have "\<forall>j < i. vif sample_mac ! j \<noteq> None \<Longrightarrow> i = 0" for i
    by (auto simp: sample_mac_facts)
  then show ?thesis
    using add_interface_rejects [of sample_mac sample_lib 7] by (fastforce simp: sample_mac_facts)
qed

text \<open>
  C34: One interface more than there are free slots blocks the driver for good. The calls that find
  a slot return -EINVAL and keep it, the next one returns -EBUSY with the configuration mutex
  still held, and from then on adding or removing an interface, configuring filters or queues and
  the worker on any frame that names an interface wait for the mutex for ever.
\<close>

theorem full_table_deadlocks:
  fixes s :: "'a wireless_simu_mac_scheme"
  assumes "MacConfMutex \<notin> set (k_held s)" "length vs = Suc (free_slots (vif s))"
  shows "\<exists>s'. add_interfaces lib vs s =
      Some (replicate (free_slots (vif s)) (neg_errno EINVAL) @ [neg_errno EBUSY], s') \<and>
    (\<forall>v. wireless_mac80211_add_interface lib v s' = None) \<and>
    (\<forall>v. wireless_mac80211_remove_interface v s' = None) \<and>
    (\<forall>fl. wireless_mac80211_configure_filter lib fl s' = None) \<and>
    (\<forall>v ac ps. wireless_mac80211_conf_tx lib v ac ps s' = None) \<and>
    (\<forall>p b v n env. k_skbs s p = Some b \<and> cb_vif (skb_cb b) = Some v \<longrightarrow> mgmt_work_one lib n env p s' = None)"
proof -
  obtain s' where s': "add_interfaces lib vs s =
      Some (replicate (free_slots (vif s)) (neg_errno EINVAL) @ [neg_errno EBUSY], s')"
    "MacConfMutex \<in> set (k_held s')" "k_skbs s' = k_skbs s"
    using add_interfaces_until_full [OF assms, of lib] by blast
  show ?thesis
    using s'(1,3) add_op.blocks [OF s'(2)] remove_op.blocks [OF s'(2)] filter_op.blocks [OF s'(2)]
      conf_op.blocks [OF s'(2)] work_one_blocks [OF s'(2)] by (intro exI [of _ s']) simp
qed

theorem full_table_deadlocks_witness:
  "\<exists>s'. add_interfaces sample_lib [1, 2, 3, 4, 5] sample_mac = Some ([- 22, - 22, - 22, - 22, - 16], s') \<and>
    wireless_mac80211_configure_filter sample_lib 2 s' = None \<and> mgmt_work_one sample_lib 0 sample_env 3 s' = None"
proof -
  have free: "free_slots (vif sample_mac) = 4" "cb_vif (skb_cb sample_frame) = Some 0"
    by (simp_all add: sample_mac_facts free_slots_def sample_frame_def)
  have pre: "MacConfMutex \<notin> set (k_held sample_mac)" "length [1, 2, 3, 4, 5 :: vifp] = Suc (free_slots (vif sample_mac))"
    by (simp_all add: sample_mac_facts free_slots_def)
  obtain s' where s': "add_interfaces sample_lib [1, 2, 3, 4, 5] sample_mac
      = Some (replicate 4 (neg_errno EINVAL) @ [neg_errno EBUSY], s')"
    "\<forall>fl. wireless_mac80211_configure_filter sample_lib fl s' = None"
    "\<forall>p b v n env. k_skbs sample_mac p = Some b \<and> cb_vif (skb_cb b) = Some v \<longrightarrow> mgmt_work_one sample_lib n env p s' = None"
    using full_table_deadlocks [OF pre, of sample_lib] unfolding free by blast
  have "mgmt_work_one sample_lib 0 sample_env 3 s' = None"
    using s'(3) sample_mac_facts(1) free(2) by blast
  then show ?thesis
    using s'(1,2) by (simp add: numeral_eq_Suc)
qed

text \<open>
  C28: Configuring a transmit queue. For each access category the parameters of that category of
  that interface become the given ones: aifs, cw_min, cw_max and txop each in its own field. Its
  admission and acknowledgement fields, the interface's number, the other categories and the other
  interfaces stay as they are; for any other category number the callback
  returns -EINVAL and changes nothing.
\<close>

theorem conf_tx_correct:
  fixes s :: "'a wireless_simu_mac_scheme"
  assumes "MacConfMutex \<notin> set (k_held s)" "inj (lib_ac lib)"
  shows "(\<exists>s'. wireless_mac80211_conf_tx lib v (lib_ac lib c) ps s = Some (0, s') \<and>
      ac_params c (drv_priv (vifs s' v)) = \<lparr>acm = acm (ac_params c (drv_priv (vifs s v))), aifs = q_aifs ps,
        cwmin = q_cw_min ps, cwmax = q_cw_max ps, txop = q_txop ps, no_ack = no_ack (ac_params c (drv_priv (vifs s v)))\<rparr> \<and>
      vif_id (drv_priv (vifs s' v)) = vif_id (drv_priv (vifs s v)) \<and>
      (\<forall>d. d \<noteq> c \<longrightarrow> ac_params d (drv_priv (vifs s' v)) = ac_params d (drv_priv (vifs s v))) \<and>
      (\<forall>w. w \<noteq> v \<longrightarrow> vifs s' w = vifs s w) \<and> k_held s' = k_held s) \<and>
    (ac \<notin> range (lib_ac lib) \<longrightarrow> wireless_mac80211_conf_tx lib v ac ps s = Some (neg_errno EINVAL, s))"
proof
  obtain x where x: "conf_ac lib (lib_ac lib c) ps (drv_priv (vifs s v)) = Some x"
    "ac_params c x = set_tx_params ps (ac_params c (drv_priv (vifs s v)))"
    "\<And>d. d \<noteq> c \<Longrightarrow> ac_params d x = ac_params d (drv_priv (vifs s v))" "vif_id x = vif_id (drv_priv (vifs s v))"
    using conf_ac_params [OF assms(2), of c ps "drv_priv (vifs s v)"] by blast
  then show "\<exists>s'. wireless_mac80211_conf_tx lib v (lib_ac lib c) ps s = Some (0, s') \<and>
      ac_params c (drv_priv (vifs s' v)) = \<lparr>acm = acm (ac_params c (drv_priv (vifs s v))), aifs = q_aifs ps,
        cwmin = q_cw_min ps, cwmax = q_cw_max ps, txop = q_txop ps, no_ack = no_ack (ac_params c (drv_priv (vifs s v)))\<rparr> \<and>
      vif_id (drv_priv (vifs s' v)) = vif_id (drv_priv (vifs s v)) \<and>
      (\<forall>d. d \<noteq> c \<longrightarrow> ac_params d (drv_priv (vifs s' v)) = ac_params d (drv_priv (vifs s v))) \<and>
      (\<forall>w. w \<noteq> v \<longrightarrow> vifs s' w = vifs s w) \<and> k_held s' = k_held s"
    by (simp add: conf_tx_exec [OF assms(1)] set_vif_def set_tx_params_def)
  show "ac \<notin> range (lib_ac lib) \<longrightarrow> wireless_mac80211_conf_tx lib v ac ps s = Some (neg_errno EINVAL, s)"
    by (auto simp: conf_tx_exec [OF assms(1)] conf_ac_def)
qed

theorem conf_tx_correct_witness:
  "\<exists>s'. wireless_mac80211_conf_tx sample_lib 7 2 \<lparr>q_txop = 3, q_cw_min = 15, q_cw_max = 1023, q_aifs = 2\<rparr> sample_mac
      = Some (0, s') \<and> cwmax (ac_be (drv_priv (vifs s' 7))) = 1023 \<and> cwmax (ac_vo (drv_priv (vifs s' 7))) = 0"
proof -
  have inj: "inj (lib_ac sample_lib)"
    by (rule injI) (simp add: sample_lib_def sample_ac_def split: ieee80211_ac.splits)
  let ?p = "\<lparr>q_txop = 3, q_cw_min = 15, q_cw_max = 1023, q_aifs = 2\<rparr> :: ieee80211_tx_queue_params"
  have be: "lib_ac sample_lib IEEE80211_AC_BE = 2"
    by (simp add: sample_lib_def sample_ac_def)
  obtain s' where s': "wireless_mac80211_conf_tx sample_lib 7 2 ?p sample_mac = Some (0, s')"
      "ac_params IEEE80211_AC_BE (drv_priv (vifs s' 7))
        = \<lparr>acm = acm (ac_params IEEE80211_AC_BE (drv_priv (vifs sample_mac 7))), aifs = 2, cwmin = 15, cwmax = 1023, txop = 3,
            no_ack = no_ack (ac_params IEEE80211_AC_BE (drv_priv (vifs sample_mac 7)))\<rparr>"
      "\<forall>d. d \<noteq> IEEE80211_AC_BE \<longrightarrow> ac_params d (drv_priv (vifs s' 7)) = ac_params d (drv_priv (vifs sample_mac 7))"
    using conf_tx_correct [OF _ inj, of sample_mac 7 IEEE80211_AC_BE ?p 0] be by (auto simp: sample_mac_facts)
  then show ?thesis
    using s'(3) [rule_format, of IEEE80211_AC_VO]
    by (simp add: ac_params_def sample_mac_facts sample_vif_def simu_vif_zero_def tx_params_zero_def)
qed

text \<open>
  The room added to a protected frame is the length of the integrity code of its cipher: the
  two tables compose to the MIC length of the suite for the counter mode ciphers and to 0 for the
  others and for selectors that name no suite.
\<close>

theorem cipher_tables_compose:
  assumes "inj (lib_cipher lib)"
  shows "wireless_simu_dp_rx_crypto_mic_len lib (wireless_simu_dp_tx_get_encrypt_type lib (lib_cipher lib c)) = cipher_mic lib c \<and>
    (w \<notin> range (lib_cipher lib) \<longrightarrow>
     wireless_simu_dp_rx_crypto_mic_len lib (wireless_simu_dp_tx_get_encrypt_type lib w) = 0)"
proof
  have eq: "lib_cipher lib a = lib_cipher lib b \<longleftrightarrow> a = b" for a b
    using assms by (simp add: inj_eq)
  show "wireless_simu_dp_rx_crypto_mic_len lib (wireless_simu_dp_tx_get_encrypt_type lib (lib_cipher lib c)) = cipher_mic lib c"
    by (cases c) (simp_all add: wireless_simu_dp_rx_crypto_mic_len_def wireless_simu_dp_tx_get_encrypt_type_def eq cipher_mic_def)
  show "w \<notin> range (lib_cipher lib) \<longrightarrow>
     wireless_simu_dp_rx_crypto_mic_len lib (wireless_simu_dp_tx_get_encrypt_type lib w) = 0"
    by (auto simp: wireless_simu_dp_rx_crypto_mic_len_def wireless_simu_dp_tx_get_encrypt_type_def)
qed

theorem cipher_tables_compose_witness:
  "wireless_simu_dp_rx_crypto_mic_len sample_lib (wireless_simu_dp_tx_get_encrypt_type sample_lib 0xfac04) = 8"
proof -
  have inj: "inj (lib_cipher sample_lib)"
    by (rule injI) (simp add: sample_lib_def sample_cipher_def split: cipher_suite.splits)
  show ?thesis
    using cipher_tables_compose [OF inj, of WLAN_CIPHER_SUITE_CCMP 0]
    by (simp add: cipher_mic_def, simp add: sample_lib_def sample_cipher_def)
qed

end
