(* ===== verification/Step_System.thy ===== *)
theory Step_System
  imports Main
begin

text \<open>
  Transition systems of driver and device, as locales: an invariant that every step keeps, and a
  routine of the driver that, whenever the invariant holds, returns and is itself a step. Two such
  systems on one state can be joined.
\<close>

locale step_system =
  fixes step :: "'s \<Rightarrow> 's \<Rightarrow> bool"
    and inv :: "'s \<Rightarrow> bool"
  assumes step_inv: "inv s \<Longrightarrow> step s s' \<Longrightarrow> inv s'"
begin

lemma reachable_inv:
  assumes "step\<^sup>*\<^sup>* s s'" "inv s"
  shows "inv s'"
  using assms by (induction rule: rtranclp_induct) (auto intro: step_inv)

end

locale serviced_system = step_system step inv
  for step :: "'s \<Rightarrow> 's \<Rightarrow> bool" and inv :: "'s \<Rightarrow> bool" +
  fixes service :: "'s \<Rightarrow> 's option"
  assumes service_step: "inv s \<Longrightarrow> \<exists>s'. service s = Some s' \<and> step s s'"
begin

text \<open>The routine returns in every reachable state, and what it leaves is reachable again.\<close>

lemma reachable_service:
  assumes "step\<^sup>*\<^sup>* s s'" "inv s"
  shows "\<exists>s''. service s' = Some s'' \<and> step\<^sup>*\<^sup>* s s'' \<and> inv s''"
proof -
  have "inv s'"
    by (rule reachable_inv [OF assms])
  then obtain s'' where "service s' = Some s''" "step s' s''"
    using service_step by blast
  then show ?thesis
    using assms(1) step_inv [OF \<open>inv s'\<close>] by (auto intro: rtranclp.rtrancl_into_rtrancl)
qed

end

text \<open>
  Two systems on one state, each with its invariant, and a condition between them. If the steps of
  each keep the invariant of the other and the condition, all three hold in every interleaving.
\<close>

locale interleaving = first: step_system step1 inv1 + second: step_system step2 inv2
  for step1 :: "'s \<Rightarrow> 's \<Rightarrow> bool" and inv1 :: "'s \<Rightarrow> bool" and step2 :: "'s \<Rightarrow> 's \<Rightarrow> bool" and inv2 :: "'s \<Rightarrow> bool" +
  fixes link :: "'s \<Rightarrow> bool"
  assumes first_keeps: "inv1 s \<Longrightarrow> inv2 s \<Longrightarrow> link s \<Longrightarrow> step1 s s' \<Longrightarrow> inv2 s' \<and> link s'"
    and second_keeps: "inv1 s \<Longrightarrow> inv2 s \<Longrightarrow> link s \<Longrightarrow> step2 s s' \<Longrightarrow> inv1 s' \<and> link s'"

sublocale interleaving \<subseteq> joint: step_system "\<lambda>s s'. step1 s s' \<or> step2 s s'" "\<lambda>s. inv1 s \<and> inv2 s \<and> link s"
  using first.step_inv second.step_inv first_keeps second_keeps by unfold_locales blast

end
