(* ===== verification/Mac_System.thy ===== *)
theory Mac_System
  imports Mac_Iface Step_System "HOL-Library.Sublist"
begin

text \<open>
  The management path as a whole: the callbacks of mac80211 and the iterations of the worker in any
  order, the invariant they keep, what the worker does with the queue, and the two counters that
  only grow, the frames pending and the identifiers in use.
\<close>

section \<open>Invariant and steps\<close>

definition queued_ok :: "mac_lib \<Rightarrow> 'a wireless_simu_mac_scheme \<Rightarrow> skbp \<Rightarrow> bool" where
  "queued_ok lib s p = (case k_skbs s p of
     None \<Rightarrow> False
   | Some b \<Rightarrow> frame_ok lib b \<and> (case cb_vif (skb_cb b) of None \<Rightarrow> True | Some v \<Rightarrow> vif_live s v))"

text \<open>Whether a frame names an interface, and whether a queued frame names the interface \<^term>\<open>v\<close>.\<close>

definition has_vif :: "'a wireless_simu_mac_scheme \<Rightarrow> skbp \<Rightarrow> bool" where
  "has_vif s p = (case k_skbs s p of None \<Rightarrow> False | Some b \<Rightarrow> cb_vif (skb_cb b) \<noteq> None)"

definition vif_queued :: "'a wireless_simu_mac_scheme \<Rightarrow> vifp \<Rightarrow> bool" where
  "vif_queued s v = list_ex (\<lambda>p. case k_skbs s p of None \<Rightarrow> False | Some b \<Rightarrow> cb_vif (skb_cb b) = Some v) (mgmt_tx_queue s)"

definition mac_inv :: "mac_lib \<Rightarrow> 'a wireless_simu_mac_scheme \<Rightarrow> bool" where
  "mac_inv lib s =
     (k_held s = [] \<and> hw_live s \<and> length (vif s) = WIRELESS_MAX_NUM_VIF \<and>
      list_all (queued_ok lib s) (mgmt_tx_queue s) \<and>
      list_all (\<lambda>p. k_skbs s p \<noteq> None) (map snd (txmgmt_idr s)) \<and>
      list_all (\<lambda>p. p < k_calls s) (mgmt_tx_queue s @ map snd (txmgmt_idr s)) \<and>
      distinct (mgmt_tx_queue s @ map snd (txmgmt_idr s)) \<and>
      int (length (mgmt_tx_queue s)) \<le> WIRELESS_SIMU_TX_MGMT_NUM_PENDING_MAX \<and>
      int (length (mgmt_tx_queue s)) \<le> num_pending_mgmt_tx s \<and>
      distinct (map fst (txmgmt_idr s)) \<and>
      list_all (\<lambda>i. 0 \<le> i \<and> i < WIRELESS_SIMU_TX_MGMT_NUM_PENDING_MAX) (map fst (txmgmt_idr s)))"

text \<open>
  The callbacks of mac80211 and the iterations of the worker, in any order. A frame arrives in a
  buffer of its own, with an interface that exists or with none. An interface is added only while the
  table has a free slot. mac80211 allocates and frees interfaces; one it frees is named by no queued
  frame, for the driver does not look through its queue when an interface is removed.
\<close>

inductive mac_step ::
  "mac_lib \<Rightarrow> nat \<Rightarrow> kenv \<Rightarrow> 'a wireless_simu_mac_scheme \<Rightarrow> 'a wireless_simu_mac_scheme \<Rightarrow> bool"
  for lib n env where
  transmit: "frame_ok lib b \<Longrightarrow> \<forall>w. v = Some w \<longrightarrow> vif_live s w \<Longrightarrow>
    wireless_mac80211_tx lib key v (k_calls s) (tick (skb_set (k_calls s) b s)) = Some s' \<Longrightarrow>
    mac_step lib n env s s'"
| work: "mgmt_tx_queue s = p # q \<Longrightarrow> mgmt_work_one lib n env p (s\<lparr>mgmt_tx_queue := q\<rparr>) = Some s' \<Longrightarrow>
    mac_step lib n env s s'"
| start: "wireless_mac80211_start s = (ret, s') \<Longrightarrow> mac_step lib n env s s'"
| stop: "mac_step lib n env s (wireless_mac80211_stop s)"
| add: "None \<in> set (vif s) \<Longrightarrow> wireless_mac80211_add_interface lib v s = Some (ret, s') \<Longrightarrow> mac_step lib n env s s'"
| remove: "wireless_mac80211_remove_interface v s = Some s' \<Longrightarrow> mac_step lib n env s s'"
| filters: "wireless_mac80211_configure_filter lib fl s = Some (fl', s') \<Longrightarrow> mac_step lib n env s s'"
| conf: "wireless_mac80211_conf_tx lib v ac ps s = Some (ret, s') \<Longrightarrow> mac_step lib n env s s'"
| vif_alloc: "mac_step lib n env s (s\<lparr>vif_live := (vif_live s)(v := True)\<rparr>)"
| vif_free: "\<not> vif_queued s v \<Longrightarrow> mac_step lib n env s (s\<lparr>vif_live := (vif_live s)(v := False)\<rparr>)"

text \<open>
  What the worker makes of the frames \<^term>\<open>ps\<close>: it hands some of those that name an interface to the
  firmware, in order, and frees those that name none, counting them as no longer pending.
\<close>

definition worked ::
  "skbp list \<Rightarrow> 'a wireless_simu_mac_scheme \<Rightarrow> 'a wireless_simu_mac_scheme \<Rightarrow> (int \<times> skbp) list \<Rightarrow> bool" where
  "worked ps s s' sent =
     (txmgmt_idr s' = rev sent @ txmgmt_idr s \<and> subseq (map snd sent) (filter (has_vif s) ps) \<and>
      num_pending_mgmt_tx s' = num_pending_mgmt_tx s - int (length (filter (\<lambda>p. \<not> has_vif s p) ps)) \<and>
      vif s' = vif s \<and> vifs s' = vifs s \<and> k_calls s \<le> k_calls s' \<and>
      (\<forall>p\<in>set ps. \<not> has_vif s p \<longrightarrow> k_skbs s' p = None) \<and>
      (\<forall>p<k_calls s. p \<notin> set ps \<longrightarrow> k_skbs s' p = k_skbs s p) \<and>
      (list_all (has_vif s) ps \<longrightarrow> k_trace s' = k_trace s))"

definition worker_result ::
  "'a wireless_simu_mac_scheme \<Rightarrow> 'a wireless_simu_mac_scheme \<Rightarrow> (int \<times> skbp) list \<Rightarrow> bool" where
  "worker_result s s' sent = (mgmt_tx_queue s' = [] \<and> worked (mgmt_tx_queue s) s s' sent)"

text \<open>The buffers without those among \<^term>\<open>ps\<close> that name no interface, and the state after one is dropped.\<close>

definition named_skbs :: "skbp list \<Rightarrow> 'a wireless_simu_mac_scheme \<Rightarrow> skbp \<Rightarrow> sk_buff option" where
  "named_skbs ps s p = (if p \<in> set ps \<and> \<not> has_vif s p then None else k_skbs s p)"

definition mgmt_dropped :: "skbp \<Rightarrow> 'a wireless_simu_mac_scheme \<Rightarrow> 'a wireless_simu_mac_scheme" where
  "mgmt_dropped p s = s\<lparr>k_skbs := (k_skbs s)(p := None), num_pending_mgmt_tx := num_pending_mgmt_tx s - 1,
     k_trace := k_trace s @ EvTxskbFree p # (if num_pending_mgmt_tx s = 1 then [EvWakeUp] else [])\<rparr>"

text \<open>The control block the transmit callback writes.\<close>

definition tx_cb :: "u32 option \<Rightarrow> vifp option \<Rightarrow> skb_cb" where
  "tx_cb key v = (case key of
     None \<Rightarrow> skb_cb_zero\<lparr>cb_vif := v\<rparr>
   | Some cipher \<Rightarrow> skb_cb_zero\<lparr>cb_vif := v, cb_cipher := cipher, cb_flags := WIRELESS_SIMU_SKB_CIPHER_SET\<rparr>)"

text \<open>Which frames the callback refuses.\<close>

definition tx_refused :: "mac_lib \<Rightarrow> u16 \<Rightarrow> 'a wireless_simu_mac_scheme \<Rightarrow> bool" where
  "tx_refused lib fc s = (lib_is_probe_resp lib fc \<and> 48 < num_pending_mgmt_tx s \<or> 512 \<le> length (mgmt_tx_queue s))"

text \<open>
  The frames counted as pending, less those queued that name no interface, which alone are ever
  counted off. One step keeps the invariant, never lowers that number and never gives an identifier back.
\<close>

definition pending_named :: "'a wireless_simu_mac_scheme \<Rightarrow> int" where
  "pending_named s = num_pending_mgmt_tx s - int (length (filter (\<lambda>p. \<not> has_vif s p) (mgmt_tx_queue s)))"

definition mac_grows :: "'a wireless_simu_mac_scheme \<Rightarrow> 'a wireless_simu_mac_scheme \<Rightarrow> bool" where
  "mac_grows s s' = (pending_named s \<le> pending_named s' \<and> suffix (txmgmt_idr s) (txmgmt_idr s'))"

definition sample_full :: wireless_simu_mac where
  "sample_full = sample_mac\<lparr>k_calls := 1000, txmgmt_idr := map (\<lambda>i. (int i, i + 100)) [0..<512],
     k_skbs := (\<lambda>p. if 100 \<le> p \<and> p < 612 \<or> p = 3 then Some sample_frame else None)\<rparr>"

definition sample_busy :: wireless_simu_mac where
  "sample_busy = sample_mac\<lparr>num_pending_mgmt_tx := 49\<rparr>"

definition sample_probe_resp :: sk_buff where
  "sample_probe_resp = sample_frame\<lparr>skb_buf := 0x50 # 0 # replicate 30 0\<rparr>"

section \<open>Lemmas\<close>

lemma mac_invE:
  assumes "mac_inv lib s"
  obtains "k_held s = []" "hw_live s" "length (vif s) = 4" "\<And>p. p \<in> set (mgmt_tx_queue s) \<Longrightarrow> queued_ok lib s p"
    "\<And>p. p \<in> set (mgmt_tx_queue s) \<Longrightarrow> p < k_calls s" "distinct (mgmt_tx_queue s)"
  using assms that by (auto simp: mac_inv_def list_all_iff WIRELESS_MAX_NUM_VIF_def)

lemma queued_okE:
  assumes "queued_ok lib s p"
  obtains b where "k_skbs s p = Some b" "frame_ok lib b" "\<And>v. cb_vif (skb_cb b) = Some v \<Longrightarrow> vif_live s v"
  using assms by (auto simp: queued_ok_def split: option.splits)

lemma queued_ok_cong:
  "k_skbs s' p = k_skbs s p \<Longrightarrow> vif_live s' = vif_live s \<Longrightarrow> queued_ok lib s' p = queued_ok lib s p"
  by (simp add: queued_ok_def cong: option.case_cong)

lemma has_vif_cong: "k_skbs s' p = k_skbs s p \<Longrightarrow> has_vif s' p = has_vif s p"
  by (simp add: has_vif_def)

lemma mac_rest_held [simp]: "mac_rest (s\<lparr>k_held := h\<rparr>) = (mac_rest s)\<lparr>k_held := h\<rparr>"
  by (rule wireless_simu_mac.equality) (simp_all add: mac_rest_def)

text \<open>Keeping the invariant when frames, identifiers and the queue are untouched.\<close>

lemma mac_inv_frame:
  assumes "mac_inv lib s" "k_held s' = []" "length (vif s') = length (vif s)" "k_skbs s' = k_skbs s"
    "mgmt_tx_queue s' = mgmt_tx_queue s" "txmgmt_idr s' = txmgmt_idr s" "k_calls s' = k_calls s"
    "num_pending_mgmt_tx s' = num_pending_mgmt_tx s" "hw_live s' = hw_live s" "vif_live s' = vif_live s"
  shows "mac_inv lib s'"
proof -
  have "queued_ok lib s' = queued_ok lib s"
    using assms(4,10) by (intro ext queued_ok_cong) simp_all
  then show ?thesis
    using assms by (simp add: mac_inv_def)
qed

lemma mac_grows_frame:
  assumes "k_skbs s' = k_skbs s" "mgmt_tx_queue s' = mgmt_tx_queue s" "txmgmt_idr s' = txmgmt_idr s"
    "num_pending_mgmt_tx s' = num_pending_mgmt_tx s"
  shows "mac_grows s s'"
  using assms has_vif_cong [of s' _ s] by (simp add: mac_grows_def pending_named_def)

lemma over_tx_drop_exec:
  assumes "k_skbs s p \<noteq> None" "hw_live s" "0 < num_pending_mgmt_tx s"
  shows "wireless_simu_mgmt_over_tx_drop p s = Some (mgmt_dropped p s)"
  using assms by (auto simp: wireless_simu_mgmt_over_tx_drop_def ieee80211_free_txskb_def skb_get_def emit_def Let_def mgmt_dropped_def)

lemma work_one_cases:
  fixes s :: "'a wireless_simu_mac_scheme"
  assumes "env_room env" "idr_ok lib" "mac_inv lib s" "mgmt_tx_queue s = p # q"
  obtains (sent) ret s' vid where "has_vif s p" "mgmt_work_one lib n env p (s\<lparr>mgmt_tx_queue := q\<rparr>) = Some s'" "mgmt_tx_queue s' = q"
    "mgmt_outcome env vid p (s\<lparr>mgmt_tx_queue := q\<rparr>) ret s'"
    "env_grants env \<and> 0 \<le> lib_idr_alloc lib (k_calls s) (map fst (txmgmt_idr s)) 0 512 \<longrightarrow> ret = 0"
    "lib_idr_alloc lib (k_calls s) (map fst (txmgmt_idr s)) 0 512 < 0 \<longrightarrow> k_skbs s' = k_skbs s \<and> ret = neg_errno ENOSPC"
  | (dropped) "\<not> has_vif s p" "mgmt_work_one lib n env p (s\<lparr>mgmt_tx_queue := q\<rparr>) = Some (mgmt_dropped p (s\<lparr>mgmt_tx_queue := q\<rparr>))"
proof -
  note inv = mac_invE [OF assms(3)]
  obtain b where b: "k_skbs s p = Some b" "frame_ok lib b" "\<And>v. cb_vif (skb_cb b) = Some v \<Longrightarrow> vif_live s v"
    using queued_okE [of lib s p] inv assms(4) by (metis list.set_intros(1))
  let ?s = "s\<lparr>mgmt_tx_queue := q\<rparr>"
  let ?l = "?s\<lparr>k_held := [MacConfMutex]\<rparr>"
  have h: "k_held s = []" "p < k_calls s" "hw_live s" "0 < num_pending_mgmt_tx s"
    using assms(3,4) by (auto simp: mac_inv_def)
  show ?thesis
  proof (cases "cb_vif (skb_cb b)")
    case None
    then show ?thesis
      using b(1) h over_tx_drop_exec [of ?s p] dropped by (simp add: mgmt_work_one_def skb_get_def has_vif_def)
  next
    case (Some v)
    let ?vid = "vif_id (drv_priv (vifs s v))"
    have pre: "k_skbs ?l p = Some b" "p < k_calls ?l" "TxmgmtIdrLock \<notin> set (k_held ?l)" "HtcTxLock \<notin> set (k_held ?l)"
      "vif_live ?l v" "?vid = vif_id (drv_priv (vifs ?l v))"
      using b(1) b(3) [OF Some] h by simp_all
    obtain ret t where t: "wireless_simu_mgmt_tx_wmi lib n env v p ?l = Some (ret, t)"
      "mgmt_outcome env ?vid p ?l ret t"
      "env_grants env \<and> 0 \<le> lib_idr_alloc lib (k_calls s) (map fst (txmgmt_idr s)) 0 512 \<longrightarrow> ret = 0"
      "lib_idr_alloc lib (k_calls s) (map fst (txmgmt_idr s)) 0 512 < 0 \<longrightarrow> k_skbs t = k_skbs s \<and> ret = neg_errno ENOSPC"
      using mgmt_tx_wmi_ok [OF assms(1,2) pre(1) b(2) pre(2-6), of n] by auto
    have rest: "mac_rest t = mac_rest ?l"
      using t(2) by (simp add: mgmt_outcome_def mgmt_frame_def)
    note rd = mac_rest_eqD [OF rest]
    let ?t = "t\<lparr>k_held := []\<rparr>"
    have "mac_rest ?t = mac_rest ?s"
      using rest h by simp (simp add: mac_rest_def)
    then have "mgmt_outcome env ?vid p ?s ret ?t"
      using t(2) by (cases "ret = 0") (simp_all add: mgmt_outcome_def mgmt_frame_def)
    moreover have "mgmt_work_one lib n env p ?s = Some ?t"
      using b Some h t(1) rd(1) by (simp add: mgmt_work_one_def skb_get_def spin_lock_def spin_unlock_def)
    moreover have "has_vif s p"
      using b(1) Some by (simp add: has_vif_def)
    ultimately show ?thesis
      using sent [of ?t ?vid ret] t(3,4) rd(5) by simp
  qed
qed

lemma mac_inv_outcome:
  assumes "mac_inv lib s" "mgmt_tx_queue s = p # q" "mgmt_outcome env vid p (s\<lparr>mgmt_tx_queue := q\<rparr>) ret s'"
  shows "mac_inv lib s'"
proof -
  let ?s = "s\<lparr>mgmt_tx_queue := q\<rparr>"
  have fr: "mac_rest s' = mac_rest ?s" "k_calls s \<le> k_calls s'"
    "\<And>r. r \<noteq> p \<Longrightarrow> r < k_calls s \<Longrightarrow> k_skbs s' r = k_skbs s r" "k_skbs s' p \<noteq> None"
    using assms(3) by (simp_all add: mgmt_outcome_def mgmt_frame_def)
  note rd = mac_rest_eqD [OF fr(1)]
  have idr: "txmgmt_idr s' = txmgmt_idr s \<or>
      (\<exists>i. txmgmt_idr s' = (i, p) # txmgmt_idr s \<and> 0 \<le> i \<and> i < 512 \<and> i \<notin> fst ` set (txmgmt_idr s))"
    using assms(3) by (auto simp: mgmt_outcome_def split: if_splits)
  have old: "r \<noteq> p" "r < k_calls s" if "r \<in> set q \<union> snd ` set (txmgmt_idr s)" for r
    using assms(1,2) that by (auto simp: mac_inv_def list_all_iff)
  have "queued_ok lib s' r = queued_ok lib s r" if "r \<in> set q" for r
    using old [of r] fr(3) [of r] rd(9) that by (intro queued_ok_cong) simp_all
  then have "list_all (queued_ok lib s') q"
    using assms(1,2) by (auto simp: mac_inv_def list_all_iff)
  moreover have "list_all (\<lambda>r. r < k_calls s') (q @ map snd (txmgmt_idr s))"
    using old(2) fr(2) by (fastforce simp: list_all_iff)
  moreover have "list_all (\<lambda>r. k_skbs s' r \<noteq> None) (map snd (txmgmt_idr s))"
    using assms(1) old fr(3) by (auto simp: mac_inv_def list_all_iff)
  moreover have "p < k_calls s'"
    using assms(1,2) fr(2) by (simp add: mac_inv_def)
  ultimately show ?thesis
    using idr assms(1,2) rd fr(4)
    by (elim disjE exE conjE) (simp_all add: mac_inv_def WIRELESS_SIMU_TX_MGMT_NUM_PENDING_MAX_def)
qed

lemma mac_inv_ids:
  assumes "mac_inv lib s"
  shows "set (map fst (txmgmt_idr s)) \<subseteq> {0..<512}" "distinct (map fst (txmgmt_idr s))"
    "card (set (map fst (txmgmt_idr s))) = length (txmgmt_idr s)" "length (txmgmt_idr s) \<le> 512"
proof -
  show s: "set (map fst (txmgmt_idr s)) \<subseteq> {0..<512}" "distinct (map fst (txmgmt_idr s))"
    using assms by (auto simp: mac_inv_def list_all_iff WIRELESS_SIMU_TX_MGMT_NUM_PENDING_MAX_def)
  show c: "card (set (map fst (txmgmt_idr s))) = length (txmgmt_idr s)"
    using distinct_card [OF s(2)] by simp
  show "length (txmgmt_idr s) \<le> 512"
    using card_mono [OF _ s(1)] c by simp
qed

lemma idr_served:
  assumes "mac_inv lib s" "idr_serves lib" "length (txmgmt_idr s) < 512"
  shows "0 \<le> lib_idr_alloc lib c (map fst (txmgmt_idr s)) 0 512"
proof -
  have "set (map fst (txmgmt_idr s)) \<noteq> {0..<512}"
  proof
    assume eq: "set (map fst (txmgmt_idr s)) = {0..<512}"
    show False
      using mac_inv_ids(3) [OF assms(1)] assms(3) unfolding eq by simp
  qed
  then obtain i where "0 \<le> i" "i < 512" "i \<notin> set (map fst (txmgmt_idr s))"
    using mac_inv_ids(1) [OF assms(1)] by fastforce
  then show ?thesis
    using assms(2) unfolding idr_serves_def by blast
qed

lemma idr_exhausted:
  assumes "mac_inv lib s" "idr_ok lib" "length (txmgmt_idr s) = 512"
  shows "lib_idr_alloc lib c (map fst (txmgmt_idr s)) 0 512 < 0"
proof (rule ccontr)
  assume "\<not> ?thesis"
  then have a: "0 \<le> lib_idr_alloc lib c (map fst (txmgmt_idr s)) 0 512"
    by simp
  have "set (map fst (txmgmt_idr s)) = {0..<512}"
    using mac_inv_ids(1,3) [OF assms(1)] assms(3) by (intro card_subset_eq) simp_all
  then show False
    using idr_okD [OF assms(2) a] a by (metis atLeastLessThan_iff)
qed

lemma outcome_worked:
  assumes "mgmt_outcome env vid p (s\<lparr>mgmt_tx_queue := q\<rparr>) ret s'" "has_vif s p"
  obtains sent where "worked [p] s s' sent" "map snd sent = (if ret = 0 then [p] else [])"
proof -
  have fr: "mac_rest s' = mac_rest (s\<lparr>mgmt_tx_queue := q\<rparr>)" "k_calls s \<le> k_calls s'"
    "\<And>r. r \<noteq> p \<Longrightarrow> r < k_calls s \<Longrightarrow> k_skbs s' r = k_skbs s r"
    using assms(1) by (simp_all add: mgmt_outcome_def mgmt_frame_def)
  obtain sent where "txmgmt_idr s' = rev sent @ txmgmt_idr s" "map snd sent = (if ret = 0 then [p] else [])"
  proof (cases "ret = 0")
    case True
    then obtain i where "txmgmt_idr s' = (i, p) # txmgmt_idr s"
      using assms by (auto simp: mgmt_outcome_def)
    then show ?thesis
      using that [of "[(i, p)]"] True by simp
  qed (use assms that [of "[]"] in \<open>simp add: mgmt_outcome_def\<close>)
  then show ?thesis
    using that mac_rest_eqD [OF fr(1)] fr(2,3) assms(2) by (simp add: worked_def)
qed

lemma dropped_worked:
  "\<not> has_vif s p \<Longrightarrow> worked [p] s (mgmt_dropped p (s\<lparr>mgmt_tx_queue := q\<rparr>)) []"
  by (simp add: worked_def mgmt_dropped_def)

lemma mac_inv_dropped:
  assumes "mac_inv lib s" "mgmt_tx_queue s = p # q"
  shows "mac_inv lib (mgmt_dropped p (s\<lparr>mgmt_tx_queue := q\<rparr>))"
proof -
  let ?t = "mgmt_dropped p (s\<lparr>mgmt_tx_queue := q\<rparr>)"
  have f: "k_held ?t = k_held s" "hw_live ?t = hw_live s" "vif ?t = vif s" "mgmt_tx_queue ?t = q" "txmgmt_idr ?t = txmgmt_idr s"
    "k_calls ?t = k_calls s" "num_pending_mgmt_tx ?t = num_pending_mgmt_tx s - 1" "vif_live ?t = vif_live s"
    "\<And>r. r \<noteq> p \<Longrightarrow> k_skbs ?t r = k_skbs s r"
    by (simp_all add: mgmt_dropped_def)
  have old: "r \<noteq> p" if "r \<in> set q \<union> snd ` set (txmgmt_idr s)" for r
    using assms that by (auto simp: mac_inv_def)
  have "list_all (queued_ok lib ?t) q"
    using assms old f(8,9) queued_ok_cong [of ?t _ s lib] by (auto simp: mac_inv_def list_all_iff)
  moreover have "list_all (\<lambda>r. k_skbs ?t r \<noteq> None) (map snd (txmgmt_idr s))"
    using assms(1) old f(9) by (auto simp: mac_inv_def list_all_iff)
  ultimately show ?thesis
    using assms by (simp add: mac_inv_def f)
qed

text \<open>One iteration of the worker, on both branches.\<close>

lemma work_step:
  fixes s :: "'a wireless_simu_mac_scheme"
  assumes "env_room env" "idr_ok lib" "mac_inv lib s" "mgmt_tx_queue s = p # q"
  obtains s' sent where "mgmt_work_one lib n env p (s\<lparr>mgmt_tx_queue := q\<rparr>) = Some s'" "mgmt_tx_queue s' = q" "mac_inv lib s'"
    "worked [p] s s' sent"
    "env_grants env \<and> 0 \<le> lib_idr_alloc lib (k_calls s) (map fst (txmgmt_idr s)) 0 512 \<longrightarrow> map snd sent = filter (has_vif s) [p]"
    "lib_idr_alloc lib (k_calls s) (map fst (txmgmt_idr s)) 0 512 < 0 \<longrightarrow> sent = [] \<and> k_skbs s' = named_skbs [p] s"
  using assms
proof (cases rule: work_one_cases [where n = n])
  case (sent ret s' vid)
  obtain x where x: "worked [p] s s' x" "map snd x = (if ret = 0 then [p] else [])"
    using sent(1,4) outcome_worked by blast
  have none: "lib_idr_alloc lib (k_calls s) (map fst (txmgmt_idr s)) 0 512 < 0 \<longrightarrow> x = [] \<and> k_skbs s' = named_skbs [p] s"
    using sent(1,6) x(2) by (auto simp: named_skbs_def fun_eq_iff)
  show ?thesis
    by (rule that [OF sent(2,3) mac_inv_outcome [OF assms(3,4) sent(4)] x(1) _ none]) (use sent(1,5) x(2) in simp)
next
  case dropped
  show ?thesis
    by (rule that [OF dropped(2) _ mac_inv_dropped [OF assms(3,4)] dropped_worked [OF dropped(1)]])
      (use dropped(1) in \<open>auto simp: named_skbs_def mgmt_dropped_def fun_eq_iff\<close>)
qed

lemma worked_append:
  assumes "worked [p] s t one" "worked q t s' two" "distinct (p # q)" "\<forall>r\<in>set (p # q). r < k_calls s"
  shows "worked (p # q) s s' (one @ two)"
    and "k_skbs t = named_skbs [p] s \<Longrightarrow> k_skbs s' = named_skbs q t \<Longrightarrow> k_skbs s' = named_skbs (p # q) s"
    and "filter (has_vif t) q = filter (has_vif s) q"
proof -
  have same: "k_skbs t r = k_skbs s r" if "r < k_calls s" "r \<noteq> p" for r
    using assms(1) that by (simp add: worked_def)
  then have hv: "has_vif t r = has_vif s r" if "r \<in> set q" for r
    using assms(3,4) that by (intro has_vif_cong same) auto
  then show eq: "filter (has_vif t) q = filter (has_vif s) q"
    by (rule filter_cong [OF refl])
  have eq': "filter (\<lambda>r. \<not> has_vif t r) q = filter (\<lambda>r. \<not> has_vif s r) q"
    using hv by (intro filter_cong) simp_all
  have pk: "p < k_calls t" "p \<notin> set q"
    using assms(1,3,4) by (auto simp: worked_def)
  have "subseq (map snd (one @ two)) (filter (has_vif s) ([p] @ q))"
    using assms(1,2) eq unfolding filter_append map_append by (intro list_emb_append_mono) (simp_all add: worked_def)
  then show "worked (p # q) s s' (one @ two)"
    using assms pk eq' hv same by (auto simp: worked_def list_all_iff)
  show "k_skbs s' = named_skbs (p # q) s" if "k_skbs t = named_skbs [p] s" "k_skbs s' = named_skbs q t"
    using that hv pk by (auto simp: named_skbs_def fun_eq_iff)
qed

lemma work_loop_ok:
  fixes s :: "'a wireless_simu_mac_scheme"
  assumes "env_room env" "idr_ok lib" "mac_inv lib s" "length (mgmt_tx_queue s) \<le> k"
  shows "\<exists>s' sent. mgmt_work_loop k lib n env s = Some s' \<and> mac_inv lib s' \<and> (mac_step lib n env)\<^sup>*\<^sup>* s s' \<and>
    worker_result s s' sent \<and>
    (env_grants env \<and> idr_serves lib \<and> length (txmgmt_idr s) + length (mgmt_tx_queue s) \<le> 512 \<longrightarrow>
       map snd sent = filter (has_vif s) (mgmt_tx_queue s)) \<and>
    (length (txmgmt_idr s) = 512 \<longrightarrow> sent = [] \<and> k_skbs s' = named_skbs (mgmt_tx_queue s) s)"
  using assms(3,4)
proof (induction k arbitrary: s)
  case 0
  then show ?case
    by (auto simp: worker_result_def worked_def named_skbs_def)
next
  case (Suc k)
  show ?case
  proof (cases "mgmt_tx_queue s")
    case Nil
    then show ?thesis
      using Suc.prems by (auto simp: worker_result_def worked_def named_skbs_def)
  next
    case (Cons p q)
    obtain t one where t: "mgmt_work_one lib n env p (s\<lparr>mgmt_tx_queue := q\<rparr>) = Some t" "mgmt_tx_queue t = q"
      "mac_inv lib t" "worked [p] s t one"
      "env_grants env \<and> 0 \<le> lib_idr_alloc lib (k_calls s) (map fst (txmgmt_idr s)) 0 512 \<longrightarrow> map snd one = filter (has_vif s) [p]"
      "lib_idr_alloc lib (k_calls s) (map fst (txmgmt_idr s)) 0 512 < 0 \<longrightarrow> one = [] \<and> k_skbs t = named_skbs [p] s"
      by (rule work_step [OF assms(1,2) Suc.prems(1) Cons])
    obtain s' sent where s': "mgmt_work_loop k lib n env t = Some s'" "mac_inv lib s'" "(mac_step lib n env)\<^sup>*\<^sup>* t s'"
      "mgmt_tx_queue s' = []" "worked q t s' sent"
      "env_grants env \<and> idr_serves lib \<and> length (txmgmt_idr t) + length q \<le> 512 \<longrightarrow> map snd sent = filter (has_vif t) q"
      "length (txmgmt_idr t) = 512 \<longrightarrow> sent = [] \<and> k_skbs s' = named_skbs q t"
      using Suc.IH [OF t(3)] Suc.prems(2) t(2) Cons by (auto simp: worker_result_def)
    have steps: "(mac_step lib n env)\<^sup>*\<^sup>* s s'"
      using mac_step.work [OF Cons t(1)] s'(3) by (rule converse_rtranclp_into_rtranclp)
    have pq: "distinct (p # q)" "\<forall>r\<in>set (p # q). r < k_calls s"
      using Suc.prems(1) Cons by (auto simp: mac_inv_def list_all_iff)
    note app = worked_append [OF t(4) s'(5) pq]
    have idr: "length (txmgmt_idr t) = length one + length (txmgmt_idr s)" "length one \<le> 1"
      using t(4) list_emb_length [of "(=)" "map snd one" "filter (has_vif s) [p]"] by (auto simp: worked_def split: if_splits)
    have all: "env_grants env \<and> idr_serves lib \<and> length (txmgmt_idr s) + length (p # q) \<le> 512 \<longrightarrow>
        map snd (one @ sent) = filter (has_vif s) (p # q)"
      using idr_served [OF Suc.prems(1), of "k_calls s"] t(5) s'(6) idr app(3) by auto
    have none: "length (txmgmt_idr s) = 512 \<longrightarrow> one @ sent = [] \<and> k_skbs s' = named_skbs (p # q) s"
      using idr_exhausted [OF Suc.prems(1) assms(2), of "k_calls s"] t(6) s'(7) idr app(2) by auto
    show ?thesis
      using s'(1,2,4) t(1) Cons steps app(1) all none
      by (intro exI [of _ s'] exI [of _ "one @ sent"]) (simp add: worker_result_def)
  qed
qed

lemma frame_ok_cb [simp]: "frame_ok lib (b\<lparr>skb_cb := c\<rparr>) = frame_ok lib b"
  by (simp add: frame_ok_def skb_tailroom_def)

lemma tx_cb_vif [simp]: "cb_vif (tx_cb key v) = v"
  by (simp add: tx_cb_def split: option.splits)

lemma tx_exec:
  fixes s :: "'a wireless_simu_mac_scheme"
  assumes "k_skbs s p = Some b" "frame_control b = Some fc"
  shows "wireless_mac80211_tx lib key v p s =
    (if skb_tx_flags b AND lib_HW_80211_ENCAP lib \<noteq> 0
     then Some (skb_set p (b\<lparr>skb_cb := (tx_cb key v)\<lparr>cb_flags :=
       cb_flags (tx_cb key v) OR WIRELESS_SIMU_SKB_HW_80211_ENCAP\<rparr>\<rparr>) s)
     else if \<not> lib_is_mgmt lib fc then Some (skb_set p (b\<lparr>skb_cb := tx_cb key v\<rparr>) s)
     else if tx_refused lib fc s then Some (emit (EvTxskbFree p) (s\<lparr>k_skbs := (k_skbs s)(p := None)\<rparr>))
     else Some (emit EvQueueWork ((skb_set p (b\<lparr>skb_cb := tx_cb key v\<rparr>) s)
       \<lparr>mgmt_tx_queue := mgmt_tx_queue s @ [p], num_pending_mgmt_tx := num_pending_mgmt_tx s + 1\<rparr>)))"
proof -
  have cb: "(case key of
                 None \<Rightarrow> skb_cb_zero\<lparr>cb_vif := v\<rparr>
               | Some cipher \<Rightarrow> skb_cb_zero\<lparr>cb_vif := v, cb_cipher := cipher,
                   cb_flags := cb_flags (skb_cb_zero\<lparr>cb_vif := v\<rparr>) OR WIRELESS_SIMU_SKB_CIPHER_SET\<rparr>) = tx_cb key v"
    by (simp add: tx_cb_def skb_cb_zero_def split: option.split)
  have q: "mgmt_tx_queue (skb_set p x s) = mgmt_tx_queue s" "num_pending_mgmt_tx (skb_set p x s) = num_pending_mgmt_tx s"
    for x by (simp_all add: skb_set_def)
  have drop: "ieee80211_free_txskb p (skb_set p x s) = Some (emit (EvTxskbFree p) (s\<lparr>k_skbs := (k_skbs s)(p := None)\<rparr>))" for x
    by (simp add: ieee80211_free_txskb_def skb_get_def) (simp add: skb_set_def)
  have th: "WIRELESS_SIMU_PRB_RSP_DROP_THRESHOLD = 48"
    by (simp add: WIRELESS_SIMU_PRB_RSP_DROP_THRESHOLD_def WIRELESS_SIMU_TX_MGMT_TARGET_MAX_SUPPORT_def)
  show ?thesis
    using assms
    by (auto simp: wireless_mac80211_tx_def Let_def cb skb_get_def wireless_simu_mac_mgmt_tx_def q drop th tx_refused_def
        WIRELESS_SIMU_TX_MGMT_NUM_PENDING_MAX_def)
qed

lemma frame_ok_control: "frame_ok lib b \<Longrightarrow> \<exists>fc. frame_control b = Some fc"
  by (auto simp: frame_ok_def frame_control_def skb_ok_def skb_len_def)

lemma mac_inv_skb:
  assumes "mac_inv lib s" "k_held s' = k_held s" "vif s' = vif s" "mgmt_tx_queue s' = mgmt_tx_queue s"
    "txmgmt_idr s' = txmgmt_idr s" "num_pending_mgmt_tx s' = num_pending_mgmt_tx s" "k_calls s \<le> k_calls s'"
    "\<And>q. q < k_calls s \<Longrightarrow> k_skbs s' q = k_skbs s q" "hw_live s' = hw_live s" "vif_live s' = vif_live s"
  shows "mac_inv lib s'"
proof -
  have old: "p < k_calls s" if "p \<in> set (mgmt_tx_queue s @ map snd (txmgmt_idr s))" for p
    using assms(1) that by (auto simp: mac_inv_def list_all_iff)
  have "list_all (queued_ok lib s') (mgmt_tx_queue s)"
    using assms(1,8,10) old queued_ok_cong [of s' _ s lib] by (auto simp: mac_inv_def list_all_iff)
  moreover have "list_all (\<lambda>r. r < k_calls s') (mgmt_tx_queue s @ map snd (txmgmt_idr s))"
    using old assms(7) by (fastforce simp: list_all_iff)
  moreover have "list_all (\<lambda>r. k_skbs s' r \<noteq> None) (map snd (txmgmt_idr s))"
    using assms(1,8) old by (auto simp: mac_inv_def list_all_iff)
  ultimately show ?thesis
    using assms(1-6,9) by (simp add: mac_inv_def)
qed

lemma mac_inv_tx:
  assumes "mac_inv lib s" "frame_ok lib b" "\<forall>w. v = Some w \<longrightarrow> vif_live s w"
    "wireless_mac80211_tx lib key v (k_calls s) (tick (skb_set (k_calls s) b s)) = Some s'"
  shows "mac_inv lib s'"
proof -
  let ?p = "k_calls s" and ?s = "tick (skb_set (k_calls s) b s)"
  obtain fc where fc: "frame_control b = Some fc"
    using frame_ok_control [OF assms(2)] by blast
  have inv: "mac_inv lib (tick (skb_set ?p x s))" for x
    using assms(1) by (rule mac_inv_skb) (simp_all add: tick_def skb_set_def)
  have p: "k_skbs ?s ?p = Some b"
    by simp
  note run = tx_exec [OF p fc, of lib key v] assms(4)
  show ?thesis
  proof (cases "skb_tx_flags b AND lib_HW_80211_ENCAP lib \<noteq> 0 \<or> \<not> lib_is_mgmt lib fc")
    case True
    then show ?thesis
      using run inv by (auto split: if_splits)
  next
    case mgmt: False
    show ?thesis
    proof (cases "tx_refused lib fc ?s")
      case True
      then have "s' = emit (EvTxskbFree ?p) (?s\<lparr>k_skbs := (k_skbs ?s)(?p := None)\<rparr>)"
        using run mgmt by simp
      then show ?thesis
        using assms(1) by (auto intro!: mac_inv_skb [OF assms(1)] simp: tick_def skb_set_def emit_def)
    next
      case False
      let ?b = "b\<lparr>skb_cb := tx_cb key v\<rparr>"
      have s': "s' = emit EvQueueWork ((tick (skb_set ?p ?b s))
         \<lparr>mgmt_tx_queue := mgmt_tx_queue s @ [?p], num_pending_mgmt_tx := num_pending_mgmt_tx s + 1\<rparr>)"
        using run mgmt False by simp (simp add: tick_def skb_set_def)
      have lt: "length (mgmt_tx_queue s) < 512" "?p \<notin> set (mgmt_tx_queue s @ map snd (txmgmt_idr s))"
        using False assms(1) by (auto simp: tx_refused_def tick_def skb_set_def mac_inv_def list_all_iff)
      have eq: "k_skbs s' = k_skbs (tick (skb_set ?p ?b s))" "queued_ok lib s' = queued_ok lib (tick (skb_set ?p ?b s))"
        "queued_ok lib s' ?p"
        using assms(2,3) by (auto simp: s' queued_ok_def fun_eq_iff emit_def split: option.split) (simp add: tick_def skb_set_def)
      have fl: "mgmt_tx_queue s' = mgmt_tx_queue s @ [?p]" "num_pending_mgmt_tx s' = num_pending_mgmt_tx s + 1"
        "txmgmt_idr s' = txmgmt_idr s" "k_held s' = k_held s" "vif s' = vif s" "k_calls s' = Suc (k_calls s)"
        "hw_live s' = hw_live s"
        by (simp_all add: s' emit_def tick_def skb_set_def)
      have "txmgmt_idr (tick (skb_set ?p ?b s)) = txmgmt_idr s" "mgmt_tx_queue (tick (skb_set ?p ?b s)) = mgmt_tx_queue s"
        by (simp_all add: tick_def skb_set_def)
      then show ?thesis
        using inv [of ?b] assms(1) lt eq fl
        by (simp add: mac_inv_def WIRELESS_SIMU_TX_MGMT_NUM_PENDING_MAX_def)
    qed
  qed
qed

lemma pending_named_old:
  assumes "mgmt_tx_queue s' = mgmt_tx_queue s @ ps" "\<And>q. q \<in> set (mgmt_tx_queue s) \<Longrightarrow> k_skbs s' q = k_skbs s q"
  shows "pending_named s' = pending_named s + (num_pending_mgmt_tx s' - num_pending_mgmt_tx s) - int (length (filter (\<lambda>p. \<not> has_vif s' p) ps))"
proof -
  have "filter (\<lambda>p. \<not> has_vif s' p) (mgmt_tx_queue s) = filter (\<lambda>p. \<not> has_vif s p) (mgmt_tx_queue s)"
    using has_vif_cong [OF assms(2)] by (intro filter_cong) simp_all
  then show ?thesis
    by (simp add: pending_named_def assms(1))
qed

lemma tx_grows:
  assumes "mac_inv lib s" "frame_ok lib b"
    "wireless_mac80211_tx lib key v (k_calls s) (tick (skb_set (k_calls s) b s)) = Some s'"
  shows "mac_grows s s'"
proof -
  have p: "k_skbs (tick (skb_set (k_calls s) b s)) (k_calls s) = Some b"
    by simp
  obtain fc where fc: "frame_control b = Some fc"
    using frame_ok_control [OF assms(2)] by blast
  have q: "x < k_calls s" if "x \<in> set (mgmt_tx_queue s)" for x
    using assms(1) that by (auto simp: mac_inv_def list_all_iff)
  have f: "txmgmt_idr s' = txmgmt_idr s" "\<And>x. x \<in> set (mgmt_tx_queue s) \<Longrightarrow> k_skbs s' x = k_skbs s x"
    "mgmt_tx_queue s' = mgmt_tx_queue s \<and> num_pending_mgmt_tx s' = num_pending_mgmt_tx s \<or>
     mgmt_tx_queue s' = mgmt_tx_queue s @ [k_calls s] \<and> num_pending_mgmt_tx s' = num_pending_mgmt_tx s + 1"
    using tx_exec [OF p fc, of lib key v] assms(3)
    by (auto simp: emit_def tick_def skb_set_def split: if_splits dest: q)
  have "pending_named s \<le> pending_named s'"
    using f(3) pending_named_old [of s' s "[]"] pending_named_old [of s' s "[k_calls s]"] f(2) by auto
  then show ?thesis
    using f(1) by (simp add: mac_grows_def)
qed

lemma worked_grows:
  assumes "mac_inv lib s" "mgmt_tx_queue s = p # q" "worked [p] s s' sent" "mgmt_tx_queue s' = q"
  shows "mac_grows s s'"
proof -
  have "k_skbs s' r = k_skbs s r" if "r \<in> set q" for r
    using assms(1-3) that by (auto simp: mac_inv_def list_all_iff worked_def)
  then have "filter (\<lambda>r. \<not> has_vif s' r) q = filter (\<lambda>r. \<not> has_vif s r) q"
    using has_vif_cong [of s' _ s] by (intro filter_cong) simp_all
  then show ?thesis
    using assms(2-4) by (simp add: mac_grows_def pending_named_def worked_def suffix_def)
qed

text \<open>mac80211 allocates an interface, or frees one that no queued frame names.\<close>

lemma mac_inv_vif_live:
  assumes "mac_inv lib s" "x \<or> \<not> vif_queued s v"
  shows "mac_inv lib (s\<lparr>vif_live := (vif_live s)(v := x)\<rparr>)"
proof -
  let ?t = "s\<lparr>vif_live := (vif_live s)(v := x)\<rparr>"
  have "queued_ok lib ?t p" if "p \<in> set (mgmt_tx_queue s)" for p
  proof -
    have "queued_ok lib s p"
      using assms(1) that by (auto simp: mac_inv_def list_all_iff)
    then obtain b where b: "k_skbs s p = Some b" "frame_ok lib b" "\<And>w. cb_vif (skb_cb b) = Some w \<Longrightarrow> vif_live s w"
      by (rule queued_okE) blast
    have "cb_vif (skb_cb b) \<noteq> Some v \<or> x"
      using assms(2) that b(1) by (auto simp: vif_queued_def list_ex_iff split: option.splits)
    then show ?thesis
      using b by (auto simp: queued_ok_def split: option.split)
  qed
  then show ?thesis
    using assms(1) by (simp add: mac_inv_def list_all_iff)
qed

lemma mac_step_inv:
  fixes s :: "'a wireless_simu_mac_scheme"
  assumes "env_room env" "idr_ok lib" "mac_inv lib s" "mac_step lib n env s s'"
  shows "mac_inv lib s' \<and> mac_grows s s'"
proof -
  have h: "MacConfMutex \<notin> set (k_held s)" "k_held s = []"
    using assms(3) by (simp_all add: mac_inv_def)
  note frame = mac_inv_frame [OF assms(3)]
  show ?thesis
    using assms(4)
  proof (cases rule: mac_step.cases)
    case (transmit b key v)
    then show ?thesis
      using mac_inv_tx [OF assms(3)] tx_grows [OF assms(3)] by blast
  next
    case (work p q)
    obtain t sent where "mgmt_work_one lib n env p (s\<lparr>mgmt_tx_queue := q\<rparr>) = Some t" "mgmt_tx_queue t = q" "mac_inv lib t"
      "worked [p] s t sent"
      by (rule work_step [OF assms(1-3) work(1)])
    then show ?thesis
      using work worked_grows [OF assms(3) work(1)] by simp
  next
    case (start ret)
    then show ?thesis
      using h by (auto intro!: frame mac_grows_frame simp: wireless_mac80211_start_def)
  next
    case stop
    then show ?thesis
      using h by (auto intro!: frame mac_grows_frame simp: wireless_mac80211_stop_def)
  next
    case (add v ret)
    then show ?thesis
      using h by (auto intro!: frame mac_grows_frame simp: add_interface_exec [OF h(1)] claim_slot_def set_vif_def)
  next
    case (remove v)
    then show ?thesis
      using remove_exec [OF remove h(1)] h by (auto intro!: frame mac_grows_frame)
  next
    case (filters fl fl')
    then show ?thesis
      using h by (auto intro!: frame mac_grows_frame simp: filter_exec [OF h(1)])
  next
    case (conf v ac ps ret)
    then show ?thesis
      using h by (auto intro!: frame mac_grows_frame simp: conf_tx_exec [OF h(1)] set_vif_def split: option.splits)
  next
    case (vif_alloc v)
    then show ?thesis
      using mac_inv_vif_live [OF assms(3), of True v] by (auto intro!: mac_grows_frame)
  next
    case (vif_free v)
    then show ?thesis
      using mac_inv_vif_live [OF assms(3), of False v] by (auto intro!: mac_grows_frame)
  qed
qed

interpretation mac: step_system "mac_step lib n env"
  "\<lambda>s. env_room env \<and> idr_ok lib \<and> mac_inv lib s"
  using mac_step_inv by unfold_locales blast

interpretation mac_pending: step_system "mac_step lib n env"
  "\<lambda>s. (env_room env \<and> idr_ok lib \<and> mac_inv lib s) \<and> k \<le> pending_named s"
  using mac_step_inv by unfold_locales (fastforce simp: mac_grows_def)

interpretation mac_idr: step_system "mac_step lib n env"
  "\<lambda>s. (env_room env \<and> idr_ok lib \<and> mac_inv lib s) \<and> suffix ids (txmgmt_idr s)"
  using mac_step_inv by unfold_locales (fastforce simp: mac_grows_def intro: suffix_order.trans)

interpretation mac_worker: serviced_system "(mac_step lib n env)\<^sup>*\<^sup>*"
  "\<lambda>s. env_room env \<and> idr_ok lib \<and> mac_inv lib s" "wireless_simu_mgmt_tx_work_func lib n env"
proof (unfold_locales, goal_cases)
  case (1 s s')
  then show ?case
    using mac.reachable_inv by blast
next
  case (2 s)
  then show ?case
    using work_loop_ok [of env lib s "length (mgmt_tx_queue s)" n] by (auto simp: wireless_simu_mgmt_tx_work_func_def)
qed

lemma sample_mac_inv: "mac_inv sample_lib sample_mac" "mac_inv sample_lib sample_busy"
  by (simp_all add: mac_inv_def sample_busy_def sample_mac_facts queued_ok_def sample_frame_frame
      WIRELESS_MAX_NUM_VIF_def WIRELESS_SIMU_TX_MGMT_NUM_PENDING_MAX_def split: option.split)

lemma sample_full_inv: "mac_inv sample_lib sample_full" "length (txmgmt_idr sample_full) = 512"
proof -
  have "distinct (map (\<lambda>i. i + 100) [0..<512 :: nat])" "distinct (map int [0..<512])"
    by (simp_all add: distinct_map inj_on_def)
  then show "mac_inv sample_lib sample_full"
    by (auto simp: mac_inv_def sample_full_def sample_mac_facts queued_ok_def sample_frame_frame list_all_iff o_def
        WIRELESS_MAX_NUM_VIF_def WIRELESS_SIMU_TX_MGMT_NUM_PENDING_MAX_def simp del: upt_Suc split: option.split)
qed (simp add: sample_full_def)

lemma sample_probe_frame:
  "frame_ok sample_lib sample_probe_resp" "frame_control sample_probe_resp = Some 0x50"
  "lib_is_mgmt sample_lib 0x50" "lib_is_probe_resp sample_lib 0x50"
  "skb_tx_flags sample_probe_resp AND lib_HW_80211_ENCAP sample_lib = 0"
  by (simp_all add: sample_probe_resp_def sample_frame_def frame_ok_def skb_ok_def skb_len_def skb_tailroom_def
      mic_room_def sample_lib_def frame_control_def)

section \<open>Properties\<close>

text \<open>
  C9: The management path stays well formed, and its worker always returns. Whatever callbacks of
  mac80211 and iterations of the worker run in whatever order (adding interfaces while the table
  has a free slot), the state keeps its shape: the table has four slots, at most 512 frames are
  queued, every queued frame is a live buffer that names an interface that exists or none, no frame is queued twice or
  both queued and with the firmware, the identifiers in use are distinct, below 512 and stand for
  live frames, and no lock is left held. In every such state the worker returns with the queue
  empty, having handed a subsequence of the queue to the firmware in order and freed the frames
  that name no interface. Interfaces are freed only when no queued frame names them.
\<close>

theorem management_path_sound:
  fixes s :: "'a wireless_simu_mac_scheme"
  assumes "env_room env" "idr_ok lib" "mac_inv lib s" "(mac_step lib n env)\<^sup>*\<^sup>* s t"
  shows "mac_inv lib t \<and> (\<exists>t' sent. wireless_simu_mgmt_tx_work_func lib n env t = Some t' \<and>
    (mac_step lib n env)\<^sup>*\<^sup>* s t' \<and> mac_inv lib t' \<and> mgmt_tx_queue t' = [] \<and>
    txmgmt_idr t' = rev sent @ txmgmt_idr t \<and> subseq (map snd sent) (mgmt_tx_queue t) \<and>
    (\<forall>p\<in>set (mgmt_tx_queue t). \<not> has_vif t p \<longrightarrow> k_skbs t' p = None))"
proof -
  have inv: "mac_inv lib t"
    using mac.reachable_inv [OF assms(4)] assms(1-3) by blast
  obtain t' sent where t': "wireless_simu_mgmt_tx_work_func lib n env t = Some t'" "mac_inv lib t'" "(mac_step lib n env)\<^sup>*\<^sup>* t t'"
    "mgmt_tx_queue t' = []" "worked (mgmt_tx_queue t) t t' sent"
    using work_loop_ok [OF assms(1,2) inv order_refl, of n] by (auto simp: wireless_simu_mgmt_tx_work_func_def worker_result_def)
  have "subseq (map snd sent) (mgmt_tx_queue t)"
    using t'(5) subseq_order.trans [OF _ subseq_filter_left] by (auto simp: worked_def)
  then show ?thesis
    using inv t' rtranclp_trans [OF assms(4) t'(3)] by (auto simp: worked_def)
qed

theorem management_path_sound_witness:
  "\<exists>t'. wireless_simu_mgmt_tx_work_func sample_lib 0 sample_env (wireless_mac80211_stop sample_mac) = Some t' \<and>
    mac_inv sample_lib t' \<and> mgmt_tx_queue t' = []"
proof -
  have "(mac_step sample_lib 0 sample_env)\<^sup>*\<^sup>* sample_mac (wireless_mac80211_stop sample_mac)"
    using mac_step.stop by (rule r_into_rtranclp)
  from management_path_sound [OF sample_env_room sample_idr_ok(1) sample_mac_inv(1) this] show ?thesis
    by blast
qed

text \<open>
  C11: Every accepted frame that names an interface reaches the firmware. When buffers and mappings are
  granted and the identifiers suffice, one run of the worker empties the queue and hands all of these
  frames to the firmware, first come first served, each under an identifier of its own; the queued
  frames that name no interface are freed.
\<close>

theorem worker_delivers:
  fixes s :: "'a wireless_simu_mac_scheme"
  assumes "env_room env" "env_grants env" "idr_ok lib" "idr_serves lib" "mac_inv lib s"
    and "length (txmgmt_idr s) + length (mgmt_tx_queue s) \<le> 512"
  shows "\<exists>s' ids. wireless_simu_mgmt_tx_work_func lib n env s = Some s' \<and> mgmt_tx_queue s' = [] \<and>
    length ids = length (filter (has_vif s) (mgmt_tx_queue s)) \<and> distinct ids \<and>
    txmgmt_idr s' = rev (zip ids (filter (has_vif s) (mgmt_tx_queue s))) @ txmgmt_idr s \<and>
    (\<forall>p\<in>set (mgmt_tx_queue s). \<not> has_vif s p \<longrightarrow> k_skbs s' p = None)"
proof -
  let ?q = "filter (has_vif s) (mgmt_tx_queue s)"
  obtain s' sent where s': "mgmt_work_loop (length (mgmt_tx_queue s)) lib n env s = Some s'" "mac_inv lib s'"
    "worker_result s s' sent" "map snd sent = ?q"
    using work_loop_ok [OF assms(1,3,5) order_refl, of n] assms(2,4,6) by blast
  have "distinct (map fst sent)"
    using mac_inv_ids(2) [OF s'(2)] s'(3) by (simp add: worker_result_def worked_def distinct_rev rev_map [symmetric])
  moreover have "zip (map fst sent) ?q = sent" "length (map fst sent) = length ?q"
    using s'(4) by (metis zip_map_fst_snd, metis length_map)
  ultimately show ?thesis
    using s'(1,3) by (intro exI [of _ s'] exI [of _ "map fst sent"])
      (simp add: wireless_simu_mgmt_tx_work_func_def worker_result_def worked_def)
qed

theorem worker_delivers_witness:
  "\<exists>s' i. wireless_simu_mgmt_tx_work_func sample_lib 0 sample_env sample_mac = Some s' \<and> mgmt_tx_queue s' = [] \<and>
    txmgmt_idr s' = [(i, 3)]"
proof -
  have "length (txmgmt_idr sample_mac) + length (mgmt_tx_queue sample_mac) \<le> 512"
    by (simp add: sample_mac_facts)
  moreover have "has_vif sample_mac 3"
    by (simp add: has_vif_def sample_mac_facts) (simp add: sample_frame_def)
  ultimately show ?thesis
    using worker_delivers [OF sample_env_room sample_env_grants sample_idr_ok sample_mac_inv(1), of 0]
    by (auto simp: sample_mac_facts length_Suc_conv)
qed

text \<open>
  C20: The transmit callback on every branch. A management frame is appended to the queue, counted
  and the worker scheduled; it is freed and nothing else changes when 512 frames are queued, or
  when it is a probe response and more than 48 frames are counted as pending. Every other frame,
  data or already encapsulated by the hardware, is neither queued nor freed: its buffer is lost. A
  frame without an interface is treated like any other.
\<close>

theorem transmit_branches:
  fixes s :: "'a wireless_simu_mac_scheme"
  assumes "k_skbs s p = Some b" "frame_control b = Some fc"
  shows "\<exists>s'. wireless_mac80211_tx lib key v p s = Some s' \<and> txmgmt_idr s' = txmgmt_idr s \<and> k_held s' = k_held s \<and>
    (if skb_tx_flags b AND lib_HW_80211_ENCAP lib \<noteq> 0 \<or> \<not> lib_is_mgmt lib fc
     then k_skbs s' p \<noteq> None \<and> mgmt_tx_queue s' = mgmt_tx_queue s \<and> k_trace s' = k_trace s
     else if lib_is_probe_resp lib fc \<and> 48 < num_pending_mgmt_tx s \<or> 512 \<le> length (mgmt_tx_queue s)
     then k_skbs s' = (k_skbs s)(p := None) \<and> mgmt_tx_queue s' = mgmt_tx_queue s \<and>
       num_pending_mgmt_tx s' = num_pending_mgmt_tx s \<and> k_trace s' = k_trace s @ [EvTxskbFree p]
     else k_skbs s' p = Some (b\<lparr>skb_cb := tx_cb key v\<rparr>) \<and> mgmt_tx_queue s' = mgmt_tx_queue s @ [p] \<and>
       num_pending_mgmt_tx s' = num_pending_mgmt_tx s + 1 \<and> k_trace s' = k_trace s @ [EvQueueWork])"
  using tx_exec [OF assms, of lib key v]
  by (simp add: tx_refused_def skb_set_def emit_def)

theorem transmit_branches_witness:
  "\<exists>s'. wireless_mac80211_tx sample_lib None (Some 4) 50 (skb_set 50 sample_frame sample_mac) = Some s' \<and>
    mgmt_tx_queue s' = [3, 50] \<and> num_pending_mgmt_tx s' = 2"
proof -
  have cls: "lib_is_mgmt sample_lib 0x40d0" "\<not> lib_is_probe_resp sample_lib 0x40d0"
    "skb_tx_flags sample_frame AND lib_HW_80211_ENCAP sample_lib = 0"
    by (simp_all add: sample_lib_def sample_frame_def)
  have s: "mgmt_tx_queue (skb_set 50 sample_frame sample_mac) = [3]"
    "num_pending_mgmt_tx (skb_set 50 sample_frame sample_mac) = 1"
    using sample_mac_facts(6,8) by (simp_all add: skb_set_def)
  show ?thesis
    using transmit_branches [OF skb_set_simps(1) sample_frame_frame(2), of sample_lib None "Some 4" 50 sample_mac] cls s by auto
qed

text \<open>
  C35: Identifiers are never given back after a successful transmission, so 512 frames are all that
  can ever be sent: once the identifiers are used up, in every later state the worker takes the
  frames from the queue, sends none of them and frees none of those that name an interface.
\<close>

theorem identifiers_exhausted:
  fixes s :: "'a wireless_simu_mac_scheme"
  assumes "env_room env" "idr_ok lib" "mac_inv lib s" "length (txmgmt_idr s) = 512" "(mac_step lib n env)\<^sup>*\<^sup>* s t"
  shows "\<exists>t'. wireless_simu_mgmt_tx_work_func lib n env t = Some t' \<and> mgmt_tx_queue t' = [] \<and>
    txmgmt_idr t' = txmgmt_idr s \<and>
    (\<forall>p. k_skbs t' p = (if p \<in> set (mgmt_tx_queue t) \<and> \<not> has_vif t p then None else k_skbs t p)) \<and>
    (list_all (has_vif t) (mgmt_tx_queue t) \<longrightarrow> k_skbs t' = k_skbs t \<and> k_trace t' = k_trace t)"
proof -
  have t: "mac_inv lib t" "suffix (txmgmt_idr s) (txmgmt_idr t)"
    using mac_idr.reachable_inv [OF assms(5), of "txmgmt_idr s"] assms(1-3) by auto
  have "length (txmgmt_idr t) \<le> length (txmgmt_idr s)"
    using mac_inv_ids(4) [OF t(1)] assms(4) by simp
  then have eq: "txmgmt_idr t = txmgmt_idr s"
    using t(2) by (auto simp: suffix_def)
  obtain t' sent where t': "wireless_simu_mgmt_tx_work_func lib n env t = Some t'" "mgmt_tx_queue t' = []"
    "worked (mgmt_tx_queue t) t t' sent" "sent = []" "k_skbs t' = named_skbs (mgmt_tx_queue t) t"
    using work_loop_ok [OF assms(1,2) t(1) order_refl, of n] eq assms(4)
    by (auto simp: wireless_simu_mgmt_tx_work_func_def worker_result_def)
  show ?thesis
    using t' eq by (intro exI [of _ t']) (auto simp: worked_def named_skbs_def list_all_iff fun_eq_iff)
qed

theorem identifiers_exhausted_witness:
  "\<exists>t'. wireless_simu_mgmt_tx_work_func sample_lib 0 sample_env sample_full = Some t' \<and> mgmt_tx_queue t' = [] \<and>
    length (txmgmt_idr t') = 512 \<and> k_skbs t' 3 = Some sample_frame"
proof -
  have s: "k_skbs sample_full 3 = Some sample_frame" "mgmt_tx_queue sample_full = [3]"
    by (simp_all add: sample_full_def sample_mac_facts)
  moreover have "has_vif sample_full 3"
    using s(1) by (simp add: has_vif_def) (simp add: sample_frame_def)
  ultimately show ?thesis
    using identifiers_exhausted [OF sample_env_room sample_idr_ok(1) sample_full_inv rtranclp.rtrancl_refl, of 0]
      sample_full_inv(2) by fastforce
qed

text \<open>
  Probe responses are refused for good after 49 management frames. The count of pending frames
  is raised for each accepted frame and lowered only for frames without an interface; once it exceeds
  48 with the queued ones of these not counted, in every later state the transmit callback frees every probe
  response instead of queueing it, even when the queue is empty.
\<close>

theorem probe_responses_starved:
  fixes s :: "'a wireless_simu_mac_scheme"
  assumes "env_room env" "idr_ok lib" "mac_inv lib s" "48 < pending_named s" "(mac_step lib n env)\<^sup>*\<^sup>* s t"
    and "k_skbs t p = Some b" "frame_control b = Some fc" "lib_is_mgmt lib fc" "lib_is_probe_resp lib fc"
    and "skb_tx_flags b AND lib_HW_80211_ENCAP lib = 0"
  shows "\<exists>t'. wireless_mac80211_tx lib key v p t = Some t' \<and> mgmt_tx_queue t' = mgmt_tx_queue t \<and>
    k_skbs t' p = None \<and> k_trace t' = k_trace t @ [EvTxskbFree p]"
proof -
  have "49 \<le> pending_named t"
    using mac_pending.reachable_inv [OF assms(5), of 49] assms(1-4) by auto
  then have "49 \<le> num_pending_mgmt_tx t"
    by (simp add: pending_named_def)
  then show ?thesis
    using tx_exec [OF assms(6,7), of lib key v] assms(8-10) by (simp add: tx_refused_def emit_def)
qed

theorem probe_responses_starved_witness:
  "\<exists>t'. wireless_mac80211_tx sample_lib None (Some 4) 50 (skb_set 50 sample_probe_resp sample_busy) = Some t' \<and> k_skbs t' 50 = None"
proof -
  let ?s = "skb_set 50 sample_probe_resp sample_busy"
  have inv: "mac_inv sample_lib ?s"
    by (rule mac_inv_skb [OF sample_mac_inv(2)]) (simp_all add: skb_set_def sample_busy_def sample_mac_facts)
  have "has_vif ?s 3"
    by (simp add: has_vif_def skb_set_def sample_busy_def sample_mac_facts) (simp add: sample_frame_def)
  then have "48 < pending_named ?s"
    by (simp add: pending_named_def) (simp add: skb_set_def sample_busy_def sample_mac_facts)
  moreover have "k_skbs ?s 50 = Some sample_probe_resp"
    by simp
  ultimately show ?thesis
    using probe_responses_starved [OF sample_env_room sample_idr_ok(1) inv _ rtranclp.rtrancl_refl _ sample_probe_frame(2-5)]
    by blast
qed

text \<open>
  Removing an interface does not look through the queue. When mac80211 frees an interface that a
  queued frame still names, the worker reads freed memory as soon as it comes to that frame.
\<close>

theorem freed_interface_read:
  fixes s :: "'a wireless_simu_mac_scheme"
  assumes "env_grants env" "idr_serves lib" "mac_inv lib s" "length (txmgmt_idr s) < 512"
    and "mgmt_tx_queue s = p # q" "k_skbs s p = Some b" "cb_vif (skb_cb b) = Some v"
  shows "wireless_simu_mgmt_tx_work_func lib n env (s\<lparr>vif_live := (vif_live s)(v := False)\<rparr>) = None"
proof -
  let ?l = "s\<lparr>vif_live := (vif_live s)(v := False), mgmt_tx_queue := q, k_held := [MacConfMutex]\<rparr>"
  have f: "frame_ok lib b" "k_held s = []"
    using assms(3,5,6) by (simp_all add: mac_inv_def queued_ok_def)
  have "0 \<le> lib_idr_alloc lib (k_calls s) (map fst (txmgmt_idr s)) 0 512"
    by (rule idr_served [OF assms(3,2,4)])
  then have "wireless_simu_mgmt_tx_wmi lib n env v p ?l = None"
    using assms(1,6) f(1) by (intro mgmt_tx_wmi_gone [where b = b]) simp_all
  then show ?thesis
    using assms(5-7) f(2) by (simp add: wireless_simu_mgmt_tx_work_func_def mgmt_work_one_def skb_get_def spin_lock_def)
qed

end
