(* ===== verification/Mac_Register.thy ===== *)
theory Mac_Register
  imports Mac_System
begin

text \<open>
  Registration with mac80211: the tables of channels, rates and interface limits
  (\<^verbatim>\<open>wireless_mac80211.h\<close>), \<^verbatim>\<open>wireless_mac80211_core_probe\<close> and \<^verbatim>\<open>wireless_mac80211_core_remove\<close>. What
  mac80211 answers (is a device allocated, does it register, which address does the bus report)
  is the record \<^verbatim>\<open>mac_env\<close>. The sizes of the private areas of interfaces and stations are not kept.
\<close>

section \<open>Tables\<close>

datatype nl80211_band = NL80211_BAND_2GHZ | NL80211_BAND_5GHZ | NL80211_BAND_6GHZ

record ieee80211_channel =
  ch_band :: nl80211_band
  ch_hw_value :: u16
  center_freq :: nat
  ch_flags :: u32
  max_antenna_gain :: int
  max_power :: int

definition CHAN2G :: "u16 \<Rightarrow> nat \<Rightarrow> u32 \<Rightarrow> ieee80211_channel" where
  "CHAN2G channel freq fl = \<lparr>ch_band = NL80211_BAND_2GHZ, ch_hw_value = channel, center_freq = freq, ch_flags = fl,
     max_antenna_gain = 0, max_power = 30\<rparr>"

definition CHAN5G :: "u16 \<Rightarrow> nat \<Rightarrow> u32 \<Rightarrow> ieee80211_channel" where
  "CHAN5G channel freq fl = \<lparr>ch_band = NL80211_BAND_5GHZ, ch_hw_value = channel, center_freq = freq, ch_flags = fl,
     max_antenna_gain = 0, max_power = 30\<rparr>"

definition CHAN6G :: "u16 \<Rightarrow> nat \<Rightarrow> u32 \<Rightarrow> ieee80211_channel" where
  "CHAN6G channel freq fl = \<lparr>ch_band = NL80211_BAND_6GHZ, ch_hw_value = channel, center_freq = freq, ch_flags = fl,
     max_antenna_gain = 0, max_power = 30\<rparr>"

definition wireless_simu_2ghz_channels :: "ieee80211_channel list" where
  "wireless_simu_2ghz_channels = [
     CHAN2G 1 2412 0, CHAN2G 2 2417 0, CHAN2G 3 2422 0, CHAN2G 4 2427 0, CHAN2G 5 2432 0, CHAN2G 6 2437
     0, CHAN2G 7 2442 0, CHAN2G 8 2447 0, CHAN2G 9 2452 0, CHAN2G 10 2457 0, CHAN2G 11 2462 0, CHAN2G 12
     2467 0, CHAN2G 13 2472 0, CHAN2G 14 2484 0]"

definition wireless_simu_5ghz_channels :: "ieee80211_channel list" where
  "wireless_simu_5ghz_channels = [
     CHAN5G 36 5180 0, CHAN5G 40 5200 0, CHAN5G 44 5220 0, CHAN5G 48 5240 0, CHAN5G 52 5260 0, CHAN5G 56
     5280 0, CHAN5G 60 5300 0, CHAN5G 64 5320 0, CHAN5G 100 5500 0, CHAN5G 104 5520 0, CHAN5G 108 5540 0,
     CHAN5G 112 5560 0, CHAN5G 116 5580 0, CHAN5G 120 5600 0, CHAN5G 124 5620 0, CHAN5G 128 5640 0,
     CHAN5G 132 5660 0, CHAN5G 136 5680 0, CHAN5G 140 5700 0, CHAN5G 144 5720 0, CHAN5G 149 5745 0,
     CHAN5G 153 5765 0, CHAN5G 157 5785 0, CHAN5G 161 5805 0, CHAN5G 165 5825 0, CHAN5G 169 5845 0,
     CHAN5G 173 5865 0, CHAN5G 177 5885 0]"

definition wireless_simu_6ghz_channels :: "ieee80211_channel list" where
  "wireless_simu_6ghz_channels = [
     CHAN6G 1 5955 0, CHAN6G 5 5975 0, CHAN6G 9 5995 0, CHAN6G 13 6015 0, CHAN6G 17 6035 0, CHAN6G 21
     6055 0, CHAN6G 25 6075 0, CHAN6G 29 6095 0, CHAN6G 33 6115 0, CHAN6G 37 6135 0, CHAN6G 41 6155 0,
     CHAN6G 45 6175 0, CHAN6G 49 6195 0, CHAN6G 53 6215 0, CHAN6G 57 6235 0, CHAN6G 61 6255 0, CHAN6G 65
     6275 0, CHAN6G 69 6295 0, CHAN6G 73 6315 0, CHAN6G 77 6335 0, CHAN6G 81 6355 0, CHAN6G 85 6375 0,
     CHAN6G 89 6395 0, CHAN6G 93 6415 0, CHAN6G 97 6435 0, CHAN6G 101 6455 0, CHAN6G 105 6475 0, CHAN6G
     109 6495 0, CHAN6G 113 6515 0, CHAN6G 117 6535 0, CHAN6G 121 6555 0, CHAN6G 125 6575 0, CHAN6G 129
     6595 0, CHAN6G 133 6615 0, CHAN6G 137 6635 0, CHAN6G 141 6655 0, CHAN6G 145 6675 0, CHAN6G 149 6695
     0, CHAN6G 153 6715 0, CHAN6G 157 6735 0, CHAN6G 161 6755 0, CHAN6G 165 6775 0, CHAN6G 169 6795 0,
     CHAN6G 173 6815 0, CHAN6G 177 6835 0, CHAN6G 181 6855 0, CHAN6G 185 6875 0, CHAN6G 189 6895 0,
     CHAN6G 193 6915 0, CHAN6G 197 6935 0, CHAN6G 201 6955 0, CHAN6G 205 6975 0, CHAN6G 209 6995 0,
     CHAN6G 213 7015 0, CHAN6G 217 7035 0, CHAN6G 221 7055 0, CHAN6G 225 7075 0, CHAN6G 229 7095 0,
     CHAN6G 233 7115 0, CHAN6G 2 5935 0]"

datatype wireless_simu_hw_rate_cck =
    WIRELESS_SIMU_HW_RATE_CCK_LP_11M | WIRELESS_SIMU_HW_RATE_CCK_LP_5_5M | WIRELESS_SIMU_HW_RATE_CCK_LP_2M
  | WIRELESS_SIMU_HW_RATE_CCK_LP_1M | WIRELESS_SIMU_HW_RATE_CCK_SP_11M | WIRELESS_SIMU_HW_RATE_CCK_SP_5_5M
  | WIRELESS_SIMU_HW_RATE_CCK_SP_2M

datatype wireless_simu_hw_rate_ofdm =
    WIRELESS_SIMU_HW_RATE_OFDM_48M | WIRELESS_SIMU_HW_RATE_OFDM_24M | WIRELESS_SIMU_HW_RATE_OFDM_12M
  | WIRELESS_SIMU_HW_RATE_OFDM_6M | WIRELESS_SIMU_HW_RATE_OFDM_54M | WIRELESS_SIMU_HW_RATE_OFDM_36M
  | WIRELESS_SIMU_HW_RATE_OFDM_18M | WIRELESS_SIMU_HW_RATE_OFDM_9M

primrec rate_cck_val :: "wireless_simu_hw_rate_cck \<Rightarrow> u16" where
  "rate_cck_val WIRELESS_SIMU_HW_RATE_CCK_LP_11M = 0"
| "rate_cck_val WIRELESS_SIMU_HW_RATE_CCK_LP_5_5M = 1"
| "rate_cck_val WIRELESS_SIMU_HW_RATE_CCK_LP_2M = 2"
| "rate_cck_val WIRELESS_SIMU_HW_RATE_CCK_LP_1M = 3"
| "rate_cck_val WIRELESS_SIMU_HW_RATE_CCK_SP_11M = 4"
| "rate_cck_val WIRELESS_SIMU_HW_RATE_CCK_SP_5_5M = 5"
| "rate_cck_val WIRELESS_SIMU_HW_RATE_CCK_SP_2M = 6"

primrec rate_ofdm_val :: "wireless_simu_hw_rate_ofdm \<Rightarrow> u16" where
  "rate_ofdm_val WIRELESS_SIMU_HW_RATE_OFDM_48M = 0"
| "rate_ofdm_val WIRELESS_SIMU_HW_RATE_OFDM_24M = 1"
| "rate_ofdm_val WIRELESS_SIMU_HW_RATE_OFDM_12M = 2"
| "rate_ofdm_val WIRELESS_SIMU_HW_RATE_OFDM_6M = 3"
| "rate_ofdm_val WIRELESS_SIMU_HW_RATE_OFDM_54M = 4"
| "rate_ofdm_val WIRELESS_SIMU_HW_RATE_OFDM_36M = 5"
| "rate_ofdm_val WIRELESS_SIMU_HW_RATE_OFDM_18M = 6"
| "rate_ofdm_val WIRELESS_SIMU_HW_RATE_OFDM_9M = 7"

record ieee80211_rate =
  bitrate :: nat
  rate_hw_value :: u16
  hw_value_short :: u16
  short_preamble :: bool

definition rate :: "nat \<Rightarrow> u16 \<Rightarrow> ieee80211_rate" where
  "rate br v = \<lparr>bitrate = br, rate_hw_value = v, hw_value_short = 0, short_preamble = False\<rparr>"

definition wireless_simu_rates :: "ieee80211_rate list" where
  "wireless_simu_rates = [
     rate 10 (rate_cck_val WIRELESS_SIMU_HW_RATE_CCK_LP_1M),
     (rate 20 (rate_cck_val WIRELESS_SIMU_HW_RATE_CCK_LP_2M))
       \<lparr>hw_value_short := rate_cck_val WIRELESS_SIMU_HW_RATE_CCK_SP_2M, short_preamble := True\<rparr>,
     (rate 55 (rate_cck_val WIRELESS_SIMU_HW_RATE_CCK_LP_5_5M))
       \<lparr>hw_value_short := rate_cck_val WIRELESS_SIMU_HW_RATE_CCK_SP_5_5M, short_preamble := True\<rparr>,
     (rate 110 (rate_cck_val WIRELESS_SIMU_HW_RATE_CCK_LP_11M))
       \<lparr>hw_value_short := rate_cck_val WIRELESS_SIMU_HW_RATE_CCK_SP_11M, short_preamble := True\<rparr>,
     rate 60 (rate_ofdm_val WIRELESS_SIMU_HW_RATE_OFDM_6M),
     rate 90 (rate_ofdm_val WIRELESS_SIMU_HW_RATE_OFDM_9M),
     rate 120 (rate_ofdm_val WIRELESS_SIMU_HW_RATE_OFDM_12M),
     rate 180 (rate_ofdm_val WIRELESS_SIMU_HW_RATE_OFDM_18M),
     rate 240 (rate_ofdm_val WIRELESS_SIMU_HW_RATE_OFDM_24M),
     rate 360 (rate_ofdm_val WIRELESS_SIMU_HW_RATE_OFDM_36M),
     rate 480 (rate_ofdm_val WIRELESS_SIMU_HW_RATE_OFDM_48M),
     rate 540 (rate_ofdm_val WIRELESS_SIMU_HW_RATE_OFDM_54M)]"

definition WIRELESS_SIMU_MAC_FIRST_OFDM_RATE_IDX :: nat where "WIRELESS_SIMU_MAC_FIRST_OFDM_RATE_IDX = 4"

definition wireless_simu_a_rates :: "ieee80211_rate list" where
  "wireless_simu_a_rates = drop WIRELESS_SIMU_MAC_FIRST_OFDM_RATE_IDX wireless_simu_rates"

text \<open>A regulatory rule: frequency range and bandwidth in MHz, antenna gain, power, and whether CCK is excluded.\<close>

record ieee80211_reg_rule =
  rr_start :: nat
  rr_end :: nat
  rr_bandwidth :: nat
  rr_gain :: nat
  rr_eirp :: nat
  rr_no_cck :: bool

definition REG_RULES :: "ieee80211_reg_rule list" where
  "REG_RULES = [
     \<lparr>rr_start = 2412 - 10, rr_end = 2412 + 10, rr_bandwidth = 40, rr_gain = 0, rr_eirp = 20, rr_no_cck = True\<rparr>,
     \<lparr>rr_start = 5160 - 10, rr_end = 5865 + 10, rr_bandwidth = 80, rr_gain = 0, rr_eirp = 20, rr_no_cck = False\<rparr>]"

record ieee80211_iface_combination =
  ic_limits :: "(nat \<times> nl80211_iftype list) list"
  ic_max_interfaces :: nat
  ic_num_different_channels :: nat

definition wireless_simu_if_limits :: "(nat \<times> nl80211_iftype list) list" where
  "wireless_simu_if_limits = [(1, [NL80211_IFTYPE_STATION]), (1, [NL80211_IFTYPE_AP])]"

definition wireless_simu_if_comb :: ieee80211_iface_combination where
  "wireless_simu_if_comb = \<lparr>ic_limits = wireless_simu_if_limits, ic_max_interfaces = 2, ic_num_different_channels = 1\<rparr>"

section \<open>State\<close>

datatype wireless_simu_err_code =
    SUCCESS | STOP | TX_RING_INIT_MALLOC_ERR | TX_RING_FULL | RX_RING_INIT_MALLOC_ERR
  | MAC80211_ALLOC_ERR | MAC80211_REGISTER_ERR

record ieee80211_supported_band =
  sb_band :: nl80211_band
  sb_channels :: "(kptr \<times> ieee80211_channel list) option"
  n_channels :: nat
  sb_bitrates :: "ieee80211_rate list"
  n_bitrates :: nat
  ht_supported :: bool
  mcs_rx_mask_0 :: u8
  mcs_tx_defined :: bool

datatype ieee80211_hw_flag =
    RX_INCLUDES_FCS | BEACON_TX_STATUS | REPORTS_TX_ACK_STATUS | AP_LINK_PS | SIGNAL_DBM | QUEUE_CONTROL

datatype regulatory_flag = REGULATORY_STRICT_REG | REGULATORY_CUSTOM_REG

record ieee80211_hw =
  hw_registered :: bool
  hw_flags :: "ieee80211_hw_flag list"
  extra_tx_headroom :: nat
  interface_modes :: "nl80211_iftype list"
  iface_combinations :: "ieee80211_iface_combination list"
  available_antennas_tx :: nat
  available_antennas_rx :: nat
  regulatory_flags :: "regulatory_flag list"
  hw_reg_rules :: "ieee80211_reg_rule list"
  hw_queues :: nat
  offchannel_tx_hw_queue :: nat
  ext_cqm_rssi_list :: bool
  band_registered :: bool \<comment> \<open>\<^verbatim>\<open>wiphy->bands\<close> has the 2 GHz band\<close>
  perm_addr :: "u8 list"

definition ieee80211_hw_zero :: ieee80211_hw where
  "ieee80211_hw_zero = \<lparr>hw_registered = False, hw_flags = [], extra_tx_headroom = 0, interface_modes = [],
     iface_combinations = [], available_antennas_tx = 0, available_antennas_rx = 0, regulatory_flags = [],
     hw_reg_rules = [], hw_queues = 0, offchannel_tx_hw_queue = 0, ext_cqm_rssi_list = False,
     band_registered = False, perm_addr = []\<rparr>"

record wireless_simu_reg = wireless_simu_mac +
  hw :: "ieee80211_hw option"
  band_2GHZ :: ieee80211_supported_band
  band_5GHZ_channels :: "kptr option"
  band_6GHZ_channels :: "kptr option"
  mac_addr :: "u8 list"

record mac_env =
  me_alloc_hw :: bool
  me_register_hw :: int
  me_dev_addr :: "u8 list \<Rightarrow> u8 list" \<comment> \<open>\<^verbatim>\<open>device_get_mac_address\<close>, which may leave its argument\<close>
  me_valid_addr :: "u8 list \<Rightarrow> bool"
  me_random_addr :: "u8 list"

section \<open>Operations\<close>

definition setup_band :: "kptr \<Rightarrow> ieee80211_supported_band" where
  "setup_band k = \<lparr>sb_band = NL80211_BAND_2GHZ, sb_channels = Some (k, wireless_simu_2ghz_channels),
     n_channels = length wireless_simu_2ghz_channels, sb_bitrates = wireless_simu_rates,
     n_bitrates = length wireless_simu_rates, ht_supported = True, mcs_rx_mask_0 = 0xff, mcs_tx_defined = True\<rparr>"

definition setup_hw :: "ieee80211_hw \<Rightarrow> ieee80211_hw" where
  "setup_hw h = h\<lparr>band_registered := True,
     hw_flags := hw_flags h @ [RX_INCLUDES_FCS, BEACON_TX_STATUS, REPORTS_TX_ACK_STATUS, AP_LINK_PS, SIGNAL_DBM, QUEUE_CONTROL],
     extra_tx_headroom := 4,
     interface_modes := [NL80211_IFTYPE_MONITOR, NL80211_IFTYPE_AP, NL80211_IFTYPE_STATION],
     iface_combinations := [wireless_simu_if_comb],
     available_antennas_tx := 1, available_antennas_rx := 1,
     regulatory_flags := [REGULATORY_STRICT_REG, REGULATORY_CUSTOM_REG], hw_reg_rules := REG_RULES,
     hw_queues := WIRELESS_SIMU_HW_QUEUE, offchannel_tx_hw_queue := WIRELESS_SIMU_HW_QUEUE - 1,
     ext_cqm_rssi_list := True\<rparr>"

definition wireless_mac80211_core_probe ::
  "mac_env \<Rightarrow> kenv \<Rightarrow> 'a wireless_simu_reg_scheme \<Rightarrow>
   (wireless_simu_err_code \<times> 'a wireless_simu_reg_scheme) option" where
  "wireless_mac80211_core_probe me env s =
     (let s = spin_lock_init MacConfMutex s in
      if \<not> me_alloc_hw me then Some (MAC80211_ALLOC_ERR, s\<lparr>hw := None\<rparr>)
      else
        let h = ieee80211_hw_zero; s = s\<lparr>hw := Some h, hw_live := True, vif_live := (\<lambda>_. False), mgmt_tx_queue := []\<rparr> in
        (case kmalloc env s of
           (None, s) \<Rightarrow> Some (MAC80211_ALLOC_ERR, s)
         | (Some k, s) \<Rightarrow> do {
             let s = s\<lparr>band_2GHZ := setup_band k\<rparr>;
             let h = setup_hw h;
             let s = s\<lparr>vif := map (\<lambda>_. None) (vif s)\<rparr>;
             let addr = me_dev_addr me (mac_addr s);
             let addr = (if me_valid_addr me addr then addr else me_random_addr me);
             let h = h\<lparr>perm_addr := addr\<rparr>;
             let s = s\<lparr>mac_addr := addr, hw := Some h\<rparr>;
             let s = spin_lock_init HtcTxLock (spin_lock_init TxmgmtIdrLock s);
             let s = s\<lparr>txmgmt_idr := []\<rparr>;
             if me_register_hw me \<noteq> 0 then do {
               s \<leftarrow> kfree (map_option fst (sb_channels (band_2GHZ s))) s;
               s \<leftarrow> kfree (band_5GHZ_channels s) s;
               s \<leftarrow> kfree (band_6GHZ_channels s) s;
               Some (MAC80211_REGISTER_ERR, s\<lparr>hw := None, hw_live := False\<rparr>)
             } else Some (SUCCESS, s\<lparr>hw := Some (h\<lparr>hw_registered := True\<rparr>)\<rparr>)
           }))"

text \<open>
  Unregistering a device that is not registered is an error of the caller; after the call the
  device and all its interfaces are freed, although the driver keeps its pointer to the device and
  its queue the frames that name the interfaces.
\<close>

definition wireless_mac80211_core_remove ::
  "'a wireless_simu_reg_scheme \<Rightarrow> (int \<times> 'a wireless_simu_reg_scheme) option" where
  "wireless_mac80211_core_remove s =
     (case hw s of
        None \<Rightarrow> Some (0, s)
      | Some h \<Rightarrow>
          if hw_registered h then Some (0, s\<lparr>hw := Some (h\<lparr>hw_registered := False\<rparr>), hw_live := False, vif_live := (\<lambda>_. False)\<rparr>)
          else None)"

definition sample_reg :: wireless_simu_reg where
  "sample_reg = wireless_simu_mac.extend (sample_mac\<lparr>mgmt_tx_queue := [], num_pending_mgmt_tx := 0\<rparr>)
     (wireless_simu_reg.fields None (setup_band 0) None None [])"

definition sample_mac_env :: "bool \<Rightarrow> int \<Rightarrow> mac_env" where
  "sample_mac_env a r = \<lparr>me_alloc_hw = a, me_register_hw = r, me_dev_addr = id, me_valid_addr = (\<lambda>a. a \<noteq> []),
     me_random_addr = [2, 0, 0, 0, 0, 1]\<rparr>"

text \<open>The centre frequency the standard gives a channel number in each band.\<close>

definition channel_freq :: "nl80211_band \<Rightarrow> nat \<Rightarrow> nat" where
  "channel_freq b c = (case b of
     NL80211_BAND_2GHZ \<Rightarrow> (if c = 14 then 2484 else 2407 + 5 * c)
   | NL80211_BAND_5GHZ \<Rightarrow> 5000 + 5 * c
   | NL80211_BAND_6GHZ \<Rightarrow> (if c = 2 then 5935 else 5950 + 5 * c))"

definition channel_ok :: "nl80211_band \<Rightarrow> ieee80211_channel \<Rightarrow> bool" where
  "channel_ok b c = (ch_band c = b \<and> center_freq c = channel_freq b (unat (ch_hw_value c)))"

section \<open>Lemmas\<close>

lemma spin_lock_init_free [simp]: "l \<notin> set (k_held s) \<Longrightarrow> spin_lock_init l s = s"
  by (simp add: spin_lock_init_def)

lemma band_channels: "n_channels (setup_band k) = 14"
  by (simp add: setup_band_def wireless_simu_2ghz_channels_def)

lemma core_probe_exec:
  assumes "k_held s = []" "me_alloc_hw me" "band_5GHZ_channels s = None" "band_6GHZ_channels s = None"
  shows "wireless_mac80211_core_probe me env s =
    (let addr = me_dev_addr me (mac_addr s);
         addr = (if me_valid_addr me addr then addr else me_random_addr me);
         h = (setup_hw ieee80211_hw_zero)\<lparr>perm_addr := addr\<rparr>;
         t = (tick s)\<lparr>hw_live := True, vif_live := (\<lambda>_. False), mgmt_tx_queue := [], vif := map (\<lambda>_. None) (vif s), mac_addr := addr, txmgmt_idr := [],
           band_2GHZ := setup_band (k_calls s)\<rparr>
     in if \<not> env_kmalloc env (k_calls s)
        then Some (MAC80211_ALLOC_ERR, (tick s)\<lparr>hw := Some ieee80211_hw_zero, hw_live := True, vif_live := (\<lambda>_. False), mgmt_tx_queue := []\<rparr>)
        else if me_register_hw me \<noteq> 0
        then Some (MAC80211_REGISTER_ERR, emit (EvKfree (k_calls s)) (t\<lparr>hw := None, hw_live := False\<rparr>))
        else Some (SUCCESS, t\<lparr>hw := Some (h\<lparr>hw_registered := True\<rparr>), k_heap := k_calls s # k_heap s\<rparr>))"
  using assms
  by (simp add: wireless_mac80211_core_probe_def kmalloc_def kfree_def Let_def setup_band_def tick_def emit_def)

section \<open>Properties\<close>

text \<open>
  C19: Registering with mac80211, on every branch. When mac80211 has no device to give, the driver has
  none and nothing is allocated or queued; its removal then does nothing. On success the device is registered with the
  14-channel band, the management path is in its initial well-formed state, and removal
  unregisters it, leaving the copy of the channel table allocated. When registration fails nothing
  stays allocated and the driver forgets the device. When the channel table cannot be copied the
  driver keeps an allocated device that is not registered, and its removal unregisters a device
  that was never registered.
\<close>

theorem registration_outcome:
  fixes s :: "'a wireless_simu_reg_scheme"
  assumes "k_held s = []" "length (vif s) = 4" "num_pending_mgmt_tx s = 0"
    and "band_5GHZ_channels s = None" "band_6GHZ_channels s = None"
  shows "\<exists>r s'. wireless_mac80211_core_probe me env s = Some (r, s') \<and> k_held s' = [] \<and>
    (if \<not> me_alloc_hw me
     then r = MAC80211_ALLOC_ERR \<and> s' = s\<lparr>hw := None\<rparr> \<and> wireless_mac80211_core_remove s' = Some (0, s')
     else if \<not> env_kmalloc env (k_calls s)
     then r = MAC80211_ALLOC_ERR \<and> k_heap s' = k_heap s \<and> hw s' \<noteq> None \<and> wireless_mac80211_core_remove s' = None
     else if me_register_hw me \<noteq> 0
     then r = MAC80211_REGISTER_ERR \<and> k_heap s' = k_heap s \<and> hw s' = None \<and>
       wireless_mac80211_core_remove s' = Some (0, s')
     else r = SUCCESS \<and> mac_inv lib s' \<and> n_channels (band_2GHZ s') = 14 \<and>
       (\<exists>h t. hw s' = Some h \<and> hw_registered h \<and> wireless_mac80211_core_remove s' = Some (0, t) \<and>
         k_heap t = k_calls s # k_heap s))"
proof (cases "me_alloc_hw me")
  case False
  then show ?thesis
    using assms(1) by (simp add: wireless_mac80211_core_probe_def wireless_mac80211_core_remove_def Let_def)
next
  case True
  note run = core_probe_exec [OF assms(1) True assms(4,5), of env]
  consider "\<not> env_kmalloc env (k_calls s)" | "env_kmalloc env (k_calls s)" "me_register_hw me \<noteq> 0"
    | "env_kmalloc env (k_calls s)" "me_register_hw me = 0"
    by blast
  then show ?thesis
  proof cases
    case 1
    then show ?thesis
      using run True assms(1) by (simp add: Let_def wireless_mac80211_core_remove_def tick_def ieee80211_hw_zero_def)
  next
    case 2
    then show ?thesis
      using run True assms(1) by (simp add: Let_def wireless_mac80211_core_remove_def tick_def emit_def)
  next
    case 3
    then show ?thesis
      using run True assms(1-3)
      by (simp add: Let_def wireless_mac80211_core_remove_def tick_def mac_inv_def band_channels
          WIRELESS_MAX_NUM_VIF_def WIRELESS_SIMU_TX_MGMT_NUM_PENDING_MAX_def)
  qed
qed

theorem registration_outcome_witness:
  "(\<exists>s'. wireless_mac80211_core_probe (sample_mac_env True 0) sample_env sample_reg = Some (SUCCESS, s') \<and>
    mac_inv sample_lib s' \<and> n_channels (band_2GHZ s') = 14) \<and>
   wireless_mac80211_core_probe (sample_mac_env False 0) sample_env sample_reg = Some (MAC80211_ALLOC_ERR, sample_reg\<lparr>hw := None\<rparr>)"
proof -
  have pre: "k_held sample_reg = []" "length (vif sample_reg) = 4" "num_pending_mgmt_tx sample_reg = 0"
    "band_5GHZ_channels sample_reg = None" "band_6GHZ_channels sample_reg = None"
    using sample_mac_facts(3,5)
    by (simp_all add: sample_reg_def wireless_simu_mac.defs wireless_simu_reg.defs)
  show ?thesis
    using registration_outcome [OF pre, of "sample_mac_env True 0" sample_env sample_lib]
      registration_outcome [OF pre, of "sample_mac_env False 0" sample_env sample_lib] by (auto simp: sample_env_def sample_mac_env_def)
qed

text \<open>
  The channel tables. Every entry of the three tables is in its band and has the centre
  frequency the standard gives its channel number, no channel number occurs twice in a band, and
  the rates from the first OFDM rate on are exactly those of OFDM.
\<close>

theorem channel_tables_correct:
  "list_all (channel_ok NL80211_BAND_2GHZ) wireless_simu_2ghz_channels \<and>
   list_all (channel_ok NL80211_BAND_5GHZ) wireless_simu_5ghz_channels \<and>
   list_all (channel_ok NL80211_BAND_6GHZ) wireless_simu_6ghz_channels \<and>
   distinct (map ch_hw_value wireless_simu_2ghz_channels) \<and> distinct (map ch_hw_value wireless_simu_5ghz_channels) \<and>
   distinct (map ch_hw_value wireless_simu_6ghz_channels) \<and>
   map bitrate wireless_simu_a_rates = [60, 90, 120, 180, 240, 360, 480, 540]"
proof (intro conjI)
  show "list_all (channel_ok NL80211_BAND_2GHZ) wireless_simu_2ghz_channels"
    by (simp add: wireless_simu_2ghz_channels_def CHAN2G_def channel_ok_def channel_freq_def)
  show "list_all (channel_ok NL80211_BAND_5GHZ) wireless_simu_5ghz_channels"
    by (simp add: wireless_simu_5ghz_channels_def CHAN5G_def channel_ok_def channel_freq_def)
  show "list_all (channel_ok NL80211_BAND_6GHZ) wireless_simu_6ghz_channels"
    by (simp add: wireless_simu_6ghz_channels_def CHAN6G_def channel_ok_def channel_freq_def)
  show "distinct (map ch_hw_value wireless_simu_2ghz_channels)"
    by (simp add: wireless_simu_2ghz_channels_def CHAN2G_def)
  show "distinct (map ch_hw_value wireless_simu_5ghz_channels)"
    by (simp add: wireless_simu_5ghz_channels_def CHAN5G_def)
  show "distinct (map ch_hw_value wireless_simu_6ghz_channels)"
    by (simp add: wireless_simu_6ghz_channels_def CHAN6G_def)
  show "map bitrate wireless_simu_a_rates = [60, 90, 120, 180, 240, 360, 480, 540]"
    by (simp add: wireless_simu_a_rates_def WIRELESS_SIMU_MAC_FIRST_OFDM_RATE_IDX_def wireless_simu_rates_def rate_def)
qed

end
