(* ===== verification/Ring_Queue.thy ===== *)
theory Ring_Queue
  imports Main
begin

text \<open>
  The contract of a descriptor ring, as a locale: a bounded queue that the driver posts to and
  the device takes from. A post appends one descriptor when there is room and reports an error
  and changes nothing in the queue when there is none; the device takes from the front. The
  lemmas proved here hold of every ring that keeps the contract; the transmit path and the path
  that posts receive buffers are shown to keep it in the theories that model them.
\<close>

section \<open>Runs of a ring\<close>

text \<open>
  A run from a state: the descriptors posted and the descriptors taken since, in order. Posts
  that fail are part of a run.
\<close>

inductive ring_run ::
  "('x \<Rightarrow> 's \<Rightarrow> (int \<times> 's) option) \<Rightarrow> ('x \<Rightarrow> 's \<Rightarrow> 'd) \<Rightarrow> ('x \<Rightarrow> 's \<Rightarrow> bool) \<Rightarrow>
   ('s \<Rightarrow> 'd list) \<Rightarrow> (nat \<Rightarrow> 's \<Rightarrow> 's) \<Rightarrow> 's \<Rightarrow> 'd list \<Rightarrow> 'd list \<Rightarrow> 's \<Rightarrow> bool"
  for post image valid queue consume s where
  ring_start: "ring_run post image valid queue consume s [] [] s"
| ring_post: "ring_run post image valid queue consume s ps ts s1 \<Longrightarrow> valid x s1 \<Longrightarrow>
    post x s1 = Some (0, s2) \<Longrightarrow>
    ring_run post image valid queue consume s (ps @ [image x s1]) ts s2"
| ring_refused: "ring_run post image valid queue consume s ps ts s1 \<Longrightarrow> valid x s1 \<Longrightarrow>
    post x s1 = Some (e, s2) \<Longrightarrow> e \<noteq> 0 \<Longrightarrow>
    ring_run post image valid queue consume s ps ts s2"
| ring_take: "ring_run post image valid queue consume s ps ts s1 \<Longrightarrow> k \<le> length (queue s1) \<Longrightarrow>
    ring_run post image valid queue consume s ps (ts @ take k (queue s1)) (consume k s1)"

text \<open>Posting a list until the first refusal: how many were accepted, and the final state.\<close>

fun post_all ::
  "('x \<Rightarrow> 's \<Rightarrow> (int \<times> 's) option) \<Rightarrow> 'x list \<Rightarrow> 's \<Rightarrow> (nat \<times> 's) option" where
  "post_all post [] s = Some (0, s)"
| "post_all post (x # xs) s =
     (case post x s of
        None \<Rightarrow> None
      | Some (e, s1) \<Rightarrow>
          if e \<noteq> 0 then Some (0, s1)
          else map_option (\<lambda>(n, s2). (Suc n, s2)) (post_all post xs s1))"

section \<open>The contract\<close>

locale descriptor_ring =
  fixes inv :: "'s \<Rightarrow> bool"
    and queue :: "'s \<Rightarrow> 'd list"
    and capacity :: "'s \<Rightarrow> nat"
    and post :: "'x \<Rightarrow> 's \<Rightarrow> (int \<times> 's) option"
    and image :: "'x \<Rightarrow> 's \<Rightarrow> 'd"
    and valid :: "'x \<Rightarrow> 's \<Rightarrow> bool"
    and consume :: "nat \<Rightarrow> 's \<Rightarrow> 's"
    and full_code :: int
  assumes full_code: "full_code \<noteq> 0"
    and bounded: "inv s \<Longrightarrow> length (queue s) \<le> capacity s"
    and post_room: "inv s \<Longrightarrow> valid x s \<Longrightarrow> length (queue s) < capacity s \<Longrightarrow>
      \<exists>s'. post x s = Some (0, s') \<and> inv s' \<and> queue s' = queue s @ [image x s] \<and>
        capacity s' = capacity s \<and> (\<forall>y. valid y s \<longrightarrow> valid y s')"
    and post_full: "inv s \<Longrightarrow> valid x s \<Longrightarrow> length (queue s) = capacity s \<Longrightarrow>
      \<exists>s'. post x s = Some (full_code, s') \<and> inv s' \<and> queue s' = queue s \<and> capacity s' = capacity s"
    and consume_front: "inv s \<Longrightarrow> k \<le> length (queue s) \<Longrightarrow>
      inv (consume k s) \<and> queue (consume k s) = drop k (queue s) \<and>
      capacity (consume k s) = capacity s"
begin

text \<open>A post always returns, and it succeeds exactly when there is room.\<close>

lemma post_returns:
  assumes "inv s" "valid x s"
  obtains e s' where "post x s = Some (e, s')" "inv s'" "capacity s' = capacity s"
    "e = (if length (queue s) < capacity s then 0 else full_code)"
    "queue s' = (if length (queue s) < capacity s then queue s @ [image x s] else queue s)"
proof (cases "length (queue s) < capacity s")
  case True
  then show ?thesis
    using post_room [OF assms True] that by auto
next
  case False
  then have "length (queue s) = capacity s"
    using bounded [OF assms(1)] by simp
  then show ?thesis
    using post_full [OF assms] False that by auto
qed

text \<open>First in, first out, over any run: nothing is lost, duplicated or reordered.\<close>

lemma run_fifo:
  assumes "ring_run post image valid queue consume s ps ts s'" "inv s"
  shows "inv s' \<and> capacity s' = capacity s \<and> queue s @ ps = ts @ queue s'"
  using assms
proof (induction rule: ring_run.induct)
  case (ring_post ps ts s1 x s2)
  then show ?case
    by (auto elim!: post_returns [of s1 x] split: if_splits simp: full_code)
next
  case (ring_refused ps ts s1 x e s2)
  then show ?case
    by (auto elim!: post_returns [of s1 x] split: if_splits)
next
  case (ring_take ps ts s1 k)
  then show ?case
    using consume_front [of s1 k] by (simp add: append_assoc)
qed simp

text \<open>A burst of posts fills the ring and stops exactly at its capacity.\<close>

lemma post_all_fills:
  assumes "inv s" "\<forall>x\<in>set xs. valid x s"
  shows "\<exists>s'. post_all post xs s = Some (min (length xs) (capacity s - length (queue s)), s') \<and>
    inv s' \<and> capacity s' = capacity s \<and>
    length (queue s') = length (queue s) + min (length xs) (capacity s - length (queue s)) \<and>
    take (length (queue s)) (queue s') = queue s"
  using assms
proof (induction xs arbitrary: s)
  case (Cons x xs)
  show ?case
  proof (cases "length (queue s) < capacity s")
    case True
    then obtain s1 where s1: "post x s = Some (0, s1)" "inv s1" "queue s1 = queue s @ [image x s]"
      "capacity s1 = capacity s" "\<forall>y. valid y s \<longrightarrow> valid y s1"
      using post_room [of s x] Cons.prems by auto
    with Cons.prems have "\<forall>y\<in>set xs. valid y s1" by simp
    from Cons.IH [OF s1(2) this] obtain s2 where
      "post_all post xs s1 = Some (min (length xs) (capacity s1 - length (queue s1)), s2)"
      "inv s2" "capacity s2 = capacity s1"
      "length (queue s2) = length (queue s1) + min (length xs) (capacity s1 - length (queue s1))"
      "take (length (queue s1)) (queue s2) = queue s1"
      by auto
    then show ?thesis
      using True s1 by (auto simp: take_Suc_conv_app_nth dest: arg_cong [of _ _ butlast])
  next
    case False
    then have "length (queue s) = capacity s"
      using bounded Cons.prems(1) by (simp add: le_antisym)
    with post_full [of s x] Cons.prems show ?thesis
      by (auto simp: full_code)
  qed
qed simp

end

end
