(* ===== verification/Srng_Test.thy ===== *)
theory Srng_Test
  imports Srng_Access Ring_Queue Samples
begin

text \<open>
  The transmit test module, \<^verbatim>\<open>driver/driver_wireless/wireless_hal.c\<close> lines 774 to 1169:
  allocation and release of test rings and pipes, their registration with the ring layer, the
  descriptor format, sending one buffer, and the self test that sends fifty.
\<close>

section \<open>Rings and pipes\<close>

definition hal_srng_test_alloc_ring ::
  "kenv \<Rightarrow> int \<Rightarrow> int \<Rightarrow> 'a kernel_scheme \<Rightarrow> ((errno + srng_test_ring) \<times> 'a kernel_scheme) option" where
  "hal_srng_test_alloc_ring env n desc_sz s =
     (case kmalloc env s of
        (None, s) \<Rightarrow> Some (Inl ENOMEM, s)
      | (Some k, s) \<Rightarrow>
          let bytes = of_int (n * desc_sz + uint SRNG_TEST_DESC_RING_ALIGN) :: u64
          in case dma_alloc_coherent env bytes s of ((v, p), s) \<Rightarrow>
               if v = 0 then do {
                 s \<leftarrow> kfree (Some k) s;
                 Some (Inl ENOMEM, s)
               } else do {
                 s \<leftarrow> memset_0 v (unat bytes) s;
                 Some (Inr \<lparr>ring_kptr = k, nentries = of_int n, nentries_mask = of_int (n - 1),
                       sw_index = 0, write_index = 0,
                       base_addr_owner_space_unaligned = v,
                       base_addr_test_space_unaligned = p,
                       dma_size = bytes,
                       base_addr_owner_space = ALIGN v SRNG_TEST_DESC_RING_ALIGN,
                       base_addr_test_space = ALIGN p SRNG_TEST_DESC_RING_ALIGN,
                       hal_ring_id = 0,
                       ring_skb = replicate (nat n) None\<rparr>, s)
               })"

text \<open>
  The transmit ring is released with its size recomputed from the descriptor size, the other
  two with the size recorded at allocation.
\<close>

definition free_src_ring :: "srng_test_ring \<Rightarrow> 'a kernel_scheme \<Rightarrow> 'a kernel_scheme option" where
  "free_src_ring ring s = do {
     s \<leftarrow> dma_free_coherent
            (ucast (nentries ring * sizeof_hal_test_sw2hw + ucast SRNG_TEST_DESC_RING_ALIGN))
            (base_addr_owner_space_unaligned ring) (base_addr_test_space_unaligned ring) s;
     kfree (Some (ring_kptr ring)) s
   }"

definition free_dst_ring :: "srng_test_ring \<Rightarrow> 'a kernel_scheme \<Rightarrow> 'a kernel_scheme option" where
  "free_dst_ring ring s = do {
     s \<leftarrow> dma_free_coherent (dma_size ring)
            (base_addr_owner_space_unaligned ring) (base_addr_test_space_unaligned ring) s;
     kfree (Some (ring_kptr ring)) s
   }"

definition free_pipe ::
  "srng_test_pipe \<Rightarrow> 'a kernel_scheme \<Rightarrow> (srng_test_pipe \<times> 'a kernel_scheme) option" where
  "free_pipe pipe s = do {
     (pipe, s) \<leftarrow> (case pipe_src_ring pipe of
         None \<Rightarrow> Some (pipe, s)
       | Some ring \<Rightarrow> do { s \<leftarrow> free_src_ring ring s; Some (pipe\<lparr>pipe_src_ring := None\<rparr>, s) });
     (pipe, s) \<leftarrow> (case pipe_dst_ring pipe of
         None \<Rightarrow> Some (pipe, s)
       | Some ring \<Rightarrow> do { s \<leftarrow> free_dst_ring ring s; Some (pipe\<lparr>pipe_dst_ring := None\<rparr>, s) });
     (case pipe_status_ring pipe of
         None \<Rightarrow> Some (pipe, s)
       | Some ring \<Rightarrow> do { s \<leftarrow> free_dst_ring ring s; Some (pipe\<lparr>pipe_status_ring := None\<rparr>, s) })
   }"

definition hal_srng_test_free_pipes ::
  "srng_test \<times> 'a kernel_scheme \<Rightarrow> (srng_test \<times> 'a kernel_scheme) option" where
  "hal_srng_test_free_pipes =
     foldo (\<lambda>i (st, s). do {
         pipe \<leftarrow> nth_opt (pipes st) i;
         (pipe, s) \<leftarrow> free_pipe pipe s;
         Some (st\<lparr>pipes := (pipes st)[i := pipe]\<rparr>, s)
       }) [0..<SRNG_TEST_PIPE_COUNT_MAX]"

definition get_host_attr :: "srng_test \<Rightarrow> nat \<Rightarrow> 'a kernel_scheme \<Rightarrow> srng_test_attr option" where
  "get_host_attr st i s =
     (case host_config st of
        None \<Rightarrow> None
      | Some (k, attrs) \<Rightarrow> if k \<in> set (k_heap s) then nth_opt attrs i else None)"

text \<open>The entry count \<^verbatim>\<open>int nentries = roundup_pow_of_two(...)\<close>.\<close>

definition ring_nentries :: "u32 \<Rightarrow> int" where
  "ring_nentries n = sint (ucast (roundup_pow_of_two n) :: u32)"

definition hal_srng_test_alloc_pipe ::
  "kenv \<Rightarrow> nat \<Rightarrow> srng_test \<Rightarrow> 'a kernel_scheme \<Rightarrow> (int \<times> srng_test \<times> 'a kernel_scheme) option" where
  "hal_srng_test_alloc_pipe env i st s = do {
     pipe \<leftarrow> nth_opt (pipes st) i;
     attr \<leftarrow> get_host_attr st i s;
     let put = (\<lambda>pipe. st\<lparr>pipes := (pipes st)[i := pipe]\<rparr>);
     let pipe = pipe\<lparr>pipe_attr_flags := attr_flags attr, pipe_num := of_nat i,
                    buf_sz := src_sz_max attr\<rparr>;
     (ret, pipe, s) \<leftarrow>
       (if src_nentries attr = 0 then Some (0, pipe, s)
        else do {
          let pipe = pipe\<lparr>pipe_send_cb := attr_send_cb attr\<rparr>;
          (ring, s) \<leftarrow> hal_srng_test_alloc_ring env (ring_nentries (src_nentries attr))
                         (uint sizeof_hal_test_sw2hw) s;
          (case ring of
             Inl e \<Rightarrow> Some (neg_errno e, pipe, s)
           | Inr ring \<Rightarrow> Some (0, pipe\<lparr>pipe_src_ring := Some ring\<rparr>, s))
        });
     if ret \<noteq> 0 then Some (ret, put pipe, s)
     else if dest_nentries attr = 0 then Some (0, put pipe, s)
     else do {
       let pipe = pipe\<lparr>pipe_send_cb := attr_send_cb attr, pipe_recv_cb := attr_recv_cb attr\<rparr>;
       (ring, s) \<leftarrow> hal_srng_test_alloc_ring env (ring_nentries (dest_nentries attr))
                      (uint sizeof_hal_test_dst) s;
       (case ring of
          Inl e \<Rightarrow> Some (neg_errno e, put pipe, s)
        | Inr ring \<Rightarrow> do {
            let pipe = pipe\<lparr>pipe_dst_ring := Some ring\<rparr>;
            (ring, s) \<leftarrow> hal_srng_test_alloc_ring env (ring_nentries (dest_nentries attr))
                           (uint sizeof_hal_test_dst_status) s;
            (case ring of
               Inl e \<Rightarrow> Some (neg_errno e, put pipe, s)
             | Inr ring \<Rightarrow> Some (0, put (pipe\<lparr>pipe_status_ring := Some ring\<rparr>), s))
          })
     }
   }"

text \<open>The loop over the pipes that both modules run, stopping at the first error.\<close>

fun alloc_pipes ::
  "kenv \<Rightarrow> nat list \<Rightarrow> srng_test \<Rightarrow> 'a kernel_scheme \<Rightarrow> (int \<times> srng_test \<times> 'a kernel_scheme) option" where
  "alloc_pipes env [] st s = Some (0, st, s)"
| "alloc_pipes env (i # is) st s = do {
     (ret, st, s) \<leftarrow> hal_srng_test_alloc_pipe env i st s;
     if ret \<noteq> 0 then Some (ret, st, s) else alloc_pipes env is st s
   }"

definition hal_srng_params_zero :: hal_srng_params where
  "hal_srng_params_zero = \<lparr>p_ring_base_paddr = 0, p_ring_base_vaddr = 0, p_num_entries = 0,
     p_intr_batch_cntr_thres_entries = 0, p_intr_timer_thres_us = 0, p_flags = 0,
     p_max_buffer_len = 0, p_low_threshold = 0, p_msi_addr = 0, p_msi_data = 0\<rparr>"

definition hal_srng_test_init_ring ::
  "kenv \<Rightarrow> srng_test_ring \<Rightarrow> int \<Rightarrow> hal_ring_type \<Rightarrow> 'a wireless_simu_scheme \<Rightarrow>
   (int \<times> srng_test_ring \<times> 'a wireless_simu_scheme) option" where
  "hal_srng_test_init_ring env ring i type s = do {
     let params = hal_srng_params_zero\<lparr>
           p_ring_base_paddr := base_addr_test_space ring,
           p_ring_base_vaddr := base_addr_owner_space ring,
           p_num_entries := sint (nentries ring)\<rparr>;
     (ret, s) \<leftarrow> wireless_simu_hal_srng_setup env type i 0 params s;
     if ret < 0 then Some (ret, ring, s)
     else Some (0, ring\<lparr>hal_ring_id := of_int ret\<rparr>, s)
   }"

section \<open>Descriptors\<close>

definition src_desc :: "u64 \<Rightarrow> u32 \<Rightarrow> u32 \<Rightarrow> u8 \<Rightarrow> u32 \<Rightarrow> hal_test_sw2hw" where
  "src_desc paddr len i byte_swap_data widx = \<lparr>
     sw2hw_buffer_addr_low = ucast (paddr AND HAL_ADDR_LSB_REG_MASK),
     sw2hw_buffer_addr_info =
       ucast (FIELD_PREP (GENMASK 7 0) (drop_bit HAL_ADDR_MSB_REG_SHIFT paddr) OR
              FIELD_PREP (BIT 9) (ucast byte_swap_data) OR
              FIELD_PREP (BIT 11) 0 OR
              FIELD_PREP (GENMASK 31 16) (ucast len)),
     sw2hw_meta_info = ucast (FIELD_PREP (GENMASK 15 0) (ucast i)),
     sw2hw_write_index = widx,
     sw2hw_flags = 0x114514ff\<rparr>"

definition wireless_simu_hal_srng_test_src_set_desc ::
  "u64 \<Rightarrow> skbp \<Rightarrow> u32 \<Rightarrow> u8 \<Rightarrow> u32 \<Rightarrow> 'a kernel_scheme \<Rightarrow> 'a kernel_scheme option" where
  "wireless_simu_hal_srng_test_src_set_desc buf skb i byte_swap_data widx s = do {
     b \<leftarrow> skb_get skb s;
     let d = src_desc (cb_paddr (skb_cb b)) (of_nat (skb_len b)) i byte_swap_data widx;
     s \<leftarrow> mem_write buf (sw2hw_buffer_addr_low d) s;
     s \<leftarrow> mem_write (buf + 4) (sw2hw_buffer_addr_info d) s;
     s \<leftarrow> mem_write (buf + 8) (sw2hw_meta_info d) s;
     s \<leftarrow> mem_write (buf + 12) (sw2hw_write_index d) s;
     mem_write (buf + 16) (sw2hw_flags d) s
   }"

section \<open>Sending\<close>

definition CE_ATTR_DIS_INTR :: u32 where "CE_ATTR_DIS_INTR = 8"

definition wireless_simu_hal_srng_test_send ::
  "srng_test \<Rightarrow> skbp \<Rightarrow> nat \<Rightarrow> u16 \<Rightarrow> 'a wireless_simu_scheme \<Rightarrow>
   (int \<times> srng_test \<times> 'a wireless_simu_scheme) option" where
  "wireless_simu_hal_srng_test_send st skb pipe_id transfer_id s = do {
     pipe \<leftarrow> nth_opt (pipes st) pipe_id;
     s \<leftarrow> (if pipe_attr_flags pipe AND CE_ATTR_DIS_INTR \<noteq> 0 then do {
             s \<leftarrow> spin_lock StLock s;
             _ \<leftarrow> pipe_src_ring pipe;
             spin_unlock StLock s
           } else Some s);
     s \<leftarrow> spin_lock StLock s;
     ring \<leftarrow> pipe_src_ring pipe;
     let widx = write_index ring;
     let rid = unat (hal_ring_id ring);
     _ \<leftarrow> get_srng rid s;
     s \<leftarrow> spin_lock (SrngLock rid) s;
     s \<leftarrow> wireless_simu_hal_srng_access_begin rid s;
     (free, s) \<leftarrow> wireless_simu_hal_srng_src_num_free rid False s;
     (ret, ring, s) \<leftarrow>
       (if free < 1 then Some (neg_errno ENOBUFS, ring, s)
        else do {
          (desc, s) \<leftarrow> wireless_simu_hal_srng_src_get_next_entry rid s;
          (case desc of
             None \<Rightarrow> Some (neg_errno ENOBUFS, ring, s)
           | Some d \<Rightarrow> do {
               s \<leftarrow> wireless_simu_hal_srng_test_src_set_desc d skb (ucast transfer_id) 0 widx s;
               skbs \<leftarrow> list_put (ring_skb ring) (unat widx) (Some skb);
               Some (0, ring\<lparr>ring_skb := skbs,
                             write_index := (widx + 1) AND nentries_mask ring\<rparr>, s)
             })
        });
     s \<leftarrow> wireless_simu_hal_srng_access_end rid s;
     s \<leftarrow> spin_unlock (SrngLock rid) s;
     s \<leftarrow> spin_unlock StLock s;
     Some (ret, st\<lparr>pipes := (pipes st)[pipe_id := pipe\<lparr>pipe_src_ring := Some ring\<rparr>]\<rparr>, s)
   }"

section \<open>The self test\<close>

definition srng_test_pipe_zero :: srng_test_pipe where
  "srng_test_pipe_zero = \<lparr>pipe_num = 0, pipe_attr_flags = 0, buf_sz = 0, rx_buf_needed = 0,
     pipe_recv_cb = None, pipe_send_cb = None, pipe_src_ring = None, pipe_dst_ring = None,
     pipe_status_ring = None\<rparr>"

definition srng_test_zero :: srng_test where
  "srng_test_zero = \<lparr>pipes_count = 0,
     pipes = replicate SRNG_TEST_PIPE_COUNT_MAX srng_test_pipe_zero, host_config = None\<rparr>"

text \<open>\<^verbatim>\<open>memcpy\<close> to \<^verbatim>\<open>skb->data\<close>.\<close>

definition skb_store :: "skbp \<Rightarrow> u8 list \<Rightarrow> 'a kernel_scheme \<Rightarrow> 'a kernel_scheme option" where
  "skb_store p bs s = skb_store_at p 0 bs s"

fun srng_test_init_pipes ::
  "kenv \<Rightarrow> nat list \<Rightarrow> srng_test \<Rightarrow> 'a wireless_simu_scheme \<Rightarrow>
   (int \<times> srng_test \<times> 'a wireless_simu_scheme) option" where
  "srng_test_init_pipes env [] st s = Some (0, st, s)"
| "srng_test_init_pipes env (i # is) st s = do {
     pipe \<leftarrow> nth_opt (pipes st) i;
     (case pipe_src_ring pipe of
        None \<Rightarrow> srng_test_init_pipes env is st s
      | Some ring \<Rightarrow> do {
          (ret, ring, s) \<leftarrow> hal_srng_test_init_ring env ring (int i) HAL_TEST_SRNG s;
          if ret \<noteq> 0
          then Some (ret, st\<lparr>pipes := (pipes st)[i := pipe\<lparr>pipe_src_ring := Some ring\<rparr>]\<rparr>, s)
          else
            let ring = ring\<lparr>sw_index := 0, write_index := 0\<rparr>
            in srng_test_init_pipes env is
                 (st\<lparr>pipes := (pipes st)[i := pipe\<lparr>pipe_src_ring := Some ring\<rparr>]\<rparr>) s
        })
   }"

text \<open>
  The sending loop: \<^term>\<open>k\<close> buffers to go, \<^term>\<open>tc\<close> the counter. Before each send the device
  may have changed the shared memory, which is the argument \<^term>\<open>dev\<close>.
\<close>

fun srng_test_loop ::
  "kenv \<Rightarrow> (nat \<Rightarrow> (u64 \<Rightarrow> u32) \<Rightarrow> (u64 \<Rightarrow> u32)) \<Rightarrow> nat \<Rightarrow> nat \<Rightarrow> srng_test \<Rightarrow> skbp \<Rightarrow>
   'a wireless_simu_scheme \<Rightarrow> (int \<times> srng_test \<times> 'a wireless_simu_scheme) option" where
  "srng_test_loop env dev 0 tc st skb s = Some (0, st, s)"
| "srng_test_loop env dev (Suc k) tc st skb s = do {
     let s = s\<lparr>k_mem := dev tc (k_mem s)\<rparr>;
     s \<leftarrow> skb_store skb (u32_bytes env (of_nat tc)) s;
     (ret, st, s) \<leftarrow> wireless_simu_hal_srng_test_send st skb 0 0 s;
     if ret \<noteq> 0 then Some (ret, st, s) else srng_test_loop env dev k (Suc tc) st skb s
   }"

text \<open>The part between \<^verbatim>\<open>dev_alloc_skb\<close> and \<^verbatim>\<open>err_free_skb\<close>: map the buffer, send, unmap.\<close>

definition srng_test_transfer ::
  "kenv \<Rightarrow> (nat \<Rightarrow> (u64 \<Rightarrow> u32) \<Rightarrow> (u64 \<Rightarrow> u32)) \<Rightarrow> skbp \<Rightarrow> u8 list \<Rightarrow> srng_test \<Rightarrow>
   'a wireless_simu_scheme \<Rightarrow> (srng_test \<times> 'a wireless_simu_scheme) option" where
  "srng_test_transfer env dev skb dat st s = do {
     s \<leftarrow> skb_store skb dat s;
     s \<leftarrow> skb_put skb (length dat) s;
     b \<leftarrow> skb_get skb s;
     (case dma_map_single env (skb_len b) s of
        (None, s) \<Rightarrow> Some (st, s)
      | (Some paddr, s) \<Rightarrow> do {
          let s = skb_set skb (b\<lparr>skb_cb := (skb_cb b)\<lparr>cb_paddr := paddr\<rparr>\<rparr>) s;
          (ret, st, s) \<leftarrow> srng_test_loop env dev 50 0 st skb s;
          let s = (if ret = 0 then emit (EvMsleep 100) s else s);
          b \<leftarrow> skb_get skb s;
          s \<leftarrow> dma_unmap_single paddr (skb_len b) s;
          Some (st, s)
        })
   }"

text \<open>The payload: \<^verbatim>\<open>round_up(50, 4)\<close> bytes, the first four 6, the last four 7.\<close>

definition srng_test_payload :: "u8 list" where
  "srng_test_payload =
     (let n = round_up 50 4 in replicate 4 6 @ replicate (n - 8) 0 @ replicate 4 7)"

definition wireless_simu_hal_srng_test ::
  "kenv \<Rightarrow> (nat \<Rightarrow> (u64 \<Rightarrow> u32) \<Rightarrow> (u64 \<Rightarrow> u32)) \<Rightarrow> 'a wireless_simu_scheme \<Rightarrow>
   'a wireless_simu_scheme option" where
  "wireless_simu_hal_srng_test env dev s =
     (case kmalloc env s of
        (None, s) \<Rightarrow> Some s
      | (Some kc, s) \<Rightarrow> do {
          let st = srng_test_zero\<lparr>host_config := Some (kc, srng_test_configs)\<rparr>;
          let s = spin_lock_init StLock s;
          (ret, st, s) \<leftarrow> alloc_pipes env [0..<SRNG_TEST_PIPE_COUNT_MAX] st s;
          (st, s) \<leftarrow>
            (if ret \<noteq> 0 then hal_srng_test_free_pipes (st, s)
             else do {
               (ret, st, s) \<leftarrow> srng_test_init_pipes env [0..<SRNG_TEST_PIPE_COUNT_MAX] st s;
               (st, s) \<leftarrow>
                 (if ret \<noteq> 0 then Some (st, s)
                  else
                    (case kmalloc env s of
                       (None, s) \<Rightarrow> Some (st, s)
                     | (Some kd, s) \<Rightarrow> do {
                         (st, s) \<leftarrow>
                           (case dev_alloc_skb env (length srng_test_payload) s of
                              (None, s) \<Rightarrow> Some (st, s)
                            | (Some skb, s) \<Rightarrow> do {
                                (st, s) \<leftarrow> srng_test_transfer env dev skb srng_test_payload st s;
                                s \<leftarrow> dev_kfree_skb_any skb s;
                                Some (st, s)
                              });
                         s \<leftarrow> kfree (Some kd) s;
                         Some (st, s)
                       }));
               hal_srng_test_free_pipes (st, s)
             });
          kfree (map_option fst (host_config st)) s
        })"

section \<open>The transmit ring as a queue\<close>

definition is_pow2 :: "nat \<Rightarrow> bool" where
  "is_pow2 n = list_ex (\<lambda>k. n = 2 ^ k) [0..<31]"

text \<open>
  The software side of a source ring is in step with the ring layer: as many entries, a power of
  two of them, one buffer slot per entry, and the write index is the head's entry index.
\<close>

definition soft_ring_ok :: "srng_test_ring \<Rightarrow> 'a wireless_simu_scheme \<Rightarrow> bool" where
  "soft_ring_ok ring s =
     (let g = srng_list (hal s) (unat (hal_ring_id ring))
      in nentries ring = num_entries g \<and> is_pow2 (n_ent g) \<and>
         nentries_mask ring = nentries ring - 1 \<and> length (ring_skb ring) = n_ent g \<and>
         unat (write_index ring) = ent_idx g (src_hp (union_src (srng_u g))))"

definition soft_put :: "skbp \<Rightarrow> srng_test_ring \<Rightarrow> srng_test_ring" where
  "soft_put skb ring = ring\<lparr>ring_skb := (ring_skb ring)[unat (write_index ring) := Some skb],
     write_index := (write_index ring + 1) AND nentries_mask ring\<rparr>"

definition src_desc_words :: "hal_test_sw2hw \<Rightarrow> u32 list" where
  "src_desc_words d = [sw2hw_buffer_addr_low d, sw2hw_buffer_addr_info d, sw2hw_meta_info d,
     sw2hw_write_index d, sw2hw_flags d]"

definition tx_ring :: "nat \<Rightarrow> srng_test \<Rightarrow> srng_test_ring" where
  "tx_ring pid st = the (pipe_src_ring (pipes st ! pid))"

definition tx_rid :: "nat \<Rightarrow> srng_test \<Rightarrow> nat" where
  "tx_rid pid st = unat (hal_ring_id (tx_ring pid st))"

definition tx_ready :: "nat \<Rightarrow> srng_test \<Rightarrow> 'a wireless_simu_scheme \<Rightarrow> bool" where
  "tx_ready pid st s =
     (pid < length (pipes st) \<and>
      (case pipe_src_ring (pipes st ! pid) of
         None \<Rightarrow> False
       | Some ring \<Rightarrow>
           src_ready (unat (hal_ring_id ring)) s \<and> soft_ring_ok ring s \<and>
           e_sz (srng_list (hal s) (unat (hal_ring_id ring))) = 5 \<and>
           StLock \<notin> set (k_held s) \<and> SrngLock (unat (hal_ring_id ring)) \<notin> set (k_held s)))"

definition tx_words :: "sk_buff \<Rightarrow> u16 \<Rightarrow> srng_test_ring \<Rightarrow> u32 list" where
  "tx_words b tid ring =
     src_desc_words (src_desc (cb_paddr (skb_cb b)) (of_nat (skb_len b)) (ucast tid) 0
       (write_index ring))"

definition tx_store :: "nat \<Rightarrow> skbp \<Rightarrow> srng_test \<Rightarrow> srng_test" where
  "tx_store pid skb st = st\<lparr>pipes := (pipes st)[pid :=
     (pipes st ! pid)\<lparr>pipe_src_ring := Some (soft_put skb (tx_ring pid st))\<rparr>]\<rparr>"

definition tx_inv :: "nat \<Rightarrow> srng_test \<times> 'a wireless_simu_scheme \<Rightarrow> bool" where
  "tx_inv pid = (\<lambda>(st, s). tx_ready pid st s)"

definition tx_queue :: "nat \<Rightarrow> srng_test \<times> 'a wireless_simu_scheme \<Rightarrow> u32 list list" where
  "tx_queue pid = (\<lambda>(st, s). src_queue (tx_rid pid st) s)"

definition tx_capacity :: "nat \<Rightarrow> srng_test \<times> 'a wireless_simu_scheme \<Rightarrow> nat" where
  "tx_capacity pid = (\<lambda>(st, s). src_capacity (tx_rid pid st) s)"

definition tx_post :: "nat \<Rightarrow> skbp \<times> u16 \<Rightarrow> srng_test \<times> 'a wireless_simu_scheme \<Rightarrow>
  (int \<times> srng_test \<times> 'a wireless_simu_scheme) option" where
  "tx_post pid = (\<lambda>(skb, tid) (st, s). wireless_simu_hal_srng_test_send st skb pid tid s)"

definition tx_image :: "nat \<Rightarrow> skbp \<times> u16 \<Rightarrow> srng_test \<times> 'a wireless_simu_scheme \<Rightarrow> u32 list" where
  "tx_image pid = (\<lambda>(skb, tid) (st, s). tx_words (the (k_skbs s skb)) tid (tx_ring pid st))"

definition tx_valid :: "skbp \<times> u16 \<Rightarrow> srng_test \<times> 'a wireless_simu_scheme \<Rightarrow> bool" where
  "tx_valid = (\<lambda>(skb, tid) (st, s). k_skbs s skb \<noteq> None)"

definition tx_consume :: "nat \<Rightarrow> nat \<Rightarrow> srng_test \<times> 'a wireless_simu_scheme \<Rightarrow>
  srng_test \<times> 'a wireless_simu_scheme" where
  "tx_consume pid k = (\<lambda>(st, s). (st, src_consume (tx_rid pid st) k s))"

text \<open>How the device reads a descriptor's length.\<close>

definition desc_len :: "u32 \<Rightarrow> nat" where
  "desc_len info = unat (FIELD_GET (GENMASK 31 16) (ucast info))"

lemma src_set_desc_ok:
  assumes "k_skbs s skb = Some b"
    and "\<And>k. k < 5 \<Longrightarrow> mem_ok (a + of_nat (4 * k)) 4 s"
  shows "wireless_simu_hal_srng_test_src_set_desc a skb i bs widx s =
    Some (s\<lparr>k_mem := write_words a (src_desc_words
      (src_desc (cb_paddr (skb_cb b)) (of_nat (skb_len b)) i bs widx)) (k_mem s)\<rparr>)"
proof -
  have "mem_ok a 4 s" "mem_ok (a + 4) 4 s" "mem_ok (a + 8) 4 s" "mem_ok (a + 12) 4 s"
    "mem_ok (a + 16) 4 s"
    using assms(2) [of 0] assms(2) [of 1] assms(2) [of 2] assms(2) [of 3] assms(2) [of 4]
    by simp_all
  then show ?thesis
    using assms(1)
    by (simp add: wireless_simu_hal_srng_test_src_set_desc_def skb_get_def k_simps
        src_desc_words_def Let_def add.assoc)
qed

lemma tx_readyE:
  assumes "tx_ready pid st s"
  obtains pipe ring where "pid < length (pipes st)" "pipes st ! pid = pipe"
    "pipe_src_ring pipe = Some ring" "src_ready (unat (hal_ring_id ring)) s" "soft_ring_ok ring s"
    "e_sz (srng_list (hal s) (unat (hal_ring_id ring))) = 5" "StLock \<notin> set (k_held s)"
    "SrngLock (unat (hal_ring_id ring)) \<notin> set (k_held s)"
  using assms unfolding tx_ready_def by (auto split: option.splits)

lemma soft_ring_write_index:
  assumes "soft_ring_ok ring s" "src_ready (unat (hal_ring_id ring)) s"
  shows "unat (write_index ring) < length (ring_skb ring)"
  by (rule src_readyE [OF assms(2)])
    (use assms(1) in \<open>simp add: soft_ring_ok_def Let_def ent_idx_less\<close>)

lemma send_full:
  assumes "tx_ready pid st s"
    and "length (src_queue (unat (hal_ring_id (tx_ring pid st))) s)
         = src_capacity (unat (hal_ring_id (tx_ring pid st))) s"
  shows "wireless_simu_hal_srng_test_send st skb pid tid s =
    Some (neg_errno ENOBUFS, st, src_refuse (unat (hal_ring_id (tx_ring pid st))) s)"
proof (rule tx_readyE [OF assms(1)])
  fix pipe ring
  assume p: "pid < length (pipes st)" "pipes st ! pid = pipe"
    "pipe_src_ring pipe = Some ring" "src_ready (unat (hal_ring_id ring)) s" "soft_ring_ok ring s"
    "e_sz (srng_list (hal s) (unat (hal_ring_id ring))) = 5" "StLock \<notin> set (k_held s)"
    "SrngLock (unat (hal_ring_id ring)) \<notin> set (k_held s)"
  let ?rid = "unat (hal_ring_id ring)"
  let ?s = "s\<lparr>k_held := [SrngLock ?rid, StLock] @ k_held s\<rparr>"
  have ring: "tx_ring pid st = ring"
    using p by (simp add: tx_ring_def)
  have rdy: "src_ready ?rid ?s" and held: "SrngLock ?rid \<in> set (k_held ?s)"
    using p by simp_all
  have full: "length (src_queue ?rid ?s) = src_capacity ?rid ?s"
    using assms(2) ring by simp
  have st: "st\<lparr>pipes := (pipes st)[pid := pipe\<lparr>pipe_src_ring := Some ring\<rparr>]\<rparr> = st"
    using p by (cases pipe) (auto simp: list_update_same_conv)
  note e = access_begin_src [OF held rdy] src_num_free_sync [OF held rdy]
    access_end_src [OF _ src_ready_sync(1) [OF rdy]]
  show ?thesis
    using p st e full
    by (simp add: wireless_simu_hal_srng_test_send_def ring nth_opt_def spin_lock_def spin_unlock_def
        src_ready_get Let_def src_refuse_def src_held_commute)
qed

lemma send_room:
  assumes "tx_ready pid st s" "k_skbs s skb = Some b"
    and "length (src_queue (tx_rid pid st) s) < src_capacity (tx_rid pid st) s"
  shows "wireless_simu_hal_srng_test_send st skb pid tid s =
    Some (0, tx_store pid skb st, src_commit (tx_rid pid st) (tx_words b tid (tx_ring pid st)) s)"
proof (rule tx_readyE [OF assms(1)])
  fix pipe ring
  assume p: "pid < length (pipes st)" "pipes st ! pid = pipe"
    "pipe_src_ring pipe = Some ring" "src_ready (unat (hal_ring_id ring)) s" "soft_ring_ok ring s"
    "e_sz (srng_list (hal s) (unat (hal_ring_id ring))) = 5" "StLock \<notin> set (k_held s)"
    "SrngLock (unat (hal_ring_id ring)) \<notin> set (k_held s)"
  let ?rid = "unat (hal_ring_id ring)"
  let ?s = "s\<lparr>k_held := [SrngLock ?rid, StLock] @ k_held s\<rparr>"
  have ring: "tx_ring pid st = ring" "tx_rid pid st = ?rid"
    using p by (simp_all add: tx_ring_def tx_rid_def)
  have rdy: "src_ready ?rid ?s" and held: "SrngLock ?rid \<in> set (k_held ?s)"
    using p by simp_all
  have room: "length (src_queue ?rid ?s) < src_capacity ?rid ?s"
    using assms(3) ring by simp
  let ?ws = "tx_words b tid ring"
  have ws: "length ?ws = e_sz (srng_list (hal (src_sync ?rid ?s)) ?rid)"
    using p by (simp add: tx_words_def src_desc_words_def src_sync_def Let_def)
  have room': "length (src_queue ?rid (src_sync ?rid ?s)) < src_capacity ?rid (src_sync ?rid ?s)"
    unfolding src_ready_sync(2,3) [OF rdy] by (rule room)
  note push = src_ready_push(1) [OF src_ready_sync(1) [OF rdy] room' ws]
  have skb: "k_skbs (src_advance ?rid (src_sync ?rid ?s)) skb = Some b"
    using assms(2) by (simp add: src_advance_def src_sync_def Let_def)
  have desc: "wireless_simu_hal_srng_test_src_set_desc (src_slot ?rid ?s) skb (ucast tid) 0
      (write_index ring) (src_advance ?rid (src_sync ?rid ?s)) = Some (src_push ?rid ?ws (src_sync ?rid ?s))"
    using src_set_desc_ok [OF skb src_slot_ok_advance [OF rdy], unfolded p(6)] p(6)
    by (simp add: src_push_def tx_words_def)
  have list_put: "list_put (ring_skb ring) (unat (write_index ring)) (Some skb)
      = Some ((ring_skb ring)[unat (write_index ring) := Some skb])"
    using soft_ring_write_index [OF p(5,4)] by (simp add: list_put_def)
  note e = access_begin_src [OF held rdy] src_num_free_sync [OF held rdy]
    src_get_next_entry_sync [OF held rdy] access_end_src [OF _ push]
  show ?thesis
    using p e room desc list_put
    by (simp add: wireless_simu_hal_srng_test_send_def ring nth_opt_def spin_lock_def spin_unlock_def
        src_ready_get Let_def src_commit_def src_held_commute tx_store_def soft_put_def)
qed


lemma soft_index_next:
  assumes "soft_ring_ok ring s" "unat x < length (ring_skb ring)"
  shows "unat ((x + 1) AND nentries_mask ring) = Suc (unat x) mod length (ring_skb ring)"
proof -
  let ?n = "length (ring_skb ring)"
  obtain k where k: "?n = 2 ^ k" "k < 31"
    using assms(1) by (auto simp: soft_ring_ok_def is_pow2_def Let_def list_ex_iff)
  have mask: "nentries_mask ring = of_nat ?n - 1"
    using assms(1) by (simp add: soft_ring_ok_def n_ent_def Let_def)
  have "(x + 1) AND nentries_mask ring = of_nat (Suc (unat x) mod ?n)"
    unfolding mask using k(1) assms(2) less_trans [OF k(2), of 32] by (intro mask_advance) simp_all
  moreover have "?n < 2 ^ 32"
    unfolding k(1) using k(2) by (intro power_strict_increasing) simp_all
  then have "Suc (unat x) mod ?n < 2 ^ 32"
    using mod_less_divisor [of ?n "Suc (unat x)"] assms(2) by linarith
  ultimately show ?thesis
    by (simp add: unat_of_nat_32)
qed

lemma soft_ring_commit:
  assumes "soft_ring_ok ring s" "src_ready (unat (hal_ring_id ring)) s"
  shows "soft_ring_ok (soft_put skb ring) (src_commit (unat (hal_ring_id ring)) ws s)"
proof (rule src_readyE [OF assms(2)])
  fix g r
  assume g: "srng_list (hal s) (unat (hal_ring_id ring)) = g" "srng_u g = SrcRing r" "geom_ok g"
    "ptr_ok g (src_hp r)"
  have "unat ((write_index ring + 1) AND nentries_mask ring) = ent_idx g (next_ptr g (src_hp r))"
    using soft_index_next [OF assms(1) soft_ring_write_index [OF assms]] assms(1) g
      next_ptr_idx(2) [OF g(3,4)] by (simp add: soft_ring_ok_def Let_def)
  then show ?thesis
    using assms(1) g by (simp add: soft_ring_ok_def soft_put_def Let_def)
qed

lemma soft_ring_refuse:
  "soft_ring_ok ring (src_refuse (unat (hal_ring_id ring)) s) = soft_ring_ok ring s"
  by (simp add: soft_ring_ok_def Let_def)

lemmas tx_defs = tx_inv_def tx_queue_def tx_capacity_def tx_post_def tx_image_def tx_valid_def
  tx_consume_def

lemma tx_ready_refuse:
  "tx_ready pid st s \<Longrightarrow> tx_ready pid st (src_refuse (tx_rid pid st) s)"
  by (erule tx_readyE) (simp add: tx_ready_def tx_rid_def tx_ring_def src_ready_refuse soft_ring_refuse)

lemma tx_store_ring:
  assumes "tx_ready pid st s"
  shows "tx_ring pid (tx_store pid skb st) = soft_put skb (tx_ring pid st)"
    and "tx_rid pid (tx_store pid skb st) = tx_rid pid st"
  using assms by (auto elim!: tx_readyE simp: tx_ring_def tx_rid_def tx_store_def soft_put_def Let_def)

lemma tx_words_length [simp]: "length (tx_words b tid ring) = 5"
  by (simp add: tx_words_def src_desc_words_def)

lemma tx_ready_commit:
  assumes "tx_ready pid st s" "length (src_queue (tx_rid pid st) s) < src_capacity (tx_rid pid st) s"
    and "length ws = 5"
  shows "tx_ready pid (tx_store pid skb st) (src_commit (tx_rid pid st) ws s)"
proof (rule tx_readyE [OF assms(1)])
  fix pipe ring
  assume p: "pid < length (pipes st)" "pipes st ! pid = pipe"
    "pipe_src_ring pipe = Some ring" "src_ready (unat (hal_ring_id ring)) s" "soft_ring_ok ring s"
    "e_sz (srng_list (hal s) (unat (hal_ring_id ring))) = 5" "StLock \<notin> set (k_held s)"
    "SrngLock (unat (hal_ring_id ring)) \<notin> set (k_held s)"
  then have "src_ready (tx_rid pid st) s" "tx_ring pid st = ring"
    by (simp_all add: tx_rid_def tx_ring_def)
  then show ?thesis
    using p assms(2,3) src_ready_commit(1) [OF _ assms(2), of ws] soft_ring_commit [OF p(5,4), of skb ws]
    by (simp add: tx_ready_def tx_store_def tx_rid_def soft_put_def Let_def)
qed

lemma tx_ready_consume:
  assumes "tx_ready pid st s" "k \<le> length (src_queue (tx_rid pid st) s)"
  shows "tx_ready pid st (src_consume (tx_rid pid st) k s)"
proof -
  have "soft_ring_ok ring (src_consume rid k s) = soft_ring_ok ring s" for ring rid
    by (simp add: soft_ring_ok_def src_consume_def Let_def)
  moreover have "src_ready (tx_rid pid st) (src_consume (tx_rid pid st) k s)"
    using assms by (intro src_ready_consume) (auto elim!: tx_readyE simp: tx_rid_def tx_ring_def)
  moreover have "hal (src_consume rid k s) = hal s" "k_held (src_consume rid k s) = k_held s" for rid
    by (simp_all add: src_consume_def Let_def)
  ultimately show ?thesis
    using assms(1) by (auto simp: tx_ready_def tx_rid_def tx_ring_def split: option.splits)
qed

lemma tx_ready_src: "tx_ready pid st s \<Longrightarrow> src_ready (tx_rid pid st) s"
  by (auto elim!: tx_readyE simp: tx_rid_def tx_ring_def)

lemma tx_ready_e_sz: "tx_ready pid st s \<Longrightarrow> e_sz (srng_list (hal s) (tx_rid pid st)) = 5"
  by (auto elim!: tx_readyE simp: tx_rid_def tx_ring_def)

interpretation tx: descriptor_ring "tx_inv pid" "tx_queue pid" "tx_capacity pid" "tx_post pid"
  "tx_image pid" tx_valid "tx_consume pid" "neg_errno ENOBUFS"
proof (unfold_locales, goal_cases)
  case 1
  show ?case by simp
next
  case (2 p)
  then show ?case
    by (cases p) (simp add: tx_defs length_src_queue tx_ready_src)
next
  case (3 p x)
  obtain st s skb tid where px: "p = (st, s)" "x = (skb, tid)"
    by (cases p; cases x)
  with 3 obtain b where "k_skbs s skb = Some b"
    by (auto simp: tx_defs)
  then show ?case
    using 3 px send_room [of pid st s skb b tid] tx_ready_commit [of pid st s _ skb]
      src_ready_commit [OF tx_ready_src, of pid st s] tx_ready_e_sz [of pid st s]
    by (simp add: tx_defs tx_store_ring)
next
  case (4 p x)
  obtain st s skb tid where px: "p = (st, s)" "x = (skb, tid)"
    by (cases p; cases x)
  then show ?case
    using 4 send_full [of pid st s skb tid] tx_ready_refuse [of pid st s]
      src_ready_refuse [OF tx_ready_src, of pid st s]
    by (simp add: tx_defs tx_rid_def)
next
  case (5 p k)
  then show ?case
    by (cases p) (simp add: tx_defs src_ready_consume [OF tx_ready_src] tx_ready_consume)
qed

lemma src_desc_address:
  assumes "unat paddr < 2 ^ 40"
  shows "join_paddr (sw2hw_buffer_addr_low (src_desc paddr len i bs w))
           (sw2hw_buffer_addr_info (src_desc paddr len i bs w)) = paddr"
  unfolding src_desc_def hal_test_sw2hw.simps
  by (rule join_paddr_split [OF assms])
    (auto simp: BIT_GENMASK bit_simps bit_FIELD_PREP HAL_ADDR_MSB_REG_SHIFT_def)

lemma src_desc_length:
  assumes "len < 2 ^ 16"
  shows "desc_len (sw2hw_buffer_addr_info (src_desc paddr (of_nat len) i bs w)) = len"
proof -
  have u: "unat (of_nat len :: u32) = len"
    using assms by (intro unat_of_nat_32) simp
  have "FIELD_GET (GENMASK 31 16) (ucast (sw2hw_buffer_addr_info (src_desc paddr (of_nat len) i bs w)))
      = (ucast (of_nat len :: u32) :: u64)"
  proof (rule bit_word_eqI)
    fix j :: nat
    assume "j < LENGTH(64)"
    have above: "\<not> bit (of_nat len :: u32) j" if "16 \<le> j"
      using word_bit_above [of "of_nat len :: u32" 16 j] u assms that by simp
    show "bit (FIELD_GET (GENMASK 31 16) (ucast (sw2hw_buffer_addr_info (src_desc paddr (of_nat len) i bs w)))) j
        = bit (ucast (of_nat len :: u32) :: u64) j"
      using above by (cases "j < 16")
        (auto simp: src_desc_def bit_FIELD_GET bit_simps BIT_GENMASK bit_FIELD_PREP)
  qed
  moreover have "(ucast (of_nat len :: u32) :: u64) = of_nat len"
    by (metis of_nat_unat u)
  ultimately show ?thesis
    using assms by (simp only: desc_len_def) (simp add: unat_of_nat_64)
qed

section \<open>Properties\<close>

lemma sample_tx_ready: "tx_ready 0 sample_tx sample"
  by (simp add: tx_ready_def sample_defs src_ready_def soft_ring_ok_def is_pow2_def ring_eval Let_def upt_rec)

lemma sample_tx_facts:
  "tx_rid 0 sample_tx = 125" "src_queue 125 sample = []" "src_capacity 125 sample = 3"
  "k_skbs sample 3 = Some (sample_skb 0x7003)"
  by (simp_all add: tx_rid_def tx_ring_def src_queue_def src_capacity_def pending_def ring_dist_def
      sample_defs ring_eval Let_def)

text \<open>
  C7: On a transmit pipe in a sound state, sending a live buffer always returns, without fault and
  with all locks released. With room in the ring it returns 0, appends exactly the buffer's
  descriptor to what the device has not taken yet, records the buffer in the slot of its index and
  advances the write index modulo the ring; with no room it returns -ENOBUFS and the queue and the
  software state are unchanged. Memory, mappings and buffers are neither allocated nor released,
  and the pipe stays sound.
\<close>

theorem send_correct:
  assumes "tx_ready pid st s" and "k_skbs s skb = Some b"
  shows "\<exists>ret st' s'. wireless_simu_hal_srng_test_send st skb pid tid s = Some (ret, st', s') \<and>
    tx_ready pid st' s' \<and> k_held s' = k_held s \<and> k_dma s' = k_dma s \<and> k_maps s' = k_maps s \<and>
    k_heap s' = k_heap s \<and> k_skbs s' = k_skbs s \<and>
    (if length (src_queue (tx_rid pid st) s) < src_capacity (tx_rid pid st) s
     then ret = 0 \<and>
       src_queue (tx_rid pid st') s' = src_queue (tx_rid pid st) s @ [tx_words b tid (tx_ring pid st)] \<and>
       ring_skb (tx_ring pid st') =
         (ring_skb (tx_ring pid st))[unat (write_index (tx_ring pid st)) := Some skb] \<and>
       unat (write_index (tx_ring pid st')) =
         Suc (unat (write_index (tx_ring pid st))) mod Suc (src_capacity (tx_rid pid st) s)
     else ret = neg_errno ENOBUFS \<and> st' = st \<and>
       src_queue (tx_rid pid st) s' = src_queue (tx_rid pid st) s)"
proof (cases "length (src_queue (tx_rid pid st) s) < src_capacity (tx_rid pid st) s")
  case True
  note src = tx_ready_src [OF assms(1)]
  have soft: "soft_ring_ok (tx_ring pid st) s" "length (ring_skb (tx_ring pid st)) = Suc (src_capacity (tx_rid pid st) s)"
    using assms(1) geom_okD(2)
    by (auto simp: tx_ready_def tx_ring_def tx_rid_def soft_ring_ok_def src_capacity_def Let_def
        elim!: src_readyE split: option.splits)
  have "unat (write_index (tx_ring pid st)) < length (ring_skb (tx_ring pid st))"
    using soft_ring_write_index [OF soft(1)] src by (simp add: tx_rid_def)
  from soft_index_next [OF soft(1) this] show ?thesis
    using send_room [OF assms True, of tid] tx_ready_commit [OF assms(1) True] True soft(2)
      src_ready_commit(2) [OF src True] tx_ready_e_sz [OF assms(1)] tx_store_ring [OF assms(1), of skb]
    by (simp add: soft_put_def)
next
  case False
  then have "length (src_queue (tx_rid pid st) s) = src_capacity (tx_rid pid st) s"
    using length_src_queue [OF tx_ready_src [OF assms(1)]] by simp
  then show ?thesis
    using send_full [OF assms(1), of skb tid] tx_ready_refuse [OF assms(1)]
      src_ready_refuse(2) [OF tx_ready_src [OF assms(1)]] by (simp add: tx_rid_def)
qed

theorem send_correct_witness:
  "\<exists>st' s'. wireless_simu_hal_srng_test_send sample_tx 3 0 7 sample = Some (0, st', s') \<and>
     src_queue (tx_rid 0 st') s' = [tx_words (sample_skb 0x7003) 7 (tx_ring 0 sample_tx)]"
  using send_correct [of 0 sample_tx sample 3 "sample_skb 0x7003" 7] sample_tx_ready
  by (auto simp: sample_tx_facts)

text \<open>
  C8: First in, first out. In any run of sends (accepted or refused) and of the device taking
  descriptors from a transmit ring in a sound state, the descriptors queued at the start followed
  by the descriptors accepted since are exactly those the device has taken followed by those still
  queued: nothing is lost, duplicated, reordered or overwritten.
\<close>

theorem transmit_fifo:
  assumes "tx_ready pid st s"
    and "ring_run (tx_post pid) (tx_image pid) tx_valid (tx_queue pid) (tx_consume pid) (st, s)
           posted taken (st', s')"
  shows "src_queue (tx_rid pid st) s @ posted = taken @ src_queue (tx_rid pid st') s' \<and> tx_ready pid st' s'"
  using tx.run_fifo [OF assms(2)] assms(1) by (simp add: tx_defs)

theorem transmit_fifo_witness:
  "\<exists>st' s' d. ring_run (tx_post 0) (tx_image 0) tx_valid (tx_queue 0) (tx_consume 0) (sample_tx, sample)
     [d] [d] (st', s') \<and> src_queue (tx_rid 0 st') s' = []"
proof -
  let ?d = "tx_words (sample_skb 0x7003) 7 (tx_ring 0 sample_tx)"
  obtain st1 s1 where 1: "tx_post 0 (3, 7) (sample_tx, sample) = Some (0, st1, s1)"
    using send_room [OF sample_tx_ready sample_tx_facts(4)] by (auto simp: tx_post_def sample_tx_facts)
  have "ring_run (tx_post 0) (tx_image 0) tx_valid (tx_queue 0) (tx_consume 0) (sample_tx, sample)
      ([] @ [tx_image 0 (3, 7) (sample_tx, sample)]) [] (st1, s1)"
    by (rule ring_post [where x = "(3, 7)" and post = "tx_post 0", OF _ _ 1], rule ring_start)
      (simp add: tx_valid_def sample_tx_facts)
  then have run1: "ring_run (tx_post 0) (tx_image 0) tx_valid (tx_queue 0) (tx_consume 0) (sample_tx, sample)
      [?d] [] (st1, s1)"
    by (simp add: tx_image_def sample_tx_facts)
  have q1: "tx_queue 0 (st1, s1) = [?d]"
    using transmit_fifo [OF sample_tx_ready run1] by (simp add: sample_tx_facts tx_queue_def)
  obtain st2 s2 where 2: "tx_consume 0 1 (st1, s1) = (st2, s2)"
    by (cases "tx_consume 0 1 (st1, s1)")
  have run2: "ring_run (tx_post 0) (tx_image 0) tx_valid (tx_queue 0) (tx_consume 0) (sample_tx, sample)
      [?d] [?d] (st2, s2)"
    using ring_take [OF run1, of 1] q1 2 by simp
  moreover have "src_queue (tx_rid 0 st2) s2 = []"
    using transmit_fifo [OF sample_tx_ready run2] by (simp add: sample_tx_facts)
  ultimately show ?thesis by blast
qed

text \<open>
  A burst of sends to a sound transmit ring is accepted up to the ring's capacity, one less
  than its number of entries, and refused from there on; what was queued before is not touched.
\<close>

theorem transmit_burst:
  assumes "tx_ready pid st s" and "\<forall>x\<in>set xs. k_skbs s (fst x) \<noteq> None"
  shows "\<exists>st' s'. post_all (tx_post pid) xs (st, s) =
      Some (min (length xs) (src_capacity (tx_rid pid st) s - length (src_queue (tx_rid pid st) s)), st', s') \<and>
    tx_ready pid st' s' \<and>
    take (length (src_queue (tx_rid pid st) s)) (src_queue (tx_rid pid st') s') = src_queue (tx_rid pid st) s \<and>
    length (src_queue (tx_rid pid st') s') = length (src_queue (tx_rid pid st) s) +
      min (length xs) (src_capacity (tx_rid pid st) s - length (src_queue (tx_rid pid st) s))"
proof -
  have "\<forall>x\<in>set xs. tx_valid x (st, s)"
    using assms(2) by (auto simp: tx_valid_def split: prod.splits)
  then show ?thesis
    using tx.post_all_fills [of pid "(st, s)" xs] assms(1)
    by (auto simp: tx_inv_def tx_queue_def tx_capacity_def)
qed

theorem transmit_burst_witness:
  "\<exists>st' s'. post_all (tx_post 0) (replicate 5 (3, 7)) (sample_tx, sample) = Some (3, st', s') \<and>
     length (src_queue (tx_rid 0 st') s') = 3"
  using transmit_burst [OF sample_tx_ready, of "replicate 5 (3, 7)"] by (auto simp: sample_tx_facts)

text \<open>
  The transmit descriptor loses nothing: for a buffer whose bus address fits the 40 bits the
  format has and whose length fits 16 bits, the device reads back the address, the length, the
  transfer identifier and the write index that the driver put in.
\<close>

theorem src_desc_roundtrip:
  assumes "unat (cb_paddr (skb_cb b)) < 2 ^ 40" and "skb_len b < 2 ^ 16"
  shows "case tx_words b tid ring of [low, info, meta, widx, fl] \<Rightarrow>
      join_paddr low info = cb_paddr (skb_cb b) \<and> desc_len info = skb_len b \<and>
      meta = ucast tid \<and> widx = write_index ring \<and> fl = 0x114514ff
    | _ \<Rightarrow> False"
proof -
  have "sw2hw_meta_info (src_desc p l (ucast tid) bs w) = ucast tid" for p l bs w
    by (rule bit_word_eqI) (auto simp: src_desc_def bit_simps bit_FIELD_PREP dest: bit_imp_le_length)
  moreover have "sw2hw_write_index (src_desc p l i bs w) = w" "sw2hw_flags (src_desc p l i bs w) = 0x114514ff"
    for p l i bs w by (simp_all add: src_desc_def)
  ultimately show ?thesis
    by (simp add: tx_words_def src_desc_words_def src_desc_address [OF assms(1)] src_desc_length [OF assms(2)])
qed

theorem src_desc_roundtrip_witness:
  "join_paddr (tx_words (sample_skb 0x1234567890) 9 (tx_ring 0 sample_tx) ! 0)
     (tx_words (sample_skb 0x1234567890) 9 (tx_ring 0 sample_tx) ! 1) = 0x1234567890"
  using src_desc_roundtrip [of "sample_skb 0x1234567890" 9 "tx_ring 0 sample_tx"]
  by (simp add: sample_skb_def skb_len_def tx_words_def src_desc_words_def)

end
