(* ===== verification/Srng_Dst.thy ===== *)
theory Srng_Dst
  imports Srng_Test
begin

text \<open>
  The receive test module, \<^verbatim>\<open>driver/driver_wireless/wireless_hal.c\<close> lines 1171 to 1600: buffers
  posted to the device through the destination ring, completions read back from the status
  ring, the bottom half of the interrupt, the retry timer, set-up and tear-down. The module's
  state is \<^verbatim>\<open>priv->st_dst\<close>.
\<close>

section \<open>Access to the module's pipes\<close>

definition get_pipe :: "nat \<Rightarrow> 'a wireless_simu_scheme \<Rightarrow> srng_test_pipe option" where
  "get_pipe i s = nth_opt (pipes (st_dst s)) i"

definition set_pipe ::
  "nat \<Rightarrow> srng_test_pipe \<Rightarrow> 'a wireless_simu_scheme \<Rightarrow> 'a wireless_simu_scheme" where
  "set_pipe i pipe s = s\<lparr>st_dst := (st_dst s)\<lparr>pipes := (pipes (st_dst s))[i := pipe]\<rparr>\<rparr>"

section \<open>Descriptors\<close>

definition dst_desc :: "u64 \<Rightarrow> hal_test_dst" where
  "dst_desc paddr = \<lparr>
     dst_buffer_addr_low = ucast (paddr AND HAL_ADDR_LSB_REG_MASK),
     dst_buffer_addr_info =
       ucast (FIELD_PREP (GENMASK 7 0) (drop_bit HAL_ADDR_MSB_REG_SHIFT paddr)),
     dst_flag = 0x114514aa\<rparr>"

definition wireless_simu_test_dst_set_desc ::
  "u64 \<Rightarrow> u64 \<Rightarrow> 'a kernel_scheme \<Rightarrow> 'a kernel_scheme option" where
  "wireless_simu_test_dst_set_desc buf paddr s = do {
     let d = dst_desc paddr;
     s \<leftarrow> mem_write buf (dst_buffer_addr_low d) s;
     s \<leftarrow> mem_write (buf + 4) (dst_buffer_addr_info d) s;
     mem_write (buf + 8) (dst_flag d) s
   }"

text \<open>\<^verbatim>\<open>buffer_length\<close> is the first word of the status descriptor.\<close>

definition wireless_simu_test_dst_get_length :: "u64 \<Rightarrow> 'a kernel_scheme \<Rightarrow> u32 option" where
  "wireless_simu_test_dst_get_length buf s = mem_read buf s"

section \<open>Receiving\<close>

text \<open>
  The result is the return code, the buffer (meaningful when the code is 0; NULL is
  \<^verbatim>\<open>None\<close>) and the length.
\<close>

definition wireless_simu_test_dst_recv_next ::
  "nat \<Rightarrow> 'a wireless_simu_scheme \<Rightarrow>
   (int \<times> skbp option \<times> u32 \<times> 'a wireless_simu_scheme) option" where
  "wireless_simu_test_dst_recv_next i s = do {
     s \<leftarrow> spin_lock StDstLock s;
     pipe \<leftarrow> get_pipe i s;
     dring \<leftarrow> pipe_dst_ring pipe;
     sring \<leftarrow> pipe_status_ring pipe;
     let rid = unat (hal_ring_id sring);
     _ \<leftarrow> get_srng rid s;
     s \<leftarrow> spin_lock (SrngLock rid) s;
     s \<leftarrow> wireless_simu_hal_srng_access_begin rid s;
     (desc, s) \<leftarrow> wireless_simu_hal_srng_dst_get_next_entry rid s;
     (ret, skb, nbytes, s) \<leftarrow>
       (case desc of
          None \<Rightarrow> Some (neg_errno EIO, None, 0, s)
        | Some d \<Rightarrow> do {
            nbytes \<leftarrow> wireless_simu_test_dst_get_length d s;
            if nbytes = 0 then Some (neg_errno EIO, None, 0, s)
            else do {
              let idx = sw_index dring;
              skb \<leftarrow> nth_opt (ring_skb dring) (unat idx);
              let dring = dring\<lparr>ring_skb := (ring_skb dring)[unat idx := None],
                               sw_index := (idx + 1) AND nentries_mask dring\<rparr>;
              let pipe = pipe\<lparr>pipe_dst_ring := Some dring,
                             rx_buf_needed := rx_buf_needed pipe + 1\<rparr>;
              Some (0, skb, nbytes, set_pipe i pipe s)
            }
          });
     s \<leftarrow> wireless_simu_hal_srng_access_end rid s;
     s \<leftarrow> spin_unlock (SrngLock rid) s;
     s \<leftarrow> spin_unlock StDstLock s;
     Some (ret, skb, nbytes, s)
   }"

section \<open>Posting buffers\<close>

definition wireless_simu_test_dst_enqueue_pipe ::
  "nat \<Rightarrow> skbp \<Rightarrow> u64 \<Rightarrow> 'a wireless_simu_scheme \<Rightarrow> (int \<times> 'a wireless_simu_scheme) option" where
  "wireless_simu_test_dst_enqueue_pipe i skb paddr s = do {
     pipe \<leftarrow> get_pipe i s;
     ring \<leftarrow> pipe_dst_ring pipe;
     let s = lockdep_assert_held StDstLock s;
     let widx = write_index ring;
     let rid = unat (hal_ring_id ring);
     _ \<leftarrow> get_srng rid s;
     s \<leftarrow> spin_lock (SrngLock rid) s;
     s \<leftarrow> wireless_simu_hal_srng_access_begin rid s;
     (free, s) \<leftarrow> wireless_simu_hal_srng_src_num_free rid False s;
     (ret, s) \<leftarrow>
       (if free < 1 then Some (neg_errno ENOSPC, s)
        else do {
          (desc, s) \<leftarrow> wireless_simu_hal_srng_src_get_next_entry rid s;
          (case desc of
             None \<Rightarrow> Some (neg_errno ENOSPC, s)
           | Some d \<Rightarrow> do {
               s \<leftarrow> wireless_simu_test_dst_set_desc d paddr s;
               skbs \<leftarrow> list_put (ring_skb ring) (unat widx) (Some skb);
               _ \<leftarrow> skb_get skb s;
               let ring = ring\<lparr>ring_skb := skbs, write_index := (widx + 1) AND nentries_mask ring\<rparr>;
               let pipe = pipe\<lparr>pipe_dst_ring := Some ring,
                              rx_buf_needed := rx_buf_needed pipe - 1\<rparr>;
               Some (0, set_pipe i pipe s)
             })
        });
     s \<leftarrow> wireless_simu_hal_srng_access_end rid s;
     s \<leftarrow> spin_unlock (SrngLock rid) s;
     Some (ret, s)
   }"

text \<open>
  The \<^verbatim>\<open>while (pipe->rx_buf_needed)\<close> loop. The first argument bounds the iterations; the caller
  gives it the initial value of the counter, which each successful iteration decrements.
\<close>

fun dst_post_loop ::
  "nat \<Rightarrow> kenv \<Rightarrow> nat \<Rightarrow> 'a wireless_simu_scheme \<Rightarrow> (int \<times> 'a wireless_simu_scheme) option" where
  "dst_post_loop k env i s = do {
     pipe \<leftarrow> get_pipe i s;
     if rx_buf_needed pipe = 0 then Some (0, s)
     else
       (case k of
          0 \<Rightarrow> None
        | Suc k \<Rightarrow>
            (case dev_alloc_skb env (unat (buf_sz pipe)) s of
               (None, s) \<Rightarrow> Some (neg_errno ENOMEM, s)
             | (Some skb, s) \<Rightarrow> do {
                 b \<leftarrow> skb_get skb s;
                 let n = skb_len b + skb_tailroom b;
                 (case dma_map_single env n s of
                    (None, s) \<Rightarrow> Some (neg_errno EIO, s)
                  | (Some paddr, s) \<Rightarrow> do {
                      let s = skb_set skb (b\<lparr>skb_cb := (skb_cb b)\<lparr>cb_paddr := paddr\<rparr>\<rparr>) s;
                      (ret, s) \<leftarrow> wireless_simu_test_dst_enqueue_pipe i skb paddr s;
                      if ret \<noteq> 0 then do {
                        s \<leftarrow> dma_unmap_single paddr n s;
                        s \<leftarrow> dev_kfree_skb_any skb s;
                        Some (ret, s)
                      } else dst_post_loop k env i s
                    })
               }))
   }"

definition wireless_simu_test_dst_post_pipe ::
  "kenv \<Rightarrow> nat \<Rightarrow> 'a wireless_simu_scheme \<Rightarrow> (int \<times> 'a wireless_simu_scheme) option" where
  "wireless_simu_test_dst_post_pipe env i s = do {
     pipe \<leftarrow> get_pipe i s;
     if \<not> (pipe_dst_ring pipe \<noteq> None \<and> pipe_status_ring pipe \<noteq> None) then Some (0, s)
     else do {
       s \<leftarrow> spin_lock StDstLock s;
       (ret, s) \<leftarrow> dst_post_loop (unat (rx_buf_needed pipe)) env i s;
       s \<leftarrow> spin_unlock StDstLock s;
       Some (ret, s)
     }
   }"

section \<open>The interrupt's bottom half\<close>

text \<open>
  The body of the loop over completions: the next completion, if there is one, its buffer unmapped
  and, unless it is too small for the length reported, put at the end of the list to deliver. The
  flag says whether the loop goes on.
\<close>

definition dst_recv_one ::
  "nat \<Rightarrow> skbp list \<Rightarrow> 'a wireless_simu_scheme \<Rightarrow> (bool \<times> skbp list \<times> 'a wireless_simu_scheme) option" where
  "dst_recv_one i q s = do {
     (ret, skb, nbytes, s) \<leftarrow> wireless_simu_test_dst_recv_next i s;
     if ret \<noteq> 0 then Some (False, q, s)
     else do {
       p \<leftarrow> skb;
       b \<leftarrow> skb_get p s;
       let max_nbytes = skb_len b + skb_tailroom b;
       s \<leftarrow> dma_unmap_single (cb_paddr (skb_cb b)) max_nbytes s;
       if max_nbytes < unat nbytes then do {
         s \<leftarrow> dev_kfree_skb_any p s;
         Some (True, q, s)
       } else do {
         s \<leftarrow> skb_put p (unat nbytes) s;
         Some (True, q @ [p], s)
       }
     }
   }"

text \<open>
  The loop, with fuel, since a device that keeps completing keeps it running; \<^term>\<open>dev\<close> is what the
  device does to the shared memory before each look at the ring.
\<close>

fun dst_recv_loop ::
  "nat \<Rightarrow> (nat \<Rightarrow> (u64 \<Rightarrow> u32) \<Rightarrow> (u64 \<Rightarrow> u32)) \<Rightarrow> nat \<Rightarrow> skbp list \<Rightarrow> 'a wireless_simu_scheme \<Rightarrow>
   (skbp list \<times> 'a wireless_simu_scheme) option" where
  "dst_recv_loop 0 dev i q s = None"
| "dst_recv_loop (Suc k) dev i q s = do {
     let s = s\<lparr>k_mem := dev k (k_mem s)\<rparr>;
     (more, q, s) \<leftarrow> dst_recv_one i q s;
     if more then dst_recv_loop k dev i q s else Some (q, s)
   }"

text \<open>The looks of such a run at the ring: the states before and after the device's move at each.\<close>

fun dst_looks ::
  "nat \<Rightarrow> (nat \<Rightarrow> (u64 \<Rightarrow> u32) \<Rightarrow> (u64 \<Rightarrow> u32)) \<Rightarrow> nat \<Rightarrow> skbp list \<Rightarrow> 'a wireless_simu_scheme \<Rightarrow>
   ('a wireless_simu_scheme \<times> 'a wireless_simu_scheme) list" where
  "dst_looks 0 dev i q s = []"
| "dst_looks (Suc k) dev i q s =
     (let s' = s\<lparr>k_mem := dev k (k_mem s)\<rparr>
      in (s, s') # (case dst_recv_one i q s' of Some (True, q, s) \<Rightarrow> dst_looks k dev i q s | _ \<Rightarrow> []))"

text \<open>The delivery of a received buffer: printed under a lock, then freed.\<close>

definition dst_deliver :: "skbp \<Rightarrow> 'a kernel_scheme \<Rightarrow> 'a kernel_scheme option" where
  "dst_deliver p s = do {
     b \<leftarrow> skb_get p s;
     s \<leftarrow> spin_lock PrintSkbLock s;
     let s = emit (EvHexDump p (skb_len b)) s;
     s \<leftarrow> spin_unlock PrintSkbLock s;
     dev_kfree_skb_any p s
   }"

definition WIRELESS_SIMU_RX_POST_RETRY_JIFFIES :: u64 where
  "WIRELESS_SIMU_RX_POST_RETRY_JIFFIES = 50"

definition wireless_simu_irq_hal_srng_dst_dma_test ::
  "nat \<Rightarrow> kenv \<Rightarrow> (nat \<Rightarrow> (u64 \<Rightarrow> u32) \<Rightarrow> (u64 \<Rightarrow> u32)) \<Rightarrow> nat \<Rightarrow> 'a wireless_simu_scheme \<Rightarrow>
   'a wireless_simu_scheme option" where
  "wireless_simu_irq_hal_srng_dst_dma_test fuel env dev i s = do {
     (q, s) \<leftarrow> dst_recv_loop fuel dev i [] s;
     s \<leftarrow> foldo dst_deliver q s;
     (ret, s) \<leftarrow> wireless_simu_test_dst_post_pipe env i s;
     if ret \<noteq> 0 \<and> ret \<noteq> neg_errno ENOSPC
     then Some (emit (EvModTimer (k_jiffies s + WIRELESS_SIMU_RX_POST_RETRY_JIFFIES)) s)
     else Some s
   }"

definition wireless_simu_hal_srng_dst_tasklet ::
  "nat \<Rightarrow> kenv \<Rightarrow> (nat \<Rightarrow> (u64 \<Rightarrow> u32) \<Rightarrow> (u64 \<Rightarrow> u32)) \<Rightarrow> nat \<Rightarrow> 'a wireless_simu_scheme \<Rightarrow>
   'a wireless_simu_scheme option" where
  "wireless_simu_hal_srng_dst_tasklet fuel env dev i s = do {
     pipe \<leftarrow> get_pipe i s;
     wireless_simu_irq_hal_srng_dst_dma_test fuel env dev (unat (pipe_num pipe)) s
   }"

section \<open>Replenishing all pipes\<close>

fun dst_post_pipes ::
  "kenv \<Rightarrow> nat list \<Rightarrow> 'a wireless_simu_scheme \<Rightarrow> 'a wireless_simu_scheme option" where
  "dst_post_pipes env [] s = Some s"
| "dst_post_pipes env (i # is) s = do {
     (ret, s) \<leftarrow> wireless_simu_test_dst_post_pipe env i s;
     if ret \<noteq> 0 \<and> ret \<noteq> neg_errno ENOSPC
     then Some (emit (EvModTimer (k_jiffies s + WIRELESS_SIMU_RX_POST_RETRY_JIFFIES)) s)
     else dst_post_pipes env is s
   }"

definition wireless_simu_test_dst_post_buf ::
  "kenv \<Rightarrow> 'a wireless_simu_scheme \<Rightarrow> 'a wireless_simu_scheme option" where
  "wireless_simu_test_dst_post_buf env s = dst_post_pipes env [0..<nat (pipes_count (st_dst s))] s"

definition wireless_simu_test_dst_rx_replenish_retry ::
  "kenv \<Rightarrow> 'a wireless_simu_scheme \<Rightarrow> 'a wireless_simu_scheme option" where
  "wireless_simu_test_dst_rx_replenish_retry env s = wireless_simu_test_dst_post_buf env s"

section \<open>Set-up and tear-down\<close>

text \<open>
  Registration of the pipes, lines 1495 to 1532. The two return codes are combined bitwise, and
  the branch for a pipe without both rings leaves the code at its previous value.
\<close>

fun dst_init_pipes ::
  "kenv \<Rightarrow> nat list \<Rightarrow> int \<Rightarrow> 'a wireless_simu_scheme \<Rightarrow>
   (bool \<times> int \<times> 'a wireless_simu_scheme) option" where
  "dst_init_pipes env [] ret s = Some (True, ret, s)"
| "dst_init_pipes env (i # is) ret s = do {
     pipe \<leftarrow> get_pipe i s;
     if pipe_src_ring pipe \<noteq> None then Some (False, neg_errno EINVAL, s)
     else
       (case (pipe_dst_ring pipe, pipe_status_ring pipe) of
          (Some dring, Some sring) \<Rightarrow> do {
            (r1, dring, s) \<leftarrow> hal_srng_test_init_ring env dring (int i) HAL_TEST_SRNG_DST s;
            (r2, sring, s) \<leftarrow> hal_srng_test_init_ring env sring (int i) HAL_TEST_SRNG_DST_STATUS s;
            let ret = r1 OR r2;
            if ret \<noteq> 0
            then Some (False, ret,
                   set_pipe i (pipe\<lparr>pipe_dst_ring := Some dring, pipe_status_ring := Some sring\<rparr>) s)
            else
              let dring = dring\<lparr>write_index := 0, sw_index := 0\<rparr>;
                  sring = sring\<lparr>sw_index := 0, write_index := 0\<rparr>;
                  pipe = pipe\<lparr>pipe_dst_ring := Some dring, pipe_status_ring := Some sring,
                             rx_buf_needed := (if nentries dring \<noteq> 0 then nentries dring - 2 else 0)\<rparr>
              in dst_init_pipes env is ret (set_pipe i pipe s)
          }
        | _ \<Rightarrow> Some (False, ret, s))
   }"

definition dst_free_pipes :: "'a wireless_simu_scheme \<Rightarrow> 'a wireless_simu_scheme option" where
  "dst_free_pipes s = do {
     (st, s) \<leftarrow> hal_srng_test_free_pipes (st_dst s, s);
     Some (s\<lparr>st_dst := st\<rparr>)
   }"

definition dst_free_config :: "'a wireless_simu_scheme \<Rightarrow> 'a wireless_simu_scheme option" where
  "dst_free_config s = kfree (map_option fst (host_config (st_dst s))) s"

definition wireless_simu_hal_srng_dst_test_init ::
  "kenv \<Rightarrow> 'a wireless_simu_scheme \<Rightarrow> (int \<times> 'a wireless_simu_scheme) option" where
  "wireless_simu_hal_srng_dst_test_init env s =
     (case kmalloc env s of
        (None, s) \<Rightarrow> Some (neg_errno ENOBUFS, s\<lparr>st_dst := (st_dst s)\<lparr>host_config := None\<rparr>\<rparr>)
      | (Some k, s) \<Rightarrow> do {
          let s = s\<lparr>st_dst := (st_dst s)\<lparr>host_config := Some (k, srng_test_dst_configs)\<rparr>\<rparr>;
          let s = spin_lock_init StDstLock s;
          let s = emit EvTimerSetup s;
          let s = s\<lparr>st_dst := (st_dst s)\<lparr>pipes_count := int SRNG_TEST_PIPE_COUNT_MAX\<rparr>\<rparr>;
          let s = fold (\<lambda>i. emit (EvTaskletSetup i)) [0..<SRNG_TEST_PIPE_COUNT_MAX] s;
          (ret, st, s) \<leftarrow> alloc_pipes env [0..<SRNG_TEST_PIPE_COUNT_MAX] (st_dst s) s;
          let s = s\<lparr>st_dst := st\<rparr>;
          if ret \<noteq> 0 then do {
            s \<leftarrow> dst_free_pipes s;
            s \<leftarrow> dst_free_config s;
            Some (ret, s)
          } else do {
            (ok, ret, s) \<leftarrow> dst_init_pipes env [0..<SRNG_TEST_PIPE_COUNT_MAX] ret s;
            if ok then do {
              s \<leftarrow> wireless_simu_test_dst_post_buf env s;
              Some (0, s)
            } else do {
              s \<leftarrow> dst_free_pipes s;
              s \<leftarrow> dst_free_config s;
              Some (ret, s)
            }
          }
        })"

text \<open>
  Releasing the posted buffers. The guard is a conjunction, so a missing ring with a zero
  buffer size falls through to the loop, which dereferences the ring.
\<close>

definition cleanup_slot ::
  "nat \<Rightarrow> srng_test_ring \<times> 'a kernel_scheme \<Rightarrow> (srng_test_ring \<times> 'a kernel_scheme) option" where
  "cleanup_slot j rs = (case rs of (ring, s) \<Rightarrow> do {
     skb \<leftarrow> nth_opt (ring_skb ring) j;
     (case skb of
        None \<Rightarrow> Some (ring, s)
      | Some p \<Rightarrow> do {
          let ring = ring\<lparr>ring_skb := (ring_skb ring)[j := None]\<rparr>;
          b \<leftarrow> skb_get p s;
          s \<leftarrow> dma_unmap_single (cb_paddr (skb_cb b)) (skb_len b + skb_tailroom b) s;
          s \<leftarrow> dev_kfree_skb_any p s;
          Some (ring, s)
        })
   })"

definition wireless_simu_hal_srng_dst_test_cleanuprx ::
  "nat \<Rightarrow> 'a wireless_simu_scheme \<Rightarrow> 'a wireless_simu_scheme option" where
  "wireless_simu_hal_srng_dst_test_cleanuprx i s = do {
     pipe \<leftarrow> get_pipe i s;
     if pipe_dst_ring pipe = None \<and> buf_sz pipe \<noteq> 0 then Some s
     else do {
       ring \<leftarrow> pipe_dst_ring pipe;
       (ring, s) \<leftarrow> foldo cleanup_slot [0..<unat (nentries ring)] (ring, s);
       Some (set_pipe i (pipe\<lparr>pipe_dst_ring := Some ring\<rparr>) s)
     }
   }"

text \<open>
  \<^verbatim>\<open>tasklet_kill\<close> waits until a scheduled tasklet has run: when the one of pipe \<^term>\<open>i\<close> is pending, it runs
  before the call returns, in the state of the caller, who holds the module's lock.
\<close>

definition tasklet_kill ::
  "(nat \<Rightarrow> bool) \<Rightarrow> kenv \<Rightarrow> nat \<Rightarrow> 'a wireless_simu_scheme \<Rightarrow> 'a wireless_simu_scheme option" where
  "tasklet_kill sched env i s = do {
     s \<leftarrow> (if sched i then do {
             pipe \<leftarrow> get_pipe i s;
             ring \<leftarrow> pipe_dst_ring pipe;
             wireless_simu_hal_srng_dst_tasklet (length (ring_skb ring)) env (\<lambda>_ m. m) i s
           } else Some s);
     Some (emit (EvTaskletKill i) s)
   }"

text \<open>The argument \<^verbatim>\<open>sched\<close> says which pipes have their tasklet scheduled when the release begins.\<close>

definition wireless_simu_hal_srng_dst_test_deinit ::
  "(nat \<Rightarrow> bool) \<Rightarrow> kenv \<Rightarrow> 'a wireless_simu_scheme \<Rightarrow> 'a wireless_simu_scheme option" where
  "wireless_simu_hal_srng_dst_test_deinit sched env s = do {
     s \<leftarrow> spin_lock StDstLock s;
     let n = nat (pipes_count (st_dst s));
     s \<leftarrow> foldo (tasklet_kill sched env) [0..<n] s;
     s \<leftarrow> foldo wireless_simu_hal_srng_dst_test_cleanuprx [0..<n] s;
     s \<leftarrow> dst_free_pipes s;
     s \<leftarrow> dst_free_config s;
     spin_unlock StDstLock s
   }"

section \<open>The receive ring as a queue\<close>

definition rx_ring :: "nat \<Rightarrow> 'a wireless_simu_scheme \<Rightarrow> srng_test_ring" where
  "rx_ring i s = the (pipe_dst_ring (pipes (st_dst s) ! i))"

definition rx_rid :: "nat \<Rightarrow> 'a wireless_simu_scheme \<Rightarrow> nat" where
  "rx_rid i s = unat (hal_ring_id (rx_ring i s))"

text \<open>What \<^verbatim>\<open>enqueue_pipe\<close> relies on, and keeps.\<close>

definition rx_post_ready :: "nat \<Rightarrow> 'a wireless_simu_scheme \<Rightarrow> bool" where
  "rx_post_ready i s =
     (i < length (pipes (st_dst s)) \<and>
      (case pipe_dst_ring (pipes (st_dst s) ! i) of
         None \<Rightarrow> False
       | Some ring \<Rightarrow>
           src_ready (unat (hal_ring_id ring)) s \<and> soft_ring_ok ring s \<and>
           e_sz (srng_list (hal s) (unat (hal_ring_id ring))) = 3 \<and>
           StDstLock \<in> set (k_held s) \<and> SrngLock (unat (hal_ring_id ring)) \<notin> set (k_held s)))"

definition dst_desc_words :: "hal_test_dst \<Rightarrow> u32 list" where
  "dst_desc_words d = [dst_buffer_addr_low d, dst_buffer_addr_info d, dst_flag d]"

definition rx_words :: "u64 \<Rightarrow> u32 list" where
  "rx_words paddr = dst_desc_words (dst_desc paddr)"

definition rx_store :: "nat \<Rightarrow> skbp \<Rightarrow> 'a wireless_simu_scheme \<Rightarrow> 'a wireless_simu_scheme" where
  "rx_store i skb s =
     (let pipe = pipes (st_dst s) ! i
      in set_pipe i (pipe\<lparr>pipe_dst_ring := Some (soft_put skb (rx_ring i s)),
                          rx_buf_needed := rx_buf_needed pipe - 1\<rparr>) s)"

lemma set_pipe_frame [simp]:
  "k_mem (set_pipe i p s) = k_mem s" "k_dma (set_pipe i p s) = k_dma s"
  "k_maps (set_pipe i p s) = k_maps s" "k_heap (set_pipe i p s) = k_heap s"
  "k_skbs (set_pipe i p s) = k_skbs s" "k_held (set_pipe i p s) = k_held s"
  "k_iomapped (set_pipe i p s) = k_iomapped s" "k_calls (set_pipe i p s) = k_calls s"
  "k_jiffies (set_pipe i p s) = k_jiffies s" "k_trace (set_pipe i p s) = k_trace s"
  "mmio_addr (set_pipe i p s) = mmio_addr s" "hal (set_pipe i p s) = hal s"
  "get_srng j (set_pipe i p s) = get_srng j s" "mem_ok a n (set_pipe i p s) = mem_ok a n s"
  "pipes (st_dst (set_pipe i p s)) = (pipes (st_dst s))[i := p]"
  "pipes_count (st_dst (set_pipe i p s)) = pipes_count (st_dst s)"
  "host_config (st_dst (set_pipe i p s)) = host_config (st_dst s)"
  by (simp_all add: set_pipe_def)

lemma ring_frame_pipe [simp]:
  "src_ready rid (set_pipe i p s) = src_ready rid s"
  "src_queue rid (set_pipe i p s) = src_queue rid s"
  "src_capacity rid (set_pipe i p s) = src_capacity rid s"
  "soft_ring_ok ring (set_pipe i p s) = soft_ring_ok ring s"
  "dst_ready rid (set_pipe i p s) = dst_ready rid s"
  "dst_queue rid (set_pipe i p s) = dst_queue rid s"
  by (simp_all add: src_ready_def src_queue_def src_capacity_def soft_ring_ok_def dst_ready_def
      dst_queue_def split: option.split srng_union.split)

lemma src_publish_pipe:
  "src_publish rid (set_pipe i p s) = set_pipe i p (src_publish rid s)"
  by (simp add: src_publish_def set_pipe_def set_srng_def emit_def Let_def)

lemma set_pipe_held:
  "set_pipe i p (s\<lparr>k_held := h\<rparr>) = (set_pipe i p s)\<lparr>k_held := h\<rparr>"
  by (simp add: set_pipe_def)

lemma rx_post_readyE:
  assumes "rx_post_ready i s"
  obtains pipe ring where "i < length (pipes (st_dst s))" "pipes (st_dst s) ! i = pipe"
    "pipe_dst_ring pipe = Some ring" "rx_ring i s = ring" "rx_rid i s = unat (hal_ring_id ring)"
    "src_ready (rx_rid i s) s" "soft_ring_ok ring s"
    "e_sz (srng_list (hal s) (rx_rid i s)) = 3" "StDstLock \<in> set (k_held s)"
    "SrngLock (rx_rid i s) \<notin> set (k_held s)"
  using assms unfolding rx_post_ready_def rx_ring_def rx_rid_def by (auto split: option.splits)

lemma dst_set_desc_ok:
  assumes "\<And>k. k < 3 \<Longrightarrow> mem_ok (a + of_nat (4 * k)) 4 s"
  shows "wireless_simu_test_dst_set_desc a paddr s =
    Some (s\<lparr>k_mem := write_words a (rx_words paddr) (k_mem s)\<rparr>)"
proof -
  have "mem_ok a 4 s" "mem_ok (a + 4) 4 s" "mem_ok (a + 8) 4 s"
    using assms [of 0] assms [of 1] assms [of 2] by simp_all
  then show ?thesis
    by (simp add: wireless_simu_test_dst_set_desc_def k_simps rx_words_def dst_desc_words_def
        Let_def add.assoc)
qed

lemma enqueue_full:
  assumes "rx_post_ready i s" "length (src_queue (rx_rid i s) s) = src_capacity (rx_rid i s) s"
  shows "wireless_simu_test_dst_enqueue_pipe i skb paddr s =
    Some (neg_errno ENOSPC, src_refuse (rx_rid i s) s)"
proof (rule rx_post_readyE [OF assms(1)])
  fix pipe ring
  assume p: "i < length (pipes (st_dst s))" "pipes (st_dst s) ! i = pipe"
    "pipe_dst_ring pipe = Some ring" "rx_ring i s = ring" "rx_rid i s = unat (hal_ring_id ring)"
    "src_ready (rx_rid i s) s" "StDstLock \<in> set (k_held s)" "SrngLock (rx_rid i s) \<notin> set (k_held s)"
  let ?s = "s\<lparr>k_held := SrngLock (rx_rid i s) # k_held s\<rparr>"
  have rdy: "src_ready (rx_rid i s) ?s" and held: "SrngLock (rx_rid i s) \<in> set (k_held ?s)"
    using p by simp_all
  note e = access_begin_src [OF held rdy] src_num_free_sync [OF held rdy]
    access_end_src [OF _ src_ready_sync(1) [OF rdy]]
  show ?thesis
    using p e assms(2)
    by (simp add: wireless_simu_test_dst_enqueue_pipe_def get_pipe_def nth_opt_def k_simps
        spin_lock_def spin_unlock_def src_ready_get Let_def src_refuse_def src_held_commute)
qed

lemma enqueue_room:
  assumes "rx_post_ready i s" "k_skbs s skb = Some b"
    and "length (src_queue (rx_rid i s) s) < src_capacity (rx_rid i s) s"
  shows "wireless_simu_test_dst_enqueue_pipe i skb paddr s =
    Some (0, rx_store i skb (src_commit (rx_rid i s) (rx_words paddr) s))"
proof (rule rx_post_readyE [OF assms(1)])
  fix pipe ring
  assume p: "i < length (pipes (st_dst s))" "pipes (st_dst s) ! i = pipe"
    "pipe_dst_ring pipe = Some ring" "rx_ring i s = ring" "rx_rid i s = unat (hal_ring_id ring)"
    "src_ready (rx_rid i s) s" "soft_ring_ok ring s" "e_sz (srng_list (hal s) (rx_rid i s)) = 3"
    "StDstLock \<in> set (k_held s)" "SrngLock (rx_rid i s) \<notin> set (k_held s)"
  let ?rid = "rx_rid i s"
  let ?s = "s\<lparr>k_held := SrngLock ?rid # k_held s\<rparr>"
  have rdy: "src_ready ?rid ?s" and held: "SrngLock ?rid \<in> set (k_held ?s)"
    using p by simp_all
  have room: "length (src_queue ?rid ?s) < src_capacity ?rid ?s"
    using assms(3) by simp
  have ws: "length (rx_words paddr) = e_sz (srng_list (hal (src_sync ?rid ?s)) ?rid)"
    using p by (simp add: rx_words_def dst_desc_words_def)
  have room': "length (src_queue ?rid (src_sync ?rid ?s)) < src_capacity ?rid (src_sync ?rid ?s)"
    unfolding src_ready_sync(2,3) [OF rdy] by (rule room)
  note push = src_ready_push(1) [OF src_ready_sync(1) [OF rdy] room' ws]
  have desc: "wireless_simu_test_dst_set_desc (src_slot ?rid ?s) paddr
      (src_advance ?rid (src_sync ?rid ?s)) = Some (src_push ?rid (rx_words paddr) (src_sync ?rid ?s))"
    using dst_set_desc_ok [OF src_slot_ok_advance [OF rdy]] p(8) by (simp add: src_push_def)
  have list_put: "list_put (ring_skb ring) (unat (write_index ring)) (Some skb)
      = Some ((ring_skb ring)[unat (write_index ring) := Some skb])"
    using soft_ring_write_index [of ring s] p by (simp add: list_put_def)
  note e = access_begin_src [OF held rdy] src_num_free_sync [OF held rdy]
    src_get_next_entry_sync [OF held rdy]
  have e2: "wireless_simu_hal_srng_access_end ?rid (set_pipe i p' (src_push ?rid (rx_words paddr) (src_sync ?rid ?s)))
      = Some (set_pipe i p' (src_publish ?rid (src_push ?rid (rx_words paddr) (src_sync ?rid ?s))))" for p'
    using push access_end_src [of ?rid "set_pipe i p' (src_push ?rid (rx_words paddr) (src_sync ?rid ?s))"]
    by (simp add: src_publish_pipe)
  show ?thesis
    using p e e2 room desc list_put assms(2)
    by (simp add: wireless_simu_test_dst_enqueue_pipe_def get_pipe_def nth_opt_def k_simps skb_get_def
        spin_lock_def spin_unlock_def src_ready_get Let_def src_commit_def src_held_commute rx_store_def
        set_pipe_held soft_put_def rx_ring_def held_restore)
qed

section \<open>Receiving from a ready pipe\<close>

definition rx_sring :: "nat \<Rightarrow> 'a wireless_simu_scheme \<Rightarrow> srng_test_ring" where
  "rx_sring i s = the (pipe_status_ring (pipes (st_dst s) ! i))"

definition rx_srid :: "nat \<Rightarrow> 'a wireless_simu_scheme \<Rightarrow> nat" where
  "rx_srid i s = unat (hal_ring_id (rx_sring i s))"

definition rx_recv_ready :: "nat \<Rightarrow> 'a wireless_simu_scheme \<Rightarrow> bool" where
  "rx_recv_ready i s =
     (i < length (pipes (st_dst s)) \<and>
      pipe_dst_ring (pipes (st_dst s) ! i) \<noteq> None \<and>
      pipe_status_ring (pipes (st_dst s) ! i) \<noteq> None \<and>
      dst_ready (rx_srid i s) s \<and>
      unat (sw_index (rx_ring i s)) < length (ring_skb (rx_ring i s)) \<and>
      StDstLock \<notin> set (k_held s) \<and> SrngLock (rx_srid i s) \<notin> set (k_held s))"

text \<open>The software side of a reception: the slot at the read index is taken and cleared.\<close>

definition soft_take :: "srng_test_ring \<Rightarrow> srng_test_ring" where
  "soft_take ring = ring\<lparr>ring_skb := (ring_skb ring)[unat (sw_index ring) := None],
     sw_index := (sw_index ring + 1) AND nentries_mask ring\<rparr>"

definition rx_take :: "nat \<Rightarrow> 'a wireless_simu_scheme \<Rightarrow> 'a wireless_simu_scheme" where
  "rx_take i s =
     (let pipe = pipes (st_dst s) ! i
      in set_pipe i (pipe\<lparr>pipe_dst_ring := Some (soft_take (rx_ring i s)),
                          rx_buf_needed := rx_buf_needed pipe + 1\<rparr>) s)"

lemma dst_publish_pipe: "dst_publish rid (set_pipe i p s) = set_pipe i p (dst_publish rid s)"
  by (simp add: dst_publish_def set_pipe_def set_srng_def emit_def Let_def)

lemma rx_recv_readyE:
  assumes "rx_recv_ready i s"
  obtains pipe dring sring where "i < length (pipes (st_dst s))" "pipes (st_dst s) ! i = pipe"
    "pipe_dst_ring pipe = Some dring" "pipe_status_ring pipe = Some sring"
    "rx_ring i s = dring" "rx_srid i s = unat (hal_ring_id sring)" "dst_ready (rx_srid i s) s"
    "unat (sw_index dring) < length (ring_skb dring)"
    "StDstLock \<notin> set (k_held s)" "SrngLock (rx_srid i s) \<notin> set (k_held s)"
  using assms unfolding rx_recv_ready_def rx_ring_def rx_srid_def rx_sring_def by auto

definition rx_len :: "nat \<Rightarrow> 'a wireless_simu_scheme \<Rightarrow> u32" where
  "rx_len i s = hd (hd (dst_queue (rx_srid i s) s))"

lemma recv_next_eq:
  assumes "rx_recv_ready i s"
  shows "wireless_simu_test_dst_recv_next i s =
    (if dst_queue (rx_srid i s) s = []
     then Some (neg_errno EIO, None, 0, dst_publish (rx_srid i s) (dst_sync (rx_srid i s) s))
     else if rx_len i s = 0
     then Some (neg_errno EIO, None, 0,
            dst_publish (rx_srid i s) (dst_pop (rx_srid i s) (dst_sync (rx_srid i s) s)))
     else Some (0, ring_skb (rx_ring i s) ! unat (sw_index (rx_ring i s)), rx_len i s,
            rx_take i (dst_publish (rx_srid i s) (dst_pop (rx_srid i s) (dst_sync (rx_srid i s) s)))))"
proof (rule rx_recv_readyE [OF assms])
  fix pipe dring sring
  assume p: "i < length (pipes (st_dst s))" "pipes (st_dst s) ! i = pipe"
    "pipe_dst_ring pipe = Some dring" "pipe_status_ring pipe = Some sring"
    "rx_ring i s = dring" "rx_srid i s = unat (hal_ring_id sring)" "dst_ready (rx_srid i s) s"
    "unat (sw_index dring) < length (ring_skb dring)"
    "StDstLock \<notin> set (k_held s)" "SrngLock (rx_srid i s) \<notin> set (k_held s)"
  let ?rid = "rx_srid i s"
  let ?s = "s\<lparr>k_held := [SrngLock ?rid, StDstLock] @ k_held s\<rparr>"
  have rdy: "dst_ready ?rid ?s" and held: "SrngLock ?rid \<in> set (k_held ?s)"
    using p by simp_all
  note sync = dst_ready_sync [OF rdy]
  have pop: "dst_ready ?rid (dst_pop ?rid (dst_sync ?rid ?s))" if "dst_queue ?rid s \<noteq> []"
    using that dst_ready_pop(1) [OF sync(1)] sync(2) by simp
  have len: "wireless_simu_test_dst_get_length (dst_slot ?rid ?s) (dst_pop ?rid (dst_sync ?rid ?s))
      = Some (rx_len i s)" if "dst_queue ?rid s \<noteq> []"
    using that dst_slot_read [OF rdy]
    by (simp add: wireless_simu_test_dst_get_length_def k_simps rx_len_def)
  have e2: "wireless_simu_hal_srng_access_end ?rid (set_pipe i p' (dst_pop ?rid (dst_sync ?rid ?s)))
      = Some (set_pipe i p' (dst_publish ?rid (dst_pop ?rid (dst_sync ?rid ?s))))"
    if "dst_queue ?rid s \<noteq> []" for p'
    using pop [OF that] access_end_dst [of ?rid "set_pipe i p' (dst_pop ?rid (dst_sync ?rid ?s))"]
    by (simp add: dst_publish_pipe)
  note e = access_begin_dst [OF held rdy] dst_get_next_entry_sync [OF held rdy]
    access_end_dst [OF _ sync(1)] access_end_dst [OF _ pop]
  show ?thesis
    using p e e2 len
    by (simp add: wireless_simu_test_dst_recv_next_def get_pipe_def nth_opt_def
        spin_lock_def spin_unlock_def dst_ready_get Let_def dst_held_commute rx_take_def
        set_pipe_held soft_take_def rx_ring_def held_restore)
qed

end
