(* ===== verification/Rx_Rings.thy ===== *)
theory Rx_Rings
  imports Srng_Dst
begin

text \<open>
  The two rings of a receive pipe side by side: buffers are posted through one and completions
  read from the other. They lie apart in memory, so an access to one does not disturb the other.
\<close>

section \<open>Definitions\<close>

definition rings_apart :: "hal_srng \<Rightarrow> hal_srng \<Rightarrow> bool" where
  "rings_apart g h =
     (let d = unat (ring_base_vaddr h - ring_base_vaddr g)
      in 4 * (e_sz g * n_ent g) \<le> d \<and> d + 4 * (e_sz h * n_ent h) \<le> 2 ^ 64)"

text \<open>
  A posting ring and a completion ring that the driver uses together: both ready, in memory apart
  from each other and from the two pointer cells, with the descriptor sizes of the module.
\<close>

definition rx_wired :: "nat \<Rightarrow> nat \<Rightarrow> 'a wireless_simu_scheme \<Rightarrow> bool" where
  "rx_wired rid srid s =
     (let g = srng_list (hal s) rid; h = srng_list (hal s) srid;
          tpa = src_tp_addr (union_src (srng_u g)); hpa = dst_hp_addr (union_dst (srng_u h))
      in rid \<noteq> srid \<and> src_ready rid s \<and> dst_ready srid s \<and> e_sz g = 3 \<and> e_sz h = 2 \<and>
         n_ent h = n_ent g \<and> 2 < n_ent g \<and> rings_apart g h \<and> outside g hpa \<and> outside h tpa \<and>
         tpa \<noteq> hpa)"

section \<open>Lemmas\<close>

lemma outside_apart:
  assumes "rings_apart g h" "geom_ok h" "i < n_ent h" "k < e_sz h"
  shows "outside g (entry_addr h i + of_nat (4 * k))"
proof -
  let ?d = "unat (ring_base_vaddr h - ring_base_vaddr g)" and ?x = "4 * (e_sz h * i + k)"
  note w = entry_word_addr [OF assms(2-4)]
  have lt: "?d + ?x < 2 ^ 64" and ge: "4 * (e_sz g * n_ent g) \<le> ?d"
    using assms(1) w(2) by (simp_all add: rings_apart_def Let_def)
  have "entry_addr h i + of_nat (4 * k) - ring_base_vaddr g
      = (ring_base_vaddr h - ring_base_vaddr g) + of_nat ?x"
    unfolding w(1) by (simp add: algebra_simps)
  moreover have "unat ((ring_base_vaddr h - ring_base_vaddr g) + of_nat ?x) = ?d + ?x"
    using lt by (subst unat_add_lem [THEN iffD1]) (simp_all add: unat_of_nat_64 del: of_nat_mult of_nat_add)
  ultimately have "unat (entry_addr h i + of_nat (4 * k) - ring_base_vaddr g) = ?d + ?x"
    by (simp only:)
  then show ?thesis
    unfolding outside_def using ge by linarith
qed

lemma rings_apart_sym:
  assumes "rings_apart g h" "geom_ok g"
  shows "rings_apart h g"
proof -
  let ?d = "ring_base_vaddr h - ring_base_vaddr g"
  have "0 < e_sz g * n_ent g"
    using geom_okD(1,2) [OF assms(2)] by simp
  moreover have "4 * (e_sz g * n_ent g) \<le> unat ?d"
    using assms(1) by (simp add: rings_apart_def Let_def)
  ultimately have "0 < unat ?d"
    by linarith
  moreover have "(unat (ring_base_vaddr g - ring_base_vaddr h) + unat ?d) mod 2 ^ 64 = 0"
    using unat_word_ariths(1) [of "ring_base_vaddr g - ring_base_vaddr h" ?d] by simp
  ultimately have "unat (ring_base_vaddr g - ring_base_vaddr h) = 2 ^ 64 - unat ?d"
    using unsigned_less [where ?'a = nat and w = "ring_base_vaddr g - ring_base_vaddr h"]
      unsigned_less [where ?'a = nat and w = ?d]
    by (auto simp: mod_if split: if_splits)
  with assms(1) show ?thesis
    unfolding rings_apart_def Let_def by linarith
qed

lemma ring_frame_kernel [simp]:
  "src_ready rid (s\<lparr>k_skbs := b\<rparr>) = src_ready rid s" "dst_ready rid (s\<lparr>k_skbs := b\<rparr>) = dst_ready rid s"
  "src_ready rid (s\<lparr>k_maps := m\<rparr>) = src_ready rid s" "dst_ready rid (s\<lparr>k_maps := m\<rparr>) = dst_ready rid s"
  "src_ready rid (s\<lparr>k_calls := c\<rparr>) = src_ready rid s" "dst_ready rid (s\<lparr>k_calls := c\<rparr>) = dst_ready rid s"
  "src_ready rid (s\<lparr>k_trace := t\<rparr>) = src_ready rid s" "dst_ready rid (s\<lparr>k_trace := t\<rparr>) = dst_ready rid s"
  "src_ready rid (emit e s) = src_ready rid s" "dst_ready rid (emit e s) = dst_ready rid s"
  by (simp_all add: src_ready_def dst_ready_def split: option.split srng_union.split)

lemma queue_frame_kernel [simp]:
  "src_queue rid (s\<lparr>k_skbs := b\<rparr>) = src_queue rid s" "dst_queue rid (s\<lparr>k_skbs := b\<rparr>) = dst_queue rid s"
  "src_queue rid (s\<lparr>k_maps := m\<rparr>) = src_queue rid s" "dst_queue rid (s\<lparr>k_maps := m\<rparr>) = dst_queue rid s"
  "src_queue rid (s\<lparr>k_calls := c\<rparr>) = src_queue rid s" "dst_queue rid (s\<lparr>k_calls := c\<rparr>) = dst_queue rid s"
  "src_queue rid (s\<lparr>k_trace := t\<rparr>) = src_queue rid s" "dst_queue rid (s\<lparr>k_trace := t\<rparr>) = dst_queue rid s"
  "src_queue rid (emit e s) = src_queue rid s" "dst_queue rid (emit e s) = dst_queue rid s"
  by (simp_all add: src_queue_def dst_queue_def)

lemma ring_frame_other [simp]:
  "rid \<noteq> j \<Longrightarrow> src_ready rid (set_srng j g s) = src_ready rid s"
  "rid \<noteq> j \<Longrightarrow> dst_ready rid (set_srng j g s) = dst_ready rid s"
  "rid \<noteq> j \<Longrightarrow> src_queue rid (set_srng j g s) = src_queue rid s"
  "rid \<noteq> j \<Longrightarrow> dst_queue rid (set_srng j g s) = dst_queue rid s"
  by (simp_all add: src_ready_def dst_ready_def src_queue_def dst_queue_def
      split: option.split srng_union.split)

lemma rx_wired_frame [simp]:
  "rx_wired rid srid (s\<lparr>k_skbs := b\<rparr>) = rx_wired rid srid s"
  "rx_wired rid srid (s\<lparr>k_maps := m\<rparr>) = rx_wired rid srid s"
  "rx_wired rid srid (s\<lparr>k_calls := c\<rparr>) = rx_wired rid srid s"
  "rx_wired rid srid (s\<lparr>k_trace := t\<rparr>) = rx_wired rid srid s"
  "rx_wired rid srid (s\<lparr>k_held := h\<rparr>) = rx_wired rid srid s"
  "rx_wired rid srid (emit e s) = rx_wired rid srid s"
  "rx_wired rid srid (set_pipe i p s) = rx_wired rid srid s"
  by (simp_all add: rx_wired_def)

text \<open>Accesses to one of the two rings do not disturb the other.\<close>

lemma rx_wiredE:
  assumes "rx_wired rid srid s"
  obtains g h r q where "srng_list (hal s) rid = g" "srng_list (hal s) srid = h"
    "srng_u g = SrcRing r" "srng_u h = DstRing q" "rid \<noteq> srid" "src_ready rid s" "dst_ready srid s"
    "geom_ok g" "geom_ok h" "e_sz g = 3" "e_sz h = 2" "n_ent h = n_ent g" "2 < n_ent g"
    "rings_apart g h" "outside g (dst_hp_addr q)" "outside h (src_tp_addr r)"
    "src_tp_addr r \<noteq> dst_hp_addr q"
  using assms unfolding rx_wired_def Let_def
  by (elim conjE) (auto elim!: src_readyE dst_readyE)

lemma pending_apart:
  assumes "rings_apart g h" "geom_ok g" "geom_ok h" "i < n_ent g" "length ws = e_sz g"
  shows "pending h (write_words (entry_addr g i) ws m) tp hp = pending h m tp hp"
  unfolding pending_def entry_words_def
  using geom_okD(2) [OF assms(3)] assms(4,5)
  by (intro map_cong refl write_words_outside [OF assms(2) outside_apart [OF assms(1,3)]]) simp_all

lemma src_access_keeps [simp]:
  "e_sz (srng_list (hal (src_commit rid ws s)) i) = e_sz (srng_list (hal s) i)"
  "n_ent (srng_list (hal (src_commit rid ws s)) i) = n_ent (srng_list (hal s) i)"
  "ring_base_vaddr (srng_list (hal (src_commit rid ws s)) i) = ring_base_vaddr (srng_list (hal s) i)"
  "src_tp_addr (union_src (srng_u (srng_list (hal (src_commit rid ws s)) rid)))
   = src_tp_addr (union_src (srng_u (srng_list (hal s) rid)))"
  by (cases "i = rid"; simp add: src_op_defs)+

lemma outside_commit [simp]:
  "outside (srng_list (hal (src_commit rid ws s)) i) = outside (srng_list (hal s) i)"
  "rings_apart (srng_list (hal (src_commit rid ws s)) i) h = rings_apart (srng_list (hal s) i) h"
  by (simp_all add: fun_eq_iff outside_def rings_apart_def)

lemma rx_wired_commit:
  assumes "rx_wired rid srid s" "length (src_queue rid s) < src_capacity rid s" "length ws = 3"
  shows "rx_wired rid srid (src_commit rid ws s)"
    and "dst_queue srid (src_commit rid ws s) = dst_queue srid s"
proof -
  obtain g h r q where w: "srng_list (hal s) rid = g" "srng_list (hal s) srid = h"
    "srng_u g = SrcRing r" "srng_u h = DstRing q" "rid \<noteq> srid" "src_ready rid s" "dst_ready srid s"
    "geom_ok g" "geom_ok h" "e_sz g = 3" "e_sz h = 2" "n_ent h = n_ent g" "2 < n_ent g"
    "rings_apart g h" "outside g (dst_hp_addr q)" "outside h (src_tp_addr r)"
    "src_tp_addr r \<noteq> dst_hp_addr q"
    using rx_wiredE [OF assms(1)] by metis
  have hp: "ptr_ok g (src_hp r)"
    by (rule src_readyE [OF w(6)]) (use w in simp)
  let ?m = "write_words (src_slot rid s) ws (k_mem s)"
  have slot: "src_slot rid s = entry_addr g (ent_idx g (src_hp r))"
    using w by (simp add: src_slot_def)
  have cell: "?m (dst_hp_addr q) = k_mem s (dst_hp_addr q)"
    unfolding slot using w assms(3) by (intro write_words_outside) (simp_all add: ent_idx_less hp)
  have pend: "pending h ?m a b = pending h (k_mem s) a b" for a b
    unfolding slot using w assms(3) by (intro pending_apart) (simp_all add: ent_idx_less hp)
  have other: "srng_list (hal (src_commit rid ws s)) srid = h" 
    "get_srng srid (src_commit rid ws s) = get_srng srid s"
    using w by (simp_all add: get_srng_def)
  show "dst_queue srid (src_commit rid ws s) = dst_queue srid s"
    using w cell pend other by (simp add: dst_queue_def Let_def)
  have "dst_ready srid (src_commit rid ws s)"
    using w(7) dst_ready_get [OF w(7)] w(1-5) cell other by (simp add: dst_ready_def mem_ok_def)
  moreover have "src_ready rid (src_commit rid ws s)"
    using w assms by (intro src_ready_commit) simp_all
  ultimately show "rx_wired rid srid (src_commit rid ws s)"
    using w by (simp add: rx_wired_def Let_def)
qed

lemma dst_steps_other:
  assumes "rid \<noteq> srid"
  shows "src_ready rid (dst_sync srid s) = src_ready rid s" "src_queue rid (dst_sync srid s) = src_queue rid s"
    "src_ready rid (dst_pop srid s) = src_ready rid s" "src_queue rid (dst_pop srid s) = src_queue rid s"
    "src_ready rid (dst_publish srid s) = src_ready rid s" "src_queue rid (dst_publish srid s) = src_queue rid s"
    "srng_list (hal (dst_sync srid s)) rid = srng_list (hal s) rid"
    "srng_list (hal (dst_pop srid s)) rid = srng_list (hal s) rid"
    "srng_list (hal (dst_publish srid s)) rid = srng_list (hal s) rid"
  using assms by (simp_all add: dst_op_defs)

lemma dst_steps_keep [simp]:
  "e_sz (srng_list (hal (dst_sync rid s)) rid) = e_sz (srng_list (hal s) rid)"
  "e_sz (srng_list (hal (dst_pop rid s)) rid) = e_sz (srng_list (hal s) rid)"
  "e_sz (srng_list (hal (dst_publish rid s)) rid) = e_sz (srng_list (hal s) rid)"
  "n_ent (srng_list (hal (dst_sync rid s)) rid) = n_ent (srng_list (hal s) rid)"
  "n_ent (srng_list (hal (dst_pop rid s)) rid) = n_ent (srng_list (hal s) rid)"
  "n_ent (srng_list (hal (dst_publish rid s)) rid) = n_ent (srng_list (hal s) rid)"
  "outside (srng_list (hal (dst_sync rid s)) rid) = outside (srng_list (hal s) rid)"
  "outside (srng_list (hal (dst_pop rid s)) rid) = outside (srng_list (hal s) rid)"
  "outside (srng_list (hal (dst_publish rid s)) rid) = outside (srng_list (hal s) rid)"
  "rings_apart g (srng_list (hal (dst_sync rid s)) rid) = rings_apart g (srng_list (hal s) rid)"
  "rings_apart g (srng_list (hal (dst_pop rid s)) rid) = rings_apart g (srng_list (hal s) rid)"
  "rings_apart g (srng_list (hal (dst_publish rid s)) rid) = rings_apart g (srng_list (hal s) rid)"
  "dst_hp_addr (union_dst (srng_u (srng_list (hal (dst_sync rid s)) rid)))
   = dst_hp_addr (union_dst (srng_u (srng_list (hal s) rid)))"
  "dst_hp_addr (union_dst (srng_u (srng_list (hal (dst_pop rid s)) rid)))
   = dst_hp_addr (union_dst (srng_u (srng_list (hal s) rid)))"
  "dst_hp_addr (union_dst (srng_u (srng_list (hal (dst_publish rid s)) rid)))
   = dst_hp_addr (union_dst (srng_u (srng_list (hal s) rid)))"
  by (simp_all add: dst_op_defs rings_apart_def)

lemma rx_wired_dst:
  assumes "rx_wired rid srid s"
  shows "rx_wired rid srid (dst_sync srid s)" "rx_wired rid srid (dst_publish srid s)"
    and "dst_queue srid s \<noteq> [] \<Longrightarrow> rx_wired rid srid (dst_pop srid s)"
  using assms dst_ready_sync(1) [of srid s] dst_ready_publish(1) [of srid s] dst_ready_pop(1) [of srid s]
  by (simp_all add: rx_wired_def Let_def dst_steps_other)

end
