(* ===== verification/Rx_Ledger.thy ===== *)
theory Rx_Ledger
  imports Rx_Rings "HOL-Library.Multiset"
begin

text \<open>
  The invariant of a receive pipe: which slots of the software ring hold a buffer, who owns it,
  that each has its own mapping, and how the counter of missing buffers, the window of posted
  buffers and the contents of the two rings fit together. Posting a buffer and taking a completed
  one keep it.
\<close>

section \<open>Definitions\<close>

definition skb_map :: "'a kernel_scheme \<Rightarrow> skbp \<Rightarrow> u64 \<times> nat" where
  "skb_map s p =
     (let b = the (k_skbs s p) in (cb_paddr (skb_cb b), skb_len b + skb_tailroom b))"

definition skb_empty :: "sk_buff \<Rightarrow> bool" where
  "skb_empty b = (skb_tail b = skb_data b)"

text \<open>
  The driver owns these buffers: different ones, allocated, still empty, each with a mapping of
  its own.
\<close>

definition own_ok :: "'a kernel_scheme \<Rightarrow> skbp list \<Rightarrow> bool" where
  "own_ok s ps = (distinct ps \<and>
     list_all (\<lambda>p. p < k_calls s \<and> (case k_skbs s p of None \<Rightarrow> False | Some b \<Rightarrow> skb_empty b)) ps \<and>
     mset (map (skb_map s) ps) \<subseteq># mset (k_maps s))"

definition rx_window :: "srng_test_ring \<Rightarrow> nat list" where
  "rx_window d = window (length (ring_skb d)) (unat (sw_index d)) (unat (write_index d))"

definition rx_bufs :: "srng_test_ring \<Rightarrow> skbp list" where
  "rx_bufs d = map (\<lambda>j. the (ring_skb d ! j)) (rx_window d)"

definition slots_ok :: "srng_test_ring \<Rightarrow> bool" where
  "slots_ok d = (unat (sw_index d) < length (ring_skb d) \<and>
     list_all (\<lambda>j. (ring_skb d ! j \<noteq> None) = (j \<in> set (rx_window d))) [0..<length (ring_skb d)])"

definition rx_inv :: "nat \<Rightarrow> 'a wireless_simu_scheme \<Rightarrow> bool" where
  "rx_inv i s =
     (i < length (pipes (st_dst s)) \<and> pipe_dst_ring (pipes (st_dst s) ! i) \<noteq> None \<and>
      pipe_status_ring (pipes (st_dst s) ! i) \<noteq> None \<and> unat (pipe_num (pipes (st_dst s) ! i)) = i \<and>
      rx_wired (rx_rid i s) (rx_srid i s) s \<and> soft_ring_ok (rx_ring i s) s \<and>
      slots_ok (rx_ring i s) \<and> own_ok s (rx_bufs (rx_ring i s)) \<and>
      length (rx_window (rx_ring i s)) + unat (rx_buf_needed (pipes (st_dst s) ! i)) + 2
        = length (ring_skb (rx_ring i s)) \<and>
      length (src_queue (rx_rid i s) s) + length (dst_queue (rx_srid i s) s)
        \<le> length (rx_window (rx_ring i s)))"

definition rx_look :: "nat \<Rightarrow> 'a wireless_simu_scheme \<Rightarrow> 'a wireless_simu_scheme" where
  "rx_look i s = dst_publish (rx_srid i s) (dst_sync (rx_srid i s) s)"

definition rx_pop :: "nat \<Rightarrow> 'a wireless_simu_scheme \<Rightarrow> 'a wireless_simu_scheme" where
  "rx_pop i s = dst_publish (rx_srid i s) (dst_pop (rx_srid i s) (dst_sync (rx_srid i s) s))"

section \<open>Lemmas\<close>

lemma skb_empty_cb [simp]: "skb_empty (b\<lparr>skb_cb := c\<rparr>) = skb_empty b"
  by (simp add: skb_empty_def)

lemma soft_put_window:
  assumes "soft_ring_ok d s" "slots_ok d" "unat (write_index d) < length (ring_skb d)"
    "length (rx_window d) + 1 < length (ring_skb d)"
  shows "rx_window (soft_put p d) = rx_window d @ [unat (write_index d)]"
    and "rx_bufs (soft_put p d) = rx_bufs d @ [p]" and "slots_ok (soft_put p d)"
    and "length (ring_skb (soft_put p d)) = length (ring_skb d)"
proof -
  let ?n = "length (ring_skb d)" and ?r = "unat (sw_index d)" and ?w = "unat (write_index d)"
  have r: "?r < ?n"
    using assms(2) by (simp add: slots_ok_def)
  have "Suc ?w mod ?n \<noteq> ?r"
    using mod_dist_full [OF r assms(3)] assms(4) by (simp add: rx_window_def)
  from window_append [OF r assms(3) this]
  show win: "rx_window (soft_put p d) = rx_window d @ [?w]"
    using soft_index_next [OF assms(1,3)] by (simp add: rx_window_def soft_put_def)
  have notin: "?w \<notin> set (rx_window d)"
    unfolding rx_window_def by (rule window_not_end [OF r assms(3)])
  then have "map (\<lambda>j. the ((ring_skb d)[?w := Some p] ! j)) (rx_window d) = rx_bufs d"
    unfolding rx_bufs_def by (intro map_cong refl) (metis nth_list_update_neq)
  then show "rx_bufs (soft_put p d) = rx_bufs d @ [p]"
    unfolding rx_bufs_def win using assms(3) by (simp add: soft_put_def)
  show "slots_ok (soft_put p d)"
    unfolding slots_ok_def win using assms(2,3)
    by (auto simp: slots_ok_def soft_put_def list_all_iff nth_list_update)
qed (simp add: soft_put_def)

lemma soft_take_window:
  assumes "soft_ring_ok d s" "slots_ok d" "unat (write_index d) < length (ring_skb d)"
    "rx_window d \<noteq> []"
  shows "rx_window d = unat (sw_index d) # rx_window (soft_take d)"
    and "\<exists>p. ring_skb d ! unat (sw_index d) = Some p \<and> rx_bufs d = p # rx_bufs (soft_take d)"
    and "slots_ok (soft_take d)" and "length (ring_skb (soft_take d)) = length (ring_skb d)"
proof -
  let ?n = "length (ring_skb d)" and ?r = "unat (sw_index d)" and ?w = "unat (write_index d)"
  have r: "?r < ?n"
    using assms(2) by (simp add: slots_ok_def)
  have "?r \<noteq> ?w"
    using assms(4) by (auto simp: rx_window_def window_def)
  from window_Cons [OF r assms(3) this]
  show win: "rx_window d = ?r # rx_window (soft_take d)"
    using soft_index_next [OF assms(1) r] by (simp add: rx_window_def soft_take_def)
  have "distinct (rx_window d)"
    unfolding rx_window_def by (rule window_distinct [OF r])
  then have notin: "?r \<notin> set (rx_window (soft_take d))"
    unfolding win by simp
  then have tl: "map (\<lambda>j. the ((ring_skb d)[?r := None] ! j)) (rx_window (soft_take d))
      = map (\<lambda>j. the (ring_skb d ! j)) (rx_window (soft_take d))"
    by (intro map_cong refl) (metis nth_list_update_neq)
  obtain p where "ring_skb d ! ?r = Some p"
    using assms(2) r win by (fastforce simp: slots_ok_def list_all_iff)
  then show "\<exists>p. ring_skb d ! ?r = Some p \<and> rx_bufs d = p # rx_bufs (soft_take d)"
    using tl unfolding rx_bufs_def win by (simp add: soft_take_def)
  have "Suc ?r mod ?n < ?n"
    using r by (intro mod_less_divisor) linarith
  then show "slots_ok (soft_take d)"
    unfolding slots_ok_def using assms(2) r notin win soft_index_next [OF assms(1) r]
    by (auto simp: slots_ok_def soft_take_def list_all_iff nth_list_update)
qed (simp add: soft_take_def)

lemma rx_invE:
  assumes "rx_inv i s"
  obtains pipe d t where "i < length (pipes (st_dst s))" "pipes (st_dst s) ! i = pipe"
    "pipe_dst_ring pipe = Some d" "pipe_status_ring pipe = Some t" "rx_ring i s = d"
    "rx_sring i s = t" "rx_rid i s = unat (hal_ring_id d)" "rx_srid i s = unat (hal_ring_id t)"
    "rx_wired (rx_rid i s) (rx_srid i s) s" "soft_ring_ok d s" "slots_ok d" "own_ok s (rx_bufs d)"
    "length (rx_window d) + unat (rx_buf_needed pipe) + 2 = length (ring_skb d)"
    "length (src_queue (rx_rid i s) s) + length (dst_queue (rx_srid i s) s) \<le> length (rx_window d)"
    "unat (write_index d) < length (ring_skb d)" "src_ready (rx_rid i s) s" "dst_ready (rx_srid i s) s"
    "src_capacity (rx_rid i s) s + 1 = length (ring_skb d)"
proof -
  obtain pipe d t where p: "i < length (pipes (st_dst s))" "pipes (st_dst s) ! i = pipe"
    "pipe_dst_ring pipe = Some d" "pipe_status_ring pipe = Some t" "rx_ring i s = d" "rx_sring i s = t"
    "rx_rid i s = unat (hal_ring_id d)" "rx_srid i s = unat (hal_ring_id t)"
    using assms by (auto simp: rx_inv_def rx_ring_def rx_sring_def rx_rid_def rx_srid_def)
  note inv = assms [unfolded rx_inv_def p(2,5)]
  then have w: "rx_wired (rx_rid i s) (rx_srid i s) s" "soft_ring_ok d s"
    by simp_all
  then have src: "src_ready (rx_rid i s) s" "dst_ready (rx_srid i s) s"
    by (simp_all add: rx_wired_def Let_def)
  have "unat (write_index d) < length (ring_skb d)"
    using soft_ring_write_index [OF w(2)] src(1) p(7) by simp
  moreover have "src_capacity (rx_rid i s) s + 1 = length (ring_skb d)"
    using w p(7) by (auto simp: src_capacity_def soft_ring_ok_def rx_wired_def Let_def)
  ultimately show ?thesis
    using that [OF p(1-8) w] inv src by blast
qed

lemma soft_ring_dst_ops:
  "unat (hal_ring_id d) \<noteq> rid \<Longrightarrow> soft_ring_ok d (dst_sync rid s) = soft_ring_ok d s"
  "unat (hal_ring_id d) \<noteq> rid \<Longrightarrow> soft_ring_ok d (dst_pop rid s) = soft_ring_ok d s"
  "unat (hal_ring_id d) \<noteq> rid \<Longrightarrow> soft_ring_ok d (dst_publish rid s) = soft_ring_ok d s"
  by (simp_all add: soft_ring_ok_def dst_op_defs)

lemma soft_ring_take: "soft_ring_ok (soft_take d) s = soft_ring_ok d s"
  by (simp add: soft_ring_ok_def soft_take_def)

lemma hal_ring_id_soft [simp]:
  "hal_ring_id (soft_put p d) = hal_ring_id d" "hal_ring_id (soft_take d) = hal_ring_id d"
  by (simp_all add: soft_put_def soft_take_def)

text \<open>Ownership depends on the buffers, their mappings and the allocation counter only.\<close>

lemma own_ok_cong:
  "k_skbs s' = k_skbs s \<Longrightarrow> k_maps s' = k_maps s \<Longrightarrow> k_calls s' = k_calls s \<Longrightarrow>
   own_ok s' ps = own_ok s ps"
proof -
  assume eq: "k_skbs s' = k_skbs s" "k_maps s' = k_maps s" "k_calls s' = k_calls s"
  then have "skb_map s' = skb_map s"
    by (simp add: fun_eq_iff skb_map_def)
  with eq show ?thesis
    by (simp add: own_ok_def)
qed

text \<open>Posting an owned buffer keeps the invariant.\<close>

lemma rx_inv_post:
  assumes "rx_inv i s" "own_ok s (rx_bufs (rx_ring i s) @ [p])"
    "rx_buf_needed (pipes (st_dst s) ! i) \<noteq> 0"
  shows "rx_inv i (rx_store i p (src_commit (rx_rid i s) (rx_words paddr) s))"
    and "length (src_queue (rx_rid i s) s) < src_capacity (rx_rid i s) s"
    and "rx_bufs (rx_ring i (rx_store i p (src_commit (rx_rid i s) (rx_words paddr) s)))
         = rx_bufs (rx_ring i s) @ [p]"
proof -
  obtain pipe d t where v: "i < length (pipes (st_dst s))" "pipes (st_dst s) ! i = pipe"
    "pipe_dst_ring pipe = Some d" "pipe_status_ring pipe = Some t" "rx_ring i s = d" "rx_sring i s = t"
    "rx_rid i s = unat (hal_ring_id d)" "rx_srid i s = unat (hal_ring_id t)"
    "rx_wired (rx_rid i s) (rx_srid i s) s" "soft_ring_ok d s" "slots_ok d" "own_ok s (rx_bufs d)"
    "length (rx_window d) + unat (rx_buf_needed pipe) + 2 = length (ring_skb d)"
    "length (src_queue (rx_rid i s) s) + length (dst_queue (rx_srid i s) s) \<le> length (rx_window d)"
    "unat (write_index d) < length (ring_skb d)" "src_ready (rx_rid i s) s"
    "src_capacity (rx_rid i s) s + 1 = length (ring_skb d)"
    using rx_invE [OF assms(1)] by metis
  let ?s = "src_commit (rx_rid i s) (rx_words paddr) s"
  have needed: "0 < unat (rx_buf_needed pipe)"
    using assms(3) v(2) by (simp add: unat_gt_0)
  then have room: "length (rx_window d) + 1 < length (ring_skb d)"
    using v(13) by linarith
  show q: "length (src_queue (rx_rid i s) s) < src_capacity (rx_rid i s) s"
    using v(13,14,17) needed by linarith
  have ws: "length (rx_words paddr) = 3"
    by (simp add: rx_words_def dst_desc_words_def)
  note wired = rx_wired_commit [OF v(9) q ws]
  have queue: "src_queue (rx_rid i s) ?s = src_queue (rx_rid i s) s @ [rx_words paddr]"
    using src_ready_commit(2) [OF v(16) q] ws v(9) by (simp add: rx_wired_def Let_def)
  note put = soft_put_window [OF v(10,11,15) room, of p]
  have soft: "soft_ring_ok (soft_put p d) ?s"
    using soft_ring_commit [OF v(10)] v(7,16) by simp
  have dec: "unat (rx_buf_needed pipe - 1) = unat (rx_buf_needed pipe) - 1"
    using needed by (simp add: unat_sub word_le_nat_alt Suc_leI)
  have ids: "rx_ring i (rx_store i p ?s) = soft_put p d" "rx_sring i (rx_store i p ?s) = t"
    using v(1-6) by (simp_all add: rx_ring_def rx_sring_def rx_store_def Let_def)
  then show "rx_bufs (rx_ring i (rx_store i p ?s)) = rx_bufs (rx_ring i s) @ [p]"
    using put(2) v(5) by simp
  have own: "own_ok (rx_store i p ?s) (rx_bufs d @ [p])"
    using assms(2) v(5) own_ok_cong [of "rx_store i p ?s" s]
    by (simp add: rx_store_def Let_def)
  have rids: "rx_rid i (rx_store i p ?s) = rx_rid i s" "rx_srid i (rx_store i p ?s) = rx_srid i s"
    using v(7,8) ids by (simp_all add: rx_rid_def rx_srid_def)
  have rxs: "rx_store i p ?s = set_pipe i (pipe\<lparr>pipe_dst_ring := Some (soft_put p d),
      rx_buf_needed := rx_buf_needed pipe - 1\<rparr>) ?s"
    using v(2,5) by (simp add: rx_store_def rx_ring_def Let_def)
  have "unat (pipe_num pipe) = i"
    using assms(1) v(2) by (simp add: rx_inv_def)
  then show "rx_inv i (rx_store i p ?s)"
    unfolding rx_inv_def ids rids using v(1-4) v(13,14) wired queue put soft own needed dec
    by (simp add: rxs)
qed

text \<open>The three outcomes of a look at the completion ring keep the invariant.\<close>

lemma rx_inv_dst_frame:
  assumes "rx_inv i s" "rx_wired (rx_rid i s) (rx_srid i s) s'" "st_dst s' = st_dst s"
    "k_skbs s' = k_skbs s" "k_maps s' = k_maps s" "k_calls s' = k_calls s"
    "soft_ring_ok (rx_ring i s) s'"
    "length (src_queue (rx_rid i s) s') + length (dst_queue (rx_srid i s) s')
     \<le> length (src_queue (rx_rid i s) s) + length (dst_queue (rx_srid i s) s)"
  shows "rx_inv i s'"
proof -
  have "rx_ring i s' = rx_ring i s" "rx_rid i s' = rx_rid i s" "rx_srid i s' = rx_srid i s"
    using assms(3) by (simp_all add: rx_ring_def rx_rid_def rx_srid_def rx_sring_def)
  then show ?thesis
    using assms own_ok_cong [OF assms(4-6)] by (simp add: rx_inv_def)
qed

lemma rx_steps_frame [simp]:
  "st_dst (rx_look i s) = st_dst s" "st_dst (rx_pop i s) = st_dst s"
  "k_skbs (rx_look i s) = k_skbs s" "k_skbs (rx_pop i s) = k_skbs s"
  "k_maps (rx_look i s) = k_maps s" "k_maps (rx_pop i s) = k_maps s"
  "k_calls (rx_look i s) = k_calls s" "k_calls (rx_pop i s) = k_calls s"
  "k_held (rx_look i s) = k_held s" "k_held (rx_pop i s) = k_held s"
  "k_dma (rx_look i s) = k_dma s" "k_dma (rx_pop i s) = k_dma s"
  "k_heap (rx_look i s) = k_heap s" "k_heap (rx_pop i s) = k_heap s"
  by (simp_all add: rx_look_def rx_pop_def)

lemma rx_inv_look:
  assumes "rx_inv i s"
  shows "rx_inv i (rx_look i s)"
proof (rule rx_invE [OF assms])
  fix d
  assume v: "rx_ring i s = d" "rx_rid i s = unat (hal_ring_id d)" "soft_ring_ok d s"
    "rx_wired (rx_rid i s) (rx_srid i s) s" "dst_ready (rx_srid i s) s"
  have ne: "rx_rid i s \<noteq> rx_srid i s"
    using v(4) by (simp add: rx_wired_def Let_def)
  show ?thesis
    unfolding rx_look_def
    by (rule rx_inv_dst_frame [OF assms])
      (use v ne in \<open>simp_all add: rx_wired_dst dst_steps_other soft_ring_dst_ops dst_ready_sync
        dst_ready_publish\<close>)
qed

lemma rx_inv_pop:
  assumes "rx_inv i s" "dst_queue (rx_srid i s) s \<noteq> []"
  shows "rx_inv i (rx_pop i s)"
    and "length (dst_queue (rx_srid i s) s) = Suc (length (dst_queue (rx_srid i s) (rx_pop i s)))"
    and "length (src_queue (rx_rid i s) (rx_pop i s)) = length (src_queue (rx_rid i s) s)"
proof -
  obtain d where v: "rx_ring i s = d" "rx_rid i s = unat (hal_ring_id d)" "soft_ring_ok d s"
    "rx_wired (rx_rid i s) (rx_srid i s) s" "dst_ready (rx_srid i s) s"
    using rx_invE [OF assms(1)] by metis
  have ne: "rx_rid i s \<noteq> rx_srid i s"
    using v(4) by (simp add: rx_wired_def Let_def)
  let ?r = "rx_srid i s"
  note sync = dst_ready_sync [OF v(5)]
  have q: "dst_queue ?r (dst_sync ?r s) \<noteq> []"
    using sync(2) assms(2) by simp
  note pop = dst_ready_pop [OF sync(1) q]
  have "length (dst_queue ?r (dst_sync ?r s)) = Suc (length (dst_queue ?r (dst_pop ?r (dst_sync ?r s))))"
    by (subst pop(2)) simp
  then show len: "length (dst_queue ?r s) = Suc (length (dst_queue ?r (rx_pop i s)))"
    using dst_ready_publish(2) [OF pop(1)] sync(2) by (simp add: rx_pop_def)
  show src: "length (src_queue (rx_rid i s) (rx_pop i s)) = length (src_queue (rx_rid i s) s)"
    by (simp add: rx_pop_def dst_steps_other ne)
  have "rx_wired (rx_rid i s) ?r (rx_pop i s)"
    unfolding rx_pop_def by (intro rx_wired_dst v(4) q)
  then show "rx_inv i (rx_pop i s)"
    by (rule rx_inv_dst_frame [OF assms(1)])
      (use v ne len src in \<open>simp_all add: rx_pop_def dst_steps_other soft_ring_dst_ops\<close>)
qed

lemma own_ok_tl: "own_ok s (p # ps) \<Longrightarrow> own_ok s ps"
  by (auto simp: own_ok_def dest!: mset_subset_eq_insertD subset_mset.less_imp_le)

lemma rx_inv_take:
  assumes "rx_inv i s" "length (src_queue (rx_rid i s) s) + length (dst_queue (rx_srid i s) s)
     < length (rx_window (rx_ring i s))"
  shows "rx_inv i (rx_take i s)"
    and "\<exists>p. ring_skb (rx_ring i s) ! unat (sw_index (rx_ring i s)) = Some p \<and>
          rx_bufs (rx_ring i s) = p # rx_bufs (rx_ring i (rx_take i s))"
proof -
  obtain pipe d t where v: "i < length (pipes (st_dst s))" "pipes (st_dst s) ! i = pipe"
    "pipe_dst_ring pipe = Some d" "pipe_status_ring pipe = Some t" "rx_ring i s = d" "rx_sring i s = t"
    "rx_rid i s = unat (hal_ring_id d)" "rx_srid i s = unat (hal_ring_id t)"
    "rx_wired (rx_rid i s) (rx_srid i s) s" "soft_ring_ok d s" "slots_ok d" "own_ok s (rx_bufs d)"
    "length (rx_window d) + unat (rx_buf_needed pipe) + 2 = length (ring_skb d)"
    "unat (write_index d) < length (ring_skb d)"
    using rx_invE [OF assms(1)] by metis
  have ne: "rx_window d \<noteq> []"
    using assms(2) v(5) by auto
  note take = soft_take_window [OF v(10,11,14) ne]
  have ids: "rx_ring i (rx_take i s) = soft_take d" "rx_sring i (rx_take i s) = t"
    using v(1-6) by (simp_all add: rx_ring_def rx_sring_def rx_take_def Let_def)
  then show "\<exists>p. ring_skb (rx_ring i s) ! unat (sw_index (rx_ring i s)) = Some p \<and>
      rx_bufs (rx_ring i s) = p # rx_bufs (rx_ring i (rx_take i s))"
    using take(2) v(5) by simp
  have rids: "rx_rid i (rx_take i s) = rx_rid i s" "rx_srid i (rx_take i s) = rx_srid i s"
    using v(7,8) ids by (simp_all add: rx_rid_def rx_srid_def)
  have rxs: "rx_take i s = set_pipe i (pipe\<lparr>pipe_dst_ring := Some (soft_take d),
      rx_buf_needed := rx_buf_needed pipe + 1\<rparr>) s"
    using v(2,5) by (simp add: rx_take_def rx_ring_def Let_def)
  have own: "own_ok (rx_take i s) (rx_bufs (soft_take d))"
    using v(12) take(2) own_ok_cong [of "rx_take i s" s] own_ok_tl by (auto simp: rxs)
  have len: "length (rx_window d) = Suc (length (rx_window (soft_take d)))"
    by (subst take(1)) simp
  have "length (ring_skb d) < 2 ^ 31"
    using v(7,9,10) by (auto simp: soft_ring_ok_def rx_wired_def Let_def elim!: src_readyE dest: geom_okD)
  then have "unat (rx_buf_needed pipe) + unat (1 :: u32) < 2 ^ 32"
    using v(13) by simp
  then have inc: "unat (rx_buf_needed pipe + 1) = unat (rx_buf_needed pipe) + 1"
    by (subst unat_add_lem [THEN iffD1]) simp_all
  have "unat (pipe_num pipe) = i"
    using assms(1) v(2) by (simp add: rx_inv_def)
  then show "rx_inv i (rx_take i s)"
    unfolding rx_inv_def ids rids
    using v(1-4,9,10,13,5) assms(2) take(3,4) own len inc by (simp add: rxs soft_ring_take)
qed

end
