(* ===== verification/Rx_Service.thy ===== *)
theory Rx_Service
  imports Rx_Ledger "HOL-Library.Sublist"
begin

text \<open>
  The operations of the receive module on a pipe that satisfies the invariant: replenishing,
  reading completions, the bottom half of the interrupt.
\<close>

section \<open>Definitions\<close>

text \<open>The state after a buffer has been allocated, mapped and tagged with its bus address.\<close>

definition rx_new :: "sk_buff \<Rightarrow> u64 \<Rightarrow> 'a wireless_simu_scheme \<Rightarrow> 'a wireless_simu_scheme" where
  "rx_new b paddr s =
     (let b = b\<lparr>skb_cb := (skb_cb b)\<lparr>cb_paddr := paddr\<rparr>\<rparr>
      in s\<lparr>k_skbs := (k_skbs s)(k_calls s \<mapsto> b),
           k_maps := (cb_paddr (skb_cb b), skb_len b + skb_tailroom b) # k_maps s,
           k_calls := Suc (Suc (k_calls s))\<rparr>)"

definition rx_posted :: "nat \<Rightarrow> sk_buff \<Rightarrow> u64 \<Rightarrow> 'a wireless_simu_scheme \<Rightarrow> 'a wireless_simu_scheme" where
  "rx_posted i b paddr s =
     rx_store i (k_calls s) (src_commit (rx_rid i s) (rx_words paddr) (rx_new b paddr s))"

text \<open>What the driver relies on: a buffer from the allocator is empty.\<close>

definition env_empty_skbs :: "kenv \<Rightarrow> bool" where
  "env_empty_skbs env = (\<forall>c n b. env_alloc_skb env c n = Some b \<longrightarrow> skb_empty b)"

text \<open>
  The buffers handed on, with their lengths, as the trace records them, and the mappings that
  belong to no posted buffer. Neither the completion loop nor the replenishing loop may change
  the latter: a mapping is released exactly when its buffer leaves the ring.
\<close>

fun dump_of :: "kevent \<Rightarrow> (skbp \<times> nat) list" where
  "dump_of (EvHexDump p n) = [(p, n)]"
| "dump_of _ = []"

definition dumps :: "'a kernel_scheme \<Rightarrow> (skbp \<times> nat) list" where
  "dumps s = concat (map dump_of (k_trace s))"

definition rx_rest :: "nat \<Rightarrow> 'a wireless_simu_scheme \<Rightarrow> (u64 \<times> nat) multiset" where
  "rx_rest i s = mset (k_maps s) - mset (map (skb_map s) (rx_bufs (rx_ring i s)))"

definition rx_post_outcome :: "kenv \<Rightarrow> nat \<Rightarrow> 'a wireless_simu_scheme \<Rightarrow> int \<Rightarrow> 'a wireless_simu_scheme \<Rightarrow> bool" where
  "rx_post_outcome env i s ret s' =
     (rx_inv i s' \<and> k_held s' = k_held s \<and> rx_rid i s' = rx_rid i s \<and> rx_srid i s' = rx_srid i s \<and>
      pipes_count (st_dst s') = pipes_count (st_dst s) \<and> length (pipes (st_dst s')) = length (pipes (st_dst s)) \<and>
      (\<exists>new. rx_bufs (rx_ring i s') = rx_bufs (rx_ring i s) @ new) \<and>
      rx_rest i s' = rx_rest i s \<and> dumps s' = dumps s \<and>
      (ret = 0 \<and> rx_buf_needed (pipes (st_dst s') ! i) = 0 \<or>
       ret = neg_errno ENOMEM \<and> (\<exists>c n. env_alloc_skb env c n = None) \<or>
       ret = neg_errno EIO \<and> (\<exists>c. env_dma_map env c = None)))"

definition rx_free :: "nat \<Rightarrow> 'a wireless_simu_scheme \<Rightarrow> bool" where
  "rx_free i s = (StDstLock \<notin> set (k_held s) \<and> SrngLock (rx_rid i s) \<notin> set (k_held s) \<and>
     SrngLock (rx_srid i s) \<notin> set (k_held s) \<and> PrintSkbLock \<notin> set (k_held s))"

text \<open>Buffers taken from the ring and queued for delivery.\<close>

definition taken_ok :: "'a kernel_scheme \<Rightarrow> skbp list \<Rightarrow> skbp list \<Rightarrow> bool" where
  "taken_ok s q ps = (distinct (q @ ps) \<and> list_all (\<lambda>p. p < k_calls s \<and> k_skbs s p \<noteq> None) q)"

definition rx_moves :: "nat \<Rightarrow> 'a wireless_simu_scheme \<Rightarrow> skbp list \<Rightarrow> 'a wireless_simu_scheme \<Rightarrow> skbp list \<Rightarrow> bool" where
  "rx_moves i s q s' q' =
     (rx_inv i s' \<and> k_held s' = k_held s \<and> k_calls s' = k_calls s \<and>
      pipes_count (st_dst s') = pipes_count (st_dst s) \<and>
      rx_rid i s' = rx_rid i s \<and> rx_srid i s' = rx_srid i s \<and>
      taken_ok s' q' (rx_bufs (rx_ring i s')) \<and> rx_rest i s' = rx_rest i s \<and> dumps s' = dumps s \<and>
      (\<exists>out new. rx_bufs (rx_ring i s) = out @ rx_bufs (rx_ring i s') \<and> q' = q @ new \<and>
         subseq new out \<and> (\<forall>p\<in>set out - set new. k_skbs s' p = None) \<and>
         (\<forall>p. p \<notin> set out \<longrightarrow> k_skbs s' p = k_skbs s p)))"

text \<open>
  What the completions \<^term>\<open>es\<close> amount to for the posted buffers \<^term>\<open>ps\<close>: the buffers that are long
  enough for the length the device reports are handed on with that length, the others dropped.
\<close>

definition rx_fits :: "'a kernel_scheme \<Rightarrow> skbp \<Rightarrow> u32 list \<Rightarrow> bool" where
  "rx_fits s p e = (unat (hd e) \<le> snd (skb_map s p))"

definition rx_delivery :: "'a kernel_scheme \<Rightarrow> skbp list \<Rightarrow> u32 list list \<Rightarrow> (skbp \<times> nat) list" where
  "rx_delivery s ps es =
     map (\<lambda>(p, e). (p, unat (hd e))) (filter (\<lambda>(p, e). rx_fits s p e) (zip ps es))"

text \<open>What an execution of the bottom half achieves.\<close>

definition rx_serviced :: "nat \<Rightarrow> 'a wireless_simu_scheme \<Rightarrow> 'a wireless_simu_scheme \<Rightarrow> bool" where
  "rx_serviced i s s' =
     (rx_inv i s' \<and> k_held s' = k_held s \<and> rx_rid i s' = rx_rid i s \<and> rx_srid i s' = rx_srid i s \<and>
      pipes_count (st_dst s') = pipes_count (st_dst s) \<and> rx_rest i s' = rx_rest i s \<and>
      (rx_buf_needed (pipes (st_dst s') ! i) = 0 \<or> (\<exists>j. last (k_trace s') = EvModTimer j)) \<and>
      (\<exists>out kept new. rx_bufs (rx_ring i s) = out @ kept \<and> rx_bufs (rx_ring i s') = kept @ new \<and>
         (\<forall>p\<in>set out. k_skbs s' p = None)))"

section \<open>Lemmas\<close>

lemma rx_ring_frame [simp]:
  "rx_ring i (s\<lparr>k_skbs := b\<rparr>) = rx_ring i s" "rx_ring i (s\<lparr>k_maps := m\<rparr>) = rx_ring i s"
  "rx_ring i (s\<lparr>k_calls := c\<rparr>) = rx_ring i s" "rx_ring i (s\<lparr>k_held := h\<rparr>) = rx_ring i s"
  "rx_ring i (s\<lparr>k_trace := t\<rparr>) = rx_ring i s" "rx_ring i (emit e s) = rx_ring i s"
  "rx_ring i (s\<lparr>k_mem := mm\<rparr>) = rx_ring i s"
  "rx_sring i (s\<lparr>k_skbs := b\<rparr>) = rx_sring i s" "rx_sring i (s\<lparr>k_maps := m\<rparr>) = rx_sring i s"
  "rx_sring i (s\<lparr>k_calls := c\<rparr>) = rx_sring i s" "rx_sring i (s\<lparr>k_held := h\<rparr>) = rx_sring i s"
  "rx_sring i (s\<lparr>k_trace := t\<rparr>) = rx_sring i s" "rx_sring i (emit e s) = rx_sring i s"
  "rx_sring i (s\<lparr>k_mem := mm\<rparr>) = rx_sring i s"
  by (simp_all add: rx_ring_def rx_sring_def)

lemma rx_rid_frame [simp]:
  "rx_rid i (s\<lparr>k_skbs := b\<rparr>) = rx_rid i s" "rx_rid i (s\<lparr>k_maps := m\<rparr>) = rx_rid i s"
  "rx_rid i (s\<lparr>k_calls := c\<rparr>) = rx_rid i s" "rx_rid i (s\<lparr>k_held := h\<rparr>) = rx_rid i s"
  "rx_rid i (s\<lparr>k_trace := t\<rparr>) = rx_rid i s" "rx_rid i (emit e s) = rx_rid i s"
  "rx_rid i (s\<lparr>k_mem := mm\<rparr>) = rx_rid i s"
  "rx_srid i (s\<lparr>k_skbs := b\<rparr>) = rx_srid i s" "rx_srid i (s\<lparr>k_maps := m\<rparr>) = rx_srid i s"
  "rx_srid i (s\<lparr>k_calls := c\<rparr>) = rx_srid i s" "rx_srid i (s\<lparr>k_held := h\<rparr>) = rx_srid i s"
  "rx_srid i (s\<lparr>k_trace := t\<rparr>) = rx_srid i s" "rx_srid i (emit e s) = rx_srid i s"
  "rx_srid i (s\<lparr>k_mem := mm\<rparr>) = rx_srid i s"
  by (simp_all add: rx_rid_def rx_srid_def)

lemma soft_ring_frame [simp]:
  "soft_ring_ok d (s\<lparr>k_skbs := b\<rparr>) = soft_ring_ok d s" "soft_ring_ok d (s\<lparr>k_maps := m\<rparr>) = soft_ring_ok d s"
  "soft_ring_ok d (s\<lparr>k_calls := c\<rparr>) = soft_ring_ok d s" "soft_ring_ok d (s\<lparr>k_held := h\<rparr>) = soft_ring_ok d s"
  "soft_ring_ok d (s\<lparr>k_trace := t\<rparr>) = soft_ring_ok d s" "soft_ring_ok d (emit e s) = soft_ring_ok d s"
  "soft_ring_ok d (s\<lparr>k_mem := mm\<rparr>) = soft_ring_ok d s"
  by (simp_all add: soft_ring_ok_def)

lemma own_ok_frame [simp]:
  "own_ok (s\<lparr>k_held := h\<rparr>) ps = own_ok s ps" "own_ok (s\<lparr>k_trace := t\<rparr>) ps = own_ok s ps"
  "own_ok (emit e s) ps = own_ok s ps" "own_ok (s\<lparr>k_mem := mm\<rparr>) ps = own_ok s ps"
  by (rule own_ok_cong; simp)+

lemma rx_inv_frame [simp]:
  "rx_inv i (s\<lparr>k_held := h\<rparr>) = rx_inv i s" "rx_inv i (emit e s) = rx_inv i s"
  "rx_inv i (s\<lparr>k_trace := t\<rparr>) = rx_inv i s"
  by (simp_all add: rx_inv_def)

lemma rx_inv_kernel:
  assumes "rx_inv i s" "own_ok (s\<lparr>k_skbs := b, k_maps := m, k_calls := c\<rparr>) (rx_bufs (rx_ring i s))"
  shows "rx_inv i (s\<lparr>k_skbs := b, k_maps := m, k_calls := c\<rparr>)"
  using assms by (simp add: rx_inv_def)

lemma own_ok_calls:
  "own_ok s ps \<Longrightarrow> k_calls s \<le> c \<Longrightarrow> own_ok (s\<lparr>k_calls := c\<rparr>) ps"
proof -
  assume a: "own_ok s ps" "k_calls s \<le> c"
  have "skb_map (s\<lparr>k_calls := c\<rparr>) = skb_map s"
    by (simp add: fun_eq_iff skb_map_def)
  with a show ?thesis
    by (auto simp: own_ok_def list_all_iff dest: less_le_trans)
qed

lemma own_ok_fresh:
  assumes "own_ok s ps"
  shows "own_ok (s\<lparr>k_skbs := (k_skbs s)(k_calls s \<mapsto> b), k_maps := m @ k_maps s,
    k_calls := Suc (k_calls s) + k\<rparr>) ps"
proof -
  let ?s = "s\<lparr>k_skbs := (k_skbs s)(k_calls s \<mapsto> b), k_maps := m @ k_maps s, k_calls := Suc (k_calls s) + k\<rparr>"
  have lt: "p < k_calls s" if "p \<in> set ps" for p
    using assms that by (auto simp: own_ok_def list_all_iff)
  then have same: "map (skb_map ?s) ps = map (skb_map s) ps"
    by (intro map_cong refl) (auto simp: skb_map_def)
  have "mset (map (skb_map s) ps) \<subseteq># mset (m @ k_maps s)"
    using assms by (auto simp: own_ok_def intro: subset_mset.order_trans)
  moreover have "list_all (\<lambda>p. p < k_calls ?s \<and>
      (case k_skbs ?s p of None \<Rightarrow> False | Some b \<Rightarrow> skb_empty b)) ps"
    using assms lt by (fastforce simp: own_ok_def list_all_iff)
  ultimately show ?thesis
    using assms unfolding own_ok_def same by simp
qed

lemma skb_map_cong: "k_skbs s' = k_skbs s \<Longrightarrow> skb_map s' = skb_map s"
  by (simp add: fun_eq_iff skb_map_def)

lemma skb_map_other:
  assumes "p \<notin> set ps" "k_skbs s' = (k_skbs s)(p := x)"
  shows "image_mset (skb_map s') (mset ps) = image_mset (skb_map s) (mset ps)"
  using assms by (intro image_mset_cong) (auto simp: skb_map_def)

lemma rx_rest_cong:
  assumes "k_maps s' = k_maps s" "rx_ring i s' = rx_ring i s" "k_skbs s' = k_skbs s"
  shows "rx_rest i s' = rx_rest i s"
  using assms skb_map_cong [OF assms(3)] by (simp add: rx_rest_def)

lemma rx_rest_frame [simp]:
  "rx_rest i (s\<lparr>k_calls := c\<rparr>) = rx_rest i s" "rx_rest i (s\<lparr>k_held := h\<rparr>) = rx_rest i s"
  "rx_rest i (s\<lparr>k_trace := t\<rparr>) = rx_rest i s" "rx_rest i (s\<lparr>k_mem := m\<rparr>) = rx_rest i s"
  "rx_rest i (emit e s) = rx_rest i s" "rx_rest i (tick s) = rx_rest i s"
  by (rule rx_rest_cong; simp add: tick_def)+

lemma dumps_frame [simp]:
  "dumps (s\<lparr>k_calls := c\<rparr>) = dumps s" "dumps (s\<lparr>k_held := h\<rparr>) = dumps s"
  "dumps (s\<lparr>k_skbs := b\<rparr>) = dumps s" "dumps (s\<lparr>k_mem := m\<rparr>) = dumps s"
  "dumps (s\<lparr>k_maps := d\<rparr>) = dumps s" "dumps (emit e s) = dumps s @ dump_of e"
  "dumps (set_srng r g w) = dumps w" "dumps (set_pipe i p w) = dumps w"
  by (simp_all add: dumps_def emit_def set_srng_def)

lemma dumps_rings [simp]:
  "dumps (src_commit r ws s) = dumps s" "dumps (rx_pop i s) = dumps s" "dumps (rx_look i s) = dumps s"
  "dumps (rx_take i s) = dumps s" "dumps (rx_store i p s) = dumps s" "dumps (rx_new b pa s) = dumps s"
  by (simp_all add: src_commit_def src_publish_def src_push_def src_advance_def src_sync_def rx_pop_def
      rx_look_def dst_publish_def dst_pop_def dst_sync_def rx_take_def rx_store_def rx_new_def Let_def)

text \<open>The mappings that belong to nobody in the ring, as a buffer enters it or leaves it.\<close>

lemma rx_rest_release:
  assumes "rx_bufs (rx_ring i s) = p # rx_bufs (rx_ring i s')" "p \<notin> set (rx_bufs (rx_ring i s'))"
    "k_maps s' = remove1 (skb_map s p) (k_maps s)" "k_skbs s' = (k_skbs s)(p := x)"
  shows "rx_rest i s' = rx_rest i s"
  using assms(1,3) by (simp add: rx_rest_def skb_map_other [OF assms(2,4)])

lemma rx_rest_enter:
  assumes "rx_bufs (rx_ring i s') = rx_bufs (rx_ring i s) @ [p]" "p \<notin> set (rx_bufs (rx_ring i s))"
    "k_maps s' = skb_map s' p # k_maps s" "k_skbs s' = (k_skbs s)(p := x)"
  shows "rx_rest i s' = rx_rest i s"
  using assms(1,3) by (simp add: rx_rest_def skb_map_other [OF assms(2,4)])

lemma rx_rest_other:
  assumes "rx_ring i s' = rx_ring i s" "p \<notin> set (rx_bufs (rx_ring i s))"
    "k_maps s' = k_maps s" "k_skbs s' = (k_skbs s)(p := x)"
  shows "rx_rest i s' = rx_rest i s"
  using assms(1,3) by (simp add: rx_rest_def skb_map_other [OF assms(2,4)])

text \<open>A buffer that has just been allocated and mapped is owned besides the others.\<close>

lemma own_ok_new:
  assumes "own_ok s ps" "skb_empty b"
  shows "own_ok (s\<lparr>k_skbs := (k_skbs s)(k_calls s \<mapsto> b),
      k_maps := (cb_paddr (skb_cb b), skb_len b + skb_tailroom b) # k_maps s,
      k_calls := Suc (Suc (k_calls s))\<rparr>) (ps @ [k_calls s])"
proof -
  let ?x = "(cb_paddr (skb_cb b), skb_len b + skb_tailroom b)"
  let ?s = "s\<lparr>k_skbs := (k_skbs s)(k_calls s \<mapsto> b), k_maps := ?x # k_maps s, k_calls := Suc (Suc (k_calls s))\<rparr>"
  have new: "k_calls s \<notin> set ps"
    using assms by (auto simp: own_ok_def list_all_iff)
  have same: "map (skb_map ?s) ps = map (skb_map s) ps"
    using new by (intro map_cong refl) (auto simp: skb_map_def)
  have "skb_map ?s (k_calls s) = ?x"
    by (simp add: skb_map_def)
  moreover have "own_ok ?s ps"
    using own_ok_fresh [OF assms(1), where b = b and m = "[?x]" and k = 1] by simp
  ultimately show ?thesis
    using assms new unfolding own_ok_def map_append same by (simp add: own_ok_def)
qed

declare dst_post_loop.simps [simp del]

lemma rx_new_frame [simp]:
  "rx_ring i (rx_new b pa s) = rx_ring i s" "rx_rid i (rx_new b pa s) = rx_rid i s"
  "rx_srid i (rx_new b pa s) = rx_srid i s" "st_dst (rx_new b pa s) = st_dst s"
  "k_held (rx_new b pa s) = k_held s" "src_queue r (rx_new b pa s) = src_queue r s"
  "hal (rx_new b pa s) = hal s" "src_ready r (rx_new b pa s) = src_ready r s"
  "soft_ring_ok d (rx_new b pa s) = soft_ring_ok d s"
  "src_capacity r (rx_new b pa s) = src_capacity r s"
  by (simp_all add: rx_new_def Let_def src_capacity_def)

lemma rx_inv_new:
  assumes "rx_inv i s"
  shows "rx_inv i (rx_new b pa s)"
    and "skb_empty b \<Longrightarrow> own_ok (rx_new b pa s) (rx_bufs (rx_ring i s) @ [k_calls s])"
proof -
  let ?b = "b\<lparr>skb_cb := (skb_cb b)\<lparr>cb_paddr := pa\<rparr>\<rparr>"
  have own: "own_ok s (rx_bufs (rx_ring i s))"
    using assms by (simp add: rx_inv_def)
  show "skb_empty b \<Longrightarrow> own_ok (rx_new b pa s) (rx_bufs (rx_ring i s) @ [k_calls s])"
    using own_ok_new [OF own, of ?b] by (simp add: rx_new_def Let_def skb_len_def)
  show "rx_inv i (rx_new b pa s)"
    using rx_inv_kernel [OF assms, OF own_ok_fresh [OF own, where k = 1 and b = ?b
          and m = "[(cb_paddr (skb_cb ?b), skb_len ?b + skb_tailroom ?b)]"]]
    by (simp add: rx_new_def Let_def)
qed

lemma rx_inv_posted:
  assumes "rx_inv i s" "rx_buf_needed (pipes (st_dst s) ! i) \<noteq> 0" "skb_empty b"
  shows "rx_inv i (rx_posted i b pa s)"
    and "rx_bufs (rx_ring i (rx_posted i b pa s)) = rx_bufs (rx_ring i s) @ [k_calls s]"
  using rx_inv_post(1,3) [OF rx_inv_new(1) [OF assms(1), of b pa], of "k_calls s" pa]
    rx_inv_new(2) [OF assms(1,3)] assms(2) by (simp_all add: rx_posted_def)

lemma rx_store_frame [simp]:
  "k_held (rx_store i p s) = k_held s" "k_calls (rx_store i p s) = k_calls s"
  "k_skbs (rx_store i p s) = k_skbs s" "k_maps (rx_store i p s) = k_maps s"
  "length (pipes (st_dst (rx_store i p s))) = length (pipes (st_dst s))"
  "pipes_count (st_dst (rx_store i p s)) = pipes_count (st_dst s)"
  by (simp_all add: rx_store_def Let_def)

lemma rx_store_ids:
  assumes "i < length (pipes (st_dst s))"
  shows "rx_ring i (rx_store i p s) = soft_put p (rx_ring i s)" "rx_rid i (rx_store i p s) = rx_rid i s"
    "rx_srid i (rx_store i p s) = rx_srid i s"
    "rx_buf_needed (pipes (st_dst (rx_store i p s)) ! i) = rx_buf_needed (pipes (st_dst s) ! i) - 1"
  using assms by (simp_all add: rx_store_def rx_ring_def rx_rid_def rx_srid_def rx_sring_def Let_def)

lemma rx_commit_ids [simp]:
  "rx_ring i (src_commit r ws s) = rx_ring i s" "rx_rid i (src_commit r ws s) = rx_rid i s"
  "rx_srid i (src_commit r ws s) = rx_srid i s"
  by (simp_all add: rx_ring_def rx_rid_def rx_srid_def rx_sring_def)

lemma rx_posted_frame:
  assumes "i < length (pipes (st_dst s))"
  shows "k_held (rx_posted i b pa s) = k_held s" "rx_rid i (rx_posted i b pa s) = rx_rid i s"
    "rx_srid i (rx_posted i b pa s) = rx_srid i s"
    "length (pipes (st_dst (rx_posted i b pa s))) = length (pipes (st_dst s))"
    "pipes_count (st_dst (rx_posted i b pa s)) = pipes_count (st_dst s)"
    "rx_buf_needed (pipes (st_dst (rx_posted i b pa s)) ! i) = rx_buf_needed (pipes (st_dst s) ! i) - 1"
  using assms by (simp_all add: rx_posted_def rx_store_ids)

lemma rx_inv_post_ready:
  assumes "rx_inv i s" "StDstLock \<in> set (k_held s)" "SrngLock (rx_rid i s) \<notin> set (k_held s)"
  shows "rx_post_ready i s"
  by (rule rx_invE [OF assms(1)])
    (use assms(2,3) in \<open>simp add: rx_post_ready_def rx_wired_def Let_def\<close>)

lemma rx_rest_posted:
  assumes "rx_inv i s" "rx_buf_needed (pipes (st_dst s) ! i) \<noteq> 0" "skb_empty b"
  shows "rx_rest i (rx_posted i b pa s) = rx_rest i s" and "dumps (rx_posted i b pa s) = dumps s"
proof -
  let ?b = "b\<lparr>skb_cb := (skb_cb b)\<lparr>cb_paddr := pa\<rparr>\<rparr>" and ?s = "rx_posted i b pa s"
  have new: "k_calls s \<notin> set (rx_bufs (rx_ring i s))"
    using assms(1) by (auto simp: rx_inv_def own_ok_def list_all_iff)
  have sk: "k_skbs ?s = (k_skbs s)(k_calls s := Some ?b)"
    and mp: "k_maps ?s = (pa, skb_len ?b + skb_tailroom ?b) # k_maps s"
    by (simp_all add: rx_posted_def rx_new_def Let_def)
  have "skb_map ?s (k_calls s) = (pa, skb_len ?b + skb_tailroom ?b)"
    by (simp add: skb_map_def sk Let_def)
  then show "rx_rest i ?s = rx_rest i s"
    using rx_rest_enter [OF rx_inv_posted(2) [OF assms] new _ sk] mp by simp
  show "dumps ?s = dumps s"
    by (simp add: rx_posted_def)
qed

lemma dst_post_loop_step:
  assumes "rx_inv i s" "StDstLock \<in> set (k_held s)" "SrngLock (rx_rid i s) \<notin> set (k_held s)"
    "rx_buf_needed (pipes (st_dst s) ! i) \<noteq> 0"
    "env_alloc_skb env (k_calls s) (unat (buf_sz (pipes (st_dst s) ! i))) = Some b"
    "env_dma_map env (Suc (k_calls s)) = Some pa" "skb_empty b"
  shows "dst_post_loop (Suc k) env i s = dst_post_loop k env i (rx_posted i b pa s)"
proof -
  let ?s = "rx_new b pa s"
  note new = rx_inv_new [OF assms(1), of b pa]
  have rdy: "rx_post_ready i ?s"
    using rx_inv_post_ready [OF new(1)] assms(2,3) by simp
  have room: "length (src_queue (rx_rid i ?s) ?s) < src_capacity (rx_rid i ?s) ?s"
    using rx_inv_post(2) [OF new(1), of "k_calls s"] new(2) [OF assms(7)] assms(4) by simp
  have "k_skbs ?s (k_calls s) = Some (b\<lparr>skb_cb := (skb_cb b)\<lparr>cb_paddr := pa\<rparr>\<rparr>)"
    by (simp add: rx_new_def Let_def)
  from enqueue_room [OF rdy this room, of pa]
  have enq: "wireless_simu_test_dst_enqueue_pipe i (k_calls s) pa ?s = Some (0, rx_posted i b pa s)"
    by (simp add: rx_posted_def)
  have s: "skb_set (k_calls s) (b\<lparr>skb_cb := (skb_cb b)\<lparr>cb_paddr := pa\<rparr>\<rparr>)
      (tick (tick s\<lparr>k_skbs := (k_skbs s)(k_calls s \<mapsto> b)\<rparr>)\<lparr>k_maps := (pa, skb_len b + skb_tailroom b) # k_maps s\<rparr>)
      = ?s"
    by (simp add: skb_set_def tick_def rx_new_def Let_def skb_len_def skb_tailroom_def)
  have i: "i < length (pipes (st_dst s))"
    using assms(1) by (simp add: rx_inv_def)
  show ?thesis
    by (subst dst_post_loop.simps)
      (use assms(4-6) i enq s in \<open>simp add: get_pipe_def nth_opt_def dev_alloc_skb_def skb_get_def
        dma_map_single_def tick_def Let_def\<close>)
qed

lemma dst_post_loop_stop:
  assumes "rx_inv i s"
  shows "rx_buf_needed (pipes (st_dst s) ! i) = 0 \<Longrightarrow> dst_post_loop k env i s = Some (0, s)"
    and "rx_buf_needed (pipes (st_dst s) ! i) \<noteq> 0 \<Longrightarrow>
      env_alloc_skb env (k_calls s) (unat (buf_sz (pipes (st_dst s) ! i))) = None \<Longrightarrow>
      dst_post_loop (Suc k) env i s = Some (neg_errno ENOMEM, tick s)"
    and "rx_buf_needed (pipes (st_dst s) ! i) \<noteq> 0 \<Longrightarrow>
      env_alloc_skb env (k_calls s) (unat (buf_sz (pipes (st_dst s) ! i))) = Some b \<Longrightarrow>
      env_dma_map env (Suc (k_calls s)) = None \<Longrightarrow>
      dst_post_loop (Suc k) env i s = Some (neg_errno EIO,
        s\<lparr>k_skbs := (k_skbs s)(k_calls s \<mapsto> b), k_calls := Suc (Suc (k_calls s))\<rparr>)"
proof -
  have i: "i < length (pipes (st_dst s))"
    using assms by (simp add: rx_inv_def)
  then show "rx_buf_needed (pipes (st_dst s) ! i) = 0 \<Longrightarrow> dst_post_loop k env i s = Some (0, s)"
    by (subst dst_post_loop.simps) (simp add: get_pipe_def nth_opt_def)
  show "rx_buf_needed (pipes (st_dst s) ! i) \<noteq> 0 \<Longrightarrow>
      env_alloc_skb env (k_calls s) (unat (buf_sz (pipes (st_dst s) ! i))) = None \<Longrightarrow>
      dst_post_loop (Suc k) env i s = Some (neg_errno ENOMEM, tick s)"
    using i by (subst dst_post_loop.simps) (simp add: get_pipe_def nth_opt_def dev_alloc_skb_def)
  show "rx_buf_needed (pipes (st_dst s) ! i) \<noteq> 0 \<Longrightarrow>
      env_alloc_skb env (k_calls s) (unat (buf_sz (pipes (st_dst s) ! i))) = Some b \<Longrightarrow>
      env_dma_map env (Suc (k_calls s)) = None \<Longrightarrow>
      dst_post_loop (Suc k) env i s = Some (neg_errno EIO,
        s\<lparr>k_skbs := (k_skbs s)(k_calls s \<mapsto> b), k_calls := Suc (Suc (k_calls s))\<rparr>)"
    using i by (subst dst_post_loop.simps)
      (simp add: get_pipe_def nth_opt_def dev_alloc_skb_def skb_get_def dma_map_single_def tick_def)
qed

text \<open>
  The replenishing loop. It needs no more iterations than there are buffers missing; it ends with
  none missing, or at the first allocation or mapping that fails, and never because the ring is
  full.
\<close>

lemma dst_post_loop_ok:
  assumes "rx_inv i s" "StDstLock \<in> set (k_held s)" "SrngLock (rx_rid i s) \<notin> set (k_held s)"
    "unat (rx_buf_needed (pipes (st_dst s) ! i)) \<le> k" "env_empty_skbs env"
  shows "\<exists>ret s'. dst_post_loop k env i s = Some (ret, s') \<and> rx_post_outcome env i s ret s'"
  using assms
proof (induction k arbitrary: s)
  case 0
  then show ?case
    using dst_post_loop_stop(1) [OF 0(1)] by (simp add: unat_eq_0 rx_post_outcome_def)
next
  case (Suc k)
  let ?n = "rx_buf_needed (pipes (st_dst s) ! i)"
  have i: "i < length (pipes (st_dst s))" and own: "own_ok s (rx_bufs (rx_ring i s))"
    using Suc.prems(1) by (simp_all add: rx_inv_def)
  consider "?n = 0"
    | "?n \<noteq> 0" "env_alloc_skb env (k_calls s) (unat (buf_sz (pipes (st_dst s) ! i))) = None"
    | b where "?n \<noteq> 0" "env_alloc_skb env (k_calls s) (unat (buf_sz (pipes (st_dst s) ! i))) = Some b"
      "env_dma_map env (Suc (k_calls s)) = None"
    | b pa where "?n \<noteq> 0" "env_alloc_skb env (k_calls s) (unat (buf_sz (pipes (st_dst s) ! i))) = Some b"
      "env_dma_map env (Suc (k_calls s)) = Some pa"
    by blast
  then show ?case
  proof cases
    case 1
    then show ?thesis
      using dst_post_loop_stop(1) [OF Suc.prems(1)] Suc.prems(1) by (simp add: rx_post_outcome_def)
  next
    case 2
    have "rx_inv i (tick s)"
      using rx_inv_kernel [OF Suc.prems(1), where b = "k_skbs s" and m = "k_maps s" and c = "Suc (k_calls s)"]
        own_ok_calls [OF own, of "Suc (k_calls s)"] by (simp add: tick_def)
    then show ?thesis
      using dst_post_loop_stop(2) [OF Suc.prems(1) 2] 2(2)
      by (auto simp: rx_post_outcome_def tick_def)
  next
    case (3 b)
    let ?s = "s\<lparr>k_skbs := (k_skbs s)(k_calls s \<mapsto> b), k_calls := Suc (Suc (k_calls s))\<rparr>"
    have "rx_inv i ?s"
      using rx_inv_kernel [OF Suc.prems(1), OF own_ok_fresh [OF own, where b = b and m = "[]" and k = 1]]
      by simp
    moreover have "rx_rest i ?s = rx_rest i s"
      using own by (intro rx_rest_other [where p = "k_calls s"]) (auto simp: own_ok_def list_all_iff)
    ultimately show ?thesis
      using dst_post_loop_stop(3) [OF Suc.prems(1) 3] 3(3)
      by (auto simp: rx_post_outcome_def)
  next
    case (4 b pa)
    let ?s = "rx_posted i b pa s"
    have b: "skb_empty b"
      using Suc.prems(5) 4(2) unfolding env_empty_skbs_def by blast
    note fr = rx_posted_frame [OF i, of b pa] and inv = rx_inv_posted [OF Suc.prems(1) 4(1) b, of pa]
    have "unat (?n - 1) = unat ?n - 1"
      using 4(1) by (simp add: unat_sub word_le_nat_alt Suc_leI unat_gt_0)
    then have "unat (rx_buf_needed (pipes (st_dst ?s) ! i)) \<le> k"
      using Suc.prems(4) fr(6) by simp
    from Suc.IH [OF inv(1) _ _ this Suc.prems(5)] obtain ret s' where
      "dst_post_loop k env i ?s = Some (ret, s')" "rx_post_outcome env i ?s ret s'"
      using Suc.prems(2,3) fr by auto
    then show ?thesis
      using dst_post_loop_step [OF Suc.prems(1-3) 4 b] fr inv(2) rx_rest_posted [OF Suc.prems(1) 4(1) b]
      by (auto simp: rx_post_outcome_def)
  qed
qed

lemma post_pipe_ok:
  assumes "rx_inv i s" "StDstLock \<notin> set (k_held s)" "SrngLock (rx_rid i s) \<notin> set (k_held s)"
    "env_empty_skbs env"
  shows "\<exists>ret s'. wireless_simu_test_dst_post_pipe env i s = Some (ret, s') \<and> rx_post_outcome env i s ret s'"
proof (rule rx_invE [OF assms(1)])
  fix pipe d t
  assume v: "i < length (pipes (st_dst s))" "pipes (st_dst s) ! i = pipe" "pipe_dst_ring pipe = Some d"
    "pipe_status_ring pipe = Some t"
  let ?s = "s\<lparr>k_held := StDstLock # k_held s\<rparr>"
  obtain ret s' where r: "dst_post_loop (unat (rx_buf_needed pipe)) env i ?s = Some (ret, s')"
    "rx_post_outcome env i ?s ret s'"
    using dst_post_loop_ok [of i ?s "unat (rx_buf_needed pipe)" env] assms v by auto
  then have "rx_post_outcome env i s ret (s'\<lparr>k_held := k_held s\<rparr>)"
    by (auto simp: rx_post_outcome_def)
  moreover have "wireless_simu_test_dst_post_pipe env i s = Some (ret, s'\<lparr>k_held := k_held s\<rparr>)"
    using v r assms(2)
    by (simp add: wireless_simu_test_dst_post_pipe_def get_pipe_def nth_opt_def spin_lock_def
        spin_unlock_def rx_post_outcome_def)
  ultimately show ?thesis by blast
qed

lemma rx_inv_recv_ready:
  assumes "rx_inv i s" "rx_free i s"
  shows "rx_recv_ready i s"
  using assms by (auto simp: rx_inv_def rx_free_def rx_recv_ready_def rx_wired_def slots_ok_def Let_def)

lemma rx_take_frame [simp]:
  "k_held (rx_take i s) = k_held s" "k_calls (rx_take i s) = k_calls s"
  "k_skbs (rx_take i s) = k_skbs s" "k_maps (rx_take i s) = k_maps s"
  "length (pipes (st_dst (rx_take i s))) = length (pipes (st_dst s))"
  "pipes_count (st_dst (rx_take i s)) = pipes_count (st_dst s)"
  by (simp_all add: rx_take_def Let_def)

lemma rx_take_ids:
  assumes "i < length (pipes (st_dst s))"
  shows "rx_rid i (rx_take i s) = rx_rid i s" "rx_srid i (rx_take i s) = rx_srid i s"
  using assms by (simp_all add: rx_take_def rx_ring_def rx_rid_def rx_srid_def rx_sring_def Let_def)

lemma rx_pop_ids [simp]:
  "rx_ring i (rx_pop j s) = rx_ring i s" "rx_rid i (rx_pop j s) = rx_rid i s"
  "rx_srid i (rx_pop j s) = rx_srid i s" "rx_ring i (rx_look j s) = rx_ring i s"
  "rx_rid i (rx_look j s) = rx_rid i s" "rx_srid i (rx_look j s) = rx_srid i s"
  by (simp_all add: rx_ring_def rx_rid_def rx_srid_def rx_sring_def)

text \<open>A completion with a length yields the oldest posted buffer.\<close>

lemma recv_next_buffer:
  assumes "rx_inv i s" "rx_free i s" "dst_queue (rx_srid i s) s \<noteq> []" "rx_len i s \<noteq> 0"
  obtains p where
    "wireless_simu_test_dst_recv_next i s = Some (0, Some p, rx_len i s, rx_take i (rx_pop i s))"
    "rx_inv i (rx_take i (rx_pop i s))"
    "rx_bufs (rx_ring i s) = p # rx_bufs (rx_ring i (rx_take i (rx_pop i s)))"
proof -
  note pop = rx_inv_pop [OF assms(1,3)]
  have "length (src_queue (rx_rid i s) s) + length (dst_queue (rx_srid i s) s)
      \<le> length (rx_window (rx_ring i s))"
    using assms(1) by (simp add: rx_inv_def)
  then have "length (src_queue (rx_rid i (rx_pop i s)) (rx_pop i s))
      + length (dst_queue (rx_srid i (rx_pop i s)) (rx_pop i s)) < length (rx_window (rx_ring i (rx_pop i s)))"
    using pop(2,3) by simp
  note take = rx_inv_take [OF pop(1) this]
  then obtain p where p: "ring_skb (rx_ring i s) ! unat (sw_index (rx_ring i s)) = Some p"
    "rx_bufs (rx_ring i s) = p # rx_bufs (rx_ring i (rx_take i (rx_pop i s)))"
    by auto
  then show ?thesis
    using that recv_next_eq [OF rx_inv_recv_ready [OF assms(1,2)]] assms(3,4) take(1)
    by (simp add: rx_pop_def)
qed

lemma recv_next_none:
  assumes "rx_inv i s" "rx_free i s" "dst_queue (rx_srid i s) s = [] \<or> rx_len i s = 0"
  obtains s' where "wireless_simu_test_dst_recv_next i s = Some (neg_errno EIO, None, 0, s')"
    "rx_inv i s'" "st_dst s' = st_dst s" "k_skbs s' = k_skbs s" "k_maps s' = k_maps s"
    "k_calls s' = k_calls s" "k_held s' = k_held s" "dumps s' = dumps s"
proof (cases "dst_queue (rx_srid i s) s = []")
  case True
  then show ?thesis
    using that [of "rx_look i s"] recv_next_eq [OF rx_inv_recv_ready [OF assms(1,2)]]
      rx_inv_look [OF assms(1)] by (simp add: rx_look_def [symmetric])
next
  case False
  then show ?thesis
    using that [of "rx_pop i s"] recv_next_eq [OF rx_inv_recv_ready [OF assms(1,2)]] assms(3)
      rx_inv_pop(1) [OF assms(1) False] by (simp add: rx_pop_def [symmetric])
qed

text \<open>Releasing the mapping of a taken buffer, filling it or dropping it.\<close>

lemma own_ok_unmap:
  assumes "own_ok s (p # ps)"
  shows "skb_map s p \<in> set (k_maps s)" and "own_ok (s\<lparr>k_maps := remove1 (skb_map s p) (k_maps s)\<rparr>) ps"
proof -
  have sub: "add_mset (skb_map s p) (mset (map (skb_map s) ps)) \<subseteq># mset (k_maps s)"
    using assms by (simp add: own_ok_def)
  then show "skb_map s p \<in> set (k_maps s)"
    by (metis mset_subset_eq_insertD set_mset_mset)
  have "mset (map (skb_map s) ps) \<subseteq># mset (remove1 (skb_map s p) (k_maps s))"
    using sub by (simp add: insert_subset_eq_iff)
  moreover have "skb_map (s\<lparr>k_maps := m\<rparr>) = skb_map s" for m
    by (simp add: fun_eq_iff skb_map_def)
  ultimately show "own_ok (s\<lparr>k_maps := remove1 (skb_map s p) (k_maps s)\<rparr>) ps"
    using assms by (simp add: own_ok_def)
qed

lemma own_ok_other_skb:
  assumes "own_ok s ps" "p \<notin> set ps"
  shows "own_ok (s\<lparr>k_skbs := (k_skbs s)(p := x)\<rparr>) ps"
proof -
  have same: "map (skb_map (s\<lparr>k_skbs := (k_skbs s)(p := x)\<rparr>)) ps = map (skb_map s) ps"
    using assms(2) by (intro map_cong refl) (auto simp: skb_map_def)
  have "list_all (\<lambda>y. y < k_calls s \<and>
      (case ((k_skbs s)(p := x)) y of None \<Rightarrow> False | Some b \<Rightarrow> skb_empty b)) ps"
    using assms by (auto simp: own_ok_def list_all_iff)
  with assms(1) show ?thesis
    unfolding own_ok_def same by simp
qed

lemma rx_inv_release:
  assumes "rx_inv i s" "own_ok s (p # rx_bufs (rx_ring i s))"
  shows "rx_inv i (s\<lparr>k_maps := remove1 (skb_map s p) (k_maps s), k_skbs := (k_skbs s)(p := x)\<rparr>)"
proof -
  let ?s = "s\<lparr>k_maps := remove1 (skb_map s p) (k_maps s)\<rparr>"
  have "p \<notin> set (rx_bufs (rx_ring i s))"
    using assms(2) by (simp add: own_ok_def)
  then have "own_ok (?s\<lparr>k_skbs := (k_skbs ?s)(p := x)\<rparr>) (rx_bufs (rx_ring i s))"
    using own_ok_other_skb [OF own_ok_unmap(2) [OF assms(2)]] by blast
  then show ?thesis
    using assms(1) by (simp add: rx_inv_def)
qed

lemma taken_ok_drop:
  assumes "taken_ok s q (p # ps)"
  shows "taken_ok (s\<lparr>k_skbs := (k_skbs s)(p := x)\<rparr>) q ps"
  using assms by (auto simp: taken_ok_def list_all_iff)

lemma taken_ok_add:
  assumes "taken_ok s q (p # ps)" "p < k_calls s"
  shows "taken_ok (s\<lparr>k_skbs := (k_skbs s)(p \<mapsto> x)\<rparr>) (q @ [p]) ps"
  using assms by (auto simp: taken_ok_def list_all_iff)

lemma taken_ok_cong:
  "k_skbs s' = k_skbs s \<Longrightarrow> k_calls s' = k_calls s \<Longrightarrow> taken_ok s' q ps = taken_ok s q ps"
  by (simp add: taken_ok_def)

lemma rx_pop_queue:
  assumes "rx_inv i s" "dst_queue (rx_srid i s) s \<noteq> []"
  shows "dst_queue (rx_srid i s) (rx_pop i s) = tl (dst_queue (rx_srid i s) s)"
proof -
  have "dst_ready (rx_srid i s) s"
    by (rule rx_invE [OF assms(1)]) simp
  note sync = dst_ready_sync [OF this]
  note pop = dst_ready_pop [OF sync(1)]
  show ?thesis
    using pop(1) assms(2) arg_cong [OF pop(2), of tl] dst_ready_publish(2) sync(2)
    by (simp add: rx_pop_def)
qed

declare dst_recv_loop.simps [simp del]
declare dst_looks.simps [simp del]

lemma recv_loop_iter:
  fixes s0 :: "'a wireless_simu_scheme"
  assumes "rx_inv i s0" "rx_free i s0" "taken_ok s0 q (rx_bufs (rx_ring i s0))"
    "dst_queue (rx_srid i s0) s0 \<noteq> []" "rx_len i s0 \<noteq> 0"
  obtains s3 q3 p ps e es where "dst_recv_one i q s0 = Some (True, q3, s3)"
    "rx_moves i s0 q s3 q3" "rx_bufs (rx_ring i s0) = p # ps" "rx_bufs (rx_ring i s3) = ps"
    "dst_queue (rx_srid i s0) s0 = e # es" "dst_queue (rx_srid i s0) s3 = es"
    "q3 = q @ (if rx_fits s0 p e then [p] else [])"
    "rx_fits s0 p e \<Longrightarrow> skb_len (the (k_skbs s3 p)) = unat (hd e)"
proof -
  obtain p where p: "wireless_simu_test_dst_recv_next i s0 = Some (0, Some p, rx_len i s0, rx_take i (rx_pop i s0))"
    "rx_inv i (rx_take i (rx_pop i s0))"
    "rx_bufs (rx_ring i s0) = p # rx_bufs (rx_ring i (rx_take i (rx_pop i s0)))"
    using recv_next_buffer [OF assms(1,2,4,5)] by metis
  let ?s1 = "rx_take i (rx_pop i s0)" and ?ps = "rx_bufs (rx_ring i (rx_take i (rx_pop i s0)))"
  obtain e es where e: "dst_queue (rx_srid i s0) s0 = e # es"
    using assms(4) by (cases "dst_queue (rx_srid i s0) s0") auto
  then have len: "rx_len i s0 = hd e" and es: "dst_queue (rx_srid i s0) ?s1 = es"
    using rx_pop_queue [OF assms(1,4)] by (simp_all add: rx_len_def rx_take_def Let_def)
  have i: "i < length (pipes (st_dst s0))"
    using assms(1) by (simp add: rx_inv_def)
  have own: "own_ok ?s1 (p # ?ps)"
    using assms(1) p(3) own_ok_cong [of ?s1 s0] by (simp add: rx_inv_def)
  then obtain b where b: "k_skbs s0 p = Some b" "skb_empty b" "p < k_calls s0"
    by (auto simp: own_ok_def split: option.splits)
  let ?m = "(cb_paddr (skb_cb b), skb_len b + skb_tailroom b)"
  have m: "skb_map ?s1 p = ?m" "skb_map s0 p = ?m"
    using b by (simp_all add: skb_map_def)
  let ?upd = "\<lambda>x. ?s1\<lparr>k_maps := remove1 ?m (k_maps s0), k_skbs := (k_skbs s0)(p := x)\<rparr>"
  have inv: "rx_inv i (?upd x)" for x
    using rx_inv_release [OF p(2) own, of x] m by simp
  have unmap: "dma_unmap_single (fst ?m) (snd ?m) ?s1 = Some (?s1\<lparr>k_maps := remove1 ?m (k_maps s0)\<rparr>)"
    using own_ok_unmap(1) [OF own] m by (simp add: dma_unmap_single_def)
  have tk: "taken_ok ?s1 q (p # ?ps)"
    using assms(3) p(3) taken_ok_cong [of ?s1 s0] by simp
  have ids: "rx_rid i ?s1 = rx_rid i s0" "rx_srid i ?s1 = rx_srid i s0"
    using i by (simp_all add: rx_take_ids)
  have notin: "p \<notin> set ?ps"
    using own by (simp add: own_ok_def)
  have rest: "rx_rest i (?upd x) = rx_rest i s0" for x
    using p(3) notin m by (intro rx_rest_release [where p = p and x = x]) simp_all
  show ?thesis
  proof (cases "rx_fits s0 p e")
    case False
    then have big: "skb_len b + skb_tailroom b < unat (rx_len i s0)"
      by (simp add: rx_fits_def m len)
    let ?s3 = "emit (EvSkbFree p) (?upd None)"
    have "dst_recv_one i q s0 = Some (True, q, ?s3)"
      using p(1) unmap b big
      by (simp add: dst_recv_one_def skb_get_def dev_kfree_skb_any_def Let_def)
    moreover have "taken_ok ?s3 q ?ps"
      using taken_ok_drop [OF tk, of None] taken_ok_cong [of ?s3 "?s1\<lparr>k_skbs := (k_skbs s0)(p := None)\<rparr>"]
      by simp
    then have "rx_moves i s0 q ?s3 q"
      using inv [of None] ids p(3) rest [of None] by (auto simp: rx_moves_def intro!: exI [of _ "[p]"])
    ultimately show ?thesis
      by (rule that [of q ?s3 p ?ps e es]) (use p(3) e es False in simp_all)
  next
    case True
    then have room: "\<not> skb_len b + skb_tailroom b < unat (rx_len i s0)"
      by (simp add: rx_fits_def m len)
    let ?b = "b\<lparr>skb_tail := skb_tail b + unat (rx_len i s0)\<rparr>"
    let ?s3 = "?upd (Some ?b)"
    have step: "dst_recv_one i q s0 = Some (True, q @ [p], ?s3)"
      using p(1) unmap b room
      by (simp add: dst_recv_one_def skb_get_def skb_put_def skb_set_def skb_len_def
          skb_empty_def Let_def)
    have "taken_ok ?s3 (q @ [p]) ?ps"
      using taken_ok_add [OF tk, of ?b] b(3) taken_ok_cong [of ?s3 "?s1\<lparr>k_skbs := (k_skbs s0)(p \<mapsto> ?b)\<rparr>"]
      by simp
    then have mv: "rx_moves i s0 q ?s3 (q @ [p])"
      using inv [of "Some ?b"] ids p(3) rest [of "Some ?b"]
      by (auto simp: rx_moves_def intro!: exI [of _ "[p]"])
    have len3: "skb_len (the (k_skbs ?s3 p)) = unat (hd e)"
      using b(2) by (simp add: skb_len_def skb_empty_def len)
    show ?thesis
      by (rule that [OF step mv p(3) _ e _ _ len3]) (use es True in simp_all)
  qed
qed

text \<open>What the loop does after a look, and when it stops.\<close>

lemma recv_loop_more:
  assumes "dst_recv_one i q (s\<lparr>k_mem := dev k (k_mem s)\<rparr>) = Some (True, q', s')"
  shows "dst_recv_loop (Suc k) dev i q s = dst_recv_loop k dev i q' s'"
    and "dst_looks (Suc k) dev i q s = (s, s\<lparr>k_mem := dev k (k_mem s)\<rparr>) # dst_looks k dev i q' s'"
  using assms by (simp_all add: dst_recv_loop.simps dst_looks.simps Let_def)

lemma recv_loop_last:
  assumes "wireless_simu_test_dst_recv_next i (s\<lparr>k_mem := dev k (k_mem s)\<rparr>) = Some (neg_errno EIO, None, 0, s')"
  shows "dst_recv_loop (Suc k) dev i q s = Some (q, s')"
  using assms by (simp add: dst_recv_loop.simps dst_recv_one_def Let_def)

lemma dst_looks_idle:
  assumes "\<forall>j<k. dev j = (\<lambda>m. m)" "(t, t') \<in> set (dst_looks k dev i q s)"
  shows "t' = t"
  using assms
  by (induction k arbitrary: q s) (auto simp: dst_looks.simps Let_def split: option.splits bool.splits)

lemma rx_moves_mem [simp]: "rx_moves i (s\<lparr>k_mem := m\<rparr>) q s' q' = rx_moves i s q s' q'"
  by (simp add: rx_moves_def)

lemma rx_moves_refl:
  assumes "rx_inv i s'" "st_dst s' = st_dst s" "k_skbs s' = k_skbs s" "k_held s' = k_held s"
    "k_calls s' = k_calls s" "k_maps s' = k_maps s" "dumps s' = dumps s"
    "taken_ok s q (rx_bufs (rx_ring i s))"
  shows "rx_moves i s q s' q"
proof -
  have "rx_ring i s' = rx_ring i s" "rx_rid i s' = rx_rid i s" "rx_srid i s' = rx_srid i s"
    using assms(2) by (simp_all add: rx_ring_def rx_rid_def rx_srid_def rx_sring_def)
  then show ?thesis
    using assms taken_ok_cong [of s' s] rx_rest_cong [of s' s i] by (simp add: rx_moves_def)
qed

lemma rx_moves_trans:
  assumes "rx_inv i s" "rx_moves i s q s1 q1" "rx_moves i s1 q1 s2 q2"
  shows "rx_moves i s q s2 q2"
proof -
  obtain o1 n1 where 1: "rx_bufs (rx_ring i s) = o1 @ rx_bufs (rx_ring i s1)" "q1 = q @ n1" "subseq n1 o1"
    "\<forall>p\<in>set o1 - set n1. k_skbs s1 p = None" "\<forall>p. p \<notin> set o1 \<longrightarrow> k_skbs s1 p = k_skbs s p"
    using assms(2) by (auto simp: rx_moves_def)
  obtain o2 n2 where 2: "rx_bufs (rx_ring i s1) = o2 @ rx_bufs (rx_ring i s2)" "q2 = q1 @ n2" "subseq n2 o2"
    "\<forall>p\<in>set o2 - set n2. k_skbs s2 p = None" "\<forall>p. p \<notin> set o2 \<longrightarrow> k_skbs s2 p = k_skbs s1 p"
    using assms(3) by (auto simp: rx_moves_def)
  have "distinct (rx_bufs (rx_ring i s))"
    using assms(1) by (simp add: rx_inv_def own_ok_def)
  then have disj: "set o1 \<inter> set o2 = {}"
    using 1(1) 2(1) by auto
  have "\<forall>p\<in>set (o1 @ o2) - set (n1 @ n2). k_skbs s2 p = None"
  proof
    fix p
    assume p: "p \<in> set (o1 @ o2) - set (n1 @ n2)"
    show "k_skbs s2 p = None"
    proof (cases "p \<in> set o2")
      case True
      then show ?thesis using 2(4) p by auto
    next
      case False
      then have "k_skbs s2 p = k_skbs s1 p" using 2(5) by blast
      then show ?thesis using 1(4) p False by auto
    qed
  qed
  moreover have "subseq (n1 @ n2) (o1 @ o2)"
    using 1(3) 2(3) by (rule list_emb_append_mono)
  ultimately show ?thesis
    using assms(2,3) 1 2 unfolding rx_moves_def
    by (auto intro!: exI [of _ "o1 @ o2"] exI [of _ "n1 @ n2"])
qed

text \<open>
  The completion loop. Whatever the device does to the shared memory, as long as it completes
  only what was posted, the loop runs at most once per posted buffer and once more.
\<close>

lemma dst_recv_loop_ok:
  assumes "list_all (\<lambda>(t, t'). rx_inv i t \<longrightarrow> rx_inv i t') (dst_looks k dev i q s)"
    and "rx_inv i s" "rx_free i s" "taken_ok s q (rx_bufs (rx_ring i s))"
    "length (rx_bufs (rx_ring i s)) < k"
  shows "\<exists>q' s'. dst_recv_loop k dev i q s = Some (q', s') \<and> rx_moves i s q s' q'"
  using assms
proof (induction k arbitrary: q s)
  case (Suc k)
  let ?s = "s\<lparr>k_mem := dev k (k_mem s)\<rparr>"
  have "rx_inv i s \<longrightarrow> rx_inv i ?s"
    using Suc.prems(1) by (simp add: dst_looks.simps Let_def)
  then have inv: "rx_inv i ?s" and free: "rx_free i ?s" and tk: "taken_ok ?s q (rx_bufs (rx_ring i ?s))"
    using Suc.prems(2-4) taken_ok_cong [of ?s s] by (simp_all add: rx_free_def)
  show ?case
  proof (cases "dst_queue (rx_srid i ?s) ?s = [] \<or> rx_len i ?s = 0")
    case True
    obtain s' where "wireless_simu_test_dst_recv_next i ?s = Some (neg_errno EIO, None, 0, s')"
      "rx_inv i s'" "st_dst s' = st_dst ?s" "k_skbs s' = k_skbs ?s" "k_maps s' = k_maps ?s"
      "k_calls s' = k_calls ?s" "k_held s' = k_held ?s" "dumps s' = dumps ?s"
      using recv_next_none [OF inv free True] by metis
    then show ?thesis
      using rx_moves_refl [of i s' s q] Suc.prems(4) by (simp add: recv_loop_last)
  next
    case False
    obtain s3 q3 where one: "dst_recv_one i q ?s = Some (True, q3, s3)"
      and s3: "rx_moves i s q s3 q3" "length (rx_bufs (rx_ring i s)) = Suc (length (rx_bufs (rx_ring i s3)))"
      using recv_loop_iter [where i = i and q = q, OF inv free tk, unfolded rx_moves_mem rx_ring_frame] False
      by (metis length_Cons)
    note step = recv_loop_more [where dev = dev, OF one]
    have "rx_inv i s3" "rx_free i s3" "taken_ok s3 q3 (rx_bufs (rx_ring i s3))"
      using s3(1) Suc.prems(3) by (auto simp: rx_moves_def rx_free_def)
    with Suc.IH [of q3 s3] show ?thesis
      using s3 step Suc.prems(1,2,5) rx_moves_trans [OF Suc.prems(2) s3(1)] by auto
  qed
qed simp

text \<open>
  When the device does nothing in between and every completion has a length, the loop takes
  exactly the completed buffers, in order.
\<close>

lemma rx_delivery_Cons:
  "rx_delivery s (p # ps) (e # es)
   = (if rx_fits s p e then [(p, unat (hd e))] else []) @ rx_delivery s ps es"
  by (simp add: rx_delivery_def)

lemma rx_delivery_Nil [simp]: "rx_delivery s ps [] = []"
  by (simp add: rx_delivery_def)

lemma rx_delivery_cong:
  assumes "\<forall>p\<in>set ps. k_skbs s' p = k_skbs s p"
  shows "rx_delivery s' ps es = rx_delivery s ps es"
proof -
  have "rx_fits s' p e = rx_fits s p e" if "(p, e) \<in> set (zip ps es)" for p e
    using assms set_zip_leftD [OF that] by (simp add: rx_fits_def skb_map_def)
  then show ?thesis
    unfolding rx_delivery_def by (intro arg_cong2 [where f = map] filter_cong refl) auto
qed

lemma rx_delivery_subset: "set (map fst (rx_delivery s ps es)) \<subseteq> set ps"
  by (auto simp: rx_delivery_def dest: set_zip_leftD)

lemma mem_same: "s\<lparr>k_mem := k_mem s\<rparr> = s"
  by simp

lemma rx_moves_skbs:
  assumes "rx_moves i s q s' q'" "x \<notin> set out" "rx_bufs (rx_ring i s) = out @ rx_bufs (rx_ring i s')"
  shows "k_skbs s' x = k_skbs s x"
  using assms by (auto simp: rx_moves_def)

lemma dst_recv_loop_drain:
  assumes "rx_inv i s" "rx_free i s" "taken_ok s q (rx_bufs (rx_ring i s))"
    "list_all (\<lambda>e. hd e \<noteq> 0) (dst_queue (rx_srid i s) s)" "length (dst_queue (rx_srid i s) s) < k"
  shows "\<exists>s'. dst_recv_loop k (\<lambda>_ m. m) i q s
      = Some (q @ map fst (rx_delivery s (rx_bufs (rx_ring i s)) (dst_queue (rx_srid i s) s)), s') \<and>
    rx_moves i s q s' (q @ map fst (rx_delivery s (rx_bufs (rx_ring i s)) (dst_queue (rx_srid i s) s))) \<and>
    rx_bufs (rx_ring i s) = take (length (dst_queue (rx_srid i s) s)) (rx_bufs (rx_ring i s))
      @ rx_bufs (rx_ring i s') \<and>
    (\<forall>(p, n)\<in>set (rx_delivery s (rx_bufs (rx_ring i s)) (dst_queue (rx_srid i s) s)).
      skb_len (the (k_skbs s' p)) = n)"
  using assms
proof (induction k arbitrary: q s)
  case (Suc k)
  show ?case
  proof (cases "dst_queue (rx_srid i s) s")
    case Nil
    then obtain s' where "wireless_simu_test_dst_recv_next i s = Some (neg_errno EIO, None, 0, s')"
      "rx_inv i s'" "st_dst s' = st_dst s" "k_skbs s' = k_skbs s" "k_maps s' = k_maps s"
      "k_calls s' = k_calls s" "k_held s' = k_held s" "dumps s' = dumps s"
      using recv_next_none [OF Suc.prems(1,2)] by metis
    moreover from this have "rx_ring i s' = rx_ring i s"
      by (simp add: rx_ring_def)
    ultimately show ?thesis
      using Nil rx_moves_refl [of i s' s q] Suc.prems(3) by (simp add: recv_loop_last)
  next
    case (Cons e es)
    have len: "rx_len i s \<noteq> 0" and ne: "dst_queue (rx_srid i s) s \<noteq> []"
      using Suc.prems(4) Cons by (simp_all add: rx_len_def)
    obtain s3 q3 p ps where one: "dst_recv_one i q s = Some (True, q3, s3)" and s3:
      "rx_moves i s q s3 q3" "rx_bufs (rx_ring i s) = p # ps" "rx_bufs (rx_ring i s3) = ps"
      "dst_queue (rx_srid i s) s3 = es" "q3 = q @ (if rx_fits s p e then [p] else [])"
      "rx_fits s p e \<Longrightarrow> skb_len (the (k_skbs s3 p)) = unat (hd e)"
      using recv_loop_iter [where i = i and q = q, OF Suc.prems(1-3) ne len] Cons by (metis list.inject)
    have step: "dst_recv_loop (Suc k) (\<lambda>_ m. m) i q s = dst_recv_loop k (\<lambda>_ m. m) i q3 s3"
      by (rule recv_loop_more) (simp add: one)
    have inv3: "rx_inv i s3" "rx_free i s3" "taken_ok s3 q3 (rx_bufs (rx_ring i s3))"
      "rx_srid i s3 = rx_srid i s"
      using s3(1) Suc.prems(2) by (auto simp: rx_moves_def rx_free_def)
    obtain s' where s': "dst_recv_loop k (\<lambda>_ m. m) i q3 s3 = Some (q3 @ map fst (rx_delivery s3 ps es), s')"
      "rx_moves i s3 q3 s' (q3 @ map fst (rx_delivery s3 ps es))"
      "ps = take (length es) ps @ rx_bufs (rx_ring i s')"
      "\<forall>(p, n)\<in>set (rx_delivery s3 ps es). skb_len (the (k_skbs s' p)) = n"
      using Suc.IH [OF inv3(1-3)] inv3(4) s3(3,4) Suc.prems(4,5) Cons by auto
    have "distinct (p # ps)"
      using Suc.prems(1) s3(2) by (simp add: rx_inv_def own_ok_def)
    then have notin: "p \<notin> set ps"
      by simp
    have "k_skbs s3 x = k_skbs s x" if "x \<in> set ps" for x
      using rx_moves_skbs [OF s3(1), of x "[p]"] s3(2,3) that notin by auto
    moreover have "k_skbs s' p = k_skbs s3 p"
      using rx_moves_skbs [OF s'(2), of p "take (length es) ps"] s3(3) s'(3) notin by (auto dest: in_set_takeD)
    ultimately show ?thesis
      using step s3 s' Cons rx_moves_trans [OF Suc.prems(1) s3(1) s'(2)] rx_delivery_cong [of ps s3 s es]
      by (auto simp: rx_delivery_Cons)
  qed
qed simp

text \<open>Delivery prints each buffer and frees it.\<close>

lemma dst_deliver_all:
  assumes "distinct q" "\<forall>p\<in>set q. k_skbs s p \<noteq> None" "PrintSkbLock \<notin> set (k_held s)"
  shows "foldo dst_deliver q s =
    Some (s\<lparr>k_skbs := (\<lambda>p. if p \<in> set q then None else k_skbs s p),
      k_trace := k_trace s @
        concat (map (\<lambda>p. [EvHexDump p (skb_len (the (k_skbs s p))), EvSkbFree p]) q)\<rparr>)"
  using assms
proof (induction q arbitrary: s)
  case (Cons p q)
  obtain b where b: "k_skbs s p = Some b"
    using Cons.prems(2) by auto
  let ?s = "s\<lparr>k_skbs := (k_skbs s)(p := None),
    k_trace := k_trace s @ [EvHexDump p (skb_len b), EvSkbFree p]\<rparr>"
  have step: "dst_deliver p s = Some ?s"
    using b Cons.prems(3)
    by (simp add: dst_deliver_def skb_get_def spin_lock_def spin_unlock_def dev_kfree_skb_any_def
        emit_def Let_def held_restore)
  have "distinct q" "\<forall>x\<in>set q. k_skbs ?s x \<noteq> None" "PrintSkbLock \<notin> set (k_held ?s)"
    using Cons.prems by auto
  note IH = Cons.IH [OF this]
  have "(\<lambda>x. if x \<in> set q then None else k_skbs ?s x)
      = (\<lambda>x. if x \<in> set (p # q) then None else k_skbs s x)"
    by (auto simp: fun_eq_iff)
  moreover have "concat (map (\<lambda>x. [EvHexDump x (skb_len (the (k_skbs ?s x))), EvSkbFree x]) q)
      = concat (map (\<lambda>x. [EvHexDump x (skb_len (the (k_skbs s x))), EvSkbFree x]) q)"
    using Cons.prems(1) by (intro arg_cong [where f = concat] map_cong refl) auto
  ultimately show ?case
    using step IH b by simp
qed simp

lemma own_ok_skbs_cong:
  assumes "\<forall>p\<in>set ps. f p = k_skbs s p"
  shows "own_ok (s\<lparr>k_skbs := f\<rparr>) ps = own_ok s ps"
proof -
  have same: "map (skb_map (s\<lparr>k_skbs := f\<rparr>)) ps = map (skb_map s) ps"
    using assms by (intro map_cong refl) (simp add: skb_map_def)
  have "list_all (\<lambda>p. p < k_calls s \<and> (case f p of None \<Rightarrow> False | Some b \<Rightarrow> skb_empty b)) ps
      = list_all (\<lambda>p. p < k_calls s \<and> (case k_skbs s p of None \<Rightarrow> False | Some b \<Rightarrow> skb_empty b)) ps"
    using assms by (auto simp: list_all_iff)
  then show ?thesis
    unfolding own_ok_def same by simp
qed

lemma rx_inv_skbs:
  assumes "rx_inv i s" "\<forall>p\<in>set (rx_bufs (rx_ring i s)). f p = k_skbs s p"
  shows "rx_inv i (s\<lparr>k_skbs := f\<rparr>)"
  using assms own_ok_skbs_cong [OF assms(2)] by (simp add: rx_inv_def)

lemma rx_rest_skbs:
  assumes "\<forall>p\<in>set (rx_bufs (rx_ring i s)). f p = k_skbs s p"
  shows "rx_rest i (s\<lparr>k_skbs := f\<rparr>) = rx_rest i s"
proof -
  have "image_mset (skb_map (s\<lparr>k_skbs := f\<rparr>)) (mset (rx_bufs (rx_ring i s)))
      = image_mset (skb_map s) (mset (rx_bufs (rx_ring i s)))"
    using assms by (intro image_mset_cong) (auto simp: skb_map_def)
  then show ?thesis
    by (simp add: rx_rest_def)
qed

lemma dst_post_loop_skbs:
  assumes "dst_post_loop k env i s = Some (ret, s')" "rx_inv i s" "StDstLock \<in> set (k_held s)"
    "SrngLock (rx_rid i s) \<notin> set (k_held s)" "env_empty_skbs env" "p < k_calls s"
  shows "k_skbs s' p = k_skbs s p"
  using assms
proof (induction k arbitrary: s)
  case 0
  then show ?case
    by (subst (asm) dst_post_loop.simps) (auto split: bind_splits if_splits)
next
  case (Suc k)
  let ?n = "rx_buf_needed (pipes (st_dst s) ! i)"
  have i: "i < length (pipes (st_dst s))"
    using Suc.prems(2) by (simp add: rx_inv_def)
  consider "?n = 0"
    | "?n \<noteq> 0" "env_alloc_skb env (k_calls s) (unat (buf_sz (pipes (st_dst s) ! i))) = None"
    | b where "?n \<noteq> 0" "env_alloc_skb env (k_calls s) (unat (buf_sz (pipes (st_dst s) ! i))) = Some b"
      "env_dma_map env (Suc (k_calls s)) = None"
    | b pa where "?n \<noteq> 0" "env_alloc_skb env (k_calls s) (unat (buf_sz (pipes (st_dst s) ! i))) = Some b"
      "env_dma_map env (Suc (k_calls s)) = Some pa"
    by blast
  then show ?case
  proof cases
    case 1
    then show ?thesis
      using dst_post_loop_stop(1) [OF Suc.prems(2)] Suc.prems(1) by simp
  next
    case 2
    then show ?thesis
      using dst_post_loop_stop(2) [OF Suc.prems(2) 2] Suc.prems(1) by (auto simp: tick_def)
  next
    case (3 b)
    then show ?thesis
      using dst_post_loop_stop(3) [OF Suc.prems(2) 3] Suc.prems(1,6) by auto
  next
    case (4 b pa)
    have b: "skb_empty b"
      using Suc.prems(5) 4(2) unfolding env_empty_skbs_def by blast
    note fr = rx_posted_frame [OF i, of b pa] and inv = rx_inv_posted [OF Suc.prems(2) 4(1) b, of pa]
    have "k_calls s < k_calls (rx_posted i b pa s)" "k_skbs (rx_posted i b pa s) p = k_skbs s p"
      using Suc.prems(6) by (simp_all add: rx_posted_def rx_new_def Let_def)
    then show ?thesis
      using Suc.IH [OF _ inv(1)] dst_post_loop_step [OF Suc.prems(2-4) 4 b] Suc.prems fr by simp
  qed
qed

lemma post_pipe_skbs:
  assumes "rx_inv i s" "StDstLock \<notin> set (k_held s)" "SrngLock (rx_rid i s) \<notin> set (k_held s)"
    "env_empty_skbs env" "wireless_simu_test_dst_post_pipe env i s = Some (ret, s')" "p < k_calls s"
  shows "k_skbs s' p = k_skbs s p"
proof -
  let ?s = "s\<lparr>k_held := StDstLock # k_held s\<rparr>"
  obtain n s1 where "dst_post_loop n env i ?s = Some (ret, s1)" "k_skbs s' = k_skbs s1"
    using assms(1,2,5)
    by (auto simp: wireless_simu_test_dst_post_pipe_def get_pipe_def nth_opt_def rx_inv_def
        spin_lock_def spin_unlock_def split: bind_splits if_splits)
  then show ?thesis
    using dst_post_loop_skbs [of n env i ?s ret s1 p] assms by simp
qed

text \<open>The rest of the bottom half, once the completion loop has ended: delivery and replenishing.\<close>

lemma dst_dma_test_after:
  assumes "rx_inv i s" "rx_free i s" "env_empty_skbs env"
    and r: "dst_recv_loop fuel dev i [] s = Some (q, s1)" "rx_moves i s [] s1 q"
  shows "\<exists>s'. wireless_simu_irq_hal_srng_dst_dma_test fuel env dev i s = Some s' \<and> rx_serviced i s s' \<and>
    dumps s' = dumps s @ map (\<lambda>p. (p, skb_len (the (k_skbs s1 p)))) q \<and>
    (\<exists>out new. rx_bufs (rx_ring i s) = out @ rx_bufs (rx_ring i s1) \<and> (\<forall>p\<in>set out. k_skbs s' p = None) \<and>
      rx_bufs (rx_ring i s') = rx_bufs (rx_ring i s1) @ new)"
proof -
  have own: "own_ok s (rx_bufs (rx_ring i s))"
    using assms(1) by (simp add: rx_inv_def)
  obtain out where out: "rx_bufs (rx_ring i s) = out @ rx_bufs (rx_ring i s1)"
    "\<forall>p\<in>set out - set q. k_skbs s1 p = None"
    using r(2) by (auto simp: rx_moves_def)
  have s1: "rx_inv i s1" "k_held s1 = k_held s" "k_calls s1 = k_calls s" "rx_rid i s1 = rx_rid i s"
    "taken_ok s1 q (rx_bufs (rx_ring i s1))" "rx_srid i s1 = rx_srid i s"
    "pipes_count (st_dst s1) = pipes_count (st_dst s)" "dumps s1 = dumps s"
    using r(2) by (simp_all add: rx_moves_def)
  have live: "distinct q" "\<forall>p\<in>set q. k_skbs s1 p \<noteq> None" "PrintSkbLock \<notin> set (k_held s1)"
    using s1 assms(2) by (auto simp: taken_ok_def list_all_iff rx_free_def)
  define t where "t = concat (map (\<lambda>p. [EvHexDump p (skb_len (the (k_skbs s1 p))), EvSkbFree p]) q)"
  let ?s2 = "s1\<lparr>k_skbs := (\<lambda>p. if p \<in> set q then None else k_skbs s1 p), k_trace := k_trace s1 @ t\<rparr>"
  have d: "foldo dst_deliver q s1 = Some ?s2"
    using dst_deliver_all [OF live] by (simp add: t_def)
  have "concat (map dump_of t) = map (\<lambda>p. (p, skb_len (the (k_skbs s1 p)))) q"
    unfolding t_def by (induction q) simp_all
  then have dumps2: "dumps ?s2 = dumps s @ map (\<lambda>p. (p, skb_len (the (k_skbs s1 p)))) q"
    using s1(8) by (simp add: dumps_def)
  have keep: "\<forall>p\<in>set (rx_bufs (rx_ring i s1)). (if p \<in> set q then None else k_skbs s1 p) = k_skbs s1 p"
    using s1(5) by (auto simp: taken_ok_def)
  then have inv2: "rx_inv i ?s2"
    using rx_inv_skbs [OF s1(1)] by simp
  have rest2: "rx_rest i ?s2 = rx_rest i s"
    using rx_rest_skbs [OF keep] r(2) by (simp add: rx_moves_def)
  have free2: "StDstLock \<notin> set (k_held ?s2)" "SrngLock (rx_rid i ?s2) \<notin> set (k_held ?s2)"
    using s1 assms(2) by (simp_all add: rx_free_def)
  obtain ret s3 where p: "wireless_simu_test_dst_post_pipe env i ?s2 = Some (ret, s3)"
    "rx_post_outcome env i ?s2 ret s3"
    using post_pipe_ok [OF inv2 free2 assms(3)] by blast
  have gone: "k_skbs s3 x = None" if "x \<in> set out" for x
  proof -
    have "x < k_calls ?s2"
      using that own out(1) s1(3) by (auto simp: own_ok_def list_all_iff)
    then show ?thesis
      using post_pipe_skbs [OF inv2 free2 assms(3) p(1), of x] out(2) that by auto
  qed
  show ?thesis
    using r(1) d p out(1) s1(2,4,6,7) gone rest2 dumps2
    by (auto simp: wireless_simu_irq_hal_srng_dst_dma_test_def rx_serviced_def rx_post_outcome_def Let_def)
qed

text \<open>
  The bottom half of the interrupt: given enough fuel for the buffers outstanding it always
  returns, frees every buffer it took, and leaves the pipe full or the retry timer armed.
\<close>

lemma dst_dma_test_ok:
  assumes "list_all (\<lambda>(t, t'). rx_inv i t \<longrightarrow> rx_inv i t') (dst_looks fuel dev i [] s)"
    and "rx_inv i s" "rx_free i s" "env_empty_skbs env" "length (rx_bufs (rx_ring i s)) < fuel"
  shows "\<exists>s'. wireless_simu_irq_hal_srng_dst_dma_test fuel env dev i s = Some s' \<and> rx_serviced i s s'"
proof -
  have "taken_ok s [] (rx_bufs (rx_ring i s))"
    using assms(2) by (simp add: taken_ok_def rx_inv_def own_ok_def)
  from dst_recv_loop_ok [OF assms(1-3) this assms(5)] obtain q s1 where
    "dst_recv_loop fuel dev i [] s = Some (q, s1)" "rx_moves i s [] s1 q" by blast
  then show ?thesis
    using dst_dma_test_after [OF assms(2-4)] by blast
qed

lemma dst_dma_test_exact:
  assumes "rx_inv i s" "rx_free i s" "env_empty_skbs env"
    "list_all (\<lambda>e. hd e \<noteq> 0) (dst_queue (rx_srid i s) s)" "length (dst_queue (rx_srid i s) s) < fuel"
  shows "\<exists>s'. wireless_simu_irq_hal_srng_dst_dma_test fuel env (\<lambda>_ m. m) i s = Some s' \<and> rx_serviced i s s' \<and>
    dumps s' = dumps s @ rx_delivery s (rx_bufs (rx_ring i s)) (dst_queue (rx_srid i s) s) \<and>
    (\<exists>new. rx_bufs (rx_ring i s') = drop (length (dst_queue (rx_srid i s) s)) (rx_bufs (rx_ring i s)) @ new) \<and>
    (\<forall>p\<in>set (take (length (dst_queue (rx_srid i s) s)) (rx_bufs (rx_ring i s))). k_skbs s' p = None)"
proof -
  let ?d = "rx_delivery s (rx_bufs (rx_ring i s)) (dst_queue (rx_srid i s) s)"
  have "taken_ok s [] (rx_bufs (rx_ring i s))"
    using assms(1) by (simp add: taken_ok_def rx_inv_def own_ok_def)
  from dst_recv_loop_drain [OF assms(1,2) this assms(4,5)] obtain s1 where
    s1: "dst_recv_loop fuel (\<lambda>_ m. m) i [] s = Some (map fst ?d, s1)" "rx_moves i s [] s1 (map fst ?d)"
    "rx_bufs (rx_ring i s) = take (length (dst_queue (rx_srid i s) s)) (rx_bufs (rx_ring i s))
      @ rx_bufs (rx_ring i s1)"
    "\<forall>(p, n)\<in>set ?d. skb_len (the (k_skbs s1 p)) = n"
    by auto
  have d: "map (\<lambda>p. (p, skb_len (the (k_skbs s1 p)))) (map fst ?d) = ?d"
    using s1(4) by (auto simp: o_def intro!: map_idI)
  have kept: "rx_bufs (rx_ring i s1) = drop (length (dst_queue (rx_srid i s) s)) (rx_bufs (rx_ring i s))"
    using s1(3) by (metis append_take_drop_id same_append_eq)
  obtain s' out new where s': "wireless_simu_irq_hal_srng_dst_dma_test fuel env (\<lambda>_ m. m) i s = Some s'"
    "rx_serviced i s s'" "dumps s' = dumps s @ ?d" "rx_bufs (rx_ring i s) = out @ rx_bufs (rx_ring i s1)"
    "\<forall>p\<in>set out. k_skbs s' p = None" "rx_bufs (rx_ring i s') = rx_bufs (rx_ring i s1) @ new"
    using dst_dma_test_after [OF assms(1-3) s1(1,2)] unfolding d by blast
  have out: "out = take (length (dst_queue (rx_srid i s) s)) (rx_bufs (rx_ring i s))"
    using s1(3) s'(4) by (metis append_same_eq)
  show ?thesis
    using s'(1-3) s'(5) [unfolded out] s'(6) [unfolded kept] by blast
qed

end
