(* ===== verification/Rx_System.thy ===== *)
theory Rx_System
  imports Rx_Service Step_System
begin

text \<open>
  The receive path as a whole: posting as an instance of the descriptor ring contract, the moves
  of the device, and the transition system of driver and device with its invariant.
\<close>

section \<open>Definitions\<close>

definition rx_queue :: "nat \<Rightarrow> 'a wireless_simu_scheme \<Rightarrow> u32 list list" where
  "rx_queue i s = src_queue (rx_rid i s) s"

definition rx_capacity :: "nat \<Rightarrow> 'a wireless_simu_scheme \<Rightarrow> nat" where
  "rx_capacity i s = src_capacity (rx_rid i s) s"

definition rx_post :: "nat \<Rightarrow> skbp \<times> u64 \<Rightarrow> 'a wireless_simu_scheme \<Rightarrow>
  (int \<times> 'a wireless_simu_scheme) option" where
  "rx_post i = (\<lambda>(skb, paddr) s. wireless_simu_test_dst_enqueue_pipe i skb paddr s)"

definition rx_image :: "skbp \<times> u64 \<Rightarrow> 'a wireless_simu_scheme \<Rightarrow> u32 list" where
  "rx_image = (\<lambda>(skb, paddr) s. rx_words paddr)"

definition rx_valid :: "skbp \<times> u64 \<Rightarrow> 'a wireless_simu_scheme \<Rightarrow> bool" where
  "rx_valid = (\<lambda>(skb, paddr) s. k_skbs s skb \<noteq> None)"

definition rx_consume :: "nat \<Rightarrow> nat \<Rightarrow> 'a wireless_simu_scheme \<Rightarrow> 'a wireless_simu_scheme" where
  "rx_consume i k s = src_consume (rx_rid i s) k s"

text \<open>The device completes a buffer: it fills the next status entry and moves its head.\<close>

definition dst_produce :: "nat \<Rightarrow> u32 list \<Rightarrow> 'a wireless_simu_scheme \<Rightarrow> 'a wireless_simu_scheme" where
  "dst_produce rid ws s =
     (let h = srng_list (hal s) rid; a = dst_hp_addr (union_dst (srng_u h)); hp = k_mem s a
      in s\<lparr>k_mem := (write_words (entry_addr h (ent_idx h hp)) ws (k_mem s))(a := next_ptr h hp)\<rparr>)"

definition rx_sys :: "'a wireless_simu_scheme \<Rightarrow> bool" where
  "rx_sys s = (rx_inv 0 s \<and> rx_free 0 s \<and> pipes_count (st_dst s) = 1)"

text \<open>
  The receive path as a transition system: the bottom half and the retry timer on the driver's
  side, taking a posted descriptor and completing a buffer on the device's side. A device
  completes only buffers it holds, that is, posted ones that are neither still in the posting
  ring nor already in the completion ring.
\<close>

inductive rx_step :: "kenv \<Rightarrow> 'a wireless_simu_scheme \<Rightarrow> 'a wireless_simu_scheme \<Rightarrow> bool"
  for env where
  bottom_half: "wireless_simu_hal_srng_dst_tasklet (length (ring_skb (rx_ring 0 s))) env (\<lambda>_ m. m) 0 s
      = Some s' \<Longrightarrow> rx_step env s s'"
| retry: "wireless_simu_test_dst_rx_replenish_retry env s = Some s' \<Longrightarrow> rx_step env s s'"
| dev_take: "k \<le> length (src_queue (rx_rid 0 s) s) \<Longrightarrow> rx_step env s (src_consume (rx_rid 0 s) k s)"
| dev_complete: "length (src_queue (rx_rid 0 s) s) + length (dst_queue (rx_srid 0 s) s)
      < length (rx_window (rx_ring 0 s)) \<Longrightarrow>
    rx_step env s (dst_produce (rx_srid 0 s) [len, flag] s)"

text \<open>
  What the device may do between two looks of the driver at its rings: any number of such moves, on
  the rings of pipe \<^term>\<open>i\<close>.
\<close>

inductive dev_moves :: "nat \<Rightarrow> 'a wireless_simu_scheme \<Rightarrow> 'a wireless_simu_scheme \<Rightarrow> bool"
  for i t where
  stay: "dev_moves i t t"
| takes: "dev_moves i t u \<Longrightarrow> k \<le> length (src_queue (rx_rid i u) u) \<Longrightarrow> dev_moves i t (src_consume (rx_rid i u) k u)"
| completes: "dev_moves i t u \<Longrightarrow>
    length (src_queue (rx_rid i u) u) + length (dst_queue (rx_srid i u) u) < length (rx_window (rx_ring i u)) \<Longrightarrow>
    dev_moves i t (dst_produce (rx_srid i u) [len, flag] u)"

inductive_cases rx_stepE: "rx_step env s s'"

section \<open>Lemmas\<close>

lemmas rx_queue_defs = rx_queue_def rx_capacity_def rx_post_def rx_image_def rx_valid_def rx_consume_def

lemma rx_words_length [simp]: "length (rx_words paddr) = 3"
  by (simp add: rx_words_def dst_desc_words_def)

lemma src_consume_frame [simp]:
  "hal (src_consume rid k s) = hal s" "k_held (src_consume rid k s) = k_held s"
  "st_dst (src_consume rid k s) = st_dst s" "k_skbs (src_consume rid k s) = k_skbs s"
  "k_maps (src_consume rid k s) = k_maps s" "k_calls (src_consume rid k s) = k_calls s"
  "soft_ring_ok d (src_consume rid k s) = soft_ring_ok d s"
  by (simp_all add: src_consume_def Let_def soft_ring_ok_def)

lemma rx_ids_consume [simp]:
  "rx_ring i (src_consume rid k s) = rx_ring i s" "rx_rid i (src_consume rid k s) = rx_rid i s"
  "rx_srid i (src_consume rid k s) = rx_srid i s"
  by (simp_all add: rx_ring_def rx_rid_def rx_srid_def rx_sring_def)

lemma rx_ids_refuse [simp]:
  "rx_ring i (src_refuse rid s) = rx_ring i s" "rx_rid i (src_refuse rid s) = rx_rid i s"
  "rx_srid i (src_refuse rid s) = rx_srid i s"
  by (simp_all add: rx_ring_def rx_rid_def rx_srid_def rx_sring_def)

lemma rx_post_readyI:
  assumes "rx_post_ready i s" "pipe_dst_ring (pipes (st_dst s') ! i) = Some (rx_ring i s')"
    "length (pipes (st_dst s')) = length (pipes (st_dst s))" "rx_rid i s' = rx_rid i s"
    "src_ready (rx_rid i s) s'" "soft_ring_ok (rx_ring i s') s'"
    "e_sz (srng_list (hal s') (rx_rid i s)) = 3" "k_held s' = k_held s"
  shows "rx_post_ready i s'"
  using assms by (auto simp: rx_post_ready_def rx_rid_def rx_ring_def split: option.splits)

lemma rx_post_ready_refuse:
  assumes "rx_post_ready i s"
  shows "rx_post_ready i (src_refuse (rx_rid i s) s)"
  by (rule rx_post_readyE [OF assms], rule rx_post_readyI [OF assms])
    (simp_all add: src_ready_refuse soft_ring_refuse)

lemma rx_post_ready_commit:
  assumes "rx_post_ready i s" "length (src_queue (rx_rid i s) s) < src_capacity (rx_rid i s) s"
  shows "rx_post_ready i (rx_store i p (src_commit (rx_rid i s) (rx_words pa) s))"
proof (rule rx_post_readyE [OF assms(1)])
  fix pipe ring
  assume p: "i < length (pipes (st_dst s))" "rx_ring i s = ring" "rx_rid i s = unat (hal_ring_id ring)"
    "src_ready (rx_rid i s) s" "soft_ring_ok ring s" "e_sz (srng_list (hal s) (rx_rid i s)) = 3"
  let ?s = "src_commit (rx_rid i s) (rx_words pa) s"
  have "src_ready (rx_rid i s) ?s"
    using p assms(2) by (intro src_ready_commit) simp_all
  moreover have "soft_ring_ok (soft_put p ring) ?s"
    using soft_ring_commit [OF p(5)] p(3,4) by simp
  ultimately show ?thesis
    using p by (intro rx_post_readyI [OF assms(1)]) (simp_all add: rx_store_ids,
        simp_all add: rx_store_def rx_ring_def Let_def)
qed

lemma rx_post_ready_src: "rx_post_ready i s \<Longrightarrow> src_ready (rx_rid i s) s"
  by (erule rx_post_readyE) simp

interpretation rx: descriptor_ring "rx_post_ready i" "rx_queue i" "rx_capacity i" "rx_post i"
  rx_image rx_valid "rx_consume i" "neg_errno ENOSPC"
proof (unfold_locales, goal_cases)
  case 1
  show ?case by simp
next
  case (2 s)
  then show ?case by (simp add: rx_queue_defs length_src_queue rx_post_ready_src)
next
  case (3 s x)
  obtain skb pa where x: "x = (skb, pa)" by (cases x)
  with 3 obtain b where "k_skbs s skb = Some b"
    by (auto simp: rx_queue_defs)
  moreover have "i < length (pipes (st_dst s))" "e_sz (srng_list (hal s) (rx_rid i s)) = 3"
    by (rule rx_post_readyE [OF 3(1)]; simp)+
  ultimately show ?case
    using 3 x enqueue_room [of i s skb b pa] rx_post_ready_commit [of i s skb pa]
      src_ready_commit [OF rx_post_ready_src, of i s "rx_words pa"]
    by (simp add: rx_queue_defs rx_store_ids, simp add: rx_store_def Let_def)
next
  case (4 s x)
  obtain skb pa where "x = (skb, pa)" by (cases x)
  then show ?case
    using 4 enqueue_full [of i s skb pa] rx_post_ready_refuse [of i s]
      src_ready_refuse [OF rx_post_ready_src, of i s] by (simp add: rx_queue_defs)
next
  case (5 s k)
  have "rx_post_ready i (src_consume (rx_rid i s) k s)"
    by (rule rx_post_readyE [OF 5(1)], rule rx_post_readyI [OF 5(1)])
      (use 5 in \<open>simp_all add: src_ready_consume rx_queue_defs\<close>)
  then show ?case
    using 5 src_ready_consume [OF rx_post_ready_src [OF 5(1)]] by (simp add: rx_queue_defs)
qed

lemma dst_produce_frame [simp]:
  "hal (dst_produce rid ws s) = hal s" "k_held (dst_produce rid ws s) = k_held s"
  "st_dst (dst_produce rid ws s) = st_dst s" "k_skbs (dst_produce rid ws s) = k_skbs s"
  "k_maps (dst_produce rid ws s) = k_maps s" "k_calls (dst_produce rid ws s) = k_calls s"
  "mem_ok a n (dst_produce rid ws s) = mem_ok a n s" "get_srng j (dst_produce rid ws s) = get_srng j s"
  "k_iomapped (dst_produce rid ws s) = k_iomapped s"
  "soft_ring_ok d (dst_produce rid ws s) = soft_ring_ok d s"
  by (simp_all add: dst_produce_def Let_def soft_ring_ok_def)

lemma dst_ready_produce:
  assumes "dst_ready rid s" "length ws = e_sz (srng_list (hal s) rid)"
    "length (dst_queue rid s) + 1 < n_ent (srng_list (hal s) rid)"
  shows "dst_ready rid (dst_produce rid ws s)"
    and "dst_queue rid (dst_produce rid ws s) = dst_queue rid s @ [ws]"
proof -
  obtain g r where g: "get_srng rid s = Some g" "srng_list (hal s) rid = g" "srng_u g = DstRing r"
    "geom_ok g" "ring_dir g = HAL_SRNG_DIR_DST" "flags g AND HAL_SRNG_FLAGS_LMAC_RING = 0"
    "k_iomapped s" "ptr_ok g (dst_tp r)" "mem_ok (dst_hp_addr r) 4 s"
    "ptr_ok g (k_mem s (dst_hp_addr r))" "outside g (dst_hp_addr r)"
    "mem_ok (ring_base_vaddr g) (4 * (e_sz g * n_ent g)) s"
    using dst_readyE [OF assms(1)] by metis
  let ?h = "k_mem s (dst_hp_addr r)"
  have "next_ptr g ?h \<noteq> dst_tp r"
    using assms(3) g ring_dist_next(1) [OF g(4,8,10)] by (auto simp: dst_queue_def length_pending)
  note app = pending_append [OF g(4,8,10) this, of ws "k_mem s"]
  show "dst_ready rid (dst_produce rid ws s)"
    using g next_ptr_idx(3) [OF g(4,10)] by (simp add: dst_ready_def, simp add: dst_produce_def Let_def)
  show "dst_queue rid (dst_produce rid ws s) = dst_queue rid s @ [ws]"
    using g app assms(2) pending_outside [OF g(4,11)]
    by (simp add: dst_queue_def, simp add: dst_produce_def Let_def)
qed

lemma src_ready_cong:
  assumes "src_ready rid s" "srng_list (hal s') rid = srng_list (hal s) rid" "k_dma s' = k_dma s"
    "k_iomapped s' = k_iomapped s"
    "k_mem s' (src_tp_addr (union_src (srng_u (srng_list (hal s) rid))))
     = k_mem s (src_tp_addr (union_src (srng_u (srng_list (hal s) rid))))"
  shows "src_ready rid s'"
  by (rule src_readyE [OF assms(1)])
    (use assms(2-) in \<open>auto simp: src_ready_def get_srng_def mem_ok_def split: if_splits\<close>)

lemma dst_ready_cong:
  assumes "dst_ready rid s" "srng_list (hal s') rid = srng_list (hal s) rid" "k_dma s' = k_dma s"
    "k_iomapped s' = k_iomapped s"
    "k_mem s' (dst_hp_addr (union_dst (srng_u (srng_list (hal s) rid))))
     = k_mem s (dst_hp_addr (union_dst (srng_u (srng_list (hal s) rid))))"
  shows "dst_ready rid s'"
  by (rule dst_readyE [OF assms(1)])
    (use assms(2-) in \<open>auto simp: dst_ready_def get_srng_def mem_ok_def split: if_splits\<close>)

lemma rx_wired_produce:
  assumes "rx_wired rid srid s" "length ws = 2"
    "length (dst_queue srid s) + 1 < n_ent (srng_list (hal s) srid)"
  shows "rx_wired rid srid (dst_produce srid ws s)"
    and "src_queue rid (dst_produce srid ws s) = src_queue rid s"
proof -
  obtain g h r q where w: "srng_list (hal s) rid = g" "srng_list (hal s) srid = h"
    "srng_u g = SrcRing r" "srng_u h = DstRing q" "rid \<noteq> srid" "src_ready rid s" "dst_ready srid s"
    "geom_ok g" "geom_ok h" "e_sz g = 3" "e_sz h = 2" "rings_apart g h" "outside g (dst_hp_addr q)"
    "outside h (src_tp_addr r)" "src_tp_addr r \<noteq> dst_hp_addr q"
    using rx_wiredE [OF assms(1)] by metis
  have hp: "ptr_ok h (k_mem s (dst_hp_addr q))"
    by (rule dst_readyE [OF w(7)]) (use w in simp)
  let ?m = "write_words (entry_addr h (ent_idx h (k_mem s (dst_hp_addr q)))) ws (k_mem s)"
  have mem: "k_mem (dst_produce srid ws s) = ?m(dst_hp_addr q := next_ptr h (k_mem s (dst_hp_addr q)))"
    using w by (simp add: dst_produce_def Let_def)
  have cell: "?m (src_tp_addr r) = k_mem s (src_tp_addr r)"
    using w assms(2) by (intro write_words_outside) (simp_all add: ent_idx_less hp)
  have pend: "pending g ?m a b = pending g (k_mem s) a b" for a b
    using w assms(2) by (intro pending_apart) (simp_all add: ent_idx_less hp rings_apart_sym [OF w(12,8)])
  show "src_queue rid (dst_produce srid ws s) = src_queue rid s"
    using w cell pend pending_outside [OF w(8,13)] by (simp add: src_queue_def mem Let_def)
  have "src_ready rid (dst_produce srid ws s)"
    using w cell by (intro src_ready_cong [OF w(6)]) (simp_all add: mem, simp_all add: dst_produce_def Let_def)
  moreover have "dst_ready srid (dst_produce srid ws s)"
    using w assms(2,3) by (intro dst_ready_produce) simp_all
  ultimately show "rx_wired rid srid (dst_produce srid ws s)"
    using assms(1) by (simp add: rx_wired_def Let_def)
qed

lemma rx_wired_consume:
  assumes "rx_wired rid srid s" "k \<le> length (src_queue rid s)"
  shows "rx_wired rid srid (src_consume rid k s)"
    and "dst_queue srid (src_consume rid k s) = dst_queue srid s"
proof -
  obtain g h r q where w: "srng_list (hal s) rid = g" "srng_list (hal s) srid = h"
    "srng_u g = SrcRing r" "srng_u h = DstRing q" "src_ready rid s" "dst_ready srid s"
    "geom_ok h" "outside h (src_tp_addr r)" "src_tp_addr r \<noteq> dst_hp_addr q"
    using rx_wiredE [OF assms(1)] by metis
  have mem: "k_mem (src_consume rid k s)
      = (k_mem s)(src_tp_addr r := (next_ptr g ^^ k) (k_mem s (src_tp_addr r)))"
    using w by (simp add: src_consume_def Let_def)
  show "dst_queue srid (src_consume rid k s) = dst_queue srid s"
    using w pending_outside [OF w(7,8)] by (simp add: dst_queue_def mem Let_def)
  have "dst_ready srid (src_consume rid k s)"
    using w by (intro dst_ready_cong [OF w(6)]) (simp_all add: mem, simp_all add: src_consume_def Let_def)
  then show "rx_wired rid srid (src_consume rid k s)"
    using assms src_ready_consume(1) [OF w(5) assms(2)] by (simp add: rx_wired_def Let_def)
qed

lemma rx_ids_produce [simp]:
  "rx_ring i (dst_produce rid ws s) = rx_ring i s" "rx_rid i (dst_produce rid ws s) = rx_rid i s"
  "rx_srid i (dst_produce rid ws s) = rx_srid i s"
  by (simp_all add: rx_ring_def rx_rid_def rx_srid_def rx_sring_def)

lemma rx_inv_take_desc:
  assumes "rx_inv i s" "k \<le> length (src_queue (rx_rid i s) s)"
  shows "rx_inv i (src_consume (rx_rid i s) k s)"
proof (rule rx_invE [OF assms(1)])
  fix d
  assume v: "rx_ring i s = d" "rx_wired (rx_rid i s) (rx_srid i s) s" "soft_ring_ok d s"
    "src_ready (rx_rid i s) s"
  show ?thesis
    by (rule rx_inv_dst_frame [OF assms(1)])
      (use v assms(2) in \<open>simp_all add: rx_wired_consume src_ready_consume\<close>)
qed

lemma rx_inv_complete:
  assumes "rx_inv i s" "length ws = 2"
    "length (src_queue (rx_rid i s) s) + length (dst_queue (rx_srid i s) s) < length (rx_window (rx_ring i s))"
  shows "rx_inv i (dst_produce (rx_srid i s) ws s)"
    and "dst_queue (rx_srid i s) (dst_produce (rx_srid i s) ws s) = dst_queue (rx_srid i s) s @ [ws]"
proof -
  obtain pipe d where v: "rx_ring i s = d" "rx_wired (rx_rid i s) (rx_srid i s) s" "soft_ring_ok d s"
    "dst_ready (rx_srid i s) s" "rx_rid i s = unat (hal_ring_id d)"
    "length (rx_window d) + unat (rx_buf_needed pipe) + 2 = length (ring_skb d)"
    "pipes (st_dst s) ! i = pipe"
    using rx_invE [OF assms(1)] by metis
  have "length (ring_skb d) = n_ent (srng_list (hal s) (rx_srid i s))"
    using v(2,3,5) by (simp add: soft_ring_ok_def rx_wired_def Let_def)
  then have room: "length (dst_queue (rx_srid i s) s) + 1 < n_ent (srng_list (hal s) (rx_srid i s))"
    using assms(3) v(1,6) by simp
  note wired = rx_wired_produce [OF v(2) assms(2) room]
  show q: "dst_queue (rx_srid i s) (dst_produce (rx_srid i s) ws s) = dst_queue (rx_srid i s) s @ [ws]"
    using v(2,4) assms(2) room by (intro dst_ready_produce) (simp_all add: rx_wired_def Let_def)
  have "own_ok (dst_produce (rx_srid i s) ws s) ps = own_ok s ps" for ps
    by (rule own_ok_cong) simp_all
  then show "rx_inv i (dst_produce (rx_srid i s) ws s)"
    using assms(1,3) wired q by (simp add: rx_inv_def)
qed

lemma dev_moves_inv: "dev_moves i t u \<Longrightarrow> rx_inv i t \<Longrightarrow> rx_inv i u"
  by (induction rule: dev_moves.induct) (simp_all add: rx_inv_take_desc rx_inv_complete(1))

lemma rx_window_bufs: "length (rx_bufs d) = length (rx_window d)"
  by (simp add: rx_bufs_def)

lemma tasklet_eq:
  assumes "rx_inv i s"
  shows "wireless_simu_hal_srng_dst_tasklet fuel env dev i s
    = wireless_simu_irq_hal_srng_dst_dma_test fuel env dev i s"
  using assms by (simp add: wireless_simu_hal_srng_dst_tasklet_def get_pipe_def nth_opt_def rx_inv_def)

lemma tasklet_ok:
  assumes "rx_inv i s" "rx_free i s" "env_empty_skbs env"
  shows "\<exists>s'. wireless_simu_hal_srng_dst_tasklet (length (ring_skb (rx_ring i s))) env (\<lambda>_ m. m) i s = Some s' \<and>
    rx_serviced i s s'"
proof -
  have "length (rx_bufs (rx_ring i s)) < length (ring_skb (rx_ring i s))"
    using assms(1) unfolding rx_inv_def rx_window_bufs by linarith
  then show ?thesis
    using dst_dma_test_ok [OF _ assms, of _ "\<lambda>_ m. m"] tasklet_eq [OF assms(1)]
    by (simp add: list_all_iff) (metis (no_types, lifting) case_prodI2 dst_looks_idle)
qed

lemma retry_ok:
  assumes "rx_sys s" "env_empty_skbs env"
  shows "\<exists>s'. wireless_simu_test_dst_rx_replenish_retry env s = Some s' \<and> rx_sys s' \<and>
    (rx_buf_needed (pipes (st_dst s') ! 0) = 0 \<or> (\<exists>j. last (k_trace s') = EvModTimer j))"
proof -
  have s: "rx_inv 0 s" "StDstLock \<notin> set (k_held s)" "SrngLock (rx_rid 0 s) \<notin> set (k_held s)"
    "rx_free 0 s" "pipes_count (st_dst s) = 1"
    using assms(1) by (simp_all add: rx_sys_def rx_free_def)
  obtain ret s' where r: "wireless_simu_test_dst_post_pipe env 0 s = Some (ret, s')"
    "rx_post_outcome env 0 s ret s'"
    using post_pipe_ok [OF s(1-3) assms(2)] by blast
  have "rx_sys s'"
    using r(2) s(4,5) by (auto simp: rx_sys_def rx_post_outcome_def rx_free_def)
  then show ?thesis
    using r s(5)
    by (auto simp: wireless_simu_test_dst_rx_replenish_retry_def wireless_simu_test_dst_post_buf_def
        rx_post_outcome_def rx_sys_def rx_free_def)
qed

text \<open>Every step of driver or device keeps the receive path sound.\<close>

lemma rx_step_sys:
  assumes "rx_step env s s'" "rx_sys s" "env_empty_skbs env"
  shows "rx_sys s'"
  using assms(1)
proof (cases rule: rx_step.cases)
  case bottom_half
  then show ?thesis
    using tasklet_ok [of 0 s env] assms(2,3) by (auto simp: rx_sys_def rx_serviced_def rx_free_def)
next
  case retry
  then show ?thesis
    using retry_ok [OF assms(2,3)] by auto
next
  case (dev_take k)
  then show ?thesis
    using assms(2) rx_inv_take_desc [of 0 s k] by (simp add: rx_sys_def rx_free_def)
next
  case (dev_complete len flag)
  then show ?thesis
    using assms(2) rx_inv_complete(1) [of 0 s "[len, flag]"] by (simp add: rx_sys_def rx_free_def)
qed

interpretation rx_irq: serviced_system "rx_step env" "\<lambda>s. env_empty_skbs env \<and> rx_sys s"
  "\<lambda>s. wireless_simu_hal_srng_dst_tasklet (length (ring_skb (rx_ring 0 s))) env (\<lambda>_ m. m) 0 s"
proof (unfold_locales, goal_cases)
  case (1 s s')
  then show ?case using rx_step_sys by blast
next
  case (2 s)
  then show ?case
    using tasklet_ok [of 0 s env] rx_step.bottom_half [of s env] by (auto simp: rx_sys_def)
qed

interpretation rx_timer: serviced_system "rx_step env" "\<lambda>s. env_empty_skbs env \<and> rx_sys s"
  "wireless_simu_test_dst_rx_replenish_retry env"
proof (unfold_locales, goal_cases)
  case (1 s)
  then show ?case using retry_ok [of s env] rx_step.retry [of env s] by blast
qed

lemma sample_rx_sys: "rx_sys sample"
  by (simp add: rx_sys_def rx_inv_def rx_free_def rx_wired_def rings_apart_def slots_ok_def own_ok_def skb_map_def
   rx_bufs_def rx_window_def window_def rx_rid_def rx_srid_def rx_ring_def rx_sring_def
   sample_defs src_ready_def dst_ready_def soft_ring_ok_def is_pow2_def ring_eval Let_def upt_rec
   src_queue_def dst_queue_def pending_def ring_dist_def skb_len_def skb_tailroom_def skb_empty_def)

lemma sample_env_empty: "env_empty_skbs sample_env"
  by (auto simp: env_empty_skbs_def sample_env_def skb_empty_def)

end
