(* ===== verification/Irq.thy ===== *)
theory Irq
  imports Srng_Dst
begin

text \<open>
  The interrupt handler, \<^verbatim>\<open>driver/driver_wireless/wireless_irq.c\<close>: read the status register,
  schedule the bottom half of the ring that completed, clear the register.
\<close>

datatype HAL_ENUM_REG_BASIC = WIRELESS_REG_BASIC_IRQ_ENABLE | WIRELESS_REG_BASIC_IRQ_STATUS

primrec reg_basic_val :: "HAL_ENUM_REG_BASIC \<Rightarrow> u32" where
  "reg_basic_val WIRELESS_REG_BASIC_IRQ_ENABLE = 1"
| "reg_basic_val WIRELESS_REG_BASIC_IRQ_STATUS = 2"

definition HAL_BASIC_REG :: "u32 \<Rightarrow> u32" where
  "HAL_BASIC_REG n = push_bit 2 n AND 0x0000ffff"

datatype WIRELESS_SIMU_ENUM_IRQ_STATUS =
  WIRELESS_SIMU_IRQ_STATU_START | WIRELESS_SIMU_IRQ_STATU_SRNG_DST_DMA_TEST_RING_0

primrec irq_status_val :: "WIRELESS_SIMU_ENUM_IRQ_STATUS \<Rightarrow> u32" where
  "irq_status_val WIRELESS_SIMU_IRQ_STATU_START = 0"
| "irq_status_val WIRELESS_SIMU_IRQ_STATU_SRNG_DST_DMA_TEST_RING_0 = 1"

text \<open>
  The flag says whether the driver data of the PCI device is set: \<^verbatim>\<open>request_irq\<close> at line 175 of
  \<^verbatim>\<open>wireless.c\<close> precedes \<^verbatim>\<open>pci_set_drvdata\<close> at line 210, and the line may be shared, so that
  \<^verbatim>\<open>pci_get_drvdata\<close> can answer NULL, which the handler dereferences.
\<close>

definition wireless_simu_irq_handler ::
  "bool \<Rightarrow> kenv \<Rightarrow> 'a wireless_simu_scheme \<Rightarrow> 'a wireless_simu_scheme option" where
  "wireless_simu_irq_handler drvdata env s =
     (if \<not> drvdata then None
      else do {
        irq_status \<leftarrow> wireless_hif_read32 env
          (HAL_BASIC_REG (reg_basic_val WIRELESS_REG_BASIC_IRQ_STATUS)) s;
        let s = (if irq_status = irq_status_val WIRELESS_SIMU_IRQ_STATU_SRNG_DST_DMA_TEST_RING_0
                 then emit (EvTaskletSchedule 0) s else s);
        wireless_hif_write32 (HAL_BASIC_REG (reg_basic_val WIRELESS_REG_BASIC_IRQ_STATUS)) 0 s
      })"

end
