(* ===== verification/Receive.thy ===== *)
theory Receive
  imports Rx_System Irq
begin

text \<open>
  What the receive path guarantees: the bottom half of the interrupt, replenishing, posting and
  reading completions, the interleaving with the device, and the two places where the path loses
  a buffer. The states at the start of the theory are those the witnesses run on: two completions,
  the second too long for its buffer, and a completion of length zero followed by a good one.
\<close>

section \<open>Sample states\<close>

definition sample_rx :: wireless_simu where
  "sample_rx = sample\<lparr>k_mem := (\<lambda>_. 0)(0x1020 := 6, 0x1004 := 4, 0x4000 := 5, 0x4008 := 100)\<rparr>"

definition sample_zero :: wireless_simu where
  "sample_zero = sample\<lparr>k_mem := (\<lambda>_. 0)(0x1020 := 6, 0x1004 := 4, 0x4008 := 7)\<rparr>"

definition sample_dev :: "(u64 \<Rightarrow> u32) \<Rightarrow> (u64 \<Rightarrow> u32)" where
  "sample_dev m = m(0x1020 := 6, 0x4000 := 5, 0x4004 := 0, 0x4008 := 100, 0x400c := 0, 0x1004 := 4)"

section \<open>Lemmas\<close>

lemma rx_look_queue:
  assumes "rx_inv i s"
  shows "dst_queue (rx_srid i s) (rx_look i s) = dst_queue (rx_srid i s) s"
proof -
  have "dst_ready (rx_srid i s) s"
    by (rule rx_invE [OF assms]) simp
  note sync = dst_ready_sync [OF this]
  show ?thesis
    using dst_ready_publish(2) [OF sync(1)] sync(2) by (simp add: rx_look_def)
qed

lemma rx_take_ring:
  assumes "i < length (pipes (st_dst s))"
  shows "length (ring_skb (rx_ring i (rx_take i s))) = length (ring_skb (rx_ring i s))"
  using assms by (simp add: rx_take_def rx_ring_def soft_take_def Let_def)

lemma rx_take_queue [simp]:
  "dst_queue r (rx_take i s) = dst_queue r s" "src_queue r (rx_take i s) = src_queue r s"
  "src_queue r (rx_store i p s) = src_queue r s"
  by (simp_all add: rx_take_def rx_store_def Let_def)

lemma rx_inv_needed:
  assumes "rx_inv i s"
  shows "length (rx_bufs (rx_ring i s)) + unat (rx_buf_needed (pipes (st_dst s) ! i)) + 2
    = length (ring_skb (rx_ring i s))"
  using assms by (auto simp: rx_inv_def rx_window_bufs)

lemma sample_rx_inv: "rx_inv 0 sample_rx" "rx_free 0 sample_rx"
  by (simp_all add: sample_rx_def rx_inv_def rx_free_def rx_wired_def rings_apart_def slots_ok_def own_ok_def skb_map_def
   rx_bufs_def rx_window_def window_def rx_rid_def rx_srid_def rx_ring_def rx_sring_def
   sample_defs src_ready_def dst_ready_def soft_ring_ok_def is_pow2_def ring_eval Let_def upt_rec
   src_queue_def dst_queue_def pending_def ring_dist_def skb_len_def skb_tailroom_def skb_empty_def)

lemma sample_rx_facts:
  "dst_queue (rx_srid 0 sample_rx) sample_rx = [[5, 0], [100, 0]]"
  "rx_bufs (rx_ring 0 sample_rx) = [Suc 0, 2]" "k_held sample_rx = []" "length (ring_skb (rx_ring 0 sample_rx)) = 4" "dumps sample_rx = []"
  "rx_delivery sample_rx [Suc 0, 2] [[5, 0], [100, 0]] = [(Suc 0, 5)]"
  by (simp_all add: sample_rx_def rx_bufs_def rx_window_def window_def rx_rid_def rx_srid_def rx_ring_def rx_sring_def
   sample_defs ring_eval Let_def upt_rec dst_queue_def pending_def ring_dist_def dumps_def
   rx_delivery_def rx_fits_def skb_map_def skb_len_def skb_tailroom_def entry_words_def entry_addr_def)

lemma sample_post_ready: "rx_post_ready 0 (sample_rx\<lparr>k_held := [StDstLock]\<rparr>)"
  using rx_inv_post_ready [of 0 "sample_rx\<lparr>k_held := [StDstLock]\<rparr>"] sample_rx_inv by simp

lemma sample_rx_queue:
  "src_queue (rx_rid 0 sample_rx) sample_rx = []" "src_capacity (rx_rid 0 sample_rx) sample_rx = 3"
  "k_skbs sample_rx 3 = Some (sample_skb 0x7003)"
  by (simp_all add: sample_rx_def rx_rid_def rx_ring_def sample_defs ring_eval Let_def src_queue_def pending_def
      ring_dist_def src_capacity_def)

lemma sample_zero_inv: "rx_inv 0 sample_zero" "rx_free 0 sample_zero"
  by (simp_all add: sample_zero_def rx_inv_def rx_free_def rx_wired_def rings_apart_def slots_ok_def own_ok_def skb_map_def
   rx_bufs_def rx_window_def window_def rx_rid_def rx_srid_def rx_ring_def rx_sring_def
   sample_defs src_ready_def dst_ready_def soft_ring_ok_def is_pow2_def ring_eval Let_def upt_rec
   src_queue_def dst_queue_def pending_def ring_dist_def skb_len_def skb_tailroom_def skb_empty_def)

lemma sample_dev_queue:
  "dst_queue (rx_srid 0 sample) sample = []" "rx_bufs (rx_ring 0 sample) = [Suc 0, 2]" "k_held sample = []"
  "length (dst_queue (rx_srid 0 sample) (sample\<lparr>k_mem := sample_dev (k_mem sample)\<rparr>)) = 2"
  by (simp_all add: sample_dev_def rx_bufs_def rx_window_def window_def rx_srid_def rx_ring_def rx_sring_def
   sample_defs ring_eval Let_def upt_rec dst_queue_def pending_def ring_dist_def)

lemma sample_dev_moves:
  "list_all (\<lambda>(t, t'). dev_moves 0 t t') (dst_looks 3 (\<lambda>k m. if k = 2 then sample_dev m else m) 0 [] sample)"
proof -
  let ?dev = "\<lambda>(k::nat) m. if k = 2 then sample_dev m else m"
  let ?t = "src_consume (rx_rid 0 sample) 2 sample"
  let ?u = "dst_produce (rx_srid 0 ?t) [5, 0] ?t"
  let ?v = "dst_produce (rx_srid 0 ?u) [100, 0] ?u"
  have two: "(f ^^ 2) x = f (f x)" for f :: "u32 \<Rightarrow> u32" and x
    by (simp add: numeral_2_eq_2)
  note defs = sample_dev_def rx_window_def window_def rx_rid_def rx_srid_def rx_ring_def rx_sring_def
    sample_defs ring_eval Let_def upt_rec dst_queue_def src_queue_def pending_def ring_dist_def
    src_consume_def dst_produce_def entry_addr_def next_ptr_def two
  have "dev_moves 0 sample ?t"
    by (intro takes stay) (simp add: defs)
  then have "dev_moves 0 sample ?u"
    by (rule completes) (simp add: defs)
  then have "dev_moves 0 sample ?v"
    by (rule completes) (simp add: defs)
  moreover have "?v = sample\<lparr>k_mem := sample_dev (k_mem sample)\<rparr>"
    by (simp add: defs fun_eq_iff)
  ultimately have first: "dev_moves 0 sample (sample\<lparr>k_mem := ?dev 2 (k_mem sample)\<rparr>)"
    by simp
  have rest: "dev_moves 0 t t'" if "(t, t') \<in> set (dst_looks 2 ?dev 0 q s)" for t t' q and s :: wireless_simu
    using dst_looks_idle [OF _ that] by (simp add: stay)
  have "dst_looks (Suc 2) ?dev 0 [] sample = (sample, sample\<lparr>k_mem := ?dev 2 (k_mem sample)\<rparr>) #
     (case dst_recv_one 0 [] (sample\<lparr>k_mem := ?dev 2 (k_mem sample)\<rparr>) of
        Some (True, q, s) \<Rightarrow> dst_looks 2 ?dev 0 q s | _ \<Rightarrow> [])"
    unfolding dst_looks.simps Let_def ..
  moreover have "Suc 2 = 3"
    by simp
  ultimately show ?thesis
    using first rest by (simp only: list_all_iff) (auto split: option.splits bool.splits)
qed

section \<open>Properties\<close>

text \<open>
  C1: The bottom half of the interrupt delivers exactly what the device completed. In a pipe that
  satisfies its invariant, with completions of non-zero length, it returns, and the buffers it
  prints, in the order and with the lengths it prints them, are the oldest posted buffers paired
  with the completions, less those too small for their length. All of them are freed, the other
  posted buffers stay posted in their order, new ones are added behind, no lock is left held, and
  no mapping is lost or left over.
\<close>

theorem bottom_half_delivers:
  assumes "rx_inv i s" "rx_free i s" "env_empty_skbs env"
    and "list_all (\<lambda>e. hd e \<noteq> 0) (dst_queue (rx_srid i s) s)"
    and "length (dst_queue (rx_srid i s) s) < fuel"
  shows "\<exists>s' new. wireless_simu_irq_hal_srng_dst_dma_test fuel env (\<lambda>_ m. m) i s = Some s' \<and>
    rx_inv i s' \<and> k_held s' = k_held s \<and> rx_rest i s' = rx_rest i s \<and>
    dumps s' = dumps s @ rx_delivery s (rx_bufs (rx_ring i s)) (dst_queue (rx_srid i s) s) \<and>
    rx_bufs (rx_ring i s') = drop (length (dst_queue (rx_srid i s) s)) (rx_bufs (rx_ring i s)) @ new \<and>
    (\<forall>p\<in>set (take (length (dst_queue (rx_srid i s) s)) (rx_bufs (rx_ring i s))). k_skbs s' p = None)"
  using dst_dma_test_exact [OF assms] by (auto simp: rx_serviced_def)

theorem bottom_half_delivers_witness:
  "\<exists>s'. wireless_simu_irq_hal_srng_dst_dma_test 3 sample_env (\<lambda>_ m. m) 0 sample_rx = Some s' \<and>
     dumps s' = [(1, 5)] \<and> k_skbs s' 1 = None \<and> k_skbs s' 2 = None"
  using bottom_half_delivers [OF sample_rx_inv sample_env_empty, of 3] by (auto simp: sample_rx_facts)

text \<open>
  C14: The bottom half returns although the device goes on working. Before each look of this run at the
  completion ring the device may take posted descriptors and complete buffers it holds, in any number
  and order and with any lengths; with one iteration more than there are posted buffers the handler
  ends, with the invariant kept, the locks as they were, every buffer it took freed, and the pipe full
  or the retry timer armed.
\<close>

theorem bottom_half_returns:
  assumes "list_all (\<lambda>(t, t'). dev_moves i t t') (dst_looks fuel dev i [] s)"
    and "rx_inv i s" "rx_free i s" "env_empty_skbs env" "length (rx_bufs (rx_ring i s)) < fuel"
  shows "\<exists>s'. wireless_simu_irq_hal_srng_dst_dma_test fuel env dev i s = Some s' \<and>
    rx_inv i s' \<and> k_held s' = k_held s \<and> rx_rest i s' = rx_rest i s \<and>
    (rx_buf_needed (pipes (st_dst s') ! i) = 0 \<or> (\<exists>j. last (k_trace s') = EvModTimer j)) \<and>
    (\<exists>out kept new. rx_bufs (rx_ring i s) = out @ kept \<and> rx_bufs (rx_ring i s') = kept @ new \<and>
       (\<forall>p\<in>set out. k_skbs s' p = None))"
proof -
  have "list_all (\<lambda>(t, t'). rx_inv i t \<longrightarrow> rx_inv i t') (dst_looks fuel dev i [] s)"
    using assms(1) by (rule list.pred_mono_strong) (auto dest: dev_moves_inv)
  from dst_dma_test_ok [OF this assms(2-)] show ?thesis
    unfolding rx_serviced_def by blast
qed

text \<open>
  A device that, at the first look, takes both posted buffers and completes them, the first with
  five bytes and the second with more than it holds.
\<close>

theorem bottom_half_returns_witness:
  "\<exists>s'. wireless_simu_irq_hal_srng_dst_dma_test 3 sample_env (\<lambda>k m. if k = 2 then sample_dev m else m) 0 sample = Some s' \<and>
     dst_queue (rx_srid 0 sample) sample = [] \<and> length (dst_queue (rx_srid 0 sample) (sample\<lparr>k_mem := sample_dev (k_mem sample)\<rparr>)) = 2 \<and>
     rx_inv 0 s' \<and> k_held s' = []"
proof -
  have s: "rx_inv 0 sample" "rx_free 0 sample" "length (rx_bufs (rx_ring 0 sample)) < 3"
    using sample_rx_sys by (simp_all add: rx_sys_def sample_dev_queue)
  show ?thesis
    using bottom_half_returns [OF sample_dev_moves s(1,2) sample_env_empty s(3)] sample_dev_queue(1,3,4) by metis
qed

text \<open>
  C2: The receive path stays sound. From a sound state, after any interleaving of bottom halves,
  retry timers, the device taking posted descriptors and the device completing buffers it holds
  (with any length), the state is sound: the two rings and the software ring agree, every posted
  buffer is allocated and mapped, none twice. And in every such state both handlers return.
\<close>

theorem receive_path_sound:
  assumes "rx_sys s" "env_empty_skbs env" "(rx_step env)\<^sup>*\<^sup>* s s'"
  shows "rx_sys s' \<and>
    (\<exists>t. wireless_simu_hal_srng_dst_tasklet (length (ring_skb (rx_ring 0 s'))) env (\<lambda>_ m. m) 0 s' = Some t) \<and>
    (\<exists>t. wireless_simu_test_dst_rx_replenish_retry env s' = Some t)"
  using rx_irq.reachable_service [OF assms(3)] rx_timer.reachable_service [OF assms(3)]
    rx_irq.reachable_inv [OF assms(3)] assms(1,2) by auto

theorem receive_path_sound_witness:
  "\<exists>t. rx_step sample_env sample (src_consume (rx_rid 0 sample) 1 sample) \<and>
     rx_sys (src_consume (rx_rid 0 sample) 1 sample) \<and>
     wireless_simu_test_dst_rx_replenish_retry sample_env (src_consume (rx_rid 0 sample) 1 sample) = Some t"
proof -
  have "length (src_queue (rx_rid 0 sample) sample) = 2"
    by (simp add: rx_rid_def rx_ring_def sample_defs ring_eval Let_def src_queue_def pending_def ring_dist_def)
  then have step: "rx_step sample_env sample (src_consume (rx_rid 0 sample) 1 sample)"
    by (intro dev_take) simp
  then show ?thesis
    using receive_path_sound [OF sample_rx_sys sample_env_empty r_into_rtranclp [where r = "rx_step sample_env", OF step]]
    by blast
qed

text \<open>
  C17: Replenishing a pipe. It returns with 0 and no buffer missing, or with -ENOMEM and an
  allocation that failed, or with -EIO and a mapping that failed; in no case is the ring full
  (-ENOSPC), so two entries of the ring stay free. The buffers posted before stay, in order.
\<close>

theorem replenish_outcome:
  assumes "rx_inv i s" "rx_free i s" "env_empty_skbs env"
  shows "\<exists>ret s' new. wireless_simu_test_dst_post_pipe env i s = Some (ret, s') \<and> rx_inv i s' \<and>
    k_held s' = k_held s \<and> rx_rest i s' = rx_rest i s \<and>
    rx_bufs (rx_ring i s') = rx_bufs (rx_ring i s) @ new \<and>
    (ret = 0 \<and> length (rx_bufs (rx_ring i s')) + 2 = length (ring_skb (rx_ring i s')) \<or>
     ret = neg_errno ENOMEM \<and> (\<exists>c n. env_alloc_skb env c n = None) \<or>
     ret = neg_errno EIO \<and> (\<exists>c. env_dma_map env c = None))"
proof -
  obtain ret s' where r: "wireless_simu_test_dst_post_pipe env i s = Some (ret, s')"
    "rx_post_outcome env i s ret s'"
    using post_pipe_ok [OF assms(1) _ _ assms(3)] assms(2) unfolding rx_free_def by blast
  moreover have "length (rx_bufs (rx_ring i s')) + unat (rx_buf_needed (pipes (st_dst s') ! i)) + 2
      = length (ring_skb (rx_ring i s'))"
    using r(2) by (auto simp: rx_post_outcome_def rx_inv_def rx_window_bufs)
  ultimately show ?thesis
    by (auto simp: rx_post_outcome_def)
qed

theorem replenish_outcome_witness:
  "\<exists>ret s'. wireless_simu_test_dst_post_pipe sample_env 0 sample_rx = Some (ret, s') \<and> ret = 0 \<and>
     length (rx_bufs (rx_ring 0 s')) + 2 = length (ring_skb (rx_ring 0 s'))"
  using replenish_outcome [OF sample_rx_inv sample_env_empty] by (auto simp: sample_env_def)

text \<open>
  C15: Reading the next completion, on every branch. With no completion the pipe is unchanged and
  the code is -EIO. A completion with a length is consumed and yields the oldest posted buffer with
  that length, and one more buffer is missing. A completion of length zero is consumed too, but no
  buffer is taken.
\<close>

theorem recv_next_branches:
  assumes "rx_inv i s" "rx_free i s"
  shows "\<exists>ret skb n s'. wireless_simu_test_dst_recv_next i s = Some (ret, skb, n, s') \<and> rx_inv i s' \<and>
    k_held s' = k_held s \<and>
    (case dst_queue (rx_srid i s) s of
       [] \<Rightarrow> ret = neg_errno EIO \<and> skb = None \<and> st_dst s' = st_dst s \<and> dst_queue (rx_srid i s) s' = []
     | e # es \<Rightarrow> dst_queue (rx_srid i s) s' = es \<and>
         (if hd e = 0 then ret = neg_errno EIO \<and> skb = None \<and> st_dst s' = st_dst s
          else ret = 0 \<and> n = hd e \<and> skb = Some (hd (rx_bufs (rx_ring i s))) \<and>
            rx_bufs (rx_ring i s') = tl (rx_bufs (rx_ring i s)) \<and>
            unat (rx_buf_needed (pipes (st_dst s') ! i)) = unat (rx_buf_needed (pipes (st_dst s) ! i)) + 1))"
proof (cases "dst_queue (rx_srid i s) s")
  case Nil
  then show ?thesis
    using recv_next_eq [OF rx_inv_recv_ready [OF assms]] rx_inv_look [OF assms(1)] rx_look_queue [OF assms(1)]
    by (simp add: rx_look_def [symmetric])
next
  case (Cons e es)
  then have ne: "dst_queue (rx_srid i s) s \<noteq> []" and len: "rx_len i s = hd e"
    by (simp_all add: rx_len_def)
  note pop = rx_inv_pop(1) [OF assms(1) ne] rx_pop_queue [OF assms(1) ne]
  show ?thesis
  proof (cases "hd e = 0")
    case True
    then show ?thesis
      using recv_next_eq [OF rx_inv_recv_ready [OF assms]] Cons len pop by (simp add: rx_pop_def [symmetric])
  next
    case False
    let ?s = "rx_take i (rx_pop i s)"
    obtain p where p: "wireless_simu_test_dst_recv_next i s = Some (0, Some p, hd e, rx_take i (rx_pop i s))"
      "rx_inv i (rx_take i (rx_pop i s))" "rx_bufs (rx_ring i s) = p # rx_bufs (rx_ring i (rx_take i (rx_pop i s)))"
      using recv_next_buffer [OF assms ne] False len by metis
    have "unat (rx_buf_needed (pipes (st_dst ?s) ! i)) = unat (rx_buf_needed (pipes (st_dst s) ! i)) + 1"
      using rx_inv_needed [OF assms(1)] rx_inv_needed [OF p(2)] p(3) rx_take_ring [of i "rx_pop i s"] assms(1)
      by (simp add: rx_inv_def)
    then show ?thesis
      using p Cons False pop(2) by (simp add: rx_take_queue)
  qed
qed

theorem recv_next_branches_witness:
  "\<exists>s'. wireless_simu_test_dst_recv_next 0 sample_rx = Some (0, Some 1, 5, s') \<and>
     rx_bufs (rx_ring 0 s') = [2]"
  using recv_next_branches [OF sample_rx_inv] by (auto simp: sample_rx_facts)

text \<open>
  C16: Posting one buffer, on every branch. With the module's lock held and the ring in a sound
  state, posting always returns, with the locks as they were and without fault. With room it
  returns 0, appends exactly the buffer's descriptor to what the device has not taken, records the
  buffer at the write index and counts one buffer less as missing; on a full ring it returns
  -ENOSPC and the queue and the software state are unchanged.
\<close>

theorem enqueue_correct:
  assumes "rx_post_ready i s" and "k_skbs s skb \<noteq> None"
  shows "\<exists>ret s'. wireless_simu_test_dst_enqueue_pipe i skb paddr s = Some (ret, s') \<and>
    rx_post_ready i s' \<and> k_held s' = k_held s \<and> k_maps s' = k_maps s \<and> k_skbs s' = k_skbs s \<and>
    (if length (src_queue (rx_rid i s) s) < src_capacity (rx_rid i s) s
     then ret = 0 \<and> src_queue (rx_rid i s') s' = src_queue (rx_rid i s) s @ [rx_words paddr] \<and>
       ring_skb (rx_ring i s') = (ring_skb (rx_ring i s))[unat (write_index (rx_ring i s)) := Some skb] \<and>
       write_index (rx_ring i s') = (write_index (rx_ring i s) + 1) AND nentries_mask (rx_ring i s) \<and>
       rx_buf_needed (pipes (st_dst s') ! i) = rx_buf_needed (pipes (st_dst s) ! i) - 1
     else ret = neg_errno ENOSPC \<and> st_dst s' = st_dst s \<and>
       src_queue (rx_rid i s) s' = src_queue (rx_rid i s) s)"
proof (cases "length (src_queue (rx_rid i s) s) < src_capacity (rx_rid i s) s")
  case True
  obtain b where b: "k_skbs s skb = Some b"
    using assms(2) by auto
  have i: "i < length (pipes (st_dst s))" "e_sz (srng_list (hal s) (rx_rid i s)) = 3"
    by (rule rx_post_readyE [OF assms(1)]; simp)+
  show ?thesis
    using enqueue_room [OF assms(1) b True, of paddr] rx_post_ready_commit [OF assms(1) True] True i
      src_ready_commit(2) [OF rx_post_ready_src [OF assms(1)] True, of "rx_words paddr"]
      rx_store_ids [of i "src_commit (rx_rid i s) (rx_words paddr) s"]
    by (simp add: soft_put_def)
next
  case False
  then have "length (src_queue (rx_rid i s) s) = src_capacity (rx_rid i s) s"
    using length_src_queue [OF rx_post_ready_src [OF assms(1)]] by simp
  then show ?thesis
    using enqueue_full [OF assms(1), of skb paddr] rx_post_ready_refuse [OF assms(1)]
      src_ready_refuse(2) [OF rx_post_ready_src [OF assms(1)]] by simp
qed

theorem enqueue_correct_witness:
  "\<exists>s'. wireless_simu_test_dst_enqueue_pipe 0 3 0x7003 (sample_rx\<lparr>k_held := [StDstLock]\<rparr>) = Some (0, s') \<and>
     src_queue (rx_rid 0 s') s' = [rx_words 0x7003]"
  using enqueue_correct [OF sample_post_ready, of 3 "0x7003"] by (auto simp: sample_rx_queue)

text \<open>
  First in, first out on the posting ring. In any run of posts (accepted or refused) and of the
  device taking descriptors, the descriptors queued at the start followed by those accepted since
  are exactly those taken followed by those still queued.
\<close>

theorem receive_post_fifo:
  assumes "rx_post_ready i s"
    and "ring_run (rx_post i) rx_image rx_valid (rx_queue i) (rx_consume i) s posted taken s'"
  shows "src_queue (rx_rid i s) s @ posted = taken @ src_queue (rx_rid i s') s' \<and> rx_post_ready i s'"
  using rx.run_fifo [OF assms(2)] assms(1) by (simp add: rx_queue_def)

theorem receive_post_fifo_witness:
  "\<exists>s' d. ring_run (rx_post 0) rx_image rx_valid (rx_queue 0) (rx_consume 0) (sample_rx\<lparr>k_held := [StDstLock]\<rparr>)
     [d] [] s' \<and> src_queue (rx_rid 0 s') s' = [d]"
proof -
  let ?s = "sample_rx\<lparr>k_held := [StDstLock]\<rparr>"
  obtain s' where "rx_post 0 (3, 0x7003) ?s = Some (0, s')"
    using enqueue_room [OF sample_post_ready, of 3 "sample_skb 0x7003" "0x7003"]
    by (auto simp: rx_post_def sample_rx_queue)
  then have "ring_run (rx_post 0) rx_image rx_valid (rx_queue 0) (rx_consume 0) ?s
      ([] @ [rx_image (3, 0x7003) ?s]) [] s'"
    by (intro ring_post ring_start) (simp_all add: rx_valid_def sample_rx_queue)
  then have run: "ring_run (rx_post 0) rx_image rx_valid (rx_queue 0) (rx_consume 0) ?s [rx_words 0x7003] [] s'"
    by (simp add: rx_image_def)
  moreover have "src_queue (rx_rid 0 s') s' = [rx_words 0x7003]"
    using receive_post_fifo [OF sample_post_ready run] by (simp add: sample_rx_queue)
  ultimately show ?thesis by blast
qed

text \<open>
  The descriptor of a posted buffer loses nothing of a bus address of up to 40 bits.
\<close>

theorem dst_desc_roundtrip:
  assumes "unat paddr < 2 ^ 40"
  shows "case rx_words paddr of [low, info, fl] \<Rightarrow> join_paddr low info = paddr \<and> fl = 0x114514aa | _ \<Rightarrow> False"
  unfolding rx_words_def dst_desc_words_def dst_desc_def
  using join_paddr_split [OF assms, of "ucast (FIELD_PREP (GENMASK 7 0) (drop_bit HAL_ADDR_MSB_REG_SHIFT paddr))"]
  by (auto simp: bit_simps bit_FIELD_PREP HAL_ADDR_MSB_REG_SHIFT_def)

theorem dst_desc_roundtrip_witness:
  "join_paddr (rx_words 0x1234567890 ! 0) (rx_words 0x1234567890 ! 1) = 0x1234567890"
  using dst_desc_roundtrip [of "0x1234567890"] by (simp add: rx_words_def dst_desc_words_def)

text \<open>
  C32: A completion of length zero is consumed without its buffer, and the pairing of buffers and
  completions is lost from there on: the next completion is reported with the buffer of the
  zero-length one, and a posted buffer remains that neither the device nor the completion ring
  holds.
\<close>

theorem zero_length_misattributed:
  assumes "rx_inv i s" "rx_free i s"
    and "dst_queue (rx_srid i s) s = e # e' # es" "hd e = 0" "hd e' \<noteq> 0"
  shows "\<exists>s1 s2. wireless_simu_test_dst_recv_next i s = Some (neg_errno EIO, None, 0, s1) \<and>
    wireless_simu_test_dst_recv_next i s1 = Some (0, Some (hd (rx_bufs (rx_ring i s))), hd e', s2) \<and>
    length (src_queue (rx_rid i s2) s2) + length (dst_queue (rx_srid i s2) s2) < length (rx_bufs (rx_ring i s2))"
proof -
  have ne: "dst_queue (rx_srid i s) s \<noteq> []" and len: "rx_len i s = 0"
    using assms by (simp_all add: rx_len_def)
  let ?s1 = "rx_pop i s"
  note pop = rx_inv_pop [OF assms(1) ne] and q = rx_pop_queue [OF assms(1) ne]
  have 1: "wireless_simu_test_dst_recv_next i s = Some (neg_errno EIO, None, 0, ?s1)"
    using recv_next_eq [OF rx_inv_recv_ready [OF assms(1,2)]] ne len by (simp add: rx_pop_def)
  have free1: "rx_free i ?s1"
    using assms(2) by (simp add: rx_free_def)
  have q1: "dst_queue (rx_srid i ?s1) ?s1 = e' # es"
    using q assms(3) by simp
  then have ne1: "dst_queue (rx_srid i ?s1) ?s1 \<noteq> []" and len1: "rx_len i ?s1 = hd e'"
    by (simp_all add: rx_len_def)
  have i: "i < length (pipes (st_dst s))"
    using assms(1) by (simp add: rx_inv_def)
  obtain p where 2: "wireless_simu_test_dst_recv_next i ?s1 = Some (0, Some p, hd e', rx_take i (rx_pop i ?s1))"
    "rx_inv i (rx_take i (rx_pop i ?s1))" "rx_bufs (rx_ring i ?s1) = p # rx_bufs (rx_ring i (rx_take i (rx_pop i ?s1)))"
    using recv_next_buffer [OF pop(1) free1 ne1] len1 assms(5) by metis
  have "length (src_queue (rx_rid i s) s) + length (dst_queue (rx_srid i s) s) \<le> length (rx_bufs (rx_ring i s))"
    using assms(1) by (simp add: rx_inv_def rx_window_bufs)
  then show ?thesis
    using 1 2 rx_inv_pop(3) [OF pop(1) ne1] rx_pop_queue [OF pop(1) ne1] pop(3) q1 assms(3) i
    by (auto simp: rx_take_ids)
qed

theorem zero_length_misattributed_witness:
  "\<exists>s1 s2. wireless_simu_test_dst_recv_next 0 sample_zero = Some (neg_errno EIO, None, 0, s1) \<and>
     wireless_simu_test_dst_recv_next 0 s1 = Some (0, Some 1, 7, s2)"
proof -
  have "dst_queue (rx_srid 0 sample_zero) sample_zero = [[0, 0], [7, 0]]" "rx_bufs (rx_ring 0 sample_zero) = [1, 2]"
    by (simp_all add: sample_zero_def rx_bufs_def rx_window_def window_def rx_srid_def rx_ring_def rx_sring_def
        sample_defs ring_eval Let_def upt_rec dst_queue_def pending_def ring_dist_def entry_words_def entry_addr_def)
  then show ?thesis
    using zero_length_misattributed [OF sample_zero_inv, of "[0, 0]" "[7, 0]" "[]"] by auto
qed

text \<open>
  When the mapping of a new buffer fails, replenishing returns -EIO and the buffer it had just
  allocated stays allocated: it is not posted and it is not freed.
\<close>

theorem mapping_error_leaks_buffer:
  assumes "rx_inv i s" "rx_free i s" "rx_buf_needed (pipes (st_dst s) ! i) \<noteq> 0"
    and "env_alloc_skb env (k_calls s) (unat (buf_sz (pipes (st_dst s) ! i))) = Some b"
    and "env_dma_map env (Suc (k_calls s)) = None"
  shows "\<exists>s'. wireless_simu_test_dst_post_pipe env i s = Some (neg_errno EIO, s') \<and>
    k_skbs s' (k_calls s) = Some b \<and> k_calls s \<notin> set (rx_bufs (rx_ring i s')) \<and> k_trace s' = k_trace s"
proof (rule rx_invE [OF assms(1)])
  fix pipe d t
  assume v: "i < length (pipes (st_dst s))" "pipes (st_dst s) ! i = pipe" "pipe_dst_ring pipe = Some d"
    "pipe_status_ring pipe = Some t"
  let ?s = "s\<lparr>k_held := StDstLock # k_held s\<rparr>"
  obtain n where n: "unat (rx_buf_needed pipe) = Suc n"
    using assms(3) v(2) by (cases "unat (rx_buf_needed pipe)") (auto simp: unat_eq_0)
  have "rx_inv i ?s"
    using assms(1) by simp
  from dst_post_loop_stop(3) [OF this, of env b n] have "dst_post_loop (Suc n) env i ?s = Some (neg_errno EIO,
      ?s\<lparr>k_skbs := (k_skbs s)(k_calls s \<mapsto> b), k_calls := Suc (Suc (k_calls s))\<rparr>)"
    using assms(3-5) by simp
  moreover have "k_calls s \<notin> set (rx_bufs (rx_ring i s))"
    using assms(1) by (auto simp: rx_inv_def own_ok_def list_all_iff)
  ultimately show ?thesis
    using v n assms(2)
    by (simp add: wireless_simu_test_dst_post_pipe_def get_pipe_def nth_opt_def spin_lock_def
        spin_unlock_def rx_free_def)
qed

text \<open>The sample's pipe with one buffer taken, so that one is missing, and mappings that fail.\<close>

theorem mapping_error_leaks_buffer_witness:
  "\<exists>s'. wireless_simu_test_dst_post_pipe (sample_env\<lparr>env_dma_map := (\<lambda>_. None)\<rparr>) 0
       (rx_take 0 (rx_pop 0 sample_rx)) = Some (neg_errno EIO, s') \<and>
     k_skbs s' 10 \<noteq> None \<and> 10 \<notin> set (rx_bufs (rx_ring 0 s'))"
proof -
  let ?s = "rx_take 0 (rx_pop 0 sample_rx)"
  have ne: "dst_queue (rx_srid 0 sample_rx) sample_rx \<noteq> []" "rx_len 0 sample_rx \<noteq> 0"
    by (simp_all add: rx_len_def sample_rx_facts)
  have inv: "rx_inv 0 ?s" "rx_free 0 ?s"
    using recv_next_buffer [OF sample_rx_inv ne] sample_rx_inv(2)
    by (auto simp: rx_free_def rx_take_ids sample_rx_def sample_def)
  have "k_calls ?s = 10" "rx_buf_needed (pipes (st_dst ?s) ! 0) = 1"
    by (simp_all add: rx_take_def sample_rx_def sample_def sample_pipe_def Let_def)
  then show ?thesis
    using mapping_error_leaks_buffer [OF inv, of "sample_env\<lparr>env_dma_map := (\<lambda>_. None)\<rparr>"]
    by (auto simp: sample_env_def)
qed

text \<open>
  C27: The interrupt handler. With the registers mapped it schedules the bottom half of ring 0
  exactly when the status register reads 1, and as its last action clears the status register.
  An interrupt that arrives before the probe has stored its driver data, which it does only after
  requesting the interrupt, dereferences NULL.
\<close>

theorem irq_handler_correct:
  assumes "k_iomapped s"
  shows "wireless_simu_irq_handler True env s = Some (s\<lparr>k_trace := k_trace s @
     (if env_ioread env (k_trace s) (mmio_addr s + 8) = 1 then [EvTaskletSchedule 0] else []) @
     [EvIoWrite (mmio_addr s + 8) 0]\<rparr>) \<and>
   wireless_simu_irq_handler False env s = None"
  using assms
  by (simp add: wireless_simu_irq_handler_def wireless_hif_read32_def ioread32_def k_simps HAL_BASIC_REG_def emit_def)

theorem irq_handler_correct_witness:
  "\<exists>s'. wireless_simu_irq_handler True sample_env sample = Some s' \<and>
     k_trace s' = [EvTaskletSchedule 0, EvIoWrite 0xf0000008 0]"
  using irq_handler_correct [of sample sample_env] by (auto simp: sample_def sample_env_def)

end
