(* ===== verification/Pci.thy ===== *)
theory Pci
  imports Mac_Register Receive
begin

text \<open>
  The PCI driver (\<^verbatim>\<open>wireless.c\<close>): claiming the device, its interrupts, the probe that brings up ring
  layer, test modules and mac80211 in this order, and the removal. What the PCI core and the
  interrupt core answer is the record \<^verbatim>\<open>pci_env\<close>.
\<close>

section \<open>State\<close>

definition WIRELESS_REG_IRQ_ENABLE :: u64 where "WIRELESS_REG_IRQ_ENABLE = 0xF0"

record wireless_simu_pci = wireless_simu_reg +
  priv_ptr :: kptr
  pci_enabled :: bool
  pci_regions :: bool
  pci_master :: bool
  irq_vectors :: bool
  irq_handler :: bool \<comment> \<open>the interrupt handler is registered\<close>
  irq_vectors_num :: int
  msi_enable :: bool
  drvdata :: bool
  workqueue_aux :: bool
  stop :: bool
  tx_list :: "kptr option"

record pci_env =
  pe_assign_resource :: int
  pe_enable_device :: int
  pe_request_regions :: int
  pe_set_dma_mask :: int
  pe_iomap :: u64 \<comment> \<open>0 when the region cannot be mapped\<close>
  pe_vectors_msi :: int
  pe_vectors_all :: int
  pe_msi_desc :: bool
  pe_irq_vector :: int
  pe_request_irq :: int
  pe_workqueue :: bool

section \<open>Kernel services\<close>

definition pci_release_regions :: "'a wireless_simu_pci_scheme \<Rightarrow> 'a wireless_simu_pci_scheme option" where
  "pci_release_regions s = (if pci_regions s then Some (s\<lparr>pci_regions := False\<rparr>) else None)"

definition pci_disable_device :: "'a wireless_simu_pci_scheme \<Rightarrow> 'a wireless_simu_pci_scheme option" where
  "pci_disable_device s = (if pci_enabled s then Some (s\<lparr>pci_enabled := False\<rparr>) else None)"

definition pci_free_irq_vectors :: "'a wireless_simu_pci_scheme \<Rightarrow> 'a wireless_simu_pci_scheme" where
  "pci_free_irq_vectors s = s\<lparr>irq_vectors := False\<rparr>"

definition free_irq :: "'a wireless_simu_pci_scheme \<Rightarrow> 'a wireless_simu_pci_scheme" where
  "free_irq s = (if irq_handler s then s\<lparr>irq_handler := False\<rparr> else emit EvWarnOnce s)"

definition pci_iounmap :: "'a wireless_simu_pci_scheme \<Rightarrow> 'a wireless_simu_pci_scheme" where
  "pci_iounmap s = s\<lparr>k_iomapped := False\<rparr>"

section \<open>Operations\<close>

definition wireless_simu_pci_claim ::
  "pci_env \<Rightarrow> 'a wireless_simu_pci_scheme \<Rightarrow> (int \<times> 'a wireless_simu_pci_scheme) option" where
  "wireless_simu_pci_claim pe s =
     (if pe_assign_resource pe \<noteq> 0 then Some (pe_assign_resource pe, s)
      else if pe_enable_device pe \<noteq> 0 then Some (pe_enable_device pe, s)
      else
        let s = s\<lparr>pci_enabled := True\<rparr> in
        if pe_request_regions pe \<noteq> 0 then do {
          s \<leftarrow> pci_disable_device s;
          Some (pe_request_regions pe, s)
        } else
          let s = s\<lparr>pci_regions := True\<rparr> in
          if pe_set_dma_mask pe \<noteq> 0 then do {
            s \<leftarrow> pci_release_regions s;
            s \<leftarrow> pci_disable_device s;
            Some (pe_set_dma_mask pe, s)
          } else
            let s = s\<lparr>pci_master := True\<rparr> in
            if pe_iomap pe = 0 then do {
              s \<leftarrow> pci_release_regions s;
              s \<leftarrow> pci_disable_device s;
              Some (neg_errno EIO, s)
            } else Some (0, s\<lparr>k_iomapped := True, mmio_addr := pe_iomap pe\<rparr>))"

definition wireless_simu_pci_irq_init ::
  "pci_env \<Rightarrow> 'a wireless_simu_pci_scheme \<Rightarrow> (int \<times> 'a wireless_simu_pci_scheme) option" where
  "wireless_simu_pci_irq_init pe s =
     (let s = s\<lparr>msi_enable := \<not> pe_vectors_msi pe < 0\<rparr>;
          num_vectors = (if pe_vectors_msi pe < 0 then pe_vectors_all pe else pe_vectors_msi pe)
      in if num_vectors < 0 then do {
           s \<leftarrow> pci_release_regions s;
           s \<leftarrow> pci_disable_device s;
           Some (num_vectors, s)
         } else
           let s = s\<lparr>irq_vectors := True\<rparr> in
           if msi_enable s \<and> \<not> pe_msi_desc pe then do {
             let s = pci_free_irq_vectors s;
             s \<leftarrow> pci_release_regions s;
             s \<leftarrow> pci_disable_device s;
             Some (- 1, s)
           } else
             Some (0, s\<lparr>irq_handler := (pe_request_irq pe = 0), irq_vectors_num := pe_irq_vector pe\<rparr>))"

text \<open>The driver's structure as \<^verbatim>\<open>kzalloc\<close> gives it.\<close>

definition band_zero :: ieee80211_supported_band where
  "band_zero = \<lparr>sb_band = NL80211_BAND_2GHZ, sb_channels = None, n_channels = 0, sb_bitrates = [], n_bitrates = 0,
     ht_supported = False, mcs_rx_mask_0 = 0, mcs_tx_defined = False\<rparr>"

definition priv_zero :: "kptr \<Rightarrow> 'a wireless_simu_pci_scheme \<Rightarrow> 'a wireless_simu_pci_scheme" where
  "priv_zero p s = s\<lparr>mmio_addr := 0, hal := hal_zero, st_dst := srng_test_zero,
     vif := replicate WIRELESS_MAX_NUM_VIF None, filter_flags := 0, tx_interrupt_enable := False,
     rx_interrupt_enable := False, mgmt_tx_queue := [], num_pending_mgmt_tx := 0, txmgmt_idr := [], dev_flag := 0,
     hw := None, band_2GHZ := band_zero, band_5GHZ_channels := None, band_6GHZ_channels := None,
     mac_addr := replicate 6 0, priv_ptr := p, irq_vectors_num := 0, msi_enable := False, workqueue_aux := False,
     stop := False, tx_list := None\<rparr>"

text \<open>From the registration of the driver's data on: the part of the probe that uses the device.\<close>

definition probe_bringup ::
  "pci_env \<Rightarrow> mac_env \<Rightarrow> kenv \<Rightarrow> (nat \<Rightarrow> (u64 \<Rightarrow> u32) \<Rightarrow> (u64 \<Rightarrow> u32)) \<Rightarrow> 'a wireless_simu_pci_scheme \<Rightarrow>
   (int \<times> 'a wireless_simu_pci_scheme) option" where
  "probe_bringup pe me env dev s = do {
     let s = s\<lparr>drvdata := True\<rparr>;
     s \<leftarrow> wireless_hif_write32 (HAL_BASIC_REG (reg_basic_val WIRELESS_REG_BASIC_IRQ_ENABLE)) 1 s;
     _ \<leftarrow> ioread32 env (mmio_addr s + WIRELESS_REG_IRQ_ENABLE) s;
     (ret, s) \<leftarrow> wireless_simu_hal_srng_init env s;
     if ret \<noteq> 0 then Some (ret, s)
     else do {
       (_, s) \<leftarrow> wireless_simu_hal_srng_dst_test_init env s;
       s \<leftarrow> wireless_simu_hal_srng_test env dev s;
       if \<not> pe_workqueue pe then Some (- 1, s)
       else do {
         let s = s\<lparr>workqueue_aux := True\<rparr>;
         (_, s) \<leftarrow> wireless_mac80211_core_probe me env s;
         Some (0, s)
       }
     }
   }"

text \<open>The result of \<^verbatim>\<open>kzalloc\<close> is used without a check; when it is NULL the next statement faults.\<close>

definition wireless_simu_pci_probe ::
  "pci_env \<Rightarrow> mac_env \<Rightarrow> kenv \<Rightarrow> (nat \<Rightarrow> (u64 \<Rightarrow> u32) \<Rightarrow> (u64 \<Rightarrow> u32)) \<Rightarrow> 'a wireless_simu_pci_scheme \<Rightarrow>
   (int \<times> 'a wireless_simu_pci_scheme) option" where
  "wireless_simu_pci_probe pe me env dev s =
     (case kmalloc env s of
        (None, s) \<Rightarrow> None
      | (Some p, s) \<Rightarrow> do {
          let s = priv_zero p s;
          (ret, s) \<leftarrow> wireless_simu_pci_claim pe s;
          if ret \<noteq> 0 then Some (ret, s)
          else do {
            (ret, s) \<leftarrow> wireless_simu_pci_irq_init pe s;
            if ret \<noteq> 0 then Some (ret, s) else probe_bringup pe me env dev s
          }
        })"

text \<open>
  \<^verbatim>\<open>destroy_workqueue\<close> first runs the work that is pending. The worker's work is scheduled with every
  frame that is queued and ends with the queue empty, so it is pending (or has not ended) when a
  frame is queued, and does nothing otherwise: here it runs on what is queued.
\<close>

definition destroy_workqueue ::
  "mac_lib \<Rightarrow> nat \<Rightarrow> kenv \<Rightarrow> 'a wireless_simu_pci_scheme \<Rightarrow> 'a wireless_simu_pci_scheme option" where
  "destroy_workqueue lib n env s =
     (if \<not> workqueue_aux s then None
      else do {
        s \<leftarrow> wireless_simu_mgmt_tx_work_func lib n env s;
        Some (s\<lparr>workqueue_aux := False\<rparr>)
      })"

text \<open>The argument \<^verbatim>\<open>sched\<close> says which bottom halves are still scheduled when the removal begins.\<close>

definition wireless_simu_pci_remove ::
  "mac_lib \<Rightarrow> nat \<Rightarrow> kenv \<Rightarrow> (nat \<Rightarrow> bool) \<Rightarrow> 'a wireless_simu_pci_scheme \<Rightarrow> 'a wireless_simu_pci_scheme option" where
  "wireless_simu_pci_remove lib n env sched s =
     (if \<not> drvdata s then Some s
      else do {
        let s = s\<lparr>stop := True\<rparr>;
        (_, s) \<leftarrow> wireless_mac80211_core_remove s;
        let s = pci_free_irq_vectors (free_irq s);
        s \<leftarrow> wireless_hif_write32 (HAL_BASIC_REG (reg_basic_val WIRELESS_REG_BASIC_IRQ_ENABLE)) 0 s;
        s \<leftarrow> destroy_workqueue lib n env s;
        s \<leftarrow> wireless_simu_hal_srng_dst_test_deinit sched env s;
        s \<leftarrow> wireless_simu_hal_srng_deinit s;
        let s = pci_iounmap s;
        s \<leftarrow> pci_release_regions s;
        s \<leftarrow> pci_disable_device s;
        s \<leftarrow> kfree (tx_list s) s;
        kfree (Some (priv_ptr s)) s
      })"

definition wireless_simu_shutdown ::
  "mac_lib \<Rightarrow> nat \<Rightarrow> kenv \<Rightarrow> (nat \<Rightarrow> bool) \<Rightarrow> 'a wireless_simu_pci_scheme \<Rightarrow> 'a wireless_simu_pci_scheme option" where
  "wireless_simu_shutdown lib n env sched s = wireless_simu_pci_remove lib n env sched s"

section \<open>Specification\<close>

text \<open>The first answer that is an error, in the order the code asks.\<close>

definition claim_result :: "pci_env \<Rightarrow> int" where
  "claim_result pe =
     (if pe_assign_resource pe \<noteq> 0 then pe_assign_resource pe
      else if pe_enable_device pe \<noteq> 0 then pe_enable_device pe
      else if pe_request_regions pe \<noteq> 0 then pe_request_regions pe
      else if pe_set_dma_mask pe \<noteq> 0 then pe_set_dma_mask pe
      else if pe_iomap pe = 0 then neg_errno EIO else 0)"

definition irq_result :: "pci_env \<Rightarrow> int" where
  "irq_result pe =
     (if pe_vectors_msi pe < 0 \<and> pe_vectors_all pe < 0 then pe_vectors_all pe
      else if \<not> pe_vectors_msi pe < 0 \<and> \<not> pe_msi_desc pe then - 1 else 0)"

definition pci_idle :: "'a wireless_simu_pci_scheme \<Rightarrow> bool" where
  "pci_idle s = (\<not> pci_enabled s \<and> \<not> pci_regions s \<and> \<not> k_iomapped s \<and> \<not> irq_vectors s \<and> \<not> irq_handler s \<and> \<not> drvdata s)"

definition sample_pci :: wireless_simu_pci where
  "sample_pci = wireless_simu_reg.extend (sample_reg\<lparr>k_iomapped := False\<rparr>)
     (wireless_simu_pci.fields 0 False False False False False 0 False False False False None)"

definition sample_pci_env :: pci_env where
  "sample_pci_env = \<lparr>pe_assign_resource = 0, pe_enable_device = 0, pe_request_regions = 0, pe_set_dma_mask = 0,
     pe_iomap = 0xf0000000, pe_vectors_msi = - 1, pe_vectors_all = - 28, pe_msi_desc = True, pe_irq_vector = 40,
     pe_request_irq = 0, pe_workqueue = True\<rparr>"

section \<open>Lemmas\<close>

lemma pci_claim_exec:
  assumes "pci_idle s"
  shows "\<exists>s'. wireless_simu_pci_claim pe s = Some (claim_result pe, s') \<and> k_heap s' = k_heap s \<and>
    k_calls s' = k_calls s \<and>
    (if claim_result pe = 0
     then pci_enabled s' \<and> pci_regions s' \<and> k_iomapped s' \<and> mmio_addr s' = pe_iomap pe \<and>
       \<not> irq_vectors s' \<and> \<not> irq_handler s' \<and> \<not> drvdata s'
     else pci_idle s')"
  using assms
  by (simp add: wireless_simu_pci_claim_def claim_result_def pci_idle_def pci_release_regions_def
      pci_disable_device_def Let_def)

lemma pci_irq_exec:
  assumes "pci_enabled s" "pci_regions s" "\<not> irq_vectors s" "\<not> irq_handler s"
  shows "\<exists>s'. wireless_simu_pci_irq_init pe s = Some (irq_result pe, s') \<and> k_heap s' = k_heap s \<and>
    k_calls s' = k_calls s \<and> k_iomapped s' = k_iomapped s \<and> drvdata s' = drvdata s \<and> mmio_addr s' = mmio_addr s \<and>
    (if irq_result pe = 0
     then pci_enabled s' \<and> pci_regions s' \<and> irq_vectors s' \<and> irq_handler s' = (pe_request_irq pe = 0)
     else \<not> pci_enabled s' \<and> \<not> pci_regions s' \<and> \<not> irq_vectors s' \<and> \<not> irq_handler s')"
  using assms
  by (simp add: wireless_simu_pci_irq_init_def irq_result_def pci_release_regions_def
      pci_disable_device_def pci_free_irq_vectors_def Let_def)

lemma pci_idle_priv [simp]: "pci_idle (priv_zero p s) = pci_idle s" "k_heap (priv_zero p s) = k_heap s"
  "k_calls (priv_zero p s) = k_calls s"
  by (simp_all add: pci_idle_def priv_zero_def)

text \<open>Failing allocations leave the ring layer's initialisation with an error and PCI as it was.\<close>

lemma srng_init_fails:
  assumes "\<not> env_kmalloc env (k_calls s)"
  shows "wireless_simu_hal_srng_init env s = Some (neg_errno ENOMEM, (tick s)\<lparr>hal := hal_zero\<lparr>srng_config := None\<rparr>\<rparr>)"
  using assms
  by (simp add: wireless_simu_hal_srng_init_def hal_srng_create_config_def kmalloc_def Let_def tick_def)

section \<open>Property\<close>

text \<open>
  C36: What a failing probe leaves behind. Claiming the device is all or nothing: the first refusal
  is returned with everything given back. But the structure allocated for the device is not freed
  on any of the failures. When the interrupts are refused, regions and device are given back while
  the mapping of the registers stays; when the ring layer cannot be initialised, the probe returns
  the error with the device enabled, the registers mapped and the interrupt handler registered.
\<close>

theorem probe_failures:
  fixes s :: "'a wireless_simu_pci_scheme"
  assumes "pci_idle s" "env_kmalloc env (k_calls s)"
  shows "(claim_result pe \<noteq> 0 \<longrightarrow>
      (\<exists>s'. wireless_simu_pci_probe pe me env dev s = Some (claim_result pe, s') \<and> pci_idle s' \<and>
        k_heap s' = k_calls s # k_heap s)) \<and>
    (claim_result pe = 0 \<and> irq_result pe \<noteq> 0 \<longrightarrow>
      (\<exists>s'. wireless_simu_pci_probe pe me env dev s = Some (irq_result pe, s') \<and>
        \<not> pci_enabled s' \<and> \<not> pci_regions s' \<and> k_iomapped s' \<and> k_heap s' = k_calls s # k_heap s)) \<and>
    (claim_result pe = 0 \<and> irq_result pe = 0 \<and> \<not> env_kmalloc env (Suc (k_calls s)) \<longrightarrow>
      (\<exists>s'. wireless_simu_pci_probe pe me env dev s = Some (neg_errno ENOMEM, s') \<and>
        pci_enabled s' \<and> pci_regions s' \<and> k_iomapped s' \<and> drvdata s' \<and> irq_handler s' = (pe_request_irq pe = 0) \<and>
        k_heap s' = k_calls s # k_heap s))"
proof -
  let ?s = "priv_zero (k_calls s) ((tick s)\<lparr>k_heap := k_calls s # k_heap s\<rparr>)"
  have idle: "pci_idle ?s" "k_heap ?s = k_calls s # k_heap s" "k_calls ?s = Suc (k_calls s)"
    using assms(1) by (simp_all add: pci_idle_def tick_def priv_zero_def)
  obtain t where t: "wireless_simu_pci_claim pe ?s = Some (claim_result pe, t)" "k_heap t = k_heap ?s"
    "k_calls t = k_calls ?s"
    "if claim_result pe = 0
     then pci_enabled t \<and> pci_regions t \<and> k_iomapped t \<and> mmio_addr t = pe_iomap pe \<and>
       \<not> irq_vectors t \<and> \<not> irq_handler t \<and> \<not> drvdata t
     else pci_idle t"
    using pci_claim_exec [OF idle(1), of pe] by blast
  have run: "wireless_simu_pci_probe pe me env dev s =
      (if claim_result pe \<noteq> 0 then Some (claim_result pe, t)
       else wireless_simu_pci_irq_init pe t \<bind> (\<lambda>(ret, s). if ret \<noteq> 0 then Some (ret, s) else probe_bringup pe me env dev s))"
    using assms(2) t(1) by (simp add: wireless_simu_pci_probe_def kmalloc_def Let_def)
  show ?thesis
  proof (cases "claim_result pe = 0")
    case False
    then show ?thesis
      using run t idle by simp
  next
    case True
    then have t': "pci_enabled t" "pci_regions t" "\<not> irq_vectors t" "\<not> irq_handler t" "k_iomapped t"
      using t(4) by simp_all
    obtain u where u: "wireless_simu_pci_irq_init pe t = Some (irq_result pe, u)" "k_heap u = k_heap t"
      "k_calls u = k_calls t" "k_iomapped u = k_iomapped t"
      "if irq_result pe = 0
       then pci_enabled u \<and> pci_regions u \<and> irq_vectors u \<and> irq_handler u = (pe_request_irq pe = 0)
       else \<not> pci_enabled u \<and> \<not> pci_regions u \<and> \<not> irq_vectors u \<and> \<not> irq_handler u"
      using pci_irq_exec [OF t'(1-4), of pe] by blast
    have late: "\<exists>s'. probe_bringup pe me env dev u = Some (neg_errno ENOMEM, s') \<and>
        pci_enabled s' \<and> pci_regions s' \<and> k_iomapped s' \<and> drvdata s' \<and> irq_handler s' = (pe_request_irq pe = 0) \<and>
        k_heap s' = k_heap u" if "irq_result pe = 0" "\<not> env_kmalloc env (Suc (k_calls s))"
      using that u t' t(3) idle(3)
      by (simp add: probe_bringup_def wireless_hif_write32_def iowrite32_def ioread32_def Let_def
          srng_init_fails, simp add: tick_def emit_def)
    show ?thesis
      using True run u t t' idle late by (cases "irq_result pe = 0") auto
  qed
qed

theorem probe_failures_witness:
  "\<exists>s'. wireless_simu_pci_probe sample_pci_env (sample_mac_env True 0) sample_env (\<lambda>_ m. m) sample_pci = Some (- 28, s') \<and>
    \<not> pci_enabled s' \<and> k_iomapped s'"
proof -
  have pre: "pci_idle sample_pci" "env_kmalloc sample_env (k_calls sample_pci)"
    by (simp_all add: pci_idle_def sample_pci_def sample_env_def wireless_simu_reg.defs wireless_simu_pci.defs)
  have res: "claim_result sample_pci_env = 0" "irq_result sample_pci_env = - 28"
    by (simp_all add: claim_result_def irq_result_def sample_pci_env_def)
  show ?thesis
    using probe_failures [OF pre, of sample_pci_env "sample_mac_env True 0" "\<lambda>_ m. m"] res by auto
qed

end
