(* ===== verification/Ring_Alloc.thy ===== *)
theory Ring_Alloc
  imports Hal_Setup Srng_Test "HOL-Library.Multiset"
begin

text \<open>
  Allocation, registration and release of the rings of the test modules: the memory of a ring as
  a region among the live ones, what the allocator has to promise (regions that are live at the
  same time do not overlap), and that a ring in such a region can be handed to the ring layer.
\<close>

section \<open>Regions\<close>

text \<open>A region that does not wrap around the address space, and two that do not overlap.\<close>

definition region_flat :: "region \<Rightarrow> bool" where
  "region_flat r = (case r of (v, sz, p) \<Rightarrow> unat v + unat sz \<le> 2 ^ 64)"

definition regions_apart :: "region \<Rightarrow> region \<Rightarrow> bool" where
  "regions_apart r q = (case (r, q) of ((v, n, _), (w, m, _)) \<Rightarrow>
     unat v + unat n \<le> unat w \<or> unat w + unat m \<le> unat v)"

definition regions_ok :: "region list \<Rightarrow> bool" where
  "regions_ok rs = (list_all region_flat rs \<and> sorted_wrt regions_apart rs)"

text \<open>
  The allocator is honest about the requests \<^term>\<open>reqs\<close> (number of the call and size): what it
  grants overlaps neither with what it grants to another of them nor with live memory.
\<close>

definition dma_grant :: "kenv \<Rightarrow> nat \<times> u64 \<Rightarrow> region" where
  "dma_grant env req = (case req of (c, sz) \<Rightarrow> case env_dma_alloc env c sz of (v, p) \<Rightarrow> (v, sz, p))"

definition dma_honest :: "kenv \<Rightarrow> (nat \<times> u64) list \<Rightarrow> 'a kernel_scheme \<Rightarrow> bool" where
  "dma_honest env reqs s = regions_ok (filter (\<lambda>r. fst r \<noteq> 0) (map (dma_grant env) reqs) @ k_dma s)"

section \<open>Rings\<close>

definition ring_region :: "srng_test_ring \<Rightarrow> region" where
  "ring_region d = (base_addr_owner_space_unaligned d, dma_size d, base_addr_test_space_unaligned d)"

definition ring_frees :: "srng_test_ring \<Rightarrow> kevent list" where
  "ring_frees d = [EvDmaFree (base_addr_owner_space_unaligned d) (dma_size d) (base_addr_test_space_unaligned d),
     EvKfree (ring_kptr d)]"

text \<open>The bytes of a ring of 32 entries, the alignment reserve included.\<close>

definition ring_bytes :: "nat \<Rightarrow> nat" where
  "ring_bytes desc = 32 * desc + 8"

definition new_ring :: "kptr \<Rightarrow> region \<Rightarrow> srng_test_ring" where
  "new_ring k r = (case r of (v, sz, p) \<Rightarrow>
     \<lparr>ring_kptr = k, nentries = 32, nentries_mask = 31, sw_index = 0, write_index = 0,
      base_addr_owner_space_unaligned = v, base_addr_test_space_unaligned = p, dma_size = sz,
      base_addr_owner_space = ALIGN v 8, base_addr_test_space = ALIGN p 8, hal_ring_id = 0,
      ring_skb = replicate 32 None\<rparr>)"

definition ring_params :: "srng_test_ring \<Rightarrow> hal_srng_params" where
  "ring_params d = hal_srng_params_zero\<lparr>p_ring_base_paddr := base_addr_test_space d,
     p_ring_base_vaddr := base_addr_owner_space d, p_num_entries := sint (nentries d)\<rparr>"

text \<open>The kernel's part of a successful allocation.\<close>

definition ring_grant :: "kenv \<Rightarrow> nat \<Rightarrow> 'a kernel_scheme \<Rightarrow> region" where
  "ring_grant env desc s = dma_grant env (Suc (k_calls s), of_nat (ring_bytes desc))"

definition ring_granted :: "kenv \<Rightarrow> nat \<Rightarrow> 'a kernel_scheme \<Rightarrow> bool" where
  "ring_granted env desc s = (env_kmalloc env (k_calls s) \<and> fst (ring_grant env desc s) \<noteq> 0)"

definition ring_alloc_state :: "kenv \<Rightarrow> nat \<Rightarrow> 'a kernel_scheme \<Rightarrow> 'a kernel_scheme" where
  "ring_alloc_state env desc s =
     (let r = ring_grant env desc s
      in s\<lparr>k_calls := k_calls s + 2, k_heap := k_calls s # k_heap s, k_dma := r # k_dma s,
           k_mem := mem_zero (fst r) (ring_bytes desc) (k_mem s)\<rparr>)"

definition ring_refused_state :: "kenv \<Rightarrow> 'a kernel_scheme \<Rightarrow> 'a kernel_scheme" where
  "ring_refused_state env s = (if env_kmalloc env (k_calls s)
     then s\<lparr>k_calls := k_calls s + 2, k_trace := k_trace s @ [EvKfree (k_calls s)]\<rparr> else tick s)"

section \<open>Lemmas\<close>

lemma mset_sub_pair:
  assumes "{#a, b#} \<subseteq># mset xs"
  shows "a \<in> set xs" "b \<in> set (remove1 a xs)" "mset (remove1 b (remove1 a xs)) = mset xs - {#a, b#}"
proof -
  show "a \<in> set xs"
    using assms mset_subset_eqD [of "{#a, b#}" "mset xs" a] by simp
  have "{#b#} \<subseteq># mset xs - {#a#}"
    using assms by (simp add: subset_mset.le_diff_conv2 insert_subset_eq_iff)
  then show "b \<in> set (remove1 a xs)"
    by (metis mset_remove1 mset_subset_eqD set_mset_mset union_single_eq_member add_mset_add_single)
  show "mset (remove1 b (remove1 a xs)) = mset xs - {#a, b#}"
    by (simp add: diff_diff_add_mset add_mset_commute)
qed

lemma free_dst_ring_exec:
  assumes "ring_region d \<in> set (k_dma s)" "ring_kptr d \<in> set (k_heap s)"
  shows "free_dst_ring d s = Some (s\<lparr>k_dma := remove1 (ring_region d) (k_dma s),
    k_heap := remove1 (ring_kptr d) (k_heap s), k_trace := k_trace s @ ring_frees d\<rparr>)"
  using assms by (simp add: free_dst_ring_def dma_free_coherent_def kfree_def ring_region_def ring_frees_def emit_def)

lemma in_region_bounds:
  assumes "region_flat (v, sz, p)" "in_region a n (v, sz, p)" "0 < n"
  shows "unat v \<le> unat a" "unat a + n \<le> unat v + unat sz"
proof -
  have d: "unat (a - v) + n \<le> unat sz" "unat v + unat sz \<le> 2 ^ 64"
    using assms by (simp_all add: in_region_def region_flat_def)
  have "unat a = unat (v + (a - v))"
    by simp
  also have "\<dots> = unat v + unat (a - v)"
    using d assms(3) by (subst unat_add_lem [THEN iffD1]) (simp_all)
  finally show "unat v \<le> unat a" "unat a + n \<le> unat v + unat sz"
    using d by simp_all
qed

lemma outside_dist:
  fixes a b :: u64
  assumes "unat b + m \<le> 2 ^ 64" "unat a < unat b \<or> unat b + m \<le> unat a"
  shows "m \<le> unat (a - b)"
  using assms unsigned_less [where ?'a = nat and w = b] by (auto simp: unat_sub_if')

lemma roundup_32: "ring_nentries 32 = 32"
  by code_simp

lemma alloc_ring_exec:
  assumes "desc \<le> 20"
  shows "hal_srng_test_alloc_ring env 32 (int desc) s =
    Some (if ring_granted env desc s
          then (Inr (new_ring (k_calls s) (ring_grant env desc s)), ring_alloc_state env desc s)
          else (Inl ENOMEM, ring_refused_state env s))"
proof -
  define sz where "sz = (of_nat (ring_bytes desc) :: u64)"
  have bytes: "(of_int (32 * int desc + uint SRNG_TEST_DESC_RING_ALIGN) :: u64) = sz"
    by (simp add: SRNG_TEST_DESC_RING_ALIGN_def ring_bytes_def sz_def)
  have un: "unat sz = ring_bytes desc"
    unfolding sz_def using assms by (intro unat_of_nat_64) (simp add: ring_bytes_def)
  obtain v p where g: "env_dma_alloc env (Suc (k_calls s)) sz = (v, p)"
    by (cases "env_dma_alloc env (Suc (k_calls s)) sz")
  have pos: "ring_bytes desc \<noteq> 0"
    by (simp add: ring_bytes_def)
  have dma: "dma_alloc_coherent env sz (s\<lparr>k_calls := Suc (k_calls s), k_heap := k_calls s # k_heap s\<rparr>)
      = (if v = 0 then ((v, p), s\<lparr>k_calls := k_calls s + 2, k_heap := k_calls s # k_heap s\<rparr>)
         else ((v, p), s\<lparr>k_calls := k_calls s + 2, k_heap := k_calls s # k_heap s, k_dma := (v, sz, p) # k_dma s\<rparr>))"
    using g by (simp add: dma_alloc_coherent_def tick_def)
  have grant: "ring_grant env desc s = (v, sz, p)"
    using g by (simp add: ring_grant_def dma_grant_def sz_def)
  show ?thesis
    unfolding hal_srng_test_alloc_ring_def bytes Let_def
    using un pos
    by (cases "env_kmalloc env (k_calls s)"; cases "v = 0")
      (simp_all add: kmalloc_def tick_def dma ring_granted_def ring_refused_state_def grant kfree_def emit_def memset_0_def mem_ok_def
        in_region_def ring_alloc_state_def new_ring_def mem_zero_def SRNG_TEST_DESC_RING_ALIGN_def cong: if_cong)
qed

lemma alloc_ring_yes:
  "ring_granted env desc s \<Longrightarrow> desc \<le> 20 \<Longrightarrow> hal_srng_test_alloc_ring env 32 (int desc) s =
     Some (Inr (new_ring (k_calls s) (ring_grant env desc s)), ring_alloc_state env desc s)"
  by (simp add: alloc_ring_exec)

lemma alloc_ring_no:
  "\<not> ring_granted env desc s \<Longrightarrow> desc \<le> 20 \<Longrightarrow> hal_srng_test_alloc_ring env 32 (int desc) s =
     Some (Inl ENOMEM, ring_refused_state env s)"
  by (simp add: alloc_ring_exec)

lemmas alloc_ring_12 = alloc_ring_yes [of _ 12, simplified] alloc_ring_no [of _ 12, simplified]
lemmas alloc_ring_8 = alloc_ring_yes [of _ 8, simplified] alloc_ring_no [of _ 8, simplified]
lemmas alloc_ring_20 = alloc_ring_yes [of _ 20, simplified] alloc_ring_no [of _ 20, simplified]

lemma ring_alloc_state_frame [simp]:
  "k_calls (ring_alloc_state env desc s) = k_calls s + 2" "k_heap (ring_alloc_state env desc s) = k_calls s # k_heap s"
  "k_dma (ring_alloc_state env desc s) = ring_grant env desc s # k_dma s"
  "k_maps (ring_alloc_state env desc s) = k_maps s" "k_skbs (ring_alloc_state env desc s) = k_skbs s"
  "k_held (ring_alloc_state env desc s) = k_held s" "k_iomapped (ring_alloc_state env desc s) = k_iomapped s"
  "k_trace (ring_alloc_state env desc s) = k_trace s"
  by (simp_all add: ring_alloc_state_def Let_def)

lemma ring_alloc_state_frame_ws [simp]:
  fixes w :: "'a wireless_simu_scheme"
  shows "hal (ring_alloc_state env desc w) = hal w" "st_dst (ring_alloc_state env desc w) = st_dst w"
    "mmio_addr (ring_alloc_state env desc w) = mmio_addr w"
  by (simp_all add: ring_alloc_state_def Let_def)

lemma ring_refused_state_frame [simp]:
  "k_heap (ring_refused_state env s) = k_heap s" "k_dma (ring_refused_state env s) = k_dma s"
  "k_maps (ring_refused_state env s) = k_maps s" "k_skbs (ring_refused_state env s) = k_skbs s"
  "k_held (ring_refused_state env s) = k_held s" "k_iomapped (ring_refused_state env s) = k_iomapped s"
  by (simp_all add: ring_refused_state_def tick_def)

lemma ring_refused_state_frame_ws [simp]:
  fixes w :: "'a wireless_simu_scheme"
  shows "hal (ring_refused_state env w) = hal w" "st_dst (ring_refused_state env w) = st_dst w"
    "mmio_addr (ring_refused_state env w) = mmio_addr w"
  by (simp_all add: ring_refused_state_def tick_def)

lemma new_ring_fields [simp]:
  "nentries (new_ring k r) = 32" "nentries_mask (new_ring k r) = 31" "ring_skb (new_ring k r) = replicate 32 None"
  "ring_kptr (new_ring k r) = k" "ring_region (new_ring k r) = r" "sw_index (new_ring k r) = 0"
  "write_index (new_ring k r) = 0" "base_addr_owner_space (new_ring k r) = ALIGN (fst r) 8"
  by (cases r; simp add: new_ring_def ring_region_def)+

lemma new_ring_base:
  assumes "region_flat r" "fst (snd r) = of_nat (ring_bytes desc)" "desc \<le> 20"
  shows "unat (fst r) \<le> unat (ALIGN (fst r) 8)" "unat (ALIGN (fst r) 8) + 32 * desc \<le> unat (fst r) + unat (fst (snd r))"
    "unat (fst (snd r)) = ring_bytes desc"
proof -
  obtain v sz p where r: "r = (v, sz, p)"
    by (cases r)
  have lt: "ring_bytes desc < 2 ^ 64"
    using assms(3) by (simp add: ring_bytes_def)
  show sz: "unat (fst (snd r)) = ring_bytes desc"
    unfolding assms(2) by (rule unat_of_nat_64 [OF lt])
  have "unat v + ring_bytes desc \<le> 2 ^ 64"
    using assms(1) sz r by (simp add: region_flat_def)
  then have "unat v + 7 < 2 ^ 64"
    by (simp add: ring_bytes_def)
  note b = unat_ALIGN_8_bounds [OF this]
  show "unat (fst r) \<le> unat (ALIGN (fst r) 8)"
    using b r by simp
  show "unat (ALIGN (fst r) 8) + 32 * desc \<le> unat (fst r) + unat (fst (snd r))"
    unfolding sz using b(2) r by (simp add: ring_bytes_def)
qed

lemma new_ring_mem:
  assumes "region_flat r" "fst (snd r) = of_nat (ring_bytes desc)" "desc \<le> 20" "r \<in> set (k_dma s)"
  shows "mem_ok (ALIGN (fst r) 8) (32 * desc) s"
proof -
  note b = new_ring_base [OF assms(1-3)]
  have "unat (ALIGN (fst r) 8 - fst r) = unat (ALIGN (fst r) 8) - unat (fst r)"
    using b(1) by (simp add: unat_sub word_le_nat_alt)
  then have "in_region (ALIGN (fst r) 8) (32 * desc) r"
    using b by (cases r) (simp add: in_region_def)
  then show ?thesis
    using assms(4) by (auto simp: mem_ok_def list_ex_iff)
qed

text \<open>The pointer cells lie in live memory and so outside a ring that was allocated besides them.\<close>

lemma cell_outside:
  assumes "region_flat r" "fst (snd r) = of_nat (ring_bytes desc)" "desc \<le> 20"
    "in_region a 688 q" "region_flat q" "regions_apart r q" "k + 4 \<le> 688"
  shows "32 * desc \<le> unat (a + of_nat k - ALIGN (fst r) 8)"
proof (rule outside_dist)
  obtain v sz p w m p' where rq: "r = (v, sz, p)" "q = (w, m, p')"
    by (cases r; cases q)
  note b = new_ring_base [OF assms(1-3)]
  have d: "unat (a + of_nat k - w) + 4 \<le> unat m"
    using unat_offset_le [of a k w] assms(4,7) rq by (simp add: in_region_def)
  have "in_region (a + of_nat k) 4 (w, m, p')"
    using d by (simp add: in_region_def)
  then have c: "unat w \<le> unat (a + of_nat k)" "unat (a + of_nat k) + 4 \<le> unat w + unat m"
    using in_region_bounds assms(5) rq by auto
  show "unat (ALIGN (fst r) 8) + 32 * desc \<le> 2 ^ 64"
    using b assms(1) rq by (simp add: region_flat_def)
  show "unat (a + of_nat k) < unat (ALIGN (fst r) 8) \<or> unat (ALIGN (fst r) 8) + 32 * desc \<le> unat (a + of_nat k)"
    using assms(6) b c rq by (auto simp: regions_apart_def)
qed

text \<open>What the ring layer offers to a module: its tables, its pointer cells, the registers.\<close>

definition hal_up :: "'a wireless_simu_scheme \<Rightarrow> bool" where
  "hal_up s = (get_srng_config s = Some hw_srng_config_template \<and> k_iomapped s \<and> mem_ok (rdp_vaddr (hal s)) 688 s)"

definition ring_live :: "hal_ring_type \<Rightarrow> srng_test_ring \<Rightarrow> 'a wireless_simu_scheme \<Rightarrow> bool" where
  "ring_live type d s =
     (let r = ring_region d
      in base_addr_owner_space d = ALIGN (fst r) 8 \<and> nentries d = 32 \<and> r \<in> set (k_dma s) \<and> region_flat r \<and>
         fst (snd r) = of_nat (ring_bytes (4 * type_esz type)) \<and>
         (\<exists>q\<in>set (k_dma s). region_flat q \<and> in_region (rdp_vaddr (hal s)) 688 q \<and> regions_apart r q))"

lemma type_desc_20: "4 * type_esz type \<le> 20"
  using type_esz_bounds(2) [of type] by simp

lemma ring_params_fields [simp]:
  "p_ring_base_vaddr (ring_params d) = base_addr_owner_space d" "p_ring_base_paddr (ring_params d) = base_addr_test_space d"
  "nentries d = 32 \<Longrightarrow> p_num_entries (ring_params d) = 32" "p_flags (ring_params d) = 0"
  by (simp_all add: ring_params_def hal_srng_params_zero_def)

lemma ring_live_pre:
  assumes "hal_up s" "ring_live type d s"
  shows "setup_pre type (ring_params d) s"
proof -
  obtain q where d: "base_addr_owner_space d = ALIGN (fst (ring_region d)) 8" "nentries d = 32"
    "ring_region d \<in> set (k_dma s)" "region_flat (ring_region d)"
    "fst (snd (ring_region d)) = of_nat (ring_bytes (4 * type_esz type))" and
    q: "region_flat q" "in_region (rdp_vaddr (hal s)) 688 q" "regions_apart (ring_region d) q"
    using assms(2) by (auto simp: ring_live_def Let_def)
  have bytes: "4 * (type_esz type * 32) = 32 * (4 * type_esz type)"
    by simp
  have "32 * (4 * type_esz type) \<le> unat (rdp_vaddr (hal s) + of_nat (4 * type_rid type) - ALIGN (fst (ring_region d)) 8)"
    by (rule cell_outside [OF d(4,5) type_desc_20 q(2,1,3) type_rid_bound(2)])
  moreover have "mem_ok (ALIGN (fst (ring_region d)) 8) (32 * (4 * type_esz type)) s"
    by (rule new_ring_mem [OF d(4,5) type_desc_20 d(3)])
  ultimately show ?thesis
    using assms(1) d(1,2) type_esz_bounds(2) [of type]
    by (simp only: setup_pre_def Let_def hal_up_def ring_params_fields nat_numeral bytes) simp
qed

lemma init_ring_exec:
  assumes "hal_up s" "ring_live type d s"
  shows "hal_srng_test_init_ring env d 0 type s =
    Some (0, d\<lparr>hal_ring_id := of_nat (type_rid type)\<rparr>,
      setup_state type (ring_params d) (setup_ring env type (ring_params d) s) (setup_regs env type (ring_params d) s) s)"
  using setup_either [OF ring_live_pre [OF assms], of env 0]
  by (simp add: hal_srng_test_init_ring_def ring_params_def Let_def)

end
