(* ===== verification/Rx_Release.thy ===== *)
theory Rx_Release
  imports Rx_System Ring_Alloc
begin

text \<open>
  The release of the receive module: what the module owns (posted buffers with their mappings, the
  memory and the bookkeeping of its two rings, its configuration) as a ledger over the kernel's
  lists, and that \<^verbatim>\<open>wireless_simu_hal_srng_dst_test_deinit\<close> gives back exactly that.
\<close>

section \<open>Definitions\<close>

definition slot_bufs :: "skbp option list \<Rightarrow> skbp list" where
  "slot_bufs xs = map the (filter (\<lambda>x. x \<noteq> None) xs)"

text \<open>What the module owns: buffers, regions and heap objects.\<close>

definition rx_skbs :: "'a wireless_simu_scheme \<Rightarrow> skbp list" where
  "rx_skbs s = slot_bufs (ring_skb (rx_ring 0 s))"

definition rx_regions :: "'a wireless_simu_scheme \<Rightarrow> region list" where
  "rx_regions s = [ring_region (rx_ring 0 s), ring_region (rx_sring 0 s)]"

definition rx_objects :: "'a wireless_simu_scheme \<Rightarrow> kptr list" where
  "rx_objects s = [ring_kptr (rx_ring 0 s), ring_kptr (rx_sring 0 s), fst (the (host_config (st_dst s)))]"

text \<open>
  The ledger: one pipe with a posting and a status ring, the regions of both rings among the live
  ones, the ring structures and the configuration on the heap, and, for the second predicate, every
  buffer in a slot of the posting ring owned with its mapping.
\<close>

definition rx_static :: "'a wireless_simu_scheme \<Rightarrow> bool" where
  "rx_static s =
     (pipes_count (st_dst s) = 1 \<and> host_config (st_dst s) \<noteq> None \<and>
      (case pipes (st_dst s) of
         [pipe] \<Rightarrow> pipe_src_ring pipe = None \<and> pipe_dst_ring pipe \<noteq> None \<and> pipe_status_ring pipe \<noteq> None
       | _ \<Rightarrow> False) \<and>
      unat (nentries (rx_ring 0 s)) = length (ring_skb (rx_ring 0 s)) \<and>
      mset (rx_regions s) \<subseteq># mset (k_dma s) \<and> mset (rx_objects s) \<subseteq># mset (k_heap s))"

definition rx_owned :: "'a wireless_simu_scheme \<Rightarrow> bool" where
  "rx_owned s = (rx_static s \<and> own_ok s (rx_skbs s))"

text \<open>The release of a list of buffers with their mappings.\<close>

definition release_skbs :: "skbp list \<Rightarrow> 'a kernel_scheme \<Rightarrow> 'a kernel_scheme" where
  "release_skbs ps s = s\<lparr>k_maps := fold remove1 (map (skb_map s) ps) (k_maps s),
     k_skbs := (\<lambda>p. if p \<in> set ps then None else k_skbs s p),
     k_trace := k_trace s @ map EvSkbFree ps\<rparr>"

section \<open>Lemmas\<close>

lemma mset_fold_remove1: "mset (fold remove1 xs ys) = mset ys - mset xs"
  by (induction xs arbitrary: ys) (simp_all add: diff_diff_add_mset)

lemma slot_bufs_simps [simp]:
  "slot_bufs [] = []" "slot_bufs (None # xs) = slot_bufs xs" "slot_bufs (Some p # xs) = p # slot_bufs xs"
  "slot_bufs (xs @ ys) = slot_bufs xs @ slot_bufs ys"
  by (simp_all add: slot_bufs_def)

lemma slot_bufs_take_Suc:
  "k < length xs \<Longrightarrow> slot_bufs (take (Suc k) xs)
     = slot_bufs (take k xs) @ (case xs ! k of None \<Rightarrow> [] | Some p \<Rightarrow> [p])"
  by (simp add: take_Suc_conv_app_nth split: option.split)

lemma skb_map_frame [simp]:
  "skb_map (s\<lparr>k_held := h\<rparr>) = skb_map s" "skb_map (s\<lparr>k_trace := t\<rparr>) = skb_map s"
  "skb_map (s\<lparr>k_dma := r\<rparr>) = skb_map s" "skb_map (s\<lparr>k_heap := hp\<rparr>) = skb_map s"
  "skb_map (s\<lparr>k_calls := c\<rparr>) = skb_map s" "skb_map (s\<lparr>k_mem := m\<rparr>) = skb_map s"
  "skb_map (s\<lparr>k_maps := mp\<rparr>) = skb_map s" "skb_map (emit e s) = skb_map s"
  by (rule skb_map_cong, simp)+

lemma release_skbs_Nil [simp]: "release_skbs [] s = s"
  by (simp add: release_skbs_def)

lemma own_ok_split:
  assumes "own_ok s (ps @ p # qs)"
  shows "p \<notin> set ps" and "\<exists>b. k_skbs s p = Some b \<and> skb_map s p = (cb_paddr (skb_cb b), skb_len b + skb_tailroom b)"
    and "skb_map s p \<in> set (fold remove1 (map (skb_map s) ps) (k_maps s))"
proof -
  show "p \<notin> set ps"
    using assms by (auto simp: own_ok_def)
  show "\<exists>b. k_skbs s p = Some b \<and> skb_map s p = (cb_paddr (skb_cb b), skb_len b + skb_tailroom b)"
    using assms by (auto simp: own_ok_def skb_map_def split: option.splits)
  have "(image_mset (skb_map s) (mset ps) + {#skb_map s p#}) + image_mset (skb_map s) (mset qs) \<subseteq># mset (k_maps s)"
    using assms by (simp add: own_ok_def)
  then have "image_mset (skb_map s) (mset ps) + {#skb_map s p#} \<subseteq># mset (k_maps s)"
    by (rule subset_mset.order_trans [OF mset_subset_eq_add_left])
  then have "{#skb_map s p#} \<subseteq># mset (fold remove1 (map (skb_map s) ps) (k_maps s))"
    unfolding mset_fold_remove1 mset_map
    by (metis add_diff_cancel_left' subset_mset.diff_add mset_subset_eq_add_left subset_eq_diff_conv union_commute)
  then show "skb_map s p \<in> set (fold remove1 (map (skb_map s) ps) (k_maps s))"
    by (simp only: single_subset_iff set_mset_mset)
qed

lemma release_skbs_snoc:
  assumes "own_ok s (ps @ p # qs)" "k_skbs s p = Some b"
  shows "dma_unmap_single (cb_paddr (skb_cb b)) (skb_len b + skb_tailroom b) (release_skbs ps s)
      = Some ((release_skbs ps s)\<lparr>k_maps := remove1 (skb_map s p) (k_maps (release_skbs ps s))\<rparr>)"
    and "dev_kfree_skb_any p ((release_skbs ps s)\<lparr>k_maps := remove1 (skb_map s p) (k_maps (release_skbs ps s))\<rparr>)
      = Some (release_skbs (ps @ [p]) s)"
  using own_ok_split [OF assms(1)] assms(2)
  by (auto simp: dma_unmap_single_def release_skbs_def dev_kfree_skb_any_def skb_get_def emit_def fun_eq_iff)

lemma cleanup_slots:
  assumes "own_ok s (slot_bufs (ring_skb d))" "k \<le> length (ring_skb d)"
  shows "foldo cleanup_slot [0..<k] (d, s) =
    Some (d\<lparr>ring_skb := replicate k None @ drop k (ring_skb d)\<rparr>,
      release_skbs (slot_bufs (take k (ring_skb d))) s)"
  using assms(2)
proof (induction k)
  case 0
  then show ?case by simp
next
  case (Suc k)
  let ?xs = "ring_skb d"
  have k: "k < length ?xs"
    using Suc.prems by simp
  have split: "slot_bufs ?xs = slot_bufs (take k ?xs) @ (case ?xs ! k of None \<Rightarrow> [] | Some p \<Rightarrow> [p])
      @ slot_bufs (drop (Suc k) ?xs)"
    using id_take_nth_drop [OF k] by (metis slot_bufs_simps(4) slot_bufs_take_Suc [OF k] append_assoc append_take_drop_id)
  have drop: "drop k ?xs = ?xs ! k # drop (Suc k) ?xs"
    using Cons_nth_drop_Suc [OF k] by simp
  have nth: "(replicate k None @ drop k ?xs) ! k = ?xs ! k"
    by (simp add: nth_append drop)
  have upd: "(replicate k None @ drop k ?xs)[k := None] = replicate (Suc k) None @ drop (Suc k) ?xs"
    by (simp add: list_update_append drop replicate_append_same [symmetric])
  show ?case
  proof (cases "?xs ! k")
    case None
    then have "replicate k None @ drop k ?xs = replicate (Suc k) None @ drop (Suc k) ?xs"
      by (simp add: drop replicate_append_same [symmetric])
    then show ?thesis
      using None Suc k nth by (simp add: foldo_append cleanup_slot_def nth_opt_def slot_bufs_take_Suc)
  next
    case (Some p)
    then have own: "own_ok s (slot_bufs (take k ?xs) @ p # slot_bufs (drop (Suc k) ?xs))"
      using assms(1) split by simp
    obtain b where b: "k_skbs s p = Some b"
      using own_ok_split(2) [OF own] by blast
    have "skb_get p (release_skbs (slot_bufs (take k ?xs)) s) = Some b"
      using own_ok_split(1) [OF own] b by (simp add: skb_get_def release_skbs_def)
    then show ?thesis
      using Some Suc k nth upd release_skbs_snoc [OF own b]
      by (simp add: foldo_append cleanup_slot_def nth_opt_def slot_bufs_take_Suc Let_def)
  qed
qed

lemma rx_ownedE:
  assumes "rx_owned s"
  obtains pipe d t k c where "pipes_count (st_dst s) = 1" "pipes (st_dst s) = [pipe]"
    "host_config (st_dst s) = Some (k, c)" "pipe_src_ring pipe = None" "pipe_dst_ring pipe = Some d"
    "pipe_status_ring pipe = Some t" "rx_ring 0 s = d" "rx_sring 0 s = t"
    "unat (nentries d) = length (ring_skb d)" "own_ok s (slot_bufs (ring_skb d))"
    "mset [ring_region d, ring_region t] \<subseteq># mset (k_dma s)"
    "mset [ring_kptr d, ring_kptr t, k] \<subseteq># mset (k_heap s)"
proof -
  obtain pipe d t k c where p: "pipes (st_dst s) = [pipe]" "host_config (st_dst s) = Some (k, c)"
    "pipe_src_ring pipe = None" "pipe_dst_ring pipe = Some d" "pipe_status_ring pipe = Some t"
    using assms by (auto simp: rx_owned_def rx_static_def split: list.splits)
  then have "rx_ring 0 s = d" "rx_sring 0 s = t"
    by (simp_all add: rx_ring_def rx_sring_def)
  then show ?thesis
    using that [of pipe k c d t] assms p
    by (auto simp: rx_owned_def rx_static_def rx_skbs_def rx_regions_def rx_objects_def)
qed

lemma free_pipe_rx:
  assumes "pipe_src_ring pipe = None" "pipe_dst_ring pipe = Some d" "pipe_status_ring pipe = Some t"
    "{#ring_region d, ring_region t#} \<subseteq># mset (k_dma s)" "{#ring_kptr d, ring_kptr t#} \<subseteq># mset (k_heap s)"
  shows "free_pipe pipe s = Some (pipe\<lparr>pipe_dst_ring := None, pipe_status_ring := None\<rparr>,
    s\<lparr>k_dma := remove1 (ring_region t) (remove1 (ring_region d) (k_dma s)),
      k_heap := remove1 (ring_kptr t) (remove1 (ring_kptr d) (k_heap s)),
      k_trace := k_trace s @ ring_frees d @ ring_frees t\<rparr>)"
  using assms(1-3) mset_sub_pair(1,2) [OF assms(4)] mset_sub_pair(1,2) [OF assms(5)]
  by (simp add: free_pipe_def free_dst_ring_exec)

text \<open>
  The bottom half takes the module's lock, so that it never returns to a caller who holds it: a
  release that finds a tasklet scheduled waits for ever.
\<close>

lemma tasklet_blocks:
  "StDstLock \<in> set (k_held s) \<Longrightarrow> wireless_simu_hal_srng_dst_tasklet fuel env dev i s = None"
  by (cases fuel) (auto simp: wireless_simu_hal_srng_dst_tasklet_def wireless_simu_irq_hal_srng_dst_dma_test_def
      dst_recv_loop.simps dst_recv_one_def wireless_simu_test_dst_recv_next_def spin_lock_def Let_def split: bind_splits)

lemma tasklet_kill_simps:
  "\<not> sched i \<Longrightarrow> tasklet_kill sched env i s = Some (emit (EvTaskletKill i) s)"
  "sched i \<Longrightarrow> StDstLock \<in> set (k_held s) \<Longrightarrow> tasklet_kill sched env i s = None"
  by (auto simp: tasklet_kill_def tasklet_blocks split: bind_splits)

lemma dst_deinit_blocks:
  assumes "0 < pipes_count (st_dst s)" "sched 0"
  shows "wireless_simu_hal_srng_dst_test_deinit sched env s = None"
proof -
  have "[0..<nat (pipes_count (st_dst s))] = 0 # [Suc 0..<nat (pipes_count (st_dst s))]"
    using assms(1) by (simp add: upt_conv_Cons)
  then show ?thesis
    using assms(2) by (auto simp: wireless_simu_hal_srng_dst_test_deinit_def spin_lock_def tasklet_kill_simps split: bind_splits)
qed

text \<open>The module's release, in closed form up to the order of the kernel's lists.\<close>

lemma dst_deinit_exec:
  fixes s :: "'a wireless_simu_scheme"
  assumes "rx_owned s" "StDstLock \<notin> set (k_held s)" "\<not> sched 0"
  shows "\<exists>st mp dm hp tr. wireless_simu_hal_srng_dst_test_deinit sched env s =
      Some (s\<lparr>st_dst := st, k_maps := mp, k_skbs := (\<lambda>p. if p \<in> set (rx_skbs s) then None else k_skbs s p),
        k_dma := dm, k_heap := hp, k_trace := tr\<rparr>) \<and>
    mset mp = mset (k_maps s) - mset (map (skb_map s) (rx_skbs s)) \<and>
    mset dm = mset (k_dma s) - mset (rx_regions s) \<and> mset hp = mset (k_heap s) - mset (rx_objects s) \<and>
    list_all (\<lambda>p. pipe_dst_ring p = None \<and> pipe_status_ring p = None) (pipes st)"
proof (rule rx_ownedE [OF assms(1)])
  fix pipe d t k c
  assume v: "pipes_count (st_dst s) = 1" "pipes (st_dst s) = [pipe]"
    "host_config (st_dst s) = Some (k, c)" "pipe_src_ring pipe = None" "pipe_dst_ring pipe = Some d"
    "pipe_status_ring pipe = Some t" "rx_ring 0 s = d" "rx_sring 0 s = t"
    "unat (nentries d) = length (ring_skb d)" "own_ok s (slot_bufs (ring_skb d))"
    "mset [ring_region d, ring_region t] \<subseteq># mset (k_dma s)"
    "mset [ring_kptr d, ring_kptr t, k] \<subseteq># mset (k_heap s)"
  let ?s1 = "emit (EvTaskletKill 0) (s\<lparr>k_held := StDstLock # k_held s\<rparr>)"
  let ?s2 = "release_skbs (rx_skbs s) ?s1"
  let ?d = "d\<lparr>ring_skb := replicate (length (ring_skb d)) None\<rparr>"
  have own: "own_ok ?s1 (slot_bufs (ring_skb d))"
    using v(10) by simp
  have clean: "foldo cleanup_slot [0..<unat (nentries d)] (d, ?s1) = Some (?d, ?s2)"
    using cleanup_slots [OF own order_refl] by (simp add: v(7,9) rx_skbs_def)
  note dm = mset_sub_pair [OF v(11) [simplified]]
  have "{#ring_kptr d, ring_kptr t#} + {#k#} \<subseteq># mset (k_heap s)"
    using v(12) by (simp add: add_mset_commute)
  note hp3 = subset_mset.order_trans [OF mset_subset_eq_add_left this] this
  note hp = mset_sub_pair [OF hp3(1)]
  have "{#k#} \<subseteq># mset (remove1 (ring_kptr t) (remove1 (ring_kptr d) (k_heap s)))"
    unfolding hp(3) using hp3 by (subst subset_mset.le_diff_conv2) (simp_all add: add_mset_commute)
  then have k: "k \<in> set (remove1 (ring_kptr t) (remove1 (ring_kptr d) (k_heap s)))"
    by (simp only: single_subset_iff set_mset_mset)
  let ?hp = "remove1 (ring_kptr t) (remove1 (ring_kptr d) (k_heap s))"
  let ?p = "pipe\<lparr>pipe_dst_ring := None, pipe_status_ring := None\<rparr>"
  let ?s3 = "set_pipe 0 (pipe\<lparr>pipe_dst_ring := Some ?d\<rparr>) ?s2"
  have free: "dst_free_pipes ?s3 = Some (?s3\<lparr>st_dst := (st_dst s)\<lparr>pipes := [?p]\<rparr>,
      k_dma := remove1 (ring_region t) (remove1 (ring_region d) (k_dma s)), k_heap := ?hp,
      k_trace := k_trace ?s2 @ ring_frees d @ ring_frees t\<rparr>)"
    using v(2,4-6) free_pipe_rx [of "pipe\<lparr>pipe_dst_ring := Some ?d\<rparr>" ?d t ?s3] v(11) hp3(1)
    by (simp add: dst_free_pipes_def hal_srng_test_free_pipes_def SRNG_TEST_PIPE_COUNT_MAX_def nth_opt_def
        ring_region_def ring_frees_def release_skbs_def set_pipe_def)
  let ?s4 = "s\<lparr>st_dst := (st_dst s)\<lparr>pipes := [?p]\<rparr>, k_maps := fold remove1 (map (skb_map s) (rx_skbs s)) (k_maps s),
      k_skbs := (\<lambda>p. if p \<in> set (rx_skbs s) then None else k_skbs s p),
      k_dma := remove1 (ring_region t) (remove1 (ring_region d) (k_dma s)), k_heap := remove1 k ?hp,
      k_trace := k_trace ?s2 @ ring_frees d @ ring_frees t @ [EvKfree k]\<rparr>"
  let ?s5 = "?s3\<lparr>st_dst := (st_dst s)\<lparr>pipes := [?p]\<rparr>,
      k_dma := remove1 (ring_region t) (remove1 (ring_region d) (k_dma s)), k_heap := ?hp,
      k_trace := k_trace ?s2 @ ring_frees d @ ring_frees t\<rparr>"
  have lock: "spin_lock StDstLock s = Some (s\<lparr>k_held := StDstLock # k_held s\<rparr>)"
    using assms(2) by (simp add: spin_lock_def)
  have st: "st_dst ?s1 = st_dst s" "st_dst ?s2 = st_dst s" "st_dst (s\<lparr>k_held := StDstLock # k_held s\<rparr>) = st_dst s"
    by (simp_all add: release_skbs_def emit_def)
  have rx: "wireless_simu_hal_srng_dst_test_cleanuprx 0 ?s1 = Some ?s3"
    using v(2,5) by (simp add: wireless_simu_hal_srng_dst_test_cleanuprx_def get_pipe_def nth_opt_def st clean)
  have cfg: "dst_free_config ?s5 = Some (emit (EvKfree k) (?s5\<lparr>k_heap := remove1 k ?hp\<rparr>))"
    using v(3) k by (simp add: dst_free_config_def kfree_def)
  have unlock: "spin_unlock StDstLock (emit (EvKfree k) (?s5\<lparr>k_heap := remove1 k ?hp\<rparr>)) = Some ?s4"
    by (simp add: spin_unlock_def release_skbs_def set_pipe_def emit_def cong: if_cong)
  have run: "wireless_simu_hal_srng_dst_test_deinit sched env s = Some ?s4"
    using v(1) rx free cfg unlock assms(3)
    by (simp add: wireless_simu_hal_srng_dst_test_deinit_def lock tasklet_kill_simps del: emit_frame)
  show ?thesis
  proof (intro exI conjI)
    show "wireless_simu_hal_srng_dst_test_deinit sched env s = Some ?s4"
      by (rule run)
    show "mset (remove1 k ?hp) = mset (k_heap s) - mset (rx_objects s)"
      using v(3,7,8) by (simp add: rx_objects_def diff_diff_add_mset add_mset_commute)
    show "mset (remove1 (ring_region t) (remove1 (ring_region d) (k_dma s))) = mset (k_dma s) - mset (rx_regions s)"
      using v(7,8) dm(3) by (simp add: rx_regions_def)
  qed (simp_all add: mset_fold_remove1)
qed

end
