(* ===== verification/Rx_Frame.thy ===== *)
theory Rx_Frame
  imports Rx_Release
begin

text \<open>
  What no operation of the receive path changes while it runs: the memory and the heap objects of
  the module, of the ring layer and of everybody else. The rules are stated for every operation
  that returns, without an invariant, and collected in \<^verbatim>\<open>k_frame\<close>.
\<close>

section \<open>Definitions\<close>

definition ring_fixed :: "srng_test_ring \<Rightarrow> region \<times> kptr \<times> u32 \<times> nat" where
  "ring_fixed d = (ring_region d, ring_kptr d, nentries d, length (ring_skb d))"

definition pipe_fixed :: "srng_test_pipe \<Rightarrow> _" where
  "pipe_fixed p = (pipe_src_ring p, map_option ring_fixed (pipe_dst_ring p), map_option ring_fixed (pipe_status_ring p))"

definition rx_fixed :: "'a wireless_simu_scheme \<Rightarrow> _" where
  "rx_fixed s = (k_dma s, k_heap s, k_iomapped s, mmio_addr s, srng_config (hal s), rdp_vaddr (hal s),
     rdp_paddr (hal s), wrp_vaddr (hal s), wrp_paddr (hal s), host_config (st_dst s), pipes_count (st_dst s),
     map pipe_fixed (pipes (st_dst s)), wireless_simu.more s)"

section \<open>Lemmas\<close>

lemma more_upd [simp]:
  fixes s :: "'a wireless_simu_scheme"
  shows "wireless_simu.more (emit e s) = wireless_simu.more s" "wireless_simu.more (set_pipe i p s) = wireless_simu.more s"
  by (simp_all add: emit_def set_pipe_def)

lemma rx_fixed_upd [simp]:
  "rx_fixed (s\<lparr>k_mem := m\<rparr>) = rx_fixed s" "rx_fixed (s\<lparr>k_held := h\<rparr>) = rx_fixed s"
  "rx_fixed (s\<lparr>k_trace := t\<rparr>) = rx_fixed s" "rx_fixed (s\<lparr>k_skbs := b\<rparr>) = rx_fixed s"
  "rx_fixed (s\<lparr>k_maps := mp\<rparr>) = rx_fixed s" "rx_fixed (s\<lparr>k_calls := c\<rparr>) = rx_fixed s"
  "rx_fixed (emit e s) = rx_fixed s" "rx_fixed (tick s) = rx_fixed s"
  "rx_fixed (lockdep_assert_held l s) = rx_fixed s" "rx_fixed (set_srng rid g s) = rx_fixed s"
  "rx_fixed (skb_set p b' s) = rx_fixed s"
  by (simp_all add: rx_fixed_def tick_def lockdep_assert_held_def set_srng_def skb_set_def)

lemma pipe_fixed_upd:
  "i < length (pipes (st_dst s)) \<Longrightarrow> pipe_fixed p = pipe_fixed (pipes (st_dst s) ! i) \<Longrightarrow>
   rx_fixed (set_pipe i p s) = rx_fixed s"
  by (simp add: rx_fixed_def map_update list_update_same_conv)

lemma ring_fixed_upd [simp]:
  "ring_fixed (d\<lparr>sw_index := v\<rparr>) = ring_fixed d" "ring_fixed (d\<lparr>write_index := v\<rparr>) = ring_fixed d"
  "ring_fixed (d\<lparr>ring_skb := (ring_skb d)[i := x]\<rparr>) = ring_fixed d"
  "ring_fixed (d\<lparr>ring_skb := (ring_skb d)[i := x], sw_index := v\<rparr>) = ring_fixed d"
  "ring_fixed (d\<lparr>ring_skb := (ring_skb d)[i := x], write_index := v\<rparr>) = ring_fixed d"
  by (simp_all add: ring_fixed_def ring_region_def)

lemma kernel_fixed [k_frame]:
  "mem_write a v s = Some s' \<Longrightarrow> rx_fixed s' = rx_fixed s"
  "spin_lock l s = Some s' \<Longrightarrow> rx_fixed s' = rx_fixed s"
  "spin_unlock l s = Some s' \<Longrightarrow> rx_fixed s' = rx_fixed s"
  "dma_unmap_single pa n s = Some s' \<Longrightarrow> rx_fixed s' = rx_fixed s"
  "dev_kfree_skb_any p s = Some s' \<Longrightarrow> rx_fixed s' = rx_fixed s"
  "skb_put p n s = Some s' \<Longrightarrow> rx_fixed s' = rx_fixed s"
  "wireless_hif_write32 r v s = Some s' \<Longrightarrow> rx_fixed s' = rx_fixed s"
  "dev_alloc_skb env n s = (po, s') \<Longrightarrow> rx_fixed s' = rx_fixed s"
  "dma_map_single env n s = (mo, s') \<Longrightarrow> rx_fixed s' = rx_fixed s"
  by (auto simp: mem_write_def spin_lock_def spin_unlock_def dma_unmap_single_def dev_kfree_skb_any_def skb_put_def
      wireless_hif_write32_def iowrite32_def dev_alloc_skb_def dma_map_single_def
      split: if_splits bind_splits option.splits)

lemma access_fixed [k_frame]:
  "wireless_simu_hal_srng_access_begin rid s = Some s' \<Longrightarrow> rx_fixed s' = rx_fixed s"
  "wireless_simu_hal_srng_access_end rid s = Some s' \<Longrightarrow> rx_fixed s' = rx_fixed s"
  "wireless_simu_hal_srng_src_num_free rid b s = Some (n, s') \<Longrightarrow> rx_fixed s' = rx_fixed s"
  "wireless_simu_hal_srng_src_get_next_entry rid s = Some (a, s') \<Longrightarrow> rx_fixed s' = rx_fixed s"
  "wireless_simu_hal_srng_dst_get_next_entry rid s = Some (a, s') \<Longrightarrow> rx_fixed s' = rx_fixed s"
  by (auto simp: wireless_simu_hal_srng_access_begin_def wireless_simu_hal_srng_access_end_def
      wireless_simu_hal_srng_src_num_free_def wireless_simu_hal_srng_src_get_next_entry_def
      wireless_simu_hal_srng_dst_get_next_entry_def Let_def
      split: if_splits bind_splits dest!: kernel_fixed)

lemma set_desc_fixed [k_frame]:
  "wireless_simu_test_dst_set_desc a pa s = Some s' \<Longrightarrow> rx_fixed s' = rx_fixed s"
  by (auto simp: wireless_simu_test_dst_set_desc_def Let_def split: bind_splits dest!: kernel_fixed)

lemma set_pipe_fixed:
  assumes "get_pipe i x = Some q" "rx_fixed x = rx_fixed s" "rx_fixed t = rx_fixed s" "pipe_fixed p = pipe_fixed q"
  shows "rx_fixed (set_pipe i p t) = rx_fixed s"
proof -
  have "rx_fixed t = rx_fixed x"
    using assms(2,3) by simp
  have m: "map pipe_fixed (pipes (st_dst t)) = map pipe_fixed (pipes (st_dst x))"
    using \<open>rx_fixed t = rx_fixed x\<close> by (simp add: rx_fixed_def)
  have i: "i < length (pipes (st_dst x))" "q = pipes (st_dst x) ! i"
    using assms(1) by (simp_all add: get_pipe_def nth_opt_def split: if_splits)
  have len: "length (pipes (st_dst t)) = length (pipes (st_dst x))"
    using m by (metis length_map)
  then have "pipe_fixed (pipes (st_dst t) ! i) = pipe_fixed q"
    using m i by (metis nth_map)
  then show ?thesis
    using pipe_fixed_upd [of i t p] assms len i by simp
qed

lemma get_pipe_frame:
  "get_pipe i (s\<lparr>k_held := h\<rparr>) = get_pipe i s" "get_pipe i (lockdep_assert_held l s) = get_pipe i s"
  by (simp_all add: get_pipe_def lockdep_assert_held_def)

lemma recv_next_fixed [k_frame]:
  assumes "wireless_simu_test_dst_recv_next i s = Some (r, p, n, s')"
  shows "rx_fixed s' = rx_fixed s"
  using assms
  by (auto simp: wireless_simu_test_dst_recv_next_def Let_def wireless_simu_test_dst_get_length_def
      split: bind_splits if_splits option.splits dest!: kernel_fixed access_fixed)
    (erule (2) set_pipe_fixed, simp add: pipe_fixed_def)

lemma enqueue_fixed [k_frame]:
  assumes "wireless_simu_test_dst_enqueue_pipe i p pa s = Some (r, s')"
  shows "rx_fixed s' = rx_fixed s"
  using assms
  by (auto simp: wireless_simu_test_dst_enqueue_pipe_def Let_def list_put_def
      split: bind_splits if_splits option.splits dest!: kernel_fixed access_fixed set_desc_fixed)
    (erule set_pipe_fixed, simp_all add: pipe_fixed_def)

lemma post_loop_fixed [k_frame]:
  "dst_post_loop k env i s = Some (r, s') \<Longrightarrow> rx_fixed s' = rx_fixed s"
proof (induction k arbitrary: s)
  case 0
  then show ?case
    by (subst (asm) dst_post_loop.simps) (auto split: bind_splits if_splits)
next
  case (Suc k)
  from Suc.prems show ?case
    by (subst (asm) dst_post_loop.simps)
      (auto simp: Let_def split: bind_splits if_splits prod.splits option.splits
        dest!: kernel_fixed enqueue_fixed Suc.IH)
qed

lemma post_pipe_fixed [k_frame]:
  "wireless_simu_test_dst_post_pipe env i s = Some (r, s') \<Longrightarrow> rx_fixed s' = rx_fixed s"
  by (auto simp: wireless_simu_test_dst_post_pipe_def split: bind_splits if_splits dest!: kernel_fixed post_loop_fixed)

text \<open>Posting numbers its requests upwards.\<close>

lemma access_calls:
  "mem_write a v s = Some s' \<Longrightarrow> k_calls s' = k_calls s"
  "spin_lock l s = Some s' \<Longrightarrow> k_calls s' = k_calls s" "spin_unlock l s = Some s' \<Longrightarrow> k_calls s' = k_calls s"
  "dma_unmap_single pa n s = Some s' \<Longrightarrow> k_calls s' = k_calls s" "dev_kfree_skb_any p s = Some s' \<Longrightarrow> k_calls s' = k_calls s"
  "skb_put p n s = Some s' \<Longrightarrow> k_calls s' = k_calls s"
  by (auto simp: mem_write_def spin_lock_def spin_unlock_def dma_unmap_single_def dev_kfree_skb_any_def skb_put_def skb_set_def
      split: if_splits bind_splits)

lemma srng_calls:
  "wireless_simu_hal_srng_access_begin rid s = Some s' \<Longrightarrow> k_calls s' = k_calls s"
  "wireless_simu_hal_srng_access_end rid s = Some s' \<Longrightarrow> k_calls s' = k_calls s"
  "wireless_simu_hal_srng_src_num_free rid b s = Some (n, s') \<Longrightarrow> k_calls s' = k_calls s"
  "wireless_simu_hal_srng_src_get_next_entry rid s = Some (a, s') \<Longrightarrow> k_calls s' = k_calls s"
  by (auto simp: wireless_simu_hal_srng_access_begin_def wireless_simu_hal_srng_access_end_def
      wireless_simu_hal_srng_src_num_free_def wireless_simu_hal_srng_src_get_next_entry_def Let_def wireless_hif_write32_def
      iowrite32_def lockdep_assert_held_def
      split: if_splits bind_splits dest!: access_calls)

lemma enqueue_calls: "wireless_simu_test_dst_enqueue_pipe i p pa s = Some (r, s') \<Longrightarrow> k_calls s' = k_calls s"
  by (auto simp: wireless_simu_test_dst_enqueue_pipe_def wireless_simu_test_dst_set_desc_def Let_def lockdep_assert_held_def
      split: bind_splits if_splits option.splits dest!: access_calls srng_calls)

lemma request_calls:
  "dev_alloc_skb env n s = (po, s') \<Longrightarrow> k_calls s \<le> k_calls s'"
  "dma_map_single env n s = (mo, s') \<Longrightarrow> k_calls s \<le> k_calls s'"
  by (auto simp: dev_alloc_skb_def dma_map_single_def tick_def split: option.splits)

lemma post_loop_calls: "dst_post_loop k env i s = Some (r, s') \<Longrightarrow> k_calls s \<le> k_calls s'"
proof (induction k arbitrary: s)
  case 0
  then show ?case
    by (subst (asm) dst_post_loop.simps) (auto split: bind_splits if_splits)
next
  case (Suc k)
  from Suc.prems show ?case
    by (subst (asm) dst_post_loop.simps)
      (fastforce simp: Let_def skb_set_def split: bind_splits if_splits prod.splits option.splits
        dest!: access_calls request_calls enqueue_calls Suc.IH)
qed

lemma post_pipe_calls: "wireless_simu_test_dst_post_pipe env i s = Some (r, s') \<Longrightarrow> k_calls s \<le> k_calls s'"
  by (auto simp: wireless_simu_test_dst_post_pipe_def split: bind_splits if_splits dest!: access_calls post_loop_calls)

lemma recv_one_fixed:
  "dst_recv_one i q s = Some (go, q', s') \<Longrightarrow> rx_fixed s' = rx_fixed s"
  by (auto simp: Let_def dst_recv_one_def split: bind_splits if_splits option.splits
      dest!: kernel_fixed recv_next_fixed)

lemma recv_loop_fixed [k_frame]:
  "dst_recv_loop k dev i q s = Some (q', s') \<Longrightarrow> rx_fixed s' = rx_fixed s"
proof (induction k arbitrary: q s)
  case (Suc k)
  from Suc.prems show ?case
    by (auto simp: Let_def dst_recv_loop.simps split: bind_splits if_splits dest!: recv_one_fixed Suc.IH)
qed (simp add: dst_recv_loop.simps)

lemma deliver_fixed [k_frame]:
  "foldo dst_deliver q s = Some s' \<Longrightarrow> rx_fixed s' = rx_fixed s"
  by (induction q arbitrary: s) (auto simp: dst_deliver_def Let_def split: bind_splits dest!: kernel_fixed)

lemma rx_step_fixed:
  assumes "rx_step env s s'" "pipes_count (st_dst s) = 1"
  shows "rx_fixed s' = rx_fixed s"
  using assms(1)
proof (cases rule: rx_step.cases)
  case bottom_half
  then show ?thesis
    by (auto simp: wireless_simu_hal_srng_dst_tasklet_def wireless_simu_irq_hal_srng_dst_dma_test_def
        split: bind_splits if_splits dest!: recv_loop_fixed deliver_fixed post_pipe_fixed)
next
  case retry
  then show ?thesis
    using assms(2) by (auto simp: wireless_simu_test_dst_rx_replenish_retry_def wireless_simu_test_dst_post_buf_def
        split: bind_splits if_splits dest!: post_pipe_fixed)
qed (simp_all add: src_consume_def dst_produce_def Let_def)

text \<open>The mappings of others are untouched too.\<close>

lemma rx_step_rest:
  assumes "rx_step env s s'" "rx_sys s" "env_empty_skbs env"
  shows "rx_rest 0 s' = rx_rest 0 s"
  using assms(1)
proof (cases rule: rx_step.cases)
  case bottom_half
  then show ?thesis
    using tasklet_ok [of 0 s env] assms(2,3) by (auto simp: rx_sys_def rx_serviced_def)
next
  case retry
  then show ?thesis
    using post_pipe_ok [of 0 s env] assms(2,3)
    by (auto simp: wireless_simu_test_dst_rx_replenish_retry_def wireless_simu_test_dst_post_buf_def rx_sys_def
        rx_free_def rx_post_outcome_def split: if_splits)
qed (auto intro: rx_rest_cong)

lemma rx_steps_keep:
  assumes "(rx_step env)\<^sup>*\<^sup>* s s'" "rx_sys s" "env_empty_skbs env"
  shows "rx_sys s'" "rx_fixed s' = rx_fixed s" "rx_rest 0 s' = rx_rest 0 s"
proof -
  show "rx_sys s'"
    using rx_irq.reachable_inv [OF assms(1)] assms(2,3) by blast
  show "rx_fixed s' = rx_fixed s" "rx_rest 0 s' = rx_rest 0 s"
    using assms(1)
  proof (induction rule: rtranclp_induct)
    case (step t u)
    have t: "rx_sys t"
      using rx_irq.reachable_inv [OF step(1)] assms(2,3) by blast
    case 1
    show ?case
      using rx_step_fixed [OF step(2)] t step(3) by (simp add: rx_sys_def)
    case 2
    show ?case
      using rx_step_rest [OF step(2) t assms(3)] step(4) by simp
  qed simp_all
qed

text \<open>A sound receive path with its ledger owns every buffer that sits in a slot.\<close>

lemma own_ok_perm: "own_ok s ps \<Longrightarrow> mset qs = mset ps \<Longrightarrow> own_ok s qs"
  using mset_eq_imp_distinct_iff [of qs ps] mset_eq_setD [of qs ps] by (simp add: own_ok_def list_all_iff)

lemma slot_bufs_nth: "slot_bufs xs = map (\<lambda>j. the (xs ! j)) (filter (\<lambda>j. xs ! j \<noteq> None) [0..<length xs])"
proof -
  have "filter (\<lambda>x. x \<noteq> None) (map ((!) xs) [0..<length xs]) = map ((!) xs) (filter (\<lambda>j. xs ! j \<noteq> None) [0..<length xs])"
    by (simp add: filter_map comp_def)
  then show ?thesis
    by (simp add: slot_bufs_def map_nth)
qed

lemma slots_ok_bufs:
  assumes "slots_ok d" "unat (write_index d) < length (ring_skb d)"
  shows "mset (slot_bufs (ring_skb d)) = mset (rx_bufs d)"
proof -
  let ?n = "length (ring_skb d)" and ?js = "filter (\<lambda>j. ring_skb d ! j \<noteq> None) [0..<length (ring_skb d)]"
  have r: "unat (sw_index d) < ?n"
    using assms(1) by (simp add: slots_ok_def)
  have "set (rx_window d) \<subseteq> {..<?n}"
    using r by (auto simp: rx_window_def window_def intro!: mod_less_divisor)
  then have "set ?js = set (rx_window d)"
    using assms(1) by (auto simp: slots_ok_def list_all_iff)
  moreover have "distinct (rx_window d)"
    unfolding rx_window_def by (rule window_distinct [OF r])
  ultimately have "mset ?js = mset (rx_window d)"
    by (subst set_eq_iff_mset_eq_distinct [symmetric]) simp_all
  then show ?thesis
    unfolding slot_bufs_nth rx_bufs_def by (simp only: mset_map)
qed

lemma rx_sys_bufs:
  assumes "rx_sys s"
  shows "mset (rx_skbs s) = mset (rx_bufs (rx_ring 0 s))"
proof -
  have "rx_inv 0 s"
    using assms by (simp add: rx_sys_def)
  then show ?thesis
    unfolding rx_skbs_def by (elim rx_invE) (simp add: slots_ok_bufs)
qed

lemma rx_sys_owned: "rx_sys s \<Longrightarrow> rx_static s \<Longrightarrow> rx_owned s"
  using own_ok_perm [OF _ rx_sys_bufs] by (auto simp: rx_owned_def rx_sys_def rx_inv_def)

lemma rx_static_part:
  fixes s :: "'a wireless_simu_scheme" and s' :: "'b wireless_simu_scheme"
  assumes "k_dma s' = k_dma s" "k_heap s' = k_heap s" "host_config (st_dst s') = host_config (st_dst s)"
    "pipes_count (st_dst s') = pipes_count (st_dst s)" "map pipe_fixed (pipes (st_dst s')) = map pipe_fixed (pipes (st_dst s))" "rx_static s"
  shows "rx_static s'" "rx_regions s' = rx_regions s" "rx_objects s' = rx_objects s"
proof -
  obtain p d t where p: "pipes (st_dst s) = [p]" "pipe_dst_ring p = Some d" "pipe_status_ring p = Some t"
    "pipe_src_ring p = None"
    using assms(6) by (auto simp: rx_static_def split: list.splits)
  obtain p' where p': "pipes (st_dst s') = [p']" "pipe_fixed p' = pipe_fixed p"
    using assms(5) p(1) by auto
  then obtain d' t' where r: "pipe_dst_ring p' = Some d'" "pipe_status_ring p' = Some t'" "ring_fixed d' = ring_fixed d"
    "ring_fixed t' = ring_fixed t" "pipe_src_ring p' = None"
    using p by (auto simp: pipe_fixed_def)
  have rings: "rx_ring 0 s = d" "rx_sring 0 s = t" "rx_ring 0 s' = d'" "rx_sring 0 s' = t'"
    using p p' r by (simp_all add: rx_ring_def rx_sring_def)
  show eq: "rx_regions s' = rx_regions s" "rx_objects s' = rx_objects s"
    using rings r(3,4) assms(3) by (simp_all add: rx_regions_def rx_objects_def ring_fixed_def)
  show "rx_static s'"
    using assms rings r p p' eq by (simp add: rx_static_def, simp add: ring_fixed_def)
qed

lemma rx_static_fixed:
  assumes "rx_fixed s' = rx_fixed s" "rx_static s"
  shows "rx_static s'" "rx_regions s' = rx_regions s" "rx_objects s' = rx_objects s"
  using rx_static_part [of s' s] assms by (simp_all add: rx_fixed_def)

end
