(* ===== verification/Rx_Setup.thy ===== *)
theory Rx_Setup
  imports Rx_Frame
begin

text \<open>
  The initialisation of the receive module: allocation of its two rings, their registration with
  the ring layer, and the first posting of buffers, which together establish the receive invariant.
\<close>

section \<open>Registration\<close>

lemma setup_state_frame [simp]:
  "k_dma (setup_state type params g regs s) = k_dma s" "k_heap (setup_state type params g regs s) = k_heap s"
  "k_maps (setup_state type params g regs s) = k_maps s" "k_skbs (setup_state type params g regs s) = k_skbs s"
  "k_calls (setup_state type params g regs s) = k_calls s" "k_iomapped (setup_state type params g regs s) = k_iomapped s"
  "st_dst (setup_state type params g regs s) = st_dst s" "mmio_addr (setup_state type params g regs s) = mmio_addr s"
  "k_jiffies (setup_state type params g regs s) = k_jiffies s"
  "rdp_vaddr (hal (setup_state type params g regs s)) = rdp_vaddr (hal s)"
  "rdp_paddr (hal (setup_state type params g regs s)) = rdp_paddr (hal s)"
  "wrp_vaddr (hal (setup_state type params g regs s)) = wrp_vaddr (hal s)"
  "wrp_paddr (hal (setup_state type params g regs s)) = wrp_paddr (hal s)"
  "srng_config (hal (setup_state type params g regs s)) = srng_config (hal s)"
  "srng_list (hal (setup_state type params g regs s)) = (srng_list (hal s))(type_rid type := g)"
  "k_held (setup_state type params g regs s) = removeAll (SrngLock (type_rid type)) (k_held s)"
  by (simp_all add: setup_state_def, simp_all add: set_srng_def)

lemma hal_up_cong:
  "k_dma s' = k_dma s \<Longrightarrow> k_heap s' = k_heap s \<Longrightarrow> k_iomapped s' = k_iomapped s \<Longrightarrow>
   srng_config (hal s') = srng_config (hal s) \<Longrightarrow> rdp_vaddr (hal s') = rdp_vaddr (hal s) \<Longrightarrow> hal_up s' = hal_up s"
  by (simp add: hal_up_def get_srng_config_def mem_ok_def split: option.split)

lemma setup_state_mem:
  "k_mem (setup_state type params g regs s) a =
     (if a = rdp_vaddr (hal s) + of_nat (4 * type_rid type) \<or>
        unat (a - p_ring_base_vaddr params) < 4 * (type_esz type * nat (p_num_entries params)) then 0 else k_mem s a)"
  by (simp add: setup_state_def mem_zero_def)

lemma ring_live_cong:
  "k_dma s' = k_dma s \<Longrightarrow> rdp_vaddr (hal s') = rdp_vaddr (hal s) \<Longrightarrow> ring_live type d s' = ring_live type d s"
  by (simp add: ring_live_def)

lemma setup_state_up [simp]:
  "hal_up (setup_state type params g regs s) = hal_up s"
  "ring_live ty d (setup_state type params g regs s) = ring_live ty d s"
  by (intro hal_up_cong ring_live_cong; simp)+

definition rx_registered :: "kenv \<Rightarrow> srng_test_ring \<Rightarrow> srng_test_ring \<Rightarrow> 'a wireless_simu_scheme \<Rightarrow> 'a wireless_simu_scheme" where
  "rx_registered env d t s =
     (let reg = (\<lambda>type d s. setup_state type (ring_params d) (setup_ring env type (ring_params d) s)
                   (setup_regs env type (ring_params d) s) s)
      in reg HAL_TEST_SRNG_DST_STATUS t (reg HAL_TEST_SRNG_DST d s))"

lemma flat_apart_rings:
  assumes "ring_live ty d s" "ring_live ty' t s" "regions_apart (ring_region d) (ring_region t)"
  shows "32 * (4 * type_esz ty) \<le> unat (base_addr_owner_space t - base_addr_owner_space d)"
    and "unat (base_addr_owner_space t - base_addr_owner_space d) + 32 * (4 * type_esz ty') \<le> 2 ^ 64"
proof -
  have d: "base_addr_owner_space d = ALIGN (fst (ring_region d)) 8" "region_flat (ring_region d)"
    "fst (snd (ring_region d)) = of_nat (ring_bytes (4 * type_esz ty))" and
    t: "base_addr_owner_space t = ALIGN (fst (ring_region t)) 8" "region_flat (ring_region t)"
    "fst (snd (ring_region t)) = of_nat (ring_bytes (4 * type_esz ty'))"
    using assms(1,2) by (auto simp: ring_live_def Let_def)
  let ?a = "base_addr_owner_space d" and ?b = "base_addr_owner_space t"
  note bd = new_ring_base [OF d(2,3) type_desc_20, folded d(1)] and bt = new_ring_base [OF t(2,3) type_desc_20, folded t(1)]
  have flat: "unat ?a + 32 * (4 * type_esz ty) \<le> 2 ^ 64" "unat ?b + 32 * (4 * type_esz ty') \<le> 2 ^ 64"
    using bd bt d(2) t(2) by (auto simp: region_flat_def split: prod.splits)
  have "unat ?a + 32 * (4 * type_esz ty) \<le> unat ?b \<or> unat ?b + 32 * (4 * type_esz ty') \<le> unat ?a"
    using assms(3) bd bt unfolding regions_apart_def by (auto split: prod.splits)
  then show "32 * (4 * type_esz ty) \<le> unat (?b - ?a)" "unat (?b - ?a) + 32 * (4 * type_esz ty') \<le> 2 ^ 64"
    using flat type_esz_bounds(1) [of ty] type_esz_bounds(1) [of ty']
    by (auto simp: unat_sub_if')
qed

lemma ring_live_outside:
  assumes "ring_live type d s" "k + 4 \<le> 688"
  shows "32 * (4 * type_esz type) \<le> unat (rdp_vaddr (hal s) + of_nat k - base_addr_owner_space d)"
proof -
  obtain q where "region_flat q" "in_region (rdp_vaddr (hal s)) 688 q" "regions_apart (ring_region d) q"
    using assms(1) by (auto simp: ring_live_def Let_def)
  then show ?thesis
    using assms cell_outside [OF _ _ type_desc_20, of "ring_region d" type "rdp_vaddr (hal s)" q k]
    by (simp only: ring_live_def Let_def)
qed

lemma rx_registered_wired:
  fixes env
  assumes "hal_up s" "ring_live HAL_TEST_SRNG_DST d s" "ring_live HAL_TEST_SRNG_DST_STATUS t s"
    "regions_apart (ring_region d) (ring_region t)"
  defines "s2 \<equiv> rx_registered env d t s"
  shows "rx_wired 8 1 s2" "src_queue 8 s2 = []" "dst_queue 1 s2 = []"
    "num_entries (srng_list (hal s2) 8) = 32" "n_ent (srng_list (hal s2) 8) = 32"
    "ent_idx (srng_list (hal s2) 8) (src_hp (union_src (srng_u (srng_list (hal s2) 8)))) = 0"
    "src_tp_addr (union_src (srng_u (srng_list (hal s2) 8))) = rdp_vaddr (hal s) + 32"
    "dst_hp_addr (union_dst (srng_u (srng_list (hal s2) 1))) = rdp_vaddr (hal s) + 4"
proof -
  let ?D = HAL_TEST_SRNG_DST and ?T = HAL_TEST_SRNG_DST_STATUS
  let ?rd = "setup_regs env ?D (ring_params d) s"
  define s1 where "s1 = setup_state ?D (ring_params d) (setup_src env ?D (ring_params d) s) ?rd s"
  let ?rt = "setup_regs env ?T (ring_params t) s1"
  have s2: "s2 = setup_state ?T (ring_params t) (setup_dst env ?T (ring_params t) s1) ?rt s1"
    by (simp add: s2_def rx_registered_def Let_def s1_def setup_ring_def hw_srng_config_template_def)
  have dir: "c_ring_dir (hw_srng_config_template ?D) = HAL_SRNG_DIR_SRC" "c_ring_dir (hw_srng_config_template ?T) = HAL_SRNG_DIR_DST"
    by (simp_all add: hw_srng_config_template_def)
  have pre: "setup_pre ?D (ring_params d) s" "setup_pre ?T (ring_params t) s1"
    using assms(1-3) by (auto intro!: ring_live_pre simp: s1_def)
  have n: "p_num_entries (ring_params d) = 32" "p_num_entries (ring_params t) = 32"
    using assms(2,3) by (simp_all add: ring_live_def Let_def)
  define g h where "g = setup_src env ?D (ring_params d) s" and "h = setup_dst env ?T (ring_params t) s1"
  note fg = setup_src_fields [OF pre(1), of env, folded g_def] and fh = setup_dst_fields [OF pre(2), of env, folded h_def]
  note rg = setup_src_ready [OF pre(1) dir(1), of env ?rd, folded s1_def, unfolded type_facts]
    and rh = setup_dst_ready [OF pre(2) dir(2), of env ?rt, folded s2, unfolded type_facts]
  note gg = setup_geom [OF pre(1) fg(5-7), unfolded n type_facts] and gh = setup_geom [OF pre(2) fh(5-7), unfolded n type_facts]
  have list: "srng_list (hal s2) 8 = g" "srng_list (hal s2) 1 = h" "srng_list (hal s1) 8 = g"
    by (simp_all add: s2 s1_def g_def h_def type_facts)
  have cells: "src_tp_addr (union_src (srng_u g)) = rdp_vaddr (hal s) + 32"
    "dst_hp_addr (union_dst (srng_u h)) = rdp_vaddr (hal s) + 4"
    using fg(3) fh(3) by (simp_all add: type_facts s1_def)
  then show "src_tp_addr (union_src (srng_u (srng_list (hal s2) 8))) = rdp_vaddr (hal s) + 32"
    "dst_hp_addr (union_dst (srng_u (srng_list (hal s2) 1))) = rdp_vaddr (hal s) + 4"
    by (simp_all only: list)
  show n_ent: "num_entries (srng_list (hal s2) 8) = 32" "n_ent (srng_list (hal s2) 8) = 32"
    using fg(6) gg n by (simp_all add: list)
  show "ent_idx (srng_list (hal s2) 8) (src_hp (union_src (srng_u (srng_list (hal s2) 8)))) = 0"
    using fg(2) gg by (simp add: list)
  have cell8: "k_mem s2 (rdp_vaddr (hal s) + 32) = k_mem s1 (rdp_vaddr (hal s) + 32)"
    unfolding s2 setup_state_mem by (simp add: s1_def setup_state_mem type_facts)
  have src: "src_ready 8 s2"
  proof (rule src_ready_cong [OF rg(1)])
    show "k_dma s2 = k_dma s1" "k_iomapped s2 = k_iomapped s1" "srng_list (hal s2) 8 = srng_list (hal s1) 8"
      by (simp_all add: s2 list type_facts)
  qed (simp add: list cells cell8)
  have "k_mem s2 (rdp_vaddr (hal s) + 32) = 0"
    unfolding cell8 by (simp add: s1_def setup_state_mem type_facts)
  then show "src_queue 8 s2 = []"
    using fg(2) gg by (simp add: src_queue_def list cells pending_def ring_dist_def)
  show "dst_queue 1 s2 = []"
    using rh(2) by simp
  have apart: "rings_apart g h"
    using flat_apart_rings [OF assms(2-4)] fg(8) fh(8) gg gh
    by (simp add: rings_apart_def type_facts)
  have out: "outside g (rdp_vaddr (hal s) + 4)" "outside h (rdp_vaddr (hal s) + 32)"
    using ring_live_outside [OF assms(2), of 4] ring_live_outside [OF assms(3), of 32] fg(8) fh(8) gg gh
    by (simp_all add: outside_def type_facts)
  have "rdp_vaddr (hal s) + 32 \<noteq> rdp_vaddr (hal s) + 4"
    by simp
  then show "rx_wired 8 1 s2"
    using src rh(1) apart out gg gh by (simp only: rx_wired_def list cells Let_def) simp
qed

text \<open>A pipe whose rings have just been registered: nothing posted, thirty buffers missing.\<close>

definition rx_fresh_pipe :: "srng_test_ring \<Rightarrow> srng_test_ring \<Rightarrow> srng_test_pipe \<Rightarrow> srng_test_pipe" where
  "rx_fresh_pipe d t pipe = pipe\<lparr>
     pipe_dst_ring := Some (d\<lparr>hal_ring_id := 8, write_index := 0, sw_index := 0\<rparr>),
     pipe_status_ring := Some (t\<lparr>hal_ring_id := 1, sw_index := 0, write_index := 0\<rparr>), rx_buf_needed := 30\<rparr>"

lemma rx_registered_frame [simp]:
  "k_dma (rx_registered env d t s) = k_dma s" "k_heap (rx_registered env d t s) = k_heap s"
  "k_maps (rx_registered env d t s) = k_maps s" "k_skbs (rx_registered env d t s) = k_skbs s"
  "k_calls (rx_registered env d t s) = k_calls s" "st_dst (rx_registered env d t s) = st_dst s"
  "k_held (rx_registered env d t s) = removeAll (SrngLock 1) (removeAll (SrngLock 8) (k_held s))"
  by (simp_all add: rx_registered_def Let_def type_facts)

lemma rx_fresh_inv:
  assumes "hal_up s" "ring_live HAL_TEST_SRNG_DST d s" "ring_live HAL_TEST_SRNG_DST_STATUS t s"
    "regions_apart (ring_region d) (ring_region t)" "length (pipes (st_dst s)) = 1" "pipe_num pipe = 0"
    "ring_skb d = replicate 32 None" "nentries_mask d = 31"
  shows "rx_inv 0 (set_pipe 0 (rx_fresh_pipe d t pipe) (rx_registered env d t s))"
    and "rx_rid 0 (set_pipe 0 (rx_fresh_pipe d t pipe) (rx_registered env d t s)) = 8"
    and "rx_srid 0 (set_pipe 0 (rx_fresh_pipe d t pipe) (rx_registered env d t s)) = 1"
    and "rx_bufs (rx_ring 0 (set_pipe 0 (rx_fresh_pipe d t pipe) (rx_registered env d t s))) = []"
proof -
  let ?s = "set_pipe 0 (rx_fresh_pipe d t pipe) (rx_registered env d t s)"
  let ?d = "d\<lparr>hal_ring_id := 8, write_index := 0, sw_index := 0\<rparr>"
  note w = rx_registered_wired [OF assms(1-4), of env]
  have nent: "nentries d = 32"
    using assms(2) by (simp add: ring_live_def Let_def)
  have ids: "rx_ring 0 ?s = ?d" "rx_rid 0 ?s = 8" "rx_srid 0 ?s = 1" "pipes (st_dst ?s) = [rx_fresh_pipe d t pipe]"
    using assms(5) by (auto simp: rx_ring_def rx_rid_def rx_srid_def rx_sring_def rx_fresh_pipe_def length_Suc_conv)
  then show "rx_rid 0 ?s = 8" "rx_srid 0 ?s = 1"
    by simp_all
  have win: "rx_window ?d = []"
    by (simp add: rx_window_def window_def assms(7))
  then show bufs: "rx_bufs (rx_ring 0 ?s) = []"
    by (simp add: ids rx_bufs_def)
  have "is_pow2 32"
    by (auto simp: is_pow2_def list_ex_iff intro!: bexI [of _ 5])
  then have soft: "soft_ring_ok ?d ?s"
    using w(4-6) nent assms(7,8) by (simp add: soft_ring_ok_def)
  have slots: "slots_ok ?d"
    using win assms(7) by (simp add: slots_ok_def list_all_iff)
  show "rx_inv 0 ?s"
    unfolding rx_inv_def bufs using w(1-3) soft slots win assms(6,7) ids
    by (simp add: own_ok_def rx_fresh_pipe_def)
qed

section \<open>Allocation\<close>

definition rx_empty_pipe :: "srng_test_pipe \<Rightarrow> srng_test_pipe" where
  "rx_empty_pipe pipe = pipe\<lparr>pipe_attr_flags := 0, pipe_num := 0, buf_sz := 2048, pipe_send_cb := None,
     pipe_recv_cb := None\<rparr>"

definition rx_dring :: "kenv \<Rightarrow> 'a kernel_scheme \<Rightarrow> srng_test_ring" where
  "rx_dring env s = new_ring (k_calls s) (ring_grant env 12 s)"

lemma alloc_pipes_rx:
  assumes "pipes st = [pipe]" "host_config st = Some (k, srng_test_dst_configs)" "k \<in> set (k_heap s)"
  shows "alloc_pipes env [0..<SRNG_TEST_PIPE_COUNT_MAX] st s = Some
    (let s1 = ring_alloc_state env 12 s; p1 = (rx_empty_pipe pipe)\<lparr>pipe_dst_ring := Some (rx_dring env s)\<rparr>
     in if \<not> ring_granted env 12 s
        then (neg_errno ENOMEM, st\<lparr>pipes := [rx_empty_pipe pipe]\<rparr>, ring_refused_state env s)
        else if \<not> ring_granted env 8 s1
        then (neg_errno ENOMEM, st\<lparr>pipes := [p1]\<rparr>, ring_refused_state env s1)
        else (0, st\<lparr>pipes := [p1\<lparr>pipe_status_ring := Some (new_ring (k_calls s1) (ring_grant env 8 s1))\<rparr>]\<rparr>,
              ring_alloc_state env 8 s1))"
  using assms
  by (cases "ring_granted env 12 s"; cases "ring_granted env 8 (ring_alloc_state env 12 s)")
    (simp_all add: SRNG_TEST_PIPE_COUNT_MAX_def hal_srng_test_alloc_pipe_def nth_opt_def get_host_attr_def
      srng_test_dst_configs_def roundup_32 sizeof_hal_test_dst_def sizeof_hal_test_dst_status_def Let_def
      rx_empty_pipe_def rx_dring_def alloc_ring_12 alloc_ring_8)

section \<open>Initialisation\<close>

definition pipe_empty :: "srng_test_pipe \<Rightarrow> bool" where
  "pipe_empty p = (pipe_src_ring p = None \<and> pipe_dst_ring p = None \<and> pipe_status_ring p = None)"

text \<open>
  What the initialisation relies on: the ring layer is up, the module holds no ring yet, nobody
  holds the print lock, and the allocator does not hand out memory that is in use.
\<close>

definition rx_boot :: "kenv \<Rightarrow> 'a wireless_simu_scheme \<Rightarrow> bool" where
  "rx_boot env s =
     (hal_up s \<and> length (pipes (st_dst s)) = 1 \<and> list_all pipe_empty (pipes (st_dst s)) \<and>
      PrintSkbLock \<notin> set (k_held s) \<and>
      dma_honest env [(k_calls s + 2, of_nat (ring_bytes 12)), (k_calls s + 4, of_nat (ring_bytes 8))] s)"

text \<open>The state in which the rings are allocated, and the one in which they are registered.\<close>

definition rx_begin :: "'a wireless_simu_scheme \<Rightarrow> 'a wireless_simu_scheme" where
  "rx_begin s = s\<lparr>k_calls := Suc (k_calls s), k_heap := k_calls s # k_heap s,
     k_held := removeAll StDstLock (k_held s),
     st_dst := (st_dst s)\<lparr>host_config := Some (k_calls s, srng_test_dst_configs), pipes_count := 1\<rparr>,
     k_trace := k_trace s @ [EvTimerSetup, EvTaskletSetup 0]\<rparr>"

definition rx_sring_new :: "kenv \<Rightarrow> 'a kernel_scheme \<Rightarrow> srng_test_ring" where
  "rx_sring_new env s = (let s1 = ring_alloc_state env 12 s in new_ring (k_calls s1) (ring_grant env 8 s1))"

definition rx_alloc_state :: "kenv \<Rightarrow> 'a wireless_simu_scheme \<Rightarrow> 'a wireless_simu_scheme" where
  "rx_alloc_state env s =
     (ring_alloc_state env 8 (ring_alloc_state env 12 s))\<lparr>st_dst := (st_dst s)\<lparr>pipes :=
        [(rx_empty_pipe (hd (pipes (st_dst s))))\<lparr>pipe_dst_ring := Some (rx_dring env s),
           pipe_status_ring := Some (rx_sring_new env s)\<rparr>]\<rparr>\<rparr>"

definition rx_ready_state :: "kenv \<Rightarrow> 'a wireless_simu_scheme \<Rightarrow> 'a wireless_simu_scheme" where
  "rx_ready_state env s =
     set_pipe 0 (rx_fresh_pipe (rx_dring env s) (rx_sring_new env s) (rx_empty_pipe (hd (pipes (st_dst s)))))
       (rx_registered env (rx_dring env s) (rx_sring_new env s) (rx_alloc_state env s))"

lemma dma_honest_two:
  assumes "dma_honest env [a, b] s" "fst (dma_grant env a) \<noteq> 0" "fst (dma_grant env b) \<noteq> 0"
  shows "region_flat (dma_grant env a)" "region_flat (dma_grant env b)"
    "regions_apart (dma_grant env a) (dma_grant env b)"
    "q \<in> set (k_dma s) \<Longrightarrow> region_flat q \<and> regions_apart (dma_grant env a) q \<and> regions_apart (dma_grant env b) q"
  using assms by (auto simp: dma_honest_def regions_ok_def list_all_iff)

lemma rx_alloc_live:
  assumes "rx_boot env s" "ring_granted env 12 (rx_begin s)"
    "ring_granted env 8 (ring_alloc_state env 12 (rx_begin s))"
  defines "d \<equiv> rx_dring env (rx_begin s)" and "t \<equiv> rx_sring_new env (rx_begin s)"
    and "s3 \<equiv> rx_alloc_state env (rx_begin s)"
  shows "hal_up s3" "ring_live HAL_TEST_SRNG_DST d s3" "ring_live HAL_TEST_SRNG_DST_STATUS t s3"
    "regions_apart (ring_region d) (ring_region t)"
proof -
  let ?a = "(k_calls s + 2, of_nat (ring_bytes 12))" and ?b = "(k_calls s + 4, of_nat (ring_bytes 8))"
  have grants: "ring_grant env 12 (rx_begin s) = dma_grant env ?a"
    "ring_grant env 8 (ring_alloc_state env 12 (rx_begin s)) = dma_grant env ?b"
    by (simp_all add: ring_grant_def rx_begin_def numeral_eq_Suc)
  have reg: "ring_region d = dma_grant env ?a" "ring_region t = dma_grant env ?b"
    by (simp_all add: d_def t_def rx_dring_def rx_sring_new_def Let_def grants)
  have sz: "fst (snd (dma_grant env ?a)) = of_nat (ring_bytes 12)" "fst (snd (dma_grant env ?b)) = of_nat (ring_bytes 8)"
    by (simp_all add: dma_grant_def split: prod.splits)
  have "fst (dma_grant env ?a) \<noteq> 0" "fst (dma_grant env ?b) \<noteq> 0" "dma_honest env [?a, ?b] s"
    using assms(1-3) grants by (simp_all add: ring_granted_def rx_boot_def)
  note h = dma_honest_two [OF this(3,1,2)]
  have dma: "k_dma s3 = dma_grant env ?b # dma_grant env ?a # k_dma s"
    by (simp add: s3_def rx_alloc_state_def grants, simp add: rx_begin_def)
  have up: "hal_up s" "hal s3 = hal s" "k_iomapped s3 = k_iomapped s" "set (k_heap s) \<subseteq> set (k_heap s3)"
    using assms(1) by (auto simp: rx_boot_def s3_def rx_alloc_state_def rx_begin_def)
  obtain q where q: "q \<in> set (k_dma s)" "in_region (rdp_vaddr (hal s)) 688 q"
    using up(1) by (auto simp: hal_up_def mem_ok_def list_ex_iff)
  show "hal_up s3"
    using up dma by (auto simp: hal_up_def get_srng_config_def mem_ok_def split: option.splits if_splits)
  show "regions_apart (ring_region d) (ring_region t)"
    unfolding reg by (rule h(3))
  have base: "base_addr_owner_space d = ALIGN (fst (ring_region d)) 8" "base_addr_owner_space t = ALIGN (fst (ring_region t)) 8"
    "nentries d = 32" "nentries t = 32"
    by (simp_all add: d_def t_def rx_dring_def rx_sring_new_def Let_def)
  show "ring_live HAL_TEST_SRNG_DST d s3" "ring_live HAL_TEST_SRNG_DST_STATUS t s3"
    unfolding ring_live_def Let_def using base h(1,2) h(4) [OF q(1)] q sz
    by (auto simp: reg dma up(2) type_facts intro!: bexI [of _ q])
qed

lemma dst_init_begin:
  fixes s :: "'a wireless_simu_scheme"
  assumes "env_kmalloc env (k_calls s)"
  shows "wireless_simu_hal_srng_dst_test_init env s = do {
      (ret, st, s) \<leftarrow> alloc_pipes env [0..<SRNG_TEST_PIPE_COUNT_MAX] (st_dst (rx_begin s)) (rx_begin s);
      let s = s\<lparr>st_dst := st\<rparr>;
      if ret \<noteq> 0 then do {
        s \<leftarrow> dst_free_pipes s;
        s \<leftarrow> dst_free_config s;
        Some (ret, s)
      } else do {
        (ok, ret, s) \<leftarrow> dst_init_pipes env [0..<SRNG_TEST_PIPE_COUNT_MAX] ret s;
        if ok then do {
          s \<leftarrow> wireless_simu_test_dst_post_buf env s;
          Some (0, s)
        } else do {
          s \<leftarrow> dst_free_pipes s;
          s \<leftarrow> dst_free_config s;
          Some (ret, s)
        }
      }
    }"
proof -
  have one: "int SRNG_TEST_PIPE_COUNT_MAX = 1"
    "fold (\<lambda>i. emit (EvTaskletSetup i)) [0..<SRNG_TEST_PIPE_COUNT_MAX] t = emit (EvTaskletSetup 0) t" for t :: "'a wireless_simu_scheme"
    by (simp_all add: SRNG_TEST_PIPE_COUNT_MAX_def)
  show ?thesis
    using assms by (simp add: wireless_simu_hal_srng_dst_test_init_def kmalloc_def tick_def Let_def one
        spin_lock_init_def emit_def rx_begin_def del: alloc_pipes.simps)
qed

lemma dst_free_pipe_0:
  assumes "pipes (st_dst s) = [p]"
  shows "dst_free_pipes s = do {
    (p, s') \<leftarrow> free_pipe p s;
    Some (s'\<lparr>st_dst := (st_dst s)\<lparr>pipes := [p]\<rparr>\<rparr>)
  }"
  using assms by (simp add: dst_free_pipes_def hal_srng_test_free_pipes_def SRNG_TEST_PIPE_COUNT_MAX_def nth_opt_def
      split: bind_split)

lemma dst_init_pipes_rx:
  assumes "hal_up s" "ring_live HAL_TEST_SRNG_DST d s" "ring_live HAL_TEST_SRNG_DST_STATUS t s"
    "pipes (st_dst s) = [p\<lparr>pipe_dst_ring := Some d, pipe_status_ring := Some t\<rparr>]" "pipe_src_ring p = None"
  shows "dst_init_pipes env [0..<SRNG_TEST_PIPE_COUNT_MAX] 0 s =
    Some (True, 0, set_pipe 0 (rx_fresh_pipe d t p) (rx_registered env d t s))"
proof -
  have n: "nentries d = 32"
    using assms(2) by (simp add: ring_live_def Let_def)
  show ?thesis
    using assms(4,5) init_ring_exec [OF assms(1,2), of env] n
      init_ring_exec [of "setup_state HAL_TEST_SRNG_DST (ring_params d) (setup_ring env HAL_TEST_SRNG_DST (ring_params d) s)
        (setup_regs env HAL_TEST_SRNG_DST (ring_params d) s) s" HAL_TEST_SRNG_DST_STATUS t env] assms(1,3)
    by (simp add: SRNG_TEST_PIPE_COUNT_MAX_def get_pipe_def nth_opt_def type_facts rx_registered_def rx_fresh_pipe_def Let_def)
qed

definition balanced :: "'a kernel_scheme \<Rightarrow> 'a kernel_scheme \<Rightarrow> bool" where
  "balanced s s' = (k_dma s' = k_dma s \<and> k_heap s' = k_heap s \<and> k_maps s' = k_maps s \<and> k_skbs s' = k_skbs s)"

text \<open>What a failing initialisation leaves in the structure: no rings, but the pointer to the freed configuration.\<close>

definition rx_failed :: "kptr \<Rightarrow> 'a wireless_simu_scheme \<Rightarrow> bool" where
  "rx_failed k s = (host_config (st_dst s) = Some (k, srng_test_dst_configs) \<and> pipes_count (st_dst s) = 1 \<and>
     StDstLock \<notin> set (k_held s) \<and> (\<exists>p. pipes (st_dst s) = [p] \<and> pipe_empty p \<and> buf_sz p = 2048))"

lemma dst_free_config_exec:
  "host_config (st_dst s) = Some (k, c) \<Longrightarrow> k \<in> set (k_heap s) \<Longrightarrow>
   dst_free_config s = Some (emit (EvKfree k) (s\<lparr>k_heap := remove1 k (k_heap s)\<rparr>))"
  by (simp add: dst_free_config_def kfree_def)

lemma dst_init_fails:
  assumes "length (pipes (st_dst s)) = 1" "list_all pipe_empty (pipes (st_dst s))"
    "\<not> (env_kmalloc env (k_calls s) \<and> ring_granted env 12 (rx_begin s) \<and>
        ring_granted env 8 (ring_alloc_state env 12 (rx_begin s)))"
  shows "\<exists>s'. wireless_simu_hal_srng_dst_test_init env s =
    Some (if env_kmalloc env (k_calls s) then neg_errno ENOMEM else neg_errno ENOBUFS, s') \<and> balanced s s' \<and>
    (env_kmalloc env (k_calls s) \<longrightarrow> rx_failed (k_calls s) s')"
proof (cases "env_kmalloc env (k_calls s)")
  case False
  then show ?thesis
    by (simp add: wireless_simu_hal_srng_dst_test_init_def kmalloc_def balanced_def tick_def)
next
  case True
  obtain p where p: "pipes (st_dst s) = [p]" "pipe_empty p"
    using assms(1,2) by (auto simp: length_Suc_conv)
  let ?s = "rx_begin s"
  have b: "pipes (st_dst ?s) = [p]" "host_config (st_dst ?s) = Some (k_calls s, srng_test_dst_configs)"
    "k_calls s \<in> set (k_heap ?s)" "k_heap ?s = k_calls s # k_heap s" "k_calls ?s = Suc (k_calls s)"
    "k_dma ?s = k_dma s" "k_maps ?s = k_maps s" "k_skbs ?s = k_skbs s"
    using p(1) by (simp_all add: rx_begin_def)
  note alloc = alloc_pipes_rx [OF b(1-3), of env]
  have none: "pipe_src_ring (rx_empty_pipe p) = None" "pipe_dst_ring (rx_empty_pipe p) = None" "pipe_status_ring (rx_empty_pipe p) = None"
    using p(2) by (simp_all add: rx_empty_pipe_def pipe_empty_def)
  show ?thesis
  proof (cases "ring_granted env 12 ?s")
    case False
    then show ?thesis
      using True b none
      by (simp add: dst_init_begin [OF True] alloc dst_free_pipe_0 free_pipe_def dst_free_config_exec balanced_def Let_def rx_failed_def
          pipe_empty_def rx_empty_pipe_def, simp add: rx_begin_def)
  next
    case granted: True
    then have no: "\<not> ring_granted env 8 (ring_alloc_state env 12 ?s)"
      using True assms(3) by simp
    have free: "free_dst_ring (rx_dring env ?s) ((ring_refused_state env (ring_alloc_state env 12 ?s))\<lparr>st_dst := x\<rparr>) =
        Some ((ring_refused_state env (ring_alloc_state env 12 ?s))\<lparr>st_dst := x, k_dma := k_dma s, k_heap := k_calls s # k_heap s,
          k_trace := k_trace (ring_refused_state env (ring_alloc_state env 12 ?s)) @ ring_frees (rx_dring env ?s)\<rparr>)" for x
      using b by (subst free_dst_ring_exec) (simp_all add: rx_dring_def)
    show ?thesis
      using True b none granted no free
      by (simp add: dst_init_begin [OF True] alloc dst_free_pipe_0 free_pipe_def dst_free_config_exec balanced_def Let_def rx_failed_def
          pipe_empty_def rx_empty_pipe_def, simp add: rx_begin_def)
  qed
qed

lemma dst_init_ready:
  assumes "rx_boot env s" "env_kmalloc env (k_calls s)" "ring_granted env 12 (rx_begin s)"
    "ring_granted env 8 (ring_alloc_state env 12 (rx_begin s))"
  shows "wireless_simu_hal_srng_dst_test_init env s =
    map_option (Pair 0) (wireless_simu_test_dst_post_buf env (rx_ready_state env (rx_begin s)))"
proof -
  obtain p where p: "pipes (st_dst s) = [p]" "pipe_empty p"
    using assms(1) by (auto simp: rx_boot_def length_Suc_conv)
  let ?s = "rx_begin s"
  have b: "pipes (st_dst ?s) = [p]" "host_config (st_dst ?s) = Some (k_calls s, srng_test_dst_configs)"
    "k_calls s \<in> set (k_heap ?s)"
    using p(1) by (simp_all add: rx_begin_def)
  note alloc = alloc_pipes_rx [OF b, of env]
  note live = rx_alloc_live [OF assms(1,3,4)]
  have pipes: "pipes (st_dst (rx_alloc_state env ?s))
      = [(rx_empty_pipe p)\<lparr>pipe_dst_ring := Some (rx_dring env ?s), pipe_status_ring := Some (rx_sring_new env ?s)\<rparr>]"
    "pipe_src_ring (rx_empty_pipe p) = None"
    using b p(2) by (simp_all add: rx_alloc_state_def rx_empty_pipe_def pipe_empty_def)
  note reg = dst_init_pipes_rx [OF live(1-3) pipes, of env]
  have "(ring_alloc_state env 8 (ring_alloc_state env 12 ?s))\<lparr>st_dst := (st_dst ?s)\<lparr>pipes :=
      [(rx_empty_pipe p)\<lparr>pipe_dst_ring := Some (rx_dring env ?s), pipe_status_ring :=
        Some (new_ring (k_calls (ring_alloc_state env 12 ?s)) (ring_grant env 8 (ring_alloc_state env 12 ?s)))\<rparr>]\<rparr>\<rparr>
      = rx_alloc_state env ?s"
    using b by (simp add: rx_alloc_state_def rx_sring_new_def Let_def)
  then show ?thesis
    using assms(3,4) reg b
    by (simp add: dst_init_begin [OF assms(2)] alloc Let_def rx_ready_state_def map_conv_bind_option comp_def
        del: dst_init_pipes.simps alloc_pipes.simps ring_alloc_state_frame)
qed

end
