(* ===== verification/Rx_Foreign.thy ===== *)
theory Rx_Foreign
  imports Rx_Frame
begin

text \<open>
  The socket buffers of others. Whatever the receive path does, it touches only buffers that sit in
  a slot of its rings or that it has allocated itself, so a buffer of another part of the driver
  keeps its contents. The rules hold for every operation that returns, like those of \<^verbatim>\<open>Rx_Frame\<close>.
\<close>

section \<open>Definitions\<close>

definition pipe_slots :: "srng_test_pipe \<Rightarrow> skbp set" where
  "pipe_slots pipe = (case pipe_dst_ring pipe of None \<Rightarrow> {} | Some d \<Rightarrow> {p. Some p \<in> set (ring_skb d)})"

definition rx_slots :: "'a wireless_simu_scheme \<Rightarrow> skbp set" where
  "rx_slots s = (\<Union>pipe\<in>set (pipes (st_dst s)). pipe_slots pipe)"

text \<open>
  Relative to a moment with \<^term>\<open>c\<close> requests made and buffers \<^term>\<open>f\<close>, of which the rings held \<^term>\<open>S\<close>:
  the older buffers outside \<^term>\<open>S\<close> are as they were.
\<close>

definition foreign :: "skbp set \<Rightarrow> nat \<Rightarrow> (skbp \<rightharpoonup> sk_buff) \<Rightarrow> 'a wireless_simu_scheme \<Rightarrow> bool" where
  "foreign S c f s = (c \<le> k_calls s \<and> rx_slots s \<subseteq> S \<union> {c..} \<and> (\<forall>p<c. p \<notin> S \<longrightarrow> k_skbs s p = f p))"

definition rx_view :: "'a wireless_simu_scheme \<Rightarrow> nat \<times> (skbp \<rightharpoonup> sk_buff) \<times> srng_test" where
  "rx_view s = (k_calls s, k_skbs s, st_dst s)"

text \<open>
  The cells of shared memory in which the device keeps its ends of the rings, of every ring and of the
  two of the receive path.
\<close>

definition ring_ends :: "'a wireless_simu_scheme \<Rightarrow> nat \<Rightarrow> u64 \<times> u64" where
  "ring_ends s rid = (let u = srng_u (srng_list (hal s) rid) in (src_tp_addr (union_src u), dst_hp_addr (union_dst u)))"

definition rx_cells :: "'a wireless_simu_scheme \<Rightarrow> u64 set" where
  "rx_cells s = {fst (ring_ends s (rx_rid 0 s)), snd (ring_ends s (rx_srid 0 s))}"

section \<open>Operations that do not look at buffers\<close>

lemma foreign_view: "rx_view s' = rx_view s \<Longrightarrow> foreign S c f s' = foreign S c f s"
  by (simp add: foreign_def rx_view_def rx_slots_def)

lemma foreign_same: "foreign S c f s \<Longrightarrow> rx_view s' = rx_view s \<Longrightarrow> foreign S c f s'"
  using foreign_view by blast

lemma rx_view_upd [simp]:
  "rx_view (s\<lparr>k_mem := m\<rparr>) = rx_view s" "rx_view (s\<lparr>k_held := h\<rparr>) = rx_view s" "rx_view (s\<lparr>k_trace := t\<rparr>) = rx_view s"
  "rx_view (s\<lparr>k_maps := mp\<rparr>) = rx_view s" "rx_view (emit e s) = rx_view s" "rx_view (lockdep_assert_held l s) = rx_view s"
  "rx_view (set_srng rid g s) = rx_view s"
  by (simp_all add: rx_view_def lockdep_assert_held_def set_srng_def emit_def)

lemma kernel_view:
  "mem_write a v s = Some s' \<Longrightarrow> rx_view s' = rx_view s" "spin_lock l s = Some s' \<Longrightarrow> rx_view s' = rx_view s"
  "spin_unlock l s = Some s' \<Longrightarrow> rx_view s' = rx_view s" "dma_unmap_single pa n s = Some s' \<Longrightarrow> rx_view s' = rx_view s"
  "wireless_hif_write32 r w s = Some s' \<Longrightarrow> rx_view s' = rx_view s"
  by (auto simp: mem_write_def spin_lock_def spin_unlock_def dma_unmap_single_def wireless_hif_write32_def iowrite32_def
      split: if_splits)

lemma access_view:
  "wireless_simu_hal_srng_access_begin rid s = Some s' \<Longrightarrow> rx_view s' = rx_view s"
  "wireless_simu_hal_srng_access_end rid s = Some s' \<Longrightarrow> rx_view s' = rx_view s"
  "wireless_simu_hal_srng_src_num_free rid b s = Some (n, s') \<Longrightarrow> rx_view s' = rx_view s"
  "wireless_simu_hal_srng_src_get_next_entry rid s = Some (a, s') \<Longrightarrow> rx_view s' = rx_view s"
  "wireless_simu_hal_srng_dst_get_next_entry rid s = Some (a, s') \<Longrightarrow> rx_view s' = rx_view s"
  by (auto simp: wireless_simu_hal_srng_access_begin_def wireless_simu_hal_srng_access_end_def
      wireless_simu_hal_srng_src_num_free_def wireless_simu_hal_srng_src_get_next_entry_def
      wireless_simu_hal_srng_dst_get_next_entry_def Let_def
      split: if_splits bind_splits dest!: kernel_view)

lemma set_desc_view: "wireless_simu_test_dst_set_desc a pa s = Some s' \<Longrightarrow> rx_view s' = rx_view s"
  by (auto simp: wireless_simu_test_dst_set_desc_def Let_def split: bind_splits dest!: kernel_view)

lemmas views = kernel_view access_view set_desc_view

section \<open>Operations on buffers\<close>

lemma rx_slots_upd [simp]:
  "rx_slots (s\<lparr>k_skbs := b\<rparr>) = rx_slots s" "rx_slots (s\<lparr>k_calls := n\<rparr>) = rx_slots s" "rx_slots (s\<lparr>k_maps := m\<rparr>) = rx_slots s"
  "rx_slots (emit e s) = rx_slots s" "rx_slots (tick s) = rx_slots s" "rx_slots (skb_set p x s) = rx_slots s"
  by (simp_all add: rx_slots_def tick_def skb_set_def emit_def)

lemma foreign_skbs:
  assumes "foreign S c f s" "p \<in> S \<or> c \<le> p"
  shows "foreign S c f (s\<lparr>k_skbs := (k_skbs s)(p := b)\<rparr>)" "foreign S c f (emit e (s\<lparr>k_skbs := (k_skbs s)(p := b)\<rparr>))"
    "foreign S c f (skb_set p b' s)"
  using assms by (auto simp: foreign_def) (auto simp: skb_set_def)

lemma foreign_free: "dev_kfree_skb_any p s = Some s' \<Longrightarrow> foreign S c f s \<Longrightarrow> p \<in> S \<or> c \<le> p \<Longrightarrow> foreign S c f s'"
  by (auto simp: dev_kfree_skb_any_def foreign_skbs split: bind_splits)

lemma foreign_put: "skb_put p n s = Some s' \<Longrightarrow> foreign S c f s \<Longrightarrow> p \<in> S \<or> c \<le> p \<Longrightarrow> foreign S c f s'"
  by (auto simp: skb_put_def foreign_skbs split: bind_splits if_splits)

lemma foreign_alloc:
  assumes "dev_alloc_skb env n s = (po, s')" "foreign S c f s"
  shows "foreign S c f s'" "po = Some p \<Longrightarrow> c \<le> p"
  using assms by (auto simp: dev_alloc_skb_def foreign_def split: option.splits) (auto simp: tick_def)

lemma foreign_map: "dma_map_single env n s = (mo, s') \<Longrightarrow> foreign S c f s \<Longrightarrow> foreign S c f s'"
  by (auto simp: dma_map_single_def foreign_def split: option.splits) (auto simp: tick_def)

lemma rx_slots_set_pipe: "rx_slots (set_pipe i p t) \<subseteq> rx_slots t \<union> pipe_slots p"
proof -
  have "set (pipes (st_dst (set_pipe i p t))) \<subseteq> insert p (set (pipes (st_dst t)))"
    using set_update_subset_insert [of "pipes (st_dst t)" i p] by (simp add: set_pipe_def)
  then show ?thesis
    unfolding rx_slots_def by blast
qed

lemma foreign_set_pipe:
  assumes "foreign S c f s" "get_pipe i x = Some q" "rx_view x = rx_view s" "rx_view t = rx_view s"
    "rx_view s' = rx_view (set_pipe i p t)" "pipe_slots p \<subseteq> pipe_slots q \<union> S \<union> {c..}"
  shows "foreign S c f s'"
proof -
  have "q \<in> set (pipes (st_dst s))"
    using assms(2,3) by (auto simp: get_pipe_def nth_opt_def rx_view_def split: if_splits)
  then have p: "pipe_slots p \<subseteq> S \<union> {c..}"
    using assms(1,6) by (auto simp: foreign_def rx_slots_def)
  have "rx_slots s' = rx_slots (set_pipe i p t)" "rx_slots t = rx_slots s"
    using assms(4,5) by (simp_all add: rx_view_def rx_slots_def)
  then have "rx_slots s' \<subseteq> rx_slots s \<union> pipe_slots p"
    using rx_slots_set_pipe [of i p t] by simp
  then show ?thesis
    using assms(1,4,5) p by (auto simp: foreign_def) (auto simp: rx_view_def set_pipe_def)
qed

text \<open>Taking a buffer out of a slot, and putting one in.\<close>

lemma slots_update:
  assumes "pipe_dst_ring q = Some d"
  shows "pipe_slots (q\<lparr>pipe_dst_ring := Some (d\<lparr>ring_skb := (ring_skb d)[j := x], sw_index := v\<rparr>), rx_buf_needed := n\<rparr>) \<subseteq> pipe_slots q \<union> set_option x"
    "pipe_slots (q\<lparr>pipe_dst_ring := Some (d\<lparr>ring_skb := (ring_skb d)[j := x], write_index := v\<rparr>), rx_buf_needed := n\<rparr>) \<subseteq> pipe_slots q \<union> set_option x"
  using set_update_subset_insert [of "ring_skb d" j x] assms by (auto simp: pipe_slots_def)

lemma foreign_take:
  assumes "foreign S c f s"
    "rx_view s' = rx_view (set_pipe i (q\<lparr>pipe_dst_ring := Some (d\<lparr>ring_skb := (ring_skb d)[j := None], sw_index := v\<rparr>), rx_buf_needed := n\<rparr>) t)"
    "get_pipe i x = Some q" "pipe_dst_ring q = Some d" "rx_view x = rx_view s" "rx_view t = rx_view s"
  shows "foreign S c f s'"
  by (rule foreign_set_pipe [OF assms(1,3,5,6,2)]) (use slots_update(1) [OF assms(4), where j = j and x = None and v = v and n = n] in auto)

lemma foreign_store:
  assumes "foreign S c f s"
    "rx_view s' = rx_view (set_pipe i (q\<lparr>pipe_dst_ring := Some (d\<lparr>ring_skb := (ring_skb d)[j := Some p], write_index := v\<rparr>), rx_buf_needed := n\<rparr>) t)"
    "get_pipe i x = Some q" "pipe_dst_ring q = Some d" "rx_view x = rx_view s" "rx_view t = rx_view s" "c \<le> p"
  shows "foreign S c f s'"
  by (rule foreign_set_pipe [OF assms(1,3,5,6,2)]) (use slots_update(2) [OF assms(4), where j = j and x = "Some p" and v = v and n = n] assms(7) in auto)

lemma foreign_slot:
  assumes "foreign S c f s" "get_pipe i x = Some q" "pipe_dst_ring q = Some d" "nth_opt (ring_skb d) j = Some (Some p)" "rx_view x = rx_view s"
  shows "p \<in> S \<or> c \<le> p"
proof -
  have "q \<in> set (pipes (st_dst s))" "Some p \<in> set (ring_skb d)"
    using assms(2,4,5) by (auto simp: get_pipe_def nth_opt_def rx_view_def in_set_conv_nth split: if_splits)
  then have "p \<in> rx_slots s"
    using assms(3) by (auto simp: rx_slots_def pipe_slots_def intro!: bexI [of _ q])
  then show ?thesis
    using assms(1) by (auto simp: foreign_def)
qed

lemma foreign_recv_next:
  assumes "wireless_simu_test_dst_recv_next i s = Some (r, po, n, s')" "foreign S c f s"
  shows "foreign S c f s'" "po = Some p \<Longrightarrow> p \<in> S \<or> c \<le> p"
proof -
  from assms show "foreign S c f s'"
    by (auto simp: wireless_simu_test_dst_recv_next_def Let_def wireless_simu_test_dst_get_length_def
        split: bind_splits if_splits option.splits dest!: views)
      (erule (1) foreign_same | erule (5) foreign_take)+
  from assms show "po = Some p \<Longrightarrow> p \<in> S \<or> c \<le> p"
    by (auto simp: wireless_simu_test_dst_recv_next_def Let_def wireless_simu_test_dst_get_length_def
        split: bind_splits if_splits option.splits dest!: views) (drule (4) foreign_slot, simp)
qed

lemma foreign_enqueue:
  assumes "wireless_simu_test_dst_enqueue_pipe i p pa s = Some (r, s')" "foreign S c f s" "c \<le> p"
  shows "foreign S c f s'"
  using assms
  by (auto simp: wireless_simu_test_dst_enqueue_pipe_def Let_def list_put_def
      split: bind_splits if_splits option.splits dest!: views)
    (erule (1) foreign_same | erule (3) foreign_store, simp_all)+

lemma foreign_posted:
  assumes "dev_alloc_skb env n s = (Some p, t)" "dma_map_single env m t = (mo, u)"
    "wireless_simu_test_dst_enqueue_pipe i p pa (skb_set p b u) = Some (r, v)" "foreign S c f s"
  shows "foreign S c f v" "c \<le> p"
proof -
  show p: "c \<le> p"
    using foreign_alloc(2) [OF assms(1,4)] by simp
  have "foreign S c f (skb_set p b u)"
    using foreign_map [OF assms(2) foreign_alloc(1) [OF assms(1,4)]] p by (intro foreign_skbs) simp_all
  then show "foreign S c f v"
    using foreign_enqueue [OF assms(3) _ p] by blast
qed

lemma foreign_unmapped:
  "dev_alloc_skb env n s = (Some p, t) \<Longrightarrow> dma_map_single env m t = (None, s') \<Longrightarrow> foreign S c f s \<Longrightarrow> foreign S c f s'"
  using foreign_alloc(1) foreign_map by blast

lemma foreign_undone:
  assumes "dev_alloc_skb env n s = (Some p, t)" "dma_map_single env m t = (mo, u)"
    "wireless_simu_test_dst_enqueue_pipe i p pa (skb_set p b u) = Some (r, v)" "dma_unmap_single pa m v = Some w"
    "dev_kfree_skb_any p w = Some s'" "foreign S c f s"
  shows "foreign S c f s'"
  using foreign_posted [OF assms(1-3,6)] foreign_same [OF _ kernel_view(4) [OF assms(4)]] foreign_free [OF assms(5)] by blast

lemma foreign_post_loop:
  "dst_post_loop k env i s = Some (r, s') \<Longrightarrow> foreign S c f s \<Longrightarrow> foreign S c f s'"
proof (induction k arbitrary: s)
  case 0
  then show ?case
    by (subst (asm) dst_post_loop.simps) (auto split: bind_splits if_splits)
next
  case (Suc k)
  from Suc.prems show ?case
    by (subst (asm) dst_post_loop.simps)
      (auto simp: Let_def split: bind_splits if_splits prod.splits option.splits
        intro: foreign_alloc(1) foreign_unmapped foreign_undone Suc.IH foreign_posted(1))
qed

lemma foreign_post_pipe:
  "wireless_simu_test_dst_post_pipe env i s = Some (r, s') \<Longrightarrow> foreign S c f s \<Longrightarrow> foreign S c f s'"
  by (auto simp: wireless_simu_test_dst_post_pipe_def split: bind_splits if_splits
      dest!: foreign_post_loop [where S = S and c = c and f = f] kernel_view intro: foreign_same)

lemma foreign_recv_one:
  assumes "dst_recv_one i q s = Some (go, q', s')" "foreign S c f s" "\<forall>p\<in>set q. p \<in> S \<or> c \<le> p"
  shows "foreign S c f s' \<and> (\<forall>p\<in>set q'. p \<in> S \<or> c \<le> p)"
proof -
  obtain ret po n t where t: "wireless_simu_test_dst_recv_next i s = Some (ret, po, n, t)"
    using assms(1) by (auto simp: dst_recv_one_def split: bind_splits)
  have f: "foreign S c f t" "\<And>p. po = Some p \<Longrightarrow> p \<in> S \<or> c \<le> p"
    using foreign_recv_next [OF t] assms(2) by simp_all
  show ?thesis
    using assms(1,3) t f
    by (auto simp: dst_recv_one_def Let_def split: bind_splits if_splits
        dest!: kernel_view(4) foreign_free foreign_put intro: foreign_same)
qed

lemma foreign_recv_loop:
  "dst_recv_loop k dev i q s = Some (q', s') \<Longrightarrow> foreign S c f s \<Longrightarrow> \<forall>p\<in>set q. p \<in> S \<or> c \<le> p \<Longrightarrow>
   foreign S c f s' \<and> (\<forall>p\<in>set q'. p \<in> S \<or> c \<le> p)"
proof (induction k arbitrary: q s)
  case (Suc k)
  let ?s = "s\<lparr>k_mem := dev k (k_mem s)\<rparr>"
  obtain go q1 t where t: "dst_recv_one i q ?s = Some (go, q1, t)"
    "(if go then dst_recv_loop k dev i q1 t else Some (q1, t)) = Some (q', s')"
    using Suc.prems(1) by (auto simp: dst_recv_loop.simps Let_def split: bind_splits)
  have "foreign S c f ?s"
    using Suc.prems(2) foreign_same [of S c f s ?s] by simp
  from foreign_recv_one [OF t(1) this Suc.prems(3)] show ?case
    using t(2) Suc.IH [of q1 t] by (auto split: if_splits)
qed (simp add: dst_recv_loop.simps)

lemma foreign_deliver:
  "foldo dst_deliver q s = Some s' \<Longrightarrow> foreign S c f s \<Longrightarrow> \<forall>p\<in>set q. p \<in> S \<or> c \<le> p \<Longrightarrow> foreign S c f s'"
proof (induction q arbitrary: s)
  case (Cons p q)
  then obtain t where t: "dst_deliver p s = Some t" "foldo dst_deliver q t = Some s'"
    by (auto split: bind_splits)
  have "foreign S c f t"
    using t(1) Cons.prems(2,3)
    by (auto simp: dst_deliver_def Let_def split: bind_splits dest!: kernel_view elim!: foreign_free intro: foreign_same)
  then show ?case
    using Cons.IH t(2) Cons.prems(3) by auto
qed simp

section \<open>Steps\<close>

lemma foreign_start: "foreign (rx_slots s) (k_calls s) (k_skbs s) s"
  by (simp add: foreign_def)

lemma rx_step_foreign:
  assumes "rx_step env s s'" "pipes_count (st_dst s) = 1"
  shows "foreign (rx_slots s) (k_calls s) (k_skbs s) s'"
  using assms(1)
proof (cases rule: rx_step.cases)
  case bottom_half
  then obtain i q t u ret v where m: "dst_recv_loop (length (ring_skb (rx_ring 0 s))) (\<lambda>_ m. m) i [] s = Some (q, t)"
    "foldo dst_deliver q t = Some u" "wireless_simu_test_dst_post_pipe env i u = Some (ret, v)" "rx_view s' = rx_view v"
    by (auto simp: wireless_simu_hal_srng_dst_tasklet_def wireless_simu_irq_hal_srng_dst_dma_test_def
        split: bind_splits if_splits)
  show ?thesis
    using foreign_recv_loop [OF m(1) foreign_start] foreign_deliver [OF m(2)] foreign_post_pipe [OF m(3)] foreign_same [OF _ m(4)]
    by auto
next
  case retry
  then obtain ret v where m: "wireless_simu_test_dst_post_pipe env 0 s = Some (ret, v)" "rx_view s' = rx_view v"
    using assms(2) by (auto simp: wireless_simu_test_dst_rx_replenish_retry_def wireless_simu_test_dst_post_buf_def
        split: bind_splits if_splits)
  show ?thesis
    using foreign_post_pipe [OF m(1) foreign_start] foreign_same [OF _ m(2)] by blast
qed (auto intro!: foreign_same [OF foreign_start] simp: src_consume_def dst_produce_def Let_def)

lemma rx_step_held:
  assumes "rx_step env s s'" "rx_sys s" "env_empty_skbs env"
  shows "k_held s' = k_held s"
  using assms(1)
proof (cases rule: rx_step.cases)
  case bottom_half
  then show ?thesis
    using tasklet_ok [of 0 s env] assms(2,3) by (auto simp: rx_sys_def rx_serviced_def)
next
  case retry
  then show ?thesis
    using post_pipe_ok [of 0 s env] assms(2,3)
    by (auto simp: wireless_simu_test_dst_rx_replenish_retry_def wireless_simu_test_dst_post_buf_def rx_sys_def
        rx_free_def rx_post_outcome_def split: if_splits)
qed simp_all

text \<open>The posted buffers are the ones that sit in slots.\<close>

lemma rx_slots_bufs:
  assumes "rx_inv 0 s" "length (pipes (st_dst s)) = 1"
  shows "rx_slots s = set (rx_bufs (rx_ring 0 s))"
proof (rule rx_invE [OF assms(1)])
  fix pipe d
  assume v: "pipes (st_dst s) ! 0 = pipe" "pipe_dst_ring pipe = Some d" "rx_ring 0 s = d" "slots_ok d"
    "unat (write_index d) < length (ring_skb d)"
  have "set (rx_bufs d) = set (slot_bufs (ring_skb d))"
    by (rule mset_eq_setD [OF slots_ok_bufs [OF v(4,5), symmetric]])
  also have "\<dots> = pipe_slots pipe"
    using v(2) by (force simp: slot_bufs_def pipe_slots_def image_iff)
  also have "\<dots> = rx_slots s"
    using v(1) assms(2) by (auto simp: rx_slots_def length_Suc_conv)
  finally show ?thesis
    using v(3) by simp
qed

section \<open>The ends of the rings stay in place\<close>

lemma ring_ends_upd [simp]:
  "ring_ends (s\<lparr>k_mem := m\<rparr>) = ring_ends s" "ring_ends (s\<lparr>k_held := h\<rparr>) = ring_ends s" "ring_ends (s\<lparr>k_trace := t\<rparr>) = ring_ends s"
  "ring_ends (s\<lparr>k_maps := mp\<rparr>) = ring_ends s" "ring_ends (s\<lparr>k_skbs := b\<rparr>) = ring_ends s" "ring_ends (s\<lparr>k_calls := c\<rparr>) = ring_ends s"
  "ring_ends (emit e s) = ring_ends s" "ring_ends (tick s) = ring_ends s" "ring_ends (lockdep_assert_held l s) = ring_ends s"
  "ring_ends (set_pipe i p s) = ring_ends s" "ring_ends (skb_set q b' s) = ring_ends s"
  by (simp_all add: ring_ends_def [abs_def] tick_def lockdep_assert_held_def skb_set_def emit_def set_pipe_def)

lemma ring_ends_set:
  assumes "src_tp_addr (union_src (srng_u g)) = src_tp_addr (union_src (srng_u (srng_list (hal s) rid)))"
    "dst_hp_addr (union_dst (srng_u g)) = dst_hp_addr (union_dst (srng_u (srng_list (hal s) rid)))"
  shows "ring_ends (set_srng rid g s) = ring_ends s"
  using assms by (auto simp: ring_ends_def [abs_def] Let_def fun_eq_iff)

lemma kernel_ends:
  "mem_write a v s = Some s' \<Longrightarrow> hal s' = hal s" "wireless_hif_write32 r v s = Some s' \<Longrightarrow> hal s' = hal s"
  "spin_lock l s = Some s' \<Longrightarrow> hal s' = hal s" "spin_unlock l s = Some s' \<Longrightarrow> hal s' = hal s"
  "dma_unmap_single pa n s = Some s' \<Longrightarrow> hal s' = hal s" "dev_kfree_skb_any p s = Some s' \<Longrightarrow> hal s' = hal s"
  "skb_put p n s = Some s' \<Longrightarrow> hal s' = hal s" "dev_alloc_skb env n s = (po, s') \<Longrightarrow> hal s' = hal s"
  "dma_map_single env n s = (mo, s') \<Longrightarrow> hal s' = hal s"
  by (auto simp: mem_write_def spin_lock_def spin_unlock_def dma_unmap_single_def dev_kfree_skb_any_def skb_put_def
      wireless_hif_write32_def iowrite32_def dev_alloc_skb_def dma_map_single_def skb_set_def tick_def emit_def
      split: if_splits bind_splits option.splits)

lemma ring_ends_hal: "hal s' = hal s \<Longrightarrow> ring_ends s' = ring_ends s"
  by (simp add: ring_ends_def [abs_def])

lemma access_ends:
  "wireless_simu_hal_srng_access_begin rid s = Some s' \<Longrightarrow> ring_ends s' = ring_ends s"
  "wireless_simu_hal_srng_access_end rid s = Some s' \<Longrightarrow> ring_ends s' = ring_ends s"
  "wireless_simu_hal_srng_src_num_free rid b s = Some (n, s') \<Longrightarrow> ring_ends s' = ring_ends s"
  "wireless_simu_hal_srng_src_get_next_entry rid s = Some (a, s') \<Longrightarrow> ring_ends s' = ring_ends s"
  by (auto simp: wireless_simu_hal_srng_access_begin_def wireless_simu_hal_srng_access_end_def
      wireless_simu_hal_srng_src_num_free_def wireless_simu_hal_srng_src_get_next_entry_def Let_def get_srng_def lockdep_assert_held_def
      ring_ends_def [abs_def] union_src_def union_dst_def fun_eq_iff
      split: if_splits bind_splits srng_union.splits dest!: kernel_ends)

lemma set_desc_ends: "wireless_simu_test_dst_set_desc a pa s = Some s' \<Longrightarrow> ring_ends s' = ring_ends s"
  by (auto simp: wireless_simu_test_dst_set_desc_def Let_def split: bind_splits dest!: kernel_ends ring_ends_hal)

lemma enqueue_ends: "wireless_simu_test_dst_enqueue_pipe i p pa s = Some (r, s') \<Longrightarrow> ring_ends s' = ring_ends s"
  by (auto simp: wireless_simu_test_dst_enqueue_pipe_def Let_def list_put_def
      split: bind_splits if_splits option.splits dest!: kernel_ends ring_ends_hal access_ends set_desc_ends)

lemma post_loop_ends: "dst_post_loop k env i s = Some (r, s') \<Longrightarrow> ring_ends s' = ring_ends s"
proof (induction k arbitrary: s)
  case 0
  then show ?case
    by (subst (asm) dst_post_loop.simps) (auto split: bind_splits if_splits)
next
  case (Suc k)
  from Suc.prems show ?case
    by (subst (asm) dst_post_loop.simps)
      (auto simp: Let_def split: bind_splits if_splits prod.splits option.splits
        dest!: kernel_ends ring_ends_hal enqueue_ends Suc.IH)
qed

lemma post_pipe_ends: "wireless_simu_test_dst_post_pipe env i s = Some (r, s') \<Longrightarrow> ring_ends s' = ring_ends s"
  by (auto simp: wireless_simu_test_dst_post_pipe_def split: bind_splits if_splits dest!: kernel_ends ring_ends_hal post_loop_ends)

section \<open>Changes by others\<close>

text \<open>
  The receive invariant depends on the rings, on the two pointer cells the device writes, and on the
  posted buffers with their mappings.
\<close>

lemma rx_sys_cong:
  fixes s s' :: "'a wireless_simu_scheme"
  assumes "rx_sys s" "st_dst s' = st_dst s" "k_dma s' = k_dma s" "k_iomapped s' = k_iomapped s" "set (k_held s') \<subseteq> set (k_held s)"
    "srng_list (hal s') (rx_rid 0 s) = srng_list (hal s) (rx_rid 0 s)" "srng_list (hal s') (rx_srid 0 s) = srng_list (hal s) (rx_srid 0 s)"
    "\<And>a. a \<in> rx_cells s \<Longrightarrow> k_mem s' a = k_mem s a"
    "k_calls s \<le> k_calls s'" "\<And>p. p \<in> set (rx_bufs (rx_ring 0 s)) \<Longrightarrow> k_skbs s' p = k_skbs s p"
    "mset (k_maps s') = mset (k_maps s) + T"
  shows "rx_sys s'" "rx_rest 0 s' = rx_rest 0 s + T"
proof -
  have ids: "rx_ring 0 s' = rx_ring 0 s" "rx_rid 0 s' = rx_rid 0 s" "rx_srid 0 s' = rx_srid 0 s"
    using assms(2) by (simp_all add: rx_ring_def rx_rid_def rx_srid_def rx_sring_def)
  have inv: "rx_inv 0 s" "rx_free 0 s" "pipes_count (st_dst s) = 1"
    using assms(1) by (simp_all add: rx_sys_def)
  then have own: "own_ok s (rx_bufs (rx_ring 0 s))" "rx_wired (rx_rid 0 s) (rx_srid 0 s) s"
    "soft_ring_ok (rx_ring 0 s) s"
    by (simp_all add: rx_inv_def)
  have maps: "map (skb_map s') (rx_bufs (rx_ring 0 s)) = map (skb_map s) (rx_bufs (rx_ring 0 s))"
    using assms(10) by (simp add: skb_map_def)
  have own': "own_ok s' (rx_bufs (rx_ring 0 s))"
    using own(1) assms(9-11) unfolding own_ok_def maps
    by (auto simp: list_all_iff intro: less_le_trans subset_mset.order_trans)
  have rdy: "src_ready (rx_rid 0 s) s'" "dst_ready (rx_srid 0 s) s'"
    using own(2) assms(3,4,6-8) by (auto simp: rx_wired_def Let_def rx_cells_def ring_ends_def intro: src_ready_cong dst_ready_cong)
  have len: "length (src_queue (rx_rid 0 s) s') = length (src_queue (rx_rid 0 s) s)"
    "length (dst_queue (rx_srid 0 s) s') = length (dst_queue (rx_srid 0 s) s)"
    using assms(6-8) by (simp_all add: src_queue_def dst_queue_def Let_def length_pending rx_cells_def ring_ends_def)
  have "soft_ring_ok (rx_ring 0 s) s'"
    using own(3) assms(6) by (simp add: soft_ring_ok_def rx_rid_def)
  then have "rx_inv 0 s'"
    using inv(1) own' own(2) rdy len assms(2,6,7) ids by (simp add: rx_inv_def rx_wired_def Let_def)
  moreover have "rx_free 0 s'"
    using inv(2) assms(5) ids by (auto simp: rx_free_def)
  ultimately show "rx_sys s'"
    using inv(3) assms(2) by (simp add: rx_sys_def)
  show "rx_rest 0 s' = rx_rest 0 s + T"
    unfolding rx_rest_def ids maps assms(11)
    using multiset_diff_union_assoc [of "mset (map (skb_map s) (rx_bufs (rx_ring 0 s)))" "mset (k_maps s)" T] own(1)
    by (simp only: own_ok_def add.commute [of _ T])
qed

end
