(* ===== verification/Rx_Life.thy ===== *)
theory Rx_Life
  imports Rx_Setup Rx_Foreign
begin

text \<open>
  The life of the receive module from initialisation to release: initialisation establishes the
  receive invariant or gives everything back, and whatever driver and device do in between, the
  release returns every buffer, mapping, ring and configuration the module has taken.
\<close>

section \<open>Definitions\<close>

definition rx_granted :: "kenv \<Rightarrow> 'a wireless_simu_scheme \<Rightarrow> bool" where
  "rx_granted env s = (env_kmalloc env (k_calls s) \<and> ring_granted env 12 (rx_begin s) \<and>
     ring_granted env 8 (ring_alloc_state env 12 (rx_begin s)))"

definition sample_boot :: wireless_simu where
  "sample_boot = sample\<lparr>st_dst := srng_test_zero\<rparr>"

section \<open>Lemmas\<close>

lemma rx_ready:
  assumes "rx_boot env s" "rx_granted env s"
  defines "r \<equiv> rx_ready_state env (rx_begin s)"
  shows "rx_sys r" "rx_static r" "rx_rest 0 r = mset (k_maps s)"
    "mset (k_dma r) = mset (k_dma s) + mset (rx_regions r)" "mset (k_heap r) = mset (k_heap s) + mset (rx_objects r)"
    "k_skbs r = k_skbs s" "rx_rid 0 r = 8" "rx_srid 0 r = 1" "rx_cells r = {rdp_vaddr (hal s) + 32, rdp_vaddr (hal s) + 4}"
proof -
  let ?d = "rx_dring env (rx_begin s)" and ?t = "rx_sring_new env (rx_begin s)" and ?a = "rx_alloc_state env (rx_begin s)"
  obtain p where p: "pipes (st_dst s) = [p]" "pipe_empty p"
    using assms(1) by (auto simp: rx_boot_def length_Suc_conv)
  have g: "ring_granted env 12 (rx_begin s)" "ring_granted env 8 (ring_alloc_state env 12 (rx_begin s))"
    using assms(2) by (simp_all add: rx_granted_def)
  note live = rx_alloc_live [OF assms(1) g]
  let ?p = "rx_empty_pipe p"
  have r: "r = set_pipe 0 (rx_fresh_pipe ?d ?t ?p) (rx_registered env ?d ?t ?a)"
    using p(1) by (simp add: r_def rx_ready_state_def rx_begin_def)
  have pipes: "length (pipes (st_dst ?a)) = 1" "pipe_num ?p = 0" "ring_skb ?d = replicate 32 None" "nentries_mask ?d = 31"
    by (simp_all add: rx_alloc_state_def rx_empty_pipe_def rx_dring_def)
  note fresh = rx_fresh_inv [OF live pipes, of env, folded r]
  show ids: "rx_rid 0 r = 8" "rx_srid 0 r = 1"
    by (rule fresh(2,3))+
  have "rdp_vaddr (hal ?a) = rdp_vaddr (hal s)"
    by (simp add: rx_alloc_state_def rx_begin_def)
  then show "rx_cells r = {rdp_vaddr (hal s) + 32, rdp_vaddr (hal s) + 4}"
    using rx_registered_wired(7,8) [OF live, of env] unfolding rx_cells_def ids by (simp add: ring_ends_def r)
  have held: "k_held r = removeAll (SrngLock 1) (removeAll (SrngLock 8) (removeAll StDstLock (k_held s)))"
    by (simp add: r rx_alloc_state_def rx_begin_def)
  show "rx_sys r"
    using fresh held assms(1)
    by (simp add: rx_sys_def rx_free_def rx_boot_def, simp add: r rx_alloc_state_def rx_begin_def)
  have rings: "rx_ring 0 r = ?d\<lparr>hal_ring_id := 8, write_index := 0, sw_index := 0\<rparr>"
    "rx_sring 0 r = ?t\<lparr>hal_ring_id := 1, sw_index := 0, write_index := 0\<rparr>"
    using pipes(1) by (auto simp: r rx_ring_def rx_sring_def rx_fresh_pipe_def length_Suc_conv)
  have maps: "k_maps r = k_maps s" "k_skbs r = k_skbs s"
    by (simp_all add: r rx_alloc_state_def rx_begin_def)
  then show "rx_rest 0 r = mset (k_maps s)" "k_skbs r = k_skbs s"
    using fresh(4) by (simp_all add: rx_rest_def)
  have reg: "rx_regions r = [ring_region ?d, ring_region ?t]"
    by (simp add: rx_regions_def rings ring_region_def)
  have dma: "k_dma r = ring_region ?t # ring_region ?d # k_dma s"
    by (simp add: r rx_alloc_state_def rx_dring_def rx_sring_new_def Let_def, simp add: rx_begin_def)
  have obj: "rx_objects r = [ring_kptr ?d, ring_kptr ?t, k_calls s]"
    by (simp add: rx_objects_def rings, simp add: r rx_alloc_state_def rx_begin_def)
  have heap: "k_heap r = ring_kptr ?t # ring_kptr ?d # k_calls s # k_heap s"
    by (simp add: r rx_alloc_state_def rx_dring_def rx_sring_new_def Let_def, simp add: rx_begin_def)
  show "mset (k_dma r) = mset (k_dma s) + mset (rx_regions r)" "mset (k_heap r) = mset (k_heap s) + mset (rx_objects r)"
    by (simp_all add: dma reg heap obj)
  have "unat (nentries (rx_ring 0 r)) = length (ring_skb (rx_ring 0 r))"
    using pipes(3) live(2) by (simp add: rings ring_live_def Let_def)
  moreover have "pipes (st_dst r) = [rx_fresh_pipe ?d ?t ?p]" "pipes_count (st_dst r) = 1" "host_config (st_dst r) \<noteq> None"
    using pipes(1) by (auto simp: r length_Suc_conv) (simp_all add: rx_alloc_state_def rx_begin_def)
  ultimately show "rx_static r"
    using p(2) by (simp add: rx_static_def dma reg heap obj, simp add: rx_fresh_pipe_def rx_empty_pipe_def pipe_empty_def)
qed

lemma dst_init_ok:
  assumes "rx_boot env s" "env_empty_skbs env" "rx_granted env s"
  shows "\<exists>s'. wireless_simu_hal_srng_dst_test_init env s = Some (0, s') \<and> rx_sys s' \<and> rx_static s' \<and>
    rx_rest 0 s' = mset (k_maps s) \<and> mset (k_dma s') = mset (k_dma s) + mset (rx_regions s') \<and>
    mset (k_heap s') = mset (k_heap s) + mset (rx_objects s') \<and>
    (rx_buf_needed (pipes (st_dst s') ! 0) = 0 \<or> (\<exists>j. last (k_trace s') = EvModTimer j))"
proof -
  let ?r = "rx_ready_state env (rx_begin s)"
  note r = rx_ready [OF assms(1,3)]
  obtain s' where s': "wireless_simu_test_dst_rx_replenish_retry env ?r = Some s'" "rx_sys s'"
    "rx_buf_needed (pipes (st_dst s') ! 0) = 0 \<or> (\<exists>j. last (k_trace s') = EvModTimer j)"
    using retry_ok [OF r(1) assms(2)] by blast
  have step: "rx_step env ?r s'"
    by (rule rx_step.retry [OF s'(1)])
  have fixed: "rx_fixed s' = rx_fixed ?r"
    using rx_step_fixed [OF step] r(1) by (simp add: rx_sys_def)
  note st = rx_static_fixed [OF fixed r(2)]
  have "wireless_simu_hal_srng_dst_test_init env s = Some (0, s')"
    using dst_init_ready [OF assms(1)] assms(3) s'(1)
    by (simp add: rx_granted_def wireless_simu_test_dst_rx_replenish_retry_def)
  moreover have "k_dma s' = k_dma ?r" "k_heap s' = k_heap ?r"
    using fixed by (simp_all add: rx_fixed_def)
  ultimately show ?thesis
    using s'(2,3) st r(3-5) rx_step_rest [OF step r(1) assms(2)] by simp
qed

text \<open>What a successful initialisation leaves alone, and the memory it takes.\<close>

lemma dst_init_keeps:
  fixes s :: "'a wireless_simu_scheme"
  assumes "rx_boot env s" "env_empty_skbs env" "rx_granted env s" "wireless_simu_hal_srng_dst_test_init env s = Some (0, s')"
  shows "k_iomapped s' = k_iomapped s" "mmio_addr s' = mmio_addr s" "srng_config (hal s') = srng_config (hal s)"
    "rdp_vaddr (hal s') = rdp_vaddr (hal s)" "rdp_paddr (hal s') = rdp_paddr (hal s)" "wrp_vaddr (hal s') = wrp_vaddr (hal s)"
    "wrp_paddr (hal s') = wrp_paddr (hal s)" "wireless_simu.more s' = wireless_simu.more s" "k_calls s + 5 \<le> k_calls s'"
    "set (k_held s') \<subseteq> set (k_held s)"
    "k_dma s' = dma_grant env (k_calls s + 4, of_nat (ring_bytes 8)) # dma_grant env (k_calls s + 2, of_nat (ring_bytes 12)) # k_dma s"
proof -
  let ?r = "rx_ready_state env (rx_begin s)"
  note r = rx_ready [OF assms(1,3)]
  have retry: "wireless_simu_test_dst_rx_replenish_retry env ?r = Some s'"
    using dst_init_ready [OF assms(1)] assms(3,4)
    by (cases "wireless_simu_test_dst_post_buf env ?r") (auto simp: rx_granted_def wireless_simu_test_dst_rx_replenish_retry_def)
  have fixed: "rx_fixed s' = rx_fixed ?r"
    using rx_step_fixed [OF rx_step.retry [OF retry]] r(1) by (simp add: rx_sys_def)
  have pre: "rx_inv 0 ?r" "StDstLock \<notin> set (k_held ?r)" "SrngLock (rx_rid 0 ?r) \<notin> set (k_held ?r)" "pipes_count (st_dst ?r) = 1"
    using r(1) by (simp_all add: rx_sys_def rx_free_def)
  have post: "k_held s' = k_held ?r" "k_calls ?r \<le> k_calls s'"
    using retry pre(4) post_pipe_ok [OF pre(1-3) assms(2)] post_pipe_calls
    by (auto simp: wireless_simu_test_dst_rx_replenish_retry_def wireless_simu_test_dst_post_buf_def rx_post_outcome_def
        split: bind_splits if_splits)
  note defs = rx_ready_state_def rx_alloc_state_def rx_dring_def rx_sring_new_def Let_def
  show "set (k_held s') \<subseteq> set (k_held s)" "k_calls s + 5 \<le> k_calls s'"
    using post by (auto simp: defs rx_begin_def)
  have "k_dma s' = k_dma ?r"
    using fixed by (simp add: rx_fixed_def)
  then show "k_dma s' = dma_grant env (k_calls s + 4, of_nat (ring_bytes 8)) # dma_grant env (k_calls s + 2, of_nat (ring_bytes 12)) # k_dma s"
    by (simp add: defs ring_grant_def) (simp add: rx_begin_def numeral_eq_Suc)
  have hal: "srng_config (hal ?r) = srng_config (hal s)" "rdp_vaddr (hal ?r) = rdp_vaddr (hal s)" "rdp_paddr (hal ?r) = rdp_paddr (hal s)"
    "wrp_vaddr (hal ?r) = wrp_vaddr (hal s)" "wrp_paddr (hal ?r) = wrp_paddr (hal s)" "k_iomapped ?r = k_iomapped s"
    "mmio_addr ?r = mmio_addr s" "wireless_simu.more ?r = wireless_simu.more s"
    by (simp_all add: defs rx_registered_def, simp_all add: rx_begin_def, simp add: setup_state_def set_srng_def ring_alloc_state_def Let_def)
  then show "k_iomapped s' = k_iomapped s" "mmio_addr s' = mmio_addr s" "srng_config (hal s') = srng_config (hal s)"
    "rdp_vaddr (hal s') = rdp_vaddr (hal s)" "rdp_paddr (hal s') = rdp_paddr (hal s)" "wrp_vaddr (hal s') = wrp_vaddr (hal s)"
    "wrp_paddr (hal s') = wrp_paddr (hal s)" "wireless_simu.more s' = wireless_simu.more s"
    using fixed by (simp_all add: rx_fixed_def)
qed

text \<open>Where the device keeps its ends of the two rings: in the cells 8 and 1 of its pointer block.\<close>

lemma dst_init_cells:
  fixes s :: "'a wireless_simu_scheme"
  assumes "rx_boot env s" "env_empty_skbs env" "rx_granted env s" "wireless_simu_hal_srng_dst_test_init env s = Some (0, s')"
  shows "rx_rid 0 s' = 8" "rx_srid 0 s' = 1" "rx_cells s' = {rdp_vaddr (hal s) + 32, rdp_vaddr (hal s) + 4}"
    "length (pipes (st_dst s')) = 1"
proof -
  let ?r = "rx_ready_state env (rx_begin s)"
  note r = rx_ready [OF assms(1,3)]
  have pre: "rx_inv 0 ?r" "StDstLock \<notin> set (k_held ?r)" "SrngLock (rx_rid 0 ?r) \<notin> set (k_held ?r)" "pipes_count (st_dst ?r) = 1"
    using r(1) by (simp_all add: rx_sys_def rx_free_def)
  obtain ret t where t: "wireless_simu_test_dst_post_pipe env 0 ?r = Some (ret, t)" "rx_post_outcome env 0 ?r ret t"
    using post_pipe_ok [OF pre(1-3) assms(2)] by blast
  have "st_dst s' = st_dst t" "hal s' = hal t"
    using dst_init_ready [OF assms(1)] assms(3,4) t(1) pre(4)
    by (auto simp: rx_granted_def wireless_simu_test_dst_post_buf_def split: bind_splits if_splits)
  then have v: "rx_rid 0 s' = rx_rid 0 t" "rx_srid 0 s' = rx_srid 0 t" "ring_ends s' = ring_ends ?r" "pipes (st_dst s') = pipes (st_dst t)"
    using post_pipe_ends [OF t(1)] ring_ends_hal [of s' t] by (simp_all add: rx_rid_def rx_srid_def rx_ring_def rx_sring_def)
  then show ids: "rx_rid 0 s' = 8" "rx_srid 0 s' = 1"
    using t(2) r(7,8) by (simp_all add: rx_post_outcome_def)
  then show "rx_cells s' = {rdp_vaddr (hal s) + 32, rdp_vaddr (hal s) + 4}"
    using r(7-9) by (simp add: rx_cells_def v(3))
  show "length (pipes (st_dst s')) = 1"
    using t(2) v(4) r(2) by (auto simp: rx_post_outcome_def rx_static_def split: list.splits)
qed

lemma rx_release_all:
  assumes "rx_sys s" "rx_static s" "\<not> sched 0"
  shows "\<exists>s'. wireless_simu_hal_srng_dst_test_deinit sched env s = Some s' \<and>
    mset (k_dma s') = mset (k_dma s) - mset (rx_regions s) \<and> mset (k_heap s') = mset (k_heap s) - mset (rx_objects s) \<and>
    mset (k_maps s') = rx_rest 0 s \<and> k_held s' = k_held s \<and> hal s' = hal s \<and>
    (\<forall>p. k_skbs s' p = (if p \<in> set (rx_bufs (rx_ring 0 s)) then None else k_skbs s p)) \<and>
    list_all (\<lambda>p. pipe_dst_ring p = None \<and> pipe_status_ring p = None) (pipes (st_dst s'))"
proof -
  have bufs: "mset (rx_skbs s) = mset (rx_bufs (rx_ring 0 s))"
    by (rule rx_sys_bufs [OF assms(1)])
  then have set: "set (rx_skbs s) = set (rx_bufs (rx_ring 0 s))"
    by (rule mset_eq_setD)
  have "StDstLock \<notin> set (k_held s)"
    using assms(1) by (simp add: rx_sys_def rx_free_def)
  from dst_deinit_exec [of s sched env, OF rx_sys_owned [OF assms(1,2)] this assms(3)] show ?thesis
    using bufs set by (auto simp: rx_rest_def)
qed

section \<open>Properties\<close>

text \<open>
  C6: Initialising the receive module, on every branch. With the ring layer up and an allocator
  that does not hand out memory in use, it returns -ENOBUFS when the configuration and -ENOMEM when
  a ring cannot be allocated, and has then given back everything. Otherwise it returns 0, the
  receive path is sound (both rings registered and empty, the posted buffers owned by the driver
  with their mappings), the module has taken exactly its two regions and three heap objects and no
  mapping but those of posted buffers, and the pipe is full or the retry timer armed.
\<close>

theorem receive_setup:
  assumes "rx_boot env s" "env_empty_skbs env"
  shows "\<exists>ret s'. wireless_simu_hal_srng_dst_test_init env s = Some (ret, s') \<and>
    ret = (if rx_granted env s then 0 else if env_kmalloc env (k_calls s) then neg_errno ENOMEM else neg_errno ENOBUFS) \<and>
    (if ret = 0
     then rx_sys s' \<and> rx_rest 0 s' = mset (k_maps s) \<and> mset (k_dma s') = mset (k_dma s) + mset (rx_regions s') \<and>
       mset (k_heap s') = mset (k_heap s) + mset (rx_objects s') \<and>
       (rx_buf_needed (pipes (st_dst s') ! 0) = 0 \<or> (\<exists>j. last (k_trace s') = EvModTimer j))
     else balanced s s')"
proof (cases "rx_granted env s")
  case True
  then show ?thesis
    using dst_init_ok [OF assms True] by auto
next
  case False
  then show ?thesis
    using dst_init_fails [of s env] assms(1) by (auto simp: rx_boot_def rx_granted_def)
qed

lemma sample_boot_pre: "rx_boot sample_env sample_boot" "rx_granted sample_env sample_boot"
  by (simp_all add: rx_boot_def rx_granted_def sample_boot_def hal_up_def get_srng_config_def mem_ok_def in_region_def
      ring_granted_def ring_grant_def dma_grant_def ring_bytes_def sample_env_def rx_begin_def srng_test_zero_def
      srng_test_pipe_zero_def SRNG_TEST_PIPE_COUNT_MAX_def pipe_empty_def dma_honest_def regions_ok_def region_flat_def
      regions_apart_def, simp_all add: sample_defs in_region_def region_flat_def)

theorem receive_setup_witness:
  "\<exists>s'. wireless_simu_hal_srng_dst_test_init sample_env sample_boot = Some (0, s') \<and> rx_sys s'"
  using receive_setup [OF sample_boot_pre(1) sample_env_empty] sample_boot_pre(2) by auto

text \<open>
  C4: The life of the receive module. After a successful initialisation let bottom halves, retry
  timers and the device run in any order. When no bottom half is scheduled any more, the release returns
  without fault, and the memory, heap objects and mappings that are live afterwards are exactly those
  that were live before the initialisation; every buffer still posted is freed, no lock stays held,
  and the pipes have no ring. When a bottom half is still scheduled the release never returns: it waits
  for it while holding the lock that the bottom half takes.
\<close>

theorem receive_lifecycle:
  assumes "rx_boot env s" "env_empty_skbs env"
    and "wireless_simu_hal_srng_dst_test_init env s = Some (0, s1)" "(rx_step env)\<^sup>*\<^sup>* s1 s2"
  shows "if sched 0 then wireless_simu_hal_srng_dst_test_deinit sched env s2 = None
    else \<exists>s3. wireless_simu_hal_srng_dst_test_deinit sched env s2 = Some s3 \<and>
    mset (k_dma s3) = mset (k_dma s) \<and> mset (k_heap s3) = mset (k_heap s) \<and> mset (k_maps s3) = mset (k_maps s) \<and>
    (\<forall>p\<in>set (rx_bufs (rx_ring 0 s2)). k_skbs s3 p = None) \<and> k_held s3 = k_held s2 \<and>
    list_all (\<lambda>p. pipe_dst_ring p = None \<and> pipe_status_ring p = None) (pipes (st_dst s3))"
proof -
  have granted: "rx_granted env s"
    using dst_init_fails [of s env] assms(1,3)
    by (cases "rx_granted env s") (auto simp: rx_boot_def rx_granted_def split: if_splits)
  have s1: "rx_sys s1" "rx_static s1" "rx_rest 0 s1 = mset (k_maps s)"
    "mset (k_dma s1) = mset (k_dma s) + mset (rx_regions s1)" "mset (k_heap s1) = mset (k_heap s) + mset (rx_objects s1)"
    using dst_init_ok [OF assms(1,2) granted] assms(3) by auto
  note keep = rx_steps_keep [OF assms(4) s1(1) assms(2)]
  note st = rx_static_fixed [OF keep(2) s1(2)]
  have "k_dma s2 = k_dma s1" "k_heap s2 = k_heap s1"
    using keep(2) by (simp_all add: rx_fixed_def)
  moreover have "pipes_count (st_dst s2) = 1"
    using keep(1) by (simp add: rx_sys_def)
  ultimately show ?thesis
    using rx_release_all [OF keep(1) st(1), of sched env] dst_deinit_blocks [of s2 sched env] st(2,3) s1(3-5) keep(3) by fastforce
qed

theorem receive_lifecycle_witness:
  "\<exists>s1 s2 s3. wireless_simu_hal_srng_dst_test_init sample_env sample_boot = Some (0, s1) \<and> rx_step sample_env s1 s2 \<and>
     wireless_simu_hal_srng_dst_test_deinit (\<lambda>_. False) sample_env s2 = Some s3 \<and> mset (k_dma s3) = {#(0x1000, 0x4000, 0x91000)#}"
proof -
  obtain s1 where s1: "wireless_simu_hal_srng_dst_test_init sample_env sample_boot = Some (0, s1)" "rx_sys s1"
    using dst_init_ok [OF sample_boot_pre(1) sample_env_empty sample_boot_pre(2)] by blast
  obtain s2 where s2: "rx_step sample_env s1 s2"
    using rx_timer.service_step [of sample_env s1] sample_env_empty s1(2) by blast
  have "k_dma sample_boot = [(0x1000, 0x4000, 0x91000)]"
    by (simp add: sample_boot_def sample_def)
  then show ?thesis
    using receive_lifecycle [OF sample_boot_pre(1) sample_env_empty s1(1) r_into_rtranclp [of "rx_step sample_env", OF s2], of "\<lambda>_. False"] s1 s2 by auto
qed

text \<open>
  C37: When a ring of the receive module cannot be allocated, its initialisation gives everything
  back but keeps the pointer to the configuration it has freed. The probe does not look at the
  result, so the removal of the device releases the module all the same, and frees the
  configuration a second time.
\<close>

theorem receive_failed_release:
  fixes s :: "'a wireless_simu_scheme"
  assumes "length (pipes (st_dst s)) = 1" "list_all pipe_empty (pipes (st_dst s))" "env_kmalloc env (k_calls s)" "\<not> rx_granted env s"
    "\<forall>k\<in>set (k_heap s). k < k_calls s"
  shows "\<exists>s'. wireless_simu_hal_srng_dst_test_init env s = Some (neg_errno ENOMEM, s') \<and> balanced s s' \<and>
    (\<forall>sched. wireless_simu_hal_srng_dst_test_deinit sched env s' = None)"
proof -
  obtain s' where s': "wireless_simu_hal_srng_dst_test_init env s = Some (neg_errno ENOMEM, s')" "balanced s s'" "rx_failed (k_calls s) s'"
    using dst_init_fails [OF assms(1,2), of env] assms(3,4) by (auto simp: rx_granted_def)
  have "k_calls s \<notin> set (k_heap s')"
    using s'(2) assms(5) by (auto simp: balanced_def)
  then have idle: "wireless_simu_hal_srng_dst_test_deinit sched env s' = None" if "\<not> sched 0" for sched
    using s'(3) that
    by (auto simp: rx_failed_def wireless_simu_hal_srng_dst_test_deinit_def spin_lock_def wireless_simu_hal_srng_dst_test_cleanuprx_def
        tasklet_kill_simps get_pipe_def nth_opt_def pipe_empty_def dst_free_pipe_0 free_pipe_def dst_free_config_def kfree_def)
  have "0 < pipes_count (st_dst s')"
    using s'(3) by (auto simp: rx_failed_def)
  then show ?thesis
    using s' idle dst_deinit_blocks by blast
qed

theorem receive_failed_release_witness:
  "\<exists>s'. wireless_simu_hal_srng_dst_test_init (sample_env\<lparr>env_dma_alloc := (\<lambda>_ _. (0, 0))\<rparr>) sample_boot = Some (- 12, s') \<and>
     wireless_simu_hal_srng_dst_test_deinit (\<lambda>_. False) (sample_env\<lparr>env_dma_alloc := (\<lambda>_ _. (0, 0))\<rparr>) s' = None"
proof -
  let ?e = "sample_env\<lparr>env_dma_alloc := (\<lambda>_ _. (0, 0))\<rparr>"
  have pre: "length (pipes (st_dst sample_boot)) = 1" "list_all pipe_empty (pipes (st_dst sample_boot))" "env_kmalloc ?e (k_calls sample_boot)"
    "\<not> rx_granted ?e sample_boot" "\<forall>k\<in>set (k_heap sample_boot). k < k_calls sample_boot"
    by (simp_all add: sample_boot_def srng_test_zero_def SRNG_TEST_PIPE_COUNT_MAX_def pipe_empty_def srng_test_pipe_zero_def sample_env_def
        rx_granted_def ring_granted_def ring_grant_def dma_grant_def sample_def)
  show ?thesis
    using receive_failed_release [OF pre] by auto
qed

end
