(* ===== verification/Self_Test.thy ===== *)
theory Self_Test
  imports Rx_Life
begin

text \<open>
  The self test of the transmit module as a whole: from the allocation of its configuration, pipe and
  ring over the fifty sends to the release. Whatever the allocator refuses and however far the
  device has taken descriptors, the test returns and gives back all it has taken.
\<close>

section \<open>Definitions\<close>

text \<open>
  The device moves the tail of the transmit ring to some descriptor of the ring. It may otherwise
  write the shared memory as it likes.
\<close>

definition tx_tame :: "u64 \<Rightarrow> (nat \<Rightarrow> (u64 \<Rightarrow> u32) \<Rightarrow> (u64 \<Rightarrow> u32)) \<Rightarrow> bool" where
  "tx_tame cell dev = (\<forall>tc m. unat (dev tc m cell) < 160 \<and> unat (dev tc m cell) mod 5 = 0)"

text \<open>An allocated buffer is empty and has the room asked for.\<close>

definition env_roomy_skbs :: "kenv \<Rightarrow> bool" where
  "env_roomy_skbs env = (\<forall>c n b. env_alloc_skb env c n = Some b \<longrightarrow> skb_data b = skb_tail b \<and> skb_tail b + n \<le> length (skb_buf b))"

text \<open>
  What the test leaves alone: all but the shared memory, the trace, the locks, buffers and mappings,
  and the ring it registers.
\<close>

definition test_frame :: "'a wireless_simu_scheme \<Rightarrow> _" where
  "test_frame s = (k_dma s, k_heap s, k_iomapped s, st_dst s, mmio_addr s,
     (hal s)\<lparr>srng_list := (srng_list (hal s))(125 := hal_srng_zero)\<rparr>, wireless_simu.more s)"

definition tx_frame :: "'a wireless_simu_scheme \<Rightarrow> _" where
  "tx_frame s = (test_frame s, ring_base_vaddr (srng_list (hal s) 125), initialized (srng_list (hal s) 125))"

text \<open>The transmit pipe as far as sends do not change it.\<close>

definition tx_fixed :: "srng_test \<Rightarrow> _" where
  "tx_fixed st = (host_config st, map (\<lambda>p. (map_option ring_fixed (pipe_src_ring p), pipe_dst_ring p, pipe_status_ring p)) (pipes st))"

text \<open>The state in which the loop sends: the ring is sound, has 32 entries and its tail in the given cell.\<close>

definition tx_going :: "u64 \<Rightarrow> srng_test \<Rightarrow> 'a wireless_simu_scheme \<Rightarrow> bool" where
  "tx_going cell st s = (tx_ready 0 st s \<and> tx_rid 0 st = 125 \<and> n_ent (srng_list (hal s) 125) = 32 \<and>
     src_tp_addr (union_src (srng_u (srng_list (hal s) 125))) = cell)"

text \<open>Room for a 32-bit value at the front of a buffer, and the part of a buffer that stores keep.\<close>

definition skb_shape :: "sk_buff \<Rightarrow> nat \<times> nat \<times> nat \<times> skb_cb" where
  "skb_shape b = (skb_data b, skb_tail b, length (skb_buf b), skb_cb b)"

text \<open>The stages of the test: configuration allocated, ring allocated, ring registered.\<close>

definition tx_begin :: "'a wireless_simu_scheme \<Rightarrow> 'a wireless_simu_scheme" where
  "tx_begin s = s\<lparr>k_calls := Suc (k_calls s), k_heap := k_calls s # k_heap s, k_held := removeAll StLock (k_held s)\<rparr>"

definition tx_ring_new :: "kenv \<Rightarrow> 'a kernel_scheme \<Rightarrow> srng_test_ring" where
  "tx_ring_new env s = new_ring (k_calls s) (ring_grant env 20 s)"

definition tx_pipe :: srng_test_pipe where
  "tx_pipe = srng_test_pipe_zero\<lparr>buf_sz := 2048\<rparr>"

definition tx_st :: "kptr \<Rightarrow> srng_test_ring option \<Rightarrow> srng_test" where
  "tx_st k r = srng_test_zero\<lparr>host_config := Some (k, srng_test_configs), pipes := [tx_pipe\<lparr>pipe_src_ring := r\<rparr>]\<rparr>"

definition tx_registered :: "kenv \<Rightarrow> srng_test_ring \<Rightarrow> 'a wireless_simu_scheme \<Rightarrow> 'a wireless_simu_scheme" where
  "tx_registered env d s = setup_state HAL_TEST_SRNG (ring_params d) (setup_ring env HAL_TEST_SRNG (ring_params d) s)
     (setup_regs env HAL_TEST_SRNG (ring_params d) s) s"

text \<open>The part of the test between registration and release: the payload and its transfer.\<close>

definition tx_payload :: "kenv \<Rightarrow> (nat \<Rightarrow> (u64 \<Rightarrow> u32) \<Rightarrow> (u64 \<Rightarrow> u32)) \<Rightarrow> srng_test \<Rightarrow> 'a wireless_simu_scheme \<Rightarrow>
  (srng_test \<times> 'a wireless_simu_scheme) option" where
  "tx_payload env dev st s =
     (case kmalloc env s of
        (None, s) \<Rightarrow> Some (st, s)
      | (Some kd, s) \<Rightarrow> do {
          (st, s) \<leftarrow>
            (case dev_alloc_skb env (length srng_test_payload) s of
               (None, s) \<Rightarrow> Some (st, s)
             | (Some skb, s) \<Rightarrow> do {
                 (st, s) \<leftarrow> srng_test_transfer env dev skb srng_test_payload st s;
                 s \<leftarrow> dev_kfree_skb_any skb s;
                 Some (st, s)
               });
          s \<leftarrow> kfree (Some kd) s;
          Some (st, s)
        })"

text \<open>Buffers that were there stay as they are, new ones are gone.\<close>

definition skbs_kept :: "'a kernel_scheme \<Rightarrow> 'a kernel_scheme \<Rightarrow> bool" where
  "skbs_kept s s' = (k_calls s \<le> k_calls s' \<and> (\<forall>p. k_skbs s' p = k_skbs s p \<or> k_calls s \<le> p \<and> k_skbs s' p = None))"

text \<open>Cells of the shared memory that neither a ring of the test at the given base nor the device writes.\<close>

definition tx_spared :: "(nat \<Rightarrow> (u64 \<Rightarrow> u32) \<Rightarrow> (u64 \<Rightarrow> u32)) \<Rightarrow> u64 \<Rightarrow> u64 set" where
  "tx_spared dev base = {a. 640 \<le> unat (a - base) \<and> (\<forall>tc m. dev tc m a = m a)}"

abbreviation tx_kept :: "(nat \<Rightarrow> (u64 \<Rightarrow> u32) \<Rightarrow> (u64 \<Rightarrow> u32)) \<Rightarrow> 'a wireless_simu_scheme \<Rightarrow> 'b wireless_simu_scheme \<Rightarrow> bool" where
  "tx_kept dev s s' \<equiv> \<forall>a\<in>tx_spared dev (ring_base_vaddr (srng_list (hal s) 125)). k_mem s' a = k_mem s a"

text \<open>
  Live memory that the device leaves alone keeps its contents over the test, except for the cell of
  the ring's tail.
\<close>

definition test_spares :: "(nat \<Rightarrow> (u64 \<Rightarrow> u32) \<Rightarrow> (u64 \<Rightarrow> u32)) \<Rightarrow> 'a wireless_simu_scheme \<Rightarrow> 'a wireless_simu_scheme \<Rightarrow> bool" where
  "test_spares dev s s' = (\<forall>a. mem_ok a 4 s \<and> a \<noteq> rdp_vaddr (hal s) + 500 \<and> (\<forall>tc m. dev tc m a = m a) \<longrightarrow> k_mem s' a = k_mem s a)"

section \<open>Sending\<close>

lemma tx_frame_src [simp]:
  "tx_frame (src_commit 125 ws s) = tx_frame s" "tx_frame (src_refuse 125 s) = tx_frame s"
  "tx_frame (s\<lparr>k_mem := m\<rparr>) = tx_frame s" "tx_frame (skb_set p b s) = tx_frame s" "tx_frame (emit e s) = tx_frame s"
  "tx_frame (s\<lparr>k_maps := mp\<rparr>) = tx_frame s" "tx_frame (tick s) = tx_frame s" "tx_frame (s\<lparr>k_calls := c\<rparr>) = tx_frame s"
  by (simp_all add: tx_frame_def test_frame_def src_op_defs set_srng_def skb_set_def emit_def tick_def)

lemma src_access_tp [simp]:
  "src_tp_addr (union_src (srng_u (srng_list (hal (src_commit rid ws s)) rid))) = src_tp_addr (union_src (srng_u (srng_list (hal s) rid)))"
  "src_tp_addr (union_src (srng_u (srng_list (hal (src_refuse rid s)) rid))) = src_tp_addr (union_src (srng_u (srng_list (hal s) rid)))"
  by (simp_all add: src_op_defs)

lemma tx_fixed_store: "tx_ready pid st s \<Longrightarrow> tx_fixed (tx_store pid skb st) = tx_fixed st"
  by (erule tx_readyE) (auto simp: tx_fixed_def tx_store_def tx_ring_def soft_put_def map_update list_update_same_conv)

lemma skb_set_frame [simp]:
  "k_skbs (skb_set p b s) = (k_skbs s)(p \<mapsto> b)" "k_maps (skb_set p b s) = k_maps s" "k_held (skb_set p b s) = k_held s"
  "k_calls (skb_set p b s) = k_calls s" "k_mem (skb_set p b s) = k_mem s"
  by (simp_all add: skb_set_def)

lemma tx_going_cong:
  fixes s s' :: "'a wireless_simu_scheme"
  assumes "tx_going cell st s" "hal s' = hal s" "k_dma s' = k_dma s" "k_iomapped s' = k_iomapped s" "k_held s' = k_held s"
    "unat (k_mem s' cell) < 160" "unat (k_mem s' cell) mod 5 = 0"
  shows "tx_going cell st s'"
proof -
  have r: "tx_ready 0 st s" "tx_rid 0 st = 125" "n_ent (srng_list (hal s) 125) = 32" "e_sz (srng_list (hal s) 125) = 5"
    "src_tp_addr (union_src (srng_u (srng_list (hal s) 125))) = cell"
    using assms(1) tx_ready_e_sz [of 0 st s] by (auto simp: tx_going_def)
  have "src_ready 125 s'"
  proof (rule src_readyE)
    show "src_ready 125 s" using tx_ready_src [OF r(1)] r(2) by simp
  qed (use assms r in \<open>auto simp: src_ready_def get_srng_def mem_ok_def ptr_ok_def split: if_splits\<close>)
  then show ?thesis
    using r assms(2,5) by (auto simp: tx_going_def tx_ready_def soft_ring_ok_def tx_rid_def tx_ring_def split: option.splits)
qed

lemma skb_store_shape:
  assumes "k_skbs s p = Some b" "skb_data b + length bs \<le> length (skb_buf b)"
  shows "\<exists>b'. skb_store p bs s = Some (skb_set p b' s) \<and> skb_shape b' = skb_shape b"
  using assms by (auto simp: skb_store_def skb_store_at_def skb_get_def Let_def skb_shape_def)

text \<open>A new descriptor is written inside the ring.\<close>

lemma commit_spares:
  assumes "src_ready rid s" "length ws = e_sz (srng_list (hal s) rid)" "outside (srng_list (hal s) rid) a"
  shows "k_mem (src_commit rid ws s) a = k_mem s a"
proof (rule src_readyE [OF assms(1)])
  fix g r
  assume g: "srng_list (hal s) rid = g" "srng_u g = SrcRing r" "geom_ok g" "ptr_ok g (src_hp r)"
  then show ?thesis
    using assms(2,3) by (simp add: src_slot_def write_words_outside ent_idx_less)
qed

lemma send_going:
  assumes "tx_going cell st s" "k_skbs s skb = Some b"
  shows "\<exists>ret st' s'. wireless_simu_hal_srng_test_send st skb 0 tid s = Some (ret, st', s') \<and> tx_ready 0 st' s' \<and>
    tx_rid 0 st' = 125 \<and> n_ent (srng_list (hal s') 125) = 32 \<and> src_tp_addr (union_src (srng_u (srng_list (hal s') 125))) = cell \<and>
    tx_fixed st' = tx_fixed st \<and> tx_frame s' = tx_frame s \<and> k_skbs s' = k_skbs s \<and> k_maps s' = k_maps s \<and>
    k_held s' = k_held s \<and> k_calls s' = k_calls s \<and> tx_kept dev s s'"
proof -
  have r: "tx_ready 0 st s" "tx_rid 0 st = 125" "n_ent (srng_list (hal s) 125) = 32"
    "src_tp_addr (union_src (srng_u (srng_list (hal s) 125))) = cell"
    using assms(1) by (auto simp: tx_going_def)
  show ?thesis
  proof (cases "length (src_queue 125 s) < src_capacity 125 s")
    case True
    then show ?thesis
      using send_room [OF r(1) assms(2), of tid] tx_ready_commit [OF r(1), of _ skb] r tx_store_ring [OF r(1), of skb]
        tx_fixed_store [OF r(1), of skb] commit_spares [OF tx_ready_src [OF r(1)]] tx_ready_e_sz [OF r(1)]
      by (simp add: tx_spared_def outside_def)
  next
    case False
    then have "length (src_queue (tx_rid 0 st) s) = src_capacity (tx_rid 0 st) s"
      using length_src_queue [OF tx_ready_src [OF r(1)]] r(2) by simp
    then show ?thesis
      using send_full [OF r(1), of skb tid] tx_ready_refuse [OF r(1)] r by (simp add: tx_rid_def)
  qed
qed

lemma loop_exec:
  fixes s :: "'a wireless_simu_scheme"
  assumes "tx_going cell st s" "tx_tame cell dev" "k_skbs s skb = Some b" "skb_data b + 4 \<le> length (skb_buf b)"
  shows "\<exists>ret st' s' b'. srng_test_loop env dev k tc st skb s = Some (ret, st', s') \<and> tx_fixed st' = tx_fixed st \<and>
    tx_frame s' = tx_frame s \<and> k_skbs s' = (k_skbs s)(skb \<mapsto> b') \<and> skb_shape b' = skb_shape b \<and>
    k_maps s' = k_maps s \<and> k_held s' = k_held s \<and> k_calls s' = k_calls s \<and> tx_kept dev s s'"
  using assms(1,3,4)
proof (induction k arbitrary: tc st s b)
  case 0
  then show ?case by (auto intro!: exI [of _ b])
next
  case (Suc k)
  let ?s = "s\<lparr>k_mem := dev tc (k_mem s)\<rparr>"
  have going: "tx_going cell st ?s"
    by (rule tx_going_cong [OF Suc.prems(1)]) (use assms(2) in \<open>simp_all add: tx_tame_def\<close>)
  have len: "length (u32_bytes env (of_nat tc)) = 4"
    by (simp add: u32_bytes_def Let_def)
  obtain b1 where b1: "skb_store skb (u32_bytes env (of_nat tc)) ?s = Some (skb_set skb b1 ?s)" "skb_shape b1 = skb_shape b"
    using skb_store_shape [of ?s skb b "u32_bytes env (of_nat tc)"] Suc.prems(2,3) len by auto
  let ?t = "skb_set skb b1 ?s"
  have "tx_going cell st ?t"
    by (rule tx_going_cong [OF going]) (use assms(2) in \<open>simp_all add: tx_tame_def skb_set_def\<close>)
  then obtain ret st' s' where s': "wireless_simu_hal_srng_test_send st skb 0 0 ?t = Some (ret, st', s')" "tx_ready 0 st' s'"
    "tx_rid 0 st' = 125" "n_ent (srng_list (hal s') 125) = 32" "src_tp_addr (union_src (srng_u (srng_list (hal s') 125))) = cell"
    "tx_fixed st' = tx_fixed st" "tx_frame s' = tx_frame ?t" "k_skbs s' = k_skbs ?t" "k_maps s' = k_maps ?t"
    "k_held s' = k_held ?t" "k_calls s' = k_calls ?t" "tx_kept dev ?t s'"
    using send_going [of cell st ?t skb b1 0 dev] by auto
  have base: "ring_base_vaddr (srng_list (hal s') 125) = ring_base_vaddr (srng_list (hal s) 125)"
    using s'(7) by (simp add: tx_frame_def skb_set_def)
  have mem: "tx_kept dev s s'"
    using s'(12) by (auto simp: tx_spared_def skb_set_def)
  have "tx_going cell st' s'" "k_skbs s' skb = Some b1" "skb_data b1 + 4 \<le> length (skb_buf b1)"
    using s' b1(2) Suc.prems(3) by (simp_all add: tx_going_def skb_shape_def)
  note ih = Suc.IH [OF this, of "Suc tc"]
  show ?case
  proof (cases "ret = 0")
    case True
    obtain r2 st2 s2 b2 where "srng_test_loop env dev k (Suc tc) st' skb s' = Some (r2, st2, s2)" "tx_fixed st2 = tx_fixed st'"
      "tx_frame s2 = tx_frame s'" "k_skbs s2 = (k_skbs s')(skb \<mapsto> b2)" "skb_shape b2 = skb_shape b1"
      "k_maps s2 = k_maps s'" "k_held s2 = k_held s'" "k_calls s2 = k_calls s'" "tx_kept dev s' s2"
      using ih by blast
    then show ?thesis
      using True s' b1 mem base by (intro exI [of _ r2] exI [of _ st2] exI [of _ s2] exI [of _ b2]) simp
  next
    case False
    then show ?thesis
      using s' b1 mem by (intro exI [of _ ret] exI [of _ st'] exI [of _ s'] exI [of _ b1]) simp
  qed
qed


lemma tx_going_same:
  fixes s s' :: "'a wireless_simu_scheme"
  assumes "tx_going cell st s" "hal s' = hal s" "k_dma s' = k_dma s" "k_iomapped s' = k_iomapped s" "k_held s' = k_held s"
    "k_mem s' = k_mem s"
  shows "tx_going cell st s'"
proof (rule tx_going_cong [OF assms(1-5)])
  have "src_ready 125 s" "n_ent (srng_list (hal s) 125) = 32" "e_sz (srng_list (hal s) 125) = 5"
    "src_tp_addr (union_src (srng_u (srng_list (hal s) 125))) = cell"
    using assms(1) tx_ready_src [of 0 st s] tx_ready_e_sz [of 0 st s] by (auto simp: tx_going_def)
  then show "unat (k_mem s' cell) < 160" "unat (k_mem s' cell) mod 5 = 0"
    using assms(6) by (auto elim!: src_readyE simp: ptr_ok_def)
qed

lemma transfer_exec:
  fixes s :: "'a wireless_simu_scheme"
  assumes "tx_going cell st s" "tx_tame cell dev" "k_skbs s skb = Some b" "skb_data b = skb_tail b"
    "skb_tail b + length dat \<le> length (skb_buf b)" "4 \<le> length dat"
  shows "\<exists>st' s' b'. srng_test_transfer env dev skb dat st s = Some (st', s') \<and> tx_fixed st' = tx_fixed st \<and>
    tx_frame s' = tx_frame s \<and> k_skbs s' = (k_skbs s)(skb \<mapsto> b') \<and> k_maps s' = k_maps s \<and> k_held s' = k_held s \<and>
    k_calls s' = Suc (k_calls s) \<and> tx_kept dev s s'"
proof -
  obtain b1 where b1: "skb_store skb dat s = Some (skb_set skb b1 s)" "skb_shape b1 = skb_shape b"
    using skb_store_shape [OF assms(3), of dat] assms(4,5) by auto
  define b2 where "b2 = b1\<lparr>skb_tail := skb_tail b1 + length dat\<rparr>"
  have put: "skb_put skb (length dat) (skb_set skb b1 s) = Some (skb_set skb b2 s)"
    using b1(2) assms(5) by (simp add: skb_put_def skb_get_def skb_tailroom_def skb_shape_def b2_def) (simp add: skb_set_def)
  show ?thesis
  proof (cases "env_dma_map env (k_calls s)")
    case None
    then show ?thesis
      using b1(1) put by (simp add: srng_test_transfer_def skb_get_def dma_map_single_def) (auto simp: tick_def)
  next
    case (Some p)
    let ?b = "b2\<lparr>skb_cb := (skb_cb b2)\<lparr>cb_paddr := p\<rparr>\<rparr>"
    let ?s = "skb_set skb ?b ((tick (skb_set skb b2 s))\<lparr>k_maps := (p, skb_len b2) # k_maps s\<rparr>)"
    have going: "tx_going cell st ?s"
      by (rule tx_going_same [OF assms(1)]) (simp_all add: skb_set_def tick_def)
    have room: "skb_data ?b + 4 \<le> length (skb_buf ?b)"
      using b1(2) assms(4-6) by (simp add: b2_def skb_shape_def)
    obtain ret st' s' b' where l: "srng_test_loop env dev 50 0 st skb ?s = Some (ret, st', s')" "tx_fixed st' = tx_fixed st"
      "tx_frame s' = tx_frame ?s" "k_skbs s' = (k_skbs ?s)(skb \<mapsto> b')" "skb_shape b' = skb_shape ?b" "k_maps s' = k_maps ?s"
      "k_held s' = k_held ?s" "k_calls s' = k_calls ?s" "tx_kept dev ?s s'"
      using loop_exec [OF going assms(2) _ room, of skb env 50 0] by auto
    have "skb_len b' = skb_len b2" "tx_kept dev s s'"
      using l(5,9) by (simp add: skb_shape_def skb_len_def, simp add: skb_set_def tick_def)
    then show ?thesis
      using b1(1) put l(1-8) Some
      by (cases "ret = 0")
        (simp_all add: srng_test_transfer_def skb_get_def dma_map_single_def dma_unmap_single_def tick_def Let_def, auto)
  qed
qed


section \<open>Allocation and release\<close>

lemma alloc_pipes_tx:
  assumes "k \<in> set (k_heap s)"
  shows "alloc_pipes env [0..<SRNG_TEST_PIPE_COUNT_MAX] (srng_test_zero\<lparr>host_config := Some (k, srng_test_configs)\<rparr>) s = Some
    (if ring_granted env 20 s then (0, tx_st k (Some (tx_ring_new env s)), ring_alloc_state env 20 s)
     else (neg_errno ENOMEM, tx_st k None, ring_refused_state env s))"
  using assms
  by (cases "ring_granted env 20 s")
    (simp_all add: SRNG_TEST_PIPE_COUNT_MAX_def hal_srng_test_alloc_pipe_def nth_opt_def get_host_attr_def srng_test_configs_def
      roundup_32 sizeof_hal_test_sw2hw_def Let_def alloc_ring_20 srng_test_zero_def srng_test_pipe_zero_def tx_st_def
      tx_pipe_def tx_ring_new_def)

lemma tx_live:
  assumes "hal_up s" "dma_honest env [(k_calls s + 2, of_nat (ring_bytes 20))] s" "ring_granted env 20 (tx_begin s)"
  defines "d \<equiv> tx_ring_new env (tx_begin s)" and "t \<equiv> ring_alloc_state env 20 (tx_begin s)"
  shows "hal_up t" "ring_live HAL_TEST_SRNG d t"
    "\<forall>q\<in>set (k_dma s). region_flat q \<and> regions_apart (ring_region d) q" "region_flat (ring_region d)"
proof -
  let ?a = "(k_calls s + 2, of_nat (ring_bytes 20))"
  have reg: "ring_region d = dma_grant env ?a" "ring_grant env 20 (tx_begin s) = dma_grant env ?a"
    by (simp_all add: d_def tx_ring_new_def ring_grant_def tx_begin_def numeral_eq_Suc)
  have "fst (dma_grant env ?a) \<noteq> 0"
    using assms(3) reg(2) by (simp add: ring_granted_def)
  then show h: "\<forall>q\<in>set (k_dma s). region_flat q \<and> regions_apart (ring_region d) q" "region_flat (ring_region d)"
    using assms(2) by (auto simp: dma_honest_def regions_ok_def list_all_iff reg(1))
  obtain q where q: "q \<in> set (k_dma s)" "in_region (rdp_vaddr (hal s)) 688 q"
    using assms(1) by (auto simp: hal_up_def mem_ok_def list_ex_iff)
  have dma: "k_dma t = ring_region d # k_dma s" "hal t = hal s" "set (k_heap s) \<subseteq> set (k_heap t)" "k_iomapped t = k_iomapped s"
    using reg by (auto simp: t_def tx_begin_def)
  show "hal_up t"
    using assms(1) dma by (auto simp: hal_up_def get_srng_config_def mem_ok_def split: option.splits if_splits)
  have "fst (snd (ring_region d)) = of_nat (ring_bytes 20)" "base_addr_owner_space d = ALIGN (fst (ring_region d)) 8" "nentries d = 32"
    by (simp add: reg(1) dma_grant_def split: prod.splits) (simp_all add: d_def tx_ring_new_def)
  then show "ring_live HAL_TEST_SRNG d t"
    unfolding ring_live_def Let_def using h q dma by (auto simp: type_facts intro!: bexI [of _ q])
qed

lemma tx_registered_going:
  assumes "hal_up s" "ring_live HAL_TEST_SRNG d s" "StLock \<notin> set (k_held s)" "ring_skb d = replicate 32 None" "nentries_mask d = 31"
  shows "tx_going (rdp_vaddr (hal s) + 500) (tx_st k (Some (d\<lparr>hal_ring_id := 125, sw_index := 0, write_index := 0\<rparr>))) (tx_registered env d s)"
    "ring_base_vaddr (srng_list (hal (tx_registered env d s)) 125) = base_addr_owner_space d"
    "initialized (srng_list (hal (tx_registered env d s)) 125) = 1"
proof -
  let ?T = HAL_TEST_SRNG and ?s = "tx_registered env d s"
  have dir: "c_ring_dir (hw_srng_config_template ?T) = HAL_SRNG_DIR_SRC"
    by (simp add: hw_srng_config_template_def)
  note pre = ring_live_pre [OF assms(1,2)]
  define g where "g = setup_src env ?T (ring_params d) s"
  have s: "?s = setup_state ?T (ring_params d) g (setup_regs env ?T (ring_params d) s) s"
    by (simp add: tx_registered_def setup_ring_def dir g_def)
  note f = setup_src_fields [OF pre, of env, folded g_def]
  note rdy = setup_src_ready [OF pre dir, of env "setup_regs env ?T (ring_params d) s", folded g_def, folded s, unfolded type_facts]
  have n: "p_num_entries (ring_params d) = 32" "nentries d = 32"
    using assms(2) by (simp_all add: ring_live_def Let_def)
  note geom = setup_geom [OF pre f(5-7), unfolded n type_facts]
  have pow: "is_pow2 32"
    by code_simp
  show "tx_going (rdp_vaddr (hal s) + 500) (tx_st k (Some (d\<lparr>hal_ring_id := 125, sw_index := 0, write_index := 0\<rparr>))) ?s"
    using rdy(1,4) geom f(2,3,6) n assms(3-5) pow
    by (simp add: tx_going_def tx_ready_def tx_st_def tx_rid_def tx_ring_def soft_ring_ok_def type_facts, simp add: s type_facts)
  show "ring_base_vaddr (srng_list (hal ?s) 125) = base_addr_owner_space d"
    using rdy(4) f(8) by simp
  show "initialized (srng_list (hal ?s) 125) = 1"
    using rdy(4) by (simp add: g_def setup_src_def srng_assign_src_def setup_common_def srng_assign_def Let_def)
qed

lemma init_pipes_tx:
  assumes "hal_up s" "ring_live HAL_TEST_SRNG d s"
  shows "srng_test_init_pipes env [0..<SRNG_TEST_PIPE_COUNT_MAX] (tx_st k (Some d)) s =
    Some (0, tx_st k (Some (d\<lparr>hal_ring_id := 125, sw_index := 0, write_index := 0\<rparr>)), tx_registered env d s)"
  using init_ring_exec [OF assms, of env]
  by (simp add: SRNG_TEST_PIPE_COUNT_MAX_def tx_st_def nth_opt_def type_facts tx_registered_def)

lemma free_pipes_tx:
  assumes "tx_fixed st = (hc, [(Some (r, k, 32, n), None, None)])" "fst (snd r) = of_nat (ring_bytes 20)"
    "k_dma s = r # D" "k_heap s = k # H"
  shows "\<exists>st' tr. hal_srng_test_free_pipes (st, s) = Some (st', s\<lparr>k_dma := D, k_heap := H, k_trace := tr\<rparr>) \<and> host_config st' = hc"
proof -
  obtain pipe d where st: "pipes st = [pipe]" "pipe_src_ring pipe = Some d" "ring_region d = r" "ring_kptr d = k" "nentries d = 32"
    "pipe_dst_ring pipe = None" "pipe_status_ring pipe = None" "host_config st = hc"
    using assms(1) by (auto simp: tx_fixed_def ring_fixed_def map_eq_Cons_conv)
  have "(ucast (nentries d * sizeof_hal_test_sw2hw + ucast SRNG_TEST_DESC_RING_ALIGN) :: u64) = fst (snd r)"
    by (simp add: st assms(2) sizeof_hal_test_sw2hw_def SRNG_TEST_DESC_RING_ALIGN_def ring_bytes_def)
  then have "free_src_ring d s = Some (s\<lparr>k_dma := D, k_heap := H, k_trace := k_trace s @ ring_frees d\<rparr>)"
    using assms(3,4) st(3,4) by (auto simp: free_src_ring_def dma_free_coherent_def kfree_def ring_region_def ring_frees_def emit_def)
  then show ?thesis
    using st by (auto simp: hal_srng_test_free_pipes_def SRNG_TEST_PIPE_COUNT_MAX_def nth_opt_def free_pipe_def)
qed


section \<open>The whole test\<close>

lemma payload_length: "length srng_test_payload = 52"
  by (simp add: srng_test_payload_def round_up_def Let_def)

lemma payload_exec:
  fixes s :: "'a wireless_simu_scheme"
  assumes "tx_going cell st s" "tx_tame cell dev" "env_roomy_skbs env"
  shows "\<exists>st' s'. tx_payload env dev st s = Some (st', s') \<and> tx_fixed st' = tx_fixed st \<and> tx_frame s' = tx_frame s \<and>
    k_maps s' = k_maps s \<and> k_held s' = k_held s \<and> skbs_kept s s' \<and> tx_kept dev s s'"
proof (cases "env_kmalloc env (k_calls s)")
  case False
  then show ?thesis
    by (simp add: tx_payload_def kmalloc_def) (simp add: tick_def skbs_kept_def)
next
  case kd: True
  let ?s = "(tick s)\<lparr>k_heap := k_calls s # k_heap s\<rparr>"
  have heap: "\<exists>s'. kfree (Some (k_calls s)) u = Some s' \<and> tx_frame s' = tx_frame s \<and> k_maps s' = k_maps u \<and>
      k_held s' = k_held u \<and> k_skbs s' = k_skbs u \<and> k_calls s' = k_calls u \<and> k_mem s' = k_mem u" if "tx_frame u = tx_frame ?s" for u :: "'a wireless_simu_scheme"
    using that by (auto simp: kfree_def tx_frame_def test_frame_def emit_def tick_def)
  show ?thesis
  proof (cases "env_alloc_skb env (Suc (k_calls s)) 52")
    case None
    obtain s' where "kfree (Some (k_calls s)) (tick ?s) = Some s'" "tx_frame s' = tx_frame s" "k_maps s' = k_maps (tick ?s)"
      "k_held s' = k_held (tick ?s)" "k_skbs s' = k_skbs (tick ?s)" "k_calls s' = k_calls (tick ?s)" "k_mem s' = k_mem (tick ?s)"
      using heap [of "tick ?s"] by auto
    then show ?thesis
      using kd None by (simp add: tx_payload_def kmalloc_def dev_alloc_skb_def payload_length) (simp add: tick_def skbs_kept_def)
  next
    case (Some b)
    let ?p = "Suc (k_calls s)"
    let ?t = "(tick ?s)\<lparr>k_skbs := (k_skbs s)(?p \<mapsto> b)\<rparr>"
    have going: "tx_going cell st ?t"
      by (rule tx_going_same [OF assms(1)]) (simp_all add: tick_def)
    have b: "skb_data b = skb_tail b" "skb_tail b + length srng_test_payload \<le> length (skb_buf b)"
      using assms(3) Some by (auto simp: env_roomy_skbs_def payload_length)
    obtain st' u b' where u: "srng_test_transfer env dev ?p srng_test_payload st ?t = Some (st', u)" "tx_fixed st' = tx_fixed st"
      "tx_frame u = tx_frame ?t" "k_skbs u = (k_skbs ?t)(?p \<mapsto> b')" "k_maps u = k_maps ?t" "k_held u = k_held ?t"
      "k_calls u = Suc (k_calls ?t)" "tx_kept dev ?t u"
      using transfer_exec [OF going assms(2) _ b, of ?p env] by (auto simp: payload_length)
    let ?u = "emit (EvSkbFree ?p) (u\<lparr>k_skbs := (k_skbs u)(?p := None)\<rparr>)"
    have free: "dev_kfree_skb_any ?p u = Some ?u"
      using u(4) by (simp add: dev_kfree_skb_any_def skb_get_def)
    have "tx_frame ?u = tx_frame ?s"
      using u(3) by (simp add: tx_frame_def test_frame_def emit_def tick_def)
    then obtain s' where s': "kfree (Some (k_calls s)) ?u = Some s'" "tx_frame s' = tx_frame s" "k_maps s' = k_maps ?u"
      "k_held s' = k_held ?u" "k_skbs s' = k_skbs ?u" "k_calls s' = k_calls ?u" "k_mem s' = k_mem ?u"
      using heap [of ?u] by auto
    have "tx_kept dev s s'"
      using s'(7) u(8) by (simp add: tick_def)
    have "tx_payload env dev st s = Some (st', s')"
      using kd Some u(1) free s'(1) by (simp add: tx_payload_def kmalloc_def dev_alloc_skb_def payload_length, simp add: tick_def)
    moreover have "skbs_kept s s'"
      using s'(5,6) u(4,7) by (auto simp: skbs_kept_def tick_def)
    ultimately show ?thesis
      using u s' \<open>tx_kept dev s s'\<close> by (simp add: tick_def)
  qed
qed


lemma free_pipes_none: "hal_srng_test_free_pipes (tx_st k None, s) = Some (tx_st k None, s)"
  by (simp add: hal_srng_test_free_pipes_def SRNG_TEST_PIPE_COUNT_MAX_def nth_opt_def free_pipe_def tx_st_def tx_pipe_def
      srng_test_pipe_zero_def)

lemma self_test_stages:
  fixes s :: "'a wireless_simu_scheme"
  assumes "env_kmalloc env (k_calls s)"
  shows "wireless_simu_hal_srng_test env dev s = do {
    (st, s') \<leftarrow> (if \<not> ring_granted env 20 (tx_begin s) then Some (tx_st (k_calls s) None, ring_refused_state env (tx_begin s))
      else do {
        (ret, st, s') \<leftarrow> srng_test_init_pipes env [0..<SRNG_TEST_PIPE_COUNT_MAX]
          (tx_st (k_calls s) (Some (tx_ring_new env (tx_begin s)))) (ring_alloc_state env 20 (tx_begin s));
        (st, s') \<leftarrow> (if ret \<noteq> 0 then Some (st, s') else tx_payload env dev st s');
        hal_srng_test_free_pipes (st, s')
      });
    kfree (map_option fst (host_config st)) s' }"
proof -
  have start: "spin_lock_init StLock ((tick s)\<lparr>k_heap := k_calls s # k_heap s\<rparr>) = tx_begin s"
    by (simp add: spin_lock_init_def tick_def tx_begin_def)
  have k: "k_calls s \<in> set (k_heap (tx_begin s))"
    by (simp add: tx_begin_def)
  show ?thesis
    using assms alloc_pipes_tx [OF k, of env]
    by (cases "ring_granted env 20 (tx_begin s)")
      (simp_all add: wireless_simu_hal_srng_test_def kmalloc_def [of env s] Let_def start tx_payload_def free_pipes_none cong: if_cong)
qed

lemma freed_ring:
  assumes "region_flat r" "\<forall>q\<in>set (k_dma s). region_flat q \<and> regions_apart r q" "fst (snd r) = of_nat (ring_bytes 20)"
  shows "\<not> mem_ok (ALIGN (fst r) 8) 640 s"
proof
  assume "mem_ok (ALIGN (fst r) 8) 640 s"
  then obtain q where q: "q \<in> set (k_dma s)" "in_region (ALIGN (fst r) 8) 640 q"
    by (auto simp: mem_ok_def list_ex_iff)
  obtain w m p' where q': "q = (w, m, p')"
    by (cases q)
  have "region_flat q" "regions_apart r q"
    using assms(2) q(1) by blast+
  then have "unat w \<le> unat (ALIGN (fst r) 8)" "unat (ALIGN (fst r) 8) + 640 \<le> unat w + unat m"
    using in_region_bounds [of w m p'] q q' by auto
  then show False
    using new_ring_base [OF assms(1,3)] \<open>regions_apart r q\<close> q' by (cases r) (auto simp: regions_apart_def)
qed

text \<open>A block inside a region does not contain memory that is live besides it.\<close>

lemma live_outside:
  assumes "region_flat (v, sz, p)" "\<forall>q\<in>set (k_dma s). region_flat q \<and> regions_apart (v, sz, p) q" "mem_ok a 4 s"
    "unat v \<le> unat base" "unat base + n \<le> unat v + unat sz" "0 < n"
  shows "n \<le> unat (a - base)"
proof -
  obtain q where "q \<in> set (k_dma s)" "in_region a 4 q"
    using assms(3) by (auto simp: mem_ok_def list_ex_iff)
  moreover obtain w m p' where "q = (w, m, p')" by (cases q)
  ultimately have q: "in_region a 4 (w, m, p')" "region_flat (w, m, p')" "regions_apart (v, sz, p) (w, m, p')"
    using assms(2) by auto
  note b = in_region_bounds [OF q(2,1)]
  consider "unat base + n \<le> unat a" | "unat a < unat base" "unat base + n \<le> 2 ^ 64"
    using b q(3) assms by (auto simp: regions_apart_def region_flat_def)
  then show ?thesis
    by cases (auto simp: unat_sub_if_size word_size word_le_nat_alt)
qed

text \<open>Registering the ring clears its memory and its cell, nothing else.\<close>

lemma registered_spares:
  assumes "ring_live HAL_TEST_SRNG d s" "640 \<le> unat (a - base_addr_owner_space d)" "a \<noteq> rdp_vaddr (hal s) + 500"
  shows "k_mem (tx_registered env d s) a = k_mem s a"
  using assms by (simp add: tx_registered_def setup_state_def type_facts mem_zero_def ring_live_def Let_def ring_params_def)

lemma alloc_spares:
  "ring_bytes n \<le> unat (a - fst (ring_grant env n s)) \<Longrightarrow> k_mem (ring_alloc_state env n s) a = k_mem s a"
  by (simp add: ring_alloc_state_def mem_zero_def Let_def)

lemma self_test_granted:
  fixes s :: "'a wireless_simu_scheme"
  assumes "hal_up s" "dma_honest env [(k_calls s + 2, of_nat (ring_bytes 20))] s" "env_roomy_skbs env"
    "tx_tame (rdp_vaddr (hal s) + 500) dev" "env_kmalloc env (k_calls s)" and granted: "ring_granted env 20 (tx_begin s)"
  shows "\<exists>s'. wireless_simu_hal_srng_test env dev s = Some s' \<and> test_frame s' = test_frame s \<and> k_maps s' = k_maps s \<and>
    skbs_kept s s' \<and> set (k_held s') \<subseteq> set (k_held s) \<and> \<not> mem_ok (ring_base_vaddr (srng_list (hal s') 125)) 640 s' \<and>
    initialized (srng_list (hal s') 125) = 1 \<and> test_spares dev s s'"
proof -
  note stages = self_test_stages [OF assms(5), where dev = dev]
  let ?d = "tx_ring_new env (tx_begin s)" and ?t = "ring_alloc_state env 20 (tx_begin s)" and ?r = "ring_grant env 20 (tx_begin s)"
  let ?st = "tx_st (k_calls s) (Some (?d\<lparr>hal_ring_id := 125, sw_index := 0, write_index := 0\<rparr>))" and ?g = "tx_registered env ?d ?t"
  note live = tx_live [OF assms(1,2) granted]
  have d: "ring_region ?d = ?r" "ring_kptr ?d = Suc (k_calls s)" "nentries ?d = 32" "fst (snd ?r) = of_nat (ring_bytes 20)"
    "ring_skb ?d = replicate 32 None" "nentries_mask ?d = 31" "base_addr_owner_space ?d = ALIGN (fst ?r) 8"
    by (simp_all add: tx_ring_new_def tx_begin_def ring_grant_def dma_grant_def split: prod.splits)
  have lock: "StLock \<notin> set (k_held ?t)" "rdp_vaddr (hal ?t) = rdp_vaddr (hal s)"
    by (simp_all add: tx_begin_def)
  note going = tx_registered_going(1) [OF live(1,2) lock(1) d(5,6), of "k_calls s" env, unfolded lock(2)]
    tx_registered_going(2,3) [OF live(1,2) lock(1) d(5,6), of env]
  obtain st' u where u: "tx_payload env dev ?st ?g = Some (st', u)" "tx_fixed st' = tx_fixed ?st" "tx_frame u = tx_frame ?g"
    "k_maps u = k_maps ?g" "k_held u = k_held ?g" "skbs_kept ?g u" "tx_kept dev ?g u"
    using payload_exec [OF going(1) assms(4,3)] by blast
  have st': "tx_fixed st' = (Some (k_calls s, srng_test_configs), [(Some (?r, Suc (k_calls s), 32, 32), None, None)])"
    using u(2) d by (simp add: tx_fixed_def tx_st_def ring_fixed_def tx_pipe_def srng_test_pipe_zero_def) (simp add: ring_region_def)
  have dh: "k_dma u = ?r # k_dma s" "k_heap u = Suc (k_calls s) # k_calls s # k_heap s"
    "ring_base_vaddr (srng_list (hal u) 125) = ALIGN (fst ?r) 8" "initialized (srng_list (hal u) 125) = 1"
    using u(3) going(2,3) d(7) by (simp_all add: tx_frame_def test_frame_def tx_registered_def) (simp_all add: tx_begin_def)
  obtain st2 tr where v: "hal_srng_test_free_pipes (st', u) = Some (st2, u\<lparr>k_dma := k_dma s, k_heap := k_calls s # k_heap s, k_trace := tr\<rparr>)"
    "host_config st2 = Some (k_calls s, srng_test_configs)"
    using free_pipes_tx [OF st' d(4) dh(1,2)] by blast
  let ?v = "emit (EvKfree (k_calls s)) (u\<lparr>k_dma := k_dma s, k_trace := tr, k_heap := k_heap s\<rparr>)"
  have "wireless_simu_hal_srng_test env dev s = Some ?v"
    using stages granted init_pipes_tx [OF live(1,2), of env "k_calls s"] u(1) v by (simp add: kfree_def)
  moreover have "test_frame ?v = test_frame s"
    using u(3) by (simp add: tx_frame_def test_frame_def tx_registered_def type_facts emit_def, simp add: setup_state_def set_srng_def tx_begin_def ring_alloc_state_def Let_def)
  moreover have "skbs_kept s ?v" "k_maps ?v = k_maps s" "set (k_held ?v) \<subseteq> set (k_held s)"
    using u(4-6) by (auto simp: skbs_kept_def tx_registered_def) (auto simp: tx_begin_def)
  moreover have "\<not> mem_ok (ring_base_vaddr (srng_list (hal ?v) 125)) 640 ?v"
    using freed_ring [of ?r s] live(3,4) d(1,4) dh(3) by (simp add: mem_ok_def)
  moreover have "initialized (srng_list (hal ?v) 125) = 1"
    using dh(4) by simp
  moreover have "test_spares dev s ?v"
    unfolding test_spares_def
  proof (intro allI impI)
    fix a assume a: "mem_ok a 4 s \<and> a \<noteq> rdp_vaddr (hal s) + 500 \<and> (\<forall>tc m. dev tc m a = m a)"
    obtain v sz p where r: "?r = (v, sz, p)" by (cases ?r)
    note size = new_ring_base [of ?r 20] 
    note out = live_outside [of v sz p s a, folded r, folded d(1), OF live(4,3)]
    have "640 \<le> unat (a - ALIGN (fst ?r) 8)" "ring_bytes 20 \<le> unat (a - fst ?r)"
      using out a size live(4) d(1,4) r by (auto simp: ring_bytes_def)
    then show "k_mem ?v a = k_mem s a"
      using u(7) registered_spares [OF live(2), of a env] going(2) d(7) lock(2) a alloc_spares [of 20 a env "tx_begin s"]
      by (simp add: tx_spared_def) (simp add: tx_begin_def)
  qed
  ultimately show ?thesis by blast
qed

lemma self_test_exec:
  fixes s :: "'a wireless_simu_scheme"
  assumes "hal_up s" "dma_honest env [(k_calls s + 2, of_nat (ring_bytes 20))] s" "env_roomy_skbs env"
    "tx_tame (rdp_vaddr (hal s) + 500) dev"
  shows "\<exists>s'. wireless_simu_hal_srng_test env dev s = Some s' \<and> test_frame s' = test_frame s \<and> k_maps s' = k_maps s \<and>
    skbs_kept s s' \<and> set (k_held s') \<subseteq> set (k_held s) \<and> test_spares dev s s' \<and>
    (env_kmalloc env (k_calls s) \<and> ring_granted env 20 (tx_begin s) \<longrightarrow>
       initialized (srng_list (hal s') 125) = 1 \<and> \<not> mem_ok (ring_base_vaddr (srng_list (hal s') 125)) 640 s')"
proof (cases "env_kmalloc env (k_calls s)")
  case False
  then show ?thesis
    by (simp add: wireless_simu_hal_srng_test_def kmalloc_def) (simp add: tick_def test_frame_def skbs_kept_def test_spares_def)
next
  case kc: True
  note stages = self_test_stages [OF kc, where dev = dev]
  show ?thesis
  proof (cases "ring_granted env 20 (tx_begin s)")
    case False
    then show ?thesis
      using stages by (simp add: tx_st_def kfree_def)
        (auto simp: ring_refused_state_def tx_begin_def test_frame_def skbs_kept_def test_spares_def emit_def tick_def)
  next
    case True
    then show ?thesis
      using self_test_granted [OF assms kc] by blast
  qed
qed

section \<open>Property\<close>

text \<open>
  C12: The self test of the transmit module. With the ring layer up, an allocator that does not
  hand out memory in use and a device that keeps its tail within the ring, the test returns
  without fault, whatever allocation or mapping is refused and however many of the fifty sends the
  ring takes. All memory, heap objects and mappings are as before, buffers that existed are
  untouched and the test's own is freed, no lock stays held, live memory that the device does not
  write keeps its contents but for the cell of the tail, and the driver's state is the same
  but for the entry of the ring the test has registered. When the test has got its memory, that entry
  stays marked as initialised, with its base in memory that has been given back.
\<close>

theorem self_test_balanced:
  fixes s :: "'a wireless_simu_scheme"
  assumes "hal_up s" "dma_honest env [(k_calls s + 2, of_nat (ring_bytes 20))] s" "env_roomy_skbs env"
    "tx_tame (rdp_vaddr (hal s) + 500) dev"
  shows "\<exists>s'. wireless_simu_hal_srng_test env dev s = Some s' \<and> test_frame s' = test_frame s \<and> k_maps s' = k_maps s \<and>
    skbs_kept s s' \<and> set (k_held s') \<subseteq> set (k_held s) \<and> test_spares dev s s' \<and>
    (env_kmalloc env (k_calls s) \<and> ring_granted env 20 (tx_begin s) \<longrightarrow>
       initialized (srng_list (hal s') 125) = 1 \<and> \<not> mem_ok (ring_base_vaddr (srng_list (hal s') 125)) 640 s')"
  by (rule self_test_exec [OF assms])

lemma sample_self_pre:
  "hal_up sample" "dma_honest sample_env [(k_calls sample + 2, of_nat (ring_bytes 20))] sample" "env_roomy_skbs sample_env"
  "tx_tame (rdp_vaddr (hal sample) + 500) (\<lambda>_ m. m(0x11f4 := 0))" "env_kmalloc sample_env (k_calls sample)"
  "ring_granted sample_env 20 (tx_begin sample)"
  by (simp_all add: hal_up_def get_srng_config_def mem_ok_def in_region_def dma_honest_def regions_ok_def region_flat_def
      regions_apart_def dma_grant_def ring_bytes_def ring_granted_def ring_grant_def tx_begin_def env_roomy_skbs_def
      tx_tame_def sample_env_def, simp_all add: sample_defs in_region_def region_flat_def)

theorem self_test_balanced_witness:
  "\<exists>s'. wireless_simu_hal_srng_test sample_env (\<lambda>_ m. m(0x11f4 := 0)) sample = Some s' \<and>
     k_dma s' = [(0x1000, 0x4000, 0x91000)] \<and> initialized (srng_list (hal s') 125) = 1 \<and> \<not> mem_ok (ring_base_vaddr (srng_list (hal s') 125)) 640 s'"
proof -
  have "k_dma sample = [(0x1000, 0x4000, 0x91000)]"
    by (simp add: sample_def)
  then show ?thesis
    using self_test_balanced [OF sample_self_pre(1-4)] sample_self_pre(5,6) by (auto simp: test_frame_def)
qed

end
