(* ===== verification/Driver_System.thy ===== *)
theory Driver_System
  imports Rx_Foreign Mac_System
begin

text \<open>
  The receive path and the management path as one system on the state of the driver: bottom half,
  retry timer, the device, the callbacks of mac80211 and the iterations of the worker in any order.
  Neither disturbs the other, because they share the kernel's buffers and mappings but own different
  ones.
\<close>

section \<open>Definitions\<close>

text \<open>The buffers of the management path: queued ones and those an identifier stands for.\<close>

definition mac_bufs :: "'a wireless_simu_mac_scheme \<Rightarrow> skbp set" where
  "mac_bufs s = set (mgmt_tx_queue s) \<union> snd ` set (txmgmt_idr s)"

text \<open>
  The two paths own different buffers, and besides the mappings of posted buffers there are those in
  \<^term>\<open>M\<close> and two for every identifier.
\<close>

definition paths_apart :: "(u64 \<times> nat) multiset \<Rightarrow> 'a wireless_simu_mac_scheme \<Rightarrow> bool" where
  "paths_apart M s = (length (pipes (st_dst s)) = 1 \<and> rx_slots s \<inter> mac_bufs s = {} \<and>
     (\<exists>T. rx_rest 0 s = M + T \<and> size T = 2 * length (txmgmt_idr s)))"

definition driver_step ::
  "mac_lib \<Rightarrow> nat \<Rightarrow> kenv \<Rightarrow> 'a wireless_simu_mac_scheme \<Rightarrow> 'a wireless_simu_mac_scheme \<Rightarrow> bool" where
  "driver_step lib n env s s' = (rx_step env s s' \<or> mac_step lib n env s s')"

definition driver_inv :: "mac_lib \<Rightarrow> (u64 \<times> nat) multiset \<Rightarrow> 'a wireless_simu_mac_scheme \<Rightarrow> bool" where
  "driver_inv lib M s = (rx_sys s \<and> mac_inv lib s \<and> paths_apart M s)"

text \<open>What no step of the management path changes, and how far it changes buffers and mappings.\<close>

definition mac_keeps :: "'a wireless_simu_mac_scheme \<Rightarrow> 'a wireless_simu_mac_scheme \<Rightarrow> bool" where
  "mac_keeps s s' =
     (k_mem s' = k_mem s \<and> k_dma s' = k_dma s \<and> k_heap s' = k_heap s \<and> k_iomapped s' = k_iomapped s \<and> mmio_addr s' = mmio_addr s \<and>
      hal s' = hal s \<and> st_dst s' = st_dst s \<and> wireless_simu_mac.more s' = wireless_simu_mac.more s \<and> k_calls s \<le> k_calls s' \<and>
      (\<forall>p<k_calls s. p \<notin> mac_bufs s \<longrightarrow> k_skbs s' p = k_skbs s p) \<and> mac_bufs s' \<subseteq> mac_bufs s \<union> {k_calls s..} \<and>
      (\<exists>T. mset (k_maps s') = mset (k_maps s) + T \<and> size T + 2 * length (txmgmt_idr s) = 2 * length (txmgmt_idr s')))"

section \<open>The management path\<close>

lemma mac_keepsI:
  assumes "k_mem s' = k_mem s" "k_dma s' = k_dma s" "k_heap s' = k_heap s" "k_iomapped s' = k_iomapped s" "mmio_addr s' = mmio_addr s"
    "hal s' = hal s" "st_dst s' = st_dst s" "wireless_simu_mac.more s' = wireless_simu_mac.more s" "k_calls s \<le> k_calls s'"
    "\<forall>p<k_calls s. p \<notin> mac_bufs s \<longrightarrow> k_skbs s' p = k_skbs s p" "mac_bufs s' \<subseteq> mac_bufs s \<union> {k_calls s..}"
    "k_maps s' = k_maps s" "txmgmt_idr s' = txmgmt_idr s"
  shows "mac_keeps s s'"
  using assms by (auto simp: mac_keeps_def intro!: exI [of _ "{#}"])

lemma mac_rest_fields:
  fixes s s' :: "'a wireless_simu_mac_scheme"
  assumes "mac_rest s' = mac_rest s"
  shows "k_mem s' = k_mem s" "k_dma s' = k_dma s" "k_heap s' = k_heap s" "k_iomapped s' = k_iomapped s" "mmio_addr s' = mmio_addr s"
    "hal s' = hal s" "st_dst s' = st_dst s" "wireless_simu_mac.more s' = wireless_simu_mac.more s"
  using arg_cong [OF assms, of k_mem] arg_cong [OF assms, of k_dma] arg_cong [OF assms, of k_heap] arg_cong [OF assms, of k_iomapped]
    arg_cong [OF assms, of mmio_addr] arg_cong [OF assms, of hal] arg_cong [OF assms, of st_dst]
    arg_cong [OF assms, of wireless_simu_mac.more]
  by (simp_all add: mac_rest_def)

lemma tx_keeps:
  assumes "frame_ok lib b" "wireless_mac80211_tx lib key v (k_calls s) (tick (skb_set (k_calls s) b s)) = Some s'"
  shows "mac_keeps s s'"
proof -
  let ?s = "tick (skb_set (k_calls s) b s)"
  obtain fc where fc: "frame_control b = Some fc"
    using frame_ok_control [OF assms(1)] by blast
  have "k_skbs ?s (k_calls s) = Some b"
    by simp
  from tx_exec [OF this fc, of lib key v] assms(2) show ?thesis
    by (auto intro!: mac_keepsI simp: mac_bufs_def emit_def tick_def skb_set_def split: if_splits)
qed

lemma work_keeps:
  fixes s :: "'a wireless_simu_mac_scheme"
  assumes "env_room env" "idr_ok lib" "mac_inv lib s" "mgmt_tx_queue s = p # q"
    "mgmt_work_one lib n env p (s\<lparr>mgmt_tx_queue := q\<rparr>) = Some s'"
  shows "mac_keeps s s'"
proof -
  let ?s = "s\<lparr>mgmt_tx_queue := q\<rparr>"
  consider (sent) ret vid where "mgmt_outcome env vid p ?s ret s'" "mgmt_tx_queue s' = q" | (dropped) "s' = mgmt_dropped p ?s"
    using work_one_cases [OF assms(1-4), of n] assms(5) by (metis option.inject)
  then show ?thesis
  proof cases
    case dropped
    then show ?thesis
      using assms(4) by (auto intro!: mac_keepsI simp: mgmt_dropped_def mac_bufs_def)
  next
    case o: sent
    have fr: "mac_rest s' = mac_rest ?s" "k_calls s \<le> k_calls s'" "\<And>r. r \<noteq> p \<Longrightarrow> r < k_calls s \<Longrightarrow> k_skbs s' r = k_skbs s r"
      using o(1) by (simp_all add: mgmt_outcome_def mgmt_frame_def)
    have "\<exists>T. mset (k_maps s') = mset (k_maps s) + T \<and> size T + 2 * length (txmgmt_idr s) = 2 * length (txmgmt_idr s') \<and>
        snd ` set (txmgmt_idr s') \<subseteq> insert p (snd ` set (txmgmt_idr s))"
    proof (cases "ret = 0")
      case True
      then obtain i a c where "txmgmt_idr s' = (i, p) # txmgmt_idr s" "k_maps s' = [a, c] @ k_maps s"
        using o(1) by (auto simp: mgmt_outcome_def)
      then show ?thesis
        by (intro exI [of _ "{#a, c#}"]) auto
    next
      case False
      then show ?thesis
        using o(1) by (intro exI [of _ "{#}"]) (auto simp: mgmt_outcome_def)
    qed
    then show ?thesis
      using mac_rest_fields [OF fr(1)] fr(2,3) o(2) assms(4) by (auto simp: mac_keeps_def mac_bufs_def)
  qed
qed

lemma mac_step_keeps:
  fixes s :: "'a wireless_simu_mac_scheme"
  assumes "env_room env" "idr_ok lib" "mac_inv lib s" "mac_step lib n env s s'"
  shows "mac_keeps s s'"
proof -
  have h: "MacConfMutex \<notin> set (k_held s)"
    using assms(3) by (simp add: mac_inv_def)
  show ?thesis
    using assms(4)
  proof (cases rule: mac_step.cases)
    case (transmit b key v)
    then show ?thesis
      using tx_keeps by blast
  next
    case (work p q)
    then show ?thesis
      using work_keeps [OF assms(1-3)] by blast
  next
    case (start ret)
    then show ?thesis
      by (auto intro!: mac_keepsI simp: wireless_mac80211_start_def mac_bufs_def)
  next
    case stop
    then show ?thesis
      by (auto intro!: mac_keepsI simp: wireless_mac80211_stop_def mac_bufs_def)
  next
    case (add v ret)
    then show ?thesis
      by (auto intro!: mac_keepsI simp: add_interface_exec [OF h] claim_slot_def set_vif_def mac_bufs_def)
  next
    case (remove v)
    then show ?thesis
      using remove_exec [OF remove h] by (auto intro!: mac_keepsI simp: mac_bufs_def)
  next
    case (filters fl fl')
    then show ?thesis
      by (auto intro!: mac_keepsI simp: filter_exec [OF h] mac_bufs_def)
  next
    case (conf v ac ps ret)
    then show ?thesis
      by (auto intro!: mac_keepsI simp: conf_tx_exec [OF h] set_vif_def mac_bufs_def split: option.splits)
  next
    case (vif_alloc v)
    then show ?thesis
      by (auto intro!: mac_keepsI simp: mac_bufs_def)
  next
    case (vif_free v)
    then show ?thesis
      by (auto intro!: mac_keepsI simp: mac_bufs_def)
  qed
qed

section \<open>Neither path disturbs the other\<close>

lemma more_mac:
  fixes s s' :: "'a wireless_simu_mac_scheme"
  assumes "wireless_simu.more s' = wireless_simu.more s"
  shows "vif s' = vif s" "mgmt_tx_queue s' = mgmt_tx_queue s" "txmgmt_idr s' = txmgmt_idr s"
    "num_pending_mgmt_tx s' = num_pending_mgmt_tx s" "wireless_simu_mac.more s' = wireless_simu_mac.more s"
    "hw_live s' = hw_live s" "vif_live s' = vif_live s"
  using assms by (cases s; cases s'; simp)+

lemma mac_bufs_old: "mac_inv lib s \<Longrightarrow> p \<in> mac_bufs s \<Longrightarrow> p < k_calls s"
  by (auto simp: mac_inv_def mac_bufs_def list_all_iff)

lemma mac_inv_foreign:
  fixes s s' :: "'a wireless_simu_mac_scheme"
  assumes "mac_inv lib s" "wireless_simu.more s' = wireless_simu.more s" "k_held s' = k_held s" "k_calls s \<le> k_calls s'"
    "\<And>p. p \<in> mac_bufs s \<Longrightarrow> k_skbs s' p = k_skbs s p"
  shows "mac_inv lib s'"
proof -
  note f = more_mac [OF assms(2)]
  have "list_all (queued_ok lib s') (mgmt_tx_queue s)"
    using assms(1,5) f(7) queued_ok_cong [of s' _ s lib] by (auto simp: mac_inv_def list_all_iff mac_bufs_def)
  moreover have "list_all (\<lambda>r. r < k_calls s') (mgmt_tx_queue s @ map snd (txmgmt_idr s))"
    using mac_bufs_old [OF assms(1)] assms(4) by (fastforce simp: list_all_iff mac_bufs_def)
  moreover have "list_all (\<lambda>r. k_skbs s' r \<noteq> None) (map snd (txmgmt_idr s))"
    using assms(1,5) by (auto simp: mac_inv_def list_all_iff mac_bufs_def)
  ultimately show ?thesis
    using assms(1,3) f by (simp add: mac_inv_def)
qed

lemma rx_step_apart:
  fixes s s' :: "'a wireless_simu_mac_scheme"
  assumes "env_empty_skbs env" "rx_sys s" "mac_inv lib s" "paths_apart M s" "rx_step env s s'"
  shows "mac_inv lib s'" "paths_apart M s'"
proof -
  have fixed: "rx_fixed s' = rx_fixed s"
    using rx_step_fixed [OF assms(5)] assms(2) by (simp add: rx_sys_def)
  then have more: "wireless_simu.more s' = wireless_simu.more s"
    by (simp add: rx_fixed_def)
  note f = more_mac [OF more]
  have fo: "k_calls s \<le> k_calls s'" "rx_slots s' \<subseteq> rx_slots s \<union> {k_calls s..}"
    "\<And>p. p < k_calls s \<Longrightarrow> p \<notin> rx_slots s \<Longrightarrow> k_skbs s' p = k_skbs s p"
    using rx_step_foreign [OF assms(5)] assms(2) by (auto simp: rx_sys_def foreign_def)
  have apart: "rx_slots s \<inter> mac_bufs s = {}"
    using assms(4) by (simp add: paths_apart_def)
  show "mac_inv lib s'"
    by (rule mac_inv_foreign [OF assms(3) more rx_step_held [OF assms(5,2,1)] fo(1)])
      (use apart fo(3) mac_bufs_old [OF assms(3)] in blast)
  have pipes: "length (pipes (st_dst s')) = length (pipes (st_dst s))"
    using fixed by (simp add: rx_fixed_def) (metis length_map)
  have "mac_bufs s' = mac_bufs s"
    using f by (simp add: mac_bufs_def)
  then have "rx_slots s' \<inter> mac_bufs s' = {}"
    using apart fo(2) mac_bufs_old [OF assms(3)] by fastforce
  then show "paths_apart M s'"
    using assms(4) rx_step_rest [OF assms(5,2,1)] f(3) pipes by (simp add: paths_apart_def)
qed

lemma mac_step_apart:
  fixes s s' :: "'a wireless_simu_mac_scheme"
  assumes "rx_sys s" "mac_inv lib s" "mac_inv lib s'" "paths_apart M s" "mac_keeps s s'"
  shows "rx_sys s'" "paths_apart M s'"
proof -
  have inv: "rx_inv 0 s" "length (pipes (st_dst s)) = 1" "rx_slots s \<inter> mac_bufs s = {}"
    using assms(1,4) by (simp_all add: rx_sys_def paths_apart_def)
  note slots = rx_slots_bufs [OF inv(1,2)]
  have old: "p < k_calls s" if "p \<in> rx_slots s" for p
    using inv(1) that unfolding slots by (auto simp: rx_inv_def own_ok_def list_all_iff)
  obtain T where T: "mset (k_maps s') = mset (k_maps s) + T" "size T + 2 * length (txmgmt_idr s) = 2 * length (txmgmt_idr s')"
    using assms(5) by (auto simp: mac_keeps_def)
  have k: "k_mem s' = k_mem s" "k_dma s' = k_dma s" "k_iomapped s' = k_iomapped s" "hal s' = hal s" "st_dst s' = st_dst s"
    "k_calls s \<le> k_calls s'" "\<And>p. p < k_calls s \<Longrightarrow> p \<notin> mac_bufs s \<Longrightarrow> k_skbs s' p = k_skbs s p"
    "mac_bufs s' \<subseteq> mac_bufs s \<union> {k_calls s..}"
    using assms(5) by (simp_all add: mac_keeps_def)
  have held: "set (k_held s') \<subseteq> set (k_held s)"
    using assms(3) by (simp add: mac_inv_def)
  have skbs: "k_skbs s' p = k_skbs s p" if "p \<in> set (rx_bufs (rx_ring 0 s))" for p
    using that old k(7) inv(3) unfolding slots [symmetric] by blast
  note c = rx_sys_cong [OF assms(1) k(5,2,3) held _ _ _ k(6) skbs T(1)]
  show "rx_sys s'"
    by (rule c(1)) (simp_all add: k)
  have rest: "rx_rest 0 s' = rx_rest 0 s + T"
    by (rule c(2)) (simp_all add: k)
  obtain U where U: "rx_rest 0 s = M + U" "size U = 2 * length (txmgmt_idr s)"
    using assms(4) by (auto simp: paths_apart_def)
  have "rx_slots s' = rx_slots s"
    using k(5) by (simp add: rx_slots_def)
  then have "rx_slots s' \<inter> mac_bufs s' = {}"
    using inv(3) old k(8) by fastforce
  moreover have "rx_rest 0 s' = M + (U + T)" "size (U + T) = 2 * length (txmgmt_idr s')"
    using rest U T(2) by (simp_all add: add.assoc)
  ultimately show "paths_apart M s'"
    using inv(2) k(5) by (auto simp: paths_apart_def)
qed

interpretation paths: interleaving "rx_step env" "\<lambda>s. env_empty_skbs env \<and> rx_sys s" "mac_step lib n env"
  "\<lambda>s. env_room env \<and> idr_ok lib \<and> mac_inv lib s" "paths_apart M"
proof (unfold_locales, goal_cases)
  case (1 s s')
  then show ?case
    using rx_step_apart by blast
next
  case (2 s s')
  then show ?case
    using mac_step_apart mac_step_keeps mac_step_inv by blast
qed

text \<open>The static part of the driver over any run, as the removal will find it.\<close>

definition driver_fixed :: "'a wireless_simu_mac_scheme \<Rightarrow> _" where
  "driver_fixed s = (k_dma s, k_heap s, k_iomapped s, mmio_addr s, srng_config (hal s), rdp_vaddr (hal s),
     rdp_paddr (hal s), wrp_vaddr (hal s), wrp_paddr (hal s), host_config (st_dst s), pipes_count (st_dst s),
     map pipe_fixed (pipes (st_dst s)), wireless_simu_mac.more s)"

lemma driver_step_fixed:
  fixes s s' :: "'a wireless_simu_mac_scheme"
  assumes "env_empty_skbs env" "env_room env" "idr_ok lib" "driver_inv lib M s" "driver_step lib n env s s'"
  shows "driver_fixed s' = driver_fixed s"
  using assms(5) unfolding driver_step_def
proof
  assume "rx_step env s s'"
  from rx_step_fixed [OF this] show ?thesis
    using assms(4) more_mac(5) [of s' s] by (auto simp: driver_inv_def rx_sys_def rx_fixed_def driver_fixed_def)
next
  assume "mac_step lib n env s s'"
  from mac_step_keeps [OF assms(2,3) _ this] show ?thesis
    using assms(4) by (simp add: driver_inv_def mac_keeps_def driver_fixed_def)
qed

lemma driver_runs:
  fixes s s' :: "'a wireless_simu_mac_scheme"
  assumes "env_empty_skbs env" "env_room env" "idr_ok lib" "driver_inv lib M s" "(driver_step lib n env)\<^sup>*\<^sup>* s s'"
  shows "driver_inv lib M s'" "driver_fixed s' = driver_fixed s"
proof -
  have run: "(\<lambda>s s'. rx_step env s s' \<or> mac_step lib n env s s')\<^sup>*\<^sup>* = (driver_step lib n env)\<^sup>*\<^sup>*"
    by (simp add: driver_step_def [abs_def])
  have inv: "driver_inv lib M t" if "(driver_step lib n env)\<^sup>*\<^sup>* s t" for t
    using paths.joint.reachable_inv [of env lib n s t M] that assms(1-4) unfolding run by (simp add: driver_inv_def)
  then show "driver_inv lib M s'"
    using assms(5) by blast
  show "driver_fixed s' = driver_fixed s"
    using assms(5)
  proof (induction rule: rtranclp_induct)
    case (step t u)
    then show ?case
      using driver_step_fixed [OF assms(1-3) inv [OF step(1)] step(2)] by simp
  qed simp
qed

lemma sample_driver_inv: "driver_inv sample_lib (rx_rest 0 sample_mac) sample_mac"
proof -
  have "rx_sys sample_mac"
    by (simp add: rx_sys_def rx_inv_def rx_free_def rx_wired_def rings_apart_def slots_ok_def own_ok_def skb_map_def
        rx_bufs_def rx_window_def window_def rx_rid_def rx_srid_def rx_ring_def rx_sring_def sample_mac_def wireless_simu.defs
        sample_defs src_ready_def dst_ready_def soft_ring_ok_def is_pow2_def ring_eval Let_def upt_rec
        src_queue_def dst_queue_def pending_def ring_dist_def skb_len_def skb_tailroom_def skb_empty_def)
  moreover have "paths_apart (rx_rest 0 sample_mac) sample_mac"
    by (simp add: paths_apart_def rx_slots_def pipe_slots_def mac_bufs_def sample_mac_facts,
        simp add: sample_mac_def wireless_simu.defs sample_defs)
  ultimately show ?thesis
    using sample_mac_inv(1) by (simp add: driver_inv_def)
qed

section \<open>Properties\<close>

text \<open>
  C3: The receive path and the management path run side by side without disturbing each other.
  From a state in which both are sound, they own different buffers and every mapping is accounted
  for, let bottom halves, retry timers, the device, callbacks of mac80211 and iterations of the
  worker run in any order, interfaces being added only while the table has a free slot and freed only
  while no queued frame names them: all of that holds again, and the memory, the heap and the ring layer's
  regions are those of the start. In every such state bottom half, retry timer and worker each
  return, with a state that a run of the driver reaches; the worker leaves the queue empty.
\<close>

theorem driver_paths_sound:
  fixes s :: "'a wireless_simu_mac_scheme"
  assumes "env_empty_skbs env" "env_room env" "idr_ok lib" "driver_inv lib M s" "(driver_step lib n env)\<^sup>*\<^sup>* s t"
  shows "driver_inv lib M t \<and> driver_fixed t = driver_fixed s \<and>
    (\<exists>u. wireless_simu_hal_srng_dst_tasklet (length (ring_skb (rx_ring 0 t))) env (\<lambda>_ m. m) 0 t = Some u \<and> driver_step lib n env t u) \<and>
    (\<exists>u. wireless_simu_test_dst_rx_replenish_retry env t = Some u \<and> driver_step lib n env t u) \<and>
    (\<exists>u. wireless_simu_mgmt_tx_work_func lib n env t = Some u \<and> (driver_step lib n env)\<^sup>*\<^sup>* t u \<and> mgmt_tx_queue u = [])"
proof -
  note run = driver_runs [OF assms]
  have inv: "rx_sys t" "mac_inv lib t"
    using run(1) by (simp_all add: driver_inv_def)
  have sub: "(mac_step lib n env)\<^sup>*\<^sup>* \<le> (driver_step lib n env)\<^sup>*\<^sup>*"
    by (rule rtranclp_mono) (auto simp: driver_step_def)
  obtain u where "wireless_simu_mgmt_tx_work_func lib n env t = Some u" "(mac_step lib n env)\<^sup>*\<^sup>* t u" "mgmt_tx_queue u = []"
    using work_loop_ok [OF assms(2,3) inv(2) order_refl, of n] by (auto simp: wireless_simu_mgmt_tx_work_func_def worker_result_def)
  then show ?thesis
    using run rx_irq.service_step [of env t] rx_timer.service_step [of env t] assms(1) inv(1) sub by (auto simp: driver_step_def)
qed

theorem driver_paths_sound_witness:
  "\<exists>t u. wireless_simu_test_dst_rx_replenish_retry sample_env sample_mac = Some t \<and>
     wireless_simu_mgmt_tx_work_func sample_lib 0 sample_env t = Some u \<and> mgmt_tx_queue u = []"
proof -
  note base = driver_paths_sound [OF sample_env_empty sample_env_room sample_idr_ok(1) sample_driver_inv]
  obtain t where t: "wireless_simu_test_dst_rx_replenish_retry sample_env sample_mac = Some t" "driver_step sample_lib 0 sample_env sample_mac t"
    using base [OF rtranclp.rtrancl_refl, of 0] by blast
  from base [OF r_into_rtranclp [of "driver_step sample_lib 0 sample_env", OF t(2)]] t(1) show ?thesis
    by blast
qed

end
