(* ===== verification/Pci_Life.thy ===== *)
theory Pci_Life
  imports Pci Self_Test Hal_Lifecycle Driver_System
begin

text \<open>
  The life of the device from probe to removal: a probe that succeeds brings up ring layer, receive
  module and mac80211, with the self test in between, and establishes the invariant of the joint system
  of receive and management path; after any run of that system the removal takes all of it down again.
\<close>

section \<open>Definitions\<close>

text \<open>
  The allocator from the request numbered \<^term>\<open>k_calls s\<close> on: what it grants to requests of at most
  a page does not wrap, and does not overlap with live memory or with what another request is granted.
\<close>

definition dma_fair :: "kenv \<Rightarrow> 'a kernel_scheme \<Rightarrow> bool" where
  "dma_fair env s = (regions_ok (k_dma s) \<and>
     (\<forall>c sz. k_calls s \<le> c \<and> unat sz \<le> 4096 \<and> fst (dma_grant env (c, sz)) \<noteq> 0 \<longrightarrow>
        region_flat (dma_grant env (c, sz)) \<and> list_all (regions_apart (dma_grant env (c, sz))) (k_dma s) \<and>
        (\<forall>c' sz'. k_calls s \<le> c' \<and> c' \<noteq> c \<and> unat sz' \<le> 4096 \<and> fst (dma_grant env (c', sz')) \<noteq> 0 \<longrightarrow>
           regions_apart (dma_grant env (c, sz)) (dma_grant env (c', sz')))))"

text \<open>Every allocation the probe needs is granted; its calls are numbered from \<^term>\<open>k_calls s\<close>.\<close>

definition probe_granted :: "kenv \<Rightarrow> 'a kernel_scheme \<Rightarrow> bool" where
  "probe_granted env s = ((\<forall>c. env_kmalloc env c) \<and>
     list_all (\<lambda>(k, sz). fst (dma_grant env (k_calls s + k, sz)) \<noteq> 0)
       [(2, rdp_bytes), (3, wrp_bytes), (6, of_nat (ring_bytes 12)), (8, of_nat (ring_bytes 8))])"

definition probe_accepted :: "pci_env \<Rightarrow> mac_env \<Rightarrow> bool" where
  "probe_accepted pe me = (claim_result pe = 0 \<and> irq_result pe = 0 \<and> pe_workqueue pe \<and> me_alloc_hw me \<and> me_register_hw me = 0)"

text \<open>
  A device that has been set up, besides which the regions \<^term>\<open>D\<close>, objects \<^term>\<open>H\<close> and mappings \<^term>\<open>M\<close> are
  live, and one that is registered with mac80211, too.
\<close>

definition device_on :: "region multiset \<Rightarrow> kptr multiset \<Rightarrow> (u64 \<times> nat) multiset \<Rightarrow> 'a wireless_simu_pci_scheme \<Rightarrow> bool" where
  "device_on D H M s =
     (drvdata s \<and> k_iomapped s \<and> pci_regions s \<and> pci_enabled s \<and> workqueue_aux s \<and> tx_list s = None \<and>
      rx_owned s \<and> StDstLock \<notin> set (k_held s) \<and> rdp_vaddr (hal s) \<noteq> 0 \<and> wrp_vaddr (hal s) \<noteq> 0 \<and>
      mset (k_dma s) = mset (rx_regions s) + {#(rdp_vaddr (hal s), rdp_bytes, rdp_paddr (hal s)),
        (wrp_vaddr (hal s), wrp_bytes, wrp_paddr (hal s))#} + D \<and>
      (\<exists>k c. srng_config (hal s) = Some (k, c) \<and> mset (k_heap s) = mset (rx_objects s) + {#k, priv_ptr s#} + H) \<and>
      mset (k_maps s) = mset (map (skb_map s) (rx_skbs s)) + M)"

definition device_up :: "region multiset \<Rightarrow> kptr multiset \<Rightarrow> (u64 \<times> nat) multiset \<Rightarrow> 'a wireless_simu_pci_scheme \<Rightarrow> bool" where
  "device_up D H M s = (device_on D H M s \<and> (\<exists>h. hw s = Some h \<and> hw_registered h))"

text \<open>
  A device whose pointer block is at \<^term>\<open>a\<close> and that, while the self test runs, moves no end of a
  ring but that of the test.
\<close>

definition ends_still :: "u64 \<Rightarrow> (nat \<Rightarrow> (u64 \<Rightarrow> u32) \<Rightarrow> (u64 \<Rightarrow> u32)) \<Rightarrow> bool" where
  "ends_still a dev = (\<forall>k<172. k \<noteq> 125 \<longrightarrow> (\<forall>tc m. dev tc m (a + of_nat (4 * k)) = m (a + of_nat (4 * k))))"

text \<open>The requests of the probe that are answered with DMA memory, latest first.\<close>

definition probe_reqs :: "'a kernel_scheme \<Rightarrow> (nat \<times> u64) list" where
  "probe_reqs s = [(k_calls s + 8, of_nat (ring_bytes 8)), (k_calls s + 6, of_nat (ring_bytes 12)), (k_calls s + 3, wrp_bytes),
     (k_calls s + 2, rdp_bytes)]"

text \<open>An allocator with a hundred grants, a mebibyte apart.\<close>

definition fair_env :: kenv where
  "fair_env = sample_env\<lparr>env_dma_alloc := (\<lambda>c _. if c < 100 then (of_nat (0x100000 * Suc c), of_nat (0x900000 * Suc c)) else (0, 0))\<rparr>"

definition fine_pci_env :: pci_env where
  "fine_pci_env = sample_pci_env\<lparr>pe_vectors_msi := 1\<rparr>"

section \<open>Removal\<close>

lemma mset_remove: "mset xs = add_mset a A \<Longrightarrow> a \<in> set xs \<and> mset (remove1 a xs) = A"
  by (metis add_mset_remove_trivial mset_remove1 set_mset_mset union_single_eq_member add_mset_add_single)

lemma srng_deinit_exec:
  fixes s :: "'a wireless_simu_scheme"
  assumes "rdp_vaddr (hal s) \<noteq> 0" "wrp_vaddr (hal s) \<noteq> 0" "srng_config (hal s) = Some (k, c)"
    "mset (k_dma s) = {#(rdp_vaddr (hal s), rdp_bytes, rdp_paddr (hal s)), (wrp_vaddr (hal s), wrp_bytes, wrp_paddr (hal s))#} + D"
    "mset (k_heap s) = add_mset k H"
  shows "\<exists>h dm hp tr. wireless_simu_hal_srng_deinit s = Some (s\<lparr>k_dma := dm, hal := h, k_heap := hp, k_trace := tr\<rparr>) \<and>
    mset dm = D \<and> mset hp = H"
proof -
  let ?a = "(rdp_vaddr (hal s), rdp_bytes, rdp_paddr (hal s))" and ?b = "(wrp_vaddr (hal s), wrp_bytes, wrp_paddr (hal s))"
  have a: "?a \<in> set (k_dma s)" "mset (remove1 ?a (k_dma s)) = add_mset ?b D"
    using mset_remove [of "k_dma s" ?a "add_mset ?b D"] assms(4) by simp_all
  have b: "?b \<in> set (remove1 ?a (k_dma s))" "mset (remove1 ?b (remove1 ?a (k_dma s))) = D"
    using mset_remove [OF a(2)] by simp_all
  have h: "k \<in> set (k_heap s)" "mset (remove1 k (k_heap s)) = H"
    using mset_remove [OF assms(5)] by simp_all
  have "\<exists>tr. wireless_simu_hal_srng_deinit s = Some (s\<lparr>k_dma := remove1 ?b (remove1 ?a (k_dma s)),
      hal := (hal s)\<lparr>rdp_vaddr := 0, wrp_vaddr := 0\<rparr>, k_heap := remove1 k (k_heap s), k_trace := tr\<rparr>)"
    using a b h assms(1-3)
    by (simp add: wireless_simu_hal_srng_deinit_def hal_unregister_srng_key_def unregister_keys hal_free_cont_rdp_def
        hal_free_cont_wrp_def dma_free_coherent_def kfree_def Let_def emit_def) blast
  then show ?thesis
    using b(2) h(2) by blast
qed


text \<open>What the receive module owns depends on its own structure and its buffers alone.\<close>

lemma rx_owned_cong:
  fixes s :: "'a wireless_simu_scheme" and t :: "'b wireless_simu_scheme"
  assumes "rx_owned s" "st_dst t = st_dst s" "k_dma t = k_dma s" "mset (k_heap s) \<subseteq># mset (k_heap t)" "k_maps t = k_maps s"
    "k_calls s \<le> k_calls t" "\<And>p. p < k_calls s \<Longrightarrow> k_skbs s p \<noteq> None \<Longrightarrow> k_skbs t p = k_skbs s p"
  shows "rx_owned t" "rx_regions t = rx_regions s" "rx_objects t = rx_objects s" "rx_skbs t = rx_skbs s"
    "map (skb_map t) (rx_skbs s) = map (skb_map s) (rx_skbs s)"
proof -
  show v: "rx_regions t = rx_regions s" "rx_objects t = rx_objects s" "rx_skbs t = rx_skbs s"
    using assms(2) by (simp_all add: rx_regions_def rx_objects_def rx_skbs_def rx_ring_def rx_sring_def)
  have own: "own_ok s (rx_skbs s)" "rx_static s"
    using assms(1) by (simp_all add: rx_owned_def)
  have skb: "p < k_calls s" "k_skbs t p = k_skbs s p" if "p \<in> set (rx_skbs s)" for p
    using own(1) that assms(7) [of p] by (auto simp: own_ok_def list_all_iff split: option.splits)
  then show m: "map (skb_map t) (rx_skbs s) = map (skb_map s) (rx_skbs s)"
    by (auto simp: skb_map_def)
  have "own_ok t (rx_skbs s)"
    using own(1) assms(5,6) skb unfolding own_ok_def m by (auto simp: list_all_iff intro: less_le_trans)
  moreover have "rx_static t"
    using own(2) assms(2,3) v subset_mset.order_trans [OF _ assms(4)] by (auto simp: rx_static_def rx_ring_def)
  ultimately show "rx_owned t"
    by (simp add: rx_owned_def v)
qed

lemma pci_remove_exec:
  fixes s :: "'a wireless_simu_pci_scheme"
  assumes "device_up D H M s" "mgmt_tx_queue s = []" "\<not> sched 0"
  shows "\<exists>s'. wireless_simu_pci_remove lib n env sched s = Some s' \<and> mset (k_dma s') = D \<and> mset (k_heap s') = H \<and> mset (k_maps s') = M \<and>
    \<not> pci_enabled s' \<and> \<not> pci_regions s' \<and> \<not> k_iomapped s' \<and> \<not> irq_vectors s' \<and> \<not> irq_handler s' \<and> \<not> workqueue_aux s' \<and>
    k_held s' = k_held s \<and> (\<forall>p. k_skbs s' p = (if p \<in> set (rx_skbs s) then None else k_skbs s p)) \<and>
    (\<exists>h. hw s' = Some h \<and> \<not> hw_registered h)"
proof -
  obtain h k c where up: "drvdata s" "k_iomapped s" "pci_regions s" "pci_enabled s" "workqueue_aux s" "tx_list s = None"
    "hw s = Some h" "hw_registered h" "rx_owned s" "StDstLock \<notin> set (k_held s)" "rdp_vaddr (hal s) \<noteq> 0" "wrp_vaddr (hal s) \<noteq> 0"
    "mset (k_dma s) = mset (rx_regions s) + {#(rdp_vaddr (hal s), rdp_bytes, rdp_paddr (hal s)),
        (wrp_vaddr (hal s), wrp_bytes, wrp_paddr (hal s))#} + D"
    "srng_config (hal s) = Some (k, c)" "mset (k_heap s) = mset (rx_objects s) + {#k, priv_ptr s#} + H"
    "mset (k_maps s) = mset (map (skb_map s) (rx_skbs s)) + M"
    using assms(1) by (auto simp: device_up_def device_on_def)
  define t where "t = (if irq_handler s
      then s\<lparr>stop := True, hw := Some (h\<lparr>hw_registered := False\<rparr>), hw_live := False, vif_live := (\<lambda>_. False), irq_handler := False, irq_vectors := False,
        k_trace := k_trace s @ [EvIoWrite (mmio_addr s + ucast (HAL_BASIC_REG (reg_basic_val WIRELESS_REG_BASIC_IRQ_ENABLE))) 0],
        workqueue_aux := False\<rparr>
      else s\<lparr>stop := True, hw := Some (h\<lparr>hw_registered := False\<rparr>), hw_live := False, vif_live := (\<lambda>_. False), irq_vectors := False,
        k_trace := k_trace s @ [EvWarnOnce, EvIoWrite (mmio_addr s + ucast (HAL_BASIC_REG (reg_basic_val WIRELESS_REG_BASIC_IRQ_ENABLE))) 0],
        workqueue_aux := False\<rparr>)"
  have down: "wireless_simu_pci_remove lib n env sched s = do {
      s \<leftarrow> wireless_simu_hal_srng_dst_test_deinit sched env t;
      s \<leftarrow> wireless_simu_hal_srng_deinit s;
      s \<leftarrow> pci_release_regions (pci_iounmap s);
      s \<leftarrow> pci_disable_device s;
      s \<leftarrow> kfree (tx_list s) s;
      kfree (Some (priv_ptr s)) s }"
    using up(1,2,5,7,8) assms(2)
    by (simp add: wireless_simu_pci_remove_def destroy_workqueue_def wireless_simu_mgmt_tx_work_func_def wireless_mac80211_core_remove_def Let_def free_irq_def pci_free_irq_vectors_def
        wireless_hif_write32_def iowrite32_def t_def emit_def)
  have t: "st_dst t = st_dst s" "hal t = hal s" "k_dma t = k_dma s" "k_heap t = k_heap s" "k_maps t = k_maps s" "k_skbs t = k_skbs s"
    "k_calls t = k_calls s" "k_held t = k_held s" "pci_enabled t" "pci_regions t" "\<not> irq_vectors t" "\<not> irq_handler t" "\<not> workqueue_aux t"
    "tx_list t = None" "priv_ptr t = priv_ptr s" "hw t = Some (h\<lparr>hw_registered := False\<rparr>)"
    using up(3,4,6) by (auto simp: t_def)
  have views: "rx_owned t" "rx_regions t = rx_regions s" "rx_objects t = rx_objects s" "rx_skbs t = rx_skbs s"
    "map (skb_map t) (rx_skbs s) = map (skb_map s) (rx_skbs s)"
    using rx_owned_cong [OF up(9), of t] t(1,3-7) by simp_all
  obtain st mp dm hp tr where u: "wireless_simu_hal_srng_dst_test_deinit sched env t =
      Some (t\<lparr>st_dst := st, k_maps := mp, k_skbs := (\<lambda>p. if p \<in> set (rx_skbs t) then None else k_skbs t p),
        k_dma := dm, k_heap := hp, k_trace := tr\<rparr>)" "mset mp = mset (k_maps t) - mset (map (skb_map t) (rx_skbs t))"
    "mset dm = mset (k_dma t) - mset (rx_regions t)" "mset hp = mset (k_heap t) - mset (rx_objects t)"
    using dst_deinit_exec [OF views(1), of sched env] up(10) t(8) assms(3) by auto
  define v where "v = t\<lparr>st_dst := st, k_maps := mp, k_skbs := (\<lambda>p. if p \<in> set (rx_skbs t) then None else k_skbs t p),
        k_dma := dm, k_heap := hp, k_trace := tr\<rparr>"
  have acc: "mset mp = M" "mset dm = {#(rdp_vaddr (hal s), rdp_bytes, rdp_paddr (hal s)), (wrp_vaddr (hal s), wrp_bytes, wrp_paddr (hal s))#} + D"
    "mset hp = add_mset k (add_mset (priv_ptr s) H)"
    using u(2-4) up(13,15,16) by (simp_all add: t views)
  obtain g dm' hp' tr' where w: "wireless_simu_hal_srng_deinit v = Some (v\<lparr>k_dma := dm', hal := g, k_heap := hp', k_trace := tr'\<rparr>)"
    "mset dm' = D" "mset hp' = add_mset (priv_ptr s) H"
    using srng_deinit_exec [of v k c D "add_mset (priv_ptr s) H"] up(11,12,14) acc t(2) by (auto simp: v_def)
  note hp' = mset_remove [OF w(3)]
  show ?thesis
    using down u(1) w hp' acc(1) t views
    by (simp add: v_def pci_iounmap_def pci_release_regions_def pci_disable_device_def kfree_def, simp add: emit_def)
qed

text \<open>
  The two ways in which the removal does not end well. A bottom half that is still scheduled is waited
  for under its own lock. A frame that is still queued is handed to the firmware by the worker, which
  the destruction of the work queue runs: after mac80211 has freed the device and its interfaces.
\<close>

lemma pci_remove_start:
  fixes s :: "'a wireless_simu_pci_scheme"
  assumes "device_up D H M s"
  shows "\<exists>(t :: 'a wireless_simu_pci_scheme) f. wireless_simu_pci_remove lib n env sched s =
      destroy_workqueue lib n env t \<bind> (\<lambda>u. wireless_simu_hal_srng_dst_test_deinit sched env u \<bind> f) \<and>
    k_skbs t = k_skbs s \<and> mgmt_tx_queue t = mgmt_tx_queue s \<and> txmgmt_idr t = txmgmt_idr s \<and> k_calls t = k_calls s \<and>
    k_held t = k_held s \<and> st_dst t = st_dst s \<and> \<not> hw_live t \<and> (\<forall>v. \<not> vif_live t v)"
proof -
  obtain h where up: "drvdata s" "k_iomapped s" "hw s = Some h" "hw_registered h"
    using assms by (auto simp: device_up_def device_on_def)
  let ?t = "s\<lparr>stop := True, hw := Some (h\<lparr>hw_registered := False\<rparr>), hw_live := False, vif_live := (\<lambda>_. False),
     irq_handler := False, irq_vectors := False,
     k_trace := k_trace s @ (if irq_handler s then [] else [EvWarnOnce]) @
       [EvIoWrite (mmio_addr s + ucast (HAL_BASIC_REG (reg_basic_val WIRELESS_REG_BASIC_IRQ_ENABLE))) 0]\<rparr>"
  have t: "wireless_hif_write32 (HAL_BASIC_REG (reg_basic_val WIRELESS_REG_BASIC_IRQ_ENABLE)) 0
      (pci_free_irq_vectors (free_irq (s\<lparr>stop := True, hw := Some (h\<lparr>hw_registered := False\<rparr>), hw_live := False,
        vif_live := (\<lambda>_. False)\<rparr>))) = Some ?t"
    using up(2) by (simp add: free_irq_def pci_free_irq_vectors_def wireless_hif_write32_def iowrite32_def emit_def)
  let ?f = "\<lambda>s :: 'a wireless_simu_pci_scheme. wireless_simu_hal_srng_deinit s \<bind> (\<lambda>s. pci_release_regions (pci_iounmap s) \<bind> (\<lambda>s. pci_disable_device s \<bind>
    (\<lambda>s. kfree (tx_list s) s \<bind> (\<lambda>s. kfree (Some (priv_ptr s)) s))))"
  have eq: "wireless_simu_pci_remove lib n env sched s =
      destroy_workqueue lib n env ?t \<bind> (\<lambda>u. wireless_simu_hal_srng_dst_test_deinit sched env u \<bind> ?f)"
    using up(1,3,4) t unfolding wireless_simu_pci_remove_def wireless_mac80211_core_remove_def Let_def by simp
  show ?thesis
    by (rule exI [of _ ?t], rule exI [of _ ?f]) (intro conjI, rule eq, simp_all)
qed

lemma work_func_gone:
  fixes s :: "'a wireless_simu_mac_scheme"
  assumes "mgmt_tx_queue s = p # q" "k_skbs s p = Some b" "frame_ok lib b" "k_held s = []" "\<not> hw_live s" "\<forall>v. \<not> vif_live s v"
    "env_grants env" "0 \<le> lib_idr_alloc lib (k_calls s) (map fst (txmgmt_idr s)) 0 512"
  shows "wireless_simu_mgmt_tx_work_func lib n env s = None"
proof -
  let ?l = "s\<lparr>mgmt_tx_queue := q, k_held := [MacConfMutex]\<rparr>"
  have "wireless_simu_mgmt_tx_wmi lib n env v p ?l = None" for v
    using assms(2,3,6-8) by (intro mgmt_tx_wmi_gone [where b = b]) simp_all
  then show ?thesis
    using assms(1,2,4,5)
    by (simp add: wireless_simu_mgmt_tx_work_func_def mgmt_work_one_def skb_get_def spin_lock_def
        wireless_simu_mgmt_over_tx_drop_def split: option.split)
qed

lemma pci_remove_fails:
  fixes s :: "'a wireless_simu_pci_scheme"
  assumes "device_up D H M s" "mac_inv lib s"
  shows "mgmt_tx_queue s = [] \<Longrightarrow> 0 < pipes_count (st_dst s) \<Longrightarrow> sched 0 \<Longrightarrow> wireless_simu_pci_remove lib n env sched s = None"
    and "mgmt_tx_queue s \<noteq> [] \<Longrightarrow> env_grants env \<Longrightarrow> idr_serves lib \<Longrightarrow> length (txmgmt_idr s) < 512 \<Longrightarrow>
      wireless_simu_pci_remove lib n env sched s = None"
proof -
  obtain t :: "'a wireless_simu_pci_scheme" and f where t: "wireless_simu_pci_remove lib n env sched s =
      destroy_workqueue lib n env t \<bind> (\<lambda>u. wireless_simu_hal_srng_dst_test_deinit sched env u \<bind> f)"
    "k_skbs t = k_skbs s" "mgmt_tx_queue t = mgmt_tx_queue s" "txmgmt_idr t = txmgmt_idr s" "k_calls t = k_calls s"
    "k_held t = k_held s" "st_dst t = st_dst s" "\<not> hw_live t" "\<forall>v. \<not> vif_live t v"
    using pci_remove_start [OF assms(1)] by metis
  show "wireless_simu_pci_remove lib n env sched s = None"
    if "mgmt_tx_queue s = []" "0 < pipes_count (st_dst s)" "sched 0"
    using that t(1,3,7) dst_deinit_blocks [of "t\<lparr>workqueue_aux := False\<rparr>" sched env]
    by (simp add: destroy_workqueue_def wireless_simu_mgmt_tx_work_func_def)
  show "wireless_simu_pci_remove lib n env sched s = None"
    if w: "mgmt_tx_queue s \<noteq> []" "env_grants env" "idr_serves lib" "length (txmgmt_idr s) < 512"
  proof -
    obtain p q where p: "mgmt_tx_queue s = p # q"
      using w(1) by (cases "mgmt_tx_queue s") auto
    then have "queued_ok lib s p" "k_held s = []"
      using assms(2) by (simp_all add: mac_inv_def)
    moreover obtain b where "k_skbs s p = Some b" "frame_ok lib b"
      using queued_okE [OF \<open>queued_ok lib s p\<close>] by blast
    ultimately have "wireless_simu_mgmt_tx_work_func lib n env t = None"
      using t(2-6,8,9) w(2) p idr_served [OF assms(2) w(3,4)] by (intro work_func_gone [where b = b]) simp_all
    then show ?thesis
      using t(1) by (simp add: destroy_workqueue_def)
  qed
qed

section \<open>Probe\<close>

lemma regions_ok_grants:
  assumes "dma_fair env s" "distinct (map fst xs)" "\<forall>x\<in>set xs. k_calls s \<le> fst x \<and> unat (snd x) \<le> 4096 \<and> fst (dma_grant env x) \<noteq> 0"
  shows "regions_ok (map (dma_grant env) xs @ k_dma s)"
  using assms(2,3)
proof (induction xs)
  case Nil
  then show ?case
    using assms(1) by (simp add: dma_fair_def)
next
  case (Cons x xs)
  obtain c sz where x: "x = (c, sz)" by (cases x)
  have fair: "region_flat (dma_grant env x)" "list_all (regions_apart (dma_grant env x)) (k_dma s)"
    "\<And>y. y \<in> set xs \<Longrightarrow> regions_apart (dma_grant env x) (dma_grant env y)"
    using assms(1) Cons.prems x unfolding dma_fair_def by (auto simp: image_iff) (metis fst_conv prod.collapse snd_conv)+
  then show ?case
    using Cons by (auto simp: regions_ok_def list_all_iff)
qed

lemma dma_fair_honest:
  assumes "dma_fair env s" "k_dma t = map (dma_grant env) old @ k_dma s" "distinct (map fst (reqs @ old))"
    "\<forall>x\<in>set (reqs @ old). k_calls s \<le> fst x \<and> unat (snd x) \<le> 4096" "\<forall>x\<in>set old. fst (dma_grant env x) \<noteq> 0"
  shows "dma_honest env reqs t"
proof -
  let ?new = "filter (\<lambda>x. fst (dma_grant env x) \<noteq> 0) reqs"
  have "distinct (map fst (?new @ old))"
    using assms(3) by (auto simp: distinct_map_filter)
  then have "regions_ok (map (dma_grant env) (?new @ old) @ k_dma s)"
    using assms(4,5) by (intro regions_ok_grants [OF assms(1)]) auto
  then show ?thesis
    by (simp add: dma_honest_def assms(2) filter_map comp_def)
qed

lemma claim_exec:
  assumes "claim_result pe = 0"
  shows "wireless_simu_pci_claim pe s = Some (0, s\<lparr>pci_enabled := True, pci_regions := True, pci_master := True,
    k_iomapped := True, mmio_addr := pe_iomap pe\<rparr>)"
  using assms by (auto simp: wireless_simu_pci_claim_def claim_result_def Let_def split: if_splits)

lemma irq_exec:
  assumes "irq_result pe = 0"
  shows "wireless_simu_pci_irq_init pe s = Some (0, s\<lparr>msi_enable := \<not> pe_vectors_msi pe < 0, irq_vectors := True,
    irq_handler := (pe_request_irq pe = 0), irq_vectors_num := pe_irq_vector pe\<rparr>)"
proof -
  have "\<not> (if pe_vectors_msi pe < 0 then pe_vectors_all pe else pe_vectors_msi pe) < 0" "\<not> (\<not> pe_vectors_msi pe < 0 \<and> \<not> pe_msi_desc pe)"
    using assms by (simp_all add: irq_result_def split: if_splits)
  then show ?thesis
    by (auto simp: wireless_simu_pci_irq_init_def Let_def)
qed

lemma srng_init_exec:
  fixes s :: "'a wireless_simu_scheme"
  assumes "env_kmalloc env (k_calls s)" "dma_grant env (Suc (k_calls s), rdp_bytes) = (v, rdp_bytes, p)" "v \<noteq> 0"
    "dma_grant env (Suc (Suc (k_calls s)), wrp_bytes) = (w, wrp_bytes, q)" "w \<noteq> 0"
  shows "\<exists>tr. wireless_simu_hal_srng_init env s = Some (0, s\<lparr>k_heap := k_calls s # k_heap s, k_calls := Suc (Suc (Suc (k_calls s))),
    k_dma := (w, wrp_bytes, q) # (v, rdp_bytes, p) # k_dma s,
    hal := hal_zero\<lparr>srng_config := Some (k_calls s, hw_srng_config_template), rdp_vaddr := v, rdp_paddr := p,
      wrp_vaddr := w, wrp_paddr := q\<rparr>, k_trace := tr\<rparr>)"
proof -
  have "env_dma_alloc env (Suc (k_calls s)) rdp_bytes = (v, p)" "env_dma_alloc env (Suc (Suc (k_calls s))) wrp_bytes = (w, q)"
    using assms(2,4) by (auto simp: dma_grant_def split: prod.splits)
  then show ?thesis
    using assms(1,3,5) by (simp add: init_defs) blast
qed

lemma more_pci:
  fixes s t :: "'a wireless_simu_pci_scheme"
  assumes "wireless_simu_mac.more t = wireless_simu_mac.more s"
  shows "drvdata t = drvdata s" "pci_regions t = pci_regions s" "pci_enabled t = pci_enabled s" "workqueue_aux t = workqueue_aux s"
    "tx_list t = tx_list s" "hw t = hw s" "priv_ptr t = priv_ptr s" "band_5GHZ_channels t = band_5GHZ_channels s"
    "band_6GHZ_channels t = band_6GHZ_channels s" "band_2GHZ t = band_2GHZ s" "mac_addr t = mac_addr s"
  using assms by (cases s; cases t; simp)+


text \<open>The state in which the test modules are brought up, as far as they and the removal see it.\<close>

lemma probe_begin:
  fixes s :: "'a wireless_simu_pci_scheme"
  assumes "probe_granted env s" "probe_accepted pe me"
  shows "\<exists>b. wireless_simu_pci_probe pe me env dev s = do {
      (_, s) \<leftarrow> wireless_simu_hal_srng_dst_test_init env b;
      s \<leftarrow> wireless_simu_hal_srng_test env dev s;
      (_, s) \<leftarrow> wireless_mac80211_core_probe me env (s\<lparr>workqueue_aux := True\<rparr>);
      Some (0, s) } \<and>
    k_calls b = k_calls s + 4 \<and> k_heap b = Suc (k_calls s) # k_calls s # k_heap s \<and> k_maps b = k_maps s \<and> k_skbs b = k_skbs s \<and>
    k_held b = k_held s \<and> k_dma b = map (dma_grant env) [(k_calls s + 3, wrp_bytes), (k_calls s + 2, rdp_bytes)] @ k_dma s \<and>
    srng_config (hal b) = Some (Suc (k_calls s), hw_srng_config_template) \<and> st_dst b = srng_test_zero \<and>
    (rdp_vaddr (hal b), rdp_bytes, rdp_paddr (hal b)) = dma_grant env (k_calls s + 2, rdp_bytes) \<and>
    (wrp_vaddr (hal b), wrp_bytes, wrp_paddr (hal b)) = dma_grant env (k_calls s + 3, wrp_bytes) \<and>
    drvdata b \<and> k_iomapped b \<and> pci_regions b \<and> pci_enabled b \<and> tx_list b = None \<and> priv_ptr b = k_calls s \<and>
    band_5GHZ_channels b = None \<and> band_6GHZ_channels b = None \<and> vif b = replicate WIRELESS_MAX_NUM_VIF None \<and>
    num_pending_mgmt_tx b = 0"
proof -
  obtain v p w q where g: "dma_grant env (k_calls s + 2, rdp_bytes) = (v, rdp_bytes, p)" "v \<noteq> 0"
    "dma_grant env (k_calls s + 3, wrp_bytes) = (w, wrp_bytes, q)" "w \<noteq> 0"
    using assms(1) by (auto simp: probe_granted_def dma_grant_def split: prod.splits)
  have k: "\<And>c. env_kmalloc env c"
    using assms(1) by (simp add: probe_granted_def)
  have acc: "claim_result pe = 0" "irq_result pe = 0" "pe_workqueue pe"
    using assms(2) by (simp_all add: probe_accepted_def)
  define a where "a = (priv_zero (k_calls s) ((tick s)\<lparr>k_heap := k_calls s # k_heap s\<rparr>))\<lparr>pci_enabled := True, pci_regions := True,
     pci_master := True, k_iomapped := True, mmio_addr := pe_iomap pe, msi_enable := \<not> pe_vectors_msi pe < 0, irq_vectors := True,
     irq_handler := (pe_request_irq pe = 0), irq_vectors_num := pe_irq_vector pe, drvdata := True,
     k_trace := k_trace s @ [EvIoWrite (pe_iomap pe + ucast (HAL_BASIC_REG (reg_basic_val WIRELESS_REG_BASIC_IRQ_ENABLE))) 1]\<rparr>"
  have run: "wireless_simu_pci_probe pe me env dev s = wireless_simu_hal_srng_init env a \<bind> (\<lambda>(ret, s). if ret \<noteq> 0 then Some (ret, s) else do {
      (_, s) \<leftarrow> wireless_simu_hal_srng_dst_test_init env s;
      s \<leftarrow> wireless_simu_hal_srng_test env dev s;
      (_, s) \<leftarrow> wireless_mac80211_core_probe me env (s\<lparr>workqueue_aux := True\<rparr>);
      Some (0, s) })"
    using k acc
    by (simp add: wireless_simu_pci_probe_def kmalloc_def claim_exec irq_exec probe_bringup_def wireless_hif_write32_def iowrite32_def
        ioread32_def Let_def a_def emit_def cong: if_cong, simp add: priv_zero_def tick_def)
  have ac: "k_calls a = Suc (k_calls s)" "k_heap a = k_calls s # k_heap s" "k_maps a = k_maps s" "k_skbs a = k_skbs s" "k_held a = k_held s"
    "k_dma a = k_dma s" "st_dst a = srng_test_zero" "drvdata a" "k_iomapped a" "pci_regions a" "pci_enabled a" "tx_list a = None"
    "priv_ptr a = k_calls s" "band_5GHZ_channels a = None" "band_6GHZ_channels a = None"
    "vif a = replicate WIRELESS_MAX_NUM_VIF None" "num_pending_mgmt_tx a = 0"
    by (simp_all add: a_def priv_zero_def tick_def)
  define b where "b tr = a\<lparr>k_heap := k_calls a # k_heap a, k_calls := Suc (Suc (Suc (k_calls a))),
      k_dma := (w, wrp_bytes, q) # (v, rdp_bytes, p) # k_dma a,
      hal := hal_zero\<lparr>srng_config := Some (k_calls a, hw_srng_config_template), rdp_vaddr := v, rdp_paddr := p,
        wrp_vaddr := w, wrp_paddr := q\<rparr>, k_trace := tr\<rparr>" for tr
  obtain tr where init: "wireless_simu_hal_srng_init env a = Some (0, b tr)"
    using srng_init_exec [OF k, of a v p w q] g ac(1) by (auto simp: numeral_eq_Suc b_def)
  show ?thesis
    using ac g by (intro exI [of _ "b tr"]) (simp add: run init, simp add: b_def)
qed


lemma probe_reqs_small: "x \<in> set (probe_reqs s) \<Longrightarrow> k_calls s \<le> fst x \<and> unat (snd x) \<le> 4096"
  by (auto simp: probe_reqs_def ring_bytes_def rdp_bytes_val)

lemma hal_up_init:
  assumes "srng_config (hal b) = Some (k, hw_srng_config_template)" "k \<in> set (k_heap b)" "k_iomapped b"
    "(rdp_vaddr (hal b), rdp_bytes, rdp_paddr (hal b)) \<in> set (k_dma b)"
  shows "hal_up b"
  using assms by (auto simp: hal_up_def get_srng_config_def mem_ok_def list_ex_iff in_region_def rdp_bytes_val
      intro!: bexI [of _ "(rdp_vaddr (hal b), rdp_bytes, rdp_paddr (hal b))"])

lemma test_frameD:
  assumes "test_frame t = test_frame s"
  shows "st_dst t = st_dst s" "k_dma t = k_dma s" "k_heap t = k_heap s" "k_iomapped t = k_iomapped s"
    "wireless_simu.more t = wireless_simu.more s" "srng_config (hal t) = srng_config (hal s)" "rdp_vaddr (hal t) = rdp_vaddr (hal s)"
    "rdp_paddr (hal t) = rdp_paddr (hal s)" "wrp_vaddr (hal t) = wrp_vaddr (hal s)" "wrp_paddr (hal t) = wrp_paddr (hal s)"
    "rid \<noteq> 125 \<Longrightarrow> srng_list (hal t) rid = srng_list (hal s) rid"
proof -
  have e: "(hal t)\<lparr>srng_list := (srng_list (hal t))(125 := hal_srng_zero)\<rparr> = (hal s)\<lparr>srng_list := (srng_list (hal s))(125 := hal_srng_zero)\<rparr>"
    using assms by (simp only: test_frame_def prod.inject)
  show "srng_config (hal t) = srng_config (hal s)" "rdp_vaddr (hal t) = rdp_vaddr (hal s)" "rdp_paddr (hal t) = rdp_paddr (hal s)"
    "wrp_vaddr (hal t) = wrp_vaddr (hal s)" "wrp_paddr (hal t) = wrp_paddr (hal s)"
    using arg_cong [OF e, of srng_config] arg_cong [OF e, of rdp_vaddr] arg_cong [OF e, of rdp_paddr] arg_cong [OF e, of wrp_vaddr]
      arg_cong [OF e, of wrp_paddr] by simp_all
  show "rid \<noteq> 125 \<Longrightarrow> srng_list (hal t) rid = srng_list (hal s) rid"
    using fun_cong [OF arg_cong [OF e, of srng_list], of rid] by simp
  show "st_dst t = st_dst s" "k_dma t = k_dma s" "k_heap t = k_heap s" "k_iomapped t = k_iomapped s"
    "wireless_simu.more t = wireless_simu.more s"
    using assms by (simp_all only: test_frame_def prod.inject)
qed

lemma mem_ok_part:
  assumes "mem_ok a n s" "k + m \<le> n" "n < 2 ^ 64"
  shows "mem_ok (a + of_nat k) m s"
proof -
  have k: "unat (of_nat k :: u64) = k"
    using assms(2,3) by (intro unat_of_nat_64) simp
  have "in_region (a + of_nat k) m (v, sz, p)" if "in_region a n (v, sz, p)" for v sz p
  proof -
    have "unat (a - v + of_nat k) \<le> unat (a - v) + k"
      using k by (simp add: unat_word_ariths)
    then show ?thesis
      using that assms(2) by (simp add: in_region_def diff_add_eq)
  qed
  then have "in_region a n r \<Longrightarrow> in_region (a + of_nat k) m r" for r
    by (cases r) blast
  then show ?thesis
    using assms(1) by (auto simp: mem_ok_def list_ex_iff)
qed

text \<open>The self test leaves a sound receive path sound.\<close>

lemma self_test_rx:
  fixes s s' :: "'a wireless_simu_scheme"
  assumes "rx_sys s" "rx_rid 0 s = 8" "rx_srid 0 s = 1" "rx_cells s = {rdp_vaddr (hal s) + 32, rdp_vaddr (hal s) + 4}" "hal_up s"
    "ends_still (rdp_vaddr (hal s)) dev"
    and t: "test_frame s' = test_frame s" "k_maps s' = k_maps s" "skbs_kept s s'" "set (k_held s') \<subseteq> set (k_held s)" "test_spares dev s s'"
  shows "rx_sys s'" "rx_rest 0 s' = rx_rest 0 s"
proof -
  note fr = test_frameD [OF t(1)]
  let ?a = "rdp_vaddr (hal s)"
  have "k_mem s' (?a + of_nat (4 * k)) = k_mem s (?a + of_nat (4 * k))" if "k = 8 \<or> k = 1" for k
  proof -
    have "mem_ok (?a + of_nat (4 * k)) 4 s"
      using assms(5) that by (intro mem_ok_part [of _ 688]) (auto simp: hal_up_def)
    moreover have "k < 172" "k \<noteq> 125"
      using that by auto
    then have "dev tc m (?a + of_nat (4 * k)) = m (?a + of_nat (4 * k))" for tc m
      using assms(6) unfolding ends_still_def by blast
    moreover have "?a + of_nat (4 * k) \<noteq> ?a + 500"
      using that by auto
    ultimately show ?thesis
      using t(5) unfolding test_spares_def by blast
  qed
  from this [of 8] this [of 1] have mem: "a \<in> rx_cells s \<Longrightarrow> k_mem s' a = k_mem s a" for a
    using assms(4) by auto
  have old: "p < k_calls s" if "p \<in> set (rx_bufs (rx_ring 0 s))" for p
    using assms(1) that by (simp add: rx_sys_def rx_inv_def own_ok_def list_all_iff)
  have kept: "k_calls s \<le> k_calls s'" "k_skbs s' p = k_skbs s p \<or> k_calls s \<le> p" for p
    using t(3) by (auto simp: skbs_kept_def)
  have skb: "k_skbs s' p = k_skbs s p" if "p \<in> set (rx_bufs (rx_ring 0 s))" for p
    using old [OF that] kept(2) [of p] by simp
  note c = rx_sys_cong [OF assms(1) fr(1,2,4) t(4) fr(11) fr(11) mem kept(1) skb, where T = "{#}"]
  show "rx_sys s'"
    by (rule c(1)) (simp_all add: assms(2,3) t(2))
  have "rx_rest 0 s' = rx_rest 0 s + {#}"
    by (rule c(2)) (simp_all add: assms(2,3) t(2))
  then show "rx_rest 0 s' = rx_rest 0 s"
    by simp
qed

text \<open>The mappings of a sound receive path are those of its buffers and those of others.\<close>

lemma rx_sys_maps:
  assumes "rx_sys s"
  shows "mset (k_maps s) = mset (map (skb_map s) (rx_skbs s)) + rx_rest 0 s"
proof -
  have "mset (map (skb_map s) (rx_bufs (rx_ring 0 s))) \<subseteq># mset (k_maps s)"
    using assms by (simp add: rx_sys_def rx_inv_def own_ok_def)
  then show ?thesis
    using rx_sys_bufs [OF assms] by (simp add: rx_rest_def)
qed

lemma boot_ready:
  fixes s b :: "'a wireless_simu_pci_scheme"
  assumes "dma_fair env s" "probe_granted env s" "k_held b = []" "k_calls b = k_calls s + 4"
    "k_heap b = Suc (k_calls s) # k_calls s # k_heap s"
    "k_dma b = map (dma_grant env) [(k_calls s + 3, wrp_bytes), (k_calls s + 2, rdp_bytes)] @ k_dma s"
    "srng_config (hal b) = Some (Suc (k_calls s), hw_srng_config_template)" "st_dst b = srng_test_zero" "k_iomapped b"
    "(rdp_vaddr (hal b), rdp_bytes, rdp_paddr (hal b)) = dma_grant env (k_calls s + 2, rdp_bytes)"
  shows "rx_boot env b" "rx_granted env b"
proof -
  have "hal_up b"
    using assms by (intro hal_up_init [of b "Suc (k_calls s)"]) simp_all
  moreover have "dma_honest env [(k_calls b + 2, of_nat (ring_bytes 12)), (k_calls b + 4, of_nat (ring_bytes 8))] b"
    by (rule dma_fair_honest [OF assms(1,6)])
      (use assms(2,4) in \<open>simp_all add: probe_granted_def ring_bytes_def rdp_bytes_val\<close>)
  ultimately show "rx_boot env b"
    using assms(3,8) by (simp add: rx_boot_def srng_test_zero_def SRNG_TEST_PIPE_COUNT_MAX_def srng_test_pipe_zero_def pipe_empty_def)
  show "rx_granted env b"
    using assms(2,4) by (simp add: rx_granted_def ring_granted_def ring_grant_def rx_begin_def probe_granted_def numeral_eq_Suc)
qed

text \<open>Receive module and self test, run one after the other on the new ring layer.\<close>

lemma modules_up:
  fixes s b :: "'a wireless_simu_pci_scheme"
  assumes "dma_fair env s" "probe_granted env s" "env_empty_skbs env" "env_roomy_skbs env"
    "tx_tame (fst (dma_grant env (k_calls s + 2, rdp_bytes)) + 500) dev" "k_held b = []" "ends_still (fst (dma_grant env (k_calls s + 2, rdp_bytes))) dev"
    and b: "k_calls b = k_calls s + 4" "k_heap b = Suc (k_calls s) # k_calls s # k_heap s"
    "k_dma b = map (dma_grant env) [(k_calls s + 3, wrp_bytes), (k_calls s + 2, rdp_bytes)] @ k_dma s"
    "srng_config (hal b) = Some (Suc (k_calls s), hw_srng_config_template)" "st_dst b = srng_test_zero" "k_iomapped b"
    "(rdp_vaddr (hal b), rdp_bytes, rdp_paddr (hal b)) = dma_grant env (k_calls s + 2, rdp_bytes)"
  shows "\<exists>s2 s3. wireless_simu_hal_srng_dst_test_init env b = Some (0, s2) \<and> wireless_simu_hal_srng_test env dev s2 = Some s3 \<and>
    rx_sys s3 \<and> rx_static s3 \<and> rx_rest 0 s3 = mset (k_maps b) \<and> length (pipes (st_dst s3)) = 1 \<and> k_held s3 = [] \<and>
    wireless_simu.more s3 = wireless_simu.more b \<and> k_iomapped s3 \<and>
    srng_config (hal s3) = srng_config (hal b) \<and> rdp_vaddr (hal s3) = rdp_vaddr (hal b) \<and> rdp_paddr (hal s3) = rdp_paddr (hal b) \<and>
    wrp_vaddr (hal s3) = wrp_vaddr (hal b) \<and> wrp_paddr (hal s3) = wrp_paddr (hal b) \<and>
    mset (k_dma s3) = mset (k_dma b) + mset (rx_regions s3) \<and> mset (k_heap s3) = mset (k_heap b) + mset (rx_objects s3)"
proof -
  note boot = boot_ready(1) [OF assms(1,2,6) b] and granted = boot_ready(2) [OF assms(1,2,6) b]
  have old: "x \<in> set (probe_reqs s) \<Longrightarrow> fst (dma_grant env x) \<noteq> 0" for x
    using assms(2) by (auto simp: probe_granted_def probe_reqs_def)
  obtain s2 where s2: "wireless_simu_hal_srng_dst_test_init env b = Some (0, s2)" "rx_sys s2" "rx_static s2"
    "rx_rest 0 s2 = mset (k_maps b)" "mset (k_dma s2) = mset (k_dma b) + mset (rx_regions s2)"
    "mset (k_heap s2) = mset (k_heap b) + mset (rx_objects s2)"
    using dst_init_ok [OF boot assms(3) granted] by blast
  note keep = dst_init_keeps [OF boot assms(3) granted s2(1)]
  note cells = dst_init_cells [OF boot assms(3) granted s2(1)]
  have dma2: "k_dma s2 = map (dma_grant env) (probe_reqs s) @ k_dma s"
    using keep(11) b(1,3) by (simp add: probe_reqs_def add.commute add.left_commute)
  have up2: "hal_up s2"
    using keep(1,3-5) b(2,4,6,7) dma2 s2(6)
    by (intro hal_up_init [of s2 "Suc (k_calls s)"]) (auto simp: probe_reqs_def simp flip: set_mset_mset)
  have honest2: "dma_honest env [(k_calls s2 + 2, of_nat (ring_bytes 20))] s2"
  proof (rule dma_fair_honest [OF assms(1) dma2])
    show "distinct (map fst ([(k_calls s2 + 2, of_nat (ring_bytes 20))] @ probe_reqs s))"
      using keep(9) b(1) by (simp add: probe_reqs_def)
    show "\<forall>x\<in>set ([(k_calls s2 + 2, of_nat (ring_bytes 20))] @ probe_reqs s). k_calls s \<le> fst x \<and> unat (snd x) \<le> 4096"
      using keep(9) b(1) probe_reqs_small [of _ s] by (auto simp: ring_bytes_def)
  qed (use old in blast)
  have tame: "tx_tame (rdp_vaddr (hal s2) + 500) dev"
    using assms(5) keep(4) b(7) by (metis fst_conv)
  have still: "ends_still (rdp_vaddr (hal s2)) dev"
    using assms(7) keep(4) b(7) by (metis fst_conv)
  obtain s3 where s3: "wireless_simu_hal_srng_test env dev s2 = Some s3" "test_frame s3 = test_frame s2" "k_maps s3 = k_maps s2"
    "skbs_kept s2 s3" "set (k_held s3) \<subseteq> set (k_held s2)" "test_spares dev s2 s3"
    using self_test_exec [OF up2 honest2 assms(4) tame] by blast
  note fr = test_frameD [OF s3(2)]
  note rx = self_test_rx [OF s2(2) cells(1,2) _ up2 still s3(2-6)]
  note st = rx_static_part [OF fr(2,3) _ _ _ s2(3)]
  have cell: "rx_cells s2 = {rdp_vaddr (hal s2) + 32, rdp_vaddr (hal s2) + 4}"
    using cells(3) keep(4) by simp
  have views: "rx_static s3" "rx_regions s3 = rx_regions s2" "rx_objects s3 = rx_objects s2"
    using st by (simp_all add: fr(1))
  show ?thesis
    by (rule exI [of _ s2], rule exI [of _ s3])
      (use s2(1,4-6) s3(1,5) keep(1,3-8,10) rx [OF cell] views cells(4) assms(6) b(6) in \<open>simp add: fr\<close>)
qed


text \<open>The registration takes a device that has been set up into operation.\<close>

lemma register_up:
  fixes s :: "'a wireless_simu_pci_scheme"
  assumes on: "device_on D H M s" and sys: "rx_sys s" "rx_rest 0 s = M" "length (pipes (st_dst s)) = 1" "k_held s = []"
    and mac: "length (vif s) = WIRELESS_MAX_NUM_VIF" "num_pending_mgmt_tx s = 0" "band_5GHZ_channels s = None" "band_6GHZ_channels s = None"
    and env: "me_alloc_hw me" "me_register_hw me = 0" "env_kmalloc env (k_calls s)"
  shows "\<exists>s' c. wireless_mac80211_core_probe me env s = Some (SUCCESS, s') \<and> sb_channels (band_2GHZ s') = Some (k_calls s, c) \<and>
    driver_inv lib M s' \<and> rx_static s' \<and> device_up D (add_mset (k_calls s) H) M s' \<and> mgmt_tx_queue s' = [] \<and> txmgmt_idr s' = []"
proof -
  obtain s' where s': "wireless_mac80211_core_probe me env s = Some (SUCCESS, s')" "k_heap s' = k_calls s # k_heap s" "k_held s' = []"
    "sb_channels (band_2GHZ s') = Some (k_calls s, wireless_simu_2ghz_channels)" "\<exists>h. hw s' = Some h \<and> hw_registered h"
    "k_dma s' = k_dma s" "k_maps s' = k_maps s" "k_skbs s' = k_skbs s" "k_calls s' = Suc (k_calls s)" "st_dst s' = st_dst s"
    "hal s' = hal s" "k_iomapped s' = k_iomapped s" "drvdata s' = drvdata s" "pci_regions s' = pci_regions s"
    "pci_enabled s' = pci_enabled s" "workqueue_aux s' = workqueue_aux s" "tx_list s' = tx_list s" "priv_ptr s' = priv_ptr s"
    "k_mem s' = k_mem s" "mgmt_tx_queue s' = []" "txmgmt_idr s' = []" "length (vif s') = length (vif s)"
    "num_pending_mgmt_tx s' = num_pending_mgmt_tx s" "hw_live s'"
    using core_probe_exec [of s me env] sys(4) mac(3,4) env by (simp add: Let_def tick_def setup_band_def)
  note c = rx_sys_cong [OF sys(1) s'(10,6,12) _ _ _ _ _ _, where T = "{#}"]
  have sys': "rx_sys s'" "rx_rest 0 s' = rx_rest 0 s + {#}"
    by (rule c; simp add: s' sys(4))+
  have "mac_inv lib s'"
    using s'(3,20-24) mac(1,2) by (simp add: mac_inv_def WIRELESS_SIMU_TX_MGMT_NUM_PENDING_MAX_def)
  moreover have "paths_apart M s'"
    using sys'(2) s'(10,20,21) sys(2,3) by (simp add: paths_apart_def mac_bufs_def)
  ultimately have inv: "driver_inv lib M s'"
    using sys'(1) by (simp add: driver_inv_def)
  have "rx_owned s"
    using on by (simp add: device_on_def)
  then have own: "rx_static s'" "rx_regions s' = rx_regions s" "rx_objects s' = rx_objects s"
    using rx_owned_cong [of s s'] s'(2,6-10) by (simp_all add: rx_owned_def)
  have "device_up D (add_mset (k_calls s) H) M s'"
    unfolding device_up_def device_on_def own(2,3) rx_sys_maps [OF sys'(1)]
    using on s' sys'(2) sys(2) rx_sys_owned [OF sys'(1) own(1)] by (simp add: device_on_def)
  then show ?thesis
    using s'(1,4,20,21) inv own(1) by auto
qed

lemma probe_up:
  fixes s :: "'a wireless_simu_pci_scheme"
  assumes "k_held s = []" "dma_fair env s" "probe_granted env s" "probe_accepted pe me" "env_empty_skbs env" "env_roomy_skbs env"
    "tx_tame (fst (dma_grant env (k_calls s + 2, rdp_bytes)) + 500) dev" "ends_still (fst (dma_grant env (k_calls s + 2, rdp_bytes))) dev"
  shows "\<exists>s1 k c. wireless_simu_pci_probe pe me env dev s = Some (0, s1) \<and> sb_channels (band_2GHZ s1) = Some (k, c) \<and>
    driver_inv lib (mset (k_maps s)) s1 \<and> rx_static s1 \<and>
    device_up (mset (k_dma s)) (add_mset k (mset (k_heap s))) (mset (k_maps s)) s1 \<and> mgmt_tx_queue s1 = [] \<and> txmgmt_idr s1 = []"
proof -
  obtain b where b: "wireless_simu_pci_probe pe me env dev s = do {
      (_, s) \<leftarrow> wireless_simu_hal_srng_dst_test_init env b;
      s \<leftarrow> wireless_simu_hal_srng_test env dev s;
      (_, s) \<leftarrow> wireless_mac80211_core_probe me env (s\<lparr>workqueue_aux := True\<rparr>);
      Some (0, s) }"
    "k_calls b = k_calls s + 4" "k_heap b = Suc (k_calls s) # k_calls s # k_heap s" "k_maps b = k_maps s" "k_skbs b = k_skbs s"
    "k_held b = k_held s" "k_dma b = map (dma_grant env) [(k_calls s + 3, wrp_bytes), (k_calls s + 2, rdp_bytes)] @ k_dma s"
    "srng_config (hal b) = Some (Suc (k_calls s), hw_srng_config_template)" "st_dst b = srng_test_zero"
    "(rdp_vaddr (hal b), rdp_bytes, rdp_paddr (hal b)) = dma_grant env (k_calls s + 2, rdp_bytes)"
    "(wrp_vaddr (hal b), wrp_bytes, wrp_paddr (hal b)) = dma_grant env (k_calls s + 3, wrp_bytes)"
    "drvdata b" "k_iomapped b" "pci_regions b" "pci_enabled b" "tx_list b = None" "priv_ptr b = k_calls s"
    "band_5GHZ_channels b = None" "band_6GHZ_channels b = None" "vif b = replicate WIRELESS_MAX_NUM_VIF None" "num_pending_mgmt_tx b = 0"
    using probe_begin [OF assms(3,4)] by blast
  have held: "k_held b = []"
    using b(6) assms(1) by simp
  obtain s2 s3 where m: "wireless_simu_hal_srng_dst_test_init env b = Some (0, s2)" "wireless_simu_hal_srng_test env dev s2 = Some s3"
    "rx_sys s3" "rx_static s3" "rx_rest 0 s3 = mset (k_maps b)" "length (pipes (st_dst s3)) = 1" "k_held s3 = []"
    "wireless_simu.more s3 = wireless_simu.more b" "k_iomapped s3"
    "srng_config (hal s3) = srng_config (hal b)" "rdp_vaddr (hal s3) = rdp_vaddr (hal b)" "rdp_paddr (hal s3) = rdp_paddr (hal b)"
    "wrp_vaddr (hal s3) = wrp_vaddr (hal b)" "wrp_paddr (hal s3) = wrp_paddr (hal b)"
    "mset (k_dma s3) = mset (k_dma b) + mset (rx_regions s3)" "mset (k_heap s3) = mset (k_heap b) + mset (rx_objects s3)"
    using modules_up [OF assms(2,3,5-7) held assms(8) b(2,3,7-9,13,10)] by blast
  let ?w = "s3\<lparr>workqueue_aux := True\<rparr>"
  note mac = more_mac [OF m(8)]
  note pci = more_pci [OF mac(5)]
  note c = rx_sys_cong [OF m(3), of ?w "{#}"]
  have sys: "rx_sys ?w" "rx_rest 0 ?w = rx_rest 0 s3 + {#}"
    by (rule c; simp)+
  have own: "rx_static ?w" "rx_regions ?w = rx_regions s3" "rx_objects ?w = rx_objects s3"
    using rx_owned_cong [OF rx_sys_owned [OF m(3,4)], of ?w] by (simp_all add: rx_owned_def)
  have nz: "rdp_vaddr (hal b) \<noteq> 0" "wrp_vaddr (hal b) \<noteq> 0"
  proof -
    have "fst (dma_grant env (k_calls s + 2, rdp_bytes)) \<noteq> 0" "fst (dma_grant env (k_calls s + 3, wrp_bytes)) \<noteq> 0"
      using assms(3) by (simp_all add: probe_granted_def)
    then show "rdp_vaddr (hal b) \<noteq> 0" "wrp_vaddr (hal b) \<noteq> 0"
      unfolding b(10,11) [symmetric] by simp_all
  qed
  have "device_on (mset (k_dma s)) (mset (k_heap s)) (mset (k_maps s)) ?w"
    unfolding device_on_def own(2,3) rx_sys_maps [OF sys(1)]
    using own(1) sys m(5,7,9-16) pci b nz rx_sys_owned [OF sys(1) own(1)] by (simp add: ac_simps)
  from register_up [OF this sys(1), of me env lib] show ?thesis
    using assms(3,4) sys(2) m(1,2,5-7) mac(1,4) pci(8,9) b(1,4,18-21)
    by (auto simp: probe_accepted_def probe_granted_def)
qed

section \<open>Operation\<close>

lemma mac_bufs_live: "mac_inv lib s \<Longrightarrow> p \<in> mac_bufs s \<Longrightarrow> k_skbs s p \<noteq> None"
  by (fastforce simp: mac_inv_def mac_bufs_def list_all_iff queued_ok_def split: option.splits)

text \<open>A run of the driver keeps the device in operation, with two more mappings for every identifier.\<close>

lemma device_up_run:
  fixes s t :: "'a wireless_simu_pci_scheme"
  assumes "device_up D H M s" "rx_static s" "driver_inv lib M t" "driver_fixed t = driver_fixed s"
  shows "\<exists>T. device_up D H (M + T) t \<and> size T = 2 * length (txmgmt_idr t)"
proof -
  have inv: "rx_sys t" "mac_inv lib t" "paths_apart M t"
    using assms(3) by (simp_all add: driver_inv_def)
  obtain T where T: "rx_rest 0 t = M + T" "size T = 2 * length (txmgmt_idr t)"
    using inv(3) by (auto simp: paths_apart_def)
  have f: "k_dma t = k_dma s" "k_heap t = k_heap s" "k_iomapped t = k_iomapped s" "host_config (st_dst t) = host_config (st_dst s)"
    "pipes_count (st_dst t) = pipes_count (st_dst s)" "map pipe_fixed (pipes (st_dst t)) = map pipe_fixed (pipes (st_dst s))"
    "srng_config (hal t) = srng_config (hal s)" "rdp_vaddr (hal t) = rdp_vaddr (hal s)" "rdp_paddr (hal t) = rdp_paddr (hal s)"
    "wrp_vaddr (hal t) = wrp_vaddr (hal s)" "wrp_paddr (hal t) = wrp_paddr (hal s)" "wireless_simu_mac.more t = wireless_simu_mac.more s"
    using assms(4) by (simp_all only: driver_fixed_def prod.inject)
  note st = rx_static_part [OF f(1,2,4-6) assms(2)] and pci = more_pci [OF f(12)]
  have "device_up D H (M + T) t"
    unfolding device_up_def device_on_def rx_sys_maps [OF inv(1)] st(2,3) T(1)
    using assms(1) rx_sys_owned [OF inv(1) st(1)] inv(2) pci f by (simp add: device_up_def device_on_def mac_inv_def)
  then show ?thesis
    using T(2) by blast
qed

text \<open>The removal after any run, from a state in which both paths are sound.\<close>

lemma removal_after_run:
  fixes s t :: "'a wireless_simu_pci_scheme"
  assumes "env_empty_skbs env" "env_room env" "idr_ok lib" "driver_inv lib M s" "rx_static s" "device_up D H M s"
    "(driver_step lib n env)\<^sup>*\<^sup>* s t"
  shows "mgmt_tx_queue t = [] \<Longrightarrow> \<not> sched 0 \<Longrightarrow> \<exists>u T. wireless_simu_pci_remove lib n env sched t = Some u \<and> mset (k_dma u) = D \<and> mset (k_heap u) = H \<and>
    mset (k_maps u) = M + T \<and> size T = 2 * length (txmgmt_idr t) \<and>
    (\<forall>p\<in>mac_bufs t. k_skbs u p = k_skbs t p \<and> k_skbs u p \<noteq> None) \<and>
    \<not> pci_enabled u \<and> \<not> pci_regions u \<and> \<not> k_iomapped u \<and> \<not> irq_vectors u \<and> \<not> irq_handler u \<and> k_held u = [] \<and>
    (\<exists>h. hw u = Some h \<and> \<not> hw_registered h)"
    and "mgmt_tx_queue t = [] \<Longrightarrow> sched 0 \<Longrightarrow> wireless_simu_pci_remove lib n env sched t = None"
    and "mgmt_tx_queue t \<noteq> [] \<Longrightarrow> env_grants env \<Longrightarrow> idr_serves lib \<Longrightarrow> length (txmgmt_idr t) < 512 \<Longrightarrow>
      wireless_simu_pci_remove lib n env sched t = None"
proof -
  note run = driver_runs [OF assms(1-4,7)]
  obtain T where T: "device_up D H (M + T) t" "size T = 2 * length (txmgmt_idr t)"
    using device_up_run [OF assms(6,5) run] by blast
  have inv: "rx_sys t" "mac_inv lib t" "paths_apart M t"
    using run(1) by (simp_all add: driver_inv_def)
  have bufs: "p \<notin> set (rx_skbs t)" "k_skbs t p \<noteq> None" if "p \<in> mac_bufs t" for p
    using mac_bufs_live [OF inv(2) that] mset_eq_setD [OF rx_sys_bufs [OF inv(1)]] rx_slots_bufs [of t] inv(1,3) that
    by (auto simp: paths_apart_def rx_sys_def)
  have "k_held t = []"
    using inv(2) by (simp add: mac_inv_def)
  then show "\<exists>u T. wireless_simu_pci_remove lib n env sched t = Some u \<and> mset (k_dma u) = D \<and> mset (k_heap u) = H \<and>
    mset (k_maps u) = M + T \<and> size T = 2 * length (txmgmt_idr t) \<and>
    (\<forall>p\<in>mac_bufs t. k_skbs u p = k_skbs t p \<and> k_skbs u p \<noteq> None) \<and>
    \<not> pci_enabled u \<and> \<not> pci_regions u \<and> \<not> k_iomapped u \<and> \<not> irq_vectors u \<and> \<not> irq_handler u \<and> k_held u = [] \<and>
    (\<exists>h. hw u = Some h \<and> \<not> hw_registered h)" if "mgmt_tx_queue t = []" "\<not> sched 0"
    using pci_remove_exec [where sched = sched, OF T(1) that, of lib n env] T(2) bufs by fastforce
  have "0 < pipes_count (st_dst t)"
    using inv(1) by (simp add: rx_sys_def)
  then show "mgmt_tx_queue t = [] \<Longrightarrow> sched 0 \<Longrightarrow> wireless_simu_pci_remove lib n env sched t = None"
    and "mgmt_tx_queue t \<noteq> [] \<Longrightarrow> env_grants env \<Longrightarrow> idr_serves lib \<Longrightarrow> length (txmgmt_idr t) < 512 \<Longrightarrow>
      wireless_simu_pci_remove lib n env sched t = None"
    using pci_remove_fails [OF T(1) inv(2)] by blast+
qed

section \<open>Property\<close>

text \<open>
  C5: The life of the device. With an allocator that does not hand out memory in use, a device that
  keeps its tail within the ring and moves no other ring's pointer while the self test runs, and when
  everything the probe asks for is granted, the probe returns 0, its self test included, with no
  management frame queued or with the firmware. Then let bottom
  halves, retry timers, the device, callbacks of mac80211 and iterations of the worker run in any order.
  When then no frame is queued and no bottom half is scheduled, the removal returns without fault. After
  it DMA memory is that of before the probe, interrupts, regions and the register mapping are given back,
  the device is disabled and unregistered, and no lock is held. Of the heap one object is left, the copy
  of the channel table. Of the mappings those of before are left and two for every management frame
  handed to the firmware, and these frames stay allocated: nothing takes them back. When a bottom half
  is still scheduled the removal never returns. When a frame is still queued, and identifier, buffers and
  mappings are granted, the removal faults: it destroys the work queue, which runs the worker on that
  frame, after the device and the interfaces have been freed.
\<close>

theorem device_lifecycle:
  fixes s :: "'a wireless_simu_pci_scheme"
  assumes "k_held s = []" "dma_fair env s" "probe_granted env s" "probe_accepted pe me" "env_empty_skbs env" "env_roomy_skbs env"
    "tx_tame (fst (dma_grant env (k_calls s + 2, rdp_bytes)) + 500) dev" "ends_still (fst (dma_grant env (k_calls s + 2, rdp_bytes))) dev"
    "idr_ok lib"
  shows "\<exists>s1 k c. wireless_simu_pci_probe pe me env dev s = Some (0, s1) \<and> sb_channels (band_2GHZ s1) = Some (k, c) \<and>
    mgmt_tx_queue s1 = [] \<and> txmgmt_idr s1 = [] \<and>
    (\<forall>s2 sched. (driver_step lib n env)\<^sup>*\<^sup>* s1 s2 \<longrightarrow>
      (mgmt_tx_queue s2 = [] \<and> \<not> sched 0 \<longrightarrow>
       (\<exists>s3 T. wireless_simu_pci_remove lib n env sched s2 = Some s3 \<and> mset (k_dma s3) = mset (k_dma s) \<and>
        mset (k_heap s3) = add_mset k (mset (k_heap s)) \<and>
        mset (k_maps s3) = mset (k_maps s) + T \<and> size T = 2 * length (txmgmt_idr s2) \<and>
        (\<forall>p\<in>mac_bufs s2. k_skbs s3 p = k_skbs s2 p \<and> k_skbs s3 p \<noteq> None) \<and>
        \<not> pci_enabled s3 \<and> \<not> pci_regions s3 \<and> \<not> k_iomapped s3 \<and> \<not> irq_vectors s3 \<and> \<not> irq_handler s3 \<and> k_held s3 = [] \<and>
        (\<exists>h. hw s3 = Some h \<and> \<not> hw_registered h))) \<and>
      (mgmt_tx_queue s2 = [] \<and> sched 0 \<longrightarrow> wireless_simu_pci_remove lib n env sched s2 = None) \<and>
      (mgmt_tx_queue s2 \<noteq> [] \<and> env_grants env \<and> idr_serves lib \<and> length (txmgmt_idr s2) < 512 \<longrightarrow>
       wireless_simu_pci_remove lib n env sched s2 = None))"
proof -
  obtain s1 k c where s1: "wireless_simu_pci_probe pe me env dev s = Some (0, s1)" "sb_channels (band_2GHZ s1) = Some (k, c)"
    "driver_inv lib (mset (k_maps s)) s1" "rx_static s1"
    "device_up (mset (k_dma s)) (add_mset k (mset (k_heap s))) (mset (k_maps s)) s1" "mgmt_tx_queue s1 = []" "txmgmt_idr s1 = []"
    using probe_up [OF assms(1-8)] by blast
  have room: "env_room env"
    using assms(6) by (auto simp: env_room_def env_roomy_skbs_def)
  note after = removal_after_run [OF assms(5) room assms(9) s1(3-5), where n = n]
  show ?thesis
    by (rule exI [of _ s1], rule exI [of _ k], rule exI [of _ c], intro conjI allI impI, rule s1(1), rule s1(2), rule s1(6), rule s1(7), rule after(1))
      (simp_all add: after(2,3))
qed

lemma fair_grant:
  "dma_grant fair_env (c, sz) = (if c < 100 then (of_nat (0x100000 * Suc c), sz, of_nat (0x900000 * Suc c)) else (0, sz, 0))"
  by (simp add: dma_grant_def fair_env_def)

lemma fair_addr: "c < 100 \<Longrightarrow> unat (of_nat (0x100000 * Suc c) :: u64) = 0x100000 * Suc c"
  by (rule unat_of_nat_64) simp

lemma fair_env_fair: "dma_fair fair_env sample_pci"
proof -
  have dma: "k_dma sample_pci = [(0x1000, 0x4000, 0x91000)]"
    by (simp add: sample_pci_def wireless_simu_reg.defs wireless_simu_pci.defs sample_reg_def wireless_simu_mac.defs sample_mac_def
        sample_def wireless_simu.defs)
  have "region_flat (dma_grant fair_env (c, sz)) \<and> list_all (regions_apart (dma_grant fair_env (c, sz))) (k_dma sample_pci) \<and>
      (c' \<noteq> c \<longrightarrow> unat sz' \<le> 4096 \<longrightarrow> c' < 100 \<longrightarrow> regions_apart (dma_grant fair_env (c, sz)) (dma_grant fair_env (c', sz')))"
    if "c < 100" "unat sz \<le> 4096" for c sz c' sz'
    using that fair_addr [of c] fair_addr [of c']
    by (auto simp: fair_grant region_flat_def regions_apart_def dma simp del: of_nat_mult of_nat_Suc)
  then show ?thesis
    by (auto simp: dma_fair_def fair_grant dma regions_ok_def region_flat_def split: if_splits)
qed


lemma sample_life_pre:
  "k_held sample_pci = []" "probe_granted fair_env sample_pci" "probe_accepted fine_pci_env (sample_mac_env True 0)"
  "env_empty_skbs fair_env" "env_roomy_skbs fair_env" "k_calls sample_pci = 10" "k_dma sample_pci = [(0x1000, 0x4000, 0x91000)]"
proof -
  note defs = sample_pci_def wireless_simu_reg.defs wireless_simu_pci.defs sample_reg_def wireless_simu_mac.defs sample_mac_def
    sample_def wireless_simu.defs
  show calls: "k_calls sample_pci = 10" "k_held sample_pci = []" "k_dma sample_pci = [(0x1000, 0x4000, 0x91000)]"
    by (simp_all add: defs)
  show "probe_granted fair_env sample_pci"
    by (simp add: probe_granted_def calls fair_grant) (simp add: fair_env_def sample_env_def)
  show "probe_accepted fine_pci_env (sample_mac_env True 0)"
    by (simp add: probe_accepted_def fine_pci_env_def sample_pci_env_def claim_result_def irq_result_def sample_mac_env_def)
  show "env_empty_skbs fair_env"
    using sample_env_empty by (simp add: env_empty_skbs_def fair_env_def)
  show "env_roomy_skbs fair_env"
    by (simp add: env_roomy_skbs_def fair_env_def sample_env_def)
qed

lemma sample_frame_queued:
  assumes "mgmt_tx_queue s = []" "txmgmt_idr s = []"
  obtains s' where "(driver_step sample_lib 0 env)\<^sup>*\<^sup>* s s'" "mgmt_tx_queue s' = [k_calls s]" "txmgmt_idr s' = []"
proof -
  let ?u = "s\<lparr>vif_live := (vif_live s)(0 := True)\<rparr>"
  let ?t = "tick (skb_set (k_calls s) sample_frame ?u)"
  let ?s' = "emit EvQueueWork ((skb_set (k_calls s) (sample_frame\<lparr>skb_cb := tx_cb None (Some 0)\<rparr>) ?t)
       \<lparr>mgmt_tx_queue := mgmt_tx_queue ?t @ [k_calls s], num_pending_mgmt_tx := num_pending_mgmt_tx ?t + 1\<rparr>)"
  have skb: "k_skbs ?t (k_calls s) = Some sample_frame"
    by simp
  have "lib_is_mgmt sample_lib 0x40d0" "\<not> lib_is_probe_resp sample_lib 0x40d0"
    "skb_tx_flags sample_frame AND lib_HW_80211_ENCAP sample_lib = 0" "mgmt_tx_queue ?t = []"
    using assms(1) by (simp_all add: sample_lib_def sample_frame_def tick_def skb_set_def)
  then have "wireless_mac80211_tx sample_lib None (Some 0) (k_calls ?u) (tick (skb_set (k_calls ?u) sample_frame ?u)) = Some ?s'"
    using tx_exec [OF skb sample_frame_frame(2), of sample_lib None "Some 0"] by (simp add: tx_refused_def)
  then have "mac_step sample_lib 0 env ?u ?s'"
    by (intro mac_step.transmit [OF sample_frame_frame(1), of "Some 0"]) simp_all
  moreover have "mac_step sample_lib 0 env s ?u"
    by (rule mac_step.vif_alloc)
  ultimately have "(driver_step sample_lib 0 env)\<^sup>*\<^sup>* s ?s'"
    by (meson driver_step_def rtranclp.rtrancl_refl rtranclp.rtrancl_into_rtrancl)
  then show ?thesis
    using that [of ?s'] assms by (simp add: emit_def tick_def skb_set_def)
qed

theorem device_lifecycle_witness:
  "\<exists>s1 s2 s2'. wireless_simu_pci_probe fine_pci_env (sample_mac_env True 0) fair_env (\<lambda>_ m. m(0xd001f4 := 0)) sample_pci = Some (0, s1) \<and>
     wireless_simu_pci_remove sample_lib 0 fair_env (\<lambda>_. False) (wireless_mac80211_stop s1) = Some s2 \<and>
     mset (k_dma s2) = {#(0x1000, 0x4000, 0x91000)#} \<and> \<not> pci_enabled s2 \<and>
     (driver_step sample_lib 0 fair_env)\<^sup>*\<^sup>* s1 s2' \<and> mgmt_tx_queue s2' = [k_calls s1] \<and>
     wireless_simu_pci_remove sample_lib 0 fair_env (\<lambda>_. False) s2' = None"
proof -
  let ?dev = "\<lambda>_ m. m(0xd001f4 := 0)" and ?a = "fst (dma_grant fair_env (k_calls sample_pci + 2, rdp_bytes))"
  have a: "?a = 0xd00000"
    by (simp add: sample_life_pre fair_grant)
  have tame: "tx_tame (?a + 500) ?dev"
    unfolding a by (simp add: tx_tame_def)
  have "0xd00000 + of_nat (4 * k) \<noteq> (0xd001f4 :: u64)" if "k < 172" "k \<noteq> 125" for k
  proof
    assume "0xd00000 + of_nat (4 * k) = (0xd001f4 :: u64)"
    then have "of_nat (4 * k) = (of_nat 500 :: u64)"
      by (simp add: eq_diff_eq [symmetric] add.commute [of "0xd00000"])
    then have "unat (of_nat (4 * k) :: u64) = unat (of_nat 500 :: u64)"
      by (rule arg_cong)
    then show False
      using that by (subst (asm) (1 2) unat_of_nat_64) simp_all
  qed
  then have still: "ends_still ?a ?dev"
    unfolding a by (simp add: ends_still_def)
  obtain s1 k c where s1: "wireless_simu_pci_probe fine_pci_env (sample_mac_env True 0) fair_env ?dev sample_pci = Some (0, s1)"
    "mgmt_tx_queue s1 = []" "txmgmt_idr s1 = []"
    and all: "\<forall>s2 sched. (driver_step sample_lib 0 fair_env)\<^sup>*\<^sup>* s1 s2 \<longrightarrow>
      (mgmt_tx_queue s2 = [] \<and> \<not> sched 0 \<longrightarrow>
       (\<exists>s3 T. wireless_simu_pci_remove sample_lib 0 fair_env sched s2 = Some s3 \<and> mset (k_dma s3) = mset (k_dma sample_pci) \<and>
        mset (k_heap s3) = add_mset k (mset (k_heap sample_pci)) \<and>
        mset (k_maps s3) = mset (k_maps sample_pci) + T \<and> size T = 2 * length (txmgmt_idr s2) \<and>
        (\<forall>p\<in>mac_bufs s2. k_skbs s3 p = k_skbs s2 p \<and> k_skbs s3 p \<noteq> None) \<and>
        \<not> pci_enabled s3 \<and> \<not> pci_regions s3 \<and> \<not> k_iomapped s3 \<and> \<not> irq_vectors s3 \<and> \<not> irq_handler s3 \<and> k_held s3 = [] \<and>
        (\<exists>h. hw s3 = Some h \<and> \<not> hw_registered h))) \<and>
      (mgmt_tx_queue s2 = [] \<and> sched 0 \<longrightarrow> wireless_simu_pci_remove sample_lib 0 fair_env sched s2 = None) \<and>
      (mgmt_tx_queue s2 \<noteq> [] \<and> env_grants fair_env \<and> idr_serves sample_lib \<and> length (txmgmt_idr s2) < 512 \<longrightarrow>
       wireless_simu_pci_remove sample_lib 0 fair_env sched s2 = None)"
    using device_lifecycle [OF sample_life_pre(1) fair_env_fair sample_life_pre(2-5) tame still sample_idr_ok(1), of 0] by (elim exE conjE)
  have stop: "(driver_step sample_lib 0 fair_env)\<^sup>*\<^sup>* s1 (wireless_mac80211_stop s1)" "mgmt_tx_queue (wireless_mac80211_stop s1) = []"
    using s1(2) mac_step.stop [of sample_lib 0 fair_env s1]
    by (auto simp: driver_step_def intro: r_into_rtranclp) (simp add: wireless_mac80211_stop_def)
  obtain q where q: "(driver_step sample_lib 0 fair_env)\<^sup>*\<^sup>* s1 q" "mgmt_tx_queue q = [k_calls s1]" "txmgmt_idr q = []"
    using sample_frame_queued [OF s1(2,3)] by blast
  have "env_grants fair_env"
    using sample_env_grants by (simp add: env_grants_def fair_env_def)
  then have gone: "wireless_simu_pci_remove sample_lib 0 fair_env (\<lambda>_. False) q = None"
    using all [rule_format, OF q(1), of "\<lambda>_. False"] q(2,3) sample_idr_ok(2) by simp
  obtain s2 where "wireless_simu_pci_remove sample_lib 0 fair_env (\<lambda>_. False) (wireless_mac80211_stop s1) = Some s2"
    "mset (k_dma s2) = mset (k_dma sample_pci)" "\<not> pci_enabled s2"
    using all [rule_format, OF stop(1), of "\<lambda>_. False"] stop(2) by (elim conjE) (erule impE, simp, elim exE conjE, rule that)
  then show ?thesis
    using s1(1) gone q by (intro exI [of _ s1] exI [of _ s2] exI [of _ q]) (simp add: sample_life_pre(7))
qed

end
