(* ===== verification/Pci_Test.thy ===== *)
theory Pci_Test
  imports Pci
begin

text \<open>
  The stand-alone PCI test driver, \<^verbatim>\<open>driver/pci_driver_test.c\<close>: probe, interrupt handler and removal.
  What the PCI core answers is again the record \<^verbatim>\<open>pci_env\<close>. From \<^verbatim>\<open>request_irq\<close> on an interrupt may
  arrive after every statement that touches the device; whether it does is an argument of the probe.
\<close>

section \<open>State\<close>

record test_pci =
  tp_mmio_addr :: u64
  tp_msi_desc :: bool
  tp_irq_vectors_num :: int

text \<open>The device, the heap object behind \<^verbatim>\<open>pci_set_drvdata\<close>, and the static variables of the module.\<close>

record test_pci_dev = kernel +
  tpd_enabled :: bool
  tpd_regions :: bool
  tpd_master :: bool
  tpd_vectors :: bool
  tpd_handler :: bool
  tpd_drvdata :: "kptr option"
  tpd_objs :: "kptr \<Rightarrow> test_pci"
  tpd_mmio_addr :: u64
  test_pci_priv :: "kptr option"

section \<open>Operations\<close>

definition tpd_release_regions :: "'a test_pci_dev_scheme \<Rightarrow> 'a test_pci_dev_scheme option" where
  "tpd_release_regions s = (if tpd_regions s then Some (s\<lparr>tpd_regions := False\<rparr>) else None)"

definition tpd_disable_device :: "'a test_pci_dev_scheme \<Rightarrow> 'a test_pci_dev_scheme option" where
  "tpd_disable_device s = (if tpd_enabled s then Some (s\<lparr>tpd_enabled := False\<rparr>) else None)"

definition tpd_give_back :: "'a test_pci_dev_scheme \<Rightarrow> 'a test_pci_dev_scheme option" where
  "tpd_give_back s = do {
     s \<leftarrow> tpd_release_regions s;
     tpd_disable_device s
   }"

text \<open>The driver data is dereferenced whatever it is; an object that is not live is a fault.\<close>

definition tpd_deref :: "kptr option \<Rightarrow> 'a test_pci_dev_scheme \<Rightarrow> test_pci option" where
  "tpd_deref p s = (case p of None \<Rightarrow> None | Some k \<Rightarrow> if k \<in> set (k_heap s) then Some (tpd_objs s k) else None)"

definition test_pci_irq_handler :: "kenv \<Rightarrow> 'a test_pci_dev_scheme \<Rightarrow> 'a test_pci_dev_scheme option" where
  "test_pci_irq_handler env s = do {
     priv \<leftarrow> tpd_deref (tpd_drvdata s) s;
     _ \<leftarrow> ioread32 env (tp_mmio_addr priv + 0x30) s;
     iowrite32 0 (tp_mmio_addr priv + 0x30) s
   }"

definition irq_window :: "kenv \<Rightarrow> bool \<Rightarrow> 'a test_pci_dev_scheme \<Rightarrow> 'a test_pci_dev_scheme option" where
  "irq_window env b s = (if b \<and> tpd_handler s then test_pci_irq_handler env s else Some s)"

definition test_pci_claim :: "pci_env \<Rightarrow> 'a test_pci_dev_scheme \<Rightarrow> (int \<times> 'a test_pci_dev_scheme) option" where
  "test_pci_claim pe s =
     (if pe_assign_resource pe \<noteq> 0 then Some (pe_assign_resource pe, s)
      else if pe_enable_device pe \<noteq> 0 then Some (pe_enable_device pe, s)
      else
        let s = s\<lparr>tpd_enabled := True\<rparr> in
        if pe_request_regions pe \<noteq> 0 then do {
          s \<leftarrow> tpd_disable_device s;
          Some (pe_request_regions pe, s)
        } else
          let s = s\<lparr>tpd_regions := True\<rparr> in
          if pe_set_dma_mask pe \<noteq> 0 then do {
            s \<leftarrow> tpd_give_back s;
            Some (pe_set_dma_mask pe, s)
          } else
            let s = s\<lparr>tpd_master := True, tpd_mmio_addr := pe_iomap pe\<rparr> in
            if pe_iomap pe = 0 then do {
              s \<leftarrow> tpd_give_back s;
              Some (neg_errno EIO, s)
            } else Some (0, s\<lparr>k_iomapped := True\<rparr>))"

text \<open>Vectors, first as MSI and then of any kind; the result is the status with the number of vectors.\<close>

definition test_pci_vectors :: "pci_env \<Rightarrow> 'a test_pci_dev_scheme \<Rightarrow> (int \<times> int \<times> 'a test_pci_dev_scheme) option" where
  "test_pci_vectors pe s =
     (let test_msi_isenable = (\<not> pe_vectors_msi pe < 0);
          num_vectors = (if pe_vectors_msi pe < 0 then pe_vectors_all pe else pe_vectors_msi pe)
      in if num_vectors < 0 then do {
           s \<leftarrow> tpd_give_back s;
           Some (num_vectors, num_vectors, s)
         } else
           let s = s\<lparr>tpd_vectors := True\<rparr> in
           if test_msi_isenable \<and> \<not> pe_msi_desc pe then do {
             s \<leftarrow> tpd_give_back (s\<lparr>tpd_vectors := False\<rparr>);
             Some (- 1, num_vectors, s)
           } else Some (0, num_vectors, s))"

text \<open>The test of the registers; the data register gets the letters \<^verbatim>\<open>abcd\<close>, and 3 asks for an interrupt.\<close>

definition test_pci_io :: "kenv \<Rightarrow> (nat \<Rightarrow> bool) \<Rightarrow> 'a test_pci_dev_scheme \<Rightarrow> 'a test_pci_dev_scheme option" where
  "test_pci_io env irqs s = do {
     let a = tpd_mmio_addr s;
     s \<leftarrow> iowrite32 0 (a + 0x20) s;
     s \<leftarrow> irq_window env (irqs 1) s;
     s \<leftarrow> iowrite32 0x61626364 (a + 0x10) s;
     s \<leftarrow> irq_window env (irqs 2) s;
     _ \<leftarrow> ioread32 env (a + 0x20) s;
     s \<leftarrow> irq_window env (irqs 3) s;
     _ \<leftarrow> ioread32 env (a + 0x10) s;
     s \<leftarrow> irq_window env (irqs 4) s;
     s \<leftarrow> iowrite32 3 (a + 0x30) s;
     s \<leftarrow> irq_window env (irqs 5) s;
     _ \<leftarrow> ioread32 env (a + 0x30) s;
     irq_window env (irqs 6) s
   }"

text \<open>The handler's registration is not checked, and neither is the allocation of the driver's structure.\<close>

definition test_pci_probe ::
  "pci_env \<Rightarrow> kenv \<Rightarrow> (nat \<Rightarrow> bool) \<Rightarrow> 'a test_pci_dev_scheme \<Rightarrow> (int \<times> 'a test_pci_dev_scheme) option" where
  "test_pci_probe pe env irqs s = do {
     (ret, s) \<leftarrow> test_pci_claim pe s;
     if ret \<noteq> 0 then Some (ret, s)
     else do {
       (ret, num_vectors, s) \<leftarrow> test_pci_vectors pe s;
       if ret \<noteq> 0 then Some (ret, s)
       else do {
         s \<leftarrow> irq_window env (irqs 0) (s\<lparr>tpd_handler := (pe_request_irq pe = 0)\<rparr>);
         s \<leftarrow> test_pci_io env irqs s;
         case kmalloc env s of
           (None, s) \<Rightarrow> None
         | (Some k, s) \<Rightarrow>
             Some (0, s\<lparr>tpd_objs := (tpd_objs s)(k := \<lparr>tp_mmio_addr = tpd_mmio_addr s,
                 tp_msi_desc = (\<not> pe_vectors_msi pe < 0), tp_irq_vectors_num = num_vectors\<rparr>),
               test_pci_priv := Some k, tpd_drvdata := Some k\<rparr>)
       }
     }
   }"

definition test_pci_remove :: "'a test_pci_dev_scheme \<Rightarrow> 'a test_pci_dev_scheme option" where
  "test_pci_remove s =
     (case tpd_drvdata s of
        None \<Rightarrow> Some s
      | Some k \<Rightarrow> do {
          priv \<leftarrow> tpd_deref (Some k) s;
          s \<leftarrow> iowrite32 0 (tp_mmio_addr priv + 0x20) s;
          s \<leftarrow> tpd_give_back (s\<lparr>k_iomapped := False, tpd_vectors := False\<rparr>);
          kfree (Some k) s
        })"

definition test_pci_shutdown :: "'a test_pci_dev_scheme \<Rightarrow> 'a test_pci_dev_scheme option" where
  "test_pci_shutdown s = test_pci_remove s"

section \<open>Specification\<close>

definition tpd_idle :: "'a test_pci_dev_scheme \<Rightarrow> bool" where
  "tpd_idle s = (\<not> tpd_enabled s \<and> \<not> tpd_regions s \<and> \<not> k_iomapped s \<and> \<not> tpd_vectors s)"

definition tpd_ready :: "'a test_pci_dev_scheme \<Rightarrow> bool" where
  "tpd_ready s = (tpd_enabled s \<and> tpd_regions s \<and> k_iomapped s)"

definition sample_tpd :: test_pci_dev where
  "sample_tpd = \<lparr>k_mem = (\<lambda>_. 0), k_dma = [], k_maps = [], k_heap = [], k_skbs = (\<lambda>_. None), k_held = [],
     k_iomapped = False, k_calls = 0, k_jiffies = 0, k_trace = [], tpd_enabled = False, tpd_regions = False,
     tpd_master = False, tpd_vectors = False, tpd_handler = False, tpd_drvdata = None,
     tpd_objs = (\<lambda>_. \<lparr>tp_mmio_addr = 0, tp_msi_desc = False, tp_irq_vectors_num = 0\<rparr>), tpd_mmio_addr = 0,
     test_pci_priv = None\<rparr>"

section \<open>Lemmas\<close>

lemma tpd_emit [simp]:
  "tpd_enabled (emit e s) = tpd_enabled s" "tpd_regions (emit e s) = tpd_regions s" "tpd_vectors (emit e s) = tpd_vectors s"
  "tpd_handler (emit e s) = tpd_handler s" "tpd_drvdata (emit e s) = tpd_drvdata s" "tpd_mmio_addr (emit e s) = tpd_mmio_addr s"
  "tpd_objs (emit e s) = tpd_objs s" "tpd_idle (emit e s) = tpd_idle s" "tpd_ready (emit e s) = tpd_ready s"
  by (simp_all add: emit_def tpd_idle_def tpd_ready_def)

lemma tpd_give_back_exec:
  "tpd_enabled s \<Longrightarrow> tpd_regions s \<Longrightarrow> tpd_give_back s = Some (s\<lparr>tpd_regions := False, tpd_enabled := False\<rparr>)"
  by (simp add: tpd_give_back_def tpd_release_regions_def tpd_disable_device_def)

lemma test_claim_exec:
  assumes "tpd_idle s"
  shows "\<exists>s'. test_pci_claim pe s = Some (claim_result pe, s') \<and> k_heap s' = k_heap s \<and> k_calls s' = k_calls s \<and>
    tpd_drvdata s' = tpd_drvdata s \<and> \<not> tpd_vectors s' \<and> tpd_handler s' = tpd_handler s \<and>
    (if claim_result pe = 0 then tpd_ready s' else tpd_idle s')"
  using assms
  by (simp add: test_pci_claim_def claim_result_def tpd_idle_def tpd_ready_def tpd_disable_device_def tpd_give_back_exec Let_def)

lemma test_vectors_exec:
  assumes "tpd_ready s" "\<not> tpd_vectors s"
  shows "\<exists>n s'. test_pci_vectors pe s = Some (irq_result pe, n, s') \<and> k_heap s' = k_heap s \<and> k_calls s' = k_calls s \<and>
    tpd_drvdata s' = tpd_drvdata s \<and> k_iomapped s' \<and>
    (if irq_result pe = 0 then tpd_ready s' \<and> tpd_vectors s' else \<not> tpd_enabled s' \<and> \<not> tpd_regions s' \<and> \<not> tpd_vectors s')"
  using assms
  by (simp add: test_pci_vectors_def irq_result_def tpd_ready_def tpd_give_back_exec Let_def)

text \<open>Before the driver data is set an interrupt is a fault; the windows pass exactly without one.\<close>

lemma irq_window_exec:
  "tpd_drvdata s = None \<Longrightarrow> irq_window env b s = (if b \<and> tpd_handler s then None else Some s)"
  by (simp add: irq_window_def test_pci_irq_handler_def tpd_deref_def)

lemma le_6_cases: "(\<exists>n\<le>6. P n) = (P 0 \<or> P 1 \<or> P 2 \<or> P 3 \<or> P 4 \<or> P 5 \<or> P (6 :: nat))"
  by (auto simp: le_Suc_eq eval_nat_numeral)

lemma test_io_exec:
  assumes "k_iomapped s" "tpd_drvdata s = None"
  shows "irq_window env (irqs 0) s \<bind> test_pci_io env irqs =
    (if tpd_handler s \<and> (\<exists>n\<le>6. irqs n) then None
     else Some (emit (EvIoWrite (tpd_mmio_addr s + 0x30) 3) (emit (EvIoWrite (tpd_mmio_addr s + 0x10) 0x61626364)
       (emit (EvIoWrite (tpd_mmio_addr s + 0x20) 0) s))))"
  using assms
  by (cases "tpd_handler s") (auto simp: test_pci_io_def irq_window_exec iowrite32_def ioread32_def Let_def le_6_cases)

lemma test_remove_exec:
  assumes "tpd_ready s" "tpd_drvdata s = Some k" "k \<in> set (k_heap s)"
  shows "\<exists>s'. test_pci_remove s = Some s' \<and> tpd_idle s' \<and> k_heap s' = remove1 k (k_heap s) \<and>
    tpd_handler s' = tpd_handler s \<and> tpd_drvdata s' = Some k"
  using assms
  by (simp add: test_pci_remove_def tpd_deref_def iowrite32_def tpd_ready_def tpd_idle_def tpd_give_back_exec kfree_def)

section \<open>Property\<close>

text \<open>
  C40: Probe and removal of the PCI test driver. A refusal is returned with everything given back,
  except that refused interrupt vectors leave the registers mapped. Once the handler is registered,
  an interrupt that arrives before the end of the probe faults, because the driver data is stored
  last; so does a refused allocation. Otherwise the probe returns 0 and the removal gives back
  device, regions, vectors, mapping and structure, but leaves the handler registered: the next
  interrupt faults, whether or not the driver core has cleared the driver data.
\<close>

theorem test_pci_life:
  fixes s :: "'a test_pci_dev_scheme"
  assumes "tpd_idle s" "tpd_drvdata s = None" "k_calls s \<notin> set (k_heap s)"
  shows "if claim_result pe \<noteq> 0
    then \<exists>s'. test_pci_probe pe env irqs s = Some (claim_result pe, s') \<and> tpd_idle s' \<and> k_heap s' = k_heap s
    else if irq_result pe \<noteq> 0
    then \<exists>s'. test_pci_probe pe env irqs s = Some (irq_result pe, s') \<and> \<not> tpd_enabled s' \<and> \<not> tpd_regions s' \<and>
      \<not> tpd_vectors s' \<and> k_iomapped s' \<and> k_heap s' = k_heap s
    else if pe_request_irq pe = 0 \<and> (\<exists>n\<le>6. irqs n) \<or> \<not> env_kmalloc env (k_calls s)
    then test_pci_probe pe env irqs s = None
    else \<exists>s1 s2. test_pci_probe pe env irqs s = Some (0, s1) \<and> tpd_ready s1 \<and> test_pci_remove s1 = Some s2 \<and> tpd_idle s2 \<and>
      k_heap s2 = k_heap s \<and> tpd_handler s2 = (pe_request_irq pe = 0) \<and>
      test_pci_irq_handler env s2 = None \<and> test_pci_irq_handler env (s2\<lparr>tpd_drvdata := None\<rparr>) = None"
proof -
  obtain t where t: "test_pci_claim pe s = Some (claim_result pe, t)" "k_heap t = k_heap s" "k_calls t = k_calls s"
    "tpd_drvdata t = None" "\<not> tpd_vectors t" "if claim_result pe = 0 then tpd_ready t else tpd_idle t"
    using test_claim_exec [OF assms(1), of pe] assms(2) by auto
  show ?thesis
  proof (cases "claim_result pe = 0")
    case False
    then show ?thesis using t by (auto simp: test_pci_probe_def)
  next
    case claimed: True
    then have "tpd_ready t" using t(6) by simp
    then obtain n u where u: "test_pci_vectors pe t = Some (irq_result pe, n, u)" "k_heap u = k_heap s" "k_calls u = k_calls s"
      "tpd_drvdata u = None" "k_iomapped u"
      "if irq_result pe = 0 then tpd_ready u \<and> tpd_vectors u else \<not> tpd_enabled u \<and> \<not> tpd_regions u \<and> \<not> tpd_vectors u"
      using test_vectors_exec [of t pe] t by auto
    show ?thesis
    proof (cases "irq_result pe = 0")
      case False
      then show ?thesis using t u claimed by (auto simp: test_pci_probe_def)
    next
      case vectors: True
      let ?u = "u\<lparr>tpd_handler := (pe_request_irq pe = 0)\<rparr>"
      have io: "k_iomapped ?u" "tpd_drvdata ?u = None" "k_heap ?u = k_heap s" "k_calls ?u = k_calls s" "tpd_ready ?u"
        using u vectors by (simp_all add: tpd_ready_def)
      have probe: "test_pci_probe pe env irqs s = (irq_window env (irqs 0) ?u \<bind> test_pci_io env irqs) \<bind> (\<lambda>s. case kmalloc env s of
          (None, s) \<Rightarrow> None
        | (Some k, s) \<Rightarrow>
            Some (0, s\<lparr>tpd_objs := (tpd_objs s)(k := \<lparr>tp_mmio_addr = tpd_mmio_addr s,
                tp_msi_desc = (\<not> pe_vectors_msi pe < 0), tp_irq_vectors_num = n\<rparr>),
              test_pci_priv := Some k, tpd_drvdata := Some k\<rparr>))"
        using t(1) u(1) claimed vectors by (simp add: test_pci_probe_def)
      show ?thesis
      proof (cases "pe_request_irq pe = 0 \<and> (\<exists>n\<le>6. irqs n) \<or> \<not> env_kmalloc env (k_calls s)")
        case True
        then show ?thesis
          using claimed vectors probe io by (auto simp: test_io_exec kmalloc_def)
      next
        case False
        obtain s1 where s1: "test_pci_probe pe env irqs s = Some (0, s1)" "tpd_ready s1" "tpd_drvdata s1 = Some (k_calls s)"
          "k_heap s1 = k_calls s # k_heap s" "tpd_handler s1 = (pe_request_irq pe = 0)"
          using False probe io by (simp add: test_io_exec kmalloc_def, simp add: tick_def tpd_ready_def)
        then show ?thesis
          using test_remove_exec [OF s1(2,3)] False claimed vectors assms(3)
          by (auto simp: test_pci_irq_handler_def tpd_deref_def)
      qed
    qed
  qed
qed

theorem test_pci_life_witness:
  "test_pci_probe (sample_pci_env\<lparr>pe_vectors_msi := 1\<rparr>) sample_env (\<lambda>n. n = 5) sample_tpd = None \<and>
   (\<exists>s1 s2. test_pci_probe (sample_pci_env\<lparr>pe_vectors_msi := 1\<rparr>) sample_env (\<lambda>_. False) sample_tpd = Some (0, s1) \<and>
      test_pci_remove s1 = Some s2 \<and> tpd_handler s2)"
proof -
  let ?pe = "sample_pci_env\<lparr>pe_vectors_msi := 1\<rparr>"
  have pre: "tpd_idle sample_tpd" "tpd_drvdata sample_tpd = None" "k_calls sample_tpd \<notin> set (k_heap sample_tpd)"
    by (simp_all add: tpd_idle_def sample_tpd_def)
  have res: "claim_result ?pe = 0" "irq_result ?pe = 0" "pe_request_irq ?pe = 0" "env_kmalloc sample_env (k_calls sample_tpd)"
    by (simp_all add: claim_result_def irq_result_def sample_pci_env_def sample_env_def)
  show ?thesis
    using test_pci_life [OF pre, of ?pe sample_env "\<lambda>n. n = 5"] test_pci_life [OF pre, of ?pe sample_env "\<lambda>_. False"] res by auto
qed

end
