(* ===== verification/Dma.thy ===== *)
theory Dma
  imports Pci
begin

text \<open>
  The DMA rings of the driver's first version, \<^verbatim>\<open>driver/driver_wireless/wireless_dma.c\<close> with the
  structures, bits and registers of \<^verbatim>\<open>wireless.h\<close>: two coherent receive buffers announced to the
  device through registers, and a table of ten transmit slots. The file is compiled only without
  \<^verbatim>\<open>WIRELESS_SIMU_DMA_NOUSE\<close>, and the interrupt handler that took slots back is commented out
  in \<^verbatim>\<open>wireless.c\<close>; the model is of the functions as they are written.
\<close>

section \<open>Constants and state\<close>

definition WIRELESS_TX_RING_SIZE :: u32 where "WIRELESS_TX_RING_SIZE = 10"
definition WIRELESS_RX_RING_SIZE :: u32 where "WIRELESS_RX_RING_SIZE = 2"
definition WIRELESS_RX_BUFF_MAX_SIZE :: u64 where "WIRELESS_RX_BUFF_MAX_SIZE = 2048"
definition WIRELESS_REG_EVENT :: u64 where "WIRELESS_REG_EVENT = 0x10"
definition WIRELESS_REG_DMA_IN_HOSTADDR :: u64 where "WIRELESS_REG_DMA_IN_HOSTADDR = 0x20"
definition WIRELESS_REG_DMA_IN_LENGTH :: u64 where "WIRELESS_REG_DMA_IN_LENGTH = 0x30"
definition WIRELESS_REG_DMA_IN_BUFF_ID :: u64 where "WIRELESS_REG_DMA_IN_BUFF_ID = 0x40"
definition WIRELESS_REG_DMA_IN_FLAG :: u64 where "WIRELESS_REG_DMA_IN_FLAG = 0xA0"
definition WIRELESS_REG_DMA_RX_RING_BUF_ID :: u64 where "WIRELESS_REG_DMA_RX_RING_BUF_ID = 0xB0"
definition WIRELESS_REG_DMA_RX_RING_HOSTADDR :: u64 where "WIRELESS_REG_DMA_RX_RING_HOSTADDR = 0xC0"
definition WIRELESS_REG_DMA_RX_RING_LENGTH :: u64 where "WIRELESS_REG_DMA_RX_RING_LENGTH = 0xD0"
definition WIRELESS_REG_DMA_RX_RING_FLAG :: u64 where "WIRELESS_REG_DMA_RX_RING_FLAG = 0xE0"
definition WIRELESS_RX_RING_BUF_INIT_END :: nat where "WIRELESS_RX_RING_BUF_INIT_END = 1"
definition WIRELESS_TX_RING_BUF_IS_USING :: nat where "WIRELESS_TX_RING_BUF_IS_USING = 0"

datatype Wireless_LongTimeEvent =
  WIRELESS_EVENT_NOEVENT | WIRELESS_EVENT_DMA | WIRELESS_EVENT_CLEAN_DMA | WIRELESS_EVENT_TEST

primrec long_time_event_val :: "Wireless_LongTimeEvent \<Rightarrow> u32" where
  "long_time_event_val WIRELESS_EVENT_NOEVENT = 0"
| "long_time_event_val WIRELESS_EVENT_DMA = 1"
| "long_time_event_val WIRELESS_EVENT_CLEAN_DMA = 2"
| "long_time_event_val WIRELESS_EVENT_TEST = 3"

definition WIRELESS_BITCHECK :: "u32 \<Rightarrow> nat \<Rightarrow> bool" where
  "WIRELESS_BITCHECK num n = (drop_bit n num AND 1 \<noteq> 0)"

definition WIRELESS_BITSET :: "u32 \<Rightarrow> nat \<Rightarrow> u32" where
  "WIRELESS_BITSET num n = num OR push_bit n 1"

definition WIRELESS_BITCLR :: "u32 \<Rightarrow> nat \<Rightarrow> u32" where
  "WIRELESS_BITCLR num n = num AND NOT (push_bit n 1)"

text \<open>
  A slot. The data pointer of a receive slot is an address of coherent memory, 0 for NULL; that of a
  transmit slot a heap object.
\<close>

record 'd Wireless_DMA_Buf =
  buf_dma_addr :: u64
  buf_flag :: u32
  buf_data :: 'd
  buf_data_length :: u64

record Wireless_Rx_Ring =
  rx_list :: "u64 Wireless_DMA_Buf list"
  rx_list_size :: u32

text \<open>\<^verbatim>\<open>tx_list\<close> itself is the pointer the removal frees; here are the slots it points to.\<close>

record Wireless_Tx_Ring =
  tx_bufs :: "kptr option Wireless_DMA_Buf list"
  tx_list_size :: u32

record wireless_simu_dma = wireless_simu_pci +
  dma_rx_ring :: Wireless_Rx_Ring
  dma_tx_ring :: Wireless_Tx_Ring
  heap_bytes :: "kptr \<Rightarrow> u8 list" \<comment> \<open>the bytes of a heap object\<close>

definition dma_buf_zero :: "'d \<Rightarrow> 'd Wireless_DMA_Buf" where
  "dma_buf_zero null = \<lparr>buf_dma_addr = 0, buf_flag = 0, buf_data = null, buf_data_length = 0\<rparr>"

section \<open>Receive ring\<close>

text \<open>A register is written and another one, usually the same, read back for the log.\<close>

definition reg_sync :: "kenv \<Rightarrow> u32 \<Rightarrow> u64 \<Rightarrow> u64 \<Rightarrow> 'a wireless_simu_scheme \<Rightarrow> (u32 \<times> 'a wireless_simu_scheme) option" where
  "reg_sync env v reg back s = do {
     s \<leftarrow> iowrite32 v (mmio_addr s + reg) s;
     val \<leftarrow> ioread32 env (mmio_addr s + back) s;
     Some (val, s)
   }"

definition set_rx_buf :: "nat \<Rightarrow> u64 Wireless_DMA_Buf \<Rightarrow> 'a wireless_simu_dma_scheme \<Rightarrow> 'a wireless_simu_dma_scheme" where
  "set_rx_buf i buf s = s\<lparr>dma_rx_ring := (dma_rx_ring s)\<lparr>rx_list := (rx_list (dma_rx_ring s))[i := buf]\<rparr>\<rparr>"

fun rx_ring_init_loop ::
  "kenv \<Rightarrow> nat list \<Rightarrow> 'a wireless_simu_dma_scheme \<Rightarrow> (wireless_simu_err_code \<times> 'a wireless_simu_dma_scheme) option" where
  "rx_ring_init_loop env [] s = Some (SUCCESS, s)"
| "rx_ring_init_loop env (i # is) s = do {
     buf \<leftarrow> nth_opt (rx_list (dma_rx_ring s)) i;
     let buf = buf\<lparr>buf_flag := 0, buf_data_length := WIRELESS_RX_BUFF_MAX_SIZE\<rparr>;
     (case dma_alloc_coherent env WIRELESS_RX_BUFF_MAX_SIZE s of ((v, p), s) \<Rightarrow>
        let buf = buf\<lparr>buf_data := v\<rparr> in
        if v = 0 then Some (RX_RING_INIT_MALLOC_ERR, set_rx_buf i buf s)
        else do {
          let buf = buf\<lparr>buf_dma_addr := p\<rparr>;
          let buf = buf\<lparr>buf_flag := WIRELESS_BITSET (buf_flag buf) WIRELESS_RX_RING_BUF_INIT_END\<rparr>;
          let s = set_rx_buf i buf s;
          (_, s) \<leftarrow> reg_sync env (of_nat i) WIRELESS_REG_DMA_RX_RING_BUF_ID WIRELESS_REG_DMA_RX_RING_BUF_ID s;
          (_, s) \<leftarrow> reg_sync env (ucast (buf_dma_addr buf)) WIRELESS_REG_DMA_RX_RING_HOSTADDR WIRELESS_REG_DMA_RX_RING_HOSTADDR s;
          (_, s) \<leftarrow> reg_sync env (ucast (buf_data_length buf)) WIRELESS_REG_DMA_RX_RING_LENGTH WIRELESS_REG_DMA_RX_RING_LENGTH s;
          (_, s) \<leftarrow> reg_sync env (buf_flag buf) WIRELESS_REG_DMA_RX_RING_FLAG WIRELESS_REG_DMA_RX_RING_FLAG s;
          rx_ring_init_loop env is s
        })
   }"

definition wireless_simu_rx_ring_init ::
  "kenv \<Rightarrow> 'a wireless_simu_dma_scheme \<Rightarrow> (wireless_simu_err_code \<times> 'a wireless_simu_dma_scheme) option" where
  "wireless_simu_rx_ring_init env s =
     (let s = s\<lparr>dma_rx_ring := (dma_rx_ring s)\<lparr>rx_list_size := WIRELESS_RX_RING_SIZE\<rparr>\<rparr>
      in rx_ring_init_loop env [0..<unat (rx_list_size (dma_rx_ring s))] s)"

definition rx_buf_exit :: "kenv \<Rightarrow> nat \<Rightarrow> 'a wireless_simu_dma_scheme \<Rightarrow> 'a wireless_simu_dma_scheme option" where
  "rx_buf_exit env i s = do {
     buf \<leftarrow> nth_opt (rx_list (dma_rx_ring s)) i;
     (_, s) \<leftarrow> reg_sync env (of_nat i) WIRELESS_REG_DMA_RX_RING_BUF_ID WIRELESS_REG_DMA_RX_RING_BUF_ID s;
     let buf = buf\<lparr>buf_flag := WIRELESS_BITCLR (buf_flag buf) WIRELESS_RX_RING_BUF_INIT_END\<rparr>;
     (_, s) \<leftarrow> reg_sync env 0 WIRELESS_REG_DMA_RX_RING_FLAG WIRELESS_REG_DMA_RX_RING_BUF_ID s;
     if buf_dma_addr buf \<noteq> 0 then do {
       (_, s) \<leftarrow> reg_sync env 0 WIRELESS_REG_DMA_RX_RING_HOSTADDR WIRELESS_REG_DMA_RX_RING_BUF_ID s;
       (_, s) \<leftarrow> reg_sync env 0 WIRELESS_REG_DMA_RX_RING_LENGTH WIRELESS_REG_DMA_RX_RING_BUF_ID s;
       s \<leftarrow> dma_free_coherent (buf_data_length buf) (buf_data buf) (buf_dma_addr buf) s;
       Some (set_rx_buf i (buf\<lparr>buf_dma_addr := 0, buf_data := 0\<rparr>) s)
     } else Some (set_rx_buf i buf s)
   }"

definition wireless_rx_ring_exit :: "kenv \<Rightarrow> 'a wireless_simu_dma_scheme \<Rightarrow> 'a wireless_simu_dma_scheme option" where
  "wireless_rx_ring_exit env s = foldo (rx_buf_exit env) [0..<unat (rx_list_size (dma_rx_ring s))] s"

section \<open>Transmit ring\<close>

definition wireless_simu_tx_ring_init ::
  "kenv \<Rightarrow> 'a wireless_simu_dma_scheme \<Rightarrow> wireless_simu_err_code \<times> 'a wireless_simu_dma_scheme" where
  "wireless_simu_tx_ring_init env s =
     (let s = s\<lparr>dma_tx_ring := (dma_tx_ring s)\<lparr>tx_list_size := WIRELESS_TX_RING_SIZE\<rparr>\<rparr>
      in if tx_list s = None
         then (case kmalloc env s of
                 (None, s) \<Rightarrow> (TX_RING_INIT_MALLOC_ERR, s)
               | (Some k, s) \<Rightarrow>
                   (SUCCESS, spin_lock_init TxRingMutex (s\<lparr>tx_list := Some k,
                      dma_tx_ring := (dma_tx_ring s)\<lparr>tx_bufs := replicate (unat (tx_list_size (dma_tx_ring s))) (dma_buf_zero None)\<rparr>\<rparr>)))
         else (SUCCESS, spin_lock_init TxRingMutex s))"

definition wireless_tx_ring_exit :: "'a wireless_simu_dma_scheme \<Rightarrow> 'a wireless_simu_dma_scheme option" where
  "wireless_tx_ring_exit s = do {
     s \<leftarrow> spin_lock TxRingMutex s;
     s \<leftarrow> kfree (tx_list s) s;
     s \<leftarrow> spin_unlock TxRingMutex s;
     Some (s\<lparr>tx_list := None\<rparr>)
   }"

text \<open>Reading and writing a slot through a pointer that must be a live table.\<close>

definition get_tx_buf :: "kptr option \<Rightarrow> nat \<Rightarrow> 'a wireless_simu_dma_scheme \<Rightarrow> kptr option Wireless_DMA_Buf option" where
  "get_tx_buf p i s =
     (case p of
        None \<Rightarrow> None
      | Some k \<Rightarrow> if k \<in> set (k_heap s) then nth_opt (tx_bufs (dma_tx_ring s)) i else None)"

definition set_tx_buf :: "nat \<Rightarrow> kptr option Wireless_DMA_Buf \<Rightarrow> 'a wireless_simu_dma_scheme \<Rightarrow> 'a wireless_simu_dma_scheme" where
  "set_tx_buf i buf s = s\<lparr>dma_tx_ring := (dma_tx_ring s)\<lparr>tx_bufs := (tx_bufs (dma_tx_ring s))[i := buf]\<rparr>\<rparr>"

text \<open>The search for a slot that is not in use, from slot \<^term>\<open>i\<close> on with \<^term>\<open>k\<close> slots to go.\<close>

fun tx_find_free :: "kptr option \<Rightarrow> nat \<Rightarrow> nat \<Rightarrow> 'a wireless_simu_dma_scheme \<Rightarrow> nat option" where
  "tx_find_free p 0 i s = Some i"
| "tx_find_free p (Suc k) i s = do {
     buf \<leftarrow> get_tx_buf p i s;
     if \<not> WIRELESS_BITCHECK (buf_flag buf) WIRELESS_TX_RING_BUF_IS_USING then Some i
     else tx_find_free p k (Suc i) s
   }"

definition tx_start :: "kenv \<Rightarrow> kptr option \<Rightarrow> nat \<Rightarrow> u64 \<Rightarrow> kptr \<Rightarrow> u64 \<Rightarrow> 'a wireless_simu_dma_scheme \<Rightarrow>
  'a wireless_simu_dma_scheme option" where
  "tx_start env p i dma_addr data_ptr length_arg s = do {
     buf \<leftarrow> get_tx_buf p i s;
     let buf = buf\<lparr>buf_flag := WIRELESS_BITSET (buf_flag buf) WIRELESS_TX_RING_BUF_IS_USING\<rparr>;
     (_, s) \<leftarrow> reg_sync env (of_nat i) WIRELESS_REG_DMA_IN_BUFF_ID WIRELESS_REG_DMA_IN_BUFF_ID s;
     (val, s) \<leftarrow> reg_sync env (ucast dma_addr) WIRELESS_REG_DMA_IN_HOSTADDR WIRELESS_REG_DMA_IN_HOSTADDR s;
     let buf = buf\<lparr>buf_dma_addr := ucast val\<rparr>;
     (val, s) \<leftarrow> reg_sync env (ucast length_arg) WIRELESS_REG_DMA_IN_LENGTH WIRELESS_REG_DMA_IN_LENGTH s;
     let buf = buf\<lparr>buf_data_length := ucast val\<rparr>;
     s \<leftarrow> iowrite32 (buf_flag buf) (mmio_addr s + WIRELESS_REG_DMA_IN_FLAG) s;
     s \<leftarrow> iowrite32 (long_time_event_val WIRELESS_EVENT_DMA) (mmio_addr s + WIRELESS_REG_EVENT) s;
     let buf = buf\<lparr>buf_data := Some data_ptr\<rparr>;
     Some (set_tx_buf i buf s)
   }"

text \<open>
  Sending one buffer. The local copy of \<^verbatim>\<open>tx_list\<close> is taken before the ring is possibly
  initialised, and the label \<^verbatim>\<open>END\<close> unlocks whether or not the lock has been taken.
\<close>

definition wireless_simu_dma_tx :: "kenv \<Rightarrow> kptr \<Rightarrow> u64 \<Rightarrow> 'a wireless_simu_dma_scheme \<Rightarrow>
  (wireless_simu_err_code \<times> 'a wireless_simu_dma_scheme) option" where
  "wireless_simu_dma_tx env data_ptr length_arg s =
     (let p = tx_list s in
      if stop s then Some (STOP, s)
      else case (if p = None then wireless_simu_tx_ring_init env s else (SUCCESS, s)) of (ret, s) \<Rightarrow>
        if ret \<noteq> SUCCESS then do { s \<leftarrow> spin_unlock TxRingMutex s; Some (ret, s) }
        else do {
          s \<leftarrow> spin_lock TxRingMutex s;
          (case dma_map_single env (unat length_arg) s of
             (None, s) \<Rightarrow> do { s \<leftarrow> spin_unlock TxRingMutex s; Some (ret, s) }
           | (Some dma_addr, s) \<Rightarrow> do {
               i \<leftarrow> tx_find_free p (unat (tx_list_size (dma_tx_ring s))) 0 s;
               if i = unat (tx_list_size (dma_tx_ring s)) then do {
                 s \<leftarrow> dma_unmap_single dma_addr (unat length_arg) s;
                 s \<leftarrow> spin_unlock TxRingMutex s;
                 Some (TX_RING_FULL, s)
               } else do {
                 s \<leftarrow> tx_start env p i dma_addr data_ptr length_arg s;
                 s \<leftarrow> spin_unlock TxRingMutex s;
                 Some (SUCCESS, s)
               }
             })
        })"

text \<open>
  The test: a buffer of 1024 bytes, of which \<^verbatim>\<open>kmalloc\<close> gives the old contents \<^term>\<open>junk\<close>, with a
  greeting at the front and five letters at the end, counted from the last one.
\<close>

definition c_bytes :: "string \<Rightarrow> u8 list" where
  "c_bytes cs = map (\<lambda>c. of_nat (of_char c)) cs @ [0]"

definition dma_test_bytes :: "u8 list \<Rightarrow> u8 list" where
  "dma_test_bytes junk =
     (let bs = c_bytes ''Ciallo ~'' @ drop (length (c_bytes ''Ciallo ~'')) junk;
          n = 1024
      in bs[n - 1 := of_char (CHR ''c''), n - 2 := of_char (CHR ''i''), n - 3 := of_char (CHR ''a''),
            n - 4 := of_char (CHR ''l''), n - 5 := of_char (CHR ''l'')])"

definition wireless_simu_dma_test :: "kenv \<Rightarrow> u8 list \<Rightarrow> 'a wireless_simu_dma_scheme \<Rightarrow> 'a wireless_simu_dma_scheme option" where
  "wireless_simu_dma_test env junk s =
     (case kmalloc env s of
        (None, s) \<Rightarrow> Some s
      | (Some k, s) \<Rightarrow> do {
          let s = s\<lparr>heap_bytes := (heap_bytes s)(k := dma_test_bytes junk)\<rparr>;
          (_, s) \<leftarrow> wireless_simu_dma_tx env k 1024 s;
          Some s
        })"


section \<open>Specification\<close>

text \<open>
  The transmit ring as callers see it: ten places that are only ever taken. Requests that cannot
  be mapped are dropped with success; the answers and the mappings kept for a run of requests, with
  \<^term>\<open>u\<close> places taken and the environment's next answer numbered \<^term>\<open>c\<close>.
\<close>

fun tx_run_spec :: "(nat \<Rightarrow> u64 option) \<Rightarrow> nat \<Rightarrow> nat \<Rightarrow> (kptr \<times> u64) list \<Rightarrow> wireless_simu_err_code list \<times> (u64 \<times> nat) list" where
  "tx_run_spec m c u [] = ([], [])"
| "tx_run_spec m c u ((d, n) # rs) =
     (case m c of
        None \<Rightarrow> (case tx_run_spec m (Suc c) u rs of (res, kept) \<Rightarrow> (SUCCESS # res, kept))
      | Some a \<Rightarrow>
          if u = 10 then (case tx_run_spec m (Suc c) u rs of (res, kept) \<Rightarrow> (TX_RING_FULL # res, kept))
          else (case tx_run_spec m (Suc c) (Suc u) rs of (res, kept) \<Rightarrow> (SUCCESS # res, (a, unat n) # kept)))"

fun dma_tx_all :: "kenv \<Rightarrow> (kptr \<times> u64) list \<Rightarrow> 'a wireless_simu_dma_scheme \<Rightarrow>
  (wireless_simu_err_code list \<times> 'a wireless_simu_dma_scheme) option" where
  "dma_tx_all env [] s = Some ([], s)"
| "dma_tx_all env ((d, n) # rs) s = do {
     (r, s) \<leftarrow> wireless_simu_dma_tx env d n s;
     (res, s) \<leftarrow> dma_tx_all env rs s;
     Some (r # res, s)
   }"

definition slot_busy :: "'d Wireless_DMA_Buf \<Rightarrow> bool" where
  "slot_busy buf = bit (buf_flag buf) 0"

definition tx_first_free :: "'a wireless_simu_dma_scheme \<Rightarrow> nat" where
  "tx_first_free s = length (takeWhile slot_busy (tx_bufs (dma_tx_ring s)))"

definition dma_tx_up :: "'a wireless_simu_dma_scheme \<Rightarrow> bool" where
  "dma_tx_up s = (\<not> stop s \<and> (\<exists>k. tx_list s = Some k \<and> k \<in> set (k_heap s)) \<and> tx_list_size (dma_tx_ring s) = 10 \<and>
     length (tx_bufs (dma_tx_ring s)) = 10 \<and> TxRingMutex \<notin> set (k_held s) \<and> k_iomapped s)"

definition tx_regs :: "nat \<Rightarrow> u64 \<Rightarrow> u64 \<Rightarrow> u32 \<Rightarrow> u64 \<Rightarrow> kevent list" where
  "tx_regs i a n flag base =
     [EvIoWrite (base + 0x40) (of_nat i), EvIoWrite (base + 0x20) (ucast a), EvIoWrite (base + 0x30) (ucast n),
      EvIoWrite (base + 0xA0) flag, EvIoWrite (base + 0x10) 1]"

text \<open>The slot after a send: address and length as the device's registers read back.\<close>

definition tx_slot :: "kenv \<Rightarrow> nat \<Rightarrow> u64 \<Rightarrow> kptr \<Rightarrow> u64 \<Rightarrow> 'a wireless_simu_dma_scheme \<Rightarrow> kptr option Wireless_DMA_Buf" where
  "tx_slot env i a d n s =
     (let buf = tx_bufs (dma_tx_ring s) ! i; flag = buf_flag buf OR 1; regs = tx_regs i a n flag (mmio_addr s)
      in buf\<lparr>buf_flag := flag, buf_dma_addr := ucast (env_ioread env (k_trace s @ take 2 regs) (mmio_addr s + 0x20)),
          buf_data_length := ucast (env_ioread env (k_trace s @ take 3 regs) (mmio_addr s + 0x30)), buf_data := Some d\<rparr>)"

definition rx_regs_on :: "nat \<Rightarrow> u64 \<Rightarrow> u64 \<Rightarrow> kevent list" where
  "rx_regs_on i p base =
     [EvIoWrite (base + 0xB0) (of_nat i), EvIoWrite (base + 0xC0) (ucast p), EvIoWrite (base + 0xD0) 2048,
      EvIoWrite (base + 0xE0) 2]"

definition rx_slots_free :: "'a wireless_simu_dma_scheme \<Rightarrow> bool" where
  "rx_slots_free s = (length (rx_list (dma_rx_ring s)) = 2 \<and> list_all (\<lambda>b. buf_dma_addr b = 0) (rx_list (dma_rx_ring s)))"

text \<open>After \<^term>\<open>u\<close> sends the first \<^term>\<open>u\<close> slots are in use and the others free.\<close>

definition tx_used :: "nat \<Rightarrow> 'a wireless_simu_dma_scheme \<Rightarrow> bool" where
  "tx_used u s = (u \<le> 10 \<and> list_all slot_busy (take u (tx_bufs (dma_tx_ring s))) \<and>
     list_all (\<lambda>b. \<not> slot_busy b) (drop u (tx_bufs (dma_tx_ring s))))"

text \<open>One receive slot: filled by the initialisation, emptied by the exit.\<close>

definition rx_slot_on :: "u64 \<Rightarrow> u64 \<Rightarrow> u64 Wireless_DMA_Buf \<Rightarrow> u64 Wireless_DMA_Buf" where
  "rx_slot_on v p buf = buf\<lparr>buf_data_length := 2048, buf_data := v, buf_dma_addr := p, buf_flag := 2\<rparr>"

definition slot_regions :: "u64 Wireless_DMA_Buf \<Rightarrow> region list" where
  "slot_regions b = (if buf_dma_addr b = 0 then [] else [(buf_data b, buf_data_length b, buf_dma_addr b)])"

definition rx_off :: "nat \<Rightarrow> u64 Wireless_DMA_Buf \<Rightarrow> u64 \<Rightarrow> kevent list" where
  "rx_off i b base = [EvIoWrite (base + 0xB0) (of_nat i), EvIoWrite (base + 0xE0) 0] @
     (if buf_dma_addr b = 0 then []
      else [EvIoWrite (base + 0xC0) 0, EvIoWrite (base + 0xD0) 0,
            EvDmaFree (buf_data b) (buf_data_length b) (buf_dma_addr b)])"

definition rx_slot_off :: "u64 Wireless_DMA_Buf \<Rightarrow> u64 Wireless_DMA_Buf" where
  "rx_slot_off b =
     (let b = b\<lparr>buf_flag := buf_flag b AND NOT 2\<rparr>
      in if buf_dma_addr b = 0 then b else b\<lparr>buf_dma_addr := 0, buf_data := 0\<rparr>)"

definition sample_dma :: wireless_simu_dma where
  "sample_dma = wireless_simu_pci.extend (sample_pci\<lparr>k_iomapped := True\<rparr>)
     (wireless_simu_dma.fields \<lparr>rx_list = replicate 2 (dma_buf_zero 0), rx_list_size = 0\<rparr> \<lparr>tx_bufs = [], tx_list_size = 0\<rparr> (\<lambda>_. []))"

section \<open>Lemmas\<close>

lemmas dma_consts = WIRELESS_TX_RING_SIZE_def WIRELESS_RX_RING_SIZE_def WIRELESS_RX_BUFF_MAX_SIZE_def WIRELESS_REG_EVENT_def
  WIRELESS_REG_DMA_IN_HOSTADDR_def WIRELESS_REG_DMA_IN_LENGTH_def WIRELESS_REG_DMA_IN_BUFF_ID_def
  WIRELESS_REG_DMA_IN_FLAG_def WIRELESS_REG_DMA_RX_RING_BUF_ID_def WIRELESS_REG_DMA_RX_RING_HOSTADDR_def
  WIRELESS_REG_DMA_RX_RING_LENGTH_def WIRELESS_REG_DMA_RX_RING_FLAG_def WIRELESS_RX_RING_BUF_INIT_END_def
  WIRELESS_TX_RING_BUF_IS_USING_def

lemma BITCHECK_0 [simp]: "WIRELESS_BITCHECK num 0 = bit num 0"
  by (simp add: WIRELESS_BITCHECK_def bit_0 and_one_eq odd_iff_mod_2_eq_one)

lemma bit_or_one_0 [simp]: "bit (num OR 1 :: u32) 0"
  by (simp add: bit_simps)

lemma reg_sync_ok [k_simps]:
  "k_iomapped s \<Longrightarrow> reg_sync env v reg back s =
     Some (env_ioread env (k_trace s @ [EvIoWrite (mmio_addr s + reg) v]) (mmio_addr s + back),
       emit (EvIoWrite (mmio_addr s + reg) v) s)"
  by (simp add: reg_sync_def iowrite32_def ioread32_def)

lemma tx_find_free_eq:
  assumes "k \<in> set (k_heap s)" "i + n = length (tx_bufs (dma_tx_ring s))"
  shows "tx_find_free (Some k) n i s = Some (i + length (takeWhile slot_busy (drop i (tx_bufs (dma_tx_ring s)))))"
  using assms(2)
proof (induction n arbitrary: i)
  case 0
  then show ?case by simp
next
  case (Suc n)
  then have "drop i (tx_bufs (dma_tx_ring s)) = tx_bufs (dma_tx_ring s) ! i # drop (Suc i) (tx_bufs (dma_tx_ring s))"
    by (simp add: Cons_nth_drop_Suc)
  then show ?case
    using Suc assms(1)
    by (simp add: get_tx_buf_def nth_opt_def WIRELESS_TX_RING_BUF_IS_USING_def slot_busy_def)
qed

lemma tx_start_exec:
  assumes "k \<in> set (k_heap s)" "i < length (tx_bufs (dma_tx_ring s))" "k_iomapped s"
  shows "tx_start env (Some k) i a d n s = Some (set_tx_buf i (tx_slot env i a d n s)
    (s\<lparr>k_trace := k_trace s @ tx_regs i a n (buf_flag (tx_bufs (dma_tx_ring s) ! i) OR 1) (mmio_addr s)\<rparr>))"
  using assms
  by (simp add: tx_start_def get_tx_buf_def nth_opt_def k_simps iowrite32_def tx_slot_def tx_regs_def WIRELESS_BITSET_def
      dma_consts Let_def, simp add: emit_def)

lemma dma_tx_exec:
  fixes s :: "'a wireless_simu_dma_scheme"
  assumes "dma_tx_up s"
  shows "wireless_simu_dma_tx env d n s =
    (case env_dma_map env (k_calls s) of
       None \<Rightarrow> Some (SUCCESS, tick s)
     | Some a \<Rightarrow>
         let i = tx_first_free s; regs = tx_regs i a n (buf_flag (tx_bufs (dma_tx_ring s) ! i) OR 1) (mmio_addr s)
         in if i = 10 then Some (TX_RING_FULL, tick s)
            else Some (SUCCESS, set_tx_buf i (tx_slot env i a d n s)
              ((tick s)\<lparr>k_maps := (a, unat n) # k_maps s, k_trace := k_trace s @ regs\<rparr>)))"
proof -
  obtain k where k: "tx_list s = Some k" "k \<in> set (k_heap s)"
    using assms by (auto simp: dma_tx_up_def)
  note up = assms [unfolded dma_tx_up_def]
  show ?thesis
  proof (cases "env_dma_map env (k_calls s)")
    case None
    then show ?thesis
      using k up by (simp add: wireless_simu_dma_tx_def Let_def spin_lock_def spin_unlock_def dma_map_single_def tick_def)
  next
    case (Some a)
    let ?t = "s\<lparr>k_held := TxRingMutex # k_held s, k_calls := Suc (k_calls s), k_maps := (a, unat n) # k_maps s\<rparr>"
    have map: "dma_map_single env (unat n) (s\<lparr>k_held := TxRingMutex # k_held s\<rparr>) = (Some a, ?t)"
      using Some by (simp add: dma_map_single_def tick_def)
    have find: "tx_find_free (Some k) 10 0 ?t = Some (tx_first_free s)"
      using tx_find_free_eq [of k ?t 0 10] k up by (simp add: tx_first_free_def)
    have lt: "tx_first_free s \<noteq> 10 \<Longrightarrow> tx_first_free s < 10"
      using up length_takeWhile_le [of slot_busy "tx_bufs (dma_tx_ring s)"] by (simp add: tx_first_free_def)
    show ?thesis
    proof (cases "tx_first_free s = 10")
      case True
      then show ?thesis
        using k up Some find
        by (simp add: wireless_simu_dma_tx_def Let_def spin_lock_def map spin_unlock_def dma_unmap_single_def, simp add: tick_def)
    next
      case False
      have start: "tx_start env (Some k) (tx_first_free s) a d n ?t = Some (set_tx_buf (tx_first_free s) (tx_slot env (tx_first_free s) a d n ?t)
          (?t\<lparr>k_trace := k_trace s @ tx_regs (tx_first_free s) a n (buf_flag (tx_bufs (dma_tx_ring s) ! tx_first_free s) OR 1) (mmio_addr s)\<rparr>))"
        using tx_start_exec [of k ?t "tx_first_free s" env a d n] k up lt [OF False] by simp
      show ?thesis
        using False k up Some find start
        by (simp add: wireless_simu_dma_tx_def Let_def spin_lock_def map spin_unlock_def,
            simp add: tick_def set_tx_buf_def tx_slot_def Let_def)
    qed
  qed
qed

lemma tx_used_first_free:
  assumes "tx_used u s" "length (tx_bufs (dma_tx_ring s)) = 10"
  shows "tx_first_free s = u"
proof -
  let ?l = "tx_bufs (dma_tx_ring s)"
  have "takeWhile slot_busy (take u ?l @ drop u ?l) = take u ?l @ takeWhile slot_busy (drop u ?l)"
    using assms(1) by (subst takeWhile_append2) (auto simp: tx_used_def list_all_iff)
  moreover have "takeWhile slot_busy (drop u ?l) = []"
    using assms by (cases "drop u ?l") (auto simp: tx_used_def)
  ultimately show ?thesis
    using assms by (simp add: tx_first_free_def tx_used_def)
qed

lemma tx_used_step:
  assumes "tx_used u s" "u < 10" "length (tx_bufs (dma_tx_ring s)) = 10" "slot_busy b"
  shows "tx_used (Suc u) (set_tx_buf u b s)"
  using assms
  by (auto simp: tx_used_def set_tx_buf_def take_Suc_conv_app_nth list_all_iff dest: in_set_dropD)
     (metis Suc_n_not_le_n drop_update_cancel lessI Cons_nth_drop_Suc list.set_intros(2))

lemma dma_tx_all_exec:
  assumes "dma_tx_up s" "tx_used u s"
  shows "\<exists>s'. dma_tx_all env rs s = Some (fst (tx_run_spec (env_dma_map env) (k_calls s) u rs), s') \<and>
    k_maps s' = rev (snd (tx_run_spec (env_dma_map env) (k_calls s) u rs)) @ k_maps s \<and>
    dma_tx_up s' \<and> k_heap s' = k_heap s \<and> tx_list s' = tx_list s \<and> k_held s' = k_held s"
  using assms
proof (induction rs arbitrary: s u)
  case Nil
  then show ?case by simp
next
  case (Cons r rs)
  obtain d n where r: "r = (d, n)" by fastforce
  note free = tx_used_first_free [OF Cons.prems(2)]
  have len: "length (tx_bufs (dma_tx_ring s)) = 10" "u \<le> 10"
    using Cons.prems by (simp_all add: dma_tx_up_def tx_used_def)
  show ?case
  proof (cases "env_dma_map env (k_calls s) = None \<or> u = 10")
    case True
    have "dma_tx_up (tick s)" "tx_used u (tick s)"
      using Cons.prems by (simp_all add: dma_tx_up_def tx_used_def tick_def)
    from Cons.IH [OF this] show ?thesis
      using True r len free [OF len(1)] by (auto simp: dma_tx_exec [OF Cons.prems(1)] tick_def split: option.splits prod.splits)
  next
    case False
    then obtain a where a: "env_dma_map env (k_calls s) = Some a" "u < 10"
      using len by fastforce
    let ?s = "(tick s)\<lparr>k_maps := (a, unat n) # k_maps s, k_trace := k_trace s @
        tx_regs u a n (buf_flag (tx_bufs (dma_tx_ring s) ! u) OR 1) (mmio_addr s)\<rparr>"
    let ?t = "set_tx_buf u (tx_slot env u a d n s) ?s"
    have "tx_used u ?s"
      using Cons.prems(2) by (simp add: tx_used_def tick_def)
    then have "tx_used (Suc u) ?t"
      using a(2) len(1) by (intro tx_used_step) (simp_all add: tick_def slot_busy_def tx_slot_def Let_def)
    moreover have "dma_tx_up ?t"
      using Cons.prems(1) by (simp add: dma_tx_up_def set_tx_buf_def tick_def)
    ultimately show ?thesis
      using Cons.IH [of ?t "Suc u"] r a free [OF len(1)]
      by (auto simp: dma_tx_exec [OF Cons.prems(1)] Let_def set_tx_buf_def tick_def split: prod.splits)
  qed
qed

lemma tx_run_spec_bound: "u \<le> 10 \<Longrightarrow> u + length (snd (tx_run_spec m c u rs)) \<le> 10"
  by (induction m c u rs rule: tx_run_spec.induct) (auto split: option.splits prod.splits)


lemma tx_run_spec_granted:
  assumes "\<And>c. m c = Some (f c)" "u + k = 10"
  shows "fst (tx_run_spec m c u rs) = replicate (min (length rs) k) SUCCESS @ replicate (length rs - k) TX_RING_FULL"
    "length (snd (tx_run_spec m c u rs)) = min (length rs) k"
  using assms(2)
proof (induction rs arbitrary: c u k)
  case (Cons r rs)
  obtain d n where r: "r = (d, n)" by fastforce
  {
    case 1
    then show ?case
      using Cons.IH(1) [of u k "Suc c"] Cons.IH(1) [of "Suc u" "k - 1" "Suc c"] r assms(1)
      by (cases k) (auto split: prod.splits)
  next
    case 2
    then show ?case
      using Cons.IH(2) [of u k "Suc c"] Cons.IH(2) [of "Suc u" "k - 1" "Suc c"] r assms(1)
      by (cases k) (auto split: prod.splits)
  }
qed simp_all

lemma rx_init_step:
  assumes "i < length (rx_list (dma_rx_ring s))" "k_iomapped s" "env_dma_alloc env (k_calls s) 2048 = (v, p)"
  shows "rx_ring_init_loop env (i # is) s =
    (if v = 0
     then Some (RX_RING_INIT_MALLOC_ERR,
       set_rx_buf i ((rx_list (dma_rx_ring s) ! i)\<lparr>buf_flag := 0, buf_data_length := 2048, buf_data := 0\<rparr>) (tick s))
     else rx_ring_init_loop env is ((set_rx_buf i (rx_slot_on v p (rx_list (dma_rx_ring s) ! i))
       ((tick s)\<lparr>k_dma := (v, 2048, p) # k_dma s\<rparr>))\<lparr>k_trace := k_trace s @ rx_regs_on i p (mmio_addr s)\<rparr>))"
  using assms
  by (simp add: nth_opt_def dma_alloc_coherent_def dma_consts WIRELESS_BITSET_def k_simps rx_regs_on_def rx_slot_on_def
      set_rx_buf_def tick_def Let_def, simp add: emit_def)

lemma upt_0_2: "[0..<2] = [0, Suc 0]"
  by (simp add: numeral_2_eq_2)

lemma rx_buf_exit_exec:
  assumes "i < length (rx_list (dma_rx_ring s))" "k_iomapped s" "rx_list (dma_rx_ring s) ! i = b"
    "set (slot_regions b) \<subseteq> set (k_dma s)"
  shows "rx_buf_exit env i s = Some (set_rx_buf i (rx_slot_off b) (s\<lparr>k_dma := (case slot_regions b of [] \<Rightarrow> k_dma s | r # _ \<Rightarrow> remove1 r (k_dma s)),
    k_trace := k_trace s @ rx_off i b (mmio_addr s)\<rparr>))"
proof (cases "buf_dma_addr b = 0")
  case True
  then show ?thesis
    using assms
    by (simp add: rx_buf_exit_def nth_opt_def dma_consts k_simps slot_regions_def rx_slot_off_def WIRELESS_BITCLR_def rx_off_def
        Let_def, simp add: emit_def)
next
  case False
  then show ?thesis
    using assms
    by (simp add: rx_buf_exit_def nth_opt_def dma_consts k_simps slot_regions_def rx_slot_off_def WIRELESS_BITCLR_def rx_off_def
        dma_free_coherent_def Let_def, simp add: emit_def)
qed

lemma rx_exit_slot:
  assumes "i < length (rx_list (dma_rx_ring s))" "k_iomapped s"
    "mset (k_dma s) = mset (slot_regions (rx_list (dma_rx_ring s) ! i)) + rest"
  shows "\<exists>b dm tr. rx_buf_exit env i s = Some (set_rx_buf i b (s\<lparr>k_dma := dm, k_trace := tr\<rparr>)) \<and> buf_dma_addr b = 0 \<and>
    mset dm = rest"
proof -
  let ?b = "rx_list (dma_rx_ring s) ! i"
  have "set (slot_regions ?b) \<subseteq> set_mset (mset (k_dma s))"
    unfolding assms(3) by simp
  then have "set (slot_regions ?b) \<subseteq> set (k_dma s)"
    by simp
  moreover have "buf_dma_addr (rx_slot_off ?b) = 0"
    by (simp add: rx_slot_off_def Let_def)
  moreover have "mset (case slot_regions ?b of [] \<Rightarrow> k_dma s | r # _ \<Rightarrow> remove1 r (k_dma s)) = rest"
    using assms(3) by (simp add: slot_regions_def split: if_splits)
  ultimately show ?thesis
    using rx_buf_exit_exec [OF assms(1,2) refl, of env] by blast
qed

lemma rx_exit_two:
  assumes "rx_list (dma_rx_ring s) = [a, b]" "rx_list_size (dma_rx_ring s) = 2" "k_iomapped s"
    "mset (k_dma s) = mset (slot_regions a) + (mset (slot_regions b) + rest)"
  shows "\<exists>s'. wireless_rx_ring_exit env s = Some s' \<and> mset (k_dma s') = rest \<and> rx_slots_free s'"
proof -
  obtain a' dm tr where a': "rx_buf_exit env 0 s = Some (set_rx_buf 0 a' (s\<lparr>k_dma := dm, k_trace := tr\<rparr>))"
    "buf_dma_addr a' = 0" "mset dm = mset (slot_regions b) + rest"
    using rx_exit_slot [of 0 s "mset (slot_regions b) + rest" env] assms by auto
  let ?t = "set_rx_buf 0 a' (s\<lparr>k_dma := dm, k_trace := tr\<rparr>)"
  obtain b' dm' tr' where b': "rx_buf_exit env (Suc 0) ?t = Some (set_rx_buf (Suc 0) b' (?t\<lparr>k_dma := dm', k_trace := tr'\<rparr>))"
    "buf_dma_addr b' = 0" "mset dm' = rest"
    using rx_exit_slot [of "Suc 0" ?t rest env] a' assms by (auto simp: set_rx_buf_def)
  show ?thesis
    using a' b' assms(1,2) by (simp add: wireless_rx_ring_exit_def upt_0_2 rx_slots_free_def) (simp add: set_rx_buf_def)
qed

lemma rx_init_exec:
  fixes s :: "'a wireless_simu_dma_scheme"
  assumes "rx_slots_free s" "k_iomapped s"
    and "env_dma_alloc env (k_calls s) 2048 = (v, p)" "v \<noteq> 0 \<longrightarrow> p \<noteq> 0"
    and "env_dma_alloc env (Suc (k_calls s)) 2048 = (w, q)" "w \<noteq> 0 \<longrightarrow> q \<noteq> 0"
  shows "\<exists>r s1 a b. wireless_simu_rx_ring_init env s = Some (r, s1) \<and>
    r = (if v \<noteq> 0 \<and> w \<noteq> 0 then SUCCESS else RX_RING_INIT_MALLOC_ERR) \<and>
    (r = SUCCESS \<longrightarrow> k_trace s1 = k_trace s @ rx_regs_on 0 p (mmio_addr s) @ rx_regs_on 1 q (mmio_addr s) \<and>
       k_dma s1 = (w, 2048, q) # (v, 2048, p) # k_dma s) \<and>
    rx_list (dma_rx_ring s1) = [a, b] \<and> rx_list_size (dma_rx_ring s1) = 2 \<and> k_iomapped s1 \<and>
    mset (k_dma s1) = mset (slot_regions a) + (mset (slot_regions b) + mset (k_dma s))"
proof -
  let ?l = "rx_list (dma_rx_ring s)" and ?s = "s\<lparr>dma_rx_ring := (dma_rx_ring s)\<lparr>rx_list_size := 2\<rparr>\<rparr>"
  obtain a b where l: "?l = [a, b]" "buf_dma_addr a = 0" "buf_dma_addr b = 0"
    using assms(1) by (auto simp: rx_slots_free_def numeral_2_eq_2 length_Suc_conv)
  have run: "wireless_simu_rx_ring_init env s = rx_ring_init_loop env [0, Suc 0] ?s"
    by (simp add: wireless_simu_rx_ring_init_def dma_consts upt_0_2)
  define t where "t = (set_rx_buf 0 (rx_slot_on v p a) ((tick ?s)\<lparr>k_dma := (v, 2048, p) # k_dma s\<rparr>))
    \<lparr>k_trace := k_trace s @ rx_regs_on 0 p (mmio_addr s)\<rparr>"
  have one: "rx_ring_init_loop env [0, Suc 0] ?s = (if v = 0
      then Some (RX_RING_INIT_MALLOC_ERR, set_rx_buf 0 (a\<lparr>buf_flag := 0, buf_data_length := 2048, buf_data := 0\<rparr>) (tick ?s))
      else rx_ring_init_loop env [Suc 0] t)"
    using rx_init_step [of 0 ?s env v p "[Suc 0]"] l assms(2,3) by (simp add: t_def)
  have t: "rx_list (dma_rx_ring t) = [rx_slot_on v p a, b]" "k_iomapped t" "k_calls t = Suc (k_calls s)" "mmio_addr t = mmio_addr s"
    "k_dma t = (v, 2048, p) # k_dma s" "k_trace t = k_trace s @ rx_regs_on 0 p (mmio_addr s)" "rx_list_size (dma_rx_ring t) = 2"
    using l(1) assms(2) by (simp_all add: t_def set_rx_buf_def tick_def)
  define u where "u = (set_rx_buf (Suc 0) (rx_slot_on w q b) ((tick t)\<lparr>k_dma := (w, 2048, q) # k_dma t\<rparr>))
    \<lparr>k_trace := k_trace t @ rx_regs_on 1 q (mmio_addr s)\<rparr>"
  have two: "rx_ring_init_loop env [Suc 0] t = (if w = 0
      then Some (RX_RING_INIT_MALLOC_ERR, set_rx_buf (Suc 0) (b\<lparr>buf_flag := 0, buf_data_length := 2048, buf_data := 0\<rparr>) (tick t))
      else Some (SUCCESS, u))"
    using rx_init_step [of "Suc 0" t env w q "[]"] t assms(5) by (simp add: u_def)
  have slots: "slot_regions a = []" "slot_regions b = []" "slot_regions (c\<lparr>buf_flag := f, buf_data_length := n, buf_data := d\<rparr>) =
      (if buf_dma_addr c = 0 then [] else [(d, n, buf_dma_addr c)])" "slot_regions (rx_slot_on x y c) = (if y = 0 then [] else [(x, 2048, y)])"
    for c f n d x y
    using l by (simp_all add: slot_regions_def rx_slot_on_def)
  show ?thesis
    using run one two t l assms(2,4,6)
    by (cases "v = 0"; cases "w = 0") (auto simp: slots u_def set_rx_buf_def tick_def)
qed

lemma dma_test_keeps_buffer:
  fixes s :: "'a wireless_simu_dma_scheme"
  assumes "dma_tx_up s" "env_kmalloc env (k_calls s)"
  shows "\<exists>s'. wireless_simu_dma_test env junk s = Some s' \<and> k_heap s' = k_calls s # k_heap s \<and>
    heap_bytes s' (k_calls s) = dma_test_bytes junk"
proof -
  let ?s = "s\<lparr>k_calls := Suc (k_calls s), k_heap := k_calls s # k_heap s, heap_bytes := (heap_bytes s)(k_calls s := dma_test_bytes junk)\<rparr>"
  have up: "dma_tx_up ?s"
    using assms(1) by (auto simp: dma_tx_up_def tick_def)
  show ?thesis
    using assms(2)
    by (cases "env_dma_map env (Suc (k_calls s))"; cases "tx_first_free ?s = 10")
       (simp_all add: wireless_simu_dma_test_def kmalloc_def tick_def dma_tx_exec [OF up] Let_def set_tx_buf_def)
qed

lemma sample_dma_pre: "rx_slots_free sample_dma" "k_iomapped sample_dma" "\<not> stop sample_dma" "tx_list sample_dma = None"
  "k_held sample_dma = []" "k_calls sample_dma = 10" "k_dma sample_dma = [(0x1000, 0x4000, 0x91000)]"
  by (simp_all add: sample_dma_def rx_slots_free_def list_all_iff dma_buf_zero_def sample_pci_def wireless_simu_dma.defs
      wireless_simu_reg.defs wireless_simu_pci.defs sample_reg_def wireless_simu_mac.defs sample_mac_def sample_def wireless_simu.defs)

section \<open>Properties\<close>

text \<open>
  C30: The receive ring of the first version, whatever the allocator answers. The initialisation
  returns success exactly when both buffers could be allocated, and has then announced each of them
  to the device, number, address, length and flag in this order. On success and on failure alike
  the exit that follows gives back every buffer taken and leaves the slots empty, provided that no
  buffer is given the bus address 0, which the exit takes for an empty slot.
\<close>

theorem legacy_rx_lifecycle:
  fixes s :: "'a wireless_simu_dma_scheme"
  assumes "rx_slots_free s" "k_iomapped s"
    and "env_dma_alloc env (k_calls s) 2048 = (v, p)" "v \<noteq> 0 \<longrightarrow> p \<noteq> 0"
    and "env_dma_alloc env (Suc (k_calls s)) 2048 = (w, q)" "w \<noteq> 0 \<longrightarrow> q \<noteq> 0"
  shows "\<exists>r s1 s2. wireless_simu_rx_ring_init env s = Some (r, s1) \<and>
    r = (if v \<noteq> 0 \<and> w \<noteq> 0 then SUCCESS else RX_RING_INIT_MALLOC_ERR) \<and>
    (r = SUCCESS \<longrightarrow> k_trace s1 = k_trace s @ rx_regs_on 0 p (mmio_addr s) @ rx_regs_on 1 q (mmio_addr s) \<and>
       k_dma s1 = (w, 2048, q) # (v, 2048, p) # k_dma s) \<and>
    wireless_rx_ring_exit env s1 = Some s2 \<and> mset (k_dma s2) = mset (k_dma s) \<and> rx_slots_free s2"
  using rx_init_exec [OF assms] rx_exit_two by metis

theorem legacy_rx_lifecycle_witness:
  "\<exists>s1 s2. wireless_simu_rx_ring_init sample_env sample_dma = Some (SUCCESS, s1) \<and>
     wireless_rx_ring_exit sample_env s1 = Some s2 \<and> mset (k_dma s2) = {#(0x1000, 0x4000, 0x91000)#}"
  using legacy_rx_lifecycle [OF sample_dma_pre(1,2), where env = sample_env and v = "0xB00000" and p = "0x6300000" and w = "0xC00000" and q = "0x6C00000"]
  by (auto simp: sample_env_def sample_dma_pre)

text \<open>
  C31: The transmit ring of the first version refines a table whose ten places are only ever taken.
  From initialisation through any sequence of sends to the exit nothing faults, the answers are
  those of the specification (a request that cannot be mapped is reported as sent, the eleventh
  mapped one and all later ones are refused), and the exit frees the table but leaves every mapping
  of a sent buffer in place: at most ten of them, which nothing gives back.
\<close>

theorem legacy_tx_refines:
  fixes s :: "'a wireless_simu_dma_scheme" and rs :: "(kptr \<times> u64) list"
  assumes "\<not> stop s" "tx_list s = None" "k_iomapped s" "env_kmalloc env (k_calls s)"
  defines "spec \<equiv> tx_run_spec (env_dma_map env) (Suc (k_calls s)) 0 rs"
  shows "\<exists>s1 s2 s3. wireless_simu_tx_ring_init env s = (SUCCESS, s1) \<and> dma_tx_all env rs s1 = Some (fst spec, s2) \<and>
    wireless_tx_ring_exit s2 = Some s3 \<and> k_maps s3 = rev (snd spec) @ k_maps s \<and> length (snd spec) \<le> 10 \<and>
    k_heap s3 = k_heap s \<and> tx_list s3 = None"
proof -
  obtain s1 where s1: "wireless_simu_tx_ring_init env s = (SUCCESS, s1)" "dma_tx_up s1" "tx_used 0 s1" "k_calls s1 = Suc (k_calls s)"
    "k_maps s1 = k_maps s" "k_heap s1 = k_calls s # k_heap s" "tx_list s1 = Some (k_calls s)"
    using assms(1-4)
    by (simp add: wireless_simu_tx_ring_init_def kmalloc_def tick_def spin_lock_init_def Let_def dma_tx_up_def tx_used_def
        dma_consts dma_buf_zero_def slot_busy_def list_all_iff)
  obtain s2 where s2: "dma_tx_all env rs s1 = Some (fst spec, s2)" "k_maps s2 = rev (snd spec) @ k_maps s1" "dma_tx_up s2"
    "k_heap s2 = k_heap s1" "tx_list s2 = tx_list s1"
    using dma_tx_all_exec [OF s1(2,3), of env rs] s1(4) by (auto simp: spec_def)
  have "length (snd spec) \<le> 10"
    using tx_run_spec_bound [of 0] by (simp add: spec_def)
  moreover have "\<exists>s3. wireless_tx_ring_exit s2 = Some s3 \<and> k_maps s3 = k_maps s2 \<and> k_heap s3 = k_heap s \<and> tx_list s3 = None"
    using s2 s1
    by (simp add: wireless_tx_ring_exit_def dma_tx_up_def spin_lock_def spin_unlock_def kfree_def)
  ultimately show ?thesis
    using s1 s2 by auto
qed

theorem legacy_tx_refines_witness:
  "\<exists>s1 s2 s3. wireless_simu_tx_ring_init sample_env sample_dma = (SUCCESS, s1) \<and>
     dma_tx_all sample_env (replicate 12 (7, 64)) s1 = Some (replicate 10 SUCCESS @ replicate 2 TX_RING_FULL, s2) \<and>
     wireless_tx_ring_exit s2 = Some s3 \<and> length (k_maps s3) = 10 + length (k_maps sample_dma)"
proof -
  have "env_kmalloc sample_env (k_calls sample_dma)"
    by (simp add: sample_env_def)
  moreover have "fst (tx_run_spec (env_dma_map sample_env) 11 0 (replicate 12 (7, 64))) = replicate 10 SUCCESS @ replicate 2 TX_RING_FULL"
    "length (snd (tx_run_spec (env_dma_map sample_env) 11 0 (replicate 12 (7, 64)))) = 10"
    using tx_run_spec_granted [of "env_dma_map sample_env" "\<lambda>c. of_nat (0x7000 + c)" 0 10 11 "replicate 12 (7, 64)"] by (simp_all add: sample_env_def)
  ultimately show ?thesis
    using legacy_tx_refines [OF sample_dma_pre(3,4,2), of sample_env "replicate 12 (7, 64)"] by (auto simp: sample_dma_pre(6))
qed

text \<open>
  A send on a ring that has not been initialised never works. If the table cannot be allocated
  the send unlocks a mutex it has not taken; if it can, the send goes on with the NULL pointer it
  has read before and faults, unless the buffer cannot be mapped, which it reports as success.
\<close>

theorem legacy_lazy_init:
  fixes s :: "'a wireless_simu_dma_scheme"
  assumes "\<not> stop s" "tx_list s = None" "TxRingMutex \<notin> set (k_held s)"
  shows "wireless_simu_dma_tx env d n s =
    (if env_kmalloc env (k_calls s) \<and> env_dma_map env (Suc (k_calls s)) = None
     then Some (SUCCESS, tick (snd (wireless_simu_tx_ring_init env s))) else None)"
proof -
  have find: "tx_find_free None 10 0 t = None" for t :: "'a wireless_simu_dma_scheme"
    by (simp add: numeral_eq_Suc get_tx_buf_def)
  show ?thesis
    using assms find
    by (cases "env_kmalloc env (k_calls s)"; cases "env_dma_map env (Suc (k_calls s))")
       (simp_all add: wireless_simu_dma_tx_def wireless_simu_tx_ring_init_def kmalloc_def tick_def spin_lock_init_def
         spin_lock_def spin_unlock_def dma_map_single_def dma_consts Let_def)
qed


theorem legacy_lazy_init_witness: "wireless_simu_dma_tx sample_env 7 64 sample_dma = None"
proof -
  have "TxRingMutex \<notin> set (k_held sample_dma)"
    by (simp add: sample_dma_pre)
  from legacy_lazy_init [OF sample_dma_pre(3,4) this, of sample_env 7 64] show ?thesis
    by (simp add: sample_env_def)
qed

end
