(* ===== verification/Host_Wifi.thy ===== *)
theory Host_Wifi
  imports Mac_Register
begin

text \<open>
  The host side driver, \<^verbatim>\<open>driver/host_wireless_driver.c\<close> and \<^verbatim>\<open>host_wireless_driver.h\<close>: a mac80211 device
  that hands every frame to user space over netlink. What mac80211 and netlink answer is the record
  \<^verbatim>\<open>host_env\<close>. The call in \<^verbatim>\<open>simuwifi_tx\<close> follows a statement without its semicolon; the model is
  of the two statements in sequence. The arrays of rates and channels and the bands in the private
  structure, which no function reads or writes, are left out.
\<close>

section \<open>Constants and state\<close>

definition NETLINK_SIMUWIFI_GROUP :: u32 where "NETLINK_SIMUWIFI_GROUP = 9"

definition MAX_NUM_VIF :: nat where "MAX_NUM_VIF = 4"

definition SIMUWIFI_SUPPORTED_FILTERS :: "mac_lib \<Rightarrow> u32" where
  "SIMUWIFI_SUPPORTED_FILTERS lib = lib_filter lib FIF_ALLMULTI OR lib_filter lib FIF_BCN_PRBRESP_PROMISC OR
     lib_filter lib FIF_CONTROL OR lib_filter lib FIF_OTHER_BSS OR lib_filter lib FIF_PSPOLL OR lib_filter lib FIF_PROBE_REQ"

type_synonym sockp = nat

record simuwifi_host_priv =
  host_pdev :: nat
  host_vif :: "vifp option list"
  netlink_sock :: "sockp option"
  group :: u32
  host_mac_addr :: "u8 list"

text \<open>An interface: its type, its address, and \<^verbatim>\<open>idx\<close> of the private part \<^verbatim>\<open>struct simuwifi_vif\<close>.\<close>

record simuwifi_vif =
  sv_type :: nl80211_iftype
  sv_addr :: "u8 list"
  sv_idx :: int

definition sizeof_simuwifi_vif :: nat where "sizeof_simuwifi_vif = 16"

text \<open>
  The device with the driver's private part, whether it is registered with mac80211, and the size of the
  private area that mac80211 reserves behind each interface of the device (\<^verbatim>\<open>vif_data_size\<close>), which is
  0 unless the driver sets it.
\<close>

record host_dev =
  dev_priv :: simuwifi_host_priv
  dev_registered :: bool
  dev_vif_data_size :: nat

record host_wifi = kernel +
  host_hw :: "host_dev option"
  host_drvdata :: bool \<comment> \<open>\<^verbatim>\<open>platform_set_drvdata\<close> has stored the device\<close>
  host_vifs :: "vifp \<Rightarrow> simuwifi_vif"
  host_socks :: "sockp list"
  host_sent :: "(sockp \<times> u32 \<times> u8 list) list"

record host_env =
  he_alloc_hw :: bool
  he_netlink_create :: "sockp option"
  he_nlmsg_new :: "nat \<Rightarrow> bool"
  he_broadcast :: "nat \<Rightarrow> int"

definition priv_init :: simuwifi_host_priv where
  "priv_init = \<lparr>host_pdev = 0, host_vif = replicate MAX_NUM_VIF None, netlink_sock = None, group = 0,
     host_mac_addr = replicate 6 0\<rparr>"

section \<open>Frames\<close>

text \<open>The message buffer belongs to \<^verbatim>\<open>netlink_broadcast\<close> whatever it answers.\<close>

definition simuwifi_netlink_tx_brodcast ::
  "host_env \<Rightarrow> sockp option \<Rightarrow> u8 list \<Rightarrow> u32 \<Rightarrow> 'a host_wifi_scheme \<Rightarrow> (int \<times> 'a host_wifi_scheme) option" where
  "simuwifi_netlink_tx_brodcast he sock data_arg grp s =
     (let grp = (if grp \<le> 0 then NETLINK_SIMUWIFI_GROUP else grp); c = k_calls s; s = tick s in
      if \<not> he_nlmsg_new he c then Some (- 1, s)
      else do {
        k \<leftarrow> sock;
        if k \<notin> set (host_socks s) then None
        else if he_broadcast he c < 0 then Some (he_broadcast he c, s)
        else Some (0, s\<lparr>host_sent := host_sent s @ [(k, grp, data_arg)]\<rparr>)
      })"

definition simuwifi_tx :: "host_env \<Rightarrow> skbp \<Rightarrow> 'a host_wifi_scheme \<Rightarrow> 'a host_wifi_scheme option" where
  "simuwifi_tx he skb s = do {
     d \<leftarrow> host_hw s;
     b \<leftarrow> skb_get skb s;
     (_, s) \<leftarrow> simuwifi_netlink_tx_brodcast he (netlink_sock (dev_priv d)) (skb_bytes (skb_len b) b) (group (dev_priv d)) s;
     Some s
   }"

section \<open>Interfaces and filters\<close>

definition simuwifi_start :: "'a host_wifi_scheme \<Rightarrow> int \<times> 'a host_wifi_scheme" where
  "simuwifi_start s = (0, s)"

definition simuwifi_stop :: "'a host_wifi_scheme \<Rightarrow> int \<times> 'a host_wifi_scheme" where
  "simuwifi_stop s = (0, s)"

definition simuwifi_add_interface :: "vifp \<Rightarrow> 'a host_wifi_scheme \<Rightarrow> (int \<times> 'a host_wifi_scheme) option" where
  "simuwifi_add_interface v s = do {
     d \<leftarrow> host_hw s;
     let priv = dev_priv d;
     if sv_type (host_vifs s v) \<notin> {NL80211_IFTYPE_AP, NL80211_IFTYPE_STATION, NL80211_IFTYPE_ADHOC,
          NL80211_IFTYPE_MONITOR, NL80211_IFTYPE_MESH_POINT}
     then Some (neg_errno EOPNOTSUPP, s)
     else do {
       let i = free_slot (host_vif priv);
       if i = MAX_NUM_VIF then Some (neg_errno EBUSY, s)
       else do {
         tbl \<leftarrow> list_put (host_vif priv) i (Some v);
         Some (0, s\<lparr>host_hw := Some (d\<lparr>dev_priv := priv\<lparr>host_vif := tbl,
           host_mac_addr := take 6 (sv_addr (host_vifs s v))\<rparr>\<rparr>)\<rparr>)
       }
     }
   }"

text \<open>The index is read from the interface's private area: beyond its end, when that area is too small.\<close>

definition simuwifi_remove_interface :: "vifp \<Rightarrow> 'a host_wifi_scheme \<Rightarrow> 'a host_wifi_scheme option" where
  "simuwifi_remove_interface v s = do {
     d \<leftarrow> host_hw s;
     let priv = dev_priv d;
     i \<leftarrow> (if dev_vif_data_size d < sizeof_simuwifi_vif then None else Some (sv_idx (host_vifs s v)));
     tbl \<leftarrow> (if i < 0 then None else list_put (host_vif priv) (nat i) None);
     Some (s\<lparr>host_hw := Some (d\<lparr>dev_priv := priv\<lparr>host_vif := tbl\<rparr>\<rparr>)\<rparr>)
   }"

definition simuwifi_configure_filter :: "mac_lib \<Rightarrow> u32 \<Rightarrow> u32" where
  "simuwifi_configure_filter lib total_flags =
     (total_flags AND SIMUWIFI_SUPPORTED_FILTERS lib) OR lib_filter lib FIF_ALLMULTI"

text \<open>The end of \<^verbatim>\<open>simuwifi_config\<close> is reached without a return value, which mac80211 reads: undefined.\<close>

definition simuwifi_config :: "u32 \<Rightarrow> 'a host_wifi_scheme \<Rightarrow> (int \<times> 'a host_wifi_scheme) option" where
  "simuwifi_config changed s = None"

definition simuwifi_netlink_rx :: "skbp \<Rightarrow> 'a host_wifi_scheme \<Rightarrow> 'a host_wifi_scheme" where
  "simuwifi_netlink_rx skb s = s"

section \<open>Probe and removal\<close>

definition simuwifi_netlink_init ::
  "host_env \<Rightarrow> simuwifi_host_priv \<Rightarrow> 'a host_wifi_scheme \<Rightarrow> int \<times> simuwifi_host_priv \<times> 'a host_wifi_scheme" where
  "simuwifi_netlink_init he priv s =
     (case he_netlink_create he of
        None \<Rightarrow> (- 1, priv, s)
      | Some k \<Rightarrow> (0, priv\<lparr>netlink_sock := Some k, group := NETLINK_SIMUWIFI_GROUP\<rparr>, s\<lparr>host_socks := k # host_socks s\<rparr>))"

text \<open>Freeing and unregistering follow the pointer they are given; only a registered device may be unregistered.\<close>

definition ieee80211_free_hw :: "'a host_wifi_scheme \<Rightarrow> 'a host_wifi_scheme option" where
  "ieee80211_free_hw s = (case host_hw s of None \<Rightarrow> None | Some _ \<Rightarrow> Some (s\<lparr>host_hw := None\<rparr>))"

definition ieee80211_unregister_hw :: "'a host_wifi_scheme \<Rightarrow> 'a host_wifi_scheme option" where
  "ieee80211_unregister_hw s =
     (case host_hw s of
        None \<Rightarrow> None
      | Some d \<Rightarrow> if dev_registered d then Some (s\<lparr>host_hw := Some (d\<lparr>dev_registered := False\<rparr>)\<rparr>) else None)"

definition netlink_kernel_release :: "sockp \<Rightarrow> 'a host_wifi_scheme \<Rightarrow> 'a host_wifi_scheme option" where
  "netlink_kernel_release k s =
     (if k \<in> set (host_socks s) then Some (s\<lparr>host_socks := remove1 k (host_socks s)\<rparr>) else None)"

definition simuwifi_dev_probe :: "host_env \<Rightarrow> nat \<Rightarrow> 'a host_wifi_scheme \<Rightarrow> (int \<times> 'a host_wifi_scheme) option" where
  "simuwifi_dev_probe he pdev s =
     (if \<not> he_alloc_hw he then do {
        s \<leftarrow> ieee80211_free_hw (s\<lparr>host_hw := None\<rparr>);
        Some (1, s)
      } else
        let priv = priv_init\<lparr>host_pdev := pdev\<rparr> in
        case simuwifi_netlink_init he priv s of (ret, priv, s) \<Rightarrow>
          let s = s\<lparr>host_hw := Some \<lparr>dev_priv = priv, dev_registered = False, dev_vif_data_size = 0\<rparr>\<rparr> in
          if ret \<noteq> 0 then do {
            s \<leftarrow> ieee80211_free_hw s;
            Some (1, s)
          } else Some (0, s\<lparr>host_drvdata := True\<rparr>))"

definition simuwifi_dev_remove :: "'a host_wifi_scheme \<Rightarrow> (int \<times> 'a host_wifi_scheme) option" where
  "simuwifi_dev_remove s = do {
     d \<leftarrow> (if host_drvdata s then host_hw s else None);
     s \<leftarrow> (case netlink_sock (dev_priv d) of
            None \<Rightarrow> Some s
          | Some k \<Rightarrow> do {
              s \<leftarrow> netlink_kernel_release k s;
              Some (s\<lparr>host_hw := Some (d\<lparr>dev_priv := (dev_priv d)\<lparr>netlink_sock := None\<rparr>\<rparr>)\<rparr>)
            });
     s \<leftarrow> ieee80211_unregister_hw s;
     s \<leftarrow> ieee80211_free_hw s;
     Some (0, s)
   }"

section \<open>Specification\<close>

fun host_adds :: "vifp list \<Rightarrow> 'a host_wifi_scheme \<Rightarrow> (int list \<times> 'a host_wifi_scheme) option" where
  "host_adds [] s = Some ([], s)"
| "host_adds (v # vs) s = do {
     (r, s) \<leftarrow> simuwifi_add_interface v s;
     (rs, s) \<leftarrow> host_adds vs s;
     Some (r # rs, s)
   }"

definition host_type_ok :: "vifp \<Rightarrow> 'a host_wifi_scheme \<Rightarrow> bool" where
  "host_type_ok v s = (sv_type (host_vifs s v) \<in> {NL80211_IFTYPE_AP, NL80211_IFTYPE_STATION, NL80211_IFTYPE_ADHOC,
     NL80211_IFTYPE_MONITOR, NL80211_IFTYPE_MESH_POINT})"

definition host_table :: "'a host_wifi_scheme \<Rightarrow> vifp option list" where
  "host_table s = host_vif (dev_priv (the (host_hw s)))"

definition sample_host :: host_wifi where
  "sample_host = \<lparr>k_mem = (\<lambda>_. 0), k_dma = [], k_maps = [], k_heap = [], k_skbs = (\<lambda>p. if p = 1 then Some (sample_skb 0) else None),
     k_held = [], k_iomapped = False, k_calls = 0, k_jiffies = 0, k_trace = [], host_hw = None, host_drvdata = False,
     host_vifs = (\<lambda>_. \<lparr>sv_type = NL80211_IFTYPE_STATION, sv_addr = [2, 0, 0, 0, 0, 1], sv_idx = 0\<rparr>), host_socks = [],
     host_sent = []\<rparr>"

definition sample_host_env :: host_env where
  "sample_host_env = \<lparr>he_alloc_hw = True, he_netlink_create = Some 5, he_nlmsg_new = (\<lambda>_. True), he_broadcast = (\<lambda>_. 0)\<rparr>"

section \<open>Lemmas\<close>

lemma free_slot_prefix: "free_slot (map Some us @ replicate k None) = length us"
  by (induction us) (cases k; simp)+

lemma add_slot:
  assumes "host_hw s = Some d" "host_vif (dev_priv d) = map Some us @ replicate (4 - length us) None" "length us < 4" "host_type_ok v s"
  shows "\<exists>d'. simuwifi_add_interface v s = Some (0, s\<lparr>host_hw := Some d'\<rparr>) \<and>
    host_vif (dev_priv d') = map Some (us @ [v]) @ replicate (4 - length (us @ [v])) None \<and>
    dev_vif_data_size d' = dev_vif_data_size d"
proof -
  obtain k where k: "4 - length us = Suc k" "k = 4 - length (us @ [v])"
    using assms(3) by (cases "4 - length us") auto
  have "(map Some us @ replicate (4 - length us) None)[length us := Some v] = map Some (us @ [v]) @ replicate (4 - length (us @ [v])) None"
    using k by (simp add: list_update_append)
  then show ?thesis
    using assms free_slot_prefix [of us "4 - length us"]
    by (auto simp: simuwifi_add_interface_def Let_def host_type_ok_def MAX_NUM_VIF_def list_put_def)
qed

lemma dev_probe_device:
  assumes "simuwifi_dev_probe he p s = Some (0, s')"
  obtains d where "host_hw s' = Some d" "host_vif (dev_priv d) = replicate 4 None" "dev_vif_data_size d = 0"
    "host_vifs s' = host_vifs s"
  using assms
  by (auto simp: simuwifi_dev_probe_def simuwifi_netlink_init_def ieee80211_free_hw_def priv_init_def MAX_NUM_VIF_def Let_def
      split: if_splits option.splits bind_splits)

lemma host_adds_exec:
  assumes "host_hw s = Some d" "host_vif (dev_priv d) = map Some us @ replicate (4 - length us) None"
    "length us + length vs \<le> 4" "\<forall>v\<in>set vs. host_type_ok v s"
  shows "\<exists>d'. host_adds vs s = Some (replicate (length vs) 0, s\<lparr>host_hw := Some d'\<rparr>) \<and>
    host_vif (dev_priv d') = map Some (us @ vs) @ replicate (4 - length (us @ vs)) None \<and>
    dev_vif_data_size d' = dev_vif_data_size d"
  using assms
proof (induction vs arbitrary: s d us)
  case Nil
  then show ?case by (auto intro!: exI [of _ d])
next
  case (Cons v vs)
  obtain d' where d': "simuwifi_add_interface v s = Some (0, s\<lparr>host_hw := Some d'\<rparr>)"
    "host_vif (dev_priv d') = map Some (us @ [v]) @ replicate (4 - length (us @ [v])) None" "dev_vif_data_size d' = dev_vif_data_size d"
    using add_slot [OF Cons.prems(1,2), of v] Cons.prems(3,4) by auto
  have "\<forall>x\<in>set vs. host_type_ok x (s\<lparr>host_hw := Some d'\<rparr>)"
    using Cons.prems(4) by (simp add: host_type_ok_def)
  from Cons.IH [OF _ d'(2) _ this] show ?case
    using d'(1,3) Cons.prems(3) by auto
qed

text \<open>The transmit callback leaves the frame it is given allocated, and mac80211 has handed it over.\<close>

lemma host_tx_keeps_frame: "simuwifi_tx he skb s = Some s' \<Longrightarrow> k_skbs s' = k_skbs s"
  by (auto simp: simuwifi_tx_def simuwifi_netlink_tx_brodcast_def Let_def tick_def split: Option.bind_splits if_splits)

section \<open>Properties\<close>

text \<open>
  C38: The interface table of the host driver. After a successful probe up to four interfaces of a
  supported type are stored in the order they are added; one of another type is refused with
  -EOPNOTSUPP and a fifth with -EBUSY, and nothing changes. But no interface can be removed: the driver
  never sets the size of the interfaces' private area, so that the index it reads back lies behind the
  end of the interface. Nothing writes that index either.
\<close>

theorem host_interface_table:
  assumes "simuwifi_dev_probe he p s = Some (0, s0)" "length vs \<le> 4" "\<forall>v\<in>set vs. host_type_ok v s"
  shows "\<exists>s1. host_adds vs s0 = Some (replicate (length vs) 0, s1) \<and>
    host_table s1 = map Some vs @ replicate (4 - length vs) None \<and>
    (\<forall>v. \<not> host_type_ok v s \<longrightarrow> simuwifi_add_interface v s1 = Some (neg_errno EOPNOTSUPP, s1)) \<and>
    (\<forall>v. host_type_ok v s \<and> length vs = 4 \<longrightarrow> simuwifi_add_interface v s1 = Some (neg_errno EBUSY, s1)) \<and>
    (\<forall>v. simuwifi_remove_interface v s1 = None)"
proof -
  obtain d where d: "host_hw s0 = Some d" "host_vif (dev_priv d) = replicate 4 None" "dev_vif_data_size d = 0"
    "host_vifs s0 = host_vifs s"
    by (rule dev_probe_device [OF assms(1)])
  have ok: "host_type_ok v s0 = host_type_ok v s" for v
    by (simp add: host_type_ok_def d(4))
  obtain d' where d': "host_adds vs s0 = Some (replicate (length vs) 0, s0\<lparr>host_hw := Some d'\<rparr>)"
    "host_vif (dev_priv d') = map Some vs @ replicate (4 - length vs) None" "dev_vif_data_size d' = 0"
    using host_adds_exec [of s0 d "[]" vs] d assms(2,3) ok by auto
  have full: "free_slot (host_vif (dev_priv d')) = length vs"
    unfolding d'(2) by (rule free_slot_prefix)
  let ?s1 = "s0\<lparr>host_hw := Some d'\<rparr>"
  have "simuwifi_add_interface v ?s1 = Some (neg_errno EOPNOTSUPP, ?s1)" if "\<not> host_type_ok v s" for v
    using that d(4) by (simp add: simuwifi_add_interface_def host_type_ok_def Let_def)
  moreover have "simuwifi_add_interface v ?s1 = Some (neg_errno EBUSY, ?s1)" if "host_type_ok v s" "length vs = 4" for v
    using that d(4) full by (auto simp: simuwifi_add_interface_def host_type_ok_def MAX_NUM_VIF_def Let_def)
  moreover have "simuwifi_remove_interface v ?s1 = None" for v
    using d'(3) by (simp add: simuwifi_remove_interface_def sizeof_simuwifi_vif_def Let_def)
  ultimately show ?thesis
    using d'(1,2) by (intro exI [of _ ?s1]) (simp add: host_table_def)
qed

theorem host_interface_table_witness:
  "\<exists>s0 s1. simuwifi_dev_probe sample_host_env 0 sample_host = Some (0, s0) \<and> host_adds [3, 4] s0 = Some ([0, 0], s1) \<and>
     host_table s1 = [Some 3, Some 4, None, None] \<and> simuwifi_remove_interface 4 s1 = None"
proof -
  obtain s0 where s0: "simuwifi_dev_probe sample_host_env 0 sample_host = Some (0, s0)"
    by (simp add: simuwifi_dev_probe_def simuwifi_netlink_init_def sample_host_env_def Let_def)
  have "\<forall>v\<in>set [3, 4]. host_type_ok v sample_host"
    by (simp add: host_type_ok_def sample_host_def)
  from host_interface_table [OF s0 _ this] s0 show ?thesis
    by (auto simp: numeral_2_eq_2)
qed

text \<open>
  C39: Probe and removal of the host driver. Without a device from mac80211 the probe frees the NULL
  pointer it has got. Without a netlink socket it gives the device back. Otherwise it succeeds,
  with the socket open and frames reaching the group of the driver; but since it never registers
  the device, the removal that follows always fails, having closed the socket. A removal without a
  preceding probe dereferences NULL before it checks for it.
\<close>

theorem host_probe_remove:
  fixes s :: "'a host_wifi_scheme"
  shows "(if \<not> he_alloc_hw he then simuwifi_dev_probe he p s = None
     else case he_netlink_create he of
       None \<Rightarrow> simuwifi_dev_probe he p s = Some (1, s\<lparr>host_hw := None\<rparr>)
     | Some k \<Rightarrow> \<exists>s'. simuwifi_dev_probe he p s = Some (0, s') \<and> host_socks s' = k # host_socks s \<and>
         host_table s' = replicate 4 None \<and> simuwifi_dev_remove s' = None \<and>
         (\<forall>q b. k_skbs s' q = Some b \<longrightarrow> he_nlmsg_new he (k_calls s') \<longrightarrow> 0 \<le> he_broadcast he (k_calls s') \<longrightarrow>
            simuwifi_tx he q s' = Some ((tick s')\<lparr>host_sent := host_sent s @ [(k, 9, skb_bytes (skb_len b) b)]\<rparr>))) \<and>
    (\<not> host_drvdata s \<longrightarrow> simuwifi_dev_remove s = None)"
  by (simp add: simuwifi_dev_probe_def simuwifi_dev_remove_def simuwifi_netlink_init_def ieee80211_free_hw_def host_table_def
      priv_init_def MAX_NUM_VIF_def netlink_kernel_release_def ieee80211_unregister_hw_def simuwifi_tx_def skb_get_def
      simuwifi_netlink_tx_brodcast_def NETLINK_SIMUWIFI_GROUP_def tick_def Let_def split: option.split)

theorem host_probe_remove_witness:
  "\<exists>s'. simuwifi_dev_probe sample_host_env 0 sample_host = Some (0, s') \<and> simuwifi_dev_remove s' = None"
proof -
  have "he_alloc_hw sample_host_env" "he_netlink_create sample_host_env = Some 5"
    by (simp_all add: sample_host_env_def)
  then show ?thesis
    using host_probe_remove [of sample_host_env 0 sample_host] by auto
qed

end
