(* ===== verification/Platform_Dev.thy ===== *)
theory Platform_Dev
  imports Kernel
begin

text \<open>
  The modules that register a platform device by hand, \<^verbatim>\<open>driver/host_wireless_device.c\<close> and
  \<^verbatim>\<open>driver/hellowd_platform_device.c\<close>. What the platform bus answers is an argument: whether the
  device can be allocated, and the result of adding it.
\<close>

section \<open>State\<close>

text \<open>The device objects that are allocated and those on the bus, and the static pointer \<^verbatim>\<open>my_pdev\<close>.\<close>

record platform_bus =
  pb_live :: "nat list"
  pb_added :: "nat list"
  pb_next :: nat
  my_pdev :: "nat option"

section \<open>The platform bus\<close>

definition platform_device_alloc :: "bool \<Rightarrow> platform_bus \<Rightarrow> nat option \<times> platform_bus" where
  "platform_device_alloc ok s =
     (if ok then (Some (pb_next s), s\<lparr>pb_live := pb_next s # pb_live s, pb_next := Suc (pb_next s)\<rparr>) else (None, s))"

text \<open>Adding no device is refused.\<close>

definition platform_device_add :: "int \<Rightarrow> nat option \<Rightarrow> platform_bus \<Rightarrow> (int \<times> platform_bus) option" where
  "platform_device_add r p s =
     (case p of
        None \<Rightarrow> Some (neg_errno EINVAL, s)
      | Some d \<Rightarrow> if d \<notin> set (pb_live s) then None
                 else if r \<noteq> 0 then Some (r, s)
                 else Some (0, s\<lparr>pb_added := d # pb_added s\<rparr>))"

text \<open>Dropping the only reference frees the object; one that is still on the bus would be left dangling there.\<close>

definition platform_device_put :: "nat option \<Rightarrow> platform_bus \<Rightarrow> platform_bus option" where
  "platform_device_put p s =
     (case p of
        None \<Rightarrow> Some s
      | Some d \<Rightarrow> if d \<in> set (pb_live s) \<and> d \<notin> set (pb_added s) then Some (s\<lparr>pb_live := remove1 d (pb_live s)\<rparr>) else None)"

definition platform_device_unregister :: "nat option \<Rightarrow> platform_bus \<Rightarrow> platform_bus option" where
  "platform_device_unregister p s =
     (case p of
        None \<Rightarrow> Some s
      | Some d \<Rightarrow> if d \<notin> set (pb_added s) then None else platform_device_put p (s\<lparr>pb_added := remove1 d (pb_added s)\<rparr>))"

section \<open>The device of the host side driver\<close>

definition simuwifi_dev_init :: "bool \<Rightarrow> int \<Rightarrow> platform_bus \<Rightarrow> (int \<times> platform_bus) option" where
  "simuwifi_dev_init ok r s =
     (case platform_device_alloc ok s of
        (None, s) \<Rightarrow> Some (- 1, s)
      | (Some d, s) \<Rightarrow> do {
          let s = s\<lparr>my_pdev := Some d\<rparr>;
          (ret, s) \<leftarrow> platform_device_add r (Some d) s;
          if ret \<noteq> 0 then do {
            s \<leftarrow> platform_device_put (Some d) s;
            Some (ret, s)
          } else Some (0, s)
        })"

definition simuwifi_dev_exit :: "platform_bus \<Rightarrow> platform_bus option" where
  "simuwifi_dev_exit s = platform_device_unregister (my_pdev s) s"

section \<open>The sample device\<close>

text \<open>Without the early return: a device that could not be allocated is passed on.\<close>

definition hellowd_dev_init :: "bool \<Rightarrow> int \<Rightarrow> platform_bus \<Rightarrow> (int \<times> platform_bus) option" where
  "hellowd_dev_init ok r s = do {
     let (p, s) = platform_device_alloc ok s;
     let s = s\<lparr>my_pdev := p\<rparr>;
     (ret, s) \<leftarrow> platform_device_add r p s;
     if ret \<noteq> 0 then do {
       s \<leftarrow> platform_device_put p s;
       Some (ret, s)
     } else Some (0, s)
   }"

definition hellowd_dev_exit :: "platform_bus \<Rightarrow> platform_bus option" where
  "hellowd_dev_exit s = platform_device_unregister (my_pdev s) s"

section \<open>Loading and unloading\<close>

text \<open>
  A module that loads and unloads a device: the loading either fails and leaves the bus as it was, or
  succeeds with one device more, and then the unloading takes exactly that device away again.
\<close>

locale device_module =
  fixes init :: "bool \<Rightarrow> int \<Rightarrow> platform_bus \<Rightarrow> (int \<times> platform_bus) option"
    and exit_fun :: "platform_bus \<Rightarrow> platform_bus option"
  assumes init_fails: "\<not> (ok \<and> r = 0) \<Longrightarrow> pb_next s \<notin> set (pb_added s) \<Longrightarrow>
      \<exists>ret s'. init ok r s = Some (ret, s') \<and> ret \<noteq> 0 \<and> pb_live s' = pb_live s \<and> pb_added s' = pb_added s"
    and init_works: "\<exists>s'. init True 0 s = Some (0, s') \<and> my_pdev s' = Some (pb_next s) \<and>
      pb_live s' = pb_next s # pb_live s \<and> pb_added s' = pb_next s # pb_added s"
    and exit_works: "my_pdev s = Some d \<Longrightarrow> pb_live s = d # ds \<Longrightarrow> pb_added s = d # as \<Longrightarrow> d \<notin> set as \<Longrightarrow>
      \<exists>s'. exit_fun s = Some s' \<and> pb_live s' = ds \<and> pb_added s' = as"
begin

lemma load_unload:
  assumes "pb_next s \<notin> set (pb_added s)"
  shows "\<exists>ret s'. init ok r s = Some (ret, s') \<and> (ret = 0 \<longleftrightarrow> ok \<and> r = 0) \<and>
    (if ret = 0 then \<exists>s''. exit_fun s' = Some s'' \<and> pb_live s'' = pb_live s \<and> pb_added s'' = pb_added s
     else pb_live s' = pb_live s \<and> pb_added s' = pb_added s)"
proof (cases "ok \<and> r = 0")
  case True
  then show ?thesis
    using init_works [of s] exit_works assms by fastforce
next
  case False
  then show ?thesis
    using init_fails [OF False assms] by fastforce
qed

end

lemmas bus_defs = platform_device_alloc_def platform_device_add_def platform_device_put_def platform_device_unregister_def

interpretation simuwifi_dev: device_module simuwifi_dev_init simuwifi_dev_exit
  by unfold_locales (auto simp: simuwifi_dev_init_def simuwifi_dev_exit_def bus_defs)

interpretation hellowd_dev: device_module hellowd_dev_init hellowd_dev_exit
  by unfold_locales (auto simp: hellowd_dev_init_def hellowd_dev_exit_def bus_defs)

text \<open>
  Loading either device module returns 0 exactly when the device is allocated and added, and the
  unloading then restores the bus; otherwise nothing of the device is left behind.
\<close>

theorem device_modules_balanced:
  assumes "pb_next s \<notin> set (pb_added s)"
  shows "\<exists>ret s'. simuwifi_dev_init ok r s = Some (ret, s') \<and> (ret = 0 \<longleftrightarrow> ok \<and> r = 0) \<and>
    (if ret = 0 then \<exists>s''. simuwifi_dev_exit s' = Some s'' \<and> pb_live s'' = pb_live s \<and> pb_added s'' = pb_added s
     else pb_live s' = pb_live s \<and> pb_added s' = pb_added s)"
    and "\<exists>ret s'. hellowd_dev_init ok r s = Some (ret, s') \<and> (ret = 0 \<longleftrightarrow> ok \<and> r = 0) \<and>
    (if ret = 0 then \<exists>s''. hellowd_dev_exit s' = Some s'' \<and> pb_live s'' = pb_live s \<and> pb_added s'' = pb_added s
     else pb_live s' = pb_live s \<and> pb_added s' = pb_added s)"
  by (rule simuwifi_dev.load_unload [OF assms], rule hellowd_dev.load_unload [OF assms])

end
