(* ===== verification/Spec2Isabelle.thy ===== *)
theory Spec2Isabelle
  imports Hal_Setup Hal_Lifecycle Wmi_Tables Pci_Life Pci_Test Dma Host_Wifi Platform_Dev
begin

text \<open>
  A model of the Linux driver for a simulated wireless PCI device (\<^verbatim>\<open>src/driver/driver_wireless\<close>),
  with the theorems that make it correct, and those that show where it is not.

  \<^bold>\<open>The program.\<close> The driver talks to its device through descriptor rings in memory both share:
  the ring layer (\<^verbatim>\<open>wireless_hal.c\<close>, first half) configures a ring and keeps its head and tail; a
  transmit and a receive test module (second half) build pipes of rings on it, send buffers and
  receive them, driven by an interrupt (\<^verbatim>\<open>wireless_irq.c\<close>), its bottom half and a retry timer. Above
  it stands the interface to mac80211 (\<^verbatim>\<open>wireless_mac80211.c\<close>): callbacks that keep a table of
  interfaces and a queue of management frames, which a worker turns into firmware commands
  (\<^verbatim>\<open>wireless_wmi.c\<close>, \<^verbatim>\<open>wireless_htc.c\<close>, \<^verbatim>\<open>wireless_ce.c\<close>). The PCI driver (\<^verbatim>\<open>wireless.c\<close>) brings all of it up
  and down. Beside it stand the DMA rings of the first version (\<^verbatim>\<open>wireless_dma.c\<close>, compiled out), a driver
  for the host side that sends frames to user space, a stand-alone PCI test driver, and modules that
  register a platform device.

  \<^bold>\<open>State and effects.\<close> \<^verbatim>\<open>Prelude\<close> has the integer widths, bit fields and ring arithmetic. \<^verbatim>\<open>Kernel\<close> is
  the kernel as the driver sees it: memory shared with the device, mappings, socket buffers, heap,
  locks held, a trace of visible actions. What the kernel decides is an argument (\<^verbatim>\<open>kenv\<close>, and
  \<^verbatim>\<open>mac_lib\<close>, \<^verbatim>\<open>mac_env\<close>, \<^verbatim>\<open>pci_env\<close> for the 802.11 headers, mac80211 and the PCI core). Operations return
  \<^verbatim>\<open>None\<close> where the kernel would fault or never return (a wild or freed pointer, a double free, a lock
  taken twice), so a theorem that a result is \<^verbatim>\<open>Some\<close> is a safety statement. Error codes are the
  negative integers of the code. \<^verbatim>\<open>struct wireless_simu\<close> is a chain of records: \<^verbatim>\<open>kernel\<close> is extended
  by \<^verbatim>\<open>wireless_simu\<close> (rings), \<^verbatim>\<open>wireless_simu_mac\<close> (management path), \<^verbatim>\<open>wireless_simu_reg\<close> (registration)
  and \<^verbatim>\<open>wireless_simu_pci\<close>; each operation is stated for the record it needs and for all extensions.

  \<^bold>\<open>Ring layer.\<close> \<^verbatim>\<open>Hal_Types\<close> (structures), \<^verbatim>\<open>Hif\<close> (register access), \<^verbatim>\<open>Hal\<close> (\<^verbatim>\<open>wireless_simu_hal_srng_setup\<close>,
  \<^verbatim>\<open>_init\<close>, \<^verbatim>\<open>_deinit\<close>), \<^verbatim>\<open>Srng_Access\<close> (\<^verbatim>\<open>access_begin\<close>, \<^verbatim>\<open>access_end\<close>, the next-entry functions).
  \<^verbatim>\<open>Ring_Geometry\<close> reads head and tail as entry indices and a ring as the queue of entries between
  them. Shown: set-up leaves a registered, empty ring, writes zeros to its memory and to its pointer cell
  and nothing else, writes registers the device decodes exactly, and enables the ring last; ring numbers
  above their range are refused, negative ones and those of an overflowing product are not (the
  numbers are C integers, wrapped by \<^verbatim>\<open>c_int\<close>); the two tests for a full ring agree and the wrap-around is arithmetic modulo the ring; initialisation is undone by
  release, except for the configuration when a later allocation fails.

  \<^bold>\<open>Test modules.\<close> \<^verbatim>\<open>Srng_Test\<close> (transmit) and \<^verbatim>\<open>Srng_Dst\<close> (receive) model \<^verbatim>\<open>wireless_hal.c\<close> from line 774.
  \<^verbatim>\<open>Ring_Queue\<close> states the contract of a descriptor ring as a locale, a bounded queue the driver posts
  to and the device takes from; it is interpreted on the transmit path and on the posting of
  receive buffers, and gives both their FIFO theorems. \<^verbatim>\<open>Rx_Rings\<close>, \<^verbatim>\<open>Rx_Ledger\<close>, \<^verbatim>\<open>Rx_Service\<close> and
  \<^verbatim>\<open>Rx_System\<close> build the receive invariant (who owns which buffer and mapping), what the bottom half
  does with it, for every device whose moves at the looks of that very run are moves a device may make
  (\<^verbatim>\<open>dst_looks\<close>, \<^verbatim>\<open>dev_moves\<close>), and the transition system of driver and device as an instance of the locales of
  \<^verbatim>\<open>Step_System\<close>; \<^verbatim>\<open>Irq\<close> is the interrupt handler, \<^verbatim>\<open>Receive\<close> has the theorems: exact delivery, soundness
  under every interleaving, return however the device moves between the looks, and two places that lose
  a buffer. The handler takes whether the driver data is set, since the line is requested before.

  \<^bold>\<open>Life of the modules.\<close> \<^verbatim>\<open>Ring_Alloc\<close> treats the memory of a ring as a region among the live ones, with the
  promise of the allocator that live regions do not overlap as a hypothesis (\<^verbatim>\<open>dma_honest\<close>, \<^verbatim>\<open>dma_fair\<close>).
  \<^verbatim>\<open>Rx_Release\<close> states what the receive module owns as multisets over the kernel's lists and shows that
  its release gives back exactly that, \<^verbatim>\<open>Rx_Frame\<close> what no operation of the receive path touches, and
  \<^verbatim>\<open>Rx_Setup\<close> that the initialisation establishes the receive invariant. \<^verbatim>\<open>Rx_Life\<close> joins them: from
  initialisation over any run of the transition system to release nothing is lost, unless a bottom half
  is scheduled when the release kills it under the lock the bottom half takes, and what happens when
  the initialisation fails. \<^verbatim>\<open>Self_Test\<close> does the same for the transmit self test with its
  fifty sends.

  \<^bold>\<open>Management path.\<close> \<^verbatim>\<open>Mac_Types\<close> and \<^verbatim>\<open>Mac80211\<close> model the callbacks and the worker. Two ghost fields,
  \<^verbatim>\<open>hw_live\<close> and \<^verbatim>\<open>vif_live\<close>, say which objects of mac80211 exist: reading through a pointer to one that has
  been freed is a fault. A frame may carry no interface, and the worker drops it then. \<^verbatim>\<open>Wmi\<close> is the command
  path. \<^verbatim>\<open>Wmi_Send\<close> gives the bytes of a command, the outcome of sending on every branch, and a
  parser that recovers the request; \<^verbatim>\<open>Wmi_Tables\<close> the enumerations of \<^verbatim>\<open>wireless_wmi.h\<close> with the values C
  gives them. \<^verbatim>\<open>Mgmt_Tx\<close> shows that handing a frame over keeps identifiers and mappings balanced;
  \<^verbatim>\<open>Mac_Iface\<close> treats the interface table, the mutex its callbacks share (a locale interpreted on each
  of them), queue parameters and cipher tables; \<^verbatim>\<open>Mac_System\<close> the system of callbacks and worker
  iterations in any order, with its invariant (four interpretations of \<^verbatim>\<open>Step_System\<close>): the worker
  always returns and delivers in order while resources last, but neither the pending count nor the
  identifiers go down for a frame that has been sent, so probe responses are refused after 49 frames
  and nothing is sent after 512, one interface too many leaves the mutex held, and a frame whose
  interface has been freed makes the worker read freed memory. \<^verbatim>\<open>Mac_Register\<close> is the registration, which establishes that
  invariant, and the channel and rate tables.

  \<^bold>\<open>The driver as a whole.\<close> \<^verbatim>\<open>Rx_Foreign\<close> shows that the receive path touches only buffers in its slots and
  that its invariant survives what others do to the rest of the state. On that \<^verbatim>\<open>Driver_System\<close> joins the
  receive system and the management system into one, through the locale \<^verbatim>\<open>interleaving\<close> of \<^verbatim>\<open>Step_System\<close>: two
  systems on one state whose steps keep each other's invariant. In every interleaving both paths stay
  sound, own different buffers and account for every mapping, and every handler returns. \<^verbatim>\<open>Pci\<close> models
  claim, interrupt set-up, probe and removal, and shows what failing probes leave behind. \<^verbatim>\<open>Pci_Life\<close> has the
  life of the device: the probe with its self test establishes the joint invariant, any run of the joint
  system keeps it. From there the removal returns without fault when no frame is queued and no bottom half
  is scheduled, and gives back everything but the copy of the channel table and the frames sent with
  their mappings; with a frame queued, \<^verbatim>\<open>destroy_workqueue\<close>, which runs the worker a last time, reads
  what mac80211 has freed before; with a bottom half scheduled the removal never returns. Unregistering
  from mac80211 triggers callbacks of the driver; they belong to the run before the removal.

  \<^bold>\<open>Other drivers.\<close> \<^verbatim>\<open>Dma\<close> is \<^verbatim>\<open>wireless_dma.c\<close>: its receive ring gives back what it takes, and its
  transmit ring refines a table whose ten places are only ever taken. \<^verbatim>\<open>Host_Wifi\<close> is
  \<^verbatim>\<open>host_wireless_driver.c\<close>: frames to user space, interface table, probe and removal; removing an interface reads a private area
  the probe never asks for. \<^verbatim>\<open>Pci_Test\<close> is
  \<^verbatim>\<open>pci_driver_test.c\<close>, with an interrupt possible after each access to the device. Most theorems about
  these three say where the code does not do what it means to. \<^verbatim>\<open>Platform_Dev\<close> is the loading and unloading
  of the modules that register a platform device by hand, one locale for both.

  \<^bold>\<open>Bounds.\<close> Loops that the device can prolong take a bound on their iterations as an argument. The
  receive loop is shown to end with one iteration more than there are posted buffers; the posting
  loop is given the number of missing buffers, which each iteration lowers; the worker is given
  the length of the queue, and interleavings with new frames are covered by the step relation,
  whose steps are single iterations. \<^verbatim>\<open>wmi_wait\<close> takes the number of wake-ups before its time-out; the
  command path never needs more than the first attempt. The count of pending frames is an
  integer; it would wrap in the code after 2147483647 frames.

  \<^bold>\<open>Witnesses.\<close> \<^verbatim>\<open>Samples\<close> and the sample definitions of the later theories are small concrete states; each
  theorem with hypotheses is instantiated on one of them.

  \<^bold>\<open>Not modelled.\<close> Log output, except the dump of received buffers. The registration
  of the modules with the PCI core, and the structures mac80211 keeps for itself. The sample modules
  \<^verbatim>\<open>hellowd_platform_driver.c\<close> and \<^verbatim>\<open>helloworld.c\<close>, which only print a line, and the user space program
  \<^verbatim>\<open>netlink_maxpayload.c\<close>. Build scripts, and the
  device itself, of which only what it may do to the shared memory is stated. Callbacks are atomic
  steps, except that the worker yields between frames and the device may act between the looks of the
  receive loop. That an armed retry timer survives the release of the receive module is visible in
  the model only as the event that arms it.
\<close>

end
